(* ===== verification/Prelude.thy ===== *)
theory Prelude
  imports Complex_Main "HOL-Library.AList" "HOL-Library.Char_ord"
    "HOL-Library.List_Lexorder" "HOL-Library.Product_Lexorder"
begin

text \<open>
  What every component shares: the collections of simplification rules the
  component proofs use, string helpers of the language (stripping whitespace),
  sorted-set scores, and generic lemmas on lists and association lists.
\<close>

named_theorems key_simps \<open>disequalities of storage keys\<close>
named_theorems view_simps \<open>the two views (strings, sorted sets) after a command\<close>
named_theorems op_defs \<open>definitions of the store operations' bodies\<close>

type_synonym timestamp = int   \<comment> \<open>microseconds since the epoch\<close>

definition seconds :: "int \<Rightarrow> int" where
  "seconds n = n * 1000000"

subsection \<open>Strings\<close>

text \<open>
  \<open>str.strip()\<close> removes leading and trailing characters of a set. Characters are the
  first 256 code points.
\<close>

definition strip_chars :: "(char \<Rightarrow> bool) \<Rightarrow> string \<Rightarrow> string" where
  "strip_chars p s = rev (dropWhile p (rev (dropWhile p s)))"

definition white_space :: "char \<Rightarrow> bool" where
  "white_space c \<longleftrightarrow> (let n = (of_char c :: nat) in
     (9 \<le> n \<and> n \<le> 13) \<or> n = 32 \<or> n = 133 \<or> n = 160)"

definition py_isspace :: "char \<Rightarrow> bool" where
  "py_isspace c \<longleftrightarrow> white_space c \<or> (let n = (of_char c :: nat) in 28 \<le> n \<and> n \<le> 31)"

text \<open>On the bits of a character, for evaluation.\<close>

lemma white_space_code [code]:
  "white_space (Char a b c d e f g h) \<longleftrightarrow>
     (if g then False else if e then False
      else if d then \<not> f \<and> \<not> h \<and> (if c then \<not> b else a \<or> b)
      else if f then \<not> a \<and> \<not> b \<and> \<not> c else h \<and> a \<and> \<not> b \<and> c)"
  by (cases a; cases b; cases c; cases d; cases e; cases f; cases g; cases h) (simp_all add: white_space_def)

lemma py_isspace_code [code]:
  "py_isspace (Char a b c d e f g h) \<longleftrightarrow>
     (if e then c \<and> d \<and> \<not> f \<and> \<not> g \<and> \<not> h else white_space (Char a b c d e f g h))"
  by (cases a; cases b; cases c; cases d; cases e; cases f; cases g; cases h)
    (simp_all add: py_isspace_def white_space_def)

lemma dropWhile_idem: "dropWhile p (dropWhile p xs) = dropWhile p xs"
  by (induction xs) auto

lemma dropWhile_rev_dropWhile:
  "dropWhile p (rev (dropWhile p (rev (dropWhile p s)))) = rev (dropWhile p (rev (dropWhile p s)))"
proof (cases "dropWhile p s")
  case Nil
  show ?thesis by (simp only: Nil) simp
next
  case (Cons c cs)
  then have nc: "\<not> p c" by (metis dropWhile_eq_Cons_conv)
  have "dropWhile p (rev cs @ [c]) \<noteq> []" using nc by (simp add: dropWhile_eq_Nil_conv)
  moreover have "last (dropWhile p (rev cs @ [c])) = c"
    using nc by (induction "rev cs") (auto simp: dropWhile_append)
  ultimately have "hd (rev (dropWhile p (rev cs @ [c]))) = c"
    by (simp add: hd_rev)
  moreover have "rev (dropWhile p (rev cs @ [c])) \<noteq> []"
    using nc by (simp add: dropWhile_eq_Nil_conv)
  ultimately have "dropWhile p (rev (dropWhile p (rev cs @ [c]))) = rev (dropWhile p (rev cs @ [c]))"
    using nc by (cases "rev (dropWhile p (rev cs @ [c]))") auto
  then show ?thesis using Cons by simp
qed

lemma strip_chars_idem [simp]: "strip_chars p (strip_chars p s) = strip_chars p s"
  by (simp add: strip_chars_def dropWhile_rev_dropWhile dropWhile_idem)

lemma length_strip_chars: "length (strip_chars p s) \<le> length s"
  using length_dropWhile_le [of p s] length_dropWhile_le [of p "rev (dropWhile p s)"]
  by (simp add: strip_chars_def)

text \<open>\<open>str(n)\<close> of an integer.\<close>

definition digit_char :: "nat \<Rightarrow> char" where
  "digit_char d = ''0123456789'' ! d"

fun nat_str :: "nat \<Rightarrow> string" where
  "nat_str n = (if n < 10 then [digit_char n] else nat_str (n div 10) @ [digit_char (n mod 10)])"

declare nat_str.simps [simp del]

definition int_str :: "int \<Rightarrow> string" where
  "int_str i = (if i < 0 then ''-'' @ nat_str (nat (- i)) else nat_str (nat i))"

definition digit_value :: "char \<Rightarrow> nat" where
  "digit_value c = of_char c - 48"

lemma digit_char_value: "d < 10 \<Longrightarrow> digit_value (digit_char d) = d"
proof -
  assume "d < 10"
  then have "d \<in> {0,1,2,3,4,5,6,7,8,9}" by simp presburger
  then show ?thesis by (auto simp: digit_value_def digit_char_def)
qed

lemma nat_str_value: "foldl (\<lambda>a c. a * 10 + digit_value c) 0 (nat_str n) = n"
proof (induction n rule: nat_str.induct)
  case (1 n)
  then show ?case
    by (subst nat_str.simps) (auto simp: digit_char_value)
qed

lemma nat_str_inject [simp]: "nat_str m = nat_str n \<longleftrightarrow> m = n"
  by (metis nat_str_value)

lemma nat_str_digits: "c \<in> set (nat_str n) \<Longrightarrow> c \<in> set ''0123456789''"
proof (induction n rule: nat_str.induct)
  case (1 n)
  have d: "digit_char d \<in> set ''0123456789''" if "d < 10" for d
    unfolding digit_char_def using that by (intro nth_mem) simp
  show ?case
  proof (cases "n < 10")
    case True
    with "1.prems" d show ?thesis by (subst (asm) nat_str.simps) auto
  next
    case False
    with "1.prems" have "c \<in> set (nat_str (n div 10)) \<or> c = digit_char (n mod 10)"
      by (subst (asm) nat_str.simps) auto
    with "1.IH" [OF False] d [of "n mod 10"] show ?thesis by auto
  qed
qed

lemma int_str_inject [simp]: "int_str i = int_str j \<longleftrightarrow> i = j"
proof -
  have ne: "nat_str m \<noteq> ''-'' @ nat_str k" for m k
  proof
    assume "nat_str m = ''-'' @ nat_str k"
    then have "CHR ''-'' \<in> set (nat_str m)" by simp
    then have "CHR ''-'' \<in> set ''0123456789''" by (rule nat_str_digits)
    then show False by simp
  qed
  show ?thesis using ne ne [symmetric] by (auto simp: int_str_def)
qed

subsection \<open>Sorted-set scores\<close>

text \<open>A score is a double: a finite value or one of the infinities.\<close>

datatype score = NegInf | Fin rat | PosInf

instantiation score :: linorder
begin

fun less_eq_score :: "score \<Rightarrow> score \<Rightarrow> bool" where
  "less_eq_score NegInf _ = True"
| "less_eq_score (Fin _) NegInf = False"
| "less_eq_score (Fin p) (Fin q) = (p \<le> q)"
| "less_eq_score (Fin _) PosInf = True"
| "less_eq_score PosInf b = (b = PosInf)"

definition less_score :: "score \<Rightarrow> score \<Rightarrow> bool" where
  "less_score a b \<longleftrightarrow> a \<le> b \<and> \<not> b \<le> (a :: score)"

instance
proof
  fix x y z :: score
  show "(x < y) = (x \<le> y \<and> \<not> y \<le> x)" by (simp add: less_score_def)
  show "x \<le> x" by (cases x) auto
  show "x \<le> y \<Longrightarrow> y \<le> z \<Longrightarrow> x \<le> z" by (cases x; cases y; cases z) auto
  show "x \<le> y \<Longrightarrow> y \<le> x \<Longrightarrow> x = y" by (cases x; cases y) auto
  show "x \<le> y \<or> y \<le> x" by (cases x; cases y) auto
qed

end

definition of_timestamp :: "timestamp \<Rightarrow> score" where
  "of_timestamp t = Fin (of_int t / 1000000)"

definition of_count :: "int \<Rightarrow> score" where
  "of_count n = Fin (of_int n)"

lemma of_count_inject [simp]: "of_count m = of_count n \<longleftrightarrow> m = n"
  by (simp add: of_count_def)

lemma of_timestamp_le [simp]: "of_timestamp a \<le> of_timestamp b \<longleftrightarrow> a \<le> b"
  by (simp add: of_timestamp_def divide_le_cancel)

subsection \<open>Association lists and lists\<close>

lemma map_of_filter_fst: "map_of (filter (\<lambda>p. fst p \<noteq> k) xs) = (map_of xs)(k := None)"
  by (induction xs) auto

lemma map_of_insort_key:
  "k \<notin> fst ` set xs \<Longrightarrow> map_of (insort_key f (k, v) xs) = (map_of xs)(k \<mapsto> v)"
  by (induction xs) (auto simp: fun_eq_iff)

lemma distinct_fst_insort_key:
  "distinct (map fst xs) \<Longrightarrow> k \<notin> fst ` set xs \<Longrightarrow> distinct (map fst (insort_key f (k, v) xs))"
  by (induction xs) (auto simp: set_insort_key)

lemma map_of_filter_value:
  "distinct (map fst xs) \<Longrightarrow>
   map_of (filter (\<lambda>p. Q (snd p)) xs) k =
     (case map_of xs k of None \<Rightarrow> None | Some v \<Rightarrow> if Q v then Some v else None)"
  by (induction xs) (auto split: option.splits dest: weak_map_of_SomeI simp: map_of_eq_None_iff rev_image_eqI)

lemma map_of_fold_pres:
  "(\<And>c m. c \<in> set cs \<Longrightarrow> P m \<Longrightarrow> P (f c m)) \<Longrightarrow> P m \<Longrightarrow> P (fold f cs m)"
  by (induction cs arbitrary: m) auto

end
