(* ===== verification/Job_Errors.thy ===== *)
theory Job_Errors
  imports Prelude
begin

text \<open>
  The failures of the jobs runtime and their classification (app/jobs_v22/errors.py,
  and the error classes of app/jobs_v22/cost_ledger.py). An exception is a value of
  \<open>exn\<close>; an operation that may raise returns \<open>exn + 'a\<close>. The last constructors are
  the exceptions of httpx, pydantic, ARQ and the language that the code tells apart.
  Cancellation is raised only where a worker awaits its executor, outside every
  \<open>except Exception\<close>. The \<open>Serp...\<close> constructors are the exceptions of the paid search
  (app/integrations/serpapi.py, app/collectors/serp_market.py and
  app/jobs_v22/serp_market_stage.py); of the response that is too large only what its
  handler asks for is kept, as the flag of the transport error that it causes. The URL
  checks, the page fetcher and the site inventory raise the \<open>Url...\<close> and \<open>Site...\<close> ones;
  \<open>UrlSafetyError\<close> and \<open>SitemapParseError\<close> are classes of ValueError.
\<close>

datatype exn =
    IdempotencyConflict
  | JobIdentityConflict
  | JobNotFound
  | JobNotRetryable
  | JobNewAttemptRequired
  | InvalidJobTransition string
  | JobLeaseLost
  | JobDeadlineExceeded
  | ProviderCircuitOpen
  | CostLedgerError string
  | CostClaimConflict
  | CostLimitExceeded
  | DeterministicJobError string string
  | TransientJobError string string
  | HttpTimeoutException
  | HttpNetworkError
  | HttpStatusError int
  | ValidationError
  | ValueError string
  | TypeError
  | CancelledError
  | TimeoutError
  | ResponseTooLarge
  | SerpApiKeysUnavailable
  | SerpApiTransportError bool
  | SerpApiInvalidResponse
  | SerpApiHttpError int
  | SerpProviderAttemptsExhausted
  | SerpMarketProviderError string bool int bool bool
  | SerpMarketCollectionError string string bool
  | UrlSafetyError string string
  | UrlUnreachableError string string
  | SiteFetchError string string
  | SitemapParseError string
  | SiteInventoryCollectionError string string
  | HttpProtocolError
  | Retry int
  | OtherException string

record classified_job_error =
  ce_error_code :: string
  ce_user_message :: string
  ce_retryable :: bool

text \<open>
  \<open>error_code\<close>, \<open>user_message\<close> and \<open>retryable\<close> of the \<open>DurableJobError\<close> classes; the
  other exceptions are not durable job errors (None).
\<close>

definition deterministic :: "string \<Rightarrow> string \<Rightarrow> classified_job_error option" where
  "deterministic c m = Some \<lparr>ce_error_code = c, ce_user_message = m, ce_retryable = False\<rparr>"

definition transient :: "string \<Rightarrow> string \<Rightarrow> classified_job_error option" where
  "transient c m = Some \<lparr>ce_error_code = c, ce_user_message = m, ce_retryable = True\<rparr>"

fun durable_job_error :: "exn \<Rightarrow> classified_job_error option" where
  "durable_job_error IdempotencyConflict = deterministic ''IDEMPOTENCY_CONFLICT''
     ''The idempotency key is already associated with a different request.''"
| "durable_job_error JobIdentityConflict = deterministic ''JOB_IDENTITY_CONFLICT''
     ''The job identifier is already associated with a different task.''"
| "durable_job_error JobNotFound = deterministic ''JOB_NOT_FOUND''
     ''The requested task was not found.''"
| "durable_job_error JobNotRetryable = deterministic ''JOB_NOT_RETRYABLE''
     ''The task is not eligible for a manual retry.''"
| "durable_job_error JobNewAttemptRequired = deterministic ''JOB_NEW_ATTEMPT_REQUIRED''
     ''Generate again by creating a new task with one account credit.''"
| "durable_job_error (InvalidJobTransition m) = deterministic ''INVALID_JOB_TRANSITION'' m"
| "durable_job_error JobLeaseLost = deterministic ''JOB_LEASE_LOST''
     ''This task run was superseded by recovery.''"
| "durable_job_error JobDeadlineExceeded = deterministic ''JOB_DEADLINE_EXCEEDED''
     ''The analysis exceeded its processing deadline.''"
| "durable_job_error ProviderCircuitOpen = transient ''PROVIDER_CIRCUIT_OPEN''
     ''A data provider is cooling down after repeated temporary failures.''"
| "durable_job_error (CostLedgerError c) = transient c
     ''Cost controls are temporarily unavailable. The task will be retried.''"
| "durable_job_error CostClaimConflict = transient ''V22_COST_CLAIM_CONFLICT''
     ''Cost controls are temporarily unavailable. The task will be retried.''"
| "durable_job_error CostLimitExceeded = deterministic ''V22_PROVIDER_ATTEMPT_LIMIT''
     ''The task reached its safe provider request limit and could not be completed.''"
| "durable_job_error (DeterministicJobError c m) = deterministic c m"
| "durable_job_error (TransientJobError c m) = transient c m"
| "durable_job_error _ = None"

definition provider_unavailable :: classified_job_error where
  "provider_unavailable = \<lparr>ce_error_code = ''PROVIDER_TEMPORARILY_UNAVAILABLE'',
     ce_user_message = ''A data provider is temporarily unavailable. The task will be retried.'',
     ce_retryable = True\<rparr>"

text \<open>\<open>classify_job_exception\<close>, its \<open>isinstance\<close> tests in the order of the source.\<close>

definition classify_job_exception :: "exn \<Rightarrow> classified_job_error" where
  "classify_job_exception e =
     (case durable_job_error e of Some c \<Rightarrow> c
      | None \<Rightarrow>
        (case e of
           HttpTimeoutException \<Rightarrow> provider_unavailable
         | HttpNetworkError \<Rightarrow> provider_unavailable
         | HttpStatusError status \<Rightarrow>
             if status = 429 \<or> status \<ge> 500 then provider_unavailable
             else \<lparr>ce_error_code = ''PROVIDER_REQUEST_REJECTED'',
                    ce_user_message = ''A data provider rejected the request.'', ce_retryable = False\<rparr>
         | ValidationError \<Rightarrow> \<lparr>ce_error_code = ''V22_INPUT_INVALID'',
                    ce_user_message = ''The analysis request is invalid.'', ce_retryable = False\<rparr>
         | ValueError _ \<Rightarrow> \<lparr>ce_error_code = ''V22_INPUT_INVALID'',
                    ce_user_message = ''The analysis request is invalid.'', ce_retryable = False\<rparr>
         | UrlSafetyError _ _ \<Rightarrow> \<lparr>ce_error_code = ''V22_INPUT_INVALID'',
                    ce_user_message = ''The analysis request is invalid.'', ce_retryable = False\<rparr>
         | SitemapParseError _ \<Rightarrow> \<lparr>ce_error_code = ''V22_INPUT_INVALID'',
                    ce_user_message = ''The analysis request is invalid.'', ce_retryable = False\<rparr>
         | TypeError \<Rightarrow> \<lparr>ce_error_code = ''V22_INPUT_INVALID'',
                    ce_user_message = ''The analysis request is invalid.'', ce_retryable = False\<rparr>
         | _ \<Rightarrow> \<lparr>ce_error_code = ''V22_INTERNAL_ERROR'', ce_user_message =
                    ''The analysis could not be completed because of a temporary internal error.'',
                    ce_retryable = True\<rparr>))"

subsection \<open>JSON values\<close>

text \<open>
  A decoded JSON document; an object is the list of its members. A float is its value, None
  for the infinities and NaN, which Python's parser accepts; the two zeros are one.
\<close>

datatype json =
    JNull
  | JBool bool
  | JInt int
  | JFloat "rat option"
  | JStr string
  | JArr "json list"
  | JObj "(string \<times> json) list"

text \<open>\<open>d.get(key)\<close>, None for a missing key; a value that is no object has no \<open>get\<close>.\<close>

fun jget :: "string \<Rightarrow> json \<Rightarrow> json option" where
  "jget k (JObj kvs) = map_of kvs k"
| "jget k _ = None"

fun is_jobj :: "json \<Rightarrow> bool" where
  "is_jobj (JObj _) = True"
| "is_jobj _ = False"

fun jlen :: "json \<Rightarrow> nat" where
  "jlen (JArr xs) = length xs"
| "jlen (JObj kvs) = length kvs"
| "jlen (JStr s) = length s"
| "jlen _ = 0"

end
