(* ===== verification/Keys.thy ===== *)
theory Keys
  imports Prelude "HOL-Library.Word"
begin

text \<open>
  Identifiers and the names under which the jobs runtime keeps its data
  (app/jobs_v22/keys.py, and \<open>_canonical_job_id\<close> of app/jobs_v22/store.py).
  A UUID is the 128-bit number it stands for; \<open>uuid_str\<close> is its canonical text
  (\<open>str(uuid)\<close> of the language). The digest \<open>sha256(...).hexdigest()\<close> is a parameter
  \<open>h\<close>: what is used of it is that it has 64 characters, and, where said, that two
  inputs that occur do not collide. The lemmas show that different keys have
  different names, so that no operation of one record touches another.
\<close>

subsection \<open>UUIDs\<close>

type_synonym uuid = "128 word"

definition hex_digit :: "nat \<Rightarrow> char" where
  "hex_digit n = ''0123456789abcdef'' ! n"

definition hex_value :: "char \<Rightarrow> nat" where
  "hex_value c = (let n = of_char c in if n < 58 then n - 48 else n - 87)"

definition is_hex_digit :: "char \<Rightarrow> bool" where
  "is_hex_digit c \<longleftrightarrow> c \<in> set ''0123456789abcdef''"

text \<open>On the bits of a character, for evaluation.\<close>

lemma is_hex_digit_code [code]:
  "is_hex_digit (Char a b c d e f g h) \<longleftrightarrow>
     f \<and> \<not> h \<and> (if g then \<not> d \<and> \<not> e \<and> (if a then \<not> b \<or> \<not> c else b \<or> c)
       else e \<and> (\<not> d \<or> \<not> b \<and> \<not> c))"
  by (cases a; cases b; cases c; cases d; cases e; cases f; cases g; cases h) (simp_all add: is_hex_digit_def)

fun hex_pad :: "nat \<Rightarrow> nat \<Rightarrow> string" where
  "hex_pad 0 x = []"
| "hex_pad (Suc k) x = hex_pad k (x div 16) @ [hex_digit (x mod 16)]"

definition parse_hex :: "string \<Rightarrow> nat" where
  "parse_hex s = foldl (\<lambda>a c. a * 16 + hex_value c) 0 s"

definition dashed :: "string \<Rightarrow> string" where
  "dashed h = take 8 h @ ''-'' @ take 4 (drop 8 h) @ ''-'' @ take 4 (drop 12 h) @ ''-''
     @ take 4 (drop 16 h) @ ''-'' @ drop 20 h"

definition uuid_str :: "uuid \<Rightarrow> string" where
  "uuid_str u = dashed (hex_pad 32 (unat u))"

text \<open>
  \<open>UUID(text)\<close> accepts several spellings; the code keeps only the text that is equal to
  the canonical one, so the other spellings never give a value.
\<close>

definition canonical_job_id :: "string \<Rightarrow> uuid option" where
  "canonical_job_id v =
     (let h = filter (\<lambda>c. c \<noteq> CHR ''-'') v
      in if length h \<noteq> 32 \<or> \<not> list_all is_hex_digit h then None
         else let u = of_nat (parse_hex h)
              in if v = uuid_str u then Some u else None)"

lemma length_hex_pad [simp]: "length (hex_pad k x) = k"
  by (induction k arbitrary: x) auto

lemma less_16_cases:
  "(d::nat) < 16 \<Longrightarrow> d \<in> {0,1,2,3,4,5,6,7,8,9,10,11,12,13,14,15}"
  by simp presburger

lemma hex_value_digit: "d < 16 \<Longrightarrow> hex_value (hex_digit d) = d"
  by (drule less_16_cases) (auto simp: hex_value_def hex_digit_def)

lemma is_hex_digit_digit: "d < 16 \<Longrightarrow> is_hex_digit (hex_digit d)"
  by (simp add: is_hex_digit_def hex_digit_def del: list.set set_simps)

lemma hex_digit_not_dash: "is_hex_digit c \<Longrightarrow> c \<noteq> CHR ''-'' \<and> c \<noteq> CHR '':''"
  by (auto simp: is_hex_digit_def)

lemma list_all_hex_pad: "list_all is_hex_digit (hex_pad k x)"
  by (induction k arbitrary: x) (auto simp: is_hex_digit_digit)

lemma parse_hex_pad: "parse_hex (hex_pad k x) = x mod 16 ^ k"
proof (induction k arbitrary: x)
  case 0
  show ?case by (simp add: parse_hex_def)
next
  case (Suc k)
  have "parse_hex (hex_pad (Suc k) x) = parse_hex (hex_pad k (x div 16)) * 16 + x mod 16"
    by (simp add: parse_hex_def hex_value_digit)
  also have "\<dots> = x mod (16 * 16 ^ k)"
    by (simp add: Suc mod_mult2_eq)
  finally show ?case by simp
qed

lemma filter_dashed:
  assumes "list_all is_hex_digit h"
  shows "filter (\<lambda>c. c \<noteq> CHR ''-'') (dashed h) = h"
proof -
  have keep: "filter (\<lambda>c. c \<noteq> CHR ''-'') g = g" if "set g \<subseteq> set h" for g
    using that assms by (intro filter_True) (auto simp: list_all_iff dest: hex_digit_not_dash)
  have sub: "set (take n (drop m h)) \<subseteq> set h" "set (take n h) \<subseteq> set h" "set (drop n h) \<subseteq> set h"
    for n m
    by (auto dest: in_set_takeD in_set_dropD)
  have step: "take 4 (drop m h) @ drop (m + 4) h = drop m h" for m
    using append_take_drop_id [of 4 "drop m h"] by (simp add: add.commute)
  have "take 8 h @ take 4 (drop 8 h) @ take 4 (drop 12 h) @ take 4 (drop 16 h) @ drop 20 h = h"
    using step [of 8] step [of 12] step [of 16] append_take_drop_id [of 8 h] by simp
  then show ?thesis by (simp add: dashed_def keep sub)
qed

lemma length_dashed: "length h = 32 \<Longrightarrow> length (dashed h) = 36"
  by (simp add: dashed_def)

lemma length_uuid_str [simp]: "length (uuid_str u) = 36"
  by (simp add: uuid_str_def length_dashed)

lemma hex_of_uuid_str: "filter (\<lambda>c. c \<noteq> CHR ''-'') (uuid_str u) = hex_pad 32 (unat u)"
  by (simp add: uuid_str_def filter_dashed list_all_hex_pad)

lemma parse_uuid_str: "of_nat (parse_hex (hex_pad 32 (unat (u :: uuid)))) = u"
proof -
  have "unat u < 16 ^ 32" using unsigned_less [of u] by (simp add: unsigned_less)
  then show ?thesis by (simp add: parse_hex_pad)
qed

lemma canonical_job_id_uuid_str [simp]: "canonical_job_id (uuid_str u) = Some u"
  by (simp add: canonical_job_id_def hex_of_uuid_str list_all_hex_pad parse_uuid_str)

lemma canonical_job_id_Some: "canonical_job_id v = Some u \<Longrightarrow> v = uuid_str u"
  by (auto simp: canonical_job_id_def Let_def split: if_splits)

lemma uuid_str_inject [simp]: "uuid_str u = uuid_str v \<longleftrightarrow> u = v"
  by (metis canonical_job_id_uuid_str option.inject)

subsection \<open>Key names (class JobRedisKeys)\<close>

text \<open>\<open>__post_init__\<close>: the prefix is normalised and must not be empty (None: ValueError).\<close>

definition normalized_prefix :: "string \<Rightarrow> string option" where
  "normalized_prefix p =
     (let n = strip_chars (\<lambda>c. c = CHR '':'') (strip_chars py_isspace p)
      in if n = [] then None else Some n)"

definition request_key :: "string \<Rightarrow> uuid \<Rightarrow> string" where
  "request_key p j = p @ '':job:'' @ uuid_str j @ '':request''"

definition state_key :: "string \<Rightarrow> uuid \<Rightarrow> string" where
  "state_key p j = p @ '':job:'' @ uuid_str j @ '':state''"

definition idempotency_key :: "(string \<Rightarrow> string) \<Rightarrow> string \<Rightarrow> uuid \<Rightarrow> string \<Rightarrow> string" where
  "idempotency_key h p c k = p @ '':idem:'' @ uuid_str c @ '':'' @ h k"

definition events_key :: "string \<Rightarrow> uuid \<Rightarrow> string" where
  "events_key p j = p @ '':events:'' @ uuid_str j"

definition checkpoint_key :: "(string \<Rightarrow> string) \<Rightarrow> string \<Rightarrow> uuid \<Rightarrow> string \<Rightarrow> string" where
  "checkpoint_key h p j k = p @ '':job:'' @ uuid_str j @ '':checkpoint:'' @ h k"

definition lease_key :: "string \<Rightarrow> uuid \<Rightarrow> string" where
  "lease_key p j = p @ '':job:'' @ uuid_str j @ '':lease''"

definition cost_ledger_key :: "string \<Rightarrow> uuid \<Rightarrow> string" where
  "cost_ledger_key p j = p @ '':job:'' @ uuid_str j @ '':cost-ledger''"

definition cost_summary_key :: "string \<Rightarrow> uuid \<Rightarrow> string" where
  "cost_summary_key p j = p @ '':job:'' @ uuid_str j @ '':cost-summary''"

definition circuit_key :: "(string \<Rightarrow> string) \<Rightarrow> string \<Rightarrow> string \<Rightarrow> string \<Rightarrow> string" where
  "circuit_key h p provider operation = p @ '':circuit:'' @ h (provider @ '':'' @ operation)"

definition circuit_failures_key ::
    "(string \<Rightarrow> string) \<Rightarrow> string \<Rightarrow> string \<Rightarrow> string \<Rightarrow> string" where
  "circuit_failures_key h p provider operation =
     p @ '':circuit-failures:'' @ h (provider @ '':'' @ operation)"

definition active_key :: "string \<Rightarrow> string" where
  "active_key p = p @ '':active''"

definition sync_pending_key :: "string \<Rightarrow> string" where
  "sync_pending_key p = p @ '':sync-pending''"

definition recovery_pending_key :: "string \<Rightarrow> string" where
  "recovery_pending_key p = p @ '':recovery-pending''"

definition cost_sync_pending_key :: "string \<Rightarrow> string" where
  "cost_sync_pending_key p = p @ '':cost-sync-pending''"

definition worker_health_key :: "string \<Rightarrow> string" where
  "worker_health_key p = p @ '':worker-health''"

lemmas key_defs = request_key_def state_key_def idempotency_key_def events_key_def
  checkpoint_key_def lease_key_def cost_ledger_key_def cost_summary_key_def circuit_key_def
  circuit_failures_key_def active_key_def sync_pending_key_def recovery_pending_key_def
  cost_sync_pending_key_def worker_health_key_def

text \<open>A family of keys with the same prefix is told apart by its suffix.\<close>

lemma uuid_str_append [simp]:
  "uuid_str u @ xs = uuid_str v @ ys \<longleftrightarrow> u = v \<and> xs = ys"
  by (simp add: append_eq_append_conv)

lemma state_key_inject [simp]: "state_key p i = state_key p j \<longleftrightarrow> i = j"
  by (simp add: state_key_def)

lemma lease_key_inject [simp]: "lease_key p i = lease_key p j \<longleftrightarrow> i = j"
  by (simp add: lease_key_def)

lemma request_key_inject [simp]: "request_key p i = request_key p j \<longleftrightarrow> i = j"
  by (simp add: request_key_def)

lemma cost_ledger_key_inject [simp]: "cost_ledger_key p i = cost_ledger_key p j \<longleftrightarrow> i = j"
  by (simp add: cost_ledger_key_def)

lemma cost_summary_key_inject [simp]: "cost_summary_key p i = cost_summary_key p j \<longleftrightarrow> i = j"
  by (simp add: cost_summary_key_def)

lemma state_key_neq [simp, key_simps]:
  "state_key p i \<noteq> request_key p j" "request_key p j \<noteq> state_key p i"
  "state_key p i \<noteq> lease_key p j" "lease_key p j \<noteq> state_key p i"
  "state_key p i \<noteq> idempotency_key h p c k" "idempotency_key h p c k \<noteq> state_key p i"
  "state_key p i \<noteq> checkpoint_key h p j k" "checkpoint_key h p j k \<noteq> state_key p i"
  "state_key p i \<noteq> cost_ledger_key p j" "cost_ledger_key p j \<noteq> state_key p i"
  "state_key p i \<noteq> cost_summary_key p j" "cost_summary_key p j \<noteq> state_key p i"
  "state_key p i \<noteq> active_key p" "active_key p \<noteq> state_key p i"
  "state_key p i \<noteq> sync_pending_key p" "sync_pending_key p \<noteq> state_key p i"
  "state_key p i \<noteq> recovery_pending_key p" "recovery_pending_key p \<noteq> state_key p i"
  "state_key p i \<noteq> cost_sync_pending_key p" "cost_sync_pending_key p \<noteq> state_key p i"
  "state_key p i \<noteq> circuit_key h p x y" "circuit_key h p x y \<noteq> state_key p i"
  "state_key p i \<noteq> circuit_key h p x y @ z" "circuit_key h p x y @ z \<noteq> state_key p i"
  "state_key p i \<noteq> circuit_failures_key h p x y" "circuit_failures_key h p x y \<noteq> state_key p i"
  by (auto simp: key_defs)

lemma request_key_neq [simp, key_simps]:
  "request_key p i \<noteq> lease_key p j" "lease_key p j \<noteq> request_key p i"
  "request_key p i \<noteq> idempotency_key h p c k" "idempotency_key h p c k \<noteq> request_key p i"
  "request_key p i \<noteq> checkpoint_key h p j k" "checkpoint_key h p j k \<noteq> request_key p i"
  "request_key p i \<noteq> cost_ledger_key p j" "cost_ledger_key p j \<noteq> request_key p i"
  "request_key p i \<noteq> cost_summary_key p j" "cost_summary_key p j \<noteq> request_key p i"
  "request_key p i \<noteq> active_key p" "active_key p \<noteq> request_key p i"
  "request_key p i \<noteq> sync_pending_key p" "sync_pending_key p \<noteq> request_key p i"
  "request_key p i \<noteq> recovery_pending_key p" "recovery_pending_key p \<noteq> request_key p i"
  by (auto simp: key_defs)

lemma lease_key_neq [simp, key_simps]:
  "lease_key p i \<noteq> idempotency_key h p c k" "idempotency_key h p c k \<noteq> lease_key p i"
  "lease_key p i \<noteq> checkpoint_key h p j k" "checkpoint_key h p j k \<noteq> lease_key p i"
  "lease_key p i \<noteq> cost_ledger_key p j" "cost_ledger_key p j \<noteq> lease_key p i"
  "lease_key p i \<noteq> cost_summary_key p j" "cost_summary_key p j \<noteq> lease_key p i"
  "lease_key p i \<noteq> active_key p" "active_key p \<noteq> lease_key p i"
  "lease_key p i \<noteq> sync_pending_key p" "sync_pending_key p \<noteq> lease_key p i"
  "lease_key p i \<noteq> recovery_pending_key p" "recovery_pending_key p \<noteq> lease_key p i"
  by (auto simp: key_defs)

lemma idempotency_key_neq [simp, key_simps]:
  "idempotency_key h p c k \<noteq> checkpoint_key h p j k'" "checkpoint_key h p j k' \<noteq> idempotency_key h p c k"
  "idempotency_key h p c k \<noteq> cost_ledger_key p j" "cost_ledger_key p j \<noteq> idempotency_key h p c k"
  "idempotency_key h p c k \<noteq> active_key p" "active_key p \<noteq> idempotency_key h p c k"
  "idempotency_key h p c k \<noteq> sync_pending_key p" "sync_pending_key p \<noteq> idempotency_key h p c k"
  "idempotency_key h p c k \<noteq> recovery_pending_key p" "recovery_pending_key p \<noteq> idempotency_key h p c k"
  by (auto simp: key_defs)

lemma ledger_key_neq [simp, key_simps]:
  "checkpoint_key h p i k \<noteq> cost_ledger_key p j" "cost_ledger_key p j \<noteq> checkpoint_key h p i k"
  "cost_ledger_key p i \<noteq> cost_summary_key p j" "cost_summary_key p j \<noteq> cost_ledger_key p i"
  "cost_ledger_key p i \<noteq> active_key p" "active_key p \<noteq> cost_ledger_key p i"
  "cost_ledger_key p i \<noteq> sync_pending_key p" "sync_pending_key p \<noteq> cost_ledger_key p i"
  "cost_ledger_key p i \<noteq> recovery_pending_key p" "recovery_pending_key p \<noteq> cost_ledger_key p i"
  by (auto simp: key_defs)

lemma index_key_neq [simp, key_simps]:
  "active_key p \<noteq> sync_pending_key p" "sync_pending_key p \<noteq> active_key p"
  "active_key p \<noteq> recovery_pending_key p" "recovery_pending_key p \<noteq> active_key p"
  "sync_pending_key p \<noteq> recovery_pending_key p" "recovery_pending_key p \<noteq> sync_pending_key p"
  "cost_sync_pending_key p \<noteq> active_key p" "active_key p \<noteq> cost_sync_pending_key p"
  "cost_sync_pending_key p \<noteq> sync_pending_key p" "sync_pending_key p \<noteq> cost_sync_pending_key p"
  "cost_sync_pending_key p \<noteq> recovery_pending_key p" "recovery_pending_key p \<noteq> cost_sync_pending_key p"
  by (auto simp: key_defs)

lemma summary_key_neq [simp, key_simps]:
  "cost_summary_key p i \<noteq> active_key p" "active_key p \<noteq> cost_summary_key p i"
  "cost_summary_key p i \<noteq> sync_pending_key p" "sync_pending_key p \<noteq> cost_summary_key p i"
  "cost_summary_key p i \<noteq> recovery_pending_key p" "recovery_pending_key p \<noteq> cost_summary_key p i"
  "cost_summary_key p i \<noteq> cost_sync_pending_key p" "cost_sync_pending_key p \<noteq> cost_summary_key p i"
  by (auto simp: key_defs)

lemma circuit_key_neq [simp, key_simps]:
  "circuit_key h p x y \<noteq> circuit_failures_key h p x' y'" "circuit_failures_key h p x' y' \<noteq> circuit_key h p x y"
  "circuit_key h p x y @ z \<noteq> circuit_failures_key h p x' y'" "circuit_failures_key h p x' y' \<noteq> circuit_key h p x y @ z"
  "circuit_key h p x y \<noteq> circuit_key h p x y @ '':probe''"
  "circuit_key h p x y @ '':probe'' \<noteq> circuit_key h p x y"
  by (auto simp: key_defs)

lemma checkpoint_key_inject:
  "checkpoint_key h p i k = checkpoint_key h p j k' \<longleftrightarrow> i = j \<and> h k = h k'"
  by (simp add: checkpoint_key_def)

lemma idempotency_key_inject:
  "idempotency_key h p c k = idempotency_key h p c' k' \<longleftrightarrow> c = c' \<and> h k = h k'"
  by (simp add: idempotency_key_def)

end
