(* ===== verification/Cost_Models.thy ===== *)
theory Cost_Models
  imports Job_Errors Keys
begin

text \<open>
  The contracts of provider cost accounting (app/jobs_v22/cost_models.py): providers,
  operations and their limits, the price catalog, one claim per provider call, the ledger
  of a job, and the flat counters derived from it. A dict is an association list, or a
  function where the code requires every key to be present. The pydantic models become
  records with a predicate \<open>..._valid\<close>; a record that violates it is a ValidationError.
\<close>

datatype cost_provider = Serpapi | Firecrawl | Jina | Pagespeed | Gsc | Ga4 | Gbp | Dify

datatype cost_operation =
    Serpapi_location | Serpapi_market_search | Serpapi_public_profile
  | Serpapi_customer_public_gbp | Firecrawl_map | Firecrawl_scrape | Jina_fetch
  | Pagespeed_analysis | Gsc_search_analytics | Ga4_key_events | Ga4_run_report
  | Gbp_location | Gbp_performance | Gbp_keywords | Dify_workflow

datatype cost_outcome = Success | Failure
datatype cost_job_kind =
  Competitor_discovery | Prospect_report | Verified_report | Gsc_sync | Ga4_sync | Gbp_sync
datatype cost_attempt_phase = Job_phase | Preparation_phase | Execution_phase

definition PROVIDERS :: "cost_provider list" where
  "PROVIDERS = [Serpapi, Firecrawl, Jina, Pagespeed, Gsc, Ga4, Gbp, Dify]"

text \<open>A function over the providers is a complete dict; equality on such dicts is computable.\<close>

instantiation cost_provider :: enum
begin

definition enum_cost_provider :: "cost_provider list" where
  "enum_cost_provider = PROVIDERS"

definition enum_all_cost_provider :: "(cost_provider \<Rightarrow> bool) \<Rightarrow> bool" where
  "enum_all_cost_provider Q = list_all Q PROVIDERS"

definition enum_ex_cost_provider :: "(cost_provider \<Rightarrow> bool) \<Rightarrow> bool" where
  "enum_ex_cost_provider Q = list_ex Q PROVIDERS"

instance
proof
  have mem: "p \<in> set PROVIDERS" for p by (cases p) (simp_all add: PROVIDERS_def)
  show "(UNIV :: cost_provider set) = set enum_class.enum"
    using mem by (auto simp: enum_cost_provider_def)
  show "distinct (enum_class.enum :: cost_provider list)"
    by (simp add: enum_cost_provider_def PROVIDERS_def)
  show "enum_class.enum_all Q \<longleftrightarrow> Ball (UNIV :: cost_provider set) Q" for Q
    using mem by (auto simp: enum_all_cost_provider_def list_all_iff)
  show "enum_class.enum_ex Q \<longleftrightarrow> Bex (UNIV :: cost_provider set) Q" for Q
    using mem by (auto simp: enum_ex_cost_provider_def list_ex_iff)
qed

end

definition OPERATIONS :: "cost_operation list" where
  "OPERATIONS = [Serpapi_location, Serpapi_market_search, Serpapi_public_profile,
     Serpapi_customer_public_gbp, Firecrawl_map, Firecrawl_scrape, Jina_fetch,
     Pagespeed_analysis, Gsc_search_analytics, Ga4_key_events, Ga4_run_report,
     Gbp_location, Gbp_performance, Gbp_keywords, Dify_workflow]"

fun OPERATION_PROVIDER :: "cost_operation \<Rightarrow> cost_provider" where
  "OPERATION_PROVIDER Serpapi_location = Serpapi"
| "OPERATION_PROVIDER Serpapi_market_search = Serpapi"
| "OPERATION_PROVIDER Serpapi_public_profile = Serpapi"
| "OPERATION_PROVIDER Serpapi_customer_public_gbp = Serpapi"
| "OPERATION_PROVIDER Firecrawl_map = Firecrawl"
| "OPERATION_PROVIDER Firecrawl_scrape = Firecrawl"
| "OPERATION_PROVIDER Jina_fetch = Jina"
| "OPERATION_PROVIDER Pagespeed_analysis = Pagespeed"
| "OPERATION_PROVIDER Gsc_search_analytics = Gsc"
| "OPERATION_PROVIDER Ga4_key_events = Ga4"
| "OPERATION_PROVIDER Ga4_run_report = Ga4"
| "OPERATION_PROVIDER Gbp_location = Gbp"
| "OPERATION_PROVIDER Gbp_performance = Gbp"
| "OPERATION_PROVIDER Gbp_keywords = Gbp"
| "OPERATION_PROVIDER Dify_workflow = Dify"

fun OPERATION_LIMITS :: "cost_operation \<Rightarrow> nat" where
  "OPERATION_LIMITS Serpapi_location = 1"
| "OPERATION_LIMITS Serpapi_market_search = 30"
| "OPERATION_LIMITS Serpapi_public_profile = 15"
| "OPERATION_LIMITS Serpapi_customer_public_gbp = 3"
| "OPERATION_LIMITS Firecrawl_map = 4"
| "OPERATION_LIMITS Firecrawl_scrape = 2"
| "OPERATION_LIMITS Jina_fetch = 0"
| "OPERATION_LIMITS Pagespeed_analysis = 5"
| "OPERATION_LIMITS Gsc_search_analytics = 12"
| "OPERATION_LIMITS Ga4_key_events = 20"
| "OPERATION_LIMITS Ga4_run_report = 8"
| "OPERATION_LIMITS Gbp_location = 1"
| "OPERATION_LIMITS Gbp_performance = 1"
| "OPERATION_LIMITS Gbp_keywords = 10"
| "OPERATION_LIMITS Dify_workflow = 3"

definition MAX_LEDGER_CLAIMS :: nat where "MAX_LEDGER_CLAIMS = 100"
definition MAX_COUNTER_VALUE :: int where "MAX_COUNTER_VALUE = 10 ^ 15"

subsection \<open>The price catalog\<close>

record pricing_catalog =
  pr_revision :: int
  pr_request_usd_micros :: "cost_provider \<Rightarrow> int option"
  pr_dify_input_mtok_usd_micros :: "int option"
  pr_dify_output_mtok_usd_micros :: "int option"

definition empty_request_prices :: "cost_provider \<Rightarrow> int option" where
  "empty_request_prices = (\<lambda>_. None)"

definition opt_between :: "int \<Rightarrow> int \<Rightarrow> int option \<Rightarrow> bool" where
  "opt_between lo hi v = (case v of None \<Rightarrow> True | Some x \<Rightarrow> lo \<le> x \<and> x \<le> hi)"

definition pricing_valid :: "pricing_catalog \<Rightarrow> bool" where
  "pricing_valid p \<longleftrightarrow>
     1 \<le> pr_revision p \<and> pr_revision p \<le> 1000000
   \<and> opt_between 0 MAX_COUNTER_VALUE (pr_dify_input_mtok_usd_micros p)
   \<and> opt_between 0 MAX_COUNTER_VALUE (pr_dify_output_mtok_usd_micros p)"

subsection \<open>Claims\<close>

record cost_claim =
  cl_claim_id :: uuid
  cl_operation :: cost_operation
  cl_provider :: cost_provider
  cl_claimed_at :: timestamp
  cl_completed_at :: "timestamp option"
  cl_outcome :: "cost_outcome option"
  cl_duration_ms :: "int option"
  cl_billable_units :: int
  cl_usage_known :: bool
  cl_input_tokens :: "int option"
  cl_output_tokens :: "int option"
  cl_total_tokens :: "int option"

definition cl_completed :: "cost_claim \<Rightarrow> bool" where
  "cl_completed c \<longleftrightarrow> cl_outcome c \<noteq> None"

definition claim_valid :: "cost_claim \<Rightarrow> bool" where
  "claim_valid c \<longleftrightarrow>
     opt_between 0 86400000 (cl_duration_ms c)
   \<and> 1 \<le> cl_billable_units c \<and> cl_billable_units c \<le> 1000000
   \<and> opt_between 0 100000000 (cl_input_tokens c)
   \<and> opt_between 0 100000000 (cl_output_tokens c)
   \<and> opt_between 0 200000000 (cl_total_tokens c)
   \<and> OPERATION_PROVIDER (cl_operation c) = cl_provider c
   \<and> (let anyone = cl_completed_at c = None \<or> cl_outcome c = None \<or> cl_duration_ms c = None;
          everyone = cl_completed_at c = None \<and> cl_outcome c = None \<and> cl_duration_ms c = None
      in anyone = everyone)
   \<and> (case cl_completed_at c of None \<Rightarrow> True | Some t \<Rightarrow> cl_claimed_at c \<le> t)
   \<and> (let no_tokens = cl_input_tokens c = None \<and> cl_output_tokens c = None \<and> cl_total_tokens c = None
      in (cl_provider c = Dify \<or> (\<not> cl_usage_known c \<and> no_tokens))
       \<and> (if cl_usage_known c
          then (case (cl_input_tokens c, cl_output_tokens c, cl_total_tokens c) of
                  (Some i, Some p, Some t) \<Rightarrow> t = i + p | _ \<Rightarrow> False)
          else no_tokens))"

subsection \<open>The ledger of a job\<close>

datatype ledger_schema = Ledger_v1 | Ledger_v2

record cost_ledger_state =
  led_schema_version :: ledger_schema
  led_job_id :: uuid
  led_revision :: int
  led_pricing :: pricing_catalog
  led_created_at :: timestamp
  led_updated_at :: timestamp
  led_claims :: "cost_claim list"
  led_local_denials :: "(cost_operation \<times> int) list"
  led_checkpoint_hits :: int
  led_job_attempts :: int
  led_phase_attempts :: "(cost_attempt_phase \<times> int) list option"
  led_job_active_elapsed_ms :: int

text \<open>The last two conditions say that a dict has a key once.\<close>

definition ledger_valid :: "cost_ledger_state \<Rightarrow> bool" where
  "ledger_valid l \<longleftrightarrow>
     1 \<le> led_revision l
   \<and> pricing_valid (led_pricing l)
   \<and> length (led_claims l) \<le> MAX_LEDGER_CLAIMS
   \<and> list_all claim_valid (led_claims l)
   \<and> 0 \<le> led_checkpoint_hits l \<and> led_checkpoint_hits l \<le> 1000000
   \<and> 0 \<le> led_job_attempts l \<and> led_job_attempts l \<le> 100
   \<and> (case led_phase_attempts l of None \<Rightarrow> True
      | Some ph \<Rightarrow> list_all (\<lambda>(_, n). 1 \<le> n \<and> n \<le> 100) ph
                \<and> sum_list (map snd ph) = led_job_attempts l)
   \<and> 0 \<le> led_job_active_elapsed_ms l \<and> led_job_active_elapsed_ms l \<le> MAX_COUNTER_VALUE
   \<and> led_created_at l \<le> led_updated_at l
   \<and> distinct (map cl_claim_id (led_claims l))
   \<and> list_all (\<lambda>(_, n). 0 \<le> n \<and> n \<le> 1000000) (led_local_denials l)
   \<and> distinct (map fst (led_local_denials l))
   \<and> (case led_phase_attempts l of None \<Rightarrow> True | Some ph \<Rightarrow> distinct (map fst ph))"

subsection \<open>Counters\<close>

datatype base_counter =
    Cost_schema_version | Cost_ledger_revision | Pricing_revision | Job_wall_elapsed_ms
  | Job_active_elapsed_ms | Job_attempts | Job_retry_count | Provider_attempts_total
  | Provider_successes_total | Provider_failures_total | Provider_outcome_unknown_total
  | Provider_local_denials_total | Checkpoint_hits_total | Estimated_cost_usd_micros
  | Pricing_unknown_units_total | Dify_input_tokens | Dify_output_tokens
  | Dify_total_tokens | Dify_usage_unknown_calls

datatype provider_metric =
    Attempts | Successes | Failures | Outcome_unknown | Local_denials | Duration_ms
  | Billable_units | Estimated_cost | Pricing_unknown_units

text \<open>The key \<open>f"{provider}_{metric}"\<close> is the pair; \<open>counter_name\<close> is its text.\<close>

datatype counter_key = Base base_counter | Prov cost_provider provider_metric

fun provider_name :: "cost_provider \<Rightarrow> string" where
  "provider_name Serpapi = ''serpapi''"
| "provider_name Firecrawl = ''firecrawl''"
| "provider_name Jina = ''jina''"
| "provider_name Pagespeed = ''pagespeed''"
| "provider_name Gsc = ''gsc''"
| "provider_name Ga4 = ''ga4''"
| "provider_name Gbp = ''gbp''"
| "provider_name Dify = ''dify''"

fun base_counter_name :: "base_counter \<Rightarrow> string" where
  "base_counter_name Cost_schema_version = ''cost_schema_version''"
| "base_counter_name Cost_ledger_revision = ''cost_ledger_revision''"
| "base_counter_name Pricing_revision = ''pricing_revision''"
| "base_counter_name Job_wall_elapsed_ms = ''job_wall_elapsed_ms''"
| "base_counter_name Job_active_elapsed_ms = ''job_active_elapsed_ms''"
| "base_counter_name Job_attempts = ''job_attempts''"
| "base_counter_name Job_retry_count = ''job_retry_count''"
| "base_counter_name Provider_attempts_total = ''provider_attempts_total''"
| "base_counter_name Provider_successes_total = ''provider_successes_total''"
| "base_counter_name Provider_failures_total = ''provider_failures_total''"
| "base_counter_name Provider_outcome_unknown_total = ''provider_outcome_unknown_total''"
| "base_counter_name Provider_local_denials_total = ''provider_local_denials_total''"
| "base_counter_name Checkpoint_hits_total = ''checkpoint_hits_total''"
| "base_counter_name Estimated_cost_usd_micros = ''estimated_cost_usd_micros''"
| "base_counter_name Pricing_unknown_units_total = ''pricing_unknown_units_total''"
| "base_counter_name Dify_input_tokens = ''dify_input_tokens''"
| "base_counter_name Dify_output_tokens = ''dify_output_tokens''"
| "base_counter_name Dify_total_tokens = ''dify_total_tokens''"
| "base_counter_name Dify_usage_unknown_calls = ''dify_usage_unknown_calls''"

fun metric_name :: "provider_metric \<Rightarrow> string" where
  "metric_name Attempts = ''attempts''"
| "metric_name Successes = ''successes''"
| "metric_name Failures = ''failures''"
| "metric_name Outcome_unknown = ''outcome_unknown''"
| "metric_name Local_denials = ''local_denials''"
| "metric_name Duration_ms = ''duration_ms''"
| "metric_name Billable_units = ''billable_units''"
| "metric_name Estimated_cost = ''estimated_cost_usd_micros''"
| "metric_name Pricing_unknown_units = ''pricing_unknown_units''"

fun counter_name :: "counter_key \<Rightarrow> string" where
  "counter_name (Base b) = base_counter_name b"
| "counter_name (Prov p m) = provider_name p @ ''_'' @ metric_name m"

definition BASE_COUNTERS :: "base_counter list" where
  "BASE_COUNTERS = [Cost_schema_version, Cost_ledger_revision, Pricing_revision,
     Job_wall_elapsed_ms, Job_active_elapsed_ms, Job_attempts, Job_retry_count,
     Provider_attempts_total, Provider_successes_total, Provider_failures_total,
     Provider_outcome_unknown_total, Provider_local_denials_total, Checkpoint_hits_total,
     Estimated_cost_usd_micros, Pricing_unknown_units_total, Dify_input_tokens,
     Dify_output_tokens, Dify_total_tokens, Dify_usage_unknown_calls]"

definition METRICS :: "provider_metric list" where
  "METRICS = [Attempts, Successes, Failures, Outcome_unknown, Local_denials, Duration_ms,
     Billable_units, Estimated_cost, Pricing_unknown_units]"

definition COUNTER_KEYS :: "counter_key list" where
  "COUNTER_KEYS = map Base BASE_COUNTERS
     @ concat (map (\<lambda>p. map (Prov p) METRICS) PROVIDERS)"

definition ALLOWED_COUNTER_KEYS :: "string list" where
  "ALLOWED_COUNTER_KEYS = map counter_name COUNTER_KEYS"

text \<open>A snapshot is a flat dict of integers, persisted and sent in callbacks.\<close>

type_synonym counters = "(string \<times> int) list"

text \<open>Checks of \<open>CostCountersV1.validate_counters\<close> in their order.\<close>

definition cost_counters_v1 :: "counters \<Rightarrow> exn + counters" where
  "cost_counters_v1 c =
     (if \<not> list_all (\<lambda>k. k \<in> set ALLOWED_COUNTER_KEYS) (map fst c) then Inl ValidationError
      else if \<not> list_all (\<lambda>k. k \<in> set (map fst c)) ALLOWED_COUNTER_KEYS then Inl ValidationError
      else if \<not> list_all (\<lambda>v. 0 \<le> v \<and> v \<le> MAX_COUNTER_VALUE) (map snd c) then Inl ValidationError
      else if map_of c ''cost_schema_version'' \<noteq> Some 1 then Inl ValidationError
      else Inr c)"

definition validate_cost_counters_snapshot :: "counters \<Rightarrow> exn + counters" where
  "validate_cost_counters_snapshot v = (if v = [] then Inr [] else cost_counters_v1 v)"

definition microdollars_for_tokens :: "int \<Rightarrow> int \<Rightarrow> exn + int" where
  "microdollars_for_tokens tokens rate =
     (if tokens < 0 \<or> rate < 0 then Inl (ValueError ''token pricing inputs must be non-negative'')
      else if tokens = 0 \<or> rate = 0 then Inr 0
      else Inr ((tokens * rate + 999999) div 1000000))"

subsection \<open>Counters of a ledger (cost_counters_from_state)\<close>

definition bump :: "counter_key \<Rightarrow> int \<Rightarrow> (counter_key \<Rightarrow> int) \<Rightarrow> (counter_key \<Rightarrow> int)" where
  "bump k n c = c(k := c k + n)"

text \<open>
  \<open>int((now - created_at).total_seconds() * 1000)\<close>, not below 0; the rounding of the
  double product is not modelled.
\<close>

definition wall_ms :: "timestamp \<Rightarrow> timestamp \<Rightarrow> int" where
  "wall_ms created now = max ((now - created) div 1000) 0"

definition job_retry_count :: "cost_ledger_state \<Rightarrow> int" where
  "job_retry_count st =
     (case led_phase_attempts st of
        Some ph \<Rightarrow> sum_list (map (\<lambda>(_, n). n - 1) ph)
      | None \<Rightarrow> max (led_job_attempts st - 1) 0)"

definition initial_counters :: "cost_ledger_state \<Rightarrow> timestamp \<Rightarrow> counter_key \<Rightarrow> int" where
  "initial_counters st now =
     ((\<lambda>_. 0)
       (Base Cost_schema_version := 1,
        Base Cost_ledger_revision := led_revision st,
        Base Pricing_revision := pr_revision (led_pricing st),
        Base Job_wall_elapsed_ms := wall_ms (led_created_at st) now,
        Base Job_active_elapsed_ms := led_job_active_elapsed_ms st,
        Base Job_attempts := led_job_attempts st,
        Base Job_retry_count := job_retry_count st,
        Base Checkpoint_hits_total := led_checkpoint_hits st))"

definition add_denial ::
    "cost_operation \<times> int \<Rightarrow> (counter_key \<Rightarrow> int) \<Rightarrow> (counter_key \<Rightarrow> int)" where
  "add_denial d c =
     (let p = OPERATION_PROVIDER (fst d)
      in bump (Base Provider_local_denials_total) (snd d) (bump (Prov p Local_denials) (snd d) c))"

definition outcome_metric :: "cost_outcome option \<Rightarrow> provider_metric \<times> base_counter" where
  "outcome_metric oc =
     (case oc of Some Success \<Rightarrow> (Successes, Provider_successes_total)
      | Some Failure \<Rightarrow> (Failures, Provider_failures_total)
      | None \<Rightarrow> (Outcome_unknown, Provider_outcome_unknown_total))"

text \<open>
  The cost of one kind of tokens is added to (claim cost, unknown units); no tokens of the
  kind add nothing, tokens without a price are unknown units.
\<close>

definition add_token_cost :: "int \<Rightarrow> int option \<Rightarrow> int \<times> int \<Rightarrow> exn + int \<times> int" where
  "add_token_cost tokens rate cu =
     (if tokens = 0 then Inr cu
      else (case rate of
              None \<Rightarrow> Inr (fst cu, snd cu + tokens)
            | Some r \<Rightarrow>
                (case microdollars_for_tokens tokens r of
                   Inl e \<Rightarrow> Inl e
                 | Inr d \<Rightarrow> Inr (fst cu + d, snd cu))))"

definition request_cost :: "pricing_catalog \<Rightarrow> cost_claim \<Rightarrow> int \<times> int" where
  "request_cost pr cl =
     (case pr_request_usd_micros pr (cl_provider cl) of
        None \<Rightarrow> (0, cl_billable_units cl)
      | Some rate \<Rightarrow> (rate * cl_billable_units cl, 0))"

definition or_zero :: "int option \<Rightarrow> int" where
  "or_zero v = (case v of None \<Rightarrow> 0 | Some x \<Rightarrow> x)"

definition claim_cost :: "pricing_catalog \<Rightarrow> cost_claim \<Rightarrow> exn + int \<times> int" where
  "claim_cost pr cl =
     (if cl_provider cl = Dify \<and> cl_usage_known cl
      then (case add_token_cost (or_zero (cl_input_tokens cl))
                   (pr_dify_input_mtok_usd_micros pr) (request_cost pr cl) of
              Inl e \<Rightarrow> Inl e
            | Inr cu \<Rightarrow> add_token_cost (or_zero (cl_output_tokens cl))
                          (pr_dify_output_mtok_usd_micros pr) cu)
      else Inr (request_cost pr cl))"

definition add_usage :: "cost_claim \<Rightarrow> (counter_key \<Rightarrow> int) \<Rightarrow> (counter_key \<Rightarrow> int)" where
  "add_usage cl c =
     (if cl_provider cl \<noteq> Dify then c
      else if cl_usage_known cl
      then bump (Base Dify_total_tokens) (or_zero (cl_total_tokens cl))
            (bump (Base Dify_output_tokens) (or_zero (cl_output_tokens cl))
              (bump (Base Dify_input_tokens) (or_zero (cl_input_tokens cl)) c))
      else bump (Base Dify_usage_unknown_calls) 1 c)"

definition add_claim ::
    "pricing_catalog \<Rightarrow> cost_claim \<Rightarrow> (counter_key \<Rightarrow> int) \<Rightarrow> exn + (counter_key \<Rightarrow> int)" where
  "add_claim pr cl c =
     (let p = cl_provider cl;
          (metric, total) = outcome_metric (cl_outcome cl);
          c = bump (Prov p Attempts) 1 c;
          c = bump (Base Provider_attempts_total) 1 c;
          c = bump (Prov p Billable_units) (cl_billable_units cl) c;
          c = bump (Prov p metric) 1 c;
          c = bump (Base total) 1 c;
          c = bump (Prov p Duration_ms) (or_zero (cl_duration_ms cl)) c
      in case claim_cost pr cl of
           Inl e \<Rightarrow> Inl e
         | Inr (cost, unknown) \<Rightarrow>
             (let c = add_usage cl c;
                  c = bump (Prov p Estimated_cost) cost c;
                  c = bump (Prov p Pricing_unknown_units) unknown c;
                  c = bump (Base Estimated_cost_usd_micros) cost c;
                  c = bump (Base Pricing_unknown_units_total) unknown c
              in Inr c))"

fun add_claims ::
    "pricing_catalog \<Rightarrow> cost_claim list \<Rightarrow> (counter_key \<Rightarrow> int) \<Rightarrow> exn + (counter_key \<Rightarrow> int)" where
  "add_claims pr [] c = Inr c"
| "add_claims pr (cl # cls) c =
     (case add_claim pr cl c of Inl e \<Rightarrow> Inl e | Inr c' \<Rightarrow> add_claims pr cls c')"

definition raw_counters ::
    "cost_ledger_state \<Rightarrow> timestamp \<Rightarrow> exn + (counter_key \<Rightarrow> int)" where
  "raw_counters st now =
     add_claims (led_pricing st) (led_claims st)
       (fold add_denial (led_local_denials st) (initial_counters st now))"

definition counters_root :: "(counter_key \<Rightarrow> int) \<Rightarrow> counters" where
  "counters_root c = map (\<lambda>k. (counter_name k, c k)) COUNTER_KEYS"

definition cost_counters_from_state :: "cost_ledger_state \<Rightarrow> timestamp \<Rightarrow> exn + counters" where
  "cost_counters_from_state st now =
     (case raw_counters st now of Inl e \<Rightarrow> Inl e | Inr c \<Rightarrow> cost_counters_v1 (counters_root c))"

subsection \<open>The catalog of the settings\<close>

text \<open>The price settings V22_COST_..., one request price per provider.\<close>

record cost_settings =
  V22_COST_PRICING_REVISION :: int
  V22_COST_REQUEST_USD_MICROS :: "cost_provider \<Rightarrow> int option"
  V22_COST_DIFY_INPUT_MTOK_USD_MICROS :: "int option"
  V22_COST_DIFY_OUTPUT_MTOK_USD_MICROS :: "int option"

definition pricing_catalog_from_settings :: "cost_settings \<Rightarrow> exn + pricing_catalog" where
  "pricing_catalog_from_settings st =
     (let p = \<lparr>pr_revision = V22_COST_PRICING_REVISION st,
               pr_request_usd_micros = V22_COST_REQUEST_USD_MICROS st,
               pr_dify_input_mtok_usd_micros = V22_COST_DIFY_INPUT_MTOK_USD_MICROS st,
               pr_dify_output_mtok_usd_micros = V22_COST_DIFY_OUTPUT_MTOK_USD_MICROS st\<rparr>
      in if pricing_valid p then Inr p else Inl ValidationError)"

end
