(* ===== verification/Job_Models.thy ===== *)
theory Job_Models
  imports Cost_Models
begin

text \<open>
  The persisted snapshot of a job (app/jobs_v22/models.py). \<open>validate_job_state\<close> is the
  pydantic model: it strips the text fields, checks every field and the lifecycle rules,
  and returns the normalised record or a ValidationError. The report is opaque but for
  what the lifecycle rule reads of a capability report.
\<close>

datatype job_status = Queued | Running | Succeeded | Failed

datatype job_stage =
    St_queued | St_collecting_site | St_collecting_market | St_collecting_competitors
  | St_building_evidence | St_evaluating | St_generating_copy | St_validating
  | St_persisting | St_completed | St_failed

text \<open>\<open>DurableReport\<close>: id and Case of a capability report, and the document.\<close>

datatype durable_report =
    ReportV22 json
  | CapabilityReport (report_id: uuid) (report_case_id: uuid) json

record job_error_state =
  er_error_code :: string
  er_user_message :: string
  er_retryable :: bool
  er_stage :: job_stage
  er_diagnostic_id :: uuid

record job_state =
  js_job_id :: uuid
  js_case_id :: uuid
  js_status :: job_status
  js_stage :: job_stage
  js_progress :: int
  js_message :: string
  js_attempt_count :: int
  js_run_generation :: int
  js_revision :: int
  js_request_digest :: string
  js_idempotency_key_digest :: string
  js_heartbeat_at :: "timestamp option"
  js_created_at :: timestamp
  js_deadline_at :: timestamp
  js_updated_at :: timestamp
  js_completed_at :: "timestamp option"
  js_report :: "durable_report option"
  js_error :: "job_error_state option"
  js_cost_counters :: counters
  js_callback_synced_revision :: int

definition terminal :: "job_state \<Rightarrow> bool" where
  "terminal st \<longleftrightarrow> js_status st \<in> {Succeeded, Failed}"

subsection \<open>Field constraints\<close>

definition text_len :: "nat \<Rightarrow> nat \<Rightarrow> string \<Rightarrow> bool" where
  "text_len lo hi s \<longleftrightarrow> lo \<le> length s \<and> length s \<le> hi"

definition error_code_char :: "char \<Rightarrow> bool" where
  "error_code_char c \<longleftrightarrow> c \<in> set ''ABCDEFGHIJKLMNOPQRSTUVWXYZ0123456789_''"

definition valid_digest :: "string \<Rightarrow> bool" where
  "valid_digest s \<longleftrightarrow> take 7 s = ''sha256:'' \<and> length s = 71 \<and> list_all is_hex_digit (drop 7 s)"

definition strip_text :: "string \<Rightarrow> string" where
  "strip_text s = strip_chars white_space s"

definition validate_error_state :: "job_error_state \<Rightarrow> job_error_state option" where
  "validate_error_state e =
     (let e' = e\<lparr>er_error_code := strip_text (er_error_code e),
                 er_user_message := strip_text (er_user_message e)\<rparr>
      in if text_len 1 120 (er_error_code e') \<and> list_all error_code_char (er_error_code e')
            \<and> text_len 1 500 (er_user_message e')
         then Some e' else None)"

text \<open>\<open>validate_lifecycle\<close>.\<close>

definition lifecycle_ok :: "job_state \<Rightarrow> bool" where
  "lifecycle_ok st \<longleftrightarrow>
     js_created_at st \<le> js_updated_at st
   \<and> js_created_at st < js_deadline_at st
   \<and> js_callback_synced_revision st \<le> js_revision st
   \<and> (case js_status st of
        Succeeded \<Rightarrow>
          js_error st = None \<and> js_stage st = St_completed \<and> js_progress st = 100
          \<and> js_completed_at st \<noteq> None
          \<and> (case js_report st of
               None \<Rightarrow> False
             | Some (ReportV22 _) \<Rightarrow> True
             | Some (CapabilityReport i c _) \<Rightarrow> i = js_job_id st \<and> c = js_case_id st)
      | Failed \<Rightarrow>
          js_error st \<noteq> None \<and> js_report st = None \<and> js_stage st = St_failed
          \<and> js_completed_at st \<noteq> None
      | _ \<Rightarrow> js_report st = None \<and> js_error st = None \<and> js_completed_at st = None)"

definition fields_ok :: "job_state \<Rightarrow> bool" where
  "fields_ok st \<longleftrightarrow>
     0 \<le> js_progress st \<and> js_progress st \<le> 100
   \<and> text_len 1 500 (js_message st)
   \<and> 0 \<le> js_attempt_count st \<and> 1 \<le> js_run_generation st \<and> 1 \<le> js_revision st
   \<and> valid_digest (js_request_digest st) \<and> valid_digest (js_idempotency_key_digest st)
   \<and> 0 \<le> js_callback_synced_revision st"

text \<open>The digests contain no blanks, so stripping leaves a valid one as it is.\<close>

definition validate_job_state :: "job_state \<Rightarrow> exn + job_state" where
  "validate_job_state st0 =
     (let st = st0\<lparr>js_message := strip_text (js_message st0),
                   js_request_digest := strip_text (js_request_digest st0),
                   js_idempotency_key_digest := strip_text (js_idempotency_key_digest st0)\<rparr>
      in case (case js_error st of
                 None \<Rightarrow> Some None
               | Some e \<Rightarrow> map_option Some (validate_error_state e)) of
           None \<Rightarrow> Inl ValidationError
         | Some err \<Rightarrow>
           (case validate_cost_counters_snapshot (js_cost_counters st) of
              Inl e \<Rightarrow> Inl ValidationError
            | Inr cc \<Rightarrow>
              (let st' = st\<lparr>js_error := err, js_cost_counters := cc\<rparr>
               in if fields_ok st' \<and> lifecycle_ok st' then Inr st' else Inl ValidationError)))"

definition valid_state :: "job_state \<Rightarrow> bool" where
  "valid_state st \<longleftrightarrow> validate_job_state st = Inr st"

subsection \<open>Facts about validation\<close>

lemma validate_error_state_idem:
  "validate_error_state e = Some e' \<Longrightarrow> validate_error_state e' = Some e'"
  by (auto simp: validate_error_state_def Let_def strip_text_def split: if_splits)

lemma validate_counters_root: "validate_cost_counters_snapshot c = Inr c' \<Longrightarrow> c' = c"
  by (auto simp: validate_cost_counters_snapshot_def cost_counters_v1_def split: if_splits)

text \<open>The fields a revalidation may change are the texts; all others are kept.\<close>

lemma validate_job_state_Inr:
  assumes "validate_job_state st = Inr st'"
  shows "valid_state st'" "fields_ok st'" "lifecycle_ok st'"
    "js_job_id st' = js_job_id st" "js_case_id st' = js_case_id st"
    "js_status st' = js_status st" "js_stage st' = js_stage st"
    "js_progress st' = js_progress st" "js_attempt_count st' = js_attempt_count st"
    "js_run_generation st' = js_run_generation st" "js_revision st' = js_revision st"
    "js_callback_synced_revision st' = js_callback_synced_revision st"
    "js_created_at st' = js_created_at st" "js_deadline_at st' = js_deadline_at st"
    "js_updated_at st' = js_updated_at st" "js_heartbeat_at st' = js_heartbeat_at st"
    "js_completed_at st' = js_completed_at st" "js_report st' = js_report st"
    "js_message st' = strip_text (js_message st)"
    "js_cost_counters st' = js_cost_counters st"
    "js_error st' = None \<longleftrightarrow> js_error st = None"
    "terminal st' = terminal st"
proof -
  define st1 where "st1 = st\<lparr>js_message := strip_text (js_message st),
     js_request_digest := strip_text (js_request_digest st),
     js_idempotency_key_digest := strip_text (js_idempotency_key_digest st)\<rparr>"
  obtain err cc where
    err: "(case js_error st1 of None \<Rightarrow> Some None
          | Some e \<Rightarrow> map_option Some (validate_error_state e)) = Some err"
    and cc: "validate_cost_counters_snapshot (js_cost_counters st1) = Inr cc"
    and st': "st' = st1\<lparr>js_error := err, js_cost_counters := cc\<rparr>"
    and ok: "fields_ok st'" "lifecycle_ok st'"
    using assms by (auto simp: validate_job_state_def Let_def st1_def
        split: option.splits sum.splits if_splits)
  have err': "(case err of None \<Rightarrow> Some None
      | Some e \<Rightarrow> map_option Some (validate_error_state e)) = Some err"
    using err by (auto split: option.splits dest: validate_error_state_idem)
  have cc': "cc = js_cost_counters st1" using cc by (rule validate_counters_root)
  have strip: "strip_text (strip_text s) = strip_text s" for s by (simp add: strip_text_def)
  show "valid_state st'"
    using err' cc ok unfolding valid_state_def validate_job_state_def Let_def
    by (simp add: st' st1_def strip cc')
  show "fields_ok st'" "lifecycle_ok st'" by (fact ok)+
  show "js_error st' = None \<longleftrightarrow> js_error st = None"
    using err by (auto simp: st' st1_def split: option.splits)
qed (use assms in \<open>auto simp: validate_job_state_def Let_def terminal_def
       split: option.splits sum.splits if_splits dest: validate_counters_root\<close>)

lemma valid_state_fields: "valid_state st \<Longrightarrow> fields_ok st" "valid_state st \<Longrightarrow> lifecycle_ok st"
  by (auto simp: valid_state_def dest: validate_job_state_Inr)

lemma validate_job_state_parts:
  assumes "validate_job_state st = Inr st'"
  shows "js_request_digest st' = strip_text (js_request_digest st)"
    and "js_idempotency_key_digest st' = strip_text (js_idempotency_key_digest st)"
    and "(case js_error st of None \<Rightarrow> Some None
          | Some e \<Rightarrow> map_option Some (validate_error_state e)) = Some (js_error st')"
    and "validate_cost_counters_snapshot (js_cost_counters st) = Inr (js_cost_counters st')"
  using assms
  by (auto simp: validate_job_state_def Let_def split: option.splits sum.splits if_splits)
     metis+

text \<open>A valid state, condition by condition.\<close>

lemma valid_state_iff:
  "valid_state st \<longleftrightarrow>
     strip_text (js_message st) = js_message st
   \<and> strip_text (js_request_digest st) = js_request_digest st
   \<and> strip_text (js_idempotency_key_digest st) = js_idempotency_key_digest st
   \<and> (case js_error st of None \<Rightarrow> True | Some e \<Rightarrow> validate_error_state e = Some e)
   \<and> validate_cost_counters_snapshot (js_cost_counters st) = Inr (js_cost_counters st)
   \<and> fields_ok st \<and> lifecycle_ok st" (is "_ = ?rhs")
proof
  assume v: "valid_state st"
  then have "validate_job_state st = Inr st" by (simp add: valid_state_def)
  from validate_job_state_parts [OF this] validate_job_state_Inr(2,3,19) [OF this]
  show ?rhs by (auto split: option.splits)
next
  assume ?rhs
  then have *: "strip_text (js_message st) = js_message st"
    "strip_text (js_request_digest st) = js_request_digest st"
    "strip_text (js_idempotency_key_digest st) = js_idempotency_key_digest st"
    "(case js_error st of None \<Rightarrow> Some None
          | Some e \<Rightarrow> map_option Some (validate_error_state e)) = Some (js_error st)"
    "validate_cost_counters_snapshot (js_cost_counters st) = Inr (js_cost_counters st)"
    "fields_ok st" "lifecycle_ok st"
    by (auto split: option.splits)
  then show "valid_state st"
    by (simp add: valid_state_def validate_job_state_def Let_def)
qed

lemma validate_validated [simp]: "valid_state st \<Longrightarrow> validate_job_state st = Inr st"
  by (simp add: valid_state_def)

lemma validate_job_state_Inl: "validate_job_state st = Inl e \<Longrightarrow> e = ValidationError"
  by (auto simp: validate_job_state_def Let_def split: option.splits sum.splits if_splits)

text \<open>The lifecycle rules per status, as a reader of a state uses them.\<close>

lemma valid_succeeded:
  "valid_state st \<Longrightarrow> js_status st = Succeeded \<Longrightarrow>
   js_report st \<noteq> None \<and> js_error st = None \<and> js_progress st = 100 \<and> js_completed_at st \<noteq> None"
  using valid_state_fields(2) [of st] by (auto simp: lifecycle_ok_def split: option.splits)

lemma valid_failed:
  "valid_state st \<Longrightarrow> js_status st = Failed \<Longrightarrow>
   js_report st = None \<and> js_error st \<noteq> None \<and> js_completed_at st \<noteq> None"
  using valid_state_fields(2) [of st] by (auto simp: lifecycle_ok_def)

lemma valid_open:
  "valid_state st \<Longrightarrow> \<not> terminal st \<Longrightarrow>
   js_report st = None \<and> js_error st = None \<and> js_completed_at st = None"
  using valid_state_fields(2) [of st]
  by (cases "js_status st") (auto simp: lifecycle_ok_def terminal_def)

subsection \<open>Callback events\<close>

record job_callback_event =
  ev_event_id :: string
  ev_job_id :: uuid
  ev_case_id :: uuid
  ev_revision :: int
  ev_status :: job_status
  ev_stage :: job_stage
  ev_progress :: int
  ev_message :: string
  ev_attempt_count :: int
  ev_run_generation :: int
  ev_deadline_at :: timestamp
  ev_heartbeat_at :: "timestamp option"
  ev_completed_at :: "timestamp option"
  ev_error :: "job_error_state option"
  ev_cost_counters :: counters
  ev_occurred_at :: timestamp

end
