(* ===== verification/Url.thy ===== *)
theory Url
  imports Job_Errors
begin

text \<open>
  \<open>urllib.parse.urlsplit\<close> as the source uses it: scheme, authority, path, query, and the
  host name and port of the authority. Texts are ASCII; a bracketed host is taken as it is.
\<close>

definition ascii_lower :: "char \<Rightarrow> char" where
  "ascii_lower c = (let n = (of_char c :: nat) in if 65 \<le> n \<and> n \<le> 90 then char_of (n + 32) else c)"

definition lower :: "string \<Rightarrow> string" where
  "lower s = map ascii_lower s"

definition is_alpha :: "char \<Rightarrow> bool" where
  "is_alpha c \<longleftrightarrow> (let n = (of_char c :: nat) in (65 \<le> n \<and> n \<le> 90) \<or> (97 \<le> n \<and> n \<le> 122))"

definition is_digit :: "char \<Rightarrow> bool" where
  "is_digit c \<longleftrightarrow> (let n = (of_char c :: nat) in 48 \<le> n \<and> n \<le> 57)"

text \<open>On the bits of a character, for evaluation.\<close>

lemma is_digit_code [code]:
  "is_digit (Char a b c d e f g h) \<longleftrightarrow> f \<and> e \<and> \<not> g \<and> \<not> h \<and> (\<not> d \<or> \<not> b \<and> \<not> c)"
  by (cases a; cases b; cases c; cases d; cases e; cases f; cases g; cases h) (simp_all add: is_digit_def)

lemma is_alpha_code [code]:
  "is_alpha (Char a b c d e f g h) \<longleftrightarrow>
     g \<and> \<not> h \<and> (a \<or> b \<or> c \<or> d \<or> e) \<and> (\<not> d \<or> \<not> e \<or> \<not> c \<and> (\<not> a \<or> \<not> b))"
  by (cases a; cases b; cases c; cases d; cases e; cases f; cases g; cases h) (simp_all add: is_alpha_def)

lemma ascii_lower_code [code]:
  "ascii_lower (Char a b c d e f g h) =
     (if \<not> f \<and> is_alpha (Char a b c d e f g h) then Char a b c d e True g h else Char a b c d e f g h)"
  by (cases a; cases b; cases c; cases d; cases e; cases f; cases g; cases h)
    (simp_all add: ascii_lower_def is_alpha_def char_of_def bit_0)

definition scheme_char :: "char \<Rightarrow> bool" where
  "scheme_char c \<longleftrightarrow> is_alpha c \<or> is_digit c \<or> c \<in> set ''+-.''"

text \<open>\<open>s.partition(c)\<close>: what is before the first \<open>c\<close>, and after it when there is one.\<close>

definition partition_at :: "char \<Rightarrow> string \<Rightarrow> string \<times> string option" where
  "partition_at c s =
     (takeWhile (\<lambda>x. x \<noteq> c) s,
      (case dropWhile (\<lambda>x. x \<noteq> c) s of [] \<Rightarrow> None | _ # rest \<Rightarrow> Some rest))"

text \<open>\<open>s.rpartition(c)[2]\<close>\<close>

definition after_last :: "char \<Rightarrow> string \<Rightarrow> string" where
  "after_last c s = rev (takeWhile (\<lambda>x. x \<noteq> c) (rev s))"

definition removeprefix :: "string \<Rightarrow> string \<Rightarrow> string" where
  "removeprefix p s = (if take (length p) s = p then drop (length p) s else s)"

record split_url =
  us_scheme :: string
  us_netloc :: string
  us_path :: string
  us_query :: string
  us_fragment :: string

definition split_scheme :: "string \<Rightarrow> string \<times> string" where
  "split_scheme url =
     (case partition_at CHR '':'' url of
        (before, Some rest) \<Rightarrow>
          if before \<noteq> [] \<and> is_alpha (hd before) \<and> list_all scheme_char before
          then (lower before, rest) else ([], url)
      | _ \<Rightarrow> ([], url))"

definition split_netloc :: "string \<Rightarrow> string \<times> string" where
  "split_netloc url =
     (if take 2 url = ''//''
      then (takeWhile (\<lambda>c. c \<notin> set ''/?#'') (drop 2 url), dropWhile (\<lambda>c. c \<notin> set ''/?#'') (drop 2 url))
      else ([], url))"

definition urlsplit :: "string \<Rightarrow> exn + split_url" where
  "urlsplit url0 =
     (let url1 = filter (\<lambda>c. (of_char c :: nat) \<notin> {9, 10, 13})
            (dropWhile (\<lambda>c. (of_char c :: nat) \<le> 32) url0);
          (scheme, url2) = split_scheme url1;
          (netloc, url3) = split_netloc url2;
          (url4, fragment) = partition_at CHR ''#'' url3;
          (path, query) = partition_at CHR ''?'' url4;
          opt = (\<lambda>x. case x of None \<Rightarrow> [] | Some y \<Rightarrow> y)
      in if (CHR ''['' \<in> set netloc) \<noteq> (CHR '']'' \<in> set netloc) then Inl (ValueError ''Invalid IPv6 URL'')
         else Inr \<lparr>us_scheme = scheme, us_netloc = netloc, us_path = path, us_query = opt query,
                   us_fragment = opt fragment\<rparr>)"

text \<open>\<open>_hostinfo\<close>: host and port text of an authority.\<close>

definition hostinfo :: "string \<Rightarrow> string \<times> string option" where
  "hostinfo netloc =
     (let info = after_last CHR ''@'' netloc
      in case partition_at CHR ''['' info of
           (_, Some bracketed) \<Rightarrow>
             (let (host, rest) = partition_at CHR '']'' bracketed;
                  port = snd (partition_at CHR '':'' (case rest of None \<Rightarrow> [] | Some r \<Rightarrow> r))
              in (host, case port of Some [] \<Rightarrow> None | p \<Rightarrow> p))
         | (_, None) \<Rightarrow>
             (let (host, port) = partition_at CHR '':'' info
              in (host, case port of Some [] \<Rightarrow> None | p \<Rightarrow> p)))"

definition us_hostname :: "split_url \<Rightarrow> string option" where
  "us_hostname u =
     (let host = fst (hostinfo (us_netloc u));
          (name, zone) = partition_at CHR ''%'' host
      in if host = [] then None
         else Some (lower name @ (case zone of None \<Rightarrow> [] | Some z \<Rightarrow> CHR ''%'' # z)))"

definition digits_value :: "string \<Rightarrow> int" where
  "digits_value s = foldl (\<lambda>n c. n * 10 + (of_char c - 48)) 0 s"

definition us_port :: "split_url \<Rightarrow> exn + int option" where
  "us_port u =
     (case snd (hostinfo (us_netloc u)) of
        None \<Rightarrow> Inr None
      | Some p \<Rightarrow>
          if \<not> list_all is_digit p then Inl (ValueError ''Port could not be cast to integer value'')
          else if 65535 < digits_value p then Inl (ValueError ''Port out of range 0-65535'')
          else Inr (Some (digits_value p)))"

text \<open>User name and password of an authority are what is before its last \<open>@\<close>.\<close>

definition us_username :: "split_url \<Rightarrow> string option" where
  "us_username u =
     (if CHR ''@'' \<in> set (us_netloc u)
      then Some (fst (partition_at CHR '':'' (take (length (us_netloc u) -
             length (after_last CHR ''@'' (us_netloc u)) - 1) (us_netloc u))))
      else None)"

definition us_password :: "split_url \<Rightarrow> string option" where
  "us_password u =
     (if CHR ''@'' \<in> set (us_netloc u)
      then snd (partition_at CHR '':'' (take (length (us_netloc u) -
             length (after_last CHR ''@'' (us_netloc u)) - 1) (us_netloc u)))
      else None)"

text \<open>\<open>(urlsplit(url).hostname or "").casefold().removeprefix("www.")\<close>\<close>

definition site_domain :: "string \<Rightarrow> string" where
  "site_domain url =
     (case urlsplit url of
        Inl _ \<Rightarrow> []
      | Inr u \<Rightarrow> removeprefix ''www.'' (lower (case us_hostname u of None \<Rightarrow> [] | Some h \<Rightarrow> h)))"

lemma ascii_lower_idem [simp]: "ascii_lower (ascii_lower c) = ascii_lower c"
proof -
  have "(of_char (char_of (of_char c + 32 :: nat)) :: nat) = of_char c + 32"
    if "(of_char c :: nat) \<le> 90"
    using that by (simp add: of_char_of)
  then show ?thesis by (simp add: ascii_lower_def Let_def)
qed

lemma lower_idem [simp]: "lower (lower s) = lower s"
  by (simp add: lower_def comp_def)

text \<open>\<open>s.split(c)\<close>, \<open>sep.join(ws)\<close> and \<open>x or ""\<close>\<close>

fun split_on :: "char \<Rightarrow> string \<Rightarrow> string list" where
  "split_on c [] = [[]]"
| "split_on c (x # xs) =
     (case split_on c xs of
        [] \<Rightarrow> []
      | w # ws \<Rightarrow> if x = c then [] # w # ws else (x # w) # ws)"

fun join_with :: "string \<Rightarrow> string list \<Rightarrow> string" where
  "join_with sep [] = []"
| "join_with sep [w] = w"
| "join_with sep (w # ws) = w @ sep @ join_with sep ws"

definition opt_text :: "string option \<Rightarrow> string" where
  "opt_text x = (case x of None \<Rightarrow> [] | Some s \<Rightarrow> s)"

lemma split_on_nonempty [simp]: "split_on c s \<noteq> []"
  by (induction s) (auto split: list.splits)

lemma join_split_on: "join_with [c] (split_on c s) = s"
proof (induction s)
  case (Cons x xs)
  obtain w ws where w: "split_on c xs = w # ws" by (meson neq_Nil_conv split_on_nonempty)
  with Cons.IH have "join_with [c] (w # ws) = xs" by simp
  then show ?case using w by (cases ws) auto
qed simp

lemma split_on_avoids: "w \<in> set (split_on c s) \<Longrightarrow> c \<notin> set w"
proof (induction s arbitrary: w)
  case (Cons x xs)
  obtain v vs where v: "split_on c xs = v # vs" by (meson neq_Nil_conv split_on_nonempty)
  then have "c \<notin> set v" "\<And>u. u \<in> set vs \<Longrightarrow> c \<notin> set u" using Cons.IH by auto
  then show ?case using Cons.prems v by (auto split: if_splits)
qed simp

lemma split_on_single: "c \<notin> set s \<Longrightarrow> split_on c s = [s]"
  by (induction s) auto

lemma split_on_append: "c \<notin> set w \<Longrightarrow> split_on c (w @ c # s) = w # split_on c s"
  by (induction w) (auto split: list.splits)

lemma split_join_on: "ws \<noteq> [] \<Longrightarrow> (\<And>w. w \<in> set ws \<Longrightarrow> c \<notin> set w) \<Longrightarrow> split_on c (join_with [c] ws) = ws"
proof (induction ws)
  case (Cons w ws)
  then show ?case by (cases ws) (auto simp: split_on_append split_on_single)
qed simp

subsection \<open>Putting a URL together\<close>

definition urlunsplit :: "string \<Rightarrow> string \<Rightarrow> string \<Rightarrow> string \<Rightarrow> string \<Rightarrow> string" where
  "urlunsplit scheme netloc path query fragment =
     (let url1 = (if netloc \<noteq> [] \<or> scheme \<noteq> [] \<and> take 2 path \<noteq> ''//''
                  then ''//'' @ netloc @ (if path \<noteq> [] \<and> take 1 path \<noteq> ''/'' then CHR ''/'' # path else path)
                  else path);
          url2 = (if scheme \<noteq> [] then scheme @ CHR '':'' # url1 else url1);
          url3 = (if query \<noteq> [] then url2 @ CHR ''?'' # query else url2)
      in if fragment \<noteq> [] then url3 @ CHR ''#'' # fragment else url3)"

text \<open>The parameters of the last segment of a path (\<open>urlparse\<close> and \<open>urlunparse\<close>).\<close>

definition split_params :: "string \<Rightarrow> string \<times> string" where
  "split_params path =
     (let last_segment = after_last CHR ''/'' path;
          prefix = take (length path - length last_segment) path
      in case partition_at CHR '';'' last_segment of
           (before, Some params) \<Rightarrow> (prefix @ before, params)
         | (_, None) \<Rightarrow> (path, []))"

definition with_params :: "string \<Rightarrow> string \<Rightarrow> string" where
  "with_params path params = (if params = [] then path else path @ CHR '';'' # params)"

fun resolve_segments :: "string list \<Rightarrow> string list \<Rightarrow> string list" where
  "resolve_segments done_rev [] = rev done_rev"
| "resolve_segments done_rev (s # ss) =
     (if s = ''..'' then resolve_segments (drop 1 done_rev) ss
      else if s = ''.'' then resolve_segments done_rev ss
      else resolve_segments (s # done_rev) ss)"

text \<open>
  \<open>urljoin(base, url)\<close> for a base whose scheme is http or https, which the source always has.
\<close>

definition urljoin :: "string \<Rightarrow> string \<Rightarrow> exn + string" where
  "urljoin base url =
     (if base = [] then Inr url
      else if url = [] then Inr base
      else (case urlsplit base of
              Inl e \<Rightarrow> Inl e
            | Inr b \<Rightarrow>
              (case urlsplit url of
                 Inl e \<Rightarrow> Inl e
               | Inr u \<Rightarrow>
                 (let scheme = (if us_scheme u = [] then us_scheme b else us_scheme u);
                      (bpath, bparams) = split_params (us_path b);
                      (path, params) = split_params (us_path u)
                  in if scheme \<noteq> us_scheme b then Inr url
                     else if us_netloc u \<noteq> []
                     then Inr (urlunsplit scheme (us_netloc u) (with_params path params) (us_query u) (us_fragment u))
                     else if path = [] \<and> params = []
                     then Inr (urlunsplit scheme (us_netloc b) (with_params bpath bparams)
                            (if us_query u = [] then us_query b else us_query u) (us_fragment u))
                     else
                       (let parts = split_on CHR ''/'' bpath;
                            base_parts = (if last parts = [] then parts else butlast parts);
                            own = split_on CHR ''/'' path;
                            joined = base_parts @ own;
                            segments = (if take 1 path = ''/'' then own
                                        else if length joined \<le> 2 then joined
                                        else hd joined # filter (\<lambda>s. s \<noteq> []) (butlast (tl joined)) @ [last joined]);
                            resolved = resolve_segments [] segments
                              @ (if last segments \<in> {''.'', ''..''} then [[]] else []);
                            target = join_with ''/'' resolved
                        in Inr (urlunsplit scheme (us_netloc b)
                              (with_params (if target = [] then ''/'' else target) params)
                              (us_query u) (us_fragment u)))))))"

end
