(* ===== verification/Discovery_Models.thy ===== *)
theory Discovery_Models
  imports Job_Models Url
begin

text \<open>
  The persisted snapshot of a competitor-discovery task (app/competitors_v22/models.py and
  the contracts of app/api/v2/competitor_models.py it embeds). \<open>validate_discovery\<close> is the
  pydantic model. Values of nested contracts were validated when they were built, so their
  texts are stripped already.
\<close>

datatype discovery_stage =
    Ds_queued | Ds_collecting_market | Ds_ranking_candidates | Ds_validating_supplements
  | Ds_completed | Ds_failed

datatype confidence = Conf_low | Conf_medium | Conf_high

record competitor_candidate =
  ca_competitor_id :: string
  ca_business_name :: string
  ca_website_url :: string
  ca_public_gbp_url :: "string option"
  ca_query_appearance_count :: int
  ca_best_position :: int
  ca_relevance_reason :: string
  ca_confidence :: confidence

record data_gap =
  gap_code :: string
  gap_message :: string
  gap_blocking :: bool
  gap_resolution :: string

record discovery_error =
  de_error_code :: string
  de_user_message :: string
  de_retryable :: bool
  de_stage :: discovery_stage
  de_diagnostic_id :: uuid

record discovery_result =
  dr_discovery_id :: uuid
  dr_case_id :: uuid
  dr_input_digest :: string
  dr_candidate_digest :: string
  dr_market_snapshot_id :: uuid
  dr_market_snapshot_checksum :: string
  dr_candidates :: "competitor_candidate list"
  dr_ready_for_confirmation :: bool
  dr_data_gaps :: "data_gap list"
  dr_limitations :: "string list"
  dr_created_at :: timestamp
  dr_expires_at :: timestamp

record discovery_state =
  ds_discovery_job_id :: uuid
  ds_case_id :: uuid
  ds_status :: job_status
  ds_stage :: discovery_stage
  ds_progress :: int
  ds_message :: string
  ds_attempt_count :: int
  ds_run_generation :: int
  ds_revision :: int
  ds_request_digest :: string
  ds_idempotency_key_digest :: string
  ds_heartbeat_at :: "timestamp option"
  ds_created_at :: timestamp
  ds_updated_at :: timestamp
  ds_completed_at :: "timestamp option"
  ds_result :: "discovery_result option"
  ds_error :: "discovery_error option"
  ds_cost_counters :: counters

definition candidate_valid :: "competitor_candidate \<Rightarrow> bool" where
  "candidate_valid c \<longleftrightarrow> text_len 1 240 (ca_business_name c) \<and> 1 \<le> ca_query_appearance_count c
     \<and> 1 \<le> ca_best_position c \<and> ca_relevance_reason c \<noteq> []"

definition gap_valid :: "data_gap \<Rightarrow> bool" where
  "gap_valid g \<longleftrightarrow> text_len 1 100 (gap_code g) \<and> list_all error_code_char (gap_code g)
     \<and> gap_message g \<noteq> [] \<and> gap_resolution g \<noteq> []"

definition COMPETITOR_MIN_COUNT :: nat where "COMPETITOR_MIN_COUNT = 1"

definition discovery_result_valid :: "discovery_result \<Rightarrow> bool" where
  "discovery_result_valid r \<longleftrightarrow>
     valid_digest (dr_input_digest r) \<and> valid_digest (dr_candidate_digest r)
   \<and> valid_digest (dr_market_snapshot_checksum r)
   \<and> length (dr_candidates r) \<le> 6 \<and> list_all candidate_valid (dr_candidates r)
   \<and> length (dr_data_gaps r) \<le> 50 \<and> list_all gap_valid (dr_data_gaps r)
   \<and> length (dr_limitations r) \<le> 100 \<and> list_all (text_len 1 300) (dr_limitations r)
   \<and> dr_created_at r < dr_expires_at r
   \<and> distinct (map ca_competitor_id (dr_candidates r))
   \<and> distinct (map (\<lambda>c. site_domain (ca_website_url c)) (dr_candidates r))
   \<and> (dr_ready_for_confirmation r \<longrightarrow> COMPETITOR_MIN_COUNT \<le> length (dr_candidates r))
   \<and> (\<not> dr_ready_for_confirmation r \<longrightarrow> list_ex gap_blocking (dr_data_gaps r))"

definition validate_discovery_error :: "discovery_error \<Rightarrow> discovery_error option" where
  "validate_discovery_error e =
     (let e' = e\<lparr>de_error_code := strip_text (de_error_code e),
                 de_user_message := strip_text (de_user_message e)\<rparr>
      in if text_len 1 120 (de_error_code e') \<and> list_all error_code_char (de_error_code e')
            \<and> text_len 1 500 (de_user_message e')
         then Some e' else None)"

definition discovery_terminal :: "discovery_state \<Rightarrow> bool" where
  "discovery_terminal st \<longleftrightarrow> ds_status st \<in> {Succeeded, Failed}"

text \<open>\<open>validate_lifecycle\<close>.\<close>

definition discovery_lifecycle_ok :: "discovery_state \<Rightarrow> bool" where
  "discovery_lifecycle_ok st \<longleftrightarrow>
     ds_created_at st \<le> ds_updated_at st
   \<and> (case ds_completed_at st of None \<Rightarrow> True | Some t \<Rightarrow> ds_created_at st \<le> t)
   \<and> (case ds_status st of
        Succeeded \<Rightarrow>
          (case ds_result st of
             None \<Rightarrow> False
           | Some r \<Rightarrow> dr_discovery_id r = ds_discovery_job_id st \<and> dr_case_id r = ds_case_id st)
          \<and> ds_error st = None \<and> ds_stage st = Ds_completed \<and> ds_progress st = 100
          \<and> ds_completed_at st \<noteq> None
      | Failed \<Rightarrow>
          ds_error st \<noteq> None \<and> ds_result st = None \<and> ds_stage st = Ds_failed \<and> ds_completed_at st \<noteq> None
      | _ \<Rightarrow> ds_result st = None \<and> ds_error st = None \<and> ds_completed_at st = None)"

definition discovery_fields_ok :: "discovery_state \<Rightarrow> bool" where
  "discovery_fields_ok st \<longleftrightarrow>
     0 \<le> ds_progress st \<and> ds_progress st \<le> 100 \<and> text_len 1 500 (ds_message st)
   \<and> 0 \<le> ds_attempt_count st \<and> 1 \<le> ds_run_generation st \<and> 1 \<le> ds_revision st
   \<and> valid_digest (ds_request_digest st) \<and> valid_digest (ds_idempotency_key_digest st)
   \<and> (case ds_result st of None \<Rightarrow> True | Some r \<Rightarrow> discovery_result_valid r)"

definition validate_discovery :: "discovery_state \<Rightarrow> exn + discovery_state" where
  "validate_discovery st0 =
     (let st = st0\<lparr>ds_message := strip_text (ds_message st0),
                   ds_request_digest := strip_text (ds_request_digest st0),
                   ds_idempotency_key_digest := strip_text (ds_idempotency_key_digest st0)\<rparr>
      in case (case ds_error st of None \<Rightarrow> Some None
               | Some e \<Rightarrow> map_option Some (validate_discovery_error e)) of
           None \<Rightarrow> Inl ValidationError
         | Some err \<Rightarrow>
           (case validate_cost_counters_snapshot (ds_cost_counters st) of
              Inl e \<Rightarrow> Inl ValidationError
            | Inr cc \<Rightarrow>
              (let st' = st\<lparr>ds_error := err, ds_cost_counters := cc\<rparr>
               in if discovery_fields_ok st' \<and> discovery_lifecycle_ok st' then Inr st'
                  else Inl ValidationError)))"

definition discovery_valid :: "discovery_state \<Rightarrow> bool" where
  "discovery_valid st \<longleftrightarrow> validate_discovery st = Inr st"

subsection \<open>Facts about validation\<close>

lemma validate_discovery_error_idem:
  "validate_discovery_error e = Some e' \<Longrightarrow> validate_discovery_error e' = Some e'"
  by (auto simp: validate_discovery_error_def Let_def strip_text_def split: if_splits)

lemma validate_discovery_Inr:
  assumes "validate_discovery st = Inr st'"
  shows "discovery_valid st'" "discovery_fields_ok st'" "discovery_lifecycle_ok st'"
    "ds_discovery_job_id st' = ds_discovery_job_id st" "ds_case_id st' = ds_case_id st"
    "ds_status st' = ds_status st" "ds_stage st' = ds_stage st"
    "ds_progress st' = ds_progress st" "ds_attempt_count st' = ds_attempt_count st"
    "ds_run_generation st' = ds_run_generation st" "ds_revision st' = ds_revision st"
    "ds_created_at st' = ds_created_at st" "ds_updated_at st' = ds_updated_at st"
    "ds_result st' = ds_result st"
    "ds_error st' = None \<longleftrightarrow> ds_error st = None"
    "discovery_terminal st' = discovery_terminal st"
proof -
  define st1 where "st1 = st\<lparr>ds_message := strip_text (ds_message st),
     ds_request_digest := strip_text (ds_request_digest st),
     ds_idempotency_key_digest := strip_text (ds_idempotency_key_digest st)\<rparr>"
  obtain err cc where
    err: "(case ds_error st1 of None \<Rightarrow> Some None
          | Some e \<Rightarrow> map_option Some (validate_discovery_error e)) = Some err"
    and cc: "validate_cost_counters_snapshot (ds_cost_counters st1) = Inr cc"
    and st': "st' = st1\<lparr>ds_error := err, ds_cost_counters := cc\<rparr>"
    and ok: "discovery_fields_ok st'" "discovery_lifecycle_ok st'"
    using assms by (auto simp: validate_discovery_def Let_def st1_def
        split: option.splits sum.splits if_splits)
  have err': "(case err of None \<Rightarrow> Some None
      | Some e \<Rightarrow> map_option Some (validate_discovery_error e)) = Some err"
    using err by (auto split: option.splits dest: validate_discovery_error_idem)
  have cc': "cc = ds_cost_counters st1" using cc by (rule validate_counters_root)
  have strip: "strip_text (strip_text s) = strip_text s" for s by (simp add: strip_text_def)
  show "discovery_valid st'"
    using err' cc ok unfolding discovery_valid_def validate_discovery_def Let_def
    by (simp add: st' st1_def strip cc')
  show "discovery_fields_ok st'" "discovery_lifecycle_ok st'" by (fact ok)+
  show "ds_error st' = None \<longleftrightarrow> ds_error st = None"
    using err by (auto simp: st' st1_def split: option.splits)
qed (use assms in \<open>auto simp: validate_discovery_def Let_def discovery_terminal_def
       split: option.splits sum.splits if_splits dest: validate_counters_root\<close>)

lemma discovery_valid_fields:
  "discovery_valid st \<Longrightarrow> discovery_fields_ok st" "discovery_valid st \<Longrightarrow> discovery_lifecycle_ok st"
  by (auto simp: discovery_valid_def dest: validate_discovery_Inr)

lemma validate_discovery_valid [simp]: "discovery_valid st \<Longrightarrow> validate_discovery st = Inr st"
  by (simp add: discovery_valid_def)

lemma validate_discovery_Inl: "validate_discovery st = Inl e \<Longrightarrow> e = ValidationError"
  by (auto simp: validate_discovery_def Let_def split: option.splits sum.splits if_splits)

subsection \<open>Shared market snapshots\<close>

text \<open>The market document is opaque but for the job it names.\<close>

record market_snapshot =
  ms_job_id :: uuid
  ms_document :: json

record shared_market =
  sm_snapshot_id :: uuid
  sm_source_job_id :: uuid
  sm_input_digest :: string
  sm_snapshot_checksum :: string
  sm_created_at :: timestamp
  sm_expires_at :: timestamp
  sm_snapshot :: market_snapshot

definition shared_market_valid :: "shared_market \<Rightarrow> bool" where
  "shared_market_valid m \<longleftrightarrow> valid_digest (sm_input_digest m) \<and> valid_digest (sm_snapshot_checksum m)
     \<and> sm_created_at m < sm_expires_at m \<and> ms_job_id (sm_snapshot m) = sm_source_job_id m"

end
