(* ===== verification/Redis_Interface.thy ===== *)
theory Redis_Interface
  imports Prelude
begin

text \<open>
  Redis is not part of the repository: it is a parameter of the model. A value of
  \<open>('s, 'v) redis\<close> gives the reads the code issues and the atomic execution of a list of
  commands on a server state of any type \<open>'s\<close>. The locale \<open>redis_laws\<close> names the
  documented behaviour the code relies on: what GET and the sorted-set reads return
  after a transaction, the order of ZRANGE. \<open>mem_redis\<close> is one server that satisfies
  the laws; the witnesses run on it.

  An operation of the code that uses WATCH / MULTI / EXEC is a decision (\<open>txn\<close>):
  fail, return without writing, or commit a list of commands. \<open>run_txn\<close> applies it in
  one step; \<open>watch_loop\<close> is the code's \<open>while True ... except WatchError: continue\<close>
  with other clients acting between the reads and the EXEC, and the lemmas of this
  theory say when the second is the first.
\<close>

datatype 'v rcmd =
    SetEx string 'v int                   \<comment> \<open>SET key value EX seconds\<close>
  | Expire string int                     \<comment> \<open>EXPIRE key seconds\<close>
  | Del "string list"                     \<comment> \<open>DEL key ...\<close>
  | Zadd string string score              \<comment> \<open>ZADD key score member\<close>
  | Zrem string string                    \<comment> \<open>ZREM key member\<close>
  | Zremrangebyscore string score         \<comment> \<open>ZREMRANGEBYSCORE key -inf max\<close>
  | Publish string string                 \<comment> \<open>PUBLISH channel message\<close>

text \<open>SET and EXPIRE with a time to live that is not positive are errors or deletions.\<close>

fun cmd_ok :: "'v rcmd \<Rightarrow> bool" where
  "cmd_ok (SetEx _ _ ttl) = (0 < ttl)"
| "cmd_ok (Expire _ ttl) = (0 < ttl)"
| "cmd_ok _ = True"

text \<open>What a command does to the string keys and to the sorted sets.\<close>

fun cmd_kv :: "'v rcmd \<Rightarrow> (string \<Rightarrow> 'v option) \<Rightarrow> (string \<Rightarrow> 'v option)" where
  "cmd_kv (SetEx k v _) m = m(k \<mapsto> v)"
| "cmd_kv (Del ks) m = (\<lambda>k. if k \<in> set ks then None else m k)"
| "cmd_kv _ m = m"

fun cmd_zs :: "'v rcmd \<Rightarrow> (string \<Rightarrow> string \<Rightarrow> score option) \<Rightarrow> (string \<Rightarrow> string \<Rightarrow> score option)"
where
  "cmd_zs (SetEx k _ _) z = z(k := Map.empty)"
| "cmd_zs (Del ks) z = (\<lambda>k. if k \<in> set ks then Map.empty else z k)"
| "cmd_zs (Zadd k m sc) z = z(k := (z k)(m \<mapsto> sc))"
| "cmd_zs (Zrem k m) z = z(k := (z k)(m := None))"
| "cmd_zs (Zremrangebyscore k mx) z =
     z(k := (\<lambda>m. case z k m of None \<Rightarrow> None | Some sc \<Rightarrow> if sc \<le> mx then None else Some sc))"
| "cmd_zs _ z = z"

record ('s, 'v) redis =
  rget :: "'s \<Rightarrow> string \<Rightarrow> 'v option"                      \<comment> \<open>GET\<close>
  rzall :: "'s \<Rightarrow> string \<Rightarrow> (string \<times> score) list"          \<comment> \<open>ZRANGE key 0 -1 WITHSCORES\<close>
  rexec :: "'v rcmd list \<Rightarrow> 's \<Rightarrow> 's"                       \<comment> \<open>MULTI ... EXEC\<close>

text \<open>The other reads are parts of the full range.\<close>

definition zscore :: "('s, 'v) redis \<Rightarrow> 's \<Rightarrow> string \<Rightarrow> string \<Rightarrow> score option" where
  "zscore R s k m = map_of (rzall R s k) m"

definition zcard :: "('s, 'v) redis \<Rightarrow> 's \<Rightarrow> string \<Rightarrow> nat" where
  "zcard R s k = length (rzall R s k)"

definition zrange :: "('s, 'v) redis \<Rightarrow> 's \<Rightarrow> string \<Rightarrow> nat \<Rightarrow> (string \<times> score) list" where
  "zrange R s k n = take n (rzall R s k)"

definition zrangebyscore ::
    "('s, 'v) redis \<Rightarrow> 's \<Rightarrow> string \<Rightarrow> score \<Rightarrow> nat \<Rightarrow> (string \<times> score) list" where
  "zrangebyscore R s k mx n = take n (filter (\<lambda>p. snd p \<le> mx) (rzall R s k))"

text \<open>SET key value NX EX seconds: the new state, and whether the key was set.\<close>

definition set_nx :: "('s, 'v) redis \<Rightarrow> string \<Rightarrow> 'v \<Rightarrow> int \<Rightarrow> 's \<Rightarrow> 's \<times> bool" where
  "set_nx R k v ttl s =
     (if rget R s k = None then (rexec R [SetEx k v ttl] s, True) else (s, False))"

subsection \<open>The documented behaviour\<close>

locale redis_laws =
  fixes R :: "('s, 'v) redis"
  assumes get_exec: "list_all cmd_ok cs \<Longrightarrow> rget R (rexec R cs s) = fold cmd_kv cs (rget R s)"
    and zscore_exec: "list_all cmd_ok cs \<Longrightarrow> zscore R (rexec R cs s) = fold cmd_zs cs (zscore R s)"
    and distinct_zall: "distinct (map fst (rzall R s k))"
    and sorted_zall: "sorted (map (\<lambda>p. (snd p, fst p)) (rzall R s k))"
begin

lemma zscore_Some_iff: "zscore R s k m = Some sc \<longleftrightarrow> (m, sc) \<in> set (rzall R s k)"
  by (simp add: zscore_def distinct_zall)

lemma zrange_member: "(m, sc) \<in> set (zrange R s k n) \<Longrightarrow> zscore R s k m = Some sc"
  by (auto simp: zrange_def zscore_Some_iff dest: in_set_takeD)

lemma zrangebyscore_member:
  "(m, sc) \<in> set (zrangebyscore R s k mx n) \<Longrightarrow> zscore R s k m = Some sc \<and> sc \<le> mx"
  by (auto simp: zrangebyscore_def zscore_Some_iff dest!: in_set_takeD)

lemma zcard_eq: "zcard R s k = card (dom (zscore R s k))"
proof -
  have "dom (zscore R s k) = fst ` set (rzall R s k)"
    by (simp add: zscore_def[abs_def] dom_map_of_conv_image_fst)
  moreover have "card (fst ` set (rzall R s k)) = length (rzall R s k)"
    using distinct_card [OF distinct_zall, of s k] by simp
  ultimately show ?thesis by (simp add: zcard_def)
qed

text \<open>A range that is not full shows every member.\<close>

lemma zrange_complete:
  "zscore R s k m = Some sc \<Longrightarrow> length (zrange R s k n) < n \<Longrightarrow> (m, sc) \<in> set (zrange R s k n)"
  by (auto simp: zrange_def zscore_Some_iff)

lemma zrangebyscore_complete:
  "zscore R s k m = Some sc \<Longrightarrow> sc \<le> mx \<Longrightarrow> length (zrangebyscore R s k mx n) < n \<Longrightarrow>
   (m, sc) \<in> set (zrangebyscore R s k mx n)"
  by (auto simp: zrangebyscore_def zscore_Some_iff)

end

subsection \<open>Transactions\<close>

text \<open>
  \<open>Commit cs pubs a\<close>: the commands queued on the pipeline, the messages published after
  it, the value returned.
\<close>

datatype ('e, 'v, 'a) txn =
    Fail 'e
  | Return 'a
  | Commit "'v rcmd list" "(string \<times> string) list" 'a

definition publish_all :: "(string \<times> string) list \<Rightarrow> 'v rcmd list" where
  "publish_all pubs = map (\<lambda>(c, m). Publish c m) pubs"

fun run_txn :: "('s, 'v) redis \<Rightarrow> ('s \<Rightarrow> ('e, 'v, 'a) txn) \<Rightarrow> 's \<Rightarrow> 's \<times> ('e + 'a)" where
  "run_txn R body s =
     (case body s of
        Fail e \<Rightarrow> (s, Inl e)
      | Return a \<Rightarrow> (s, Inr a)
      | Commit cs pubs a \<Rightarrow> (rexec R (publish_all pubs) (rexec R cs s), Inr a))"

declare run_txn.simps [simp del]

text \<open>
  One attempt of the loop is \<open>(read, touched, now)\<close>: the state the reads saw after WATCH,
  whether another client wrote a watched key before EXEC, and the state EXEC runs on.
  EXEC is refused (WatchError) when a watched key was touched. None: the attempts given
  ran out with the loop still retrying.
\<close>

fun watch_loop ::
    "('s, 'v) redis \<Rightarrow> ('s \<Rightarrow> ('e, 'v, 'a) txn) \<Rightarrow> ('s \<times> bool \<times> 's) list \<Rightarrow> ('s \<times> ('e + 'a)) option"
where
  "watch_loop R body [] = None"
| "watch_loop R body ((rd, touched, now) # rest) =
     (case body rd of
        Fail e \<Rightarrow> Some (now, Inl e)
      | Return a \<Rightarrow> Some (now, Inr a)
      | Commit cs pubs a \<Rightarrow>
          if touched then watch_loop R body rest
          else Some (rexec R (publish_all pubs) (rexec R cs now), Inr a))"

text \<open>WATCH's promise: a watched key that was not touched reads the same at EXEC.\<close>

definition same_watched :: "('s, 'v) redis \<Rightarrow> string list \<Rightarrow> 's \<Rightarrow> 's \<Rightarrow> bool" where
  "same_watched R ks s t \<longleftrightarrow>
     (\<forall>k \<in> set ks. rget R s k = rget R t k \<and> rzall R s k = rzall R t k)"

definition watch_promise ::
    "('s, 'v) redis \<Rightarrow> string list \<Rightarrow> ('s \<times> bool \<times> 's) list \<Rightarrow> bool" where
  "watch_promise R ks atts \<longleftrightarrow>
     list_all (\<lambda>(rd, touched, now). touched \<or> same_watched R ks rd now) atts"

text \<open>A body reads watched keys only: it decides alike on states that agree on them.\<close>

definition reads_only :: "('s, 'v) redis \<Rightarrow> string list \<Rightarrow> ('s \<Rightarrow> ('e, 'v, 'a) txn) \<Rightarrow> bool" where
  "reads_only R ks body \<longleftrightarrow> (\<forall>s t. same_watched R ks s t \<longrightarrow> body s = body t)"

lemma same_watched_get: "same_watched R ks s t \<Longrightarrow> k \<in> set ks \<Longrightarrow> rget R s k = rget R t k"
  by (simp add: same_watched_def)

lemma same_watched_zscore:
  "same_watched R ks s t \<Longrightarrow> k \<in> set ks \<Longrightarrow> zscore R s k m = zscore R t k m"
  by (simp add: same_watched_def zscore_def)

text \<open>
  The loop is linearizable: what it commits is what the atomic operation does on the state
  at the EXEC of its last attempt; a result without a commit is the decision on the state
  its reads saw, and it leaves the server as it is.
\<close>

lemma watch_loop_linearizable:
  assumes "watch_loop R body atts = Some (s', r)"
    and "reads_only R ks body" and "watch_promise R ks atts"
  shows "\<exists>(rd, touched, now) \<in> set atts.
     (s', r) = run_txn R body now \<or> (s' = now \<and> (rd, r) = run_txn R body rd)"
  using assms
proof (induction atts)
  case Nil
  then show ?case by simp
next
  case (Cons att rest)
  obtain rd touched now where att: "att = (rd, touched, now)" by (cases att)
  show ?case
  proof (cases "body rd")
    case (Fail e)
    with Cons.prems(1) att show ?thesis by (auto simp: run_txn.simps)
  next
    case (Return a)
    with Cons.prems(1) att show ?thesis by (auto simp: run_txn.simps)
  next
    case (Commit cs pubs a)
    show ?thesis
    proof (cases touched)
      case True
      with Cons Commit att show ?thesis by (auto simp: watch_promise_def)
    next
      case False
      with Cons.prems(3) att have "same_watched R ks rd now"
        by (simp add: watch_promise_def)
      with Cons.prems(2) Commit have "body now = Commit cs pubs a"
        by (simp add: reads_only_def)
      with Cons.prems(1) Commit att False show ?thesis by (auto simp: run_txn.simps)
    qed
  qed
qed

text \<open>Without interference the first attempt is the atomic operation.\<close>

lemma watch_loop_alone: "watch_loop R body ((s, False, s) # rest) = Some (run_txn R body s)"
  by (simp add: run_txn.simps split: txn.splits)

lemma watch_loop_undisturbed_returns:
  "(rd, False, now) \<in> set atts \<Longrightarrow> \<exists>res. watch_loop R body atts = Some res"
  by (induction atts) (auto split: txn.splits)

subsection \<open>A server in memory\<close>

type_synonym 'v mem = "(string \<Rightarrow> 'v option) \<times> (string \<Rightarrow> (string \<times> score) list)"

definition zput :: "string \<Rightarrow> score \<Rightarrow> (string \<times> score) list \<Rightarrow> (string \<times> score) list" where
  "zput m sc xs = insort_key (\<lambda>p. (snd p, fst p)) (m, sc) (filter (\<lambda>p. fst p \<noteq> m) xs)"

fun mem_cmd :: "'v rcmd \<Rightarrow> 'v mem \<Rightarrow> 'v mem" where
  "mem_cmd (SetEx k v ttl) (m, z) = (m(k \<mapsto> v), z(k := []))"
| "mem_cmd (Expire k ttl) (m, z) = (m, z)"
| "mem_cmd (Del ks) (m, z) =
     ((\<lambda>k. if k \<in> set ks then None else m k), (\<lambda>k. if k \<in> set ks then [] else z k))"
| "mem_cmd (Zadd k x sc) (m, z) = (m, z(k := zput x sc (z k)))"
| "mem_cmd (Zrem k x) (m, z) = (m, z(k := filter (\<lambda>p. fst p \<noteq> x) (z k)))"
| "mem_cmd (Zremrangebyscore k mx) (m, z) = (m, z(k := filter (\<lambda>p. \<not> snd p \<le> mx) (z k)))"
| "mem_cmd (Publish c x) (m, z) = (m, z)"

definition zset_wf :: "(string \<times> score) list \<Rightarrow> bool" where
  "zset_wf xs \<longleftrightarrow> distinct (map fst xs) \<and> sorted (map (\<lambda>p. (snd p, fst p)) xs)"

text \<open>A state whose sorted sets are not in order stands for the empty sets.\<close>

definition mem_zall :: "'v mem \<Rightarrow> string \<Rightarrow> (string \<times> score) list" where
  "mem_zall s k = (if zset_wf (snd s k) then snd s k else [])"

definition mem_norm :: "'v mem \<Rightarrow> 'v mem" where
  "mem_norm s = (fst s, mem_zall s)"

definition mem_redis :: "('v mem, 'v) redis" where
  "mem_redis = \<lparr>rget = fst, rzall = mem_zall, rexec = (\<lambda>cs s. fold mem_cmd cs (mem_norm s))\<rparr>"

definition mem_empty :: "'v mem" where
  "mem_empty = (Map.empty, \<lambda>_. [])"

definition mem_wf :: "'v mem \<Rightarrow> bool" where
  "mem_wf s \<longleftrightarrow> (\<forall>k. zset_wf (snd s k))"

lemma zset_wf_Nil [simp]: "zset_wf []"
  by (simp add: zset_wf_def)

lemma zset_wf_filter: "zset_wf xs \<Longrightarrow> zset_wf (filter Q xs)"
  by (auto simp: zset_wf_def sorted_map distinct_map_filter intro: sorted_wrt_filter)

lemma zset_wf_zput: "zset_wf xs \<Longrightarrow> zset_wf (zput m sc xs)"
proof -
  assume "zset_wf xs"
  then have "zset_wf (filter (\<lambda>p. fst p \<noteq> m) xs)" by (rule zset_wf_filter)
  then show ?thesis
    unfolding zset_wf_def zput_def
    by (intro conjI distinct_fst_insort_key sorted_insort_key [THEN iffD2]) auto
qed

lemma map_of_zput: "map_of (zput m sc xs) = (map_of xs)(m \<mapsto> sc)"
  by (simp add: zput_def map_of_insort_key map_of_filter_fst image_iff)

lemma mem_cmd_wf: "mem_wf s \<Longrightarrow> mem_wf (mem_cmd c s)"
  by (cases "(c, s)" rule: mem_cmd.cases)
    (auto simp: mem_wf_def zset_wf_zput zset_wf_filter)

lemma mem_cmd_kv: "fst (mem_cmd c s) = cmd_kv c (fst s)"
  by (cases "(c, s)" rule: mem_cmd.cases) auto

lemma mem_cmd_zs:
  assumes "mem_wf s"
  shows "map_of \<circ> snd (mem_cmd c s) = cmd_zs c (map_of \<circ> snd s)"
proof -
  have d: "distinct (map fst (snd s k))" for k
    using assms by (simp add: mem_wf_def zset_wf_def)
  show ?thesis
  proof (cases "(c, s)" rule: mem_cmd.cases)
    case (6 k mx m z)
    with d have "distinct (map fst (z k))" for k by (cases s) auto
    then show ?thesis using 6
      by (auto simp: fun_eq_iff map_of_filter_value [where Q = "\<lambda>sc. \<not> sc \<le> mx"] split: option.splits)
  qed (auto simp: fun_eq_iff map_of_zput map_of_filter_fst)
qed

lemma mem_norm_wf: "mem_wf (mem_norm s)"
  by (simp add: mem_wf_def mem_norm_def mem_zall_def)

lemma mem_wf_zall: "mem_wf s \<Longrightarrow> mem_zall s = snd s"
  by (simp add: fun_eq_iff mem_zall_def mem_wf_def)

lemma fold_mem_cmd_wf: "mem_wf s \<Longrightarrow> mem_wf (fold mem_cmd cs s)"
  by (rule map_of_fold_pres [where P = mem_wf]) (auto intro: mem_cmd_wf)

lemma fold_mem_cmd_kv: "fst (fold mem_cmd cs s) = fold cmd_kv cs (fst s)"
  by (induction cs arbitrary: s) (auto simp: mem_cmd_kv)

lemma fold_mem_cmd_zs:
  "mem_wf s \<Longrightarrow> map_of \<circ> snd (fold mem_cmd cs s) = fold cmd_zs cs (map_of \<circ> snd s)"
  by (induction cs arbitrary: s) (auto simp: mem_cmd_zs mem_cmd_wf)

interpretation mem: redis_laws mem_redis
proof
  fix cs :: "'v rcmd list" and s :: "'v mem" and k
  let ?s' = "fold mem_cmd cs (mem_norm s)"
  show "rget mem_redis (rexec mem_redis cs s) = fold cmd_kv cs (rget mem_redis s)"
    by (simp add: mem_redis_def fold_mem_cmd_kv) (simp add: mem_norm_def)
  have "mem_zall ?s' = snd ?s'"
    by (simp add: mem_wf_zall fold_mem_cmd_wf mem_norm_wf)
  then show "zscore mem_redis (rexec mem_redis cs s) = fold cmd_zs cs (zscore mem_redis s)"
    using fold_mem_cmd_zs [OF mem_norm_wf, of cs s]
    by (simp add: mem_redis_def zscore_def[abs_def] comp_def mem_norm_def)
  show "distinct (map fst (rzall mem_redis s k))"
    "sorted (map (\<lambda>p. (snd p, fst p)) (rzall mem_redis s k))"
    by (auto simp: mem_redis_def mem_zall_def zset_wf_def)
qed

end
