(* ===== verification/Runtime_Values.thy ===== *)
theory Runtime_Values
  imports Discovery_Models Redis_Interface
begin

text \<open>
  What the jobs runtime stores under its keys, and the configuration its components
  share. A stored text is the value it encodes; reading it back decodes that value.
  \<open>sha256\<close> and \<open>json_text\<close> (orjson with sorted keys) are parameters of the configuration.
\<close>

datatype circuit_status = Circuit_closed | Circuit_open

record circuit_state =
  ci_status :: circuit_status
  ci_open_count :: int
  ci_open_until :: timestamp

record cost_summary_record =
  cs_job_id :: uuid
  cs_case_id :: uuid
  cs_job_kind :: cost_job_kind
  cs_status :: job_status
  cs_attempt_count :: int
  cs_ledger_revision :: int
  cs_cost_counters :: counters
  cs_started_at :: timestamp
  cs_completed_at :: timestamp

definition summary_valid :: "cost_summary_record \<Rightarrow> bool" where
  "summary_valid r \<longleftrightarrow>
     cs_status r \<in> {Succeeded, Failed}
   \<and> 0 \<le> cs_attempt_count r \<and> cs_attempt_count r \<le> 100
   \<and> 1 \<le> cs_ledger_revision r
   \<and> cost_counters_v1 (cs_cost_counters r) = Inr (cs_cost_counters r)
   \<and> cs_started_at r \<le> cs_completed_at r
   \<and> map_of (cs_cost_counters r) ''cost_ledger_revision'' = Some (cs_ledger_revision r)"

datatype rval =
    VState job_state
  | VJson json
  | VText string
  | VLedger cost_ledger_state
  | VCircuit circuit_state
  | VSummary cost_summary_record
  | VDiscovery discovery_state
  | VMarket shared_market

type_synonym 's server = "('s, rval) redis"
type_synonym 'a decision = "(exn, rval, 'a) txn"

record runtime_env =
  env_prefix :: string
  env_state_ttl_seconds :: int
  env_job_timeout_seconds :: int
  env_sha256 :: "string \<Rightarrow> string"
  env_json_text :: "json \<Rightarrow> string"

text \<open>
  Settings validation gives a positive time to live and timeout; a SHA-256 hex digest has
  64 hex digits.
\<close>

definition env_ok :: "runtime_env \<Rightarrow> bool" where
  "env_ok E \<longleftrightarrow> 0 < env_state_ttl_seconds E \<and> 0 < env_job_timeout_seconds E
     \<and> (\<forall>x. length (env_sha256 E x) = 64 \<and> list_all is_hex_digit (env_sha256 E x))"

definition request_digest :: "runtime_env \<Rightarrow> json \<Rightarrow> string" where
  "request_digest E v = ''sha256:'' @ env_sha256 E (env_json_text E v)"

lemma env_ok_ttl [simp]: "env_ok E \<Longrightarrow> 0 < env_state_ttl_seconds E"
  by (simp add: env_ok_def)

lemma valid_digest_sha256: "env_ok E \<Longrightarrow> valid_digest (''sha256:'' @ env_sha256 E x)"
  by (simp add: env_ok_def valid_digest_def)

lemma valid_digest_request_digest: "env_ok E \<Longrightarrow> valid_digest (request_digest E v)"
  unfolding request_digest_def by (rule valid_digest_sha256)

text \<open>A digest function for examples: every input has the same digest.\<close>

definition example_env :: runtime_env where
  "example_env = \<lparr>env_prefix = ''test:v22'', env_state_ttl_seconds = 604800,
     env_job_timeout_seconds = 1200, env_sha256 = (\<lambda>_. replicate 64 CHR ''0''),
     env_json_text = (\<lambda>_. [])\<rparr>"

lemma example_env_ok [simp]: "env_ok example_env"
  by (simp add: env_ok_def example_env_def list_all_length is_hex_digit_def)

end
