(* ===== verification/Job_Store.thy ===== *)
theory Job_Store
  imports Runtime_Values
begin

text \<open>
  The durable job store (class \<open>DurableJobStore\<close> of app/jobs_v22/store.py). Every method
  that writes under WATCH / MULTI / EXEC is a decision \<open>..._body\<close> over the state its reads
  see, with the commands it queues in the order of the source; the operation applies it in
  one step with \<open>run_txn\<close>. \<open>E\<close> is the configuration, \<open>R\<close> the server.
\<close>

record registration_result =
  rr_state :: job_state
  rr_replayed :: bool

record transition_result =
  tr_state :: job_state
  tr_applied :: bool

fun status_name :: "job_status \<Rightarrow> string" where
  "status_name Queued = ''queued''"
| "status_name Running = ''running''"
| "status_name Succeeded = ''succeeded''"
| "status_name Failed = ''failed''"

fun ALLOWED_TRANSITIONS :: "job_status \<Rightarrow> job_status list" where
  "ALLOWED_TRANSITIONS Queued = [Queued, Running, Failed]"
| "ALLOWED_TRANSITIONS Running = [Running, Queued, Succeeded, Failed]"
| "ALLOWED_TRANSITIONS Succeeded = []"
| "ALLOWED_TRANSITIONS Failed = []"

subsection \<open>Reads\<close>

definition get_state :: "runtime_env \<Rightarrow> 's server \<Rightarrow> 's \<Rightarrow> uuid \<Rightarrow> exn + job_state option" where
  "get_state E R s j =
     (case rget R s (state_key (env_prefix E) j) of
        None \<Rightarrow> Inr None
      | Some (VState st) \<Rightarrow>
          (case validate_job_state st of Inl e \<Rightarrow> Inl e | Inr st' \<Rightarrow> Inr (Some st'))
      | Some _ \<Rightarrow> Inl ValidationError)"

definition require_state :: "runtime_env \<Rightarrow> 's server \<Rightarrow> 's \<Rightarrow> uuid \<Rightarrow> exn + job_state" where
  "require_state E R s j =
     (case get_state E R s j of
        Inl e \<Rightarrow> Inl e | Inr None \<Rightarrow> Inl JobNotFound | Inr (Some st) \<Rightarrow> Inr st)"

definition decode_json :: "rval \<Rightarrow> exn + json" where
  "decode_json v = (case v of VJson x \<Rightarrow> Inr x | _ \<Rightarrow> Inl (ValueError ''JSONDecodeError''))"

definition get_request :: "runtime_env \<Rightarrow> 's server \<Rightarrow> 's \<Rightarrow> uuid \<Rightarrow> exn + json option" where
  "get_request E R s j =
     (case rget R s (request_key (env_prefix E) j) of
        None \<Rightarrow> Inr None
      | Some raw \<Rightarrow>
          (case decode_json raw of
             Inl e \<Rightarrow> Inl e
           | Inr v \<Rightarrow> Inr (if is_jobj v then Some v else None)))"

subsection \<open>Registration\<close>

record registration_args =
  ra_job_id :: uuid
  ra_case_id :: uuid
  ra_idempotency_key :: string
  ra_request_payload :: json
  ra_now :: timestamp
  ra_created_at :: "timestamp option"
  ra_deadline_at :: "timestamp option"
  ra_initial_generation :: int
  ra_initial_revision :: int
  ra_initial_attempt_count :: int
  ra_initial_cost_counters :: "counters option"

definition idempotency_key_digest :: "runtime_env \<Rightarrow> registration_args \<Rightarrow> string" where
  "idempotency_key_digest E a = ''sha256:'' @ env_sha256 E (ra_idempotency_key a)"

definition initial_state :: "runtime_env \<Rightarrow> registration_args \<Rightarrow> job_state" where
  "initial_state E a =
     \<lparr>js_job_id = ra_job_id a, js_case_id = ra_case_id a, js_status = Queued,
      js_stage = St_queued, js_progress = 0,
      js_message = ''Queued. Analysis will begin shortly.'',
      js_attempt_count = ra_initial_attempt_count a,
      js_run_generation = ra_initial_generation a, js_revision = ra_initial_revision a,
      js_request_digest = request_digest E (ra_request_payload a),
      js_idempotency_key_digest = idempotency_key_digest E a,
      js_heartbeat_at = None,
      js_created_at = (case ra_created_at a of None \<Rightarrow> ra_now a | Some t \<Rightarrow> t),
      js_deadline_at = (case ra_deadline_at a of
         None \<Rightarrow> ra_now a + seconds (env_job_timeout_seconds E) | Some t \<Rightarrow> t),
      js_updated_at = ra_now a, js_completed_at = None, js_report = None, js_error = None,
      js_cost_counters = (case ra_initial_cost_counters a of None \<Rightarrow> [] | Some c \<Rightarrow> c),
      js_callback_synced_revision = 0\<rparr>"

definition identity_record :: "runtime_env \<Rightarrow> registration_args \<Rightarrow> json" where
  "identity_record E a =
     JObj [(''job_id'', JStr (uuid_str (ra_job_id a))), (''case_id'', JStr (uuid_str (ra_case_id a))),
           (''request_digest'', JStr (request_digest E (ra_request_payload a)))]"

definition register_commands ::
    "runtime_env \<Rightarrow> registration_args \<Rightarrow> job_state \<Rightarrow> rval rcmd list" where
  "register_commands E a initial =
     (let p = env_prefix E; ttl = env_state_ttl_seconds E; j = ra_job_id a
      in [SetEx (idempotency_key (env_sha256 E) p (ra_case_id a) (ra_idempotency_key a))
            (VJson (identity_record E a)) ttl,
          SetEx (request_key p j) (VJson (ra_request_payload a)) ttl,
          SetEx (state_key p j) (VState initial) ttl,
          Zadd (active_key p) (uuid_str j) (of_timestamp (ra_now a)),
          Zadd (sync_pending_key p) (uuid_str j) (of_count (js_revision initial))])"

definition register_body ::
    "runtime_env \<Rightarrow> 's server \<Rightarrow> registration_args \<Rightarrow> job_state \<Rightarrow> 's \<Rightarrow> registration_result decision"
where
  "register_body E R a initial s =
     (let p = env_prefix E; j = ra_job_id a; digest = request_digest E (ra_request_payload a)
      in case rget R s (idempotency_key (env_sha256 E) p (ra_case_id a) (ra_idempotency_key a)) of
           Some raw \<Rightarrow>
             (case decode_json raw of
                Inl e \<Rightarrow> Fail e
              | Inr ident \<Rightarrow>
                 if \<not> is_jobj ident then Fail (OtherException ''AttributeError'')
                 else if jget ''request_digest'' ident \<noteq> Some (JStr digest) then Fail IdempotencyConflict
                 else if jget ''job_id'' ident \<noteq> Some (JStr (uuid_str j)) then Fail JobIdentityConflict
                 else (case get_state E R s j of
                         Inl e \<Rightarrow> Fail e
                       | Inr None \<Rightarrow> Fail JobIdentityConflict
                       | Inr (Some existing) \<Rightarrow> Return \<lparr>rr_state = existing, rr_replayed = True\<rparr>))
         | None \<Rightarrow>
             (case get_state E R s j of
                Inl e \<Rightarrow> Fail e
              | Inr (Some existing) \<Rightarrow>
                  if js_case_id existing \<noteq> ra_case_id a \<or> js_request_digest existing \<noteq> digest
                     \<or> js_idempotency_key_digest existing \<noteq> idempotency_key_digest E a
                  then Fail JobIdentityConflict
                  else Return \<lparr>rr_state = existing, rr_replayed = True\<rparr>
              | Inr None \<Rightarrow>
                  Commit (register_commands E a initial)
                    [(events_key p j, int_str (js_revision initial))]
                    \<lparr>rr_state = initial, rr_replayed = False\<rparr>))"

definition register_job ::
    "runtime_env \<Rightarrow> 's server \<Rightarrow> registration_args \<Rightarrow> 's \<Rightarrow> 's \<times> (exn + registration_result)" where
  "register_job E R a s =
     (case validate_job_state (initial_state E a) of
        Inl e \<Rightarrow> (s, Inl e)
      | Inr initial \<Rightarrow> run_txn R (register_body E R a initial) s)"

definition register_watched :: "runtime_env \<Rightarrow> registration_args \<Rightarrow> string list" where
  "register_watched E a =
     [idempotency_key (env_sha256 E) (env_prefix E) (ra_case_id a) (ra_idempotency_key a),
      state_key (env_prefix E) (ra_job_id a)]"

subsection \<open>Transitions\<close>

record transition_args =
  ta_status :: job_status
  ta_stage :: job_stage
  ta_progress :: int
  ta_message :: string
  ta_now :: timestamp
  ta_attempt_count :: "int option"
  ta_heartbeat_at :: "timestamp option"
  ta_report :: "durable_report option"
  ta_error :: "job_error_state option"
  ta_cost_counters :: "counters option"
  ta_expected_generation :: "int option"

text \<open>The call with only its required arguments.\<close>

definition transition_call ::
    "job_status \<Rightarrow> job_stage \<Rightarrow> int \<Rightarrow> string \<Rightarrow> timestamp \<Rightarrow> transition_args" where
  "transition_call st sg pr msg now =
     \<lparr>ta_status = st, ta_stage = sg, ta_progress = pr, ta_message = msg, ta_now = now,
      ta_attempt_count = None, ta_heartbeat_at = None, ta_report = None, ta_error = None,
      ta_cost_counters = None, ta_expected_generation = None\<rparr>"

definition next_state :: "transition_args \<Rightarrow> job_state \<Rightarrow> job_state" where
  "next_state a current = current
     \<lparr>js_status := ta_status a,
      js_stage := ta_stage a,
      js_progress := ta_progress a,
      js_message := ta_message a,
      js_attempt_count := (case ta_attempt_count a of None \<Rightarrow> js_attempt_count current | Some n \<Rightarrow> n),
      js_revision := js_revision current + 1,
      js_heartbeat_at :=
        (case ta_heartbeat_at a of
           Some t \<Rightarrow> Some t
         | None \<Rightarrow> if ta_status a = Running then Some (ta_now a) else js_heartbeat_at current),
      js_updated_at := ta_now a,
      js_completed_at := (if ta_status a \<in> {Succeeded, Failed} then Some (ta_now a) else None),
      js_report := ta_report a,
      js_error := ta_error a,
      js_cost_counters := (case ta_cost_counters a of None \<Rightarrow> js_cost_counters current | Some c \<Rightarrow> c)\<rparr>"

definition transition_commands ::
    "runtime_env \<Rightarrow> uuid \<Rightarrow> timestamp \<Rightarrow> job_state \<Rightarrow> rval rcmd list" where
  "transition_commands E j now nxt =
     (let p = env_prefix E; ttl = env_state_ttl_seconds E
      in [SetEx (state_key p j) (VState nxt) ttl, Expire (request_key p j) ttl]
         @ (if terminal nxt
            then [Zrem (active_key p) (uuid_str j), Zrem (recovery_pending_key p) (uuid_str j)]
            else [Zadd (active_key p) (uuid_str j) (of_timestamp now)])
         @ [Zadd (sync_pending_key p) (uuid_str j) (of_count (js_revision nxt))])"

definition transition_body ::
    "runtime_env \<Rightarrow> 's server \<Rightarrow> uuid \<Rightarrow> transition_args \<Rightarrow> 's \<Rightarrow> transition_result decision"
where
  "transition_body E R j a s =
     (case get_state E R s j of
        Inl e \<Rightarrow> Fail e
      | Inr None \<Rightarrow> Fail JobNotFound
      | Inr (Some current) \<Rightarrow>
          if ta_expected_generation a \<noteq> None
             \<and> ta_expected_generation a \<noteq> Some (js_run_generation current) then Fail JobLeaseLost
          else if terminal current then Return \<lparr>tr_state = current, tr_applied = False\<rparr>
          else if ta_status a \<notin> set (ALLOWED_TRANSITIONS (js_status current))
          then Fail (InvalidJobTransition (''Transition from '' @ status_name (js_status current)
                 @ '' to '' @ status_name (ta_status a) @ '' is not allowed.''))
          else (case validate_job_state (next_state a current) of
                  Inl e \<Rightarrow> Fail e
                | Inr nxt \<Rightarrow>
                    Commit (transition_commands E j (ta_now a) nxt)
                      [(events_key (env_prefix E) j, int_str (js_revision nxt))]
                      \<lparr>tr_state = nxt, tr_applied = True\<rparr>))"

definition transition ::
    "runtime_env \<Rightarrow> 's server \<Rightarrow> uuid \<Rightarrow> transition_args \<Rightarrow> 's \<Rightarrow> 's \<times> (exn + transition_result)"
where
  "transition E R j a s = run_txn R (transition_body E R j a) s"

text \<open>
  A heartbeat reads the state, then writes it back through \<open>transition\<close>: two steps, with
  other clients between them in general.
\<close>

definition heartbeat_args :: "job_state \<Rightarrow> int \<Rightarrow> timestamp \<Rightarrow> transition_args" where
  "heartbeat_args current generation now =
     (transition_call (js_status current) (js_stage current) (js_progress current)
        (js_message current) now)
     \<lparr>ta_heartbeat_at := Some now, ta_expected_generation := Some generation\<rparr>"

definition heartbeat ::
    "runtime_env \<Rightarrow> 's server \<Rightarrow> uuid \<Rightarrow> int \<Rightarrow> timestamp \<Rightarrow> 's \<Rightarrow> 's \<times> (exn + transition_result)"
where
  "heartbeat E R j generation now s =
     (case require_state E R s j of
        Inl e \<Rightarrow> (s, Inl e)
      | Inr current \<Rightarrow> transition E R j (heartbeat_args current generation now) s)"

definition takeover_state :: "timestamp \<Rightarrow> job_state \<Rightarrow> job_state" where
  "takeover_state now current = current
     \<lparr>js_status := Queued, js_stage := St_queued,
      js_message := ''Queued for recovery after a lost worker heartbeat.'',
      js_run_generation := js_run_generation current + 1,
      js_revision := js_revision current + 1,
      js_heartbeat_at := None, js_updated_at := now\<rparr>"

definition takeover_commands ::
    "runtime_env \<Rightarrow> uuid \<Rightarrow> timestamp \<Rightarrow> job_state \<Rightarrow> rval rcmd list" where
  "takeover_commands E j now nxt =
     (let p = env_prefix E
      in [SetEx (state_key p j) (VState nxt) (env_state_ttl_seconds E),
          Del [lease_key p j],
          Zadd (active_key p) (uuid_str j) (of_timestamp now),
          Zadd (sync_pending_key p) (uuid_str j) (of_count (js_revision nxt)),
          Zadd (recovery_pending_key p) (uuid_str j) (of_count (js_run_generation nxt))])"

definition take_over_body ::
    "runtime_env \<Rightarrow> 's server \<Rightarrow> uuid \<Rightarrow> int \<Rightarrow> timestamp \<Rightarrow> 's \<Rightarrow> transition_result decision"
where
  "take_over_body E R j expected_generation now s =
     (case get_state E R s j of
        Inl e \<Rightarrow> Fail e
      | Inr None \<Rightarrow> Fail JobNotFound
      | Inr (Some current) \<Rightarrow>
          if terminal current \<or> js_run_generation current \<noteq> expected_generation
          then Return \<lparr>tr_state = current, tr_applied = False\<rparr>
          else if zscore R s (recovery_pending_key (env_prefix E)) (uuid_str j) \<noteq> None
          then Return \<lparr>tr_state = current, tr_applied = False\<rparr>
          else (case validate_job_state (takeover_state now current) of
                  Inl e \<Rightarrow> Fail e
                | Inr nxt \<Rightarrow>
                    Commit (takeover_commands E j now nxt)
                      [(events_key (env_prefix E) j, int_str (js_revision nxt))]
                      \<lparr>tr_state = nxt, tr_applied = True\<rparr>))"

definition take_over_stale ::
    "runtime_env \<Rightarrow> 's server \<Rightarrow> uuid \<Rightarrow> int \<Rightarrow> timestamp \<Rightarrow> 's \<Rightarrow> 's \<times> (exn + transition_result)"
where
  "take_over_stale E R j expected_generation now s =
     run_txn R (take_over_body E R j expected_generation now) s"

definition take_over_watched :: "runtime_env \<Rightarrow> uuid \<Rightarrow> string list" where
  "take_over_watched E j = [state_key (env_prefix E) j, recovery_pending_key (env_prefix E)]"

subsection \<open>Leases\<close>

definition lease_value :: "runtime_env \<Rightarrow> int \<Rightarrow> string \<Rightarrow> string" where
  "lease_value E generation token = int_str generation @ '':'' @ env_sha256 E token"

definition acquire_lease ::
    "runtime_env \<Rightarrow> 's server \<Rightarrow> uuid \<Rightarrow> int \<Rightarrow> string \<Rightarrow> int \<Rightarrow> 's \<Rightarrow> 's \<times> bool" where
  "acquire_lease E R j generation token ttl s =
     set_nx R (lease_key (env_prefix E) j) (VText (lease_value E generation token)) ttl s"

definition holds_lease :: "runtime_env \<Rightarrow> 's server \<Rightarrow> 's \<Rightarrow> uuid \<Rightarrow> int \<Rightarrow> string \<Rightarrow> bool" where
  "holds_lease E R s j generation token \<longleftrightarrow>
     rget R s (lease_key (env_prefix E) j) = Some (VText (lease_value E generation token))"

definition refresh_lease_body ::
    "runtime_env \<Rightarrow> 's server \<Rightarrow> uuid \<Rightarrow> int \<Rightarrow> string \<Rightarrow> int \<Rightarrow> 's \<Rightarrow> bool decision" where
  "refresh_lease_body E R j generation token ttl s =
     (if \<not> holds_lease E R s j generation token then Return False
      else Commit [Expire (lease_key (env_prefix E) j) ttl] [] True)"

definition refresh_lease ::
    "runtime_env \<Rightarrow> 's server \<Rightarrow> uuid \<Rightarrow> int \<Rightarrow> string \<Rightarrow> int \<Rightarrow> 's \<Rightarrow> 's \<times> (exn + bool)" where
  "refresh_lease E R j generation token ttl s =
     run_txn R (refresh_lease_body E R j generation token ttl) s"

definition release_lease_body ::
    "runtime_env \<Rightarrow> 's server \<Rightarrow> uuid \<Rightarrow> int \<Rightarrow> string \<Rightarrow> 's \<Rightarrow> bool decision" where
  "release_lease_body E R j generation token s =
     (if \<not> holds_lease E R s j generation token then Return False
      else Commit [Del [lease_key (env_prefix E) j]] [] True)"

definition release_lease ::
    "runtime_env \<Rightarrow> 's server \<Rightarrow> uuid \<Rightarrow> int \<Rightarrow> string \<Rightarrow> 's \<Rightarrow> 's \<times> (exn + bool)" where
  "release_lease E R j generation token s =
     run_txn R (release_lease_body E R j generation token) s"

subsection \<open>Callback marks and manual retries\<close>

definition mark_callback_synced_body ::
    "runtime_env \<Rightarrow> 's server \<Rightarrow> uuid \<Rightarrow> int \<Rightarrow> 's \<Rightarrow> job_state decision" where
  "mark_callback_synced_body E R j revision s =
     (case get_state E R s j of
        Inl e \<Rightarrow> Fail e
      | Inr None \<Rightarrow> Fail JobNotFound
      | Inr (Some current) \<Rightarrow>
          (let synced = min (max revision (js_callback_synced_revision current)) (js_revision current);
               nxt = current\<lparr>js_callback_synced_revision := synced\<rparr>
           in Commit
                (SetEx (state_key (env_prefix E) j) (VState nxt) (env_state_ttl_seconds E)
                 # (if js_revision current \<le> synced
                    then [Zrem (sync_pending_key (env_prefix E)) (uuid_str j)] else []))
                [] nxt))"

definition mark_callback_synced ::
    "runtime_env \<Rightarrow> 's server \<Rightarrow> uuid \<Rightarrow> int \<Rightarrow> 's \<Rightarrow> 's \<times> (exn + job_state)" where
  "mark_callback_synced E R j revision s = run_txn R (mark_callback_synced_body E R j revision) s"

definition retry_state :: "timestamp \<Rightarrow> job_state \<Rightarrow> job_state" where
  "retry_state now current = current
     \<lparr>js_status := Queued, js_stage := St_queued, js_progress := 0,
      js_message := ''Queued for a manual retry.'',
      js_run_generation := js_run_generation current + 1,
      js_revision := js_revision current + 1,
      js_heartbeat_at := None, js_updated_at := now, js_completed_at := None,
      js_report := None, js_error := None\<rparr>"

definition retry_failed_body ::
    "runtime_env \<Rightarrow> 's server \<Rightarrow> uuid \<Rightarrow> timestamp \<Rightarrow> 's \<Rightarrow> job_state decision" where
  "retry_failed_body E R j now s =
     (case get_state E R s j of
        Inl e \<Rightarrow> Fail e
      | Inr None \<Rightarrow> Fail JobNotFound
      | Inr (Some current) \<Rightarrow>
          if js_status current \<noteq> Failed
             \<or> (case js_error current of None \<Rightarrow> True | Some er \<Rightarrow> \<not> er_retryable er)
          then Fail JobNotRetryable
          else (case validate_job_state (retry_state now current) of
                  Inl e \<Rightarrow> Fail e
                | Inr nxt \<Rightarrow>
                    (let p = env_prefix E; ttl = env_state_ttl_seconds E
                     in Commit
                          [SetEx (state_key p j) (VState nxt) ttl,
                           Expire (request_key p j) ttl,
                           Zadd (active_key p) (uuid_str j) (of_timestamp now),
                           Zadd (sync_pending_key p) (uuid_str j) (of_count (js_revision nxt))]
                          [(events_key p j, int_str (js_revision nxt))] nxt)))"

definition retry_failed ::
    "runtime_env \<Rightarrow> 's server \<Rightarrow> uuid \<Rightarrow> timestamp \<Rightarrow> 's \<Rightarrow> 's \<times> (exn + job_state)" where
  "retry_failed E R j now s = run_txn R (retry_failed_body E R j now) s"

end
