(* ===== verification/Job_Indexes.thy ===== *)
theory Job_Indexes
  imports Job_Store
begin

text \<open>
  The sorted-set indexes of the store (second half of app/jobs_v22/store.py): active jobs
  by last write, undelivered callbacks by revision, pending recoveries by generation, and
  the operations that list them, drop malformed members and purge orphans.
\<close>

definition active_count :: "runtime_env \<Rightarrow> 's server \<Rightarrow> 's \<Rightarrow> nat" where
  "active_count E R s = zcard R s (active_key (env_prefix E))"

definition pending_callback_count :: "runtime_env \<Rightarrow> 's server \<Rightarrow> 's \<Rightarrow> nat" where
  "pending_callback_count E R s = zcard R s (sync_pending_key (env_prefix E))"

definition bounded_limit :: "int \<Rightarrow> nat" where
  "bounded_limit limit = nat (min (max limit 0) 100)"

subsection \<open>Dropping one observed member\<close>

definition discard_index_member_body ::
    "'s server \<Rightarrow> string \<Rightarrow> string \<Rightarrow> score \<Rightarrow> 's \<Rightarrow> bool decision" where
  "discard_index_member_body R index_key member expected_score s =
     (if zscore R s index_key member \<noteq> Some expected_score then Return False
      else Commit [Zrem index_key member] [] True)"

definition discard_index_member ::
    "'s server \<Rightarrow> string \<Rightarrow> string \<Rightarrow> score \<Rightarrow> 's \<Rightarrow> 's \<times> (exn + bool)" where
  "discard_index_member R index_key member expected_score s =
     run_txn R (discard_index_member_body R index_key member expected_score) s"

definition discard_pending_recovery_member ::
    "runtime_env \<Rightarrow> 's server \<Rightarrow> string \<Rightarrow> score \<Rightarrow> 's \<Rightarrow> 's \<times> (exn + bool)" where
  "discard_pending_recovery_member E R member expected_score s =
     discard_index_member R (recovery_pending_key (env_prefix E)) member expected_score s"

definition discard_pending_recovery ::
    "runtime_env \<Rightarrow> 's server \<Rightarrow> uuid \<Rightarrow> int \<Rightarrow> 's \<Rightarrow> 's \<times> (exn + bool)" where
  "discard_pending_recovery E R j generation s =
     discard_pending_recovery_member E R (uuid_str j) (of_count generation) s"

subsection \<open>Listing\<close>

text \<open>
  The loop over the observed members: a member that is no canonical job id is dropped from
  the index under its observed score, the others are collected in order.
\<close>

fun collect_jobs ::
    "'s server \<Rightarrow> string \<Rightarrow> (string \<times> score) list \<Rightarrow> 's \<Rightarrow> 's \<times> uuid list" where
  "collect_jobs R index_key [] s = (s, [])"
| "collect_jobs R index_key ((value, sc) # rest) s =
     (case canonical_job_id value of
        None \<Rightarrow> collect_jobs R index_key rest (fst (discard_index_member R index_key value sc s))
      | Some j \<Rightarrow> (let (s', js) = collect_jobs R index_key rest s in (s', j # js)))"

definition list_stale_jobs ::
    "runtime_env \<Rightarrow> 's server \<Rightarrow> timestamp \<Rightarrow> int \<Rightarrow> 's \<Rightarrow> 's \<times> uuid list" where
  "list_stale_jobs E R cutoff limit s =
     (let n = bounded_limit limit; key = active_key (env_prefix E)
      in if n = 0 then (s, [])
         else collect_jobs R key (zrangebyscore R s key (of_timestamp cutoff) n) s)"

definition list_pending_callbacks ::
    "runtime_env \<Rightarrow> 's server \<Rightarrow> int \<Rightarrow> 's \<Rightarrow> 's \<times> uuid list" where
  "list_pending_callbacks E R limit s =
     (let n = bounded_limit limit; key = sync_pending_key (env_prefix E)
      in if n = 0 then (s, []) else collect_jobs R key (zrange R s key n) s)"

text \<open>A recovery score counts when it is finite, integral and at least 1.\<close>

fun score_generation :: "score \<Rightarrow> int option" where
  "score_generation (Fin q) = (if of_int \<lfloor>q\<rfloor> = q \<and> 1 \<le> q then Some \<lfloor>q\<rfloor> else None)"
| "score_generation _ = None"

fun collect_recoveries ::
    "runtime_env \<Rightarrow> 's server \<Rightarrow> (string \<times> score) list \<Rightarrow> 's \<Rightarrow> 's \<times> (uuid \<times> int) list" where
  "collect_recoveries E R [] s = (s, [])"
| "collect_recoveries E R ((value, sc) # rest) s =
     (case (score_generation sc, canonical_job_id value) of
        (Some g, Some j) \<Rightarrow>
          (let (s', rs) = collect_recoveries E R rest s in (s', (j, g) # rs))
      | _ \<Rightarrow> collect_recoveries E R rest (fst (discard_pending_recovery_member E R value sc s)))"

definition list_pending_recoveries ::
    "runtime_env \<Rightarrow> 's server \<Rightarrow> int \<Rightarrow> 's \<Rightarrow> 's \<times> (uuid \<times> int) list" where
  "list_pending_recoveries E R limit s =
     (let n = bounded_limit limit
      in if n = 0 then (s, [])
         else collect_recoveries E R (zrange R s (recovery_pending_key (env_prefix E)) n) s)"

definition pending_recovery_generation ::
    "runtime_env \<Rightarrow> 's server \<Rightarrow> uuid \<Rightarrow> 's \<Rightarrow> 's \<times> int option" where
  "pending_recovery_generation E R j s =
     (case zscore R s (recovery_pending_key (env_prefix E)) (uuid_str j) of
        None \<Rightarrow> (s, None)
      | Some sc \<Rightarrow>
          (case score_generation sc of
             Some g \<Rightarrow> (s, Some g)
           | None \<Rightarrow> (fst (discard_pending_recovery_member E R (uuid_str j) sc s), None)))"

subsection \<open>Orphans\<close>

definition discard_missing_job_indexes_body ::
    "runtime_env \<Rightarrow> 's server \<Rightarrow> uuid \<Rightarrow> 's \<Rightarrow> bool decision" where
  "discard_missing_job_indexes_body E R j s =
     (let p = env_prefix E
      in if rget R s (state_key p j) \<noteq> None then Return False
         else Commit
           (map (\<lambda>k. Zrem k (uuid_str j))
              [active_key p, sync_pending_key p, recovery_pending_key p]
            @ [Del [lease_key p j]]) [] True)"

definition discard_missing_job_indexes ::
    "runtime_env \<Rightarrow> 's server \<Rightarrow> uuid \<Rightarrow> 's \<Rightarrow> 's \<times> (exn + bool)" where
  "discard_missing_job_indexes E R j s = run_txn R (discard_missing_job_indexes_body E R j) s"

definition discard_missing_job_recovery_body ::
    "runtime_env \<Rightarrow> 's server \<Rightarrow> uuid \<Rightarrow> int \<Rightarrow> 's \<Rightarrow> bool decision" where
  "discard_missing_job_recovery_body E R j generation s =
     (let p = env_prefix E
      in if rget R s (state_key p j) \<noteq> None then Return False
         else if zscore R s (recovery_pending_key p) (uuid_str j) \<noteq> Some (of_count generation)
         then Return False
         else Commit
           [Zrem (recovery_pending_key p) (uuid_str j), Zrem (active_key p) (uuid_str j),
            Zrem (sync_pending_key p) (uuid_str j), Del [lease_key p j]] [] True)"

definition discard_missing_job_recovery ::
    "runtime_env \<Rightarrow> 's server \<Rightarrow> uuid \<Rightarrow> int \<Rightarrow> 's \<Rightarrow> 's \<times> (exn + bool)" where
  "discard_missing_job_recovery E R j generation s =
     run_txn R (discard_missing_job_recovery_body E R j generation) s"

subsection \<open>Closing a recovery\<close>

text \<open>\<open>int(score)\<close> truncates towards zero; an infinity raises OverflowError.\<close>

fun score_int :: "score \<Rightarrow> exn + int" where
  "score_int (Fin q) = Inr (if 0 \<le> q then \<lfloor>q\<rfloor> else \<lceil>q\<rceil>)"
| "score_int _ = Inl (OtherException ''OverflowError'')"

definition mark_recovery_enqueued_body ::
    "runtime_env \<Rightarrow> 's server \<Rightarrow> uuid \<Rightarrow> int \<Rightarrow> timestamp \<Rightarrow> 's \<Rightarrow> bool decision" where
  "mark_recovery_enqueued_body E R j generation now s =
     (let p = env_prefix E
      in case get_state E R s j of
           Inl e \<Rightarrow> Fail e
         | Inr None \<Rightarrow> Fail JobNotFound
         | Inr (Some current) \<Rightarrow>
             (case zscore R s (recovery_pending_key p) (uuid_str j) of
                None \<Rightarrow> Return False
              | Some sc \<Rightarrow>
                  (case score_int sc of
                     Inl e \<Rightarrow> Fail e
                   | Inr g \<Rightarrow>
                       if g \<noteq> generation \<or> js_run_generation current \<noteq> generation
                       then Return False
                       else Commit
                         (Zrem (recovery_pending_key p) (uuid_str j)
                          # (if terminal current then []
                             else [Zadd (active_key p) (uuid_str j) (of_timestamp now)]))
                         [] True)))"

definition mark_recovery_enqueued ::
    "runtime_env \<Rightarrow> 's server \<Rightarrow> uuid \<Rightarrow> int \<Rightarrow> timestamp \<Rightarrow> 's \<Rightarrow> 's \<times> (exn + bool)" where
  "mark_recovery_enqueued E R j generation now s =
     run_txn R (mark_recovery_enqueued_body E R j generation now) s"

end
