(* ===== verification/Store_Laws.thy ===== *)
theory Store_Laws
  imports Job_Indexes
begin

text \<open>
  What the store promises to its clients. \<open>job_runtime\<close> extends the server's laws with a
  valid configuration; in it every operation is characterised by one elimination rule: it
  left the server alone, or it wrote exactly these keys. The rules are proved once for
  any server that satisfies the laws, and interpreted on the server in memory.
\<close>

subsection \<open>Views after a transaction\<close>

lemma cmd_kv_publish [simp]: "fold cmd_kv (publish_all pubs) m = m"
  by (induction pubs) (auto simp: publish_all_def)

lemma cmd_zs_publish [simp]: "fold cmd_zs (publish_all pubs) z = z"
  by (induction pubs) (auto simp: publish_all_def)

lemma cmd_ok_publish [simp]: "list_all cmd_ok (publish_all pubs)"
  by (auto simp: publish_all_def list_all_iff)

context redis_laws
begin

lemma commit_views:
  assumes "list_all cmd_ok cs"
  shows "rget R (rexec R (publish_all pubs) (rexec R cs s)) = fold cmd_kv cs (rget R s)"
    and "zscore R (rexec R (publish_all pubs) (rexec R cs s)) = fold cmd_zs cs (zscore R s)"
  using assms by (simp_all add: get_exec zscore_exec)

lemma run_txn_Commit:
  assumes "body s = Commit cs pubs a" "list_all cmd_ok cs"
  shows "snd (run_txn R body s) = Inr a"
    and "rget R (fst (run_txn R body s)) = fold cmd_kv cs (rget R s)"
    and "zscore R (fst (run_txn R body s)) = fold cmd_zs cs (zscore R s)"
  using assms by (simp_all add: run_txn.simps commit_views)

end

lemma run_txn_Fail: "body s = Fail e \<Longrightarrow> run_txn R body s = (s, Inl e)"
  by (simp add: run_txn.simps)

lemma run_txn_Return: "body s = Return a \<Longrightarrow> run_txn R body s = (s, Inr a)"
  by (simp add: run_txn.simps)

subsection \<open>The runtime: a lawful server and a valid configuration\<close>

locale job_runtime = redis_laws R for R :: "('s, rval) redis" +
  fixes E :: runtime_env
  assumes env: "env_ok E"
begin

lemma get_state_valid: "get_state E R s j = Inr (Some st) \<Longrightarrow> valid_state st"
  by (auto simp: get_state_def split: option.splits rval.splits sum.splits
      dest: validate_job_state_Inr)

lemma transition_elim:
  obtains
    (unchanged) "fst (transition E R j a s) = s"
      "\<And>r. snd (transition E R j a s) = Inr r \<Longrightarrow>
        \<not> tr_applied r \<and> get_state E R s j = Inr (Some (tr_state r)) \<and> terminal (tr_state r)"
  | (applied) current nxt where
      "get_state E R s j = Inr (Some current)"
      "ta_expected_generation a = None \<or> ta_expected_generation a = Some (js_run_generation current)"
      "\<not> terminal current"
      "ta_status a \<in> set (ALLOWED_TRANSITIONS (js_status current))"
      "validate_job_state (next_state a current) = Inr nxt"
      "snd (transition E R j a s) = Inr \<lparr>tr_state = nxt, tr_applied = True\<rparr>"
      "rget R (fst (transition E R j a s)) = (rget R s)(state_key (env_prefix E) j \<mapsto> VState nxt)"
      "zscore R (fst (transition E R j a s)) =
        fold cmd_zs (transition_commands E j (ta_now a) nxt) (zscore R s)"
proof (cases "transition_body E R j a s")
  case (Fail e)
  then show ?thesis using unchanged by (auto simp: transition_def run_txn_Fail)
next
  case (Return r)
  then have "\<not> tr_applied r \<and> get_state E R s j = Inr (Some (tr_state r)) \<and> terminal (tr_state r)"
    by (auto simp: transition_body_def split: sum.splits option.splits if_splits)
  with Return show ?thesis using unchanged by (auto simp: transition_def run_txn_Return)
next
  case (Commit cs pubs r)
  then obtain current nxt where *:
      "get_state E R s j = Inr (Some current)"
      "ta_expected_generation a = None \<or> ta_expected_generation a = Some (js_run_generation current)"
      "\<not> terminal current"
      "ta_status a \<in> set (ALLOWED_TRANSITIONS (js_status current))"
      "validate_job_state (next_state a current) = Inr nxt"
      "r = \<lparr>tr_state = nxt, tr_applied = True\<rparr>"
      "cs = transition_commands E j (ta_now a) nxt"
    by (auto simp: transition_body_def split: sum.splits option.splits if_splits)
  have ok: "list_all cmd_ok cs"
    using env by (auto simp: *(7) transition_commands_def Let_def)
  have kv: "fold cmd_kv cs m = m(state_key (env_prefix E) j \<mapsto> VState nxt)" for m
    by (auto simp: *(7) transition_commands_def Let_def)
  show ?thesis
    using * run_txn_Commit [of "transition_body E R j a" s, OF Commit ok] kv
    by (intro applied [of current nxt]) (auto simp: transition_def)
qed

lemma take_over_elim:
  obtains
    (unchanged) "fst (take_over_stale E R j g now s) = s"
      "\<And>r. snd (take_over_stale E R j g now s) = Inr r \<Longrightarrow>
        \<not> tr_applied r \<and> get_state E R s j = Inr (Some (tr_state r))"
  | (applied) current nxt where
      "get_state E R s j = Inr (Some current)"
      "\<not> terminal current" "js_run_generation current = g"
      "zscore R s (recovery_pending_key (env_prefix E)) (uuid_str j) = None"
      "validate_job_state (takeover_state now current) = Inr nxt"
      "snd (take_over_stale E R j g now s) = Inr \<lparr>tr_state = nxt, tr_applied = True\<rparr>"
      "rget R (fst (take_over_stale E R j g now s)) =
        (rget R s)(state_key (env_prefix E) j \<mapsto> VState nxt, lease_key (env_prefix E) j := None)"
      "zscore R (fst (take_over_stale E R j g now s)) =
        fold cmd_zs (takeover_commands E j now nxt) (zscore R s)"
proof (cases "take_over_body E R j g now s")
  case (Fail e)
  then show ?thesis using unchanged by (auto simp: take_over_stale_def run_txn_Fail)
next
  case (Return r)
  then have "\<not> tr_applied r \<and> get_state E R s j = Inr (Some (tr_state r))"
    by (auto simp: take_over_body_def split: sum.splits option.splits if_splits)
  with Return show ?thesis using unchanged by (auto simp: take_over_stale_def run_txn_Return)
next
  case (Commit cs pubs r)
  then obtain current nxt where *:
      "get_state E R s j = Inr (Some current)"
      "\<not> terminal current" "js_run_generation current = g"
      "zscore R s (recovery_pending_key (env_prefix E)) (uuid_str j) = None"
      "validate_job_state (takeover_state now current) = Inr nxt"
      "r = \<lparr>tr_state = nxt, tr_applied = True\<rparr>"
      "cs = takeover_commands E j now nxt"
    by (auto simp: take_over_body_def split: sum.splits option.splits if_splits)
  have ok: "list_all cmd_ok cs" using env by (auto simp: *(7) takeover_commands_def Let_def)
  have kv: "fold cmd_kv cs m =
      m(state_key (env_prefix E) j \<mapsto> VState nxt, lease_key (env_prefix E) j := None)" for m
    by (auto simp: *(7) takeover_commands_def Let_def fun_eq_iff)
  show ?thesis
    using * run_txn_Commit [of "take_over_body E R j g now" s, OF Commit ok] kv
    by (intro applied [of current nxt]) (auto simp: take_over_stale_def)
qed

lemma register_elim:
  obtains
    (unchanged) "fst (register_job E R a s) = s"
      "\<And>r. snd (register_job E R a s) = Inr r \<Longrightarrow>
        rr_replayed r \<and> get_state E R s (ra_job_id a) = Inr (Some (rr_state r))"
  | (created) initial where
      "validate_job_state (initial_state E a) = Inr initial"
      "get_state E R s (ra_job_id a) = Inr None"
      "rget R s (idempotency_key (env_sha256 E) (env_prefix E) (ra_case_id a)
         (ra_idempotency_key a)) = None"
      "snd (register_job E R a s) = Inr \<lparr>rr_state = initial, rr_replayed = False\<rparr>"
      "rget R (fst (register_job E R a s)) = fold cmd_kv (register_commands E a initial) (rget R s)"
      "zscore R (fst (register_job E R a s)) = fold cmd_zs (register_commands E a initial) (zscore R s)"
proof (cases "validate_job_state (initial_state E a)")
  case (Inl e)
  then show ?thesis using unchanged by (auto simp: register_job_def)
next
  case (Inr initial)
  show ?thesis
  proof (cases "register_body E R a initial s")
    case (Fail e)
    then show ?thesis using unchanged Inr by (auto simp: register_job_def run_txn_Fail)
  next
    case (Return r)
    then have "rr_replayed r \<and> get_state E R s (ra_job_id a) = Inr (Some (rr_state r))"
      by (auto simp: register_body_def Let_def split: sum.splits option.splits if_splits)
    with Return show ?thesis using unchanged Inr by (auto simp: register_job_def run_txn_Return)
  next
    case (Commit cs pubs r)
    then have *: "get_state E R s (ra_job_id a) = Inr None"
      "rget R s (idempotency_key (env_sha256 E) (env_prefix E) (ra_case_id a)
         (ra_idempotency_key a)) = None"
      "r = \<lparr>rr_state = initial, rr_replayed = False\<rparr>" "cs = register_commands E a initial"
      by (auto simp: register_body_def Let_def split: sum.splits option.splits if_splits)
    have ok: "list_all cmd_ok cs" using env by (auto simp: *(4) register_commands_def Let_def)
    show ?thesis
      using * Inr run_txn_Commit [of "register_body E R a initial" s, OF Commit ok]
      by (intro created [of initial]) (auto simp: register_job_def)
  qed
qed

lemma mark_callback_synced_elim:
  obtains
    (unchanged) "fst (mark_callback_synced E R j rv s) = s"
      "\<And>r. snd (mark_callback_synced E R j rv s) \<noteq> Inr r"
  | (marked) current synced where
      "get_state E R s j = Inr (Some current)"
      "synced = min (max rv (js_callback_synced_revision current)) (js_revision current)"
      "snd (mark_callback_synced E R j rv s) = Inr (current\<lparr>js_callback_synced_revision := synced\<rparr>)"
      "rget R (fst (mark_callback_synced E R j rv s)) =
        (rget R s)(state_key (env_prefix E) j
            \<mapsto> VState (current\<lparr>js_callback_synced_revision := synced\<rparr>))"
      "zscore R (fst (mark_callback_synced E R j rv s)) =
        (zscore R s)(state_key (env_prefix E) j := Map.empty,
          sync_pending_key (env_prefix E) :=
            (if js_revision current \<le> synced
             then (zscore R s (sync_pending_key (env_prefix E)))(uuid_str j := None)
             else zscore R s (sync_pending_key (env_prefix E))))"
proof (cases "mark_callback_synced_body E R j rv s")
  case (Fail e)
  then show ?thesis using unchanged by (auto simp: mark_callback_synced_def run_txn_Fail)
next
  case (Return r)
  then show ?thesis
    by (auto simp: mark_callback_synced_body_def Let_def split: sum.splits option.splits)
next
  case (Commit cs pubs r)
  then obtain current where *: "get_state E R s j = Inr (Some current)"
    by (auto simp: mark_callback_synced_body_def split: sum.splits option.splits)
  define synced where
    "synced = min (max rv (js_callback_synced_revision current)) (js_revision current)"
  from Commit * have r: "r = current\<lparr>js_callback_synced_revision := synced\<rparr>"
    and cs: "cs = SetEx (state_key (env_prefix E) j)
           (VState (current\<lparr>js_callback_synced_revision := synced\<rparr>)) (env_state_ttl_seconds E)
         # (if js_revision current \<le> synced
            then [Zrem (sync_pending_key (env_prefix E)) (uuid_str j)] else [])"
    by (auto simp: mark_callback_synced_body_def Let_def synced_def)
  have ok: "list_all cmd_ok cs" using env by (auto simp: cs)
  show ?thesis
    using * r run_txn_Commit [of "mark_callback_synced_body E R j rv" s, OF Commit ok]
    by (intro marked [of current synced])
      (auto simp: mark_callback_synced_def synced_def cs fun_eq_iff)
qed

lemma retry_failed_elim:
  obtains
    (unchanged) "fst (retry_failed E R j now s) = s" "\<And>r. snd (retry_failed E R j now s) \<noteq> Inr r"
  | (retried) current er nxt where
      "get_state E R s j = Inr (Some current)"
      "js_status current = Failed" "js_error current = Some er" "er_retryable er"
      "validate_job_state (retry_state now current) = Inr nxt"
      "snd (retry_failed E R j now s) = Inr nxt"
      "rget R (fst (retry_failed E R j now s)) =
        (rget R s)(state_key (env_prefix E) j \<mapsto> VState nxt)"
      "zscore R (fst (retry_failed E R j now s)) =
        (zscore R s)(state_key (env_prefix E) j := Map.empty,
          active_key (env_prefix E) :=
            (zscore R s (active_key (env_prefix E)))(uuid_str j \<mapsto> of_timestamp now),
          sync_pending_key (env_prefix E) :=
            (zscore R s (sync_pending_key (env_prefix E)))(uuid_str j \<mapsto> of_count (js_revision nxt)))"
proof (cases "retry_failed_body E R j now s")
  case (Fail e)
  then show ?thesis using unchanged by (auto simp: retry_failed_def run_txn_Fail)
next
  case (Return r)
  then show ?thesis
    by (auto simp: retry_failed_body_def Let_def split: sum.splits option.splits if_splits)
next
  case (Commit cs pubs r)
  then obtain current er nxt where *:
      "get_state E R s j = Inr (Some current)"
      "js_status current = Failed" "js_error current = Some er" "er_retryable er"
      "validate_job_state (retry_state now current) = Inr nxt" "r = nxt"
      "cs = [SetEx (state_key (env_prefix E) j) (VState nxt) (env_state_ttl_seconds E),
             Expire (request_key (env_prefix E) j) (env_state_ttl_seconds E),
             Zadd (active_key (env_prefix E)) (uuid_str j) (of_timestamp now),
             Zadd (sync_pending_key (env_prefix E)) (uuid_str j) (of_count (js_revision nxt))]"
    by (auto simp: retry_failed_body_def Let_def split: sum.splits option.splits if_splits)
  have ok: "list_all cmd_ok cs" using env by (auto simp: *(7))
  show ?thesis
    using * run_txn_Commit [of "retry_failed_body E R j now" s, OF Commit ok]
    by (intro retried [of current er nxt]) (auto simp: retry_failed_def fun_eq_iff)
qed

text \<open>
  The operations that never touch a job's state: \<open>only_index key\<close> says that nothing but
  members of that sorted set and lease keys changed.
\<close>

lemma discard_index_member_views:
  "rget R (fst (discard_index_member R k m sc s)) = rget R s"
  "zscore R (fst (discard_index_member R k m sc s)) =
     (if zscore R s k m = Some sc then (zscore R s)(k := (zscore R s k)(m := None)) else zscore R s)"
proof -
  have "rget R (fst (discard_index_member R k m sc s)) = rget R s \<and>
    zscore R (fst (discard_index_member R k m sc s)) =
     (if zscore R s k m = Some sc then (zscore R s)(k := (zscore R s k)(m := None)) else zscore R s)"
  proof (cases "zscore R s k m = Some sc")
    case True
    then have "discard_index_member_body R k m sc s = Commit [Zrem k m] [] True"
      by (simp add: discard_index_member_body_def)
    from run_txn_Commit [of "discard_index_member_body R k m sc" s, OF this] True
    show ?thesis by (simp add: discard_index_member_def)
  next
    case False
    then show ?thesis
      by (auto simp: discard_index_member_def discard_index_member_body_def run_txn.simps)
  qed
  then show "rget R (fst (discard_index_member R k m sc s)) = rget R s"
    "zscore R (fst (discard_index_member R k m sc s)) =
     (if zscore R s k m = Some sc then (zscore R s)(k := (zscore R s k)(m := None)) else zscore R s)"
    by auto
qed

lemma not_canonical: "canonical_job_id v = None \<Longrightarrow> uuid_str j \<noteq> v"
  by auto

lemma collect_jobs_Cons:
  "fst (collect_jobs R k ((m, sc) # vs) s) =
     fst (collect_jobs R k vs
       (case canonical_job_id m of None \<Rightarrow> fst (discard_index_member R k m sc s) | Some j \<Rightarrow> s))"
  "snd (collect_jobs R k ((m, sc) # vs) s) =
     (case canonical_job_id m of
        None \<Rightarrow> snd (collect_jobs R k vs (fst (discard_index_member R k m sc s)))
      | Some j \<Rightarrow> j # snd (collect_jobs R k vs s))"
  by (auto split: option.splits prod.splits)

lemma collect_jobs_views:
  "rget R (fst (collect_jobs R k vs s)) = rget R s
   \<and> zscore R (fst (collect_jobs R k vs s)) k' (uuid_str j) = zscore R s k' (uuid_str j)"
proof (induction vs arbitrary: s)
  case Nil
  show ?case by simp
next
  case (Cons v vs)
  obtain m sc where v: "v = (m, sc)" by (cases v)
  show ?case
    unfolding v collect_jobs_Cons
    using Cons.IH by (auto simp: discard_index_member_views not_canonical split: option.splits)
qed

lemma collect_jobs_result:
  "snd (collect_jobs R k vs s) = List.map_filter (\<lambda>p. canonical_job_id (fst p)) vs"
proof (induction vs arbitrary: s)
  case Nil
  show ?case by (simp add: List.map_filter_def)
next
  case (Cons v vs)
  obtain m sc where v: "v = (m, sc)" by (cases v)
  show ?case
    unfolding v collect_jobs_Cons
    using Cons.IH by (auto simp: List.map_filter_def split: option.splits)
qed

text \<open>Dropping recovery entries: only members of the recovery set disappear.\<close>

definition recovery_shrinks :: "'s \<Rightarrow> 's \<Rightarrow> bool" where
  "recovery_shrinks s t \<longleftrightarrow>
     rget R t = rget R s
   \<and> (\<forall>k. k \<noteq> recovery_pending_key (env_prefix E) \<longrightarrow> zscore R t k = zscore R s k)
   \<and> (\<forall>m. zscore R t (recovery_pending_key (env_prefix E)) m \<in>
          {None, zscore R s (recovery_pending_key (env_prefix E)) m})"

lemma recovery_shrinks_refl [simp]: "recovery_shrinks s s"
  by (simp add: recovery_shrinks_def)

lemma recovery_shrinks_trans: "recovery_shrinks s t \<Longrightarrow> recovery_shrinks t u \<Longrightarrow> recovery_shrinks s u"
  unfolding recovery_shrinks_def by (auto, metis)

lemma discard_recovery_shrinks:
  "recovery_shrinks s (fst (discard_pending_recovery_member E R m sc s))"
  by (auto simp: recovery_shrinks_def discard_pending_recovery_member_def discard_index_member_views)

lemma collect_recoveries_Cons:
  "fst (collect_recoveries E R ((m, sc) # vs) s) =
     fst (collect_recoveries E R vs
       (if score_generation sc = None \<or> canonical_job_id m = None
        then fst (discard_pending_recovery_member E R m sc s) else s))"
  "snd (collect_recoveries E R ((m, sc) # vs) s) =
     (case (score_generation sc, canonical_job_id m) of
        (Some g, Some j) \<Rightarrow> (j, g) # snd (collect_recoveries E R vs s)
      | _ \<Rightarrow> snd (collect_recoveries E R vs (fst (discard_pending_recovery_member E R m sc s))))"
  by (auto split: option.splits prod.splits)

lemma collect_recoveries_shrinks: "recovery_shrinks s (fst (collect_recoveries E R vs s))"
proof (induction vs arbitrary: s)
  case Nil
  show ?case by simp
next
  case (Cons v vs)
  obtain m sc where v: "v = (m, sc)" by (cases v)
  show ?case
    unfolding v collect_recoveries_Cons
    using Cons.IH by (auto intro: recovery_shrinks_trans [OF discard_recovery_shrinks])
qed

lemma collect_recoveries_member:
  "(j, g) \<in> set (snd (collect_recoveries E R vs s)) \<Longrightarrow>
   \<exists>sc. (uuid_str j, sc) \<in> set vs \<and> score_generation sc = Some g"
proof (induction vs arbitrary: s)
  case Nil
  then show ?case by simp
next
  case (Cons v vs)
  obtain m sc where v: "v = (m, sc)" by (cases v)
  show ?case
    using Cons.prems Cons.IH unfolding v collect_recoveries_Cons
    by (auto split: option.splits dest: canonical_job_id_Some; blast)
qed

lemma score_generation_Some: "score_generation sc = Some g \<longleftrightarrow> sc = of_count g \<and> 1 \<le> g"
  by (cases sc) (auto simp: of_count_def)

lemma list_pending_recoveries_shrinks: "recovery_shrinks s (fst (list_pending_recoveries E R n s))"
  by (simp add: list_pending_recoveries_def Let_def collect_recoveries_shrinks)

lemma list_pending_recoveries_sound:
  assumes "(j, g) \<in> set (snd (list_pending_recoveries E R n s))"
  shows "1 \<le> g \<and> zscore R s (recovery_pending_key (env_prefix E)) (uuid_str j) = Some (of_count g)"
proof -
  let ?k = "recovery_pending_key (env_prefix E)"
  from assms obtain sc where "(uuid_str j, sc) \<in> set (zrange R s ?k (bounded_limit n))"
    "score_generation sc = Some g"
    by (auto simp: list_pending_recoveries_def Let_def split: if_splits dest: collect_recoveries_member)
  then show ?thesis using zrange_member by (auto simp: score_generation_Some)
qed

lemma pending_recovery_generation_shrinks:
  "recovery_shrinks s (fst (pending_recovery_generation E R j s))"
  by (auto simp: pending_recovery_generation_def discard_recovery_shrinks split: option.splits)

lemma pending_recovery_generation_Some:
  "snd (pending_recovery_generation E R j s) = Some g \<longleftrightarrow>
   zscore R s (recovery_pending_key (env_prefix E)) (uuid_str j) = Some (of_count g) \<and> 1 \<le> g"
  by (auto simp: pending_recovery_generation_def score_generation_Some split: option.splits)
     (metis option.distinct(1) option.inject score_generation_Some)

lemma pending_recovery_generation_Some_state:
  "snd (pending_recovery_generation E R j s) = Some g \<Longrightarrow>
   fst (pending_recovery_generation E R j s) = s"
  by (auto simp: pending_recovery_generation_def split: option.splits)

lemma discard_pending_recovery_shrinks:
  "recovery_shrinks s (fst (discard_pending_recovery E R j g s))"
  by (simp add: discard_pending_recovery_def discard_recovery_shrinks)

text \<open>Purging: only while the job's state is absent.\<close>

definition purges :: "uuid \<Rightarrow> 's \<Rightarrow> 's \<Rightarrow> bool" where
  "purges j s t \<longleftrightarrow>
     rget R s (state_key (env_prefix E) j) = None
   \<and> rget R t = (rget R s)(lease_key (env_prefix E) j := None)
   \<and> (\<forall>i. i \<noteq> j \<longrightarrow> (\<forall>k. k \<noteq> lease_key (env_prefix E) j \<longrightarrow>
         zscore R t k (uuid_str i) = zscore R s k (uuid_str i)))"

lemma discard_missing_job_indexes_cases:
  "fst (discard_missing_job_indexes E R j s) = s \<or> purges j s (fst (discard_missing_job_indexes E R j s))"
proof (cases "rget R s (state_key (env_prefix E) j)")
  case None
  then have "discard_missing_job_indexes_body E R j s = Commit
      [Zrem (active_key (env_prefix E)) (uuid_str j), Zrem (sync_pending_key (env_prefix E)) (uuid_str j),
       Zrem (recovery_pending_key (env_prefix E)) (uuid_str j), Del [lease_key (env_prefix E) j]] [] True"
    by (simp add: discard_missing_job_indexes_body_def Let_def)
  from run_txn_Commit [of "discard_missing_job_indexes_body E R j" s, OF this] None
  show ?thesis by (auto simp: purges_def discard_missing_job_indexes_def)
next
  case (Some v)
  then show ?thesis
    by (simp add: discard_missing_job_indexes_def discard_missing_job_indexes_body_def Let_def
        run_txn.simps)
qed

lemma discard_missing_job_recovery_cases:
  "fst (discard_missing_job_recovery E R j g s) = s \<or> purges j s (fst (discard_missing_job_recovery E R j g s))"
proof (cases "rget R s (state_key (env_prefix E) j) = None
    \<and> zscore R s (recovery_pending_key (env_prefix E)) (uuid_str j) = Some (of_count g)")
  case True
  then have "discard_missing_job_recovery_body E R j g s = Commit
      [Zrem (recovery_pending_key (env_prefix E)) (uuid_str j), Zrem (active_key (env_prefix E)) (uuid_str j),
       Zrem (sync_pending_key (env_prefix E)) (uuid_str j), Del [lease_key (env_prefix E) j]] [] True"
    by (simp add: discard_missing_job_recovery_body_def Let_def)
  from run_txn_Commit [of "discard_missing_job_recovery_body E R j g" s, OF this] True
  show ?thesis by (auto simp: purges_def discard_missing_job_recovery_def)
next
  case False
  then show ?thesis
    by (auto simp: discard_missing_job_recovery_def discard_missing_job_recovery_body_def Let_def
        run_txn.simps)
qed

lemma mark_recovery_enqueued_elim:
  obtains
    (unchanged) "fst (mark_recovery_enqueued E R j g now s) = s"
      "snd (mark_recovery_enqueued E R j g now s) \<noteq> Inr True"
  | (closed) current where
      "get_state E R s j = Inr (Some current)" "js_run_generation current = g"
      "snd (mark_recovery_enqueued E R j g now s) = Inr True"
      "rget R (fst (mark_recovery_enqueued E R j g now s)) = rget R s"
      "zscore R (fst (mark_recovery_enqueued E R j g now s)) =
        (zscore R s)(recovery_pending_key (env_prefix E) :=
            (zscore R s (recovery_pending_key (env_prefix E)))(uuid_str j := None),
          active_key (env_prefix E) :=
            (if terminal current then zscore R s (active_key (env_prefix E))
             else (zscore R s (active_key (env_prefix E)))(uuid_str j \<mapsto> of_timestamp now)))"
proof (cases "mark_recovery_enqueued_body E R j g now s")
  case (Fail e)
  then show ?thesis using unchanged by (auto simp: mark_recovery_enqueued_def run_txn_Fail)
next
  case (Return r)
  have "mark_recovery_enqueued_body E R j g now s \<noteq> Return True"
    by (simp add: mark_recovery_enqueued_body_def Let_def split: sum.split option.split)
  with Return have "mark_recovery_enqueued E R j g now s = (s, Inr False)"
    by (cases r) (simp_all add: mark_recovery_enqueued_def run_txn_Return)
  then show ?thesis by (intro unchanged) simp_all
next
  case (Commit cs pubs r)
  then obtain current where *:
      "get_state E R s j = Inr (Some current)" "js_run_generation current = g" "r = True"
      "cs = Zrem (recovery_pending_key (env_prefix E)) (uuid_str j)
            # (if terminal current then []
               else [Zadd (active_key (env_prefix E)) (uuid_str j) (of_timestamp now)])"
    by (auto simp: mark_recovery_enqueued_body_def Let_def split: sum.splits option.splits if_splits)
  have ok: "list_all cmd_ok cs" by (auto simp: *(4))
  show ?thesis
    using * run_txn_Commit [of "mark_recovery_enqueued_body E R j g now" s, OF Commit ok]
    by (intro closed [of current]) (auto simp: mark_recovery_enqueued_def fun_eq_iff)
qed

text \<open>Leases: nothing but the job's lease key changes.\<close>

lemma acquire_lease_views:
  assumes "0 < ttl"
  shows "snd (acquire_lease E R j g tok ttl s) \<longleftrightarrow> rget R s (lease_key (env_prefix E) j) = None"
    and "rget R (fst (acquire_lease E R j g tok ttl s)) =
      (if rget R s (lease_key (env_prefix E) j) = None
       then (rget R s)(lease_key (env_prefix E) j \<mapsto> VText (lease_value E g tok)) else rget R s)"
    and "k \<noteq> lease_key (env_prefix E) j \<Longrightarrow>
      zscore R (fst (acquire_lease E R j g tok ttl s)) k = zscore R s k"
  using assms by (auto simp: acquire_lease_def set_nx_def get_exec zscore_exec)

lemma refresh_lease_views:
  assumes "0 < ttl"
  shows "snd (refresh_lease E R j g tok ttl s) = Inr (holds_lease E R s j g tok)"
    and "rget R (fst (refresh_lease E R j g tok ttl s)) = rget R s"
    and "zscore R (fst (refresh_lease E R j g tok ttl s)) = zscore R s"
  using assms
  by (auto simp: refresh_lease_def refresh_lease_body_def run_txn.simps commit_views publish_all_def
      get_exec zscore_exec)

lemma release_lease_views:
  "snd (release_lease E R j g tok s) = Inr (holds_lease E R s j g tok)"
  "rget R (fst (release_lease E R j g tok s)) =
     (if holds_lease E R s j g tok then (rget R s)(lease_key (env_prefix E) j := None) else rget R s)"
  "k \<noteq> lease_key (env_prefix E) j \<Longrightarrow> zscore R (fst (release_lease E R j g tok s)) k = zscore R s k"
  by (auto simp: release_lease_def release_lease_body_def run_txn.simps commit_views publish_all_def
      get_exec zscore_exec)

end

interpretation mem_rt: job_runtime mem_redis example_env
  by unfold_locales simp

end
