(* ===== verification/Store_Invariant.thy ===== *)
theory Store_Invariant
  imports Store_Laws
begin

text \<open>
  The store as a state machine. \<open>store_step\<close> has one rule per operation of the store, a
  rule for writes of the other components, which own other keys, and \<open>store_expiry\<close> is
  the server dropping keys whose time to live ran out. The invariant ties the indexes to
  the states; \<open>lifecycle_step\<close> is the abstract life of one job, and every step of the
  store is a step of it.
\<close>

subsection \<open>Steps\<close>

inductive store_step :: "runtime_env \<Rightarrow> 's server \<Rightarrow> 's \<Rightarrow> 's \<Rightarrow> bool"
  for E :: runtime_env and R :: "'s server"
where
  step_register: "store_step E R s (fst (register_job E R a s))"
| step_transition: "store_step E R s (fst (transition E R j ta s))"
| step_take_over: "store_step E R s (fst (take_over_stale E R j g now s))"
| step_acquire: "0 < ttl \<Longrightarrow> store_step E R s (fst (acquire_lease E R j g tok ttl s))"
| step_refresh: "0 < ttl \<Longrightarrow> store_step E R s (fst (refresh_lease E R j g tok ttl s))"
| step_release: "store_step E R s (fst (release_lease E R j g tok s))"
| step_mark_synced: "store_step E R s (fst (mark_callback_synced E R j rv s))"
| step_retry: "store_step E R s (fst (retry_failed E R j now s))"
| step_list_stale: "store_step E R s (fst (list_stale_jobs E R cutoff n s))"
| step_list_callbacks: "store_step E R s (fst (list_pending_callbacks E R n s))"
| step_list_recoveries: "store_step E R s (fst (list_pending_recoveries E R n s))"
| step_recovery_generation: "store_step E R s (fst (pending_recovery_generation E R j s))"
| step_discard_recovery: "store_step E R s (fst (discard_pending_recovery E R j g s))"
| step_purge_indexes: "store_step E R s (fst (discard_missing_job_indexes E R j s))"
| step_purge_recovery: "store_step E R s (fst (discard_missing_job_recovery E R j g s))"
| step_mark_enqueued: "store_step E R s (fst (mark_recovery_enqueued E R j g now s))"
| step_elsewhere:
    "(\<And>j. rget R t (state_key (env_prefix E) j) = rget R s (state_key (env_prefix E) j)) \<Longrightarrow>
     (\<And>k. k \<in> {active_key (env_prefix E), sync_pending_key (env_prefix E),
                recovery_pending_key (env_prefix E)} \<Longrightarrow> zscore R t k = zscore R s k) \<Longrightarrow>
     store_step E R s t"

definition store_expiry :: "'s server \<Rightarrow> 's \<Rightarrow> 's \<Rightarrow> bool" where
  "store_expiry R s t \<longleftrightarrow>
     (\<forall>k. rget R t k = rget R s k \<or> rget R t k = None) \<and> zscore R t = zscore R s"

inductive store_reachable :: "runtime_env \<Rightarrow> 's server \<Rightarrow> 's \<Rightarrow> bool"
  for E :: runtime_env and R :: "'s server"
where
  reach_start: "(\<And>j. rget R s (state_key (env_prefix E) j) = None) \<Longrightarrow> store_reachable E R s"
| reach_step: "store_reachable E R s \<Longrightarrow> store_step E R s t \<Longrightarrow> store_reachable E R t"
| reach_expiry: "store_reachable E R s \<Longrightarrow> store_expiry R s t \<Longrightarrow> store_reachable E R t"

subsection \<open>Invariant\<close>

text \<open>
  A stored state is valid and stored under its own key; an open job is in the active
  index; a job with an undelivered revision is in the callback index under that revision;
  a terminal job awaits no recovery. Where \<open>exact\<close> is asked for, the converse holds too: a
  terminal job is not in the active index, nor a delivered one in the callback index. The
  other theories need the first part only.
\<close>

definition state_indexed ::
    "bool \<Rightarrow> runtime_env \<Rightarrow> (string \<Rightarrow> string \<Rightarrow> score option) \<Rightarrow> uuid \<Rightarrow> job_state \<Rightarrow> bool" where
  "state_indexed exact E zs j st \<longleftrightarrow>
     valid_state st \<and> js_job_id st = j
   \<and> (\<not> terminal st \<longrightarrow> zs (active_key (env_prefix E)) (uuid_str j) \<noteq> None)
   \<and> (js_callback_synced_revision st < js_revision st \<longrightarrow>
        zs (sync_pending_key (env_prefix E)) (uuid_str j) = Some (of_count (js_revision st)))
   \<and> (terminal st \<longrightarrow> zs (recovery_pending_key (env_prefix E)) (uuid_str j) = None)
   \<and> (exact \<longrightarrow>
        (terminal st \<longrightarrow> zs (active_key (env_prefix E)) (uuid_str j) = None)
      \<and> (js_revision st \<le> js_callback_synced_revision st \<longrightarrow>
           zs (sync_pending_key (env_prefix E)) (uuid_str j) = None))"

definition job_inv ::
    "bool \<Rightarrow> runtime_env \<Rightarrow> (string \<Rightarrow> rval option) \<Rightarrow> (string \<Rightarrow> string \<Rightarrow> score option) \<Rightarrow> uuid \<Rightarrow> bool"
where
  "job_inv exact E kv zs j \<longleftrightarrow>
     (case kv (state_key (env_prefix E) j) of
        None \<Rightarrow> True
      | Some (VState st) \<Rightarrow> state_indexed exact E zs j st
      | Some _ \<Rightarrow> False)"

definition store_consistent :: "bool \<Rightarrow> runtime_env \<Rightarrow> 's server \<Rightarrow> 's \<Rightarrow> bool" where
  "store_consistent exact E R s \<longleftrightarrow> (\<forall>j. job_inv exact E (rget R s) (zscore R s) j)"

abbreviation store_inv :: "runtime_env \<Rightarrow> 's server \<Rightarrow> 's \<Rightarrow> bool" where
  "store_inv \<equiv> store_consistent False"

lemma job_inv_None: "kv (state_key (env_prefix E) j) = None \<Longrightarrow> job_inv exact E kv zs j"
  by (simp add: job_inv_def)

lemma job_inv_Some:
  "kv (state_key (env_prefix E) j) = Some (VState st) \<Longrightarrow>
   job_inv exact E kv zs j \<longleftrightarrow> state_indexed exact E zs j st"
  by (simp add: job_inv_def)

lemma job_inv_cong:
  assumes "kv' (state_key (env_prefix E) j) = kv (state_key (env_prefix E) j)"
    and "zs' (active_key (env_prefix E)) (uuid_str j) = zs (active_key (env_prefix E)) (uuid_str j)"
    and "zs' (sync_pending_key (env_prefix E)) (uuid_str j) = zs (sync_pending_key (env_prefix E)) (uuid_str j)"
    and "zs' (recovery_pending_key (env_prefix E)) (uuid_str j)
           \<in> {None, zs (recovery_pending_key (env_prefix E)) (uuid_str j)}"
    and "job_inv exact E kv zs j"
  shows "job_inv exact E kv' zs' j"
  using assms by (auto simp: job_inv_def state_indexed_def split: option.splits rval.splits)

lemma store_invD:
  assumes "store_consistent exact E R s" "get_state E R s j = Inr (Some st)"
  shows "rget R s (state_key (env_prefix E) j) = Some (VState st)"
    and "state_indexed exact E (zscore R s) j st"
proof -
  have inv: "job_inv exact E (rget R s) (zscore R s) j" using assms(1) by (simp add: store_consistent_def)
  then show kv: "rget R s (state_key (env_prefix E) j) = Some (VState st)"
    using assms(2)
    by (auto simp: job_inv_def get_state_def state_indexed_def
        split: option.splits rval.splits sum.splits)
  show "state_indexed exact E (zscore R s) j st"
    using inv kv by (simp add: job_inv_def)
qed

lemma store_inv_get_state:
  assumes "store_consistent exact E R s"
  shows "get_state E R s j =
    Inr (case rget R s (state_key (env_prefix E) j) of Some (VState st) \<Rightarrow> Some st | _ \<Rightarrow> None)"
proof -
  have "job_inv exact E (rget R s) (zscore R s) j" using assms by (simp add: store_consistent_def)
  then show ?thesis
    by (auto simp: job_inv_def get_state_def state_indexed_def split: option.splits rval.splits)
qed

text \<open>Replacing one job's state: the shape of every writing operation.\<close>

lemma store_inv_update:
  assumes inv: "store_consistent exact E R s"
    and kv: "\<And>i. i \<noteq> j \<Longrightarrow> kv' (state_key (env_prefix E) i) = rget R s (state_key (env_prefix E) i)"
    and zs: "\<And>i k. i \<noteq> j \<Longrightarrow> k \<in> {active_key (env_prefix E), sync_pending_key (env_prefix E),
               recovery_pending_key (env_prefix E)} \<Longrightarrow>
               zs' k (uuid_str i) = zscore R s k (uuid_str i)"
    and new: "job_inv exact E kv' zs' j"
    and t: "rget R t = kv'" "zscore R t = zs'"
  shows "store_consistent exact E R t"
proof -
  have "job_inv exact E kv' zs' i" for i
  proof (cases "i = j")
    case True
    then show ?thesis using new by simp
  next
    case False
    have "job_inv exact E (rget R s) (zscore R s) i" using inv by (simp add: store_consistent_def)
    then show ?thesis
      by (rule job_inv_cong [rotated 4]) (use False in \<open>simp_all add: kv zs\<close>)
  qed
  then show ?thesis by (simp add: store_consistent_def t)
qed

lemma store_inv_frame:
  assumes "store_consistent exact E R s"
    and "\<And>j. rget R t (state_key (env_prefix E) j) = rget R s (state_key (env_prefix E) j)"
    and "\<And>j. zscore R t (active_key (env_prefix E)) (uuid_str j)
           = zscore R s (active_key (env_prefix E)) (uuid_str j)"
    and "\<And>j. zscore R t (sync_pending_key (env_prefix E)) (uuid_str j)
           = zscore R s (sync_pending_key (env_prefix E)) (uuid_str j)"
    and "\<And>j. zscore R t (recovery_pending_key (env_prefix E)) (uuid_str j)
           \<in> {None, zscore R s (recovery_pending_key (env_prefix E)) (uuid_str j)}"
  shows "store_consistent exact E R t"
  unfolding store_consistent_def
proof
  fix j
  have "job_inv exact E (rget R s) (zscore R s) j" using assms(1) by (simp add: store_consistent_def)
  then show "job_inv exact E (rget R t) (zscore R t) j"
    by (rule job_inv_cong [rotated 4]) (use assms(2-5) in auto)
qed

lemma valid_synced: "valid_state st \<Longrightarrow> js_callback_synced_revision st \<le> js_revision st"
  by (auto dest: valid_state_fields(2) simp: lifecycle_ok_def)

context job_runtime
begin

lemma recovery_shrinks_inv: "store_consistent exact E R s \<Longrightarrow> recovery_shrinks s t \<Longrightarrow> store_consistent exact E R t"
  by (rule store_inv_frame) (auto simp: recovery_shrinks_def)

lemma purges_inv:
  assumes inv: "store_consistent exact E R s" and p: "purges j s t"
  shows "store_consistent exact E R t"
proof (rule store_inv_update [OF inv])
  show "job_inv exact E (rget R t) (zscore R t) j"
    using p by (intro job_inv_None) (simp add: purges_def)
qed (use p in \<open>auto simp: purges_def\<close>)

lemma transition_inv: "store_consistent exact E R s \<Longrightarrow> store_consistent exact E R (fst (transition E R j a s))"
proof (rule transition_elim [of j a s])
  assume inv: "store_consistent exact E R s"
  fix current nxt
  assume cur: "get_state E R s j = Inr (Some current)"
    and val: "validate_job_state (next_state a current) = Inr nxt"
    and kv: "rget R (fst (transition E R j a s)) = (rget R s)(state_key (env_prefix E) j \<mapsto> VState nxt)"
    and zs: "zscore R (fst (transition E R j a s)) =
        fold cmd_zs (transition_commands E j (ta_now a) nxt) (zscore R s)"
  have ix: "js_job_id current = j" "js_callback_synced_revision current \<le> js_revision current"
    using store_invD(2) [OF inv cur] by (auto simp: state_indexed_def intro: valid_synced)
  with validate_job_state_Inr [OF val] have nxt: "valid_state nxt" "js_job_id nxt = j"
      "js_callback_synced_revision nxt < js_revision nxt"
    by (simp_all add: next_state_def)
  show "store_consistent exact E R (fst (transition E R j a s))"
  proof (rule store_inv_update [OF inv _ _ _ kv zs])
    show "job_inv exact E ((rget R s)(state_key (env_prefix E) j \<mapsto> VState nxt))
      (fold cmd_zs (transition_commands E j (ta_now a) nxt) (zscore R s)) j"
      using nxt by (auto simp: job_inv_Some state_indexed_def transition_commands_def Let_def)
  qed (auto simp: transition_commands_def Let_def)
qed auto

lemma take_over_inv: "store_consistent exact E R s \<Longrightarrow> store_consistent exact E R (fst (take_over_stale E R j g now s))"
proof (rule take_over_elim [of j g now s])
  assume inv: "store_consistent exact E R s"
  fix current nxt
  assume cur: "get_state E R s j = Inr (Some current)" and open_cur: "\<not> terminal current"
    and val: "validate_job_state (takeover_state now current) = Inr nxt"
    and kv: "rget R (fst (take_over_stale E R j g now s)) =
        (rget R s)(state_key (env_prefix E) j \<mapsto> VState nxt, lease_key (env_prefix E) j := None)"
    and zs: "zscore R (fst (take_over_stale E R j g now s)) =
        fold cmd_zs (takeover_commands E j now nxt) (zscore R s)"
  have ix: "js_job_id current = j" "js_callback_synced_revision current \<le> js_revision current"
    using store_invD(2) [OF inv cur] by (auto simp: state_indexed_def intro: valid_synced)
  with validate_job_state_Inr [OF val] have nxt: "valid_state nxt" "js_job_id nxt = j"
      "js_callback_synced_revision nxt < js_revision nxt" "\<not> terminal nxt"
    by (simp_all add: takeover_state_def terminal_def)
  show "store_consistent exact E R (fst (take_over_stale E R j g now s))"
  proof (rule store_inv_update [OF inv _ _ _ kv zs])
    show "job_inv exact E ((rget R s)(state_key (env_prefix E) j \<mapsto> VState nxt, lease_key (env_prefix E) j := None))
      (fold cmd_zs (takeover_commands E j now nxt) (zscore R s)) j"
      using nxt by (simp add: job_inv_Some state_indexed_def takeover_commands_def Let_def)
  qed (auto simp: takeover_commands_def Let_def)
qed auto

lemma register_inv: "store_consistent exact E R s \<Longrightarrow> store_consistent exact E R (fst (register_job E R a s))"
proof (rule register_elim [of a s])
  assume inv: "store_consistent exact E R s"
  fix initial
  assume val: "validate_job_state (initial_state E a) = Inr initial"
    and kv: "rget R (fst (register_job E R a s)) = fold cmd_kv (register_commands E a initial) (rget R s)"
    and zs: "zscore R (fst (register_job E R a s)) = fold cmd_zs (register_commands E a initial) (zscore R s)"
  from validate_job_state_Inr [OF val] have nxt: "valid_state initial" "js_job_id initial = ra_job_id a"
      "\<not> terminal initial" "js_callback_synced_revision initial < js_revision initial"
    by (simp_all add: initial_state_def terminal_def fields_ok_def)
  show "store_consistent exact E R (fst (register_job E R a s))"
  proof (rule store_inv_update [OF inv _ _ _ kv zs, where j = "ra_job_id a"])
    show "job_inv exact E (fold cmd_kv (register_commands E a initial) (rget R s))
       (fold cmd_zs (register_commands E a initial) (zscore R s)) (ra_job_id a)"
      using nxt by (simp add: job_inv_Some state_indexed_def register_commands_def Let_def)
  qed (auto simp: register_commands_def Let_def)
qed auto

lemma synced_valid:
  "valid_state st \<Longrightarrow> valid_state (st\<lparr>js_callback_synced_revision :=
     min (max rv (js_callback_synced_revision st)) (js_revision st)\<rparr>)"
  by (cases "js_status st")
    (auto simp: valid_state_iff fields_ok_def lifecycle_ok_def split: option.splits durable_report.splits)

lemma mark_callback_synced_inv:
  "store_consistent exact E R s \<Longrightarrow> store_consistent exact E R (fst (mark_callback_synced E R j rv s))"
proof (rule mark_callback_synced_elim [of j rv s])
  assume inv: "store_consistent exact E R s"
  fix current synced
  assume cur: "get_state E R s j = Inr (Some current)"
    and sy: "synced = min (max rv (js_callback_synced_revision current)) (js_revision current)"
    and kv: "rget R (fst (mark_callback_synced E R j rv s)) = (rget R s)(state_key (env_prefix E) j
            \<mapsto> VState (current\<lparr>js_callback_synced_revision := synced\<rparr>))"
    and zs: "zscore R (fst (mark_callback_synced E R j rv s)) =
        (zscore R s)(state_key (env_prefix E) j := Map.empty,
          sync_pending_key (env_prefix E) :=
            (if js_revision current \<le> synced
             then (zscore R s (sync_pending_key (env_prefix E)))(uuid_str j := None)
             else zscore R s (sync_pending_key (env_prefix E))))"
  have ix: "state_indexed exact E (zscore R s) j current" by (rule store_invD(2) [OF inv cur])
  then have "valid_state (current\<lparr>js_callback_synced_revision := synced\<rparr>)"
    unfolding sy by (intro synced_valid) (simp add: state_indexed_def)
  moreover have "js_callback_synced_revision current \<le> synced"
    using ix by (auto simp: sy state_indexed_def dest: valid_state_fields(2) simp: lifecycle_ok_def)
  ultimately have new: "job_inv exact E ((rget R s)(state_key (env_prefix E) j
            \<mapsto> VState (current\<lparr>js_callback_synced_revision := synced\<rparr>)))
      (zscore R (fst (mark_callback_synced E R j rv s))) j"
    using ix by (auto simp: job_inv_Some zs state_indexed_def terminal_def)
  show "store_consistent exact E R (fst (mark_callback_synced E R j rv s))"
    by (rule store_inv_update [OF inv _ _ new kv refl]) (auto simp: zs)
qed auto

lemma retry_failed_inv: "store_consistent exact E R s \<Longrightarrow> store_consistent exact E R (fst (retry_failed E R j now s))"
proof (rule retry_failed_elim [of j now s])
  assume inv: "store_consistent exact E R s"
  fix current er nxt
  assume cur: "get_state E R s j = Inr (Some current)"
    and val: "validate_job_state (retry_state now current) = Inr nxt"
    and kv: "rget R (fst (retry_failed E R j now s)) = (rget R s)(state_key (env_prefix E) j \<mapsto> VState nxt)"
    and zs: "zscore R (fst (retry_failed E R j now s)) =
        (zscore R s)(state_key (env_prefix E) j := Map.empty,
          active_key (env_prefix E) :=
            (zscore R s (active_key (env_prefix E)))(uuid_str j \<mapsto> of_timestamp now),
          sync_pending_key (env_prefix E) :=
            (zscore R s (sync_pending_key (env_prefix E)))(uuid_str j \<mapsto> of_count (js_revision nxt)))"
  have ix: "js_job_id current = j" "js_callback_synced_revision current \<le> js_revision current"
    using store_invD(2) [OF inv cur] by (auto simp: state_indexed_def intro: valid_synced)
  with validate_job_state_Inr [OF val] have nxt: "valid_state nxt" "js_job_id nxt = j"
      "js_callback_synced_revision nxt < js_revision nxt" "\<not> terminal nxt"
    by (simp_all add: retry_state_def terminal_def)
  have new: "job_inv exact E ((rget R s)(state_key (env_prefix E) j \<mapsto> VState nxt))
      (zscore R (fst (retry_failed E R j now s))) j"
    using nxt by (simp add: job_inv_Some state_indexed_def zs)
  show "store_consistent exact E R (fst (retry_failed E R j now s))"
    by (rule store_inv_update [OF inv _ _ new kv refl]) (auto simp: zs)
qed auto

lemma mark_recovery_enqueued_inv:
  "store_consistent exact E R s \<Longrightarrow> store_consistent exact E R (fst (mark_recovery_enqueued E R j g now s))"
proof (rule mark_recovery_enqueued_elim [of j g now s])
  assume inv: "store_consistent exact E R s"
  fix current
  assume cur: "get_state E R s j = Inr (Some current)"
    and kv: "rget R (fst (mark_recovery_enqueued E R j g now s)) = rget R s"
    and zs: "zscore R (fst (mark_recovery_enqueued E R j g now s)) =
        (zscore R s)(recovery_pending_key (env_prefix E) :=
            (zscore R s (recovery_pending_key (env_prefix E)))(uuid_str j := None),
          active_key (env_prefix E) :=
            (if terminal current then zscore R s (active_key (env_prefix E))
             else (zscore R s (active_key (env_prefix E)))(uuid_str j \<mapsto> of_timestamp now)))"
  have new: "job_inv exact E (rget R s) (zscore R (fst (mark_recovery_enqueued E R j g now s))) j"
    using store_invD [OF inv cur] by (auto simp: job_inv_Some state_indexed_def zs)
  show "store_consistent exact E R (fst (mark_recovery_enqueued E R j g now s))"
    by (rule store_inv_update [OF inv _ _ new kv refl]) (auto simp: zs)
qed auto

lemma list_jobs_inv:
  "store_consistent exact E R s \<Longrightarrow> store_consistent exact E R (fst (list_stale_jobs E R cutoff n s))"
  "store_consistent exact E R s \<Longrightarrow> store_consistent exact E R (fst (list_pending_callbacks E R n s))"
  by (auto simp: list_stale_jobs_def list_pending_callbacks_def Let_def collect_jobs_views
      intro!: store_inv_frame [of _ E R s])

lemma lease_inv:
  "0 < ttl \<Longrightarrow> store_consistent exact E R s \<Longrightarrow> store_consistent exact E R (fst (acquire_lease E R j g tok ttl s))"
  "0 < ttl \<Longrightarrow> store_consistent exact E R s \<Longrightarrow> store_consistent exact E R (fst (refresh_lease E R j g tok ttl s))"
  "store_consistent exact E R s \<Longrightarrow> store_consistent exact E R (fst (release_lease E R j g tok s))"
  by (auto simp: acquire_lease_views refresh_lease_views release_lease_views
      intro!: store_inv_frame [of _ E R s])

lemma store_step_inv: "store_step E R s t \<Longrightarrow> store_consistent exact E R s \<Longrightarrow> store_consistent exact E R t"
proof (induction rule: store_step.induct)
  case (step_purge_indexes s j)
  then show ?case using discard_missing_job_indexes_cases [of j s] by (auto intro: purges_inv)
next
  case (step_purge_recovery s j g)
  then show ?case using discard_missing_job_recovery_cases [of j g s] by (auto intro: purges_inv)
next
  case (step_elsewhere t s)
  show ?case by (rule store_inv_frame [OF step_elsewhere.prems]) (auto simp: step_elsewhere.hyps)
qed (auto intro: register_inv transition_inv take_over_inv lease_inv mark_callback_synced_inv
      retry_failed_inv list_jobs_inv mark_recovery_enqueued_inv recovery_shrinks_inv
      list_pending_recoveries_shrinks pending_recovery_generation_shrinks
      discard_pending_recovery_shrinks)

lemma store_expiry_inv: "store_expiry R s t \<Longrightarrow> store_consistent exact E R s \<Longrightarrow> store_consistent exact E R t"
  unfolding store_consistent_def store_expiry_def job_inv_def
  by (auto split: option.splits rval.splits; metis option.distinct(1) option.inject rval.inject(1)
      rval.distinct)

lemma store_reachable_inv: "store_reachable E R s \<Longrightarrow> store_consistent exact E R s"
proof (induction rule: store_reachable.induct)
  case (reach_start s)
  then show ?case by (simp add: store_consistent_def job_inv_None)
next
  case (reach_step s t)
  then show ?case by (blast intro: store_step_inv)
next
  case (reach_expiry s t)
  then show ?case by (blast intro: store_expiry_inv)
qed

end

end
