(* ===== verification/Job_Lifecycle.thy ===== *)
theory Job_Lifecycle
  imports Store_Invariant
begin

text \<open>
  The abstract life of one job, and the proof that the store implements it: every step of
  the store leaves a job as it is or takes one step of \<open>lifecycle_step\<close>. Fencing of
  superseded workers, monotone generations and revisions, and the finality of terminal
  states are then facts about the abstract machine.
\<close>

datatype job_abs =
  Job_abs (ab_status: job_status) (ab_generation: int) (ab_revision: int) (ab_retryable: bool)

definition job_retryable :: "job_state \<Rightarrow> bool" where
  "job_retryable st = (case js_error st of None \<Rightarrow> False | Some er \<Rightarrow> er_retryable er)"

definition abs_state :: "job_state \<Rightarrow> job_abs" where
  "abs_state st = Job_abs (js_status st) (js_run_generation st) (js_revision st) (job_retryable st)"

definition abs_job :: "runtime_env \<Rightarrow> 's server \<Rightarrow> 's \<Rightarrow> uuid \<Rightarrow> job_abs option" where
  "abs_job E R s j =
     (case rget R s (state_key (env_prefix E) j) of
        Some (VState st) \<Rightarrow> Some (abs_state st) | _ \<Rightarrow> None)"

inductive lifecycle_step :: "job_abs option \<Rightarrow> job_abs option \<Rightarrow> bool" where
  life_create: "1 \<le> g \<Longrightarrow> 1 \<le> r \<Longrightarrow> lifecycle_step None (Some (Job_abs Queued g r False))"
| life_write:
    "st' \<in> set (ALLOWED_TRANSITIONS st) \<Longrightarrow> (st' \<noteq> Failed \<longrightarrow> \<not> y') \<Longrightarrow>
     lifecycle_step (Some (Job_abs st g r y)) (Some (Job_abs st' g (r + 1) y'))"
| life_recover:
    "st \<in> {Queued, Running} \<Longrightarrow>
     lifecycle_step (Some (Job_abs st g r y)) (Some (Job_abs Queued (g + 1) (r + 1) False))"
| life_retry:
    "lifecycle_step (Some (Job_abs Failed g r True)) (Some (Job_abs Queued (g + 1) (r + 1) False))"

inductive_cases lifecycle_from_NoneE [elim!]: "lifecycle_step None a"
inductive_cases lifecycle_from_SomeE: "lifecycle_step (Some a) b"
inductive_simps lifecycle_terminal [simp]:
  "lifecycle_step (Some (Job_abs Succeeded g r y)) b"
  "lifecycle_step (Some (Job_abs Failed g r y)) b"

lemma lifecycle_progress:
  assumes "lifecycle_step (Some a) b"
  obtains b' where "b = Some b'" "ab_revision b' = ab_revision a + 1"
    "ab_generation b' = ab_generation a \<or> (ab_generation b' = ab_generation a + 1 \<and> ab_status b' = Queued)"
  using assms by (auto elim!: lifecycle_from_SomeE)

lemma lifecycle_final:
  "lifecycle_step (Some a) b \<Longrightarrow> ab_status a = Succeeded \<or> (ab_status a = Failed \<and> \<not> ab_retryable a) \<Longrightarrow> False"
  by (auto elim!: lifecycle_from_SomeE)

lemma ab_abs_state [simp]:
  "ab_status (abs_state st) = js_status st" "ab_generation (abs_state st) = js_run_generation st"
  "ab_revision (abs_state st) = js_revision st" "ab_retryable (abs_state st) = job_retryable st"
  by (simp_all add: abs_state_def)

lemma abs_job_Some_iff:
  assumes "store_inv E R s"
  shows "abs_job E R s j = Some a \<longleftrightarrow> (\<exists>st. get_state E R s j = Inr (Some st) \<and> a = abs_state st)"
proof (cases "rget R s (state_key (env_prefix E) j)")
  case None
  then show ?thesis by (simp add: abs_job_def store_inv_get_state [OF assms])
next
  case (Some v)
  then show ?thesis by (cases v) (auto simp: abs_job_def store_inv_get_state [OF assms])
qed

lemma valid_not_failed_retryable: "valid_state st \<Longrightarrow> js_status st \<noteq> Failed \<Longrightarrow> \<not> job_retryable st"
  using valid_state_fields(2) [of st]
  by (cases "js_status st") (simp_all add: lifecycle_ok_def job_retryable_def)

lemma abs_job_write:
  "abs_job E R t j = Some (abs_state st)"
  if "rget R t (state_key (env_prefix E) j) = Some (VState st)"
  using that by (simp add: abs_job_def)

lemma abs_job_frame:
  "rget R t (state_key (env_prefix E) j) = rget R s (state_key (env_prefix E) j) \<Longrightarrow>
   abs_job E R t j = abs_job E R s j"
  by (simp add: abs_job_def)

text \<open>\<open>refines_at\<close>: what a step of the store may do to the abstract job \<open>j\<close>.\<close>

definition refines_at :: "runtime_env \<Rightarrow> 's server \<Rightarrow> 's \<Rightarrow> 's \<Rightarrow> uuid \<Rightarrow> bool" where
  "refines_at E R s t j \<longleftrightarrow>
     abs_job E R t j = abs_job E R s j \<or> lifecycle_step (abs_job E R s j) (abs_job E R t j)"

lemma refines_at_same:
  "rget R t (state_key (env_prefix E) j) = rget R s (state_key (env_prefix E) j) \<Longrightarrow> refines_at E R s t j"
  by (drule abs_job_frame) (simp add: refines_at_def)

lemma refines_at_kv: "rget R t = rget R s \<Longrightarrow> refines_at E R s t j"
  by (simp add: refines_at_same)

text \<open>A write to the state of job \<open>i\<close> refines at \<open>i\<close> by a lifecycle step, elsewhere trivially.\<close>

lemma refines_at_write:
  assumes cur: "rget R s (state_key (env_prefix E) i) = Some (VState current)"
    and new: "rget R t (state_key (env_prefix E) i) = Some (VState nxt)"
    and others: "\<And>k. k \<noteq> i \<Longrightarrow>
        rget R t (state_key (env_prefix E) k) = rget R s (state_key (env_prefix E) k)"
    and step: "lifecycle_step (Some (abs_state current)) (Some (abs_state nxt))"
  shows "refines_at E R s t j"
proof (cases "j = i")
  case True
  then show ?thesis using step by (simp add: refines_at_def abs_job_write [OF cur] abs_job_write [OF new])
next
  case False
  then show ?thesis by (intro refines_at_same others)
qed

context job_runtime
begin

lemma transition_refines:
  assumes inv: "store_inv E R s"
  shows "refines_at E R s (fst (transition E R i a s)) j"
proof (rule transition_elim [of i a s])
  fix current nxt
  assume cur: "get_state E R s i = Inr (Some current)"
    and allowed: "ta_status a \<in> set (ALLOWED_TRANSITIONS (js_status current))"
    and val: "validate_job_state (next_state a current) = Inr nxt"
    and kv: "rget R (fst (transition E R i a s)) = (rget R s)(state_key (env_prefix E) i \<mapsto> VState nxt)"
  from validate_job_state_Inr [OF val] have nxt: "valid_state nxt" "js_status nxt = ta_status a"
    "js_run_generation nxt = js_run_generation current" "js_revision nxt = js_revision current + 1"
    by (simp_all add: next_state_def)
  have "lifecycle_step (Some (abs_state current)) (Some (abs_state nxt))"
    unfolding abs_state_def nxt(3,4)
    using allowed nxt valid_not_failed_retryable [OF nxt(1)] by (intro life_write) auto
  then show ?thesis
    by (rule refines_at_write [OF store_invD(1) [OF inv cur], rotated 2]) (simp_all add: kv)
qed (simp add: refines_at_kv)

lemma take_over_refines:
  assumes inv: "store_inv E R s"
  shows "refines_at E R s (fst (take_over_stale E R i g now s)) j"
proof (rule take_over_elim [of i g now s])
  fix current nxt
  assume cur: "get_state E R s i = Inr (Some current)" and open_cur: "\<not> terminal current"
    and val: "validate_job_state (takeover_state now current) = Inr nxt"
    and kv: "rget R (fst (take_over_stale E R i g now s)) =
        (rget R s)(state_key (env_prefix E) i \<mapsto> VState nxt, lease_key (env_prefix E) i := None)"
  from validate_job_state_Inr [OF val] have nxt: "valid_state nxt" "js_status nxt = Queued"
    "js_run_generation nxt = js_run_generation current + 1" "js_revision nxt = js_revision current + 1"
    by (simp_all add: takeover_state_def)
  have "js_status current \<in> {Queued, Running}"
    using open_cur by (cases "js_status current") (auto simp: terminal_def)
  then have "lifecycle_step (Some (abs_state current)) (Some (abs_state nxt))"
    unfolding abs_state_def nxt using valid_not_failed_retryable [OF nxt(1)] nxt(2)
    by (auto intro: life_recover)
  then show ?thesis
    by (rule refines_at_write [OF store_invD(1) [OF inv cur], rotated 2]) (simp_all add: kv)
qed (simp add: refines_at_kv)

lemma retry_refines:
  assumes inv: "store_inv E R s"
  shows "refines_at E R s (fst (retry_failed E R i now s)) j"
proof (rule retry_failed_elim [of i now s])
  fix current er nxt
  assume cur: "get_state E R s i = Inr (Some current)"
    and failed: "js_status current = Failed" "js_error current = Some er" "er_retryable er"
    and val: "validate_job_state (retry_state now current) = Inr nxt"
    and kv: "rget R (fst (retry_failed E R i now s)) = (rget R s)(state_key (env_prefix E) i \<mapsto> VState nxt)"
  from validate_job_state_Inr [OF val] have nxt: "valid_state nxt" "js_status nxt = Queued"
    "js_run_generation nxt = js_run_generation current + 1" "js_revision nxt = js_revision current + 1"
    by (simp_all add: retry_state_def)
  have "job_retryable current" using failed by (simp add: job_retryable_def)
  then have "lifecycle_step (Some (abs_state current)) (Some (abs_state nxt))"
    unfolding abs_state_def nxt using failed(1) valid_not_failed_retryable [OF nxt(1)] nxt(2)
    by (auto intro: life_retry)
  then show ?thesis
    by (rule refines_at_write [OF store_invD(1) [OF inv cur], rotated 2]) (simp_all add: kv)
qed (simp add: refines_at_kv)

lemma mark_synced_refines:
  assumes inv: "store_inv E R s"
  shows "refines_at E R s (fst (mark_callback_synced E R i rv s)) j"
proof (rule mark_callback_synced_elim [of i rv s])
  fix current synced
  assume cur: "get_state E R s i = Inr (Some current)"
    and kv: "rget R (fst (mark_callback_synced E R i rv s)) = (rget R s)(state_key (env_prefix E) i
            \<mapsto> VState (current\<lparr>js_callback_synced_revision := synced\<rparr>))"
  have same: "abs_state (current\<lparr>js_callback_synced_revision := synced\<rparr>) = abs_state current"
    by (simp add: abs_state_def job_retryable_def)
  show ?thesis
  proof (cases "j = i")
    case True
    then show ?thesis
      using store_invD(1) [OF inv cur] by (simp add: refines_at_def abs_job_def kv same)
  next
    case False
    then show ?thesis by (simp add: refines_at_same kv)
  qed
qed (simp add: refines_at_kv)

lemma register_refines:
  assumes inv: "store_inv E R s"
  shows "refines_at E R s (fst (register_job E R a s)) j"
proof (rule register_elim [of a s])
  fix initial
  assume val: "validate_job_state (initial_state E a) = Inr initial"
    and new: "get_state E R s (ra_job_id a) = Inr None"
    and kv: "rget R (fst (register_job E R a s)) = fold cmd_kv (register_commands E a initial) (rget R s)"
  from validate_job_state_Inr [OF val] have nxt: "valid_state initial" "js_status initial = Queued"
    by (simp_all add: initial_state_def)
  have none: "abs_job E R s (ra_job_id a) = None"
    using new store_inv_get_state [OF inv, of "ra_job_id a"]
    by (auto simp: abs_job_def split: option.splits rval.splits)
  show ?thesis
  proof (cases "j = ra_job_id a")
    case True
    have "abs_job E R (fst (register_job E R a s)) j = Some (abs_state initial)"
      by (simp add: abs_job_def kv register_commands_def Let_def True)
    moreover have "lifecycle_step None (Some (abs_state initial))"
      unfolding abs_state_def nxt(2)
      using valid_not_failed_retryable [OF nxt(1)] nxt(2) valid_state_fields(1) [OF nxt(1)]
      by (auto intro: life_create simp: fields_ok_def)
    ultimately show ?thesis using True none by (simp add: refines_at_def)
  next
    case False
    then show ?thesis by (intro refines_at_same) (simp add: kv register_commands_def Let_def)
  qed
qed (simp add: refines_at_kv)

text \<open>Forward simulation: the store refines the lifecycle of each of its jobs.\<close>

lemma store_step_refines:
  assumes "store_step E R s t" "store_inv E R s"
  shows "refines_at E R s t j"
  using assms
proof (induction rule: store_step.induct)
  case (step_mark_enqueued s i g now)
  show ?case by (rule mark_recovery_enqueued_elim [of i g now s]) (simp_all add: refines_at_kv)
next
  case (step_purge_indexes s i)
  then show ?case using discard_missing_job_indexes_cases [of i s]
    by (auto simp: purges_def intro!: refines_at_same)
next
  case (step_purge_recovery s i g)
  then show ?case using discard_missing_job_recovery_cases [of i g s]
    by (auto simp: purges_def intro!: refines_at_same)
next
  case (step_list_recoveries s n)
  show ?case using list_pending_recoveries_shrinks [of s n]
    by (intro refines_at_kv) (simp add: recovery_shrinks_def)
next
  case (step_recovery_generation s i)
  show ?case using pending_recovery_generation_shrinks [of s i]
    by (intro refines_at_kv) (simp add: recovery_shrinks_def)
next
  case (step_discard_recovery s i g)
  show ?case using discard_pending_recovery_shrinks [of s i g]
    by (intro refines_at_kv) (simp add: recovery_shrinks_def)
qed ((rule transition_refines take_over_refines retry_refines mark_synced_refines register_refines,
       assumption)
     | (rule refines_at_same,
        simp add: acquire_lease_views refresh_lease_views release_lease_views collect_jobs_views
          list_stale_jobs_def list_pending_callbacks_def Let_def))+

subsection \<open>Runs without expiry\<close>

lemma run_inv: "rtranclp (store_step E R) s t \<Longrightarrow> store_inv E R s \<Longrightarrow> store_inv E R t"
  by (induction rule: rtranclp_induct) (auto intro: store_step_inv)

lemma run_monotone:
  assumes "rtranclp (store_step E R) s t" "store_inv E R s" "abs_job E R s j = Some a"
  shows "\<exists>b. abs_job E R t j = Some b \<and> ab_generation a \<le> ab_generation b
     \<and> ab_revision a \<le> ab_revision b
     \<and> (ab_revision a = ab_revision b \<longrightarrow> b = a)"
  using assms
proof (induction rule: rtranclp_induct)
  case base
  then show ?case by simp
next
  case (step t u)
  then obtain b where b: "abs_job E R t j = Some b" "ab_generation a \<le> ab_generation b"
    "ab_revision a \<le> ab_revision b" "ab_revision a = ab_revision b \<longrightarrow> b = a" by auto
  have "store_inv E R t" using step.hyps(1) step.prems(1) by (rule run_inv)
  from store_step_refines [OF step.hyps(2) this, of j]
  consider "abs_job E R u j = Some b" | "lifecycle_step (Some b) (abs_job E R u j)"
    by (auto simp: refines_at_def b)
  then show ?case
  proof cases
    case 1
    then show ?thesis using b by auto
  next
    case 2
    then obtain c where "abs_job E R u j = Some c" "ab_revision c = ab_revision b + 1"
      "ab_generation b \<le> ab_generation c" by (rule lifecycle_progress) auto
    then show ?thesis using b by auto
  qed
qed

lemma run_final:
  assumes "rtranclp (store_step E R) s t" "store_inv E R s" "abs_job E R s j = Some a"
    and "ab_status a = Succeeded \<or> (ab_status a = Failed \<and> \<not> ab_retryable a)"
  shows "abs_job E R t j = Some a"
  using assms(1)
proof (induction rule: rtranclp_induct)
  case base
  show ?case by (fact assms(3))
next
  case (step t u)
  have "store_inv E R t" using step.hyps(1) assms(2) by (rule run_inv)
  from store_step_refines [OF step.hyps(2) this, of j] show ?case
    using assms(4) step.IH by (auto simp: refines_at_def dest: lifecycle_final)
qed

text \<open>A superseded generation never writes again.\<close>

lemma stale_generation_rejected:
  assumes inv: "store_inv E R s" and cur: "get_state E R s j = Inr (Some current)"
    and g: "ta_expected_generation a = Some g" "g \<noteq> js_run_generation current"
  shows "transition E R j a s = (s, Inl JobLeaseLost)"
  using cur g by (simp add: transition_def transition_body_def run_txn.simps)

lemma fenced_after_takeover:
  assumes inv: "store_inv E R s"
    and taken: "snd (take_over_stale E R j g now s) = Inr r" "tr_applied r"
    and run: "rtranclp (store_step E R) (fst (take_over_stale E R j g now s)) t"
    and exp: "ta_expected_generation a = Some g"
  shows "transition E R j a t = (t, Inl JobLeaseLost)"
proof -
  let ?s' = "fst (take_over_stale E R j g now s)"
  have inv': "store_inv E R ?s'" by (rule take_over_inv [OF inv])
  obtain b where b: "abs_job E R ?s' j = Some b" "ab_generation b = g + 1"
  proof (rule take_over_elim [of j g now s])
    assume "\<And>r. snd (take_over_stale E R j g now s) = Inr r \<Longrightarrow>
        \<not> tr_applied r \<and> get_state E R s j = Inr (Some (tr_state r))"
    then show thesis using taken by auto
  next
    fix current nxt
    assume gen: "js_run_generation current = g"
      and val: "validate_job_state (takeover_state now current) = Inr nxt"
      and kv: "rget R ?s' =
        (rget R s)(state_key (env_prefix E) j \<mapsto> VState nxt, lease_key (env_prefix E) j := None)"
    have "js_run_generation nxt = g + 1"
      using validate_job_state_Inr(10) [OF val] gen by (simp add: takeover_state_def)
    then show thesis by (intro that [of "abs_state nxt"] abs_job_write) (simp_all add: kv)
  qed
  from run_monotone [OF run inv' b(1)] obtain c where
    c: "abs_job E R t j = Some c" "g + 1 \<le> ab_generation c" using b(2) by auto
  have invt: "store_inv E R t" by (rule run_inv [OF run inv'])
  from c obtain current where cur: "get_state E R t j = Inr (Some current)"
    "g < js_run_generation current" by (auto simp: abs_job_Some_iff [OF invt])
  then show ?thesis by (intro stale_generation_rejected [OF invt cur(1) exp]) auto
qed

end

end
