(* ===== verification/Example_Jobs.thy ===== *)
theory Example_Jobs
  imports Job_Lifecycle
begin

text \<open>
  A concrete run of the store on the server in memory, with the lemmas that evaluate it:
  a job is registered, leased, started, marked as delivered and taken over. The concrete
  instances of the properties use these states.
\<close>

definition ex_args :: registration_args where
  "ex_args = \<lparr>ra_job_id = 1, ra_case_id = 2, ra_idempotency_key = ''key'',
     ra_request_payload = JObj [], ra_now = 1000, ra_created_at = None, ra_deadline_at = None,
     ra_initial_generation = 1, ra_initial_revision = 1, ra_initial_attempt_count = 0,
     ra_initial_cost_counters = None\<rparr>"

definition ex_initial :: job_state where
  "ex_initial = initial_state example_env ex_args"

definition ex_registered :: "rval mem" where
  "ex_registered = fst (register_job example_env mem_redis ex_args mem_empty)"

definition ex_start_args :: transition_args where
  "ex_start_args = (transition_call Running St_collecting_site 5 ''Started.'' 2000)
     \<lparr>ta_expected_generation := Some 1\<rparr>"

definition ex_running :: "rval mem" where
  "ex_running = fst (transition example_env mem_redis 1 ex_start_args ex_registered)"

definition ex_fail_args :: "bool \<Rightarrow> transition_args" where
  "ex_fail_args retryable = (transition_call Failed St_failed 5 ''Failed.'' 3000)
     \<lparr>ta_error := Some \<lparr>er_error_code = ''V22_INTERNAL_ERROR'', er_user_message = ''Failed.'',
        er_retryable = retryable, er_stage = St_collecting_site, er_diagnostic_id = 7\<rparr>,
      ta_expected_generation := Some 1\<rparr>"

definition ex_failed :: "bool \<Rightarrow> rval mem" where
  "ex_failed retryable =
     fst (transition example_env mem_redis 1 (ex_fail_args retryable) ex_running)"

definition ex_taken :: "rval mem" where
  "ex_taken = fst (take_over_stale example_env mem_redis 1 1 5000 ex_running)"

lemma ex_registered_reachable: "store_reachable example_env mem_redis ex_registered"
  unfolding ex_registered_def
  by (intro reach_step [OF reach_start step_register]) (simp add: mem_redis_def mem_empty_def)

lemma ex_steps:
  "store_step example_env mem_redis ex_registered ex_running"
  "store_step example_env mem_redis ex_running (ex_failed y)"
  "store_step example_env mem_redis ex_running ex_taken"
  by (simp_all add: ex_running_def ex_failed_def ex_taken_def step_transition step_take_over)

lemma ex_running_reachable: "store_reachable example_env mem_redis ex_running"
  by (rule reach_step [OF ex_registered_reachable ex_steps(1)])

lemma ex_failed_reachable: "store_reachable example_env mem_redis (ex_failed y)"
  by (rule reach_step [OF ex_running_reachable ex_steps(2)])

lemma ex_taken_reachable: "store_reachable example_env mem_redis ex_taken"
  by (rule reach_step [OF ex_running_reachable ex_steps(3)])

lemmas ex_inv = mem_rt.store_reachable_inv [OF ex_registered_reachable]
  mem_rt.store_reachable_inv [OF ex_running_reachable]
  mem_rt.store_reachable_inv [OF ex_failed_reachable]
  mem_rt.store_reachable_inv [OF ex_taken_reachable]

lemma mem_runtime [simp]: "job_runtime mem_redis example_env"
  by (fact mem_rt.job_runtime_axioms)

end
