(* ===== verification/Store_Properties.thy ===== *)
theory Store_Properties
  imports Example_Jobs
begin

text \<open>
  The properties of the durable job store: its indexes always agree with the states, it
  implements the abstract life of a job, superseded workers are fenced, terminal outcomes
  are final, registration is idempotent, delivery marks lose nothing, leases exclude, and
  the optimistic loops are linearizable.
\<close>

subsection \<open>Indexes and lifecycle\<close>

text \<open>
  (C1) In every reachable state of the store, whatever operations ran and keys expired,
  every stored job state is valid and stored under its own identifier; the job is in the
  active index exactly while it is open; it is in the callback index exactly while it has
  an undelivered revision, and then under that revision; and no terminal job awaits
  recovery.
\<close>

theorem reachable_store_consistent:
  assumes "job_runtime R E" "store_reachable E R s"
    and "get_state E R s j = Inr (Some st)"
  shows "valid_state st \<and> js_job_id st = j
    \<and> (zscore R s (active_key (env_prefix E)) (uuid_str j) \<noteq> None \<longleftrightarrow> \<not> terminal st)
    \<and> zscore R s (sync_pending_key (env_prefix E)) (uuid_str j) =
         (if js_callback_synced_revision st < js_revision st
          then Some (of_count (js_revision st)) else None)
    \<and> (terminal st \<longrightarrow> zscore R s (recovery_pending_key (env_prefix E)) (uuid_str j) = None)"
  using store_invD(2) [OF job_runtime.store_reachable_inv [OF assms(1,2), of True] assms(3)]
  by (auto simp: state_indexed_def)

theorem reachable_store_consistent_witness:
  "valid_state ex_initial \<and>
   zscore mem_redis ex_registered (active_key (env_prefix example_env)) (uuid_str 1) \<noteq> None \<and>
   zscore mem_redis ex_registered (sync_pending_key (env_prefix example_env)) (uuid_str 1) \<noteq> None"
proof -
  have "get_state example_env mem_redis ex_registered 1 = Inr (Some ex_initial)" by code_simp
  moreover have "\<not> terminal ex_initial
      \<and> js_callback_synced_revision ex_initial < js_revision ex_initial" by code_simp
  ultimately show ?thesis
    using reachable_store_consistent [OF mem_runtime ex_registered_reachable] by fastforce
qed

text \<open>
  (C2) Every step of the store, from a state with consistent indexes, leaves the abstract
  life of every job as it is or is one step of it: creation in the queue, a permitted
  change of status with the next revision and the same generation, a recovery or a manual
  retry with the next generation and revision.
\<close>

theorem store_implements_lifecycle:
  assumes "job_runtime R E" "store_inv E R s" "store_step E R s t"
  shows "abs_job E R t j = abs_job E R s j \<or> lifecycle_step (abs_job E R s j) (abs_job E R t j)"
  using job_runtime.store_step_refines [OF assms(1,3,2)] by (simp add: refines_at_def)

theorem store_implements_lifecycle_witness:
  "lifecycle_step (abs_job example_env mem_redis ex_registered 1)
     (abs_job example_env mem_redis ex_running 1)"
proof -
  have "abs_job example_env mem_redis ex_running 1 \<noteq> abs_job example_env mem_redis ex_registered 1"
    by code_simp
  then show ?thesis
    using store_implements_lifecycle [OF mem_runtime ex_inv(1) ex_steps(1), of 1] by blast
qed

text \<open>
  (C8) After a stale job was taken over, no transition under the superseded generation is
  applied, however many further steps the store has made: it raises JobLeaseLost and
  leaves the server as it is.
\<close>

theorem superseded_worker_fenced:
  assumes "job_runtime R E" "store_inv E R s"
    and "snd (take_over_stale E R j g now s) = Inr r" "tr_applied r"
    and "(store_step E R)\<^sup>*\<^sup>* (fst (take_over_stale E R j g now s)) t"
    and "ta_expected_generation a = Some g"
  shows "transition E R j a t = (t, Inl JobLeaseLost)"
  by (rule job_runtime.fenced_after_takeover [OF assms])

theorem superseded_worker_fenced_witness:
  "transition example_env mem_redis 1 ex_start_args ex_taken = (ex_taken, Inl JobLeaseLost)"
proof -
  define r where "r = projr (snd (take_over_stale example_env mem_redis 1 1 5000 ex_running))"
  have "snd (take_over_stale example_env mem_redis 1 1 5000 ex_running) = Inr r \<and> tr_applied r"
    unfolding r_def by code_simp
  then show ?thesis
    using superseded_worker_fenced [OF mem_runtime ex_inv(2), of 1 1 5000 r ex_taken ex_start_args]
    by (simp add: ex_taken_def ex_start_args_def)
qed

text \<open>
  (C9) The first terminal outcome wins: once a job has succeeded, or failed without being
  retryable, no sequence of steps of the store changes its status, generation or revision.
\<close>

theorem terminal_outcome_final:
  assumes "job_runtime R E" "store_inv E R s" "(store_step E R)\<^sup>*\<^sup>* s t"
    and "abs_job E R s j = Some a"
    and "ab_status a = Succeeded \<or> (ab_status a = Failed \<and> \<not> ab_retryable a)"
  shows "abs_job E R t j = Some a"
  by (rule job_runtime.run_final [OF assms(1,3,2,4,5)])

theorem terminal_outcome_final_witness:
  "abs_job example_env mem_redis (fst (retry_failed example_env mem_redis 1 9000 (ex_failed False))) 1
   = Some (Job_abs Failed 1 3 False)"
proof -
  have a: "abs_job example_env mem_redis (ex_failed False) 1 = Some (Job_abs Failed 1 3 False)"
    by code_simp
  have "(store_step example_env mem_redis)\<^sup>*\<^sup>* (ex_failed False)
      (fst (retry_failed example_env mem_redis 1 9000 (ex_failed False)))"
    by (intro r_into_rtranclp step_retry)
  from terminal_outcome_final [OF mem_runtime ex_inv(3) this a] show ?thesis by simp
qed

end
