(* ===== verification/Cost_Counters.thy ===== *)
theory Cost_Counters
  imports Cost_Models
begin

text \<open>
  What the flat counters say about the ledger they are derived from: every counter is its
  initial value plus one contribution per claim, the totals are the sums over the
  providers, and the snapshot passes its own validation.
\<close>

subsection \<open>The names of the counters are distinct\<close>

lemma distinct_counter_names: "distinct (map counter_name COUNTER_KEYS)"
  by code_simp

lemma base_in_keys: "b \<in> set BASE_COUNTERS"
  by (cases b) (simp_all add: BASE_COUNTERS_def)

lemma provider_in_PROVIDERS: "p \<in> set PROVIDERS"
  by (cases p) (simp_all add: PROVIDERS_def)

lemma metric_in_METRICS: "m \<in> set METRICS"
  by (cases m) (simp_all add: METRICS_def)

lemma counter_key_listed [simp]: "k \<in> set COUNTER_KEYS"
  by (cases k) (auto simp: COUNTER_KEYS_def base_in_keys
      intro: rev_bexI [OF provider_in_PROVIDERS] imageI [OF metric_in_METRICS])

lemma counter_name_inject [simp]: "counter_name k = counter_name l \<longleftrightarrow> k = l"
  using distinct_counter_names by (auto simp: distinct_map inj_on_def)

lemma map_of_counters_root: "map_of (counters_root c) (counter_name k) = Some (c k)"
proof -
  have "map_of (map (\<lambda>k. (counter_name k, c k)) ks) (counter_name k) = Some (c k)"
    if "k \<in> set ks" for ks
    using that by (induction ks) auto
  then show ?thesis by (simp add: counters_root_def)
qed

lemma counters_root_keys: "map fst (counters_root c) = ALLOWED_COUNTER_KEYS"
  by (simp add: counters_root_def ALLOWED_COUNTER_KEYS_def)

lemma cost_counters_v1_Inr: "cost_counters_v1 c = Inr c' \<Longrightarrow> c' = c"
  by (auto simp: cost_counters_v1_def split: if_splits)

lemma cost_counters_from_state_raw:
  assumes "cost_counters_from_state st now = Inr c"
  obtains r where "raw_counters st now = Inr r" "c = counters_root r"
    "\<And>k. map_of c (counter_name k) = Some (r k)"
  using assms
  by (auto simp: cost_counters_from_state_def map_of_counters_root split: sum.splits
      dest!: cost_counters_v1_Inr)

subsection \<open>The contribution of one claim\<close>

definition token_delta :: "cost_claim \<Rightarrow> int option \<Rightarrow> int" where
  "token_delta cl v = (if cl_provider cl = Dify \<and> cl_usage_known cl then or_zero v else 0)"

fun base_delta :: "int \<times> int \<Rightarrow> cost_claim \<Rightarrow> base_counter \<Rightarrow> int" where
  "base_delta cu cl Provider_attempts_total = 1"
| "base_delta cu cl Provider_successes_total = of_bool (cl_outcome cl = Some Success)"
| "base_delta cu cl Provider_failures_total = of_bool (cl_outcome cl = Some Failure)"
| "base_delta cu cl Provider_outcome_unknown_total = of_bool (cl_outcome cl = None)"
| "base_delta cu cl Estimated_cost_usd_micros = fst cu"
| "base_delta cu cl Pricing_unknown_units_total = snd cu"
| "base_delta cu cl Dify_input_tokens = token_delta cl (cl_input_tokens cl)"
| "base_delta cu cl Dify_output_tokens = token_delta cl (cl_output_tokens cl)"
| "base_delta cu cl Dify_total_tokens = token_delta cl (cl_total_tokens cl)"
| "base_delta cu cl Dify_usage_unknown_calls = of_bool (cl_provider cl = Dify \<and> \<not> cl_usage_known cl)"
| "base_delta cu cl _ = 0"

fun metric_delta :: "int \<times> int \<Rightarrow> cost_claim \<Rightarrow> provider_metric \<Rightarrow> int" where
  "metric_delta cu cl Attempts = 1"
| "metric_delta cu cl Successes = of_bool (cl_outcome cl = Some Success)"
| "metric_delta cu cl Failures = of_bool (cl_outcome cl = Some Failure)"
| "metric_delta cu cl Outcome_unknown = of_bool (cl_outcome cl = None)"
| "metric_delta cu cl Local_denials = 0"
| "metric_delta cu cl Duration_ms = or_zero (cl_duration_ms cl)"
| "metric_delta cu cl Billable_units = cl_billable_units cl"
| "metric_delta cu cl Estimated_cost = fst cu"
| "metric_delta cu cl Pricing_unknown_units = snd cu"

fun claim_delta :: "int \<times> int \<Rightarrow> cost_claim \<Rightarrow> counter_key \<Rightarrow> int" where
  "claim_delta cu cl (Base b) = base_delta cu cl b"
| "claim_delta cu cl (Prov p m) = (if p = cl_provider cl then metric_delta cu cl m else 0)"

lemma bump_apply: "bump k n c x = (if x = k then c x + n else c x)"
  by (simp add: bump_def)

lemma outcome_cases:
  obtains "oc = None" | "oc = Some Success" | "oc = Some Failure"
  by (cases oc; cases "the oc") auto

lemma add_claim_Inr:
  assumes "add_claim pr cl c = Inr c'"
  shows "\<exists>cu. claim_cost pr cl = Inr cu \<and> (\<forall>k. c' k = c k + claim_delta cu cl k)"
proof -
  from assms obtain cost unknown where cu: "claim_cost pr cl = Inr (cost, unknown)"
    by (auto simp: add_claim_def Let_def split: prod.splits sum.splits)
  have c': "c' = projr (add_claim pr cl c)" using assms by simp
  have "c' k = c k + claim_delta (cost, unknown) cl k" for k
  proof (cases k)
    case (Base b)
    have "c' (Base b) = c (Base b) + base_delta (cost, unknown) cl b"
      unfolding c'
      by (cases "cl_outcome cl" rule: outcome_cases; cases b)
        (simp_all add: add_claim_def cu bump_apply add_usage_def token_delta_def
          outcome_metric_def Let_def)
    then show ?thesis by (simp add: Base)
  next
    case (Prov p m)
    have "c' (Prov p m) = c (Prov p m) + (if p = cl_provider cl then metric_delta (cost, unknown) cl m else 0)"
      unfolding c'
      by (cases "cl_outcome cl" rule: outcome_cases; cases m)
        (simp_all add: add_claim_def cu bump_apply add_usage_def outcome_metric_def Let_def)
    then show ?thesis by (simp add: Prov)
  qed
  with cu show ?thesis by blast
qed

subsection \<open>Closed form of the counters\<close>

text \<open>\<open>claim_price\<close>: cost and unpriced units of a claim whose pricing did not fail.\<close>

definition claim_price :: "pricing_catalog \<Rightarrow> cost_claim \<Rightarrow> int \<times> int" where
  "claim_price pr cl = projr (claim_cost pr cl)"

lemma add_claims_Inr:
  "add_claims pr cls c = Inr c' \<Longrightarrow>
   c' k = c k + (\<Sum>cl\<leftarrow>cls. claim_delta (claim_price pr cl) cl k)"
proof (induction cls arbitrary: c)
  case Nil
  then show ?case by simp
next
  case (Cons cl cls)
  from Cons.prems obtain c1 where c1: "add_claim pr cl c = Inr c1" "add_claims pr cls c1 = Inr c'"
    by (auto split: sum.splits)
  from add_claim_Inr [OF c1(1)] have "c1 k = c k + claim_delta (claim_price pr cl) cl k"
    by (auto simp: claim_price_def)
  with Cons.IH [OF c1(2)] show ?case by simp
qed

definition denial_delta :: "cost_operation \<times> int \<Rightarrow> counter_key \<Rightarrow> int" where
  "denial_delta d k =
     (if k = Base Provider_local_denials_total
         \<or> k = Prov (OPERATION_PROVIDER (fst d)) Local_denials then snd d else 0)"

lemma fold_add_denial:
  "fold add_denial ds c k = c k + (\<Sum>d\<leftarrow>ds. denial_delta d k)"
  by (induction ds arbitrary: c) (auto simp: add_denial_def Let_def bump_apply denial_delta_def)

definition counter_value :: "counters \<Rightarrow> counter_key \<Rightarrow> int" where
  "counter_value c k = (case map_of c (counter_name k) of None \<Rightarrow> 0 | Some v \<Rightarrow> v)"

lemma counter_value_eq:
  assumes "cost_counters_from_state st now = Inr c"
  shows "counter_value c k = initial_counters st now k
    + (\<Sum>d\<leftarrow>led_local_denials st. denial_delta d k)
    + (\<Sum>cl\<leftarrow>led_claims st. claim_delta (claim_price (led_pricing st) cl) cl k)"
proof -
  obtain r where r: "raw_counters st now = Inr r"
    "\<And>k. map_of c (counter_name k) = Some (r k)"
    by (rule cost_counters_from_state_raw [OF assms]) blast
  from add_claims_Inr [OF r(1) [unfolded raw_counters_def], of k] show ?thesis
    by (simp add: counter_value_def r(2) fold_add_denial)
qed

subsection \<open>Totals are sums over the providers\<close>

fun total_counter :: "provider_metric \<Rightarrow> base_counter option" where
  "total_counter Attempts = Some Provider_attempts_total"
| "total_counter Successes = Some Provider_successes_total"
| "total_counter Failures = Some Provider_failures_total"
| "total_counter Outcome_unknown = Some Provider_outcome_unknown_total"
| "total_counter Local_denials = Some Provider_local_denials_total"
| "total_counter Estimated_cost = Some Estimated_cost_usd_micros"
| "total_counter Pricing_unknown_units = Some Pricing_unknown_units_total"
| "total_counter _ = None"

lemma sum_over_providers: "(\<Sum>p\<leftarrow>PROVIDERS. if p = q then (v::int) else 0) = v"
  by (cases q) (simp_all add: PROVIDERS_def)

lemma claim_delta_total:
  "total_counter m = Some b \<Longrightarrow>
   (\<Sum>p\<leftarrow>PROVIDERS. claim_delta cu cl (Prov p m)) = claim_delta cu cl (Base b)"
  by (cases m) (auto simp: sum_over_providers)

lemma denial_delta_total:
  "total_counter m = Some b \<Longrightarrow>
   (\<Sum>p\<leftarrow>PROVIDERS. denial_delta d (Prov p m)) = denial_delta d (Base b)"
  by (cases m) (auto simp: denial_delta_def sum_over_providers)

lemma initial_total:
  "total_counter m = Some b \<Longrightarrow>
   initial_counters st now (Base b) = 0 \<and> initial_counters st now (Prov p m) = 0"
  by (cases m) (auto simp: initial_counters_def)

lemma sum_list_swap:
  "(\<Sum>p\<leftarrow>ps. \<Sum>x\<leftarrow>xs. f x p) = (\<Sum>x\<leftarrow>xs. \<Sum>p\<leftarrow>ps. (f x p :: int))"
  by (induction ps) (simp_all add: sum_list_addf)

lemma totals_are_sums:
  assumes "cost_counters_from_state st now = Inr c" "total_counter m = Some b"
  shows "counter_value c (Base b) = (\<Sum>p\<leftarrow>PROVIDERS. counter_value c (Prov p m))"
proof -
  have "(\<Sum>p\<leftarrow>PROVIDERS. counter_value c (Prov p m)) =
      (\<Sum>p\<leftarrow>PROVIDERS. \<Sum>d\<leftarrow>led_local_denials st. denial_delta d (Prov p m))
    + (\<Sum>p\<leftarrow>PROVIDERS. \<Sum>cl\<leftarrow>led_claims st.
         claim_delta (claim_price (led_pricing st) cl) cl (Prov p m))"
    using assms(2) by (simp only: counter_value_eq [OF assms(1)] sum_list_addf) (simp add: initial_total)
  also have "\<dots> = (\<Sum>d\<leftarrow>led_local_denials st. denial_delta d (Base b))
    + (\<Sum>cl\<leftarrow>led_claims st. claim_delta (claim_price (led_pricing st) cl) cl (Base b))"
    unfolding sum_list_swap [where ps = PROVIDERS] claim_delta_total [OF assms(2)]
      denial_delta_total [OF assms(2)] ..
  also have "\<dots> = counter_value c (Base b)"
    using assms(2) by (simp add: counter_value_eq [OF assms(1)] initial_total)
  finally show ?thesis ..
qed

subsection \<open>Every attempt has one outcome\<close>

lemma attempts_eq_claims:
  assumes "cost_counters_from_state st now = Inr c"
  shows "counter_value c (Base Provider_attempts_total) = int (length (led_claims st))"
  by (simp add: counter_value_eq [OF assms] initial_counters_def denial_delta_def sum_list_triv)

lemma outcomes_partition:
  assumes "cost_counters_from_state st now = Inr c"
  shows "counter_value c (Base Provider_attempts_total) =
      counter_value c (Base Provider_successes_total)
    + counter_value c (Base Provider_failures_total)
    + counter_value c (Base Provider_outcome_unknown_total)"
proof -
  have "int (length cls) = (\<Sum>cl\<leftarrow>cls. of_bool (cl_outcome cl = Some Success))
      + (\<Sum>cl\<leftarrow>cls. of_bool (cl_outcome cl = Some Failure))
      + (\<Sum>cl\<leftarrow>cls. of_bool (cl_outcome cl = None))" for cls
  proof (induction cls)
    case (Cons cl cls)
    then show ?case by (cases "cl_outcome cl" rule: outcome_cases) simp_all
  qed simp
  then show ?thesis
    by (simp add: counter_value_eq [OF assms] initial_counters_def denial_delta_def sum_list_triv)
qed

subsection \<open>Pricing\<close>

lemma microdollars_Inr:
  assumes "0 \<le> t" "0 \<le> r"
  obtains d where "microdollars_for_tokens t r = Inr d" "0 \<le> d"
    "t * r \<le> d * 1000000" "d * 1000000 < t * r + 1000000"
proof -
  define d where "d = (if t = 0 \<or> r = 0 then 0 else (t * r + 999999) div 1000000)"
  have "d * 1000000 = t * r + 999999 - (t * r + 999999) mod 1000000" if "t \<noteq> 0" "r \<noteq> 0"
    using that by (simp add: d_def minus_mod_eq_mult_div mult.commute)
  moreover have "0 \<le> (t * r + 999999) mod 1000000" "(t * r + 999999) mod 1000000 < 1000000"
    by simp_all
  ultimately have "t * r \<le> d * 1000000 \<and> d * 1000000 < t * r + 1000000"
    by (cases "t = 0 \<or> r = 0") (auto simp: d_def)
  moreover have "0 \<le> d" using assms by (simp add: d_def pos_imp_zdiv_nonneg_iff)
  moreover have "microdollars_for_tokens t r = Inr d"
    using assms by (simp add: microdollars_for_tokens_def d_def)
  ultimately show ?thesis using that by blast
qed

text \<open>
  Prices a deployment may set: at most 1 USD per request and 1000 USD per million tokens.
\<close>

definition prices_bounded :: "pricing_catalog \<Rightarrow> bool" where
  "prices_bounded pr \<longleftrightarrow>
     list_all (\<lambda>p. opt_between 0 1000000 (pr_request_usd_micros pr p)) PROVIDERS
   \<and> opt_between 0 1000000000 (pr_dify_input_mtok_usd_micros pr)
   \<and> opt_between 0 1000000000 (pr_dify_output_mtok_usd_micros pr)"

lemma add_token_cost_Inr:
  assumes "0 \<le> t" "t \<le> 100000000" "opt_between 0 1000000000 rate" "0 \<le> fst cu" "0 \<le> snd cu"
  obtains cu' where "add_token_cost t rate cu = Inr cu'"
    "0 \<le> fst cu'" "fst cu' \<le> fst cu + 100000000001" "0 \<le> snd cu'" "snd cu' \<le> snd cu + t"
proof (cases "t = 0 \<or> rate = None")
  case True
  show ?thesis
  proof (cases "t = 0")
    case True
    then have "add_token_cost t rate cu = Inr cu" by (simp add: add_token_cost_def)
    from that [OF this] show ?thesis using assms by simp
  next
    case False
    with \<open>t = 0 \<or> rate = None\<close> have "add_token_cost t rate cu = Inr (fst cu, snd cu + t)"
      by (simp add: add_token_cost_def)
    from that [OF this] show ?thesis using assms by simp
  qed
next
  case False
  then obtain r where r: "rate = Some r" "0 \<le> r" "r \<le> 1000000000"
    using assms(3) by (auto simp: opt_between_def)
  obtain d where d: "microdollars_for_tokens t r = Inr d" "0 \<le> d" "d * 1000000 < t * r + 1000000"
    using microdollars_Inr [OF assms(1) r(2)] by blast
  have "t * r \<le> 100000000 * 1000000000" using assms r by (intro mult_mono) auto
  then have "d \<le> 100000000001" using d(3) by simp
  then show ?thesis using that False r d assms by (auto simp: add_token_cost_def)
qed

lemma or_zero_between: "opt_between 0 n v \<Longrightarrow> 0 \<le> n \<Longrightarrow> 0 \<le> or_zero v \<and> or_zero v \<le> n"
  by (auto simp: opt_between_def or_zero_def split: option.splits)

lemma claim_valid_ranges:
  assumes "claim_valid cl"
  shows "0 \<le> or_zero (cl_duration_ms cl)" "or_zero (cl_duration_ms cl) \<le> 86400000"
    "1 \<le> cl_billable_units cl" "cl_billable_units cl \<le> 1000000"
    "0 \<le> or_zero (cl_input_tokens cl)" "or_zero (cl_input_tokens cl) \<le> 100000000"
    "0 \<le> or_zero (cl_output_tokens cl)" "or_zero (cl_output_tokens cl) \<le> 100000000"
    "0 \<le> or_zero (cl_total_tokens cl)" "or_zero (cl_total_tokens cl) \<le> 200000000"
  using assms by (auto simp: claim_valid_def dest: or_zero_between)

lemma request_cost_ranges:
  assumes "claim_valid cl" "prices_bounded pr"
  shows "0 \<le> fst (request_cost pr cl)" "fst (request_cost pr cl) \<le> 1000000000000"
    "0 \<le> snd (request_cost pr cl)" "snd (request_cost pr cl) \<le> 1000000"
proof -
  have "opt_between 0 1000000 (pr_request_usd_micros pr (cl_provider cl))"
    using assms(2) provider_in_PROVIDERS by (auto simp: prices_bounded_def list_all_iff)
  moreover have "r * cl_billable_units cl \<le> 1000000 * 1000000" if "0 \<le> r" "r \<le> 1000000" for r
    using that claim_valid_ranges [OF assms(1)] by (intro mult_mono) auto
  ultimately show "0 \<le> fst (request_cost pr cl)" "fst (request_cost pr cl) \<le> 1000000000000"
    "0 \<le> snd (request_cost pr cl)" "snd (request_cost pr cl) \<le> 1000000"
    using claim_valid_ranges(3,4) [OF assms(1)]
    by (auto simp: request_cost_def opt_between_def split: option.splits)
qed

lemma claim_cost_Inr:
  assumes "claim_valid cl" "prices_bounded pr"
  obtains cu where "claim_cost pr cl = Inr cu" "0 \<le> fst cu" "fst cu \<le> 2000000000000"
    "0 \<le> snd cu" "snd cu \<le> 300000000"
proof (cases "cl_provider cl = Dify \<and> cl_usage_known cl")
  case False
  then have "claim_cost pr cl = Inr (request_cost pr cl)" by (auto simp: claim_cost_def)
  from that [OF this] show ?thesis using request_cost_ranges [OF assms] by simp
next
  case True
  note rc = request_cost_ranges [OF assms]
  have rates: "opt_between 0 1000000000 (pr_dify_input_mtok_usd_micros pr)"
    "opt_between 0 1000000000 (pr_dify_output_mtok_usd_micros pr)"
    using assms(2) by (simp_all add: prices_bounded_def)
  note rg = claim_valid_ranges(5-8) [OF assms(1)]
  obtain cu1 where cu1: "add_token_cost (or_zero (cl_input_tokens cl))
      (pr_dify_input_mtok_usd_micros pr) (request_cost pr cl) = Inr cu1"
    "0 \<le> fst cu1" "fst cu1 \<le> fst (request_cost pr cl) + 100000000001"
    "0 \<le> snd cu1" "snd cu1 \<le> snd (request_cost pr cl) + or_zero (cl_input_tokens cl)"
    by (rule add_token_cost_Inr [OF rg(1,2) rates(1) rc(1,3)])
  obtain cu2 where cu2: "add_token_cost (or_zero (cl_output_tokens cl))
      (pr_dify_output_mtok_usd_micros pr) cu1 = Inr cu2"
    "0 \<le> fst cu2" "fst cu2 \<le> fst cu1 + 100000000001"
    "0 \<le> snd cu2" "snd cu2 \<le> snd cu1 + or_zero (cl_output_tokens cl)"
    by (rule add_token_cost_Inr [OF rg(3,4) rates(2) cu1(2,4)])
  show ?thesis using that [of cu2] True cu1 cu2 rc rg by (simp add: claim_cost_def)
qed

subsection \<open>A snapshot of a valid ledger always exists\<close>

lemma add_claim_total: "claim_cost pr cl = Inr cu \<Longrightarrow> \<exists>c'. add_claim pr cl c = Inr c'"
  by (cases cu) (simp add: add_claim_def Let_def split: prod.splits)

lemma add_claims_total:
  assumes "list_all claim_valid cls" "prices_bounded pr"
  shows "\<exists>c'. add_claims pr cls c = Inr c'"
  using assms(1)
proof (induction cls arbitrary: c)
  case (Cons cl cls)
  then have "claim_valid cl" by simp
  then obtain cu where "claim_cost pr cl = Inr cu" by (rule claim_cost_Inr [OF _ assms(2)])
  from add_claim_total [OF this] obtain c1 where "add_claim pr cl c = Inr c1" by blast
  with Cons show ?case by simp
qed simp

lemma claim_delta_bounds:
  assumes "claim_valid cl" "prices_bounded pr"
  shows "0 \<le> claim_delta (claim_price pr cl) cl k \<and> claim_delta (claim_price pr cl) cl k \<le> 2000000000000"
proof -
  obtain cu where cu: "claim_price pr cl = cu" "0 \<le> fst cu" "fst cu \<le> 2000000000000"
    "0 \<le> snd cu" "snd cu \<le> 300000000"
    using claim_cost_Inr [OF assms] by (metis claim_price_def sum.sel(2))
  note rg = claim_valid_ranges [OF assms(1)]
  show ?thesis
  proof (cases k)
    case (Base b)
    then show ?thesis using cu rg by (cases b) (simp_all add: token_delta_def)
  next
    case (Prov p m)
    then show ?thesis using cu rg by (cases m) simp_all
  qed
qed

lemma sum_list_between:
  "(\<And>x. x \<in> set xs \<Longrightarrow> 0 \<le> f x \<and> f x \<le> (m::int)) \<Longrightarrow>
   0 \<le> sum_list (map f xs) \<and> sum_list (map f xs) \<le> int (length xs) * m"
  by (induction xs) (fastforce simp: algebra_simps)+

lemma ledger_bounds:
  assumes "ledger_valid st" "led_revision st \<le> MAX_COUNTER_VALUE"
    "now - led_created_at st \<le> 1000 * MAX_COUNTER_VALUE"
  shows "0 \<le> initial_counters st now k \<and> initial_counters st now k \<le> MAX_COUNTER_VALUE"
proof -
  have "led_revision st \<ge> 1" "1 \<le> pr_revision (led_pricing st)" "pr_revision (led_pricing st) \<le> 1000000"
    "0 \<le> led_checkpoint_hits st" "led_checkpoint_hits st \<le> 1000000"
    "0 \<le> led_job_attempts st" "led_job_attempts st \<le> 100"
    "0 \<le> led_job_active_elapsed_ms st" "led_job_active_elapsed_ms st \<le> MAX_COUNTER_VALUE"
    using assms(1) by (simp_all add: ledger_valid_def pricing_valid_def)
  moreover have "0 \<le> job_retry_count st \<and> job_retry_count st \<le> 100"
  proof (cases "led_phase_attempts st")
    case None
    then show ?thesis using assms(1) by (simp add: job_retry_count_def ledger_valid_def)
  next
    case (Some ph)
    then have ph: "list_all (\<lambda>(_, n). 1 \<le> n \<and> n \<le> 100) ph" "sum_list (map snd ph) = led_job_attempts st"
      using assms(1) by (simp_all add: ledger_valid_def)
    have "0 \<le> (\<Sum>(_, n)\<leftarrow>xs. n - 1) \<and> (\<Sum>(_, n)\<leftarrow>xs. n - 1) \<le> sum_list (map snd xs)"
      if "list_all (\<lambda>(_, n). 1 \<le> n \<and> n \<le> 100) xs" for xs :: "(cost_attempt_phase \<times> int) list"
      using that by (induction xs) auto
    from this [OF ph(1)] show ?thesis using Some ph(2) assms(1)
      by (simp add: job_retry_count_def ledger_valid_def)
  qed
  moreover have "0 \<le> wall_ms (led_created_at st) now \<and> wall_ms (led_created_at st) now \<le> MAX_COUNTER_VALUE"
    using assms(3) by (simp add: wall_ms_def MAX_COUNTER_VALUE_def)
  ultimately have "0 \<le> initial_counters st now (Base b) \<and>
      initial_counters st now (Base b) \<le> MAX_COUNTER_VALUE" for b
    using assms(2) by (cases b) (simp_all add: initial_counters_def MAX_COUNTER_VALUE_def)
  then show "0 \<le> initial_counters st now k \<and> initial_counters st now k \<le> MAX_COUNTER_VALUE"
    by (cases k) (simp_all add: initial_counters_def MAX_COUNTER_VALUE_def)
qed

lemma denials_bound:
  assumes "ledger_valid st"
  shows "0 \<le> (\<Sum>d\<leftarrow>led_local_denials st. denial_delta d k)
    \<and> (\<Sum>d\<leftarrow>led_local_denials st. denial_delta d k) \<le> 15000000"
proof -
  have d: "distinct (map fst (led_local_denials st))"
    "\<And>x. x \<in> set (led_local_denials st) \<Longrightarrow> 0 \<le> denial_delta x k \<and> denial_delta x k \<le> 1000000"
    using assms by (auto simp: ledger_valid_def list_all_iff denial_delta_def)
  have "fst ` set (led_local_denials st) \<subseteq> set OPERATIONS"
  proof
    fix p :: cost_operation
    show "p \<in> set OPERATIONS" by (cases p) (simp_all add: OPERATIONS_def)
  qed
  then have "card (fst ` set (led_local_denials st)) \<le> card (set OPERATIONS)"
    by (intro card_mono) simp_all
  also have "\<dots> \<le> length OPERATIONS" by (rule card_length)
  also have "\<dots> = 15" by (simp add: OPERATIONS_def)
  finally have "length (led_local_denials st) \<le> 15"
    using distinct_card [OF d(1)] by simp
  moreover have "0 \<le> (\<Sum>x\<leftarrow>led_local_denials st. denial_delta x k)
    \<and> (\<Sum>x\<leftarrow>led_local_denials st. denial_delta x k) \<le> int (length (led_local_denials st)) * 1000000"
    using d(2) by (rule sum_list_between)
  ultimately show ?thesis by simp
qed

text \<open>A counter of the job itself gets no contribution from claims and denials.\<close>

lemma job_counter_alone:
  assumes "initial_counters st now k \<noteq> 0"
  shows "denial_delta d k = 0" "claim_delta cu cl k = 0"
proof -
  have "denial_delta d k = 0 \<and> claim_delta cu cl k = 0"
  proof (cases k)
    case (Base b)
    then show ?thesis using assms by (cases b) (simp_all add: initial_counters_def denial_delta_def)
  next
    case (Prov p m)
    then show ?thesis using assms by (simp add: initial_counters_def)
  qed
  then show "denial_delta d k = 0" "claim_delta cu cl k = 0" by simp_all
qed

lemma snapshot_total:
  assumes "ledger_valid st" "prices_bounded (led_pricing st)"
    "led_revision st \<le> MAX_COUNTER_VALUE" "now - led_created_at st \<le> 1000 * MAX_COUNTER_VALUE"
  shows "\<exists>c. cost_counters_from_state st now = Inr c"
proof -
  have cls: "list_all claim_valid (led_claims st)" "length (led_claims st) \<le> 100"
    using assms(1) by (simp_all add: ledger_valid_def MAX_LEDGER_CLAIMS_def)
  obtain r where r: "raw_counters st now = Inr r"
    using add_claims_total [OF cls(1) assms(2)] unfolding raw_counters_def by blast
  have rk: "r k = initial_counters st now k + (\<Sum>d\<leftarrow>led_local_denials st. denial_delta d k)
    + (\<Sum>cl\<leftarrow>led_claims st. claim_delta (claim_price (led_pricing st) cl) cl k)" for k
    using add_claims_Inr [OF r [unfolded raw_counters_def], of k] by (simp add: fold_add_denial)
  have "0 \<le> r k \<and> r k \<le> MAX_COUNTER_VALUE" for k
  proof (cases "initial_counters st now k = 0")
    case True
    have "0 \<le> (\<Sum>cl\<leftarrow>led_claims st. claim_delta (claim_price (led_pricing st) cl) cl k)
      \<and> (\<Sum>cl\<leftarrow>led_claims st. claim_delta (claim_price (led_pricing st) cl) cl k)
        \<le> int (length (led_claims st)) * 2000000000000"
      using cls(1) claim_delta_bounds assms(2) by (intro sum_list_between) (auto simp: list_all_iff)
    moreover have "int (length (led_claims st)) * 2000000000000 \<le> 100 * 2000000000000"
      using cls(2) by simp
    ultimately show ?thesis using True denials_bound [OF assms(1), of k]
      by (simp add: rk MAX_COUNTER_VALUE_def)
  next
    case False
    then show ?thesis using ledger_bounds [OF assms(1,3,4), of k]
      by (simp add: rk job_counter_alone [OF False])
  qed
  moreover have "r (Base Cost_schema_version) = 1"
    by (simp add: rk job_counter_alone [of st now] initial_counters_def)
  ultimately have "cost_counters_v1 (counters_root r) = Inr (counters_root r)"
    using map_of_counters_root [of r "Base Cost_schema_version"]
    by (simp add: cost_counters_v1_def counters_root_keys list_all_iff)
      (auto simp: counters_root_def)
  then show ?thesis using r by (simp add: cost_counters_from_state_def)
qed

end
