(* ===== verification/Cost_Ledger.thy ===== *)
theory Cost_Ledger
  imports Runtime_Values Cost_Counters
begin

text \<open>
  The ledger of provider attempts of one job (class \<open>JobCostLedger\<close> of
  app/jobs_v22/cost_ledger.py). \<open>_mutate\<close> is a decision over the stored ledger: decode it
  or start a new one, apply a mutation (ledger, time) \<open>\<mapsto>\<close> (ledger, result) that may
  raise, validate, write. Times are aware, so the guards on naive times are not modelled.
\<close>

record ledger_config =
  lg_prefix :: string
  lg_job_id :: uuid
  lg_ttl_seconds :: int
  lg_pricing :: pricing_catalog
  lg_job_created_at :: timestamp
  lg_require_existing :: bool

text \<open>\<open>__init__\<close>\<close>

definition new_job_cost_ledger :: "ledger_config \<Rightarrow> exn + ledger_config" where
  "new_job_cost_ledger C =
     (if lg_ttl_seconds C < 60 then Inl (ValueError ''cost ledger TTL is too short'') else Inr C)"

definition ledger_key :: "ledger_config \<Rightarrow> string" where
  "ledger_key C = cost_ledger_key (lg_prefix C) (lg_job_id C)"

definition check_ledger :: "cost_ledger_state \<Rightarrow> exn + cost_ledger_state" where
  "check_ledger l = (if ledger_valid l then Inr l else Inl ValidationError)"

definition new_state :: "ledger_config \<Rightarrow> timestamp \<Rightarrow> exn + cost_ledger_state" where
  "new_state C now = check_ledger
     \<lparr>led_schema_version = Ledger_v1, led_job_id = lg_job_id C, led_revision = 1,
      led_pricing = lg_pricing C, led_created_at = lg_job_created_at C,
      led_updated_at = max now (lg_job_created_at C), led_claims = [], led_local_denials = [],
      led_checkpoint_hits = 0, led_job_attempts = 0, led_phase_attempts = Some [],
      led_job_active_elapsed_ms = 0\<rparr>"

definition ledger_unavailable :: exn where
  "ledger_unavailable = CostLedgerError ''V22_COST_LEDGER_UNAVAILABLE''"

definition decode_ledger ::
    "ledger_config \<Rightarrow> rval option \<Rightarrow> timestamp \<Rightarrow> exn + cost_ledger_state" where
  "decode_ledger C raw now =
     (case raw of
        None \<Rightarrow>
          if lg_require_existing C then Inl (CostLedgerError ''CAPABILITY_RECOVERY_REQUIRED'')
          else new_state C now
      | Some (VLedger l) \<Rightarrow>
          if \<not> ledger_valid l then Inl ledger_unavailable
          else if led_job_id l \<noteq> lg_job_id C then Inl CostClaimConflict
          else Inr l
      | Some _ \<Rightarrow> Inl ledger_unavailable)"

type_synonym 'a mutation = "cost_ledger_state \<Rightarrow> timestamp \<Rightarrow> exn + cost_ledger_state \<times> 'a"

definition mutate_body ::
    "ledger_config \<Rightarrow> 's server \<Rightarrow> 'a mutation \<Rightarrow> timestamp \<Rightarrow> 's \<Rightarrow> 'a decision" where
  "mutate_body C R operation now s =
     (case decode_ledger C (rget R s (ledger_key C)) now of
        Inl e \<Rightarrow> Fail e
      | Inr current \<Rightarrow>
          (case operation current now of
             Inl e \<Rightarrow> Fail e
           | Inr (updated, result) \<Rightarrow>
               (case check_ledger updated of
                  Inl e \<Rightarrow> Fail e
                | Inr updated \<Rightarrow>
                    Commit [SetEx (ledger_key C) (VLedger updated) (lg_ttl_seconds C)] [] result)))"

definition mutate ::
    "ledger_config \<Rightarrow> 's server \<Rightarrow> 'a mutation \<Rightarrow> timestamp \<Rightarrow> 's \<Rightarrow> 's \<times> (exn + 'a)" where
  "mutate C R operation now s = run_txn R (mutate_body C R operation now) s"

definition ensure ::
    "ledger_config \<Rightarrow> 's server \<Rightarrow> timestamp \<Rightarrow> 's \<Rightarrow> 's \<times> (exn + cost_ledger_state)" where
  "ensure C R now s = mutate C R (\<lambda>state now. Inr (state, state)) now s"

subsection \<open>claim\<close>

definition find_claim :: "uuid \<Rightarrow> cost_ledger_state \<Rightarrow> cost_claim option" where
  "find_claim i l = find (\<lambda>c. cl_claim_id c = i) (led_claims l)"

definition used :: "cost_operation \<Rightarrow> cost_ledger_state \<Rightarrow> nat" where
  "used op l = length (filter (\<lambda>c. cl_operation c = op) (led_claims l))"

definition new_claim :: "cost_operation \<Rightarrow> uuid \<Rightarrow> timestamp \<Rightarrow> cost_claim" where
  "new_claim op i now =
     \<lparr>cl_claim_id = i, cl_operation = op, cl_provider = OPERATION_PROVIDER op, cl_claimed_at = now,
      cl_completed_at = None, cl_outcome = None, cl_duration_ms = None, cl_billable_units = 1,
      cl_usage_known = False, cl_input_tokens = None, cl_output_tokens = None,
      cl_total_tokens = None\<rparr>"

text \<open>\<open>counts[key] = counts.get(key, 0) + 1\<close>\<close>

definition increment :: "'k \<Rightarrow> ('k \<times> int) list \<Rightarrow> ('k \<times> int) list" where
  "increment k d = AList.update k ((case map_of d k of None \<Rightarrow> 0 | Some n \<Rightarrow> n) + 1) d"

definition claim_mutation :: "cost_operation \<Rightarrow> uuid \<Rightarrow> cost_claim option mutation" where
  "claim_mutation op requested_id state now =
     (case find_claim requested_id state of
        Some existing \<Rightarrow>
          if cl_operation existing \<noteq> op then Inl CostClaimConflict
          else Inr (state, Some existing)
      | None \<Rightarrow>
          if OPERATION_LIMITS op \<le> used op state
          then Inr (state\<lparr>led_revision := led_revision state + 1, led_updated_at := now,
                          led_local_denials := increment op (led_local_denials state)\<rparr>, None)
          else Inr (state\<lparr>led_revision := led_revision state + 1, led_updated_at := now,
                          led_claims := led_claims state @ [new_claim op requested_id now],
                          led_schema_version :=
                            (if op = Firecrawl_scrape then Ledger_v2 else led_schema_version state)\<rparr>,
                    Some (new_claim op requested_id now)))"

definition claim ::
    "ledger_config \<Rightarrow> 's server \<Rightarrow> cost_operation \<Rightarrow> uuid \<Rightarrow> timestamp \<Rightarrow> 's \<Rightarrow> 's \<times> (exn + cost_claim)"
where
  "claim C R op requested_id now s =
     (case mutate C R (claim_mutation op requested_id) now s of
        (s', Inl e) \<Rightarrow> (s', Inl e)
      | (s', Inr None) \<Rightarrow> (s', Inl CostLimitExceeded)
      | (s', Inr (Some cl)) \<Rightarrow> (s', Inr cl))"

subsection \<open>complete\<close>

record completion =
  co_outcome :: cost_outcome
  co_duration_ms :: int
  co_billable_units :: int
  co_usage_known :: bool
  co_input_tokens :: "int option"
  co_output_tokens :: "int option"
  co_total_tokens :: "int option"

definition completed_claim :: "completion \<Rightarrow> timestamp \<Rightarrow> cost_claim \<Rightarrow> cost_claim" where
  "completed_claim co now c = c
     \<lparr>cl_completed_at := Some now, cl_outcome := Some (co_outcome co),
      cl_duration_ms := Some (co_duration_ms co), cl_billable_units := co_billable_units co,
      cl_usage_known := co_usage_known co, cl_input_tokens := co_input_tokens co,
      cl_output_tokens := co_output_tokens co, cl_total_tokens := co_total_tokens co\<rparr>"

fun claim_index :: "uuid \<Rightarrow> cost_claim list \<Rightarrow> nat option" where
  "claim_index i [] = None"
| "claim_index i (c # cs) =
     (if cl_claim_id c = i then Some 0 else map_option Suc (claim_index i cs))"

definition complete_mutation :: "uuid \<Rightarrow> completion \<Rightarrow> cost_claim mutation" where
  "complete_mutation i co state now =
     (case claim_index i (led_claims state) of
        None \<Rightarrow> Inl CostClaimConflict
      | Some index \<Rightarrow>
          (let current = led_claims state ! index;
               completed = completed_claim co now current
           in if \<not> claim_valid completed then Inl ValidationError
              else if cl_completed current
              then (if current\<lparr>cl_completed_at := cl_completed_at completed\<rparr> \<noteq> completed
                    then Inl CostClaimConflict
                    else Inr (state, current))
              else Inr (state\<lparr>led_revision := led_revision state + 1, led_updated_at := now,
                              led_claims := (led_claims state)[index := completed]\<rparr>, completed)))"

definition complete ::
    "ledger_config \<Rightarrow> 's server \<Rightarrow> uuid \<Rightarrow> completion \<Rightarrow> timestamp \<Rightarrow> 's \<Rightarrow> 's \<times> (exn + cost_claim)" where
  "complete C R i co now s = mutate C R (complete_mutation i co) now s"

subsection \<open>Checkpoint hits and job attempts\<close>

definition hit_mutation :: "int \<Rightarrow> unit mutation" where
  "hit_mutation count state now =
     Inr (state\<lparr>led_revision := led_revision state + 1, led_updated_at := now,
                led_checkpoint_hits := led_checkpoint_hits state + count\<rparr>, ())"

definition record_checkpoint_hit ::
    "ledger_config \<Rightarrow> 's server \<Rightarrow> int \<Rightarrow> timestamp \<Rightarrow> 's \<Rightarrow> 's \<times> (exn + unit)" where
  "record_checkpoint_hit C R count now s =
     (if \<not> (1 \<le> count \<and> count \<le> 10000)
      then (s, Inl (ValueError ''checkpoint hit count is invalid''))
      else mutate C R (hit_mutation count) now s)"

definition attempt_mutation :: "int \<Rightarrow> cost_attempt_phase \<Rightarrow> unit mutation" where
  "attempt_mutation active_elapsed_ms phase state now =
     Inr (state\<lparr>led_revision := led_revision state + 1, led_updated_at := now,
                led_job_attempts := led_job_attempts state + 1,
                led_phase_attempts := map_option (increment phase) (led_phase_attempts state),
                led_job_active_elapsed_ms := led_job_active_elapsed_ms state + active_elapsed_ms\<rparr>, ())"

definition record_job_attempt ::
    "ledger_config \<Rightarrow> 's server \<Rightarrow> int \<Rightarrow> cost_attempt_phase \<Rightarrow> timestamp \<Rightarrow> 's \<Rightarrow> 's \<times> (exn + unit)"
where
  "record_job_attempt C R active_elapsed_ms phase now s =
     (if \<not> (0 \<le> active_elapsed_ms \<and> active_elapsed_ms \<le> 86400000)
      then (s, Inl (ValueError ''active attempt duration is invalid''))
      else mutate C R (attempt_mutation active_elapsed_ms phase) now s)"

subsection \<open>Reads\<close>

definition ledger_state ::
    "ledger_config \<Rightarrow> 's server \<Rightarrow> timestamp \<Rightarrow> 's \<Rightarrow> 's \<times> (exn + cost_ledger_state)" where
  "ledger_state C R now s =
     (case rget R s (ledger_key C) of
        None \<Rightarrow> ensure C R now s
      | Some raw \<Rightarrow> (s, decode_ledger C (Some raw) now))"

text \<open>The clock is read again for the snapshot.\<close>

definition snapshot ::
    "ledger_config \<Rightarrow> 's server \<Rightarrow> timestamp \<Rightarrow> timestamp \<Rightarrow> 's \<Rightarrow> 's \<times> (exn + counters)" where
  "snapshot C R now now' s =
     (case ledger_state C R now s of
        (s', Inl e) \<Rightarrow> (s', Inl e)
      | (s', Inr l) \<Rightarrow> (s', cost_counters_from_state l now'))"

end
