(* ===== verification/Ledger_Laws.thy ===== *)
theory Ledger_Laws
  imports Cost_Ledger Example_Jobs
begin

text \<open>
  What the cost ledger guarantees: a stored ledger is valid and within the limits of every
  operation, a claim is recorded once and never removed, a completion is recorded once and
  never changed. The facts hold for any lawful server (\<open>job_ledger\<close>) and are interpreted
  on the server in memory.
\<close>

definition within_limits :: "cost_ledger_state \<Rightarrow> bool" where
  "within_limits l \<longleftrightarrow> list_all (\<lambda>op. used op l \<le> OPERATION_LIMITS op) OPERATIONS"

lemma operation_listed [simp]: "op \<in> set OPERATIONS"
  by (cases op) (simp_all add: OPERATIONS_def)

lemma within_limitsD: "within_limits l \<Longrightarrow> used op l \<le> OPERATION_LIMITS op"
  by (simp add: within_limits_def list_all_iff)

text \<open>
  \<open>extends l l'\<close>: the claims of \<open>l\<close> are still there in place, with the same identity and
  operation, and a completed one is as it was.
\<close>

definition extends :: "cost_ledger_state \<Rightarrow> cost_ledger_state \<Rightarrow> bool" where
  "extends l l' \<longleftrightarrow>
     led_revision l \<le> led_revision l'
   \<and> led_pricing l' = led_pricing l \<and> led_job_id l' = led_job_id l
   \<and> length (led_claims l) \<le> length (led_claims l')
   \<and> list_all2 (\<lambda>c c'. cl_claim_id c' = cl_claim_id c \<and> cl_operation c' = cl_operation c
         \<and> cl_claimed_at c' = cl_claimed_at c \<and> (cl_completed c \<longrightarrow> c' = c))
       (led_claims l) (take (length (led_claims l)) (led_claims l'))"

lemma extends_refl [simp]: "extends l l"
  by (simp add: extends_def list_all2_same)

lemma extends_trans: "extends a b \<Longrightarrow> extends b c \<Longrightarrow> extends a c"
  by (auto simp: extends_def list_all2_conv_all_nth)

subsection \<open>The mutations\<close>

lemma claim_index_Some:
  "claim_index i cs = Some n \<Longrightarrow> n < length cs \<and> cl_claim_id (cs ! n) = i"
  by (induction cs arbitrary: n) (auto split: if_splits)

lemma claim_index_None: "claim_index i cs = None \<longleftrightarrow> i \<notin> cl_claim_id ` set cs"
  by (induction cs) auto

lemma claim_index_distinct:
  "distinct (map cl_claim_id cs) \<Longrightarrow> n < length cs \<Longrightarrow> cl_claim_id (cs ! n) = i \<Longrightarrow>
   claim_index i cs = Some n"
proof (induction cs arbitrary: n)
  case (Cons c cs)
  show ?case
  proof (cases n)
    case 0
    then show ?thesis using Cons.prems by simp
  next
    case (Suc m)
    then have "cs ! m \<in> set cs" using Cons.prems(2) by simp
    then have "cl_claim_id c \<noteq> i" using Cons.prems Suc by force
    then show ?thesis using Cons Suc by simp
  qed
qed simp

lemma find_claim_None: "find_claim i l = None \<longleftrightarrow> i \<notin> cl_claim_id ` set (led_claims l)"
  by (auto simp: find_claim_def find_None_iff)

lemma find_claim_Some:
  "find_claim i l = Some c \<Longrightarrow> c \<in> set (led_claims l) \<and> cl_claim_id c = i"
  by (auto simp: find_claim_def find_Some_iff)

lemma find_claim_iff:
  assumes "distinct (map cl_claim_id (led_claims l))"
  shows "find_claim i l = Some c \<longleftrightarrow> c \<in> set (led_claims l) \<and> cl_claim_id c = i"
proof
  assume c: "c \<in> set (led_claims l) \<and> cl_claim_id c = i"
  then obtain c' where c': "find_claim i l = Some c'" using find_claim_None by force
  have "c' = c"
    using find_claim_Some [OF c'] c assms by (auto simp: distinct_map dest: inj_onD)
  then show "find_claim i l = Some c" using c' by simp
qed (simp add: find_claim_Some)

lemma used_append: "used op (l\<lparr>led_claims := led_claims l @ [c]\<rparr>) = used op l + of_bool (cl_operation c = op)"
  by (simp add: used_def)

lemma used_update:
  assumes "n < length (led_claims l)" "cl_operation c = cl_operation (led_claims l ! n)"
  shows "used op (l\<lparr>led_claims := (led_claims l)[n := c]\<rparr>) = used op l"
proof -
  have "map cl_operation ((led_claims l)[n := c]) = map cl_operation (led_claims l)"
    using assms by (simp add: map_update list_update_same_conv)
  then have "length (filter (\<lambda>x. x = op) (map cl_operation ((led_claims l)[n := c]))) =
      length (filter (\<lambda>x. x = op) (map cl_operation (led_claims l)))" by simp
  then show ?thesis by (simp add: used_def filter_map comp_def)
qed

lemma used_cong: "led_claims l' = led_claims l \<Longrightarrow> used op l' = used op l"
  by (simp add: used_def)

lemma completed_claim_fields [simp]:
  "cl_claim_id (completed_claim co now c) = cl_claim_id c"
  "cl_operation (completed_claim co now c) = cl_operation c"
  "cl_claimed_at (completed_claim co now c) = cl_claimed_at c"
  "cl_provider (completed_claim co now c) = cl_provider c"
  "cl_outcome (completed_claim co now c) = Some (co_outcome co)"
  "cl_completed (completed_claim co now c)"
  by (simp_all add: completed_claim_def cl_completed_def)

text \<open>A mutation is good when it keeps the limits and extends the ledger.\<close>

definition good_mutation :: "'a mutation \<Rightarrow> bool" where
  "good_mutation f \<longleftrightarrow> (\<forall>l now l' r. f l now = Inr (l', r) \<longrightarrow>
     extends l l' \<and> (within_limits l \<longrightarrow> within_limits l'))"

lemma good_mutationD:
  assumes "good_mutation f" "f l now = Inr (l', r)"
  shows "extends l l'" "within_limits l \<Longrightarrow> within_limits l'"
  using assms unfolding good_mutation_def by blast+

lemma good_claim: "good_mutation (claim_mutation op i)"
  unfolding good_mutation_def
proof (intro allI impI)
  fix l now l' r assume m: "claim_mutation op i l now = Inr (l', r)"
  consider (same) "l' = l"
    | (denied) "l' = l\<lparr>led_revision := led_revision l + 1, led_updated_at := now,
        led_local_denials := increment op (led_local_denials l)\<rparr>"
    | (claimed) "used op l < OPERATION_LIMITS op"
      "led_claims l' = led_claims l @ [new_claim op i now]" "led_revision l' = led_revision l + 1"
      "led_pricing l' = led_pricing l" "led_job_id l' = led_job_id l"
  proof (cases "find_claim i l")
    case None
    show ?thesis
    proof (cases "OPERATION_LIMITS op \<le> used op l")
      case True
      with m None show ?thesis by (intro denied) (simp add: claim_mutation_def)
    next
      case False
      with m None have "l' = l\<lparr>led_revision := led_revision l + 1, led_updated_at := now,
          led_claims := led_claims l @ [new_claim op i now],
          led_schema_version := (if op = Firecrawl_scrape then Ledger_v2 else led_schema_version l)\<rparr>"
        by (simp add: claim_mutation_def)
      with False show ?thesis by (intro claimed) simp_all
    qed
  next
    case (Some c)
    with m have "l' = l" by (cases "cl_operation c = op") (simp_all add: claim_mutation_def)
    then show ?thesis by (rule same)
  qed
  then show "extends l l' \<and> (within_limits l \<longrightarrow> within_limits l')"
  proof cases
    case same
    then show ?thesis by simp
  next
    case denied
    then show ?thesis by (auto simp: extends_def list_all2_same within_limits_def used_def)
  next
    case claimed
    have "used op' l' = used op' l + of_bool (op = op')" for op'
      by (simp add: used_def claimed(2) new_claim_def)
    then have "within_limits l \<Longrightarrow> within_limits l'"
      using claimed(1) by (auto simp: within_limits_def list_all_iff)
    then show ?thesis using claimed by (simp add: extends_def list_all2_same)
  qed
qed

lemma good_complete: "good_mutation (complete_mutation i co)"
  unfolding good_mutation_def
proof (intro allI impI)
  fix l now l' r assume m: "complete_mutation i co l now = Inr (l', r)"
  consider (same) "l' = l"
    | (recorded) n where "claim_index i (led_claims l) = Some n" "\<not> cl_completed (led_claims l ! n)"
        "l' = l\<lparr>led_revision := led_revision l + 1, led_updated_at := now,
                led_claims := (led_claims l)[n := completed_claim co now (led_claims l ! n)]\<rparr>"
  proof (cases "claim_index i (led_claims l)")
    case None
    with m show ?thesis by (simp add: complete_mutation_def)
  next
    case (Some n)
    note split = complete_mutation_def Some option.case Let_def
    show ?thesis
    proof (cases "cl_completed (led_claims l ! n)")
      case True
      with m have "l' = l" unfolding split by (simp split: if_split_asm)
      then show ?thesis by (rule same)
    next
      case False
      with m have "l' = l\<lparr>led_revision := led_revision l + 1, led_updated_at := now,
                led_claims := (led_claims l)[n := completed_claim co now (led_claims l ! n)]\<rparr>"
        unfolding split by (clarsimp split: if_split_asm)
      then show ?thesis by (rule recorded [OF Some False])
    qed
  qed
  then show "extends l l' \<and> (within_limits l \<longrightarrow> within_limits l')"
  proof cases
    case same
    then show ?thesis by simp
  next
    case (recorded n)
    note n = claim_index_Some [OF recorded(1)]
    have "used op l' = used op l" for op
      using used_update [of n l "completed_claim co now (led_claims l ! n)" op] n
      by (simp add: recorded(3) used_def)
    moreover have "extends l l'"
      using n recorded(2) by (auto simp: recorded(3) extends_def list_all2_conv_all_nth nth_list_update)
    ultimately show ?thesis by (simp add: within_limits_def)
  qed
qed

lemma good_simple:
  "0 \<le> count \<Longrightarrow> good_mutation (hit_mutation count)"
  "good_mutation (attempt_mutation ms phase)"
  "good_mutation (\<lambda>l now. Inr (l, l))"
  by (auto simp: good_mutation_def hit_mutation_def attempt_mutation_def extends_def list_all2_same
      within_limits_def used_def)

subsection \<open>The ledger on a lawful server\<close>

definition ledger_at :: "ledger_config \<Rightarrow> 's server \<Rightarrow> 's \<Rightarrow> cost_ledger_state option" where
  "ledger_at C R s = (case rget R s (ledger_key C) of Some (VLedger l) \<Rightarrow> Some l | _ \<Rightarrow> None)"

text \<open>Nothing is stored under the job's ledger key, or a valid ledger of the job within the limits.\<close>

definition ledger_inv :: "ledger_config \<Rightarrow> 's server \<Rightarrow> 's \<Rightarrow> bool" where
  "ledger_inv C R s \<longleftrightarrow>
     rget R s (ledger_key C) = None
   \<or> (\<exists>l. rget R s (ledger_key C) = Some (VLedger l)
        \<and> ledger_valid l \<and> led_job_id l = lg_job_id C \<and> within_limits l)"

lemma decode_ledger_Inr:
  assumes "decode_ledger C raw now = Inr l"
  shows "ledger_valid l" "led_job_id l = lg_job_id C" "raw = Some (VLedger l) \<or> (raw = None \<and> led_claims l = [])"
  using assms
  by (auto simp: decode_ledger_def new_state_def check_ledger_def split: option.splits rval.splits if_splits)

locale job_ledger = redis_laws R for R :: "('s, rval) redis" +
  fixes C :: ledger_config
  assumes config: "new_job_cost_ledger C = Inr C"
begin

lemma ttl_positive: "0 < lg_ttl_seconds C"
  using config by (auto simp: new_job_cost_ledger_def split: if_splits)

lemma mutate_elim:
  obtains
    (raised) e where "mutate C R f now s = (s, Inl e)"
  | (written) current updated result where
      "decode_ledger C (rget R s (ledger_key C)) now = Inr current"
      "f current now = Inr (updated, result)" "ledger_valid updated"
      "snd (mutate C R f now s) = Inr result"
      "rget R (fst (mutate C R f now s)) = (rget R s)(ledger_key C \<mapsto> VLedger updated)"
      "zscore R (fst (mutate C R f now s)) = (zscore R s)(ledger_key C := Map.empty)"
proof (cases "mutate_body C R f now s")
  case (Fail e)
  then show ?thesis using raised by (simp add: mutate_def run_txn_Fail)
next
  case (Return a)
  then show ?thesis by (auto simp: mutate_body_def split: sum.splits)
next
  case (Commit cs pubs result)
  then obtain current updated where *:
      "decode_ledger C (rget R s (ledger_key C)) now = Inr current"
      "f current now = Inr (updated, result)" "ledger_valid updated"
      "cs = [SetEx (ledger_key C) (VLedger updated) (lg_ttl_seconds C)]"
    by (auto simp: mutate_body_def check_ledger_def split: sum.splits if_splits)
  have ok: "list_all cmd_ok cs" using ttl_positive by (simp add: *(4))
  show ?thesis
    using * run_txn_Commit [of "mutate_body C R f now" s, OF Commit ok]
    by (intro written [of current updated result]) (simp_all add: mutate_def)
qed

lemma mutate_inv:
  assumes good: "good_mutation f" and inv: "ledger_inv C R s"
  shows "ledger_inv C R (fst (mutate C R f now s))"
proof (rule mutate_elim [of f now s])
  fix e assume "mutate C R f now s = (s, Inl e)"
  then show ?thesis using inv by simp
next
  fix current updated result
  assume d: "decode_ledger C (rget R s (ledger_key C)) now = Inr current"
    and f: "f current now = Inr (updated, result)" and v: "ledger_valid updated"
    and kv: "rget R (fst (mutate C R f now s)) = (rget R s)(ledger_key C \<mapsto> VLedger updated)"
  have "within_limits current"
    using inv decode_ledger_Inr(3) [OF d]
    by (auto simp: ledger_inv_def within_limits_def used_def list_all_iff)
  then have "within_limits updated" by (rule good_mutationD(2) [OF good f])
  moreover have "led_job_id updated = lg_job_id C"
    using good_mutationD(1) [OF good f] decode_ledger_Inr(2) [OF d] by (simp add: extends_def)
  ultimately show ?thesis using v by (simp add: ledger_inv_def kv)
qed

lemma mutate_extends:
  assumes good: "good_mutation f" and inv: "ledger_inv C R s" and l: "ledger_at C R s = Some l"
  shows "\<exists>l'. ledger_at C R (fst (mutate C R f now s)) = Some l' \<and> extends l l'"
proof (rule mutate_elim [of f now s])
  fix e assume "mutate C R f now s = (s, Inl e)"
  then show ?thesis using l by simp
next
  fix current updated result
  assume d: "decode_ledger C (rget R s (ledger_key C)) now = Inr current"
    and f: "f current now = Inr (updated, result)"
    and kv: "rget R (fst (mutate C R f now s)) = (rget R s)(ledger_key C \<mapsto> VLedger updated)"
  have "current = l"
    using l decode_ledger_Inr(3) [OF d] by (auto simp: ledger_at_def)
  then show ?thesis using good_mutationD(1) [OF good f] by (simp add: ledger_at_def kv)
qed

end

text \<open>The operations of the ledger as a step relation.\<close>

inductive ledger_step :: "ledger_config \<Rightarrow> 's server \<Rightarrow> 's \<Rightarrow> 's \<Rightarrow> bool"
  for C :: ledger_config and R :: "'s server"
where
  led_claim: "ledger_step C R s (fst (claim C R op i now s))"
| led_complete: "ledger_step C R s (fst (complete C R i co now s))"
| led_hit: "ledger_step C R s (fst (record_checkpoint_hit C R n now s))"
| led_attempt: "ledger_step C R s (fst (record_job_attempt C R ms phase now s))"
| led_state: "ledger_step C R s (fst (ledger_state C R now s))"
| led_snapshot: "ledger_step C R s (fst (snapshot C R now now' s))"
| led_elsewhere: "rget R t (ledger_key C) = rget R s (ledger_key C) \<Longrightarrow> ledger_step C R s t"

lemma fst_claim: "fst (claim C R op i now s) = fst (mutate C R (claim_mutation op i) now s)"
  by (auto simp: claim_def split: prod.splits sum.splits option.splits)

lemma fst_snapshot: "fst (snapshot C R now now' s) = fst (ledger_state C R now s)"
  by (auto simp: snapshot_def split: prod.splits sum.splits)

context job_ledger
begin

lemma step_is_mutation:
  assumes "ledger_step C R s t"
  obtains (same) "rget R t (ledger_key C) = rget R s (ledger_key C)"
  | (mutated) f now where "good_mutation (f :: cost_claim option mutation)" "t = fst (mutate C R f now s)"
  | (completed) f now where "good_mutation (f :: cost_claim mutation)" "t = fst (mutate C R f now s)"
  | (counted) f now where "good_mutation (f :: unit mutation)" "t = fst (mutate C R f now s)"
  | (ensured) f now where "good_mutation (f :: cost_ledger_state mutation)" "t = fst (mutate C R f now s)"
  using assms
proof cases
  case (led_claim op i now)
  then show ?thesis using mutated [OF good_claim] by (simp add: fst_claim)
next
  case (led_complete i co now)
  then show ?thesis using completed [OF good_complete] by (simp add: complete_def)
next
  case (led_hit n now)
  then show ?thesis
    using same counted [OF good_simple(1) [of n]] by (auto simp: record_checkpoint_hit_def split: if_splits)
next
  case (led_attempt ms phase now)
  then show ?thesis
    using same counted [OF good_simple(2)] by (auto simp: record_job_attempt_def split: if_splits)
next
  case (led_state now)
  then show ?thesis
    using same ensured [OF good_simple(3)] by (auto simp: ledger_state_def ensure_def split: option.splits)
next
  case (led_snapshot now now')
  then show ?thesis
    using same ensured [OF good_simple(3)]
    by (auto simp: fst_snapshot ledger_state_def ensure_def split: option.splits)
next
  case led_elsewhere
  then show ?thesis by (rule same)
qed

lemma ledger_step_inv: "ledger_step C R s t \<Longrightarrow> ledger_inv C R s \<Longrightarrow> ledger_inv C R t"
  by (erule step_is_mutation) (simp_all add: mutate_inv ledger_inv_def [of C R t] ledger_inv_def [of C R s])

lemma ledger_step_extends:
  "ledger_step C R s t \<Longrightarrow> ledger_inv C R s \<Longrightarrow> ledger_at C R s = Some l \<Longrightarrow>
   \<exists>l'. ledger_at C R t = Some l' \<and> extends l l'"
  by (erule step_is_mutation) (simp_all add: mutate_extends, simp add: ledger_at_def)

lemma ledger_run:
  assumes "(ledger_step C R)\<^sup>*\<^sup>* s t" "ledger_inv C R s"
  shows "ledger_inv C R t"
    and "ledger_at C R s = Some l \<Longrightarrow> \<exists>l'. ledger_at C R t = Some l' \<and> extends l l'"
proof -
  have "ledger_inv C R t \<and>
    (ledger_at C R s = Some l \<longrightarrow> (\<exists>l'. ledger_at C R t = Some l' \<and> extends l l'))"
    using assms
  proof (induction rule: rtranclp_induct)
    case (step t u)
    then show ?case
      using ledger_step_inv [OF step.hyps(2)] ledger_step_extends [OF step.hyps(2)]
      by (blast intro: extends_trans)
  qed simp
  then show "ledger_inv C R t"
    "ledger_at C R s = Some l \<Longrightarrow> \<exists>l'. ledger_at C R t = Some l' \<and> extends l l'" by auto
qed

end

end
