(* ===== verification/Ledger_Properties.thy ===== *)
theory Ledger_Properties
  imports Ledger_Laws
begin

text \<open>
  The properties of the cost ledger and of the counters derived from it: the limits hold in
  every run, a claim and a completion happen once, every branch of a claim is as
  specified, and the counters add up.
\<close>

subsection \<open>Facts about single operations\<close>

lemma new_claim_valid: "claim_valid (new_claim op i now)"
  by (cases op) (simp_all add: claim_valid_def new_claim_def opt_between_def)

lemma new_claim_id: "cl_claim_id (new_claim op i now) = i"
  by (simp add: new_claim_def)

lemma ledger_valid_append:
  assumes "ledger_valid l" "length (led_claims l) < MAX_LEDGER_CLAIMS" "led_created_at l \<le> now"
    "find_claim i l = None"
  shows "ledger_valid (l\<lparr>led_revision := led_revision l + 1, led_updated_at := now,
     led_claims := led_claims l @ [new_claim op i now], led_schema_version := v\<rparr>)"
  using assms new_claim_valid [of op i now] find_claim_None [of i l]
  by (simp add: ledger_valid_def new_claim_id split: option.splits)

lemma map_of_increment:
  "map_of (increment k d) k = Some ((case map_of d k of None \<Rightarrow> 0 | Some n \<Rightarrow> n) + 1)"
  "k' \<noteq> k \<Longrightarrow> map_of (increment k d) k' = map_of d k'"
  by (simp_all add: increment_def update_conv' split: option.split)

lemma increment_distinct: "distinct (map fst d) \<Longrightarrow> distinct (map fst (increment k d))"
  by (simp add: increment_def distinct_update)

lemma list_all_increment:
  assumes "distinct (map fst d)" "list_all (\<lambda>(_, n). lo \<le> n \<and> n \<le> hi) d" "lo \<le> 1" "0 \<le> lo"
    "(case map_of d k of None \<Rightarrow> 0 | Some n \<Rightarrow> n) < hi"
  shows "list_all (\<lambda>(_, n). lo \<le> n \<and> n \<le> (hi::int)) (increment k d)"
proof -
  have "lo \<le> n \<and> n \<le> hi" if "(k', n) \<in> set (increment k d)" for k' n
  proof -
    from that have m: "map_of (increment k d) k' = Some n"
      using increment_distinct [OF assms(1)] by simp
    show ?thesis
    proof (cases "k' = k")
      case True
      have "lo \<le> m" if "map_of d k = Some m" for m
        using that assms(2) by (auto simp: list_all_iff dest: map_of_SomeD)
      then show ?thesis using m True assms(3-) by (force simp: map_of_increment split: option.splits)
    next
      case False
      then show ?thesis using m assms(2) by (auto simp: map_of_increment list_all_iff dest: map_of_SomeD)
    qed
  qed
  then show ?thesis by (auto simp: list_all_iff)
qed

definition denials :: "cost_operation \<Rightarrow> cost_ledger_state \<Rightarrow> int" where
  "denials op l = (case map_of (led_local_denials l) op of None \<Rightarrow> 0 | Some n \<Rightarrow> n)"

lemma ledger_valid_denied:
  assumes "ledger_valid l" "led_created_at l \<le> now" "denials op l < 1000000"
  shows "ledger_valid (l\<lparr>led_revision := led_revision l + 1, led_updated_at := now,
     led_local_denials := increment op (led_local_denials l)\<rparr>)"
  using assms list_all_increment [of "led_local_denials l" 0 1000000 op]
  by (simp add: ledger_valid_def denials_def increment_distinct split: option.splits)

lemma checks_pass: "x = (if \<not> A then Inl a else if b \<noteq> c then Inl d else Inr e) \<Longrightarrow> A \<Longrightarrow> b = c \<Longrightarrow> x = Inr e"
  by simp

lemma checks_Inr: "x = (if \<not> A then Inl a else if B then Inl d else Inr e) \<Longrightarrow> x = Inr y \<Longrightarrow> y = e"
  by (simp split: if_split_asm)

lemma claim_valid_later:
  "claim_valid c \<Longrightarrow> cl_completed_at c = Some t \<Longrightarrow> cl_claimed_at c \<le> u \<Longrightarrow>
   claim_valid (c\<lparr>cl_completed_at := Some u\<rparr>)"
  by (cases "cl_input_tokens c"; cases "cl_output_tokens c"; cases "cl_total_tokens c")
    (simp_all add: claim_valid_def Let_def split: if_split_asm)

context job_ledger
begin

lemma mutate_written:
  assumes "decode_ledger C (rget R s (ledger_key C)) now = Inr l" "f l now = Inr (u, r)" "ledger_valid u"
  shows "snd (mutate C R f now s) = Inr r" "ledger_at C R (fst (mutate C R f now s)) = Some u"
proof -
  have c: "mutate_body C R f now s = Commit [SetEx (ledger_key C) (VLedger u) (lg_ttl_seconds C)] [] r"
    using assms by (simp add: mutate_body_def check_ledger_def)
  from run_txn_Commit [of "mutate_body C R f now" s, OF c]
  show "snd (mutate C R f now s) = Inr r" "ledger_at C R (fst (mutate C R f now s)) = Some u"
    using ttl_positive by (simp_all add: mutate_def ledger_at_def)
qed

lemma mutate_failed:
  assumes "decode_ledger C (rget R s (ledger_key C)) now = Inr l"
  shows "f l now = Inl e \<Longrightarrow> mutate C R f now s = (s, Inl e)"
    and "f l now = Inr (u, r) \<Longrightarrow> \<not> ledger_valid u \<Longrightarrow> mutate C R f now s = (s, Inl ValidationError)"
  using assms by (simp_all add: mutate_def mutate_body_def check_ledger_def run_txn.simps)

lemma claim_result:
  "snd (mutate C R (claim_mutation op i) now s) = Inr (Some c) \<Longrightarrow> snd (claim C R op i now s) = Inr c"
  "snd (mutate C R (claim_mutation op i) now s) = Inr None \<Longrightarrow>
   snd (claim C R op i now s) = Inl CostLimitExceeded"
  "mutate C R (claim_mutation op i) now s = (s, Inl e) \<Longrightarrow> claim C R op i now s = (s, Inl e)"
  by (auto simp: claim_def split: prod.splits sum.splits option.splits)

text \<open>Every branch of \<open>claim\<close>.\<close>

lemma claim_branches:
  assumes d: "decode_ledger C (rget R s (ledger_key C)) now = Inr l"
    and now: "led_created_at l \<le> now" and den: "denials op l < 1000000"
  shows "find_claim i l = Some c \<Longrightarrow> cl_operation c = op \<Longrightarrow>
      snd (claim C R op i now s) = Inr c \<and> ledger_at C R (fst (claim C R op i now s)) = Some l"
    and "find_claim i l = Some c \<Longrightarrow> cl_operation c \<noteq> op \<Longrightarrow>
      claim C R op i now s = (s, Inl CostClaimConflict)"
    and "find_claim i l = None \<Longrightarrow> OPERATION_LIMITS op \<le> used op l \<Longrightarrow>
      snd (claim C R op i now s) = Inl CostLimitExceeded \<and>
      (\<exists>l'. ledger_at C R (fst (claim C R op i now s)) = Some l' \<and> led_claims l' = led_claims l
         \<and> denials op l' = denials op l + 1 \<and> led_revision l' = led_revision l + 1)"
    and "find_claim i l = None \<Longrightarrow> used op l < OPERATION_LIMITS op \<Longrightarrow>
      length (led_claims l) < MAX_LEDGER_CLAIMS \<Longrightarrow>
      snd (claim C R op i now s) = Inr (new_claim op i now) \<and>
      (\<exists>l'. ledger_at C R (fst (claim C R op i now s)) = Some l'
         \<and> led_claims l' = led_claims l @ [new_claim op i now] \<and> led_revision l' = led_revision l + 1)"
    and "find_claim i l = None \<Longrightarrow> used op l < OPERATION_LIMITS op \<Longrightarrow>
      length (led_claims l) = MAX_LEDGER_CLAIMS \<Longrightarrow>
      claim C R op i now s = (s, Inl ValidationError)"
proof -
  note v = decode_ledger_Inr(1) [OF d]
  note w = mutate_written [OF d] and e = mutate_failed [OF d]
  let ?f = "claim_mutation op i"
  let ?den = "l\<lparr>led_revision := led_revision l + 1, led_updated_at := now,
      led_local_denials := increment op (led_local_denials l)\<rparr>"
  let ?new = "l\<lparr>led_revision := led_revision l + 1, led_updated_at := now,
      led_claims := led_claims l @ [new_claim op i now],
      led_schema_version := (if op = Firecrawl_scrape then Ledger_v2 else led_schema_version l)\<rparr>"
  show "snd (claim C R op i now s) = Inr c \<and> ledger_at C R (fst (claim C R op i now s)) = Some l"
    if "find_claim i l = Some c" "cl_operation c = op"
  proof -
    have "?f l now = Inr (l, Some c)" using that by (simp add: claim_mutation_def)
    from w [where f = ?f, OF this v] show ?thesis by (simp add: claim_result fst_claim)
  qed
  show "claim C R op i now s = (s, Inl CostClaimConflict)"
    if "find_claim i l = Some c" "cl_operation c \<noteq> op"
    by (rule claim_result(3) [OF e(1) [where f = ?f]]) (simp add: claim_mutation_def that)
  show "snd (claim C R op i now s) = Inl CostLimitExceeded \<and>
      (\<exists>l'. ledger_at C R (fst (claim C R op i now s)) = Some l' \<and> led_claims l' = led_claims l
         \<and> denials op l' = denials op l + 1 \<and> led_revision l' = led_revision l + 1)"
    if "find_claim i l = None" "OPERATION_LIMITS op \<le> used op l"
  proof -
    have "?f l now = Inr (?den, None)" using that by (simp add: claim_mutation_def)
    from w [where f = ?f, OF this ledger_valid_denied [OF v now den]] show ?thesis
      by (simp add: claim_result fst_claim denials_def map_of_increment)
  qed
  show "snd (claim C R op i now s) = Inr (new_claim op i now) \<and>
      (\<exists>l'. ledger_at C R (fst (claim C R op i now s)) = Some l'
         \<and> led_claims l' = led_claims l @ [new_claim op i now] \<and> led_revision l' = led_revision l + 1)"
    if "find_claim i l = None" "used op l < OPERATION_LIMITS op"
      "length (led_claims l) < MAX_LEDGER_CLAIMS"
  proof -
    have "?f l now = Inr (?new, Some (new_claim op i now))" using that by (simp add: claim_mutation_def)
    from w [where f = ?f, OF this ledger_valid_append [OF v that(3) now that(1)]] show ?thesis
      by (simp add: claim_result fst_claim)
  qed
  show "claim C R op i now s = (s, Inl ValidationError)"
    if "find_claim i l = None" "used op l < OPERATION_LIMITS op"
      "length (led_claims l) = MAX_LEDGER_CLAIMS"
  proof (rule claim_result(3) [OF e(2) [where f = ?f]])
    show "?f l now = Inr (?new, Some (new_claim op i now))" using that by (simp add: claim_mutation_def)
    show "\<not> ledger_valid ?new" using that(3) by (simp add: ledger_valid_def)
  qed
qed

subsection \<open>Completions\<close>

text \<open>After a completion returned \<open>cl\<close>, the stored ledger has \<open>cl\<close> under its id.\<close>

lemma complete_result:
  assumes "snd (complete C R i co now s) = Inr cl"
  obtains l n where "ledger_at C R (fst (complete C R i co now s)) = Some l"
    "n < length (led_claims l)" "led_claims l ! n = cl" "cl_claim_id cl = i" "cl_completed cl"
    "claim_valid (completed_claim co now cl)"
    "cl\<lparr>cl_completed_at := Some now\<rparr> = completed_claim co now cl"
proof (rule mutate_elim [of "complete_mutation i co" now s])
  fix e assume "mutate C R (complete_mutation i co) now s = (s, Inl e)"
  then show thesis using assms by (simp add: complete_def)
next
  fix l l' result
  assume f: "complete_mutation i co l now = Inr (l', result)"
    and r: "snd (mutate C R (complete_mutation i co) now s) = Inr result"
    and kv: "rget R (fst (mutate C R (complete_mutation i co) now s)) =
      (rget R s)(ledger_key C \<mapsto> VLedger l')"
  have cl: "result = cl" using r assms by (simp add: complete_def)
  have at: "ledger_at C R (fst (complete C R i co now s)) = Some l'"
    by (simp add: complete_def ledger_at_def kv)
  obtain n where n: "claim_index i (led_claims l) = Some n"
    using f by (auto simp: complete_mutation_def split: option.splits)
  note id = claim_index_Some [OF n]
  let ?c = "led_claims l ! n"
  have ok: "claim_valid (completed_claim co now ?c)"
    using f by (auto simp: complete_mutation_def n Let_def split: if_splits)
  have up: "(completed_claim co now ?c)\<lparr>cl_completed_at := Some now\<rparr> =
      completed_claim co now (completed_claim co now ?c)"
    "completed_claim co now (completed_claim co now ?c) = completed_claim co now ?c"
    by (simp_all add: completed_claim_def)
  show thesis
  proof (cases "cl_completed ?c")
    case True
    with f have "l' = l \<and> result = ?c \<and> ?c\<lparr>cl_completed_at := Some now\<rparr> = completed_claim co now ?c"
      by (auto simp: complete_mutation_def n Let_def completed_claim_def split: if_splits)
    then show ?thesis using that [OF at, of n] id True ok cl by simp
  next
    case False
    with f have "led_claims l' = (led_claims l)[n := completed_claim co now ?c] \<and>
        result = completed_claim co now ?c"
      by (auto simp: complete_mutation_def n Let_def split: if_splits)
    then show ?thesis using that [OF at, of n] id up ok cl by simp
  qed
qed

text \<open>A later completion of the same claim repeats the recorded one or is refused.\<close>

lemma complete_again:
  assumes inv: "ledger_inv C R t" and at: "ledger_at C R t = Some l"
    and n: "n < length (led_claims l)" "led_claims l ! n = cl" "cl_claim_id cl = i" "cl_completed cl"
  shows "snd (complete C R i co now t) =
      (if \<not> claim_valid (completed_claim co now cl) then Inl ValidationError
       else if cl\<lparr>cl_completed_at := Some now\<rparr> \<noteq> completed_claim co now cl then Inl CostClaimConflict
       else Inr cl)"
    and "ledger_at C R (fst (complete C R i co now t)) = Some l"
proof -
  have l: "rget R t (ledger_key C) = Some (VLedger l)" "ledger_valid l" "led_job_id l = lg_job_id C"
    using inv at by (auto simp: ledger_inv_def ledger_at_def)
  then have d: "decode_ledger C (rget R t (ledger_key C)) now = Inr l"
    by (simp add: decode_ledger_def)
  have idx: "claim_index i (led_claims l) = Some n"
    using l(2) n by (intro claim_index_distinct) (simp_all add: ledger_valid_def)
  have f: "complete_mutation i co l now =
      (if \<not> claim_valid (completed_claim co now cl) then Inl ValidationError
       else if cl\<lparr>cl_completed_at := Some now\<rparr> \<noteq> completed_claim co now cl then Inl CostClaimConflict
       else Inr (l, cl))"
    using n by (simp add: complete_mutation_def idx) (simp add: completed_claim_def)
  show "snd (complete C R i co now t) =
      (if \<not> claim_valid (completed_claim co now cl) then Inl ValidationError
       else if cl\<lparr>cl_completed_at := Some now\<rparr> \<noteq> completed_claim co now cl then Inl CostClaimConflict
       else Inr cl)"
    "ledger_at C R (fst (complete C R i co now t)) = Some l"
    using f mutate_written [OF d, of "complete_mutation i co" l cl] mutate_failed(1) [OF d, of "complete_mutation i co"]
      l(2) at
    by (auto simp: complete_def split: if_splits)
qed

end

subsection \<open>The ledger on the server in memory\<close>

definition ex_pricing :: pricing_catalog where
  "ex_pricing = \<lparr>pr_revision = 3, pr_request_usd_micros = empty_request_prices(Dify := Some 500),
     pr_dify_input_mtok_usd_micros = Some 2000000, pr_dify_output_mtok_usd_micros = None\<rparr>"

definition ex_ledger :: ledger_config where
  "ex_ledger = \<lparr>lg_prefix = ''test:v22'', lg_job_id = 1, lg_ttl_seconds = 604800,
     lg_pricing = ex_pricing, lg_job_created_at = 1000, lg_require_existing = False\<rparr>"

interpretation mem_ledger: job_ledger mem_redis ex_ledger
  by unfold_locales (simp add: new_job_cost_ledger_def ex_ledger_def)

lemma mem_job_ledger [simp]: "job_ledger mem_redis ex_ledger"
  by (fact mem_ledger.job_ledger_axioms)

lemma ledger_inv_empty: "rget R s (ledger_key C) = None \<Longrightarrow> ledger_inv C R s"
  by (simp add: ledger_inv_def)

definition ex_completion :: completion where
  "ex_completion = \<lparr>co_outcome = Success, co_duration_ms = 1500, co_billable_units = 1,
     co_usage_known = True, co_input_tokens = Some 1200, co_output_tokens = Some 300,
     co_total_tokens = Some 1500\<rparr>"

definition ex_claimed :: "rval mem" where
  "ex_claimed = fst (claim ex_ledger mem_redis Dify_workflow 11 2000 mem_empty)"

definition ex_completed :: "rval mem" where
  "ex_completed = fst (complete ex_ledger mem_redis 11 ex_completion 3000 ex_claimed)"

definition ex_claim :: cost_claim where
  "ex_claim = completed_claim ex_completion 3000 (new_claim Dify_workflow 11 2000)"

lemma ex_ledger_run:
  "(ledger_step ex_ledger mem_redis)\<^sup>*\<^sup>* mem_empty ex_claimed"
  "(ledger_step ex_ledger mem_redis)\<^sup>*\<^sup>* ex_claimed ex_completed"
  unfolding ex_claimed_def ex_completed_def
  by (rule r_into_rtranclp, rule led_claim led_complete)+

lemma ex_ledger_inv:
  "ledger_inv ex_ledger mem_redis mem_empty" "ledger_inv ex_ledger mem_redis ex_claimed"
  "ledger_inv ex_ledger mem_redis ex_completed"
proof -
  show 1: "ledger_inv ex_ledger mem_redis mem_empty"
    by (rule ledger_inv_empty) (simp add: mem_redis_def mem_empty_def)
  show 2: "ledger_inv ex_ledger mem_redis ex_claimed"
    by (rule mem_ledger.ledger_run(1) [OF ex_ledger_run(1) 1])
  show "ledger_inv ex_ledger mem_redis ex_completed"
    by (rule mem_ledger.ledger_run(1) [OF ex_ledger_run(2) 2])
qed

lemma ex_snapshot:
  "ledger_valid (the (ledger_at ex_ledger mem_redis ex_completed))"
  "prices_bounded (led_pricing (the (ledger_at ex_ledger mem_redis ex_completed)))"
  "led_revision (the (ledger_at ex_ledger mem_redis ex_completed)) \<le> MAX_COUNTER_VALUE"
  "4000 - led_created_at (the (ledger_at ex_ledger mem_redis ex_completed)) \<le> 1000 * MAX_COUNTER_VALUE"
  "length (led_claims (the (ledger_at ex_ledger mem_redis ex_completed))) = 1"
  by code_simp+

subsection \<open>Properties\<close>

text \<open>
  (C11) In every run of the ledger's operations from a server without a ledger, with
  arbitrary writes to other keys between them, the stored ledger is valid, belongs to the
  job, has each claim id once, and no operation has more claims than its limit.
\<close>

theorem claims_within_limits:
  assumes "job_ledger R C" "rget R s (ledger_key C) = None"
    and "(ledger_step C R)\<^sup>*\<^sup>* s t" "ledger_at C R t = Some l"
  shows "ledger_valid l \<and> led_job_id l = lg_job_id C \<and> distinct (map cl_claim_id (led_claims l))
    \<and> used op l \<le> OPERATION_LIMITS op"
proof -
  have "ledger_inv C R t"
    by (rule job_ledger.ledger_run(1) [OF assms(1,3) ledger_inv_empty [OF assms(2)]])
  then have "ledger_valid l \<and> led_job_id l = lg_job_id C \<and> within_limits l"
    using assms(4) by (auto simp: ledger_inv_def ledger_at_def)
  then show ?thesis by (simp add: ledger_valid_def within_limitsD)
qed

theorem claims_within_limits_witness:
  "ledger_at ex_ledger mem_redis ex_claimed \<noteq> None \<and>
   used Dify_workflow (the (ledger_at ex_ledger mem_redis ex_claimed)) \<le> 3"
proof -
  obtain l where l: "ledger_at ex_ledger mem_redis ex_claimed = Some l"
  proof -
    have "ledger_at ex_ledger mem_redis ex_claimed \<noteq> None" by code_simp
    then show thesis using that by auto
  qed
  have "rget mem_redis mem_empty (ledger_key ex_ledger) = None"
    by (simp add: mem_redis_def mem_empty_def)
  from claims_within_limits [OF mem_job_ledger this ex_ledger_run(1) l, of Dify_workflow] l
  show ?thesis by simp
qed

text \<open>
  (C12) Every branch of a claim: a known id returns its recorded claim and changes nothing,
  unless it was claimed for another operation (CostClaimConflict); an operation at its
  limit is refused with CostLimitExceeded, its denial is counted and no claim is added;
  otherwise the claim is appended. A ledger that already holds 100 claims refuses with a
  ValidationError although the operation is below its limit.
\<close>

theorem claim_functional:
  assumes "job_ledger R C" "decode_ledger C (rget R s (ledger_key C)) now = Inr l"
    and "led_created_at l \<le> now" "denials op l < 1000000"
  shows "case find_claim i l of
      Some c \<Rightarrow>
        if cl_operation c \<noteq> op then claim C R op i now s = (s, Inl CostClaimConflict)
        else snd (claim C R op i now s) = Inr c \<and> ledger_at C R (fst (claim C R op i now s)) = Some l
    | None \<Rightarrow>
        if OPERATION_LIMITS op \<le> used op l
        then snd (claim C R op i now s) = Inl CostLimitExceeded \<and>
          (\<exists>l'. ledger_at C R (fst (claim C R op i now s)) = Some l' \<and> led_claims l' = led_claims l
             \<and> denials op l' = denials op l + 1 \<and> led_revision l' = led_revision l + 1)
        else if length (led_claims l) = MAX_LEDGER_CLAIMS
        then claim C R op i now s = (s, Inl ValidationError)
        else snd (claim C R op i now s) = Inr (new_claim op i now) \<and>
          (\<exists>l'. ledger_at C R (fst (claim C R op i now s)) = Some l'
             \<and> led_claims l' = led_claims l @ [new_claim op i now]
             \<and> led_revision l' = led_revision l + 1)"
proof -
  note b = job_ledger.claim_branches [OF assms]
  have "length (led_claims l) \<le> MAX_LEDGER_CLAIMS"
    using decode_ledger_Inr(1) [OF assms(2)] by (simp add: ledger_valid_def)
  then show ?thesis using b [of i] by (cases "find_claim i l") auto
qed

theorem claim_functional_witness:
  "snd (claim ex_ledger mem_redis Jina_fetch 12 2000 ex_claimed) = Inl CostLimitExceeded"
proof -
  define l where "l = projr (decode_ledger ex_ledger (rget mem_redis ex_claimed (ledger_key ex_ledger)) 2000)"
  have "decode_ledger ex_ledger (rget mem_redis ex_claimed (ledger_key ex_ledger)) 2000 = Inr l
      \<and> led_created_at l \<le> 2000 \<and> denials Jina_fetch l < 1000000 \<and> find_claim 12 l = None"
    unfolding l_def by code_simp
  then show ?thesis using claim_functional [OF mem_job_ledger, of ex_claimed 2000 l Jina_fetch 12] by auto
qed

text \<open>
  A claim that a run has recorded stays in its place with its id, operation and time
  whatever operations follow, and once it is completed it never changes; the revision
  never decreases and the frozen prices stay as they are.
\<close>

theorem recorded_claims_permanent:
  assumes "job_ledger R C" "ledger_inv C R s" "(ledger_step C R)\<^sup>*\<^sup>* s t"
    and "ledger_at C R s = Some l" "n < length (led_claims l)"
  shows "\<exists>l'. ledger_at C R t = Some l' \<and> n < length (led_claims l')
    \<and> cl_claim_id (led_claims l' ! n) = cl_claim_id (led_claims l ! n)
    \<and> cl_operation (led_claims l' ! n) = cl_operation (led_claims l ! n)
    \<and> (cl_completed (led_claims l ! n) \<longrightarrow> led_claims l' ! n = led_claims l ! n)
    \<and> led_revision l \<le> led_revision l' \<and> led_pricing l' = led_pricing l"
  using job_ledger.ledger_run(2) [OF assms(1,3,2,4)] assms(5)
  by (auto simp: extends_def list_all2_conv_all_nth)

theorem recorded_claims_permanent_witness:
  "\<exists>l'. ledger_at ex_ledger mem_redis ex_completed = Some l' \<and> cl_claim_id (led_claims l' ! 0) = 11"
proof -
  define l where "l = the (ledger_at ex_ledger mem_redis ex_claimed)"
  have "ledger_at ex_ledger mem_redis ex_claimed = Some l \<and> 0 < length (led_claims l)
      \<and> cl_claim_id (led_claims l ! 0) = 11"
    unfolding l_def by code_simp
  then show ?thesis
    using recorded_claims_permanent [OF mem_job_ledger ex_ledger_inv(2) ex_ledger_run(2), of l 0] by auto
qed

text \<open>
  A completion happens once: after a completion of a claim returned a result, any later
  completion of that claim leaves the ledger as it is, returns that same result when it
  reports the same outcome, duration, units and tokens, and raises otherwise.
\<close>

theorem completion_once:
  assumes "job_ledger R C" "ledger_inv C R s" "snd (complete C R i co now s) = Inr cl"
    and "(ledger_step C R)\<^sup>*\<^sup>* (fst (complete C R i co now s)) t"
  shows "ledger_at C R (fst (complete C R i co' now' t)) = ledger_at C R t
    \<and> (\<forall>cl'. snd (complete C R i co' now' t) = Inr cl' \<longrightarrow> cl' = cl)
    \<and> (co' = co \<and> cl_claimed_at cl \<le> now' \<longrightarrow> snd (complete C R i co' now' t) = Inr cl)"
proof -
  obtain l n where l: "ledger_at C R (fst (complete C R i co now s)) = Some l"
    "n < length (led_claims l)" "led_claims l ! n = cl" "cl_claim_id cl = i" "cl_completed cl"
    "claim_valid (completed_claim co now cl)"
    "cl\<lparr>cl_completed_at := Some now\<rparr> = completed_claim co now cl"
    by (rule job_ledger.complete_result [OF assms(1,3)])
  have inv: "ledger_inv C R (fst (complete C R i co now s))"
    by (rule job_ledger.ledger_step_inv [OF assms(1) led_complete assms(2)])
  note run = job_ledger.ledger_run [OF assms(1,4) inv]
  obtain l' where l': "ledger_at C R t = Some l'" "extends l l'" using run(2) [OF l(1)] by blast
  then have n: "n < length (led_claims l')" "led_claims l' ! n = cl"
    using l by (auto simp: extends_def list_all2_conv_all_nth)
  note again = job_ledger.complete_again [OF assms(1) run(1) l'(1) n l(4,5)]
  have later: "completed_claim co now' cl = (completed_claim co now cl)\<lparr>cl_completed_at := Some now'\<rparr>"
    by (simp add: completed_claim_def)
  have "cl_completed_at (completed_claim co now cl) = Some now"
    by (simp add: completed_claim_def)
  then have valid: "claim_valid (completed_claim co now' cl)" if "cl_claimed_at cl \<le> now'"
    using claim_valid_later [OF l(6), of now now'] that by (simp add: later)
  have same: "cl\<lparr>cl_completed_at := Some now'\<rparr> = completed_claim co now' cl"
    unfolding later l(7) [symmetric] by simp
  have "snd (complete C R i co now' t) = Inr cl" if "cl_claimed_at cl \<le> now'"
    by (rule checks_pass [OF again(1) valid [OF that] same])
  moreover have "cl' = cl" if "snd (complete C R i co' now' t) = Inr cl'" for cl'
    by (rule checks_Inr [OF again(1) that])
  moreover have "ledger_at C R (fst (complete C R i co' now' t)) = ledger_at C R t"
    using again(2) l'(1) by simp
  ultimately show ?thesis by blast
qed

theorem completion_once_witness:
  "snd (complete ex_ledger mem_redis 11 ex_completion 9000 ex_completed) = Inr ex_claim"
proof -
  have "snd (complete ex_ledger mem_redis 11 ex_completion 3000 ex_claimed) = Inr ex_claim
      \<and> cl_claimed_at ex_claim \<le> 9000" by code_simp
  then show ?thesis
    using completion_once [OF mem_job_ledger ex_ledger_inv(2), of 11 ex_completion 3000 ex_claim
        ex_completed ex_completion 9000]
    by (simp add: ex_completed_def)
qed

text \<open>
  The counters derived from a ledger add up: attempts are the recorded claims, each
  has exactly one of the outcomes success, failure and unknown, and the job-wide totals of
  attempts, outcomes, denials, costs and unpriced units are the sums over the providers.
\<close>

theorem counters_conservation:
  assumes "cost_counters_from_state l now = Inr c"
  shows "counter_value c (Base Provider_attempts_total) = int (length (led_claims l))
    \<and> counter_value c (Base Provider_attempts_total) =
        counter_value c (Base Provider_successes_total)
      + counter_value c (Base Provider_failures_total)
      + counter_value c (Base Provider_outcome_unknown_total)
    \<and> (\<forall>m b. total_counter m = Some b \<longrightarrow>
        counter_value c (Base b) = (\<Sum>p\<leftarrow>PROVIDERS. counter_value c (Prov p m)))"
  using attempts_eq_claims [OF assms] outcomes_partition [OF assms] totals_are_sums [OF assms] by simp

theorem counters_conservation_witness:
  "\<exists>c. cost_counters_from_state (the (ledger_at ex_ledger mem_redis ex_completed)) 4000 = Inr c
     \<and> counter_value c (Base Provider_attempts_total) = 1"
proof -
  let ?l = "the (ledger_at ex_ledger mem_redis ex_completed)"
  obtain c where "cost_counters_from_state ?l 4000 = Inr c"
    using snapshot_total [OF ex_snapshot(1-4)] by blast
  then show ?thesis using counters_conservation [of ?l 4000 c] ex_snapshot(5) by simp
qed

text \<open>
  A snapshot always exists: for a valid ledger with request prices up to 1 USD and
  token prices up to 1000 USD per million, no counter leaves the safe range, and the
  counters pass the validation of the callback contract.
\<close>

theorem snapshot_exists:
  assumes "ledger_valid l" "prices_bounded (led_pricing l)"
    and "led_revision l \<le> MAX_COUNTER_VALUE" "now - led_created_at l \<le> 1000 * MAX_COUNTER_VALUE"
  shows "\<exists>c. cost_counters_from_state l now = Inr c \<and> validate_cost_counters_snapshot c = Inr c"
proof -
  obtain c where c: "cost_counters_from_state l now = Inr c"
    using snapshot_total [OF assms] by blast
  have "cost_counters_v1 c = Inr c"
    using c by (auto simp: cost_counters_from_state_def split: sum.splits dest: cost_counters_v1_Inr)
  then show ?thesis using c by (auto simp: validate_cost_counters_snapshot_def)
qed

theorem snapshot_exists_witness:
  "\<exists>c. cost_counters_from_state (the (ledger_at ex_ledger mem_redis ex_completed)) 4000 = Inr c
     \<and> validate_cost_counters_snapshot c = Inr c"
  by (rule snapshot_exists [OF ex_snapshot(1-4)])

text \<open>
  The token price is the exact price rounded up to the next microdollar: never below
  it, and less than one microdollar above it.
\<close>

theorem token_price_rounds_up:
  assumes "0 \<le> tokens" "0 \<le> rate"
  shows "\<exists>d. microdollars_for_tokens tokens rate = Inr d \<and> 0 \<le> d
    \<and> tokens * rate \<le> d * 1000000 \<and> d * 1000000 < tokens * rate + 1000000"
  using microdollars_Inr [OF assms] by metis

theorem token_price_rounds_up_witness:
  "\<exists>d. microdollars_for_tokens 1200 2000001 = Inr d \<and> 1200 * 2000001 \<le> d * 1000000"
  using token_price_rounds_up [of 1200 2000001] by auto

end
