(* ===== verification/Circuit_Breaker.thy ===== *)
theory Circuit_Breaker
  imports Example_Jobs
begin

text \<open>
  The shared circuit breaker of provider calls (app/jobs_v22/circuit_breaker.py): closed,
  open until a time, and half-open while one caller holds the probe key. The texts the
  code makes from uuid4 (the probe value, the failure member) are parameters. A run of a
  method without interference is its commands in order; \<open>float\<close> times are exact.
\<close>

record circuit_permit =
  cp_provider :: string
  cp_operation :: string
  cp_probe :: bool

record circuit_config =
  cb_failure_threshold :: int
  cb_window_seconds :: int
  cb_cooldown_seconds :: "int list"

text \<open>The defaults of \<open>__init__\<close>.\<close>

definition default_circuit :: circuit_config where
  "default_circuit = \<lparr>cb_failure_threshold = 5, cb_window_seconds = 60,
     cb_cooldown_seconds = [60, 120, 300]\<rparr>"

definition circuit_of :: "runtime_env \<Rightarrow> string \<Rightarrow> string \<Rightarrow> string" where
  "circuit_of E provider operation = circuit_key (env_sha256 E) (env_prefix E) provider operation"

definition probe_of :: "runtime_env \<Rightarrow> string \<Rightarrow> string \<Rightarrow> string" where
  "probe_of E provider operation = circuit_of E provider operation @ '':probe''"

definition failures_of :: "runtime_env \<Rightarrow> string \<Rightarrow> string \<Rightarrow> string" where
  "failures_of E provider operation =
     circuit_failures_key (env_sha256 E) (env_prefix E) provider operation"

text \<open>\<open>json.loads(raw) if raw else {...}\<close>\<close>

definition load_circuit :: "rval option \<Rightarrow> exn + circuit_state" where
  "load_circuit raw =
     (case raw of
        None \<Rightarrow> Inr \<lparr>ci_status = Circuit_closed, ci_open_count = 0, ci_open_until = 0\<rparr>
      | Some (VCircuit st) \<Rightarrow> Inr st
      | Some _ \<Rightarrow> Inl (ValueError ''JSONDecodeError''))"

definition before_call ::
    "runtime_env \<Rightarrow> 's server \<Rightarrow> circuit_config \<Rightarrow> string \<Rightarrow> string \<Rightarrow> timestamp \<Rightarrow> string
     \<Rightarrow> 's \<Rightarrow> 's \<times> (exn + circuit_permit)" where
  "before_call E R cfg provider operation now token s =
     (case load_circuit (rget R s (circuit_of E provider operation)) of
        Inl e \<Rightarrow> (s, Inl e)
      | Inr state \<Rightarrow>
          if ci_status state = Circuit_closed
          then (s, Inr \<lparr>cp_provider = provider, cp_operation = operation, cp_probe = False\<rparr>)
          else if now < ci_open_until state then (s, Inl ProviderCircuitOpen)
          else (case cb_cooldown_seconds cfg of
                  [] \<Rightarrow> (s, Inl (OtherException ''IndexError''))
                | first # _ \<Rightarrow>
                    (case set_nx R (probe_of E provider operation) (VText token) (max first 30) s of
                       (s', claimed) \<Rightarrow>
                         if \<not> claimed then (s', Inl ProviderCircuitOpen)
                         else (s', Inr \<lparr>cp_provider = provider, cp_operation = operation,
                                         cp_probe = True\<rparr>))))"

definition record_success :: "runtime_env \<Rightarrow> 's server \<Rightarrow> circuit_permit \<Rightarrow> 's \<Rightarrow> 's" where
  "record_success E R permit s =
     rexec R [Del [circuit_of E (cp_provider permit) (cp_operation permit),
                   probe_of E (cp_provider permit) (cp_operation permit),
                   failures_of E (cp_provider permit) (cp_operation permit)]] s"

text \<open>The failures within the window, the new one added.\<close>

definition failure_commands ::
    "circuit_config \<Rightarrow> string \<Rightarrow> timestamp \<Rightarrow> string \<Rightarrow> rval rcmd list" where
  "failure_commands cfg failures now member =
     [Zremrangebyscore failures (of_timestamp (now - seconds (cb_window_seconds cfg))),
      Zadd failures member (of_timestamp now),
      Expire failures (cb_window_seconds cfg * 2)]"

text \<open>\<open>failure_threshold or self.failure_threshold\<close>: 0 counts as absent.\<close>

definition threshold :: "circuit_config \<Rightarrow> int option \<Rightarrow> int" where
  "threshold cfg v = (case v of None \<Rightarrow> cb_failure_threshold cfg
     | Some n \<Rightarrow> if n = 0 then cb_failure_threshold cfg else n)"

definition cooldown :: "circuit_config \<Rightarrow> int \<Rightarrow> int" where
  "cooldown cfg open_count =
     cb_cooldown_seconds cfg
       ! nat (min (open_count - 1) (int (length (cb_cooldown_seconds cfg)) - 1))"

definition opened :: "circuit_config \<Rightarrow> timestamp \<Rightarrow> int \<Rightarrow> circuit_state" where
  "opened cfg now open_count =
     \<lparr>ci_status = Circuit_open, ci_open_count = open_count,
      ci_open_until = now + seconds (cooldown cfg open_count)\<rparr>"

definition open_circuit ::
    "runtime_env \<Rightarrow> 's server \<Rightarrow> circuit_config \<Rightarrow> circuit_permit \<Rightarrow> timestamp \<Rightarrow> int \<Rightarrow> 's \<Rightarrow> 's" where
  "open_circuit E R cfg permit now open_count s =
     (let p = cp_provider permit; op = cp_operation permit;
          s = rexec R [SetEx (circuit_of E p op) (VCircuit (opened cfg now open_count))
                        (cooldown cfg open_count + cb_window_seconds cfg)] s
      in rexec R [Del [probe_of E p op]] s)"

definition record_failure ::
    "runtime_env \<Rightarrow> 's server \<Rightarrow> circuit_config \<Rightarrow> circuit_permit \<Rightarrow> timestamp \<Rightarrow> bool \<Rightarrow> bool
     \<Rightarrow> int option \<Rightarrow> string \<Rightarrow> 's \<Rightarrow> 's \<times> (exn + bool)" where
  "record_failure E R cfg permit now eligible immediate failure_threshold member s =
     (let p = cp_provider permit; op = cp_operation permit
      in if \<not> eligible
         then (if cp_probe permit then (rexec R [Del [probe_of E p op]] s, Inr False) else (s, Inr False))
         else
           (let s' = rexec R (failure_commands cfg (failures_of E p op) now member) s;
                count = int (zcard R s' (failures_of E p op))
            in case load_circuit (rget R s' (circuit_of E p op)) of
                 Inl e \<Rightarrow> (s', Inl e)
               | Inr current \<Rightarrow>
                   if \<not> (immediate \<or> cp_probe permit \<or> threshold cfg failure_threshold \<le> count)
                   then (s', Inr False)
                   else if cb_cooldown_seconds cfg = [] then (s', Inl (OtherException ''IndexError''))
                   else (open_circuit E R cfg permit now (ci_open_count current + 1) s', Inr True)))"

subsection \<open>What the breaker guarantees\<close>

lemma circuit_keys_distinct [simp]:
  "circuit_of E p op \<noteq> probe_of E p op" "probe_of E p op \<noteq> circuit_of E p op"
  "circuit_of E p op \<noteq> failures_of E p op" "failures_of E p op \<noteq> circuit_of E p op"
  "probe_of E p op \<noteq> failures_of E p op" "failures_of E p op \<noteq> probe_of E p op"
  by (simp_all add: circuit_of_def probe_of_def failures_of_def)

locale circuit_runtime = redis_laws R for R :: "('s, rval) redis" +
  fixes E :: runtime_env and cfg :: circuit_config
  assumes window: "0 < cb_window_seconds cfg"
    and cooldowns: "cb_cooldown_seconds cfg \<noteq> []" "list_all (\<lambda>c. 0 < c) (cb_cooldown_seconds cfg)"
begin

lemma cooldown_index:
  "1 \<le> n \<Longrightarrow> nat (min (n - 1) (int (length (cb_cooldown_seconds cfg)) - 1)) < length (cb_cooldown_seconds cfg)"
  using cooldowns(1) by (cases "cb_cooldown_seconds cfg") auto

lemma cooldown_positive: "1 \<le> n \<Longrightarrow> 0 < cooldown cfg n"
  using cooldowns(2) cooldown_index [of n] by (auto simp: cooldown_def list_all_length)

lemma failure_ok: "list_all cmd_ok (failure_commands cfg f now m)"
  using window by (simp add: failure_commands_def)

lemma failure_views:
  "rget R (rexec R (failure_commands cfg f now m) s) = rget R s"
  "zscore R (rexec R (failure_commands cfg f now m) s) =
     (zscore R s)(f := (\<lambda>x. case zscore R s f x of None \<Rightarrow> None
        | Some sc \<Rightarrow> if sc \<le> of_timestamp (now - seconds (cb_window_seconds cfg)) then None else Some sc)
        (m \<mapsto> of_timestamp now))"
  by (simp_all only: get_exec [OF failure_ok] zscore_exec [OF failure_ok])
    (simp_all add: failure_commands_def)

text \<open>The members counted: the failures still in the window, and the new one.\<close>

lemma failure_count:
  "zcard R (rexec R (failure_commands cfg f now m) s) f =
   card (insert m {x. \<exists>sc. zscore R s f x = Some sc \<and>
      of_timestamp (now - seconds (cb_window_seconds cfg)) < sc})"
proof -
  have "dom (zscore R (rexec R (failure_commands cfg f now m) s) f) =
      insert m {x. \<exists>sc. zscore R s f x = Some sc \<and>
        of_timestamp (now - seconds (cb_window_seconds cfg)) < sc}"
    by (auto simp: failure_views dom_def not_le split: option.splits if_splits)
  then show ?thesis by (simp add: zcard_eq)
qed

lemma open_circuit_views:
  assumes "1 \<le> n"
  shows "rget R (open_circuit E R cfg permit now n s) =
     (rget R s)(circuit_of E (cp_provider permit) (cp_operation permit) \<mapsto> VCircuit (opened cfg now n),
        probe_of E (cp_provider permit) (cp_operation permit) := None)"
proof -
  have "0 < cooldown cfg n + cb_window_seconds cfg" using window cooldown_positive [OF assms] by simp
  then show ?thesis by (auto simp: open_circuit_def Let_def get_exec fun_eq_iff)
qed

lemma load_circuit_open_count:
  "load_circuit raw = Inr st \<Longrightarrow> (\<And>c. raw = Some (VCircuit c) \<Longrightarrow> 0 \<le> ci_open_count c) \<Longrightarrow>
   0 \<le> ci_open_count st"
  by (auto simp: load_circuit_def split: option.splits rval.splits)

text \<open>A failure, by cases.\<close>

lemma record_failure_elim:
  fixes permit defines "p \<equiv> cp_provider permit" and "op \<equiv> cp_operation permit"
  assumes "\<And>c. rget R s (circuit_of E p op) = Some (VCircuit c) \<Longrightarrow> 0 \<le> ci_open_count c"
  obtains
    (ignored) "\<not> eligible" "snd (record_failure E R cfg permit now eligible im th m s) = Inr False"
      "rget R (fst (record_failure E R cfg permit now eligible im th m s)) =
        (if cp_probe permit then (rget R s)(probe_of E p op := None) else rget R s)"
  | (corrupt) e where "eligible" "snd (record_failure E R cfg permit now eligible im th m s) = Inl e"
      "rget R (fst (record_failure E R cfg permit now eligible im th m s)) = rget R s"
      "load_circuit (rget R s (circuit_of E p op)) = Inl e"
  | (counted) current where "eligible" "load_circuit (rget R s (circuit_of E p op)) = Inr current"
      "\<not> im" "\<not> cp_probe permit"
      "int (zcard R (rexec R (failure_commands cfg (failures_of E p op) now m) s) (failures_of E p op))
         < threshold cfg th"
      "snd (record_failure E R cfg permit now eligible im th m s) = Inr False"
      "rget R (fst (record_failure E R cfg permit now eligible im th m s)) = rget R s"
  | (opened) current where "eligible" "load_circuit (rget R s (circuit_of E p op)) = Inr current"
      "im \<or> cp_probe permit \<or> threshold cfg th \<le>
         int (zcard R (rexec R (failure_commands cfg (failures_of E p op) now m) s) (failures_of E p op))"
      "snd (record_failure E R cfg permit now eligible im th m s) = Inr True"
      "rget R (fst (record_failure E R cfg permit now eligible im th m s)) =
        (rget R s)(circuit_of E p op \<mapsto> VCircuit (opened cfg now (ci_open_count current + 1)),
           probe_of E p op := None)"
proof (cases eligible)
  case False
  then show ?thesis
    by (intro ignored) (auto simp: record_failure_def Let_def get_exec p_def op_def fun_eq_iff)
next
  case True
  let ?s' = "rexec R (failure_commands cfg (failures_of E p op) now m) s"
  let ?go = "im \<or> cp_probe permit \<or> threshold cfg th \<le> int (zcard R ?s' (failures_of E p op))"
  note unfold = record_failure_def Let_def p_def [symmetric] op_def [symmetric] failure_views(1)
  show ?thesis
  proof (cases "load_circuit (rget R s (circuit_of E p op))")
    case (Inl e)
    then show ?thesis using True by (intro corrupt [of e]) (simp_all add: unfold)
  next
    case (Inr current)
    show ?thesis
    proof (cases ?go)
      case False
      then show ?thesis using True Inr by (intro counted [of current]) (simp_all add: unfold not_le)
    next
      case go: True
      have n: "1 \<le> ci_open_count current + 1"
        using load_circuit_open_count [OF Inr] assms(3) by simp
      have "record_failure E R cfg permit now eligible im th m s =
          (open_circuit E R cfg permit now (ci_open_count current + 1) ?s', Inr True)"
        using True Inr go cooldowns(1) by (simp add: unfold)
      then show ?thesis using True Inr go
        by (intro opened [of current])
          (simp_all add: open_circuit_views [OF n] failure_views(1) p_def op_def)
    qed
  qed
qed

lemma before_call_open:
  assumes "rget R s (circuit_of E p op) = Some (VCircuit st)" "ci_status st = Circuit_open"
  shows "now < ci_open_until st \<Longrightarrow> before_call E R cfg p op now tok s = (s, Inl ProviderCircuitOpen)"
    and "ci_open_until st \<le> now \<Longrightarrow>
      snd (before_call E R cfg p op now tok s) =
        (if rget R s (probe_of E p op) = None
         then Inr \<lparr>cp_provider = p, cp_operation = op, cp_probe = True\<rparr> else Inl ProviderCircuitOpen)"
    and "ci_open_until st \<le> now \<Longrightarrow>
      rget R (fst (before_call E R cfg p op now tok s)) =
        (if rget R s (probe_of E p op) = None
         then (rget R s)(probe_of E p op \<mapsto> VText tok) else rget R s)"
  using assms cooldowns
  by (auto simp: before_call_def load_circuit_def set_nx_def get_exec split: list.splits)

lemma before_call_closed:
  "load_circuit (rget R s (circuit_of E p op)) = Inr st \<Longrightarrow> ci_status st = Circuit_closed \<Longrightarrow>
   before_call E R cfg p op now tok s = (s, Inr \<lparr>cp_provider = p, cp_operation = op, cp_probe = False\<rparr>)"
  by (simp add: before_call_def)

lemma record_success_views:
  "rget R (record_success E R permit s) =
     (\<lambda>k. if k \<in> {circuit_of E (cp_provider permit) (cp_operation permit),
                   probe_of E (cp_provider permit) (cp_operation permit),
                   failures_of E (cp_provider permit) (cp_operation permit)} then None else rget R s k)"
  "zscore R (record_success E R permit s) (failures_of E (cp_provider permit) (cp_operation permit)) = Map.empty"
  by (simp_all add: record_success_def get_exec zscore_exec)

end

interpretation mem_circuit: circuit_runtime mem_redis example_env default_circuit
  by unfold_locales (simp_all add: default_circuit_def)

lemma mem_circuit_runtime [simp]: "circuit_runtime mem_redis default_circuit"
  by (fact mem_circuit.circuit_runtime_axioms)

end
