(* ===== verification/Circuit_Properties.thy ===== *)
theory Circuit_Properties
  imports Circuit_Breaker
begin

text \<open>
  The properties of the circuit breaker: when a failure opens it, that an open circuit
  rejects every call until its cooldown ends, that one caller probes at a time, that a
  failed probe reopens it for at least as long, and that a success closes it.
\<close>

subsection \<open>A concrete run\<close>

definition ex_permit :: "bool \<Rightarrow> circuit_permit" where
  "ex_permit probe = \<lparr>cp_provider = ''dify'', cp_operation = ''run'', cp_probe = probe\<rparr>"

definition ex_opened :: "rval mem" where
  "ex_opened = fst (record_failure example_env mem_redis default_circuit (ex_permit False)
     1000000 True True None ''f1'' mem_empty)"

definition ex_probing :: "rval mem" where
  "ex_probing = fst (before_call example_env mem_redis default_circuit ''dify'' ''run''
     61000000 ''t1'' ex_opened)"

lemma ex_opened_state:
  "rget mem_redis ex_opened (circuit_of example_env ''dify'' ''run'') =
     Some (VCircuit \<lparr>ci_status = Circuit_open, ci_open_count = 1, ci_open_until = 61000000\<rparr>)"
  "rget mem_redis ex_opened (probe_of example_env ''dify'' ''run'') = None"
  by code_simp+

lemma ex_probing_state:
  "rget mem_redis ex_probing (circuit_of example_env ''dify'' ''run'') =
     Some (VCircuit \<lparr>ci_status = Circuit_open, ci_open_count = 1, ci_open_until = 61000000\<rparr>)"
  "rget mem_redis ex_probing (probe_of example_env ''dify'' ''run'') = Some (VText ''t1'')"
  by code_simp+

subsection \<open>The facts, for any lawful server\<close>

context circuit_runtime
begin

lemma opens_iff:
  assumes "load_circuit (rget R s (circuit_of E (cp_provider permit) (cp_operation permit))) = Inr current"
    and "0 \<le> ci_open_count current"
  shows "snd (record_failure E R cfg permit now eligible im th m s) = Inr True \<longleftrightarrow>
     eligible \<and> (im \<or> cp_probe permit \<or>
       threshold cfg th \<le> int (card (insert m
         {x. \<exists>sc. zscore R s (failures_of E (cp_provider permit) (cp_operation permit)) x = Some sc
             \<and> of_timestamp (now - seconds (cb_window_seconds cfg)) < sc})))"
proof -
  have count: "0 \<le> ci_open_count c"
    if "rget R s (circuit_of E (cp_provider permit) (cp_operation permit)) = Some (VCircuit c)" for c
    using that assms by (simp add: load_circuit_def)
  show ?thesis
    by (rule record_failure_elim [of s permit eligible now im th m, OF count])
      (use assms in \<open>simp_all add: failure_count [symmetric] not_le\<close>)
qed

lemma opened_state:
  assumes "load_circuit (rget R s (circuit_of E (cp_provider permit) (cp_operation permit))) = Inr current"
    and "0 \<le> ci_open_count current"
    and "snd (record_failure E R cfg permit now eligible im th m s) = Inr True"
  shows "rget R (fst (record_failure E R cfg permit now eligible im th m s)) =
     (rget R s)(circuit_of E (cp_provider permit) (cp_operation permit)
        \<mapsto> VCircuit (opened cfg now (ci_open_count current + 1)),
      probe_of E (cp_provider permit) (cp_operation permit) := None)"
proof -
  have count: "0 \<le> ci_open_count c"
    if "rget R s (circuit_of E (cp_provider permit) (cp_operation permit)) = Some (VCircuit c)" for c
    using that assms by (simp add: load_circuit_def)
  show ?thesis
    by (rule record_failure_elim [of s permit eligible now im th m, OF count]) (use assms in simp_all)
qed

lemma cooldown_mono:
  assumes "sorted (cb_cooldown_seconds cfg)" "1 \<le> n"
  shows "cooldown cfg n \<le> cooldown cfg (n + 1)"
  unfolding cooldown_def using assms cooldown_index [of "n + 1"]
  by (intro sorted_nth_mono) (auto simp: nat_le_iff)

end

subsection \<open>Properties\<close>

text \<open>
  A recorded failure leaves the circuit open exactly when it is eligible and
  immediate, of a probe, or the failures within the window (the new one included) reach
  the threshold.
\<close>

theorem failure_opens_iff:
  assumes "circuit_runtime R cfg"
    and "load_circuit (rget R s (circuit_of E (cp_provider permit) (cp_operation permit))) = Inr current"
    and "0 \<le> ci_open_count current"
  shows "snd (record_failure E R cfg permit now eligible immediate th m s) = Inr True \<longleftrightarrow>
     eligible \<and> (immediate \<or> cp_probe permit \<or>
       threshold cfg th \<le> int (card (insert m
         {x. \<exists>sc. zscore R s (failures_of E (cp_provider permit) (cp_operation permit)) x = Some sc
             \<and> of_timestamp (now - seconds (cb_window_seconds cfg)) < sc})))"
  by (rule circuit_runtime.opens_iff [OF assms])

theorem failure_opens_iff_witness:
  "snd (record_failure example_env mem_redis default_circuit (ex_permit False)
     1000000 True False None ''f1'' mem_empty) \<noteq> Inr True"
proof -
  have l: "load_circuit (rget mem_redis mem_empty
      (circuit_of example_env (cp_provider (ex_permit False)) (cp_operation (ex_permit False)))) =
      Inr \<lparr>ci_status = Circuit_closed, ci_open_count = 0, ci_open_until = 0\<rparr>"
    by (simp add: load_circuit_def mem_redis_def mem_empty_def)
  have z: "zscore mem_redis mem_empty k = Map.empty" for k
    by (simp add: fun_eq_iff zscore_def mem_redis_def mem_empty_def mem_zall_def)
  show ?thesis
    by (subst failure_opens_iff [OF mem_circuit_runtime l])
      (simp_all add: z ex_permit_def threshold_def default_circuit_def)
qed

text \<open>
  Once a failure has opened the circuit, every call before the end of its cooldown is
  rejected and changes nothing, for as long as the circuit's key is not written.
\<close>

theorem open_circuit_rejects:
  assumes "circuit_runtime R cfg"
    and "load_circuit (rget R s (circuit_of E (cp_provider permit) (cp_operation permit))) = Inr current"
    and "0 \<le> ci_open_count current"
    and "snd (record_failure E R cfg permit now eligible immediate th m s) = Inr True"
    and "rget R t (circuit_of E (cp_provider permit) (cp_operation permit)) =
      rget R (fst (record_failure E R cfg permit now eligible immediate th m s))
        (circuit_of E (cp_provider permit) (cp_operation permit))"
    and "now' < now + seconds (cooldown cfg (ci_open_count current + 1))"
  shows "before_call E R cfg (cp_provider permit) (cp_operation permit) now' tok t = (t, Inl ProviderCircuitOpen)"
  using circuit_runtime.opened_state [OF assms(1-4)] assms(5,6)
    circuit_runtime.before_call_open(1) [OF assms(1)]
  by (simp add: opened_def)

text \<open>
  After the cooldown one caller at a time probes: the call that finds no probe key gets
  the probe permit, and while that key stands every other call is rejected.
\<close>

theorem single_probe:
  assumes "circuit_runtime R cfg"
    and "rget R s (circuit_of E p op) = Some (VCircuit st)" "ci_status st = Circuit_open"
    and "ci_open_until st \<le> now" "rget R s (probe_of E p op) = None"
    and "rget R t (circuit_of E p op) = Some (VCircuit st)"
    and "rget R t (probe_of E p op) =
      rget R (fst (before_call E R cfg p op now tok s)) (probe_of E p op)"
  shows "snd (before_call E R cfg p op now tok s) =
      Inr \<lparr>cp_provider = p, cp_operation = op, cp_probe = True\<rparr>
    \<and> snd (before_call E R cfg p op now' tok' t) = Inl ProviderCircuitOpen"
  using circuit_runtime.before_call_open [OF assms(1,2,3), of now tok]
    circuit_runtime.before_call_open [OF assms(1,6,3), of now' tok'] assms(4-)
  by (cases "now' < ci_open_until st") simp_all

text \<open>
  A failed probe reopens the circuit with the next cooldown of the list, which is at
  least the last one when the list is sorted, and frees the probe key, so that a call after
  that cooldown probes again.
\<close>

theorem failed_probe_reopens:
  assumes "circuit_runtime R cfg" "sorted (cb_cooldown_seconds cfg)"
    and "rget R s (circuit_of E (cp_provider permit) (cp_operation permit)) = Some (VCircuit st)"
    and "1 \<le> ci_open_count st" "cp_probe permit"
    and "s' = fst (record_failure E R cfg permit now True immediate th m s)"
    and "now' \<ge> now + seconds (cooldown cfg (ci_open_count st + 1))"
  shows "rget R s' (circuit_of E (cp_provider permit) (cp_operation permit)) =
      Some (VCircuit (opened cfg now (ci_open_count st + 1)))
    \<and> cooldown cfg (ci_open_count st) \<le> cooldown cfg (ci_open_count st + 1)
    \<and> snd (before_call E R cfg (cp_provider permit) (cp_operation permit) now' tok s') =
        Inr \<lparr>cp_provider = cp_provider permit, cp_operation = cp_operation permit, cp_probe = True\<rparr>"
proof -
  have l: "load_circuit (rget R s (circuit_of E (cp_provider permit) (cp_operation permit))) = Inr st"
    using assms(3) by (simp add: load_circuit_def)
  have n: "0 \<le> ci_open_count st" using assms(4) by simp
  have "snd (record_failure E R cfg permit now True immediate th m s) = Inr True"
    using circuit_runtime.opens_iff [OF assms(1) l n] assms(5) by simp
  note kv = circuit_runtime.opened_state [OF assms(1) l n this]
  have o: "rget R s' (circuit_of E (cp_provider permit) (cp_operation permit)) =
      Some (VCircuit (opened cfg now (ci_open_count st + 1)))"
    by (simp add: assms(6) kv)
  have "snd (before_call E R cfg (cp_provider permit) (cp_operation permit) now' tok s') =
        Inr \<lparr>cp_provider = cp_provider permit, cp_operation = cp_operation permit, cp_probe = True\<rparr>"
    using circuit_runtime.before_call_open(2) [OF assms(1) o] assms(7)
    by (simp add: opened_def) (simp add: assms(6) kv)
  then show ?thesis using o circuit_runtime.cooldown_mono [OF assms(1,2,4)] by simp
qed

theorem failed_probe_reopens_witness:
  "rget mem_redis (fst (record_failure example_env mem_redis default_circuit (ex_permit True)
       62000000 True False None ''f2'' ex_probing)) (circuit_of example_env ''dify'' ''run'') =
   Some (VCircuit \<lparr>ci_status = Circuit_open, ci_open_count = 2, ci_open_until = 182000000\<rparr>)"
proof -
  have "sorted (cb_cooldown_seconds default_circuit)" by (simp add: default_circuit_def)
  moreover have "rget mem_redis ex_probing
      (circuit_of example_env (cp_provider (ex_permit True)) (cp_operation (ex_permit True))) =
     Some (VCircuit \<lparr>ci_status = Circuit_open, ci_open_count = 1, ci_open_until = 61000000\<rparr>)"
    by (simp add: ex_permit_def ex_probing_state)
  ultimately show ?thesis
    using failed_probe_reopens [OF mem_circuit_runtime, of ex_probing example_env "ex_permit True"
        _ _ 62000000 False None "''f2''" 182000000]
    by (simp add: ex_permit_def opened_def cooldown_def default_circuit_def seconds_def)
qed

text \<open>
  A success closes the circuit: the next call gets an ordinary permit, no probe is
  pending, and the failures of the window are forgotten.
\<close>

theorem success_closes:
  assumes "circuit_runtime R cfg"
  shows "before_call E R cfg (cp_provider permit) (cp_operation permit) now tok (record_success E R permit s) =
      (record_success E R permit s,
       Inr \<lparr>cp_provider = cp_provider permit, cp_operation = cp_operation permit, cp_probe = False\<rparr>)
    \<and> zscore R (record_success E R permit s)
        (failures_of E (cp_provider permit) (cp_operation permit)) = Map.empty
    \<and> rget R (record_success E R permit s)
        (probe_of E (cp_provider permit) (cp_operation permit)) = None"
  using circuit_runtime.record_success_views [OF assms, of E permit s]
  by (simp add: circuit_runtime.before_call_closed [OF assms] load_circuit_def)

theorem success_closes_witness:
  "snd (before_call example_env mem_redis default_circuit ''dify'' ''run'' 5
     ''t'' (record_success example_env mem_redis (ex_permit True) ex_probing))
   = Inr \<lparr>cp_provider = ''dify'', cp_operation = ''run'', cp_probe = False\<rparr>"
  using success_closes [OF mem_circuit_runtime, of example_env "ex_permit True" 5 "''t''" ex_probing]
  by (simp add: ex_permit_def)

end
