(* ===== verification/Checkpoints.thy ===== *)
theory Checkpoints
  imports Ledger_Laws
begin

text \<open>
  Stage checkpoints of a job (app/jobs_v22/checkpoints.py). Python's None and a stored JSON
  null are the same result of \<open>get\<close>, JNull. A stage is an effectful function on the
  server that may raise; \<open>run_once\<close> runs it unless its checkpoint has a value.
\<close>

record job_checkpoints =
  ck_ttl_seconds :: int
  ck_run_generation :: "int option"

definition checkpoint_of :: "runtime_env \<Rightarrow> uuid \<Rightarrow> string \<Rightarrow> string" where
  "checkpoint_of E j key = checkpoint_key (env_sha256 E) (env_prefix E) j key"

definition checkpoint_get ::
    "runtime_env \<Rightarrow> 's server \<Rightarrow> uuid \<Rightarrow> string \<Rightarrow> 's \<Rightarrow> exn + json" where
  "checkpoint_get E R j key s =
     (case rget R s (checkpoint_of E j key) of None \<Rightarrow> Inr JNull | Some raw \<Rightarrow> decode_json raw)"

text \<open>The fenced save reads the generation and the status of the stored state, unvalidated.\<close>

definition save_body ::
    "runtime_env \<Rightarrow> 's server \<Rightarrow> job_checkpoints \<Rightarrow> int \<Rightarrow> uuid \<Rightarrow> string \<Rightarrow> json \<Rightarrow> 's \<Rightarrow> bool decision"
where
  "save_body E R ck g j key v s =
     (case rget R s (state_key (env_prefix E) j) of
        None \<Rightarrow> Return False
      | Some (VState st) \<Rightarrow>
          if js_run_generation st \<noteq> g \<or> js_status st \<in> {Succeeded, Failed} then Return False
          else if rget R s (checkpoint_of E j key) \<noteq> None then Return False
          else Commit [SetEx (checkpoint_of E j key) (VJson v) (ck_ttl_seconds ck)] [] True
      | Some _ \<Rightarrow> Fail (ValueError ''JSONDecodeError''))"

definition checkpoint_save ::
    "runtime_env \<Rightarrow> 's server \<Rightarrow> job_checkpoints \<Rightarrow> uuid \<Rightarrow> string \<Rightarrow> json \<Rightarrow> 's \<Rightarrow> 's \<times> (exn + bool)"
where
  "checkpoint_save E R ck j key v s =
     (case ck_run_generation ck of
        None \<Rightarrow>
          (case set_nx R (checkpoint_of E j key) (VJson v) (ck_ttl_seconds ck) s of
             (s', r) \<Rightarrow> (s', Inr r))
      | Some g \<Rightarrow> run_txn R (save_body E R ck g j key v) s)"

definition run_once ::
    "runtime_env \<Rightarrow> 's server \<Rightarrow> job_checkpoints \<Rightarrow> uuid \<Rightarrow> string \<Rightarrow> ('s \<Rightarrow> 's \<times> (exn + json))
     \<Rightarrow> 's \<Rightarrow> 's \<times> (exn + json)" where
  "run_once E R ck j key operation s =
     (case checkpoint_get E R j key s of
        Inl e \<Rightarrow> (s, Inl e)
      | Inr existing \<Rightarrow>
          if existing \<noteq> JNull then (s, Inr existing)
          else (case operation s of
                  (s1, Inl e) \<Rightarrow> (s1, Inl e)
                | (s1, Inr v) \<Rightarrow>
                    (case checkpoint_save E R ck j key v s1 of
                       (s2, Inl e) \<Rightarrow> (s2, Inl e)
                     | (s2, Inr saved) \<Rightarrow>
                         if saved then (s2, Inr v)
                         else (case checkpoint_get E R j key s2 of
                                 Inl e \<Rightarrow> (s2, Inl e)
                               | Inr persisted \<Rightarrow>
                                   (s2, Inr (if persisted = JNull then v else persisted))))))"

subsection \<open>What checkpoints guarantee\<close>

locale checkpoint_store = redis_laws R for R :: "('s, rval) redis" +
  fixes E :: runtime_env and ck :: job_checkpoints
  assumes ttl: "0 < ck_ttl_seconds ck"
begin

lemma checkpoint_save_cases:
  obtains
    (refused) "fst (checkpoint_save E R ck j key v s) = s" "snd (checkpoint_save E R ck j key v s) \<noteq> Inr True"
      "rget R s (checkpoint_of E j key) \<noteq> None \<or>
        (\<exists>g. ck_run_generation ck = Some g \<and>
          \<not> (\<exists>st. rget R s (state_key (env_prefix E) j) = Some (VState st) \<and> js_run_generation st = g \<and> \<not> terminal st))"
  | (saved) "rget R s (checkpoint_of E j key) = None"
      "\<And>g. ck_run_generation ck = Some g \<Longrightarrow>
        \<exists>st. rget R s (state_key (env_prefix E) j) = Some (VState st) \<and> js_run_generation st = g \<and> \<not> terminal st"
      "snd (checkpoint_save E R ck j key v s) = Inr True"
      "rget R (fst (checkpoint_save E R ck j key v s)) = (rget R s)(checkpoint_of E j key \<mapsto> VJson v)"
proof (cases "ck_run_generation ck")
  case None
  show ?thesis
  proof (cases "rget R s (checkpoint_of E j key)")
    case free: None
    have "checkpoint_save E R ck j key v s =
        (rexec R [SetEx (checkpoint_of E j key) (VJson v) (ck_ttl_seconds ck)] s, Inr True)"
      using None free by (simp add: checkpoint_save_def set_nx_def)
    with ttl None free show ?thesis by (intro saved) (simp_all add: get_exec)
  next
    case (Some w)
    then show ?thesis using None by (intro refused) (simp_all add: checkpoint_save_def set_nx_def)
  qed
next
  case (Some g)
  then have save: "checkpoint_save E R ck j key v s = run_txn R (save_body E R ck g j key v) s"
    by (simp add: checkpoint_save_def)
  show ?thesis
  proof (cases "save_body E R ck g j key v s")
    case (Fail e)
    then show ?thesis using Some
      by (intro refused)
        (auto simp: save run_txn_Fail save_body_def split: option.splits rval.splits if_splits)
  next
    case (Return r)
    then have "\<not> r" by (simp add: save_body_def split: option.splits rval.splits if_splits)
    with Return show ?thesis using Some
      by (intro refused)
        (auto simp: save run_txn_Return save_body_def terminal_def split: option.splits rval.splits if_splits)
  next
    case (Commit cs pubs r)
    then obtain st where st: "rget R s (state_key (env_prefix E) j) = Some (VState st)"
        "js_run_generation st = g" "\<not> terminal st" "rget R s (checkpoint_of E j key) = None" "r"
        "cs = [SetEx (checkpoint_of E j key) (VJson v) (ck_ttl_seconds ck)]"
      by (simp add: save_body_def terminal_def split: option.splits rval.splits if_splits)
    have ok: "list_all cmd_ok cs" using ttl by (simp add: st(6))
    show ?thesis
      using st Some run_txn_Commit [of "save_body E R ck g j key v" s, OF Commit ok]
      by (intro saved) (simp_all add: save)
  qed
qed

text \<open>The value a run of the stage reports is the stored one, when one is stored.\<close>

lemma run_once_reports_stored:
  assumes run: "run_once E R ck j key operation s = (s', Inr v)"
    and w: "rget R s' (checkpoint_of E j key) = Some (VJson w)" "w \<noteq> JNull"
  shows "v = w"
proof -
  have getw: "checkpoint_get E R j key s' = Inr w" by (simp add: checkpoint_get_def w decode_json_def)
  obtain existing where ex: "checkpoint_get E R j key s = Inr existing"
    using run by (auto simp: run_once_def split: sum.splits)
  show ?thesis
  proof (cases "existing = JNull")
    case False
    then have "s' = s" "v = existing" using run by (simp_all add: run_once_def ex)
    then show ?thesis using ex getw by simp
  next
    case True
    then obtain s1 r where op: "operation s = (s1, Inr r)"
      using run by (auto simp: run_once_def ex split: prod.splits sum.splits)
    show ?thesis
    proof (rule checkpoint_save_cases [of j key r s1])
      assume "snd (checkpoint_save E R ck j key r s1) = Inr True"
        "rget R (fst (checkpoint_save E R ck j key r s1)) = (rget R s1)(checkpoint_of E j key \<mapsto> VJson r)"
      then show ?thesis using run w True
        by (cases "checkpoint_save E R ck j key r s1") (auto simp: run_once_def ex op)
    next
      assume "snd (checkpoint_save E R ck j key r s1) \<noteq> Inr True"
      then show ?thesis using run getw w(2) True
        by (cases "checkpoint_save E R ck j key r s1")
          (auto simp: run_once_def ex op split: sum.splits if_splits)
    qed
  qed
qed

lemma run_once_stored:
  assumes "rget R t (checkpoint_of E j key) = Some (VJson w)" "w \<noteq> JNull"
  shows "run_once E R ck' j key operation t = (t, Inr w)"
  using assms by (simp add: run_once_def checkpoint_get_def decode_json_def)

end

subsection \<open>A concrete checkpoint\<close>

definition ex_checkpoints :: job_checkpoints where
  "ex_checkpoints = \<lparr>ck_ttl_seconds = 600, ck_run_generation = Some 1\<rparr>"

definition ex_stage :: "rval mem \<Rightarrow> rval mem \<times> (exn + json)" where
  "ex_stage s = (s, Inr (JInt 42))"

definition ex_checkpointed :: "rval mem" where
  "ex_checkpointed = fst (run_once example_env mem_redis ex_checkpoints 1 ''site'' ex_stage ex_running)"

interpretation mem_checkpoints: checkpoint_store mem_redis example_env ex_checkpoints
  by unfold_locales (simp add: ex_checkpoints_def)

lemma mem_checkpoint_store [simp]: "checkpoint_store mem_redis ex_checkpoints"
  by (fact mem_checkpoints.checkpoint_store_axioms)

subsection \<open>Properties\<close>

text \<open>
  (C34) A save reports True exactly when the checkpoint is absent and, where the checkpoints
  are fenced by a generation, the job is stored under that generation and not terminal;
  then the checkpoint holds the value and no other key changes. Otherwise it changes
  nothing. Checkpoints without a generation, those of competitor discovery, are only
  protected against being overwritten.
\<close>

theorem fenced_save:
  assumes "checkpoint_store R ck"
  shows "(snd (checkpoint_save E R ck j key v s) = Inr True \<longleftrightarrow>
      rget R s (checkpoint_of E j key) = None
      \<and> (case ck_run_generation ck of
           None \<Rightarrow> True
         | Some g \<Rightarrow> \<exists>st. rget R s (state_key (env_prefix E) j) = Some (VState st)
             \<and> js_run_generation st = g \<and> \<not> terminal st))
    \<and> (if snd (checkpoint_save E R ck j key v s) = Inr True
       then rget R (fst (checkpoint_save E R ck j key v s)) = (rget R s)(checkpoint_of E j key \<mapsto> VJson v)
       else fst (checkpoint_save E R ck j key v s) = s)"
  by (rule checkpoint_store.checkpoint_save_cases [OF assms, of E j key v s])
    (auto split: option.splits)

theorem fenced_save_witness:
  "snd (checkpoint_save example_env mem_redis ex_checkpoints 1 ''site'' (JInt 1) ex_running) = Inr True
   \<and> fst (checkpoint_save example_env mem_redis ex_checkpoints 1 ''site'' (JInt 1) ex_taken) = ex_taken"
proof (rule conjI)
  have "case rget mem_redis ex_running (state_key (env_prefix example_env) 1) of
      Some (VState st) \<Rightarrow> js_run_generation st = 1 \<and> \<not> terminal st | _ \<Rightarrow> False" by code_simp
  moreover have "rget mem_redis ex_running (checkpoint_of example_env 1 ''site'') = None" by code_simp
  ultimately show "snd (checkpoint_save example_env mem_redis ex_checkpoints 1 ''site'' (JInt 1) ex_running)
      = Inr True"
    using fenced_save [OF mem_checkpoint_store, of example_env 1 "''site''" "JInt 1" ex_running]
    by (auto simp: ex_checkpoints_def split: option.splits rval.splits)
  have "snd (checkpoint_save example_env mem_redis ex_checkpoints 1 ''site'' (JInt 1) ex_taken) \<noteq> Inr True"
    by code_simp
  then show "fst (checkpoint_save example_env mem_redis ex_checkpoints 1 ''site'' (JInt 1) ex_taken) = ex_taken"
    using fenced_save [OF mem_checkpoint_store, of example_env 1 "''site''" "JInt 1" ex_taken] by auto
qed

text \<open>
  A stage whose checkpoint has a value is never run again: once a run returned and
  its checkpoint holds a value that is not null, the returned value is the stored one, and
  every later run, of whatever stage function, returns it without calling the function.
\<close>

theorem stage_runs_once:
  assumes "checkpoint_store R ck"
    and "run_once E R ck j key operation s = (s', Inr v)"
    and "rget R s' (checkpoint_of E j key) = Some (VJson w)" "w \<noteq> JNull"
    and "rget R t (checkpoint_of E j key) = rget R s' (checkpoint_of E j key)"
  shows "v = w \<and> run_once E R ck' j key operation' t = (t, Inr v)"
  using checkpoint_store.run_once_reports_stored [OF assms(1-4)]
    checkpoint_store.run_once_stored [OF assms(1), of t E j key w ck' operation'] assms(3-5) by simp

theorem stage_runs_once_witness:
  "run_once example_env mem_redis ex_checkpoints 1 ''site'' (\<lambda>s. (s, Inl TypeError)) ex_checkpointed
   = (ex_checkpointed, Inr (JInt 42))"
proof -
  have "run_once example_env mem_redis ex_checkpoints 1 ''site'' ex_stage ex_running
      = (ex_checkpointed, Inr (JInt 42))"
    unfolding ex_checkpointed_def prod_eq_iff by (simp, code_simp)
  moreover have "rget mem_redis ex_checkpointed (checkpoint_of example_env 1 ''site'') = Some (VJson (JInt 42))"
    by code_simp
  ultimately show ?thesis
    using stage_runs_once [OF mem_checkpoint_store, of example_env 1 "''site''" ex_stage
        ex_running ex_checkpointed "JInt 42" "JInt 42" ex_checkpointed ex_checkpoints "\<lambda>s. (s, Inl TypeError)"]
    by (simp add: ex_checkpoints_def)
qed

end
