(* ===== verification/Effects.thy ===== *)
theory Effects
  imports Job_Lifecycle
begin

text \<open>
  Programs over the server: an operation takes the server's state and returns the new state
  with a result or an exception. The combinators are the sequencing, \<open>try\<close>, loops and
  reads of the source's asynchronous functions, and the lemmas lift a fact about every
  operation (it is a run of steps, it keeps an invariant) to the programs made of them.
\<close>

type_synonym ('s, 'a) program = "'s \<Rightarrow> 's \<times> (exn + 'a)"

definition ret :: "'a \<Rightarrow> ('s, 'a) program" where
  "ret a = (\<lambda>s. (s, Inr a))"

definition throw :: "exn \<Rightarrow> ('s, 'a) program" where
  "throw e = (\<lambda>s. (s, Inl e))"

text \<open>\<open>x = await p; f x\<close>\<close>

definition andThen :: "('s, 'a) program \<Rightarrow> ('a \<Rightarrow> ('s, 'b) program) \<Rightarrow> ('s, 'b) program" where
  "andThen p f = (\<lambda>s. case p s of (s', Inl e) \<Rightarrow> (s', Inl e) | (s', Inr a) \<Rightarrow> f a s')"

text \<open>\<open>try: p except e: h e\<close>, where \<open>h\<close> decides by the exception (it may raise it again)\<close>

definition handle :: "('s, 'a) program \<Rightarrow> (exn \<Rightarrow> ('s, 'a) program) \<Rightarrow> ('s, 'a) program" where
  "handle p h = (\<lambda>s. case p s of (s', Inl e) \<Rightarrow> h e s' | (s', Inr a) \<Rightarrow> (s', Inr a))"

text \<open>\<open>try: p except TimeoutError: \<dots> except Exception: \<dots>\<close>: the outcome of \<open>p\<close> as a value.\<close>

definition outcome :: "('s, 'a) program \<Rightarrow> ('s, exn + 'a) program" where
  "outcome p = (\<lambda>s. case p s of (s', r) \<Rightarrow> (s', Inr r))"

text \<open>\<open>try: p finally: q\<close>; an exception of \<open>q\<close> replaces that of \<open>p\<close>.\<close>

definition finally_do :: "('s, 'a) program \<Rightarrow> ('s, unit) program \<Rightarrow> ('s, 'a) program" where
  "finally_do p q =
     (\<lambda>s. case p s of (s', r) \<Rightarrow> (case q s' of (s'', Inl e) \<Rightarrow> (s'', Inl e) | (s'', Inr _) \<Rightarrow> (s'', r)))"

text \<open>A read: the state stays as it is.\<close>

definition reads :: "('s \<Rightarrow> exn + 'a) \<Rightarrow> ('s, 'a) program" where
  "reads f = (\<lambda>s. (s, f s))"

text \<open>An operation that cannot raise.\<close>

definition always :: "('s \<Rightarrow> 's \<times> 'a) \<Rightarrow> ('s, 'a) program" where
  "always f = (\<lambda>s. case f s of (s', a) \<Rightarrow> (s', Inr a))"

text \<open>\<open>for x in xs: p x\<close>\<close>

fun forEach :: "'a list \<Rightarrow> ('a \<Rightarrow> ('s, unit) program) \<Rightarrow> ('s, unit) program" where
  "forEach [] p = ret ()"
| "forEach (x # xs) p = andThen (p x) (\<lambda>_. forEach xs p)"

lemmas program_defs = ret_def throw_def andThen_def handle_def reads_def always_def

subsection \<open>Runs\<close>

text \<open>
  \<open>runs r p\<close>: from every state, whatever happens, \<open>p\<close> ends in a state that steps of \<open>r\<close>
  reach. \<open>p\<close> may involve other clients of the server.
\<close>

definition runs :: "('s \<Rightarrow> 's \<Rightarrow> bool) \<Rightarrow> ('s, 'a) program \<Rightarrow> bool" where
  "runs r p \<longleftrightarrow> (\<forall>s. r\<^sup>*\<^sup>* s (fst (p s)))"

lemma runsD: "runs r p \<Longrightarrow> r\<^sup>*\<^sup>* s (fst (p s))"
  by (simp add: runs_def)

named_theorems runs_intros \<open>programs that are runs, by their structure\<close>

lemma runs_ret [runs_intros]: "runs r (ret a)"
  by (simp add: runs_def ret_def)

lemma runs_throw [runs_intros]: "runs r (throw e)"
  by (simp add: runs_def throw_def)

lemma runs_reads [runs_intros]: "runs r (reads f)"
  by (simp add: runs_def reads_def)

lemma runs_always: "(\<And>s. r\<^sup>*\<^sup>* s (fst (f s))) \<Longrightarrow> runs r (always f)"
  by (simp add: runs_def always_def case_prod_beta)

lemma runs_step: "(\<And>s. r s (fst (p s))) \<Longrightarrow> runs r p"
  by (simp add: runs_def r_into_rtranclp)

text \<open>What follows may rely on the result it is given.\<close>

lemma runs_andThen_result:
  assumes "runs r p" "\<And>s a. snd (p s) = Inr a \<Longrightarrow> runs r (f a)"
  shows "runs r (andThen p f)"
  unfolding runs_def
proof
  fix s
  have p: "r\<^sup>*\<^sup>* s (fst (p s))" using assms(1) by (rule runsD)
  show "r\<^sup>*\<^sup>* s (fst (andThen p f s))"
  proof (cases "snd (p s)")
    case (Inl e)
    then show ?thesis using p by (simp add: andThen_def case_prod_beta)
  next
    case (Inr a)
    then have "fst (andThen p f s) = fst (f a (fst (p s)))"
      by (simp add: andThen_def case_prod_beta)
    then show ?thesis using rtranclp_trans [OF p runsD [OF assms(2) [OF Inr]]] by simp
  qed
qed

lemma runs_andThen [runs_intros]: "runs r p \<Longrightarrow> (\<And>a. runs r (f a)) \<Longrightarrow> runs r (andThen p f)"
  by (rule runs_andThen_result)

lemma runs_handle [runs_intros]:
  assumes "runs r p" "\<And>e. runs r (h e)"
  shows "runs r (handle p h)"
  unfolding runs_def
proof
  fix s
  have p: "r\<^sup>*\<^sup>* s (fst (p s))" using assms(1) by (rule runsD)
  show "r\<^sup>*\<^sup>* s (fst (handle p h s))"
  proof (cases "snd (p s)")
    case (Inr a)
    then show ?thesis using p by (simp add: handle_def case_prod_beta)
  next
    case (Inl e)
    then have "fst (handle p h s) = fst (h e (fst (p s)))"
      by (simp add: handle_def case_prod_beta)
    then show ?thesis using rtranclp_trans [OF p runsD [OF assms(2)]] by simp
  qed
qed

lemma runs_outcome [runs_intros]: "runs r p \<Longrightarrow> runs r (outcome p)"
  by (simp add: runs_def outcome_def case_prod_beta)

lemma finally_do_views:
  "fst (finally_do p q s) = fst (q (fst (p s)))"
  "snd (q (fst (p s))) = Inr u \<Longrightarrow> snd (finally_do p q s) = snd (p s)"
  by (auto simp: finally_do_def split: prod.splits sum.splits)

lemma runs_finally_do [runs_intros]: "runs r p \<Longrightarrow> runs r q \<Longrightarrow> runs r (finally_do p q)"
  by (auto simp: runs_def finally_do_views intro: rtranclp_trans)

lemma runs_forEach [runs_intros]: "(\<And>x. runs r (p x)) \<Longrightarrow> runs r (forEach xs p)"
  by (induction xs) (auto intro: runs_intros)

lemma runs_if [runs_intros]: "runs r p \<Longrightarrow> runs r q \<Longrightarrow> runs r (if b then p else q)"
  by simp

lemma runs_case_option [runs_intros]:
  "(\<And>a. v = Some a \<Longrightarrow> runs r (f a)) \<Longrightarrow> runs r p \<Longrightarrow>
   runs r (case v of None \<Rightarrow> p | Some a \<Rightarrow> f a)"
  by (cases v) auto

lemma runs_case_prod [runs_intros]: "(\<And>a b. runs r (f a b)) \<Longrightarrow> runs r (case v of (a, b) \<Rightarrow> f a b)"
  by (cases v) auto

subsection \<open>Agreement\<close>

text \<open>
  Two programs that start alike and continue alike from the states the first part can
  leave are equal: the way to say that a collaborator is called only in certain states.
\<close>

lemma andThen_cong:
  assumes "p s = p' s" "\<And>a. snd (p s) = Inr a \<Longrightarrow> f a (fst (p s)) = f' a (fst (p s))"
  shows "andThen p f s = andThen p' f' s"
  using assms by (auto simp: andThen_def split: prod.splits sum.splits)

lemma try_call_cong:
  "p s = p' s \<Longrightarrow> andThen (handle (andThen p k) h) f s = andThen (handle (andThen p' k) h) f s"
  by (simp add: andThen_def handle_def)

lemma andThen_Inr: "p s = (s', Inr a) \<Longrightarrow> andThen p f s = f a s'"
  by (simp add: andThen_def)

lemma andThen_snd: "snd (andThen p f s) =
    (case snd (p s) of Inl e \<Rightarrow> Inl e | Inr a \<Rightarrow> snd (f a (fst (p s))))"
  by (simp add: andThen_def split: prod.splits sum.splits)

lemma andThen_fst: "fst (andThen p f s) =
    (case snd (p s) of Inl e \<Rightarrow> fst (p s) | Inr a \<Rightarrow> fst (f a (fst (p s))))"
  by (simp add: andThen_def split: prod.splits sum.splits)

lemma andThen_reads [simp]:
  "andThen (reads f) g s = (case f s of Inl e \<Rightarrow> (s, Inl e) | Inr a \<Rightarrow> g a s)"
  by (simp add: andThen_def reads_def)

lemma andThen_ret [simp]: "andThen (ret a) f = f a"
  by (simp add: andThen_def ret_def)

lemma andThen_throw [simp]: "andThen (throw e) f = throw e"
  by (simp add: andThen_def throw_def)

lemma ret_views [simp]: "fst (ret a s) = s" "snd (ret a s) = Inr a"
  by (simp_all add: ret_def)

lemma handle_ret [simp]: "handle (ret a) h = ret a"
  by (simp add: handle_def ret_def)

lemma handle_throw [simp]: "handle (throw e) h = h e"
  by (simp add: handle_def throw_def)

subsection \<open>The store's operations as programs\<close>

context job_runtime
begin

lemma runs_store [runs_intros]:
  "runs (store_step E R) (transition E R j a)"
  "runs (store_step E R) (take_over_stale E R j g now)"
  "runs (store_step E R) (mark_callback_synced E R j rv)"
  "runs (store_step E R) (retry_failed E R j now)"
  "runs (store_step E R) (discard_pending_recovery E R j g)"
  "runs (store_step E R) (discard_missing_job_indexes E R j)"
  "runs (store_step E R) (discard_missing_job_recovery E R j g)"
  "runs (store_step E R) (mark_recovery_enqueued E R j g now)"
  "runs (store_step E R) (release_lease E R j g tok)"
  by (intro runs_step store_step.intros)+

lemma runs_listing [runs_intros]:
  "runs (store_step E R) (always (list_pending_recoveries E R n))"
  "runs (store_step E R) (always (list_pending_callbacks E R n))"
  "runs (store_step E R) (always (list_stale_jobs E R cutoff n))"
  "runs (store_step E R) (always (pending_recovery_generation E R j))"
  by (intro runs_always r_into_rtranclp store_step.intros)+

lemma runs_lease [runs_intros]:
  "0 < ttl \<Longrightarrow> runs (store_step E R) (always (acquire_lease E R j g tok ttl))"
  "0 < ttl \<Longrightarrow> runs (store_step E R) (refresh_lease E R j g tok ttl)"
  by (rule runs_always, rule r_into_rtranclp, rule step_acquire, assumption)
    (rule runs_step, rule step_refresh)

lemma runs_heartbeat [runs_intros]: "runs (store_step E R) (heartbeat E R j g now)"
proof -
  have "(store_step E R)\<^sup>*\<^sup>* s (fst (heartbeat E R j g now s))" for s
    by (auto simp: heartbeat_def intro!: r_into_rtranclp step_transition split: sum.splits)
  then show ?thesis by (simp add: runs_def)
qed

end


end
