(* ===== verification/Callbacks.thy ===== *)
theory Callbacks
  imports Effects
begin

text \<open>
  Delivery of job snapshots to the web application (app/jobs_v22/callbacks.py). HMAC, the
  canonical JSON text of an event and the HTTP client are parameters; \<open>post\<close> acts on the
  server's state because other clients run while the request is in flight. The locales
  chain the contracts: a transport during which only steps of the store happen gives a
  sender, a sender gives a synchronizer.
\<close>

subsection \<open>Events\<close>

definition event_id :: "job_state \<Rightarrow> string" where
  "event_id st = uuid_str (js_job_id st) @ '':'' @ int_str (js_revision st)"

definition callback_event :: "job_state \<Rightarrow> job_callback_event" where
  "callback_event st =
     \<lparr>ev_event_id = event_id st, ev_job_id = js_job_id st, ev_case_id = js_case_id st,
      ev_revision = js_revision st, ev_status = js_status st, ev_stage = js_stage st,
      ev_progress = js_progress st, ev_message = js_message st,
      ev_attempt_count = js_attempt_count st, ev_run_generation = js_run_generation st,
      ev_deadline_at = js_deadline_at st, ev_heartbeat_at = js_heartbeat_at st,
      ev_completed_at = js_completed_at st, ev_error = js_error st,
      ev_cost_counters = js_cost_counters st, ev_occurred_at = js_updated_at st\<rparr>"

text \<open>The constraints of \<open>JobCallbackEvent\<close>; the texts of a state are stripped already.\<close>

definition event_valid :: "job_callback_event \<Rightarrow> bool" where
  "event_valid ev \<longleftrightarrow>
     text_len 1 200 (ev_event_id ev) \<and> 1 \<le> ev_revision ev
   \<and> 0 \<le> ev_progress ev \<and> ev_progress ev \<le> 100 \<and> text_len 1 500 (ev_message ev)
   \<and> 0 \<le> ev_attempt_count ev \<and> 1 \<le> ev_run_generation ev
   \<and> (case ev_error ev of None \<Rightarrow> True | Some e \<Rightarrow> validate_error_state e = Some e)
   \<and> validate_cost_counters_snapshot (ev_cost_counters ev) = Inr (ev_cost_counters ev)"

definition build_callback_event :: "job_state \<Rightarrow> exn + job_callback_event" where
  "build_callback_event st =
     (if event_valid (callback_event st) then Inr (callback_event st) else Inl ValidationError)"

subsection \<open>Signing and sending\<close>

record callback_client =
  cc_url :: string
  cc_secret :: string
  cc_hmac_sha256 :: "string \<Rightarrow> string \<Rightarrow> string"       \<comment> \<open>hex digest of key and message\<close>
  cc_event_bytes :: "job_callback_event \<Rightarrow> string"

definition SIGNATURE_VERSION :: string where "SIGNATURE_VERSION = ''v1''"

definition sign_callback_body :: "callback_client \<Rightarrow> string \<Rightarrow> int \<Rightarrow> string \<Rightarrow> string" where
  "sign_callback_body C secret timestamp body =
     ''sha256='' @ cc_hmac_sha256 C secret
       (SIGNATURE_VERSION @ ''.'' @ int_str timestamp @ ''.'' @ body)"

record http_request =
  rq_url :: string
  rq_headers :: "(string \<times> string) list"
  rq_content :: string

definition callback_request :: "callback_client \<Rightarrow> int \<Rightarrow> job_callback_event \<Rightarrow> http_request" where
  "callback_request C timestamp ev =
     (let body = cc_event_bytes C ev
      in \<lparr>rq_url = cc_url C,
          rq_headers =
            [(''Content-Type'', ''application/json''),
             (''X-SearchTrust-Signature-Version'', SIGNATURE_VERSION),
             (''X-SearchTrust-Timestamp'', int_str timestamp),
             (''X-SearchTrust-Event-ID'', ev_event_id ev),
             (''X-SearchTrust-Signature'', sign_callback_body C (cc_secret C) timestamp body)],
          rq_content = body\<rparr>)"

text \<open>The transport errors: \<open>httpx.HTTPError\<close>.\<close>

definition is_http_error :: "exn \<Rightarrow> bool" where
  "is_http_error e = (case e of HttpTimeoutException \<Rightarrow> True | HttpNetworkError \<Rightarrow> True
     | HttpStatusError _ \<Rightarrow> True | _ \<Rightarrow> False)"

definition send ::
    "callback_client \<Rightarrow> (http_request \<Rightarrow> ('s, int) program) \<Rightarrow> int \<Rightarrow> job_state \<Rightarrow> ('s, bool) program"
where
  "send C post timestamp st =
     (case build_callback_event st of
        Inl e \<Rightarrow> throw e
      | Inr ev \<Rightarrow>
          handle
            (andThen (post (callback_request C timestamp ev))
               (\<lambda>status. ret (200 \<le> status \<and> status < 300)))
            (\<lambda>e. if is_http_error e then ret False else throw e))"

subsection \<open>Synchronizing a job\<close>

definition sync ::
    "runtime_env \<Rightarrow> 's server \<Rightarrow> (job_state \<Rightarrow> ('s, bool) program) \<Rightarrow> uuid \<Rightarrow> ('s, bool) program" where
  "sync E R sender j =
     andThen (reads (\<lambda>s. require_state E R s j)) (\<lambda>state.
       if js_revision state \<le> js_callback_synced_revision state then ret True
       else andThen (sender state) (\<lambda>sent.
              if \<not> sent then ret False
              else andThen (mark_callback_synced E R j (js_revision state)) (\<lambda>_. ret True)))"

subsection \<open>Contracts\<close>

text \<open>The transport: while a request is in flight other clients take steps of the store.\<close>

locale callback_transport = job_runtime R E for R :: "('s, rval) redis" and E :: runtime_env +
  fixes post :: "http_request \<Rightarrow> ('s, int) program"
  assumes runs_post: "runs (store_step E R) (post rq)"

locale callback_sender = job_runtime R E for R :: "('s, rval) redis" and E :: runtime_env +
  fixes sender :: "job_state \<Rightarrow> ('s, bool) program"
  assumes runs_sender: "runs (store_step E R) (sender st)"

text \<open>
  What the reconciler relies on: a synchronization is a run of the store, and when it
  reports True the revision it saw first is marked as delivered.
\<close>

locale state_synchronizer = job_runtime R E for R :: "('s, rval) redis" and E :: runtime_env +
  fixes synchronize :: "uuid \<Rightarrow> ('s, bool) program"
  assumes runs_synchronize: "runs (store_step E R) (synchronize j)"
    and synchronized: "store_inv E R s \<Longrightarrow> get_state E R s j = Inr (Some st) \<Longrightarrow>
      snd (synchronize j s) = Inr True \<Longrightarrow>
      \<exists>st'. get_state E R (fst (synchronize j s)) j = Inr (Some st')
        \<and> js_revision st \<le> js_callback_synced_revision st'"

sublocale callback_transport \<subseteq> client: callback_sender R E "send C post timestamp"
proof
  fix st
  show "runs (store_step E R) (send C post timestamp st)"
    unfolding send_def
    by (cases "build_callback_event st") (auto intro!: runs_intros runs_post)
qed

context callback_sender
begin

lemma runs_sync: "runs (store_step E R) (sync E R sender j)"
  unfolding sync_def by (intro runs_intros runs_sender)

lemma sync_True:
  assumes inv: "store_inv E R s" and st: "get_state E R s j = Inr (Some st)"
    and t: "snd (sync E R sender j s) = Inr True"
  shows "\<exists>st'. get_state E R (fst (sync E R sender j s)) j = Inr (Some st')
        \<and> js_revision st \<le> js_callback_synced_revision st'"
proof (cases "js_revision st \<le> js_callback_synced_revision st")
  case True
  then show ?thesis using st by (simp add: sync_def require_state_def ret_def)
next
  case False
  let ?s1 = "fst (sender st s)"
  have inv1: "store_inv E R ?s1" by (rule run_inv [OF runsD [OF runs_sender] inv])
  have sent: "snd (sender st s) = Inr True"
    using t st False
    by (auto simp: sync_def require_state_def andThen_snd ret_def split: sum.splits if_splits)
  then have eq: "sync E R sender j s =
      andThen (mark_callback_synced E R j (js_revision st)) (\<lambda>_. ret True) ?s1"
    using st False by (simp add: sync_def require_state_def andThen_def [of "sender st"] case_prod_beta)
  have "abs_job E R s j = Some (abs_state st)"
    using store_invD(1) [OF inv st] by (rule abs_job_write)
  from run_monotone [OF runsD [OF runs_sender] inv this] obtain b where
    b: "abs_job E R ?s1 j = Some b" "js_revision st \<le> ab_revision b" by auto
  then obtain st1 where st1: "get_state E R ?s1 j = Inr (Some st1)" "js_revision st \<le> js_revision st1"
    by (auto simp: abs_job_Some_iff [OF inv1])
  show ?thesis
  proof (rule mark_callback_synced_elim [of j "js_revision st" ?s1])
    assume "fst (mark_callback_synced E R j (js_revision st) ?s1) = ?s1"
      and no: "\<And>r. snd (mark_callback_synced E R j (js_revision st) ?s1) \<noteq> Inr r"
    then show ?thesis using t by (auto simp: eq andThen_snd split: sum.splits)
  next
    fix current :: job_state and synced
    let ?nxt = "current\<lparr>js_callback_synced_revision := synced\<rparr>"
    assume cur: "get_state E R ?s1 j = Inr (Some current)"
      and syn: "synced = min (max (js_revision st) (js_callback_synced_revision current)) (js_revision current)"
      and r: "snd (mark_callback_synced E R j (js_revision st) ?s1) = Inr ?nxt"
      and kv: "rget R (fst (mark_callback_synced E R j (js_revision st) ?s1)) =
        (rget R ?s1)(state_key (env_prefix E) j \<mapsto> VState ?nxt)"
    have fst: "fst (sync E R sender j s) = fst (mark_callback_synced E R j (js_revision st) ?s1)"
      using r by (simp add: eq andThen_fst ret_def)
    have inv2: "store_inv E R (fst (mark_callback_synced E R j (js_revision st) ?s1))"
      by (rule mark_callback_synced_inv [OF inv1])
    have "get_state E R (fst (sync E R sender j s)) j = Inr (Some ?nxt)"
      by (simp add: fst store_inv_get_state [OF inv2] kv)
    moreover have "js_revision st \<le> synced" using st1 cur by (simp add: syn)
    ultimately show ?thesis by simp
  qed
qed

end

sublocale callback_sender \<subseteq> synchronizer: state_synchronizer R E "sync E R sender"
  by unfold_locales (rule runs_sync, rule sync_True)

subsection \<open>A valid state has a valid event\<close>

lemma length_nat_str: "n < 10 ^ k \<Longrightarrow> 1 \<le> k \<Longrightarrow> length (nat_str n) \<le> k"
proof (induction k arbitrary: n)
  case (Suc k)
  show ?case
  proof (cases "n < 10")
    case True
    then show ?thesis by (subst nat_str.simps) simp
  next
    case False
    then have "1 \<le> k" using Suc.prems(1) by (cases k) auto
    moreover have "n div 10 < 10 ^ k" using Suc.prems(1) by (simp add: div_less_iff_less_mult mult.commute)
    ultimately show ?thesis using Suc.IH [of "n div 10"] False by (subst nat_str.simps) simp
  qed
qed simp

lemma valid_state_event:
  assumes "valid_state st" "js_revision st < 10 ^ 160"
  shows "event_valid (callback_event st)"
proof -
  have f: "fields_ok st" by (rule valid_state_fields(1) [OF assms(1)])
  have val: "validate_job_state st = Inr st" using assms(1) by (simp add: valid_state_def)
  note parts = validate_job_state_parts [OF val]
  have "nat (js_revision st) < 10 ^ 160"
    using assms(2) by (simp add: nat_less_iff)
  then have "length (nat_str (nat (js_revision st))) \<le> 160"
    by (rule length_nat_str) simp
  then have "text_len 1 200 (event_id st)"
    using f by (simp add: text_len_def event_id_def int_str_def fields_ok_def)
  then show ?thesis
    using f parts(3,4)
    by (auto simp: event_valid_def callback_event_def fields_ok_def split: option.splits)
qed

subsection \<open>A transport in which nothing else happens\<close>

definition ex_client :: callback_client where
  "ex_client = \<lparr>cc_url = ''https://example.test/cb'', cc_secret = ''s'',
     cc_hmac_sha256 = (\<lambda>k m. replicate 64 CHR ''0''), cc_event_bytes = (\<lambda>_. ''{}'')\<rparr>"

definition ex_post :: "int \<Rightarrow> http_request \<Rightarrow> ('s, int) program" where
  "ex_post status rq = ret status"

interpretation mem_transport: callback_transport mem_redis example_env "ex_post status"
  by unfold_locales (simp add: ex_post_def runs_ret)

lemma mem_callback_transport [simp]: "callback_transport mem_redis example_env (ex_post status)"
  by (fact mem_transport.callback_transport_axioms)

end
