(* ===== verification/Capability_Terminal.thy ===== *)
theory Capability_Terminal
  imports Callbacks
begin

text \<open>
  Terminal decisions of capability jobs (app/jobs_v22/capability_terminal.py): the SQL
  function is asked before a failure is written. The RPC client and the pydantic parsing
  of the request envelope and of a completed report are parameters of the coordinator.
\<close>

record capability_task =
  ct_case_id :: uuid
  ct_manifest_id :: uuid
  ct_input_checksum :: string
  ct_report_type :: string

record completed_report =
  cr_id :: uuid
  cr_case_id :: uuid
  cr_manifest_id :: uuid
  cr_input_checksum :: string
  cr_report_type :: string
  cr_document :: json

record 's capability_coordinator =
  cap_parse_envelope :: "json \<Rightarrow> exn + capability_task"
  cap_parse_report :: "json \<Rightarrow> exn + completed_report"
  cap_rpc :: "string \<Rightarrow> json \<Rightarrow> ('s, json) program"
  cap_invalid :: exn

datatype terminal_decision =
  Decided_active | Decided_failed | Decided_report completed_report

text \<open>The arguments of finalize_v22_capability_failure.\<close>

definition decide_arguments :: "job_state \<Rightarrow> capability_task \<Rightarrow> job_error_state \<Rightarrow> bool \<Rightarrow> json" where
  "decide_arguments st task err finish =
     JObj [(''p_job_id'', JStr (uuid_str (js_job_id st))),
           (''p_case_id'', JStr (uuid_str (ct_case_id task))),
           (''p_manifest_id'', JStr (uuid_str (ct_manifest_id task))),
           (''p_input_checksum'', JStr (ct_input_checksum task)),
           (''p_run_generation'', JInt (js_run_generation st)),
           (''p_error_code'', JStr (er_error_code err)),
           (''p_user_message'', JStr (er_user_message err)),
           (''p_attempt_count'', JInt (min (max (js_attempt_count st) 1) 10)),
           (''p_fail'', JBool finish)]"

definition report_matches :: "job_state \<Rightarrow> capability_task \<Rightarrow> completed_report \<Rightarrow> bool" where
  "report_matches st task r \<longleftrightarrow>
     cr_id r = js_job_id st \<and> cr_case_id r = js_case_id st \<and> cr_manifest_id r = ct_manifest_id task
   \<and> cr_input_checksum r = ct_input_checksum task \<and> cr_report_type r = ct_report_type task"

text \<open>\<open>except (ValueError, TypeError, AttributeError)\<close>; pydantic's error is a ValueError.\<close>

definition is_value_error :: "exn \<Rightarrow> bool" where
  "is_value_error e = (case e of ValueError _ \<Rightarrow> True | ValidationError \<Rightarrow> True | TypeError \<Rightarrow> True
     | OtherException m \<Rightarrow> m = ''AttributeError'' | _ \<Rightarrow> False)"

fun json_keys :: "json \<Rightarrow> string list" where
  "json_keys (JObj kvs) = map fst kvs"
| "json_keys _ = []"

definition decide_result ::
    "'s capability_coordinator \<Rightarrow> job_state \<Rightarrow> capability_task \<Rightarrow> bool \<Rightarrow> json \<Rightarrow> exn + terminal_decision"
where
  "decide_result C st task finish raw =
     (if \<not> is_jobj raw \<or> set (json_keys raw) \<noteq> {''status'', ''completed_report''} then Inl (cap_invalid C)
      else
        (case jget ''status'' raw of
           Some (JArr _) \<Rightarrow> Inl TypeError
         | Some (JObj _) \<Rightarrow> Inl TypeError
         | Some (JStr status) \<Rightarrow>
             if status = ''succeeded''
             then (case cap_parse_report C (the (jget ''completed_report'' raw)) of
                     Inl e \<Rightarrow> Inl (if is_value_error e then cap_invalid C else e)
                   | Inr r \<Rightarrow> if report_matches st task r then Inr (Decided_report r) else Inl (cap_invalid C))
             else if status \<noteq> ''failed'' \<and> status \<noteq> ''active'' then Inl (cap_invalid C)
             else if jget ''completed_report'' raw \<noteq> Some JNull \<or> (finish \<and> status = ''active'')
             then Inl (cap_invalid C)
             else Inr (if status = ''active'' then Decided_active else Decided_failed)
         | _ \<Rightarrow> Inl (cap_invalid C)))"

definition decide ::
    "'s capability_coordinator \<Rightarrow> job_state \<Rightarrow> capability_task \<Rightarrow> job_error_state \<Rightarrow> bool
     \<Rightarrow> ('s, terminal_decision) program" where
  "decide C st task err finish =
     andThen (cap_rpc C ''finalize_v22_capability_failure'' (decide_arguments st task err finish)) (\<lambda>raw.
       case decide_result C st task finish raw of Inl e \<Rightarrow> throw e | Inr d \<Rightarrow> ret d)"

definition capability_schema :: json where
  "capability_schema = JStr ''v22_capability_request_envelope_v1''"

definition is_capability_request :: "json option \<Rightarrow> bool" where
  "is_capability_request request =
     (case request of None \<Rightarrow> False
      | Some v \<Rightarrow> jlen v \<noteq> 0 \<and> jget ''schema_version'' v = Some capability_schema)"

definition restore_running_args :: "job_state \<Rightarrow> timestamp \<Rightarrow> transition_args" where
  "restore_running_args st now =
     (transition_call Running St_collecting_site (js_progress st)
        ''Restoring the completed diagnosis.'' now)
     \<lparr>ta_expected_generation := Some (js_run_generation st)\<rparr>"

definition restore_succeeded_args ::
    "job_state \<Rightarrow> completed_report \<Rightarrow> timestamp \<Rightarrow> counters option \<Rightarrow> transition_args" where
  "restore_succeeded_args st r now cc =
     (transition_call Succeeded St_completed 100 ''Analysis complete.'' now)
     \<lparr>ta_report := Some (CapabilityReport (cr_id r) (cr_case_id r) (cr_document r)),
      ta_cost_counters := cc, ta_expected_generation := Some (js_run_generation st)\<rparr>"

definition decided_failed_args ::
    "job_state \<Rightarrow> job_error_state \<Rightarrow> timestamp \<Rightarrow> counters option \<Rightarrow> transition_args" where
  "decided_failed_args st err now cc =
     (transition_call Failed St_failed (js_progress st) (er_user_message err) now)
     \<lparr>ta_error := Some err, ta_cost_counters := cc,
      ta_expected_generation := Some (js_run_generation st)\<rparr>"

definition apply_decision ::
    "runtime_env \<Rightarrow> 's server \<Rightarrow> job_state \<Rightarrow> job_error_state \<Rightarrow> timestamp \<Rightarrow> counters option
     \<Rightarrow> terminal_decision \<Rightarrow> ('s, bool \<times> transition_result option) program" where
  "apply_decision E R st err now cc d =
     (case d of
        Decided_active \<Rightarrow> ret (False, None)
      | Decided_failed \<Rightarrow>
          andThen (transition E R (js_job_id st) (decided_failed_args st err now cc))
            (\<lambda>updated. ret (True, Some updated))
      | Decided_report r \<Rightarrow>
          andThen
            (if js_status st = Queued
             then andThen (transition E R (js_job_id st) (restore_running_args st now))
                    (\<lambda>running. ret (Some running))
             else ret None)
            (\<lambda>running.
               case running of
                 Some u \<Rightarrow>
                   if \<not> tr_applied u then ret (True, Some u)
                   else andThen (transition E R (js_job_id st) (restore_succeeded_args st r now cc))
                          (\<lambda>updated. ret (True, Some updated))
               | None \<Rightarrow>
                   andThen (transition E R (js_job_id st) (restore_succeeded_args st r now cc))
                     (\<lambda>updated. ret (True, Some updated))))"

definition capability_terminal_transition ::
    "runtime_env \<Rightarrow> 's server \<Rightarrow> 's capability_coordinator option \<Rightarrow> job_state \<Rightarrow> job_error_state
     \<Rightarrow> timestamp \<Rightarrow> bool \<Rightarrow> counters option \<Rightarrow> ('s, bool \<times> transition_result option) program" where
  "capability_terminal_transition E R coordinator st err now finish cc =
     andThen (reads (\<lambda>s. get_request E R s (js_job_id st))) (\<lambda>request.
       if \<not> is_capability_request request then ret (False, None)
       else (case coordinator of
               None \<Rightarrow> ret (True, None)
             | Some C \<Rightarrow>
                 andThen
                   (handle
                      (case cap_parse_envelope C (the request) of
                         Inl e \<Rightarrow> throw e
                       | Inr task \<Rightarrow> andThen (decide C st task err finish) (\<lambda>d. ret (Some d)))
                      (\<lambda>_. ret None))
                   (\<lambda>result.
                      case result of
                        None \<Rightarrow> ret (True, None)
                      | Some d \<Rightarrow> apply_decision E R st err now cc d)))"

subsection \<open>Contract\<close>

text \<open>While an RPC is in flight other clients take steps of the store.\<close>

locale capability_backend = job_runtime R E for R :: "('s, rval) redis" and E :: runtime_env +
  fixes coordinator :: "'s capability_coordinator option"
  assumes runs_rpc: "coordinator = Some C \<Longrightarrow> runs (store_step E R) (cap_rpc C name args)"
begin

lemma runs_decide: "coordinator = Some C \<Longrightarrow> runs (store_step E R) (decide C st task err finish)"
  unfolding decide_def by (intro runs_andThen runs_rpc) (auto intro: runs_intros split: sum.split)

lemma runs_apply_decision: "runs (store_step E R) (apply_decision E R st err now cc d)"
  unfolding apply_decision_def by (cases d) (auto intro!: runs_intros split: option.split)

lemma runs_capability_terminal:
  "runs (store_step E R) (capability_terminal_transition E R coordinator st err now finish cc)"
proof (cases coordinator)
  case None
  show ?thesis unfolding capability_terminal_transition_def None option.case by (intro runs_intros)
next
  case (Some C)
  have "runs (store_step E R)
     (case cap_parse_envelope C req of Inl e \<Rightarrow> throw e
      | Inr task \<Rightarrow> andThen (decide C st task err finish) (\<lambda>d. ret (Some d)))" for req
    by (cases "cap_parse_envelope C req") (auto intro!: runs_intros runs_decide [OF Some])
  then show ?thesis unfolding capability_terminal_transition_def Some option.case
    by (intro runs_intros runs_apply_decision)
qed

end

text \<open>Another job is left to its caller; the coordinator is not asked.\<close>

lemma not_capability_job:
  assumes "get_request E R s (js_job_id st) = Inr req" "\<not> is_capability_request req"
  shows "capability_terminal_transition E R co st err now finish cc s = (s, Inr (False, None))"
  using assms by (simp add: capability_terminal_transition_def ret_def)

lemma decide_result_report:
  "decide_result C st task finish raw = Inr (Decided_report r) \<Longrightarrow> report_matches st task r"
  by (auto simp: decide_result_def split: if_splits option.splits json.splits sum.splits)

lemma decide_result_finish: "decide_result C st task True raw \<noteq> Inr Decided_active"
  by (auto simp: decide_result_def split: if_splits option.splits json.splits sum.splits)

subsection \<open>A coordinator that answers \<open>failed\<close>\<close>

definition ex_coordinator :: "'s capability_coordinator" where
  "ex_coordinator =
     \<lparr>cap_parse_envelope = (\<lambda>_. Inr \<lparr>ct_case_id = 2, ct_manifest_id = 3,
        ct_input_checksum = ''c'', ct_report_type = ''prospect''\<rparr>),
      cap_parse_report = (\<lambda>_. Inl ValidationError),
      cap_rpc = (\<lambda>_ _. ret (JObj [(''status'', JStr ''failed''), (''completed_report'', JNull)])),
      cap_invalid = OtherException ''invalid''\<rparr>"

interpretation mem_backend: capability_backend mem_redis example_env "Some ex_coordinator"
  by unfold_locales (auto simp: ex_coordinator_def runs_ret)

end
