(* ===== verification/Reconciler.thy ===== *)
theory Reconciler
  imports Capability_Terminal
begin

text \<open>
  Recovery of stale runs and undelivered callbacks (app/jobs_v22/reconciler.py), and the
  queue's physical identifiers (app/jobs_v22/queue.py). The synchronizer, the queue and the
  coordinator are parameters with the contracts of their locales; \<open>diag j\<close> is the
  diagnostic id that uuid4 gives for a failure of job \<open>j\<close>. Logging is left out.
\<close>

definition physical_job_id :: "uuid \<Rightarrow> int \<Rightarrow> exn + string" where
  "physical_job_id j run_generation =
     (if run_generation < 1 then Inl (ValueError ''run generation must be positive'')
      else Inr (''v22:'' @ uuid_str j @ '':run:'' @ int_str run_generation))"

text \<open>\<open>enqueue_job\<close> of ARQ is a parameter: function, arguments, physical id; None when it exists.\<close>

type_synonym 's arq = "string \<Rightarrow> string \<Rightarrow> int \<Rightarrow> string \<Rightarrow> ('s, unit option) program"

definition arq_enqueue :: "string \<Rightarrow> string \<Rightarrow> 's arq \<Rightarrow> uuid \<Rightarrow> int \<Rightarrow> ('s, bool) program" where
  "arq_enqueue function suffix pool j g =
     (case physical_job_id j g of
        Inl e \<Rightarrow> throw e
      | Inr identity \<Rightarrow>
          andThen (pool function (uuid_str j) g (identity @ suffix)) (\<lambda>job. ret (job \<noteq> None)))"

definition enqueue_execution :: "'s arq \<Rightarrow> uuid \<Rightarrow> int \<Rightarrow> ('s, bool) program" where
  "enqueue_execution = arq_enqueue ''execute_v22_job'' []"

definition enqueue_preparation :: "'s arq \<Rightarrow> uuid \<Rightarrow> int \<Rightarrow> ('s, bool) program" where
  "enqueue_preparation = arq_enqueue ''prepare_v22_acquisition'' '':prepare''"

definition enqueue_first_service :: "'s arq \<Rightarrow> uuid \<Rightarrow> int \<Rightarrow> ('s, bool) program" where
  "enqueue_first_service = arq_enqueue ''prepare_v22_first_service'' '':first-service-prepare''"

subsection \<open>The reconciler\<close>

record 's collaborators =
  rc_synchronizer :: "(uuid \<Rightarrow> ('s, bool) program) option"
  rc_enqueue :: "uuid \<Rightarrow> int \<Rightarrow> ('s, bool) program"
  rc_coordinator :: "'s capability_coordinator option"
  rc_diagnostic :: "uuid \<Rightarrow> uuid"

text \<open>\<open>try: await synchronizer.sync(job_id) except Exception: log\<close>\<close>

definition try_sync :: "(uuid \<Rightarrow> ('s, bool) program) option \<Rightarrow> uuid \<Rightarrow> ('s, unit) program" where
  "try_sync synchronizer j =
     (case synchronizer of
        None \<Rightarrow> ret ()
      | Some sy \<Rightarrow> handle (andThen (sy j) (\<lambda>_. ret ())) (\<lambda>_. ret ()))"

definition sync_capability_terminal ::
    "(uuid \<Rightarrow> ('s, bool) program) option \<Rightarrow> uuid \<Rightarrow> transition_result option \<Rightarrow> ('s, unit) program" where
  "sync_capability_terminal synchronizer j updated =
     (case updated of
        None \<Rightarrow> ret ()
      | Some u \<Rightarrow> if \<not> tr_applied u then ret () else try_sync synchronizer j)"

definition deadline_error :: "uuid \<Rightarrow> job_error_state" where
  "deadline_error diag =
     \<lparr>er_error_code = ''JOB_DEADLINE_EXCEEDED'',
      er_user_message = ''The analysis exceeded its processing deadline.'',
      er_retryable = False, er_stage = St_failed, er_diagnostic_id = diag\<rparr>"

definition exhausted_error :: "uuid \<Rightarrow> job_error_state" where
  "exhausted_error diag =
     \<lparr>er_error_code = ''JOB_RETRY_EXHAUSTED'',
      er_user_message = ''The analysis could not be completed after multiple attempts. Please retry later.'',
      er_retryable = True, er_stage = St_failed, er_diagnostic_id = diag\<rparr>"

definition probe_error :: "uuid \<Rightarrow> job_error_state" where
  "probe_error diag =
     \<lparr>er_error_code = ''JOB_RETRY_EXHAUSTED'',
      er_user_message = ''The previous analysis run did not finish.'',
      er_retryable = True, er_stage = St_failed, er_diagnostic_id = diag\<rparr>"

definition failure_args ::
    "job_state \<Rightarrow> job_error_state \<Rightarrow> timestamp \<Rightarrow> int \<Rightarrow> transition_args" where
  "failure_args st err now generation =
     (transition_call Failed St_failed (js_progress st) (er_user_message err) now)
     \<lparr>ta_error := Some err, ta_expected_generation := Some generation\<rparr>"

text \<open>\<open>require_state\<close> with \<open>except JobNotFound\<close>: None when the job is missing.\<close>

definition find_state :: "runtime_env \<Rightarrow> 's server \<Rightarrow> uuid \<Rightarrow> 's \<Rightarrow> exn + job_state option" where
  "find_state E R j s =
     (case require_state E R s j of
        Inl e \<Rightarrow> if e = JobNotFound then Inr None else Inl e
      | Inr st \<Rightarrow> Inr (Some st))"

definition ignore :: "('s, 'a) program \<Rightarrow> ('s, unit) program" where
  "ignore p = andThen p (\<lambda>_. ret ())"

definition fail_recovery ::
    "runtime_env \<Rightarrow> 's server \<Rightarrow> 's collaborators \<Rightarrow> timestamp \<Rightarrow> uuid \<Rightarrow> int \<Rightarrow> job_state
     \<Rightarrow> ('s, unit) program" where
  "fail_recovery E R K now j generation state =
     (let err = deadline_error (rc_diagnostic K j)
      in andThen (capability_terminal_transition E R (rc_coordinator K) state err now True None)
           (\<lambda>(handled, updated).
              if handled then sync_capability_terminal (rc_synchronizer K) j updated
              else andThen (transition E R j (failure_args state err now generation)) (\<lambda>updated.
                     if tr_applied updated then try_sync (rc_synchronizer K) j else ret ())))"

text \<open>The barrier: the callback is delivered, then the generation is enqueued, then it is closed.\<close>

definition expose_recovery ::
    "runtime_env \<Rightarrow> 's server \<Rightarrow> 's collaborators \<Rightarrow> (uuid \<Rightarrow> ('s, bool) program) \<Rightarrow> timestamp
     \<Rightarrow> uuid \<Rightarrow> int \<Rightarrow> job_state \<Rightarrow> ('s, unit) program" where
  "expose_recovery E R K synchronize now j generation state =
     andThen
       (if js_callback_synced_revision state < js_revision state
        then handle (synchronize j) (\<lambda>_. ret False) else ret True)
       (\<lambda>synced.
          if \<not> synced then ret ()
          else andThen (handle (andThen (rc_enqueue K j generation) (\<lambda>_. ret True)) (\<lambda>_. ret False))
                 (\<lambda>enqueued.
                    if \<not> enqueued then ret ()
                    else ignore (mark_recovery_enqueued E R j generation now)))"

definition finish_pending_recovery ::
    "runtime_env \<Rightarrow> 's server \<Rightarrow> 's collaborators \<Rightarrow> timestamp \<Rightarrow> uuid \<Rightarrow> int \<Rightarrow> ('s, unit) program" where
  "finish_pending_recovery E R K now j generation =
     andThen (reads (find_state E R j)) (\<lambda>found.
       case found of
         None \<Rightarrow> ignore (discard_missing_job_recovery E R j generation)
       | Some state \<Rightarrow>
           if js_run_generation state \<noteq> generation
           then ignore (discard_pending_recovery E R j generation)
           else if terminal state then ignore (discard_pending_recovery E R j generation)
           else if js_deadline_at state \<le> now then fail_recovery E R K now j generation state
           else (case rc_synchronizer K of
                   None \<Rightarrow> ret ()
                 | Some synchronize \<Rightarrow> expose_recovery E R K synchronize now j generation state))"

text \<open>One job of the second loop: an undelivered callback.\<close>

definition reconcile_callback ::
    "runtime_env \<Rightarrow> 's server \<Rightarrow> (uuid \<Rightarrow> ('s, bool) program) \<Rightarrow> uuid \<Rightarrow> ('s, unit) program" where
  "reconcile_callback E R synchronize j =
     handle
       (andThen (reads (\<lambda>s. require_state E R s j)) (\<lambda>_. ignore (synchronize j)))
       (\<lambda>e. if e = JobNotFound then ignore (discard_missing_job_indexes E R j) else ret ())"

text \<open>One job of the third loop: a stale one, with the recovery generation seen for it.\<close>

definition pending_of ::
    "runtime_env \<Rightarrow> 's server \<Rightarrow> uuid \<Rightarrow> job_state \<Rightarrow> ('s, int option) program" where
  "pending_of E R j state =
     andThen (always (pending_recovery_generation E R j)) (\<lambda>pending.
       if pending \<noteq> None \<and> pending \<noteq> Some (js_run_generation state)
       then andThen (discard_pending_recovery E R j (the pending)) (\<lambda>_. ret None)
       else ret pending)"

definition fail_stale ::
    "runtime_env \<Rightarrow> 's server \<Rightarrow> 's collaborators \<Rightarrow> timestamp \<Rightarrow> uuid \<Rightarrow> job_state \<Rightarrow> bool
     \<Rightarrow> ('s, transition_result option) program" where
  "fail_stale E R K now j state deadline_exceeded =
     (let diag = rc_diagnostic K j;
          err = (if deadline_exceeded then deadline_error diag else exhausted_error diag)
      in andThen (capability_terminal_transition E R (rc_coordinator K) state err now True None)
           (\<lambda>(handled, updated).
              if handled
              then andThen (sync_capability_terminal (rc_synchronizer K) j updated) (\<lambda>_. ret None)
              else andThen (transition E R j (failure_args state err now (js_run_generation state)))
                     (\<lambda>updated. ret (Some updated))))"

definition recover_stale ::
    "runtime_env \<Rightarrow> 's server \<Rightarrow> 's collaborators \<Rightarrow> timestamp \<Rightarrow> uuid \<Rightarrow> job_state
     \<Rightarrow> ('s, transition_result option) program" where
  "recover_stale E R K now j state =
     andThen
       (capability_terminal_transition E R (rc_coordinator K) state
          (probe_error (rc_diagnostic K j)) now False None)
       (\<lambda>(handled, probed).
          if handled
          then andThen (sync_capability_terminal (rc_synchronizer K) j probed) (\<lambda>_. ret None)
          else
            andThen (take_over_stale E R j (js_run_generation state) now) (\<lambda>updated.
            andThen (always (pending_recovery_generation E R j)) (\<lambda>recovery.
            andThen
              (case recovery of
                 None \<Rightarrow> ret ()
               | Some g \<Rightarrow> finish_pending_recovery E R K now j g)
              (\<lambda>_. ret (Some updated)))))"

definition reconcile_stale ::
    "runtime_env \<Rightarrow> 's server \<Rightarrow> 's collaborators \<Rightarrow> timestamp \<Rightarrow> int \<Rightarrow> uuid \<Rightarrow> ('s, unit) program" where
  "reconcile_stale E R K now max_attempts j =
     andThen (reads (find_state E R j)) (\<lambda>found.
       case found of
         None \<Rightarrow> ignore (discard_missing_job_indexes E R j)
       | Some state \<Rightarrow>
           if terminal state then ret ()
           else
             andThen (pending_of E R j state) (\<lambda>pending.
               let deadline_exceeded = js_deadline_at state \<le> now
               in if pending \<noteq> None \<and> \<not> deadline_exceeded then ret ()
                  else
                    andThen
                      (if deadline_exceeded \<or> (js_status state = Running \<and> max_attempts \<le> js_attempt_count state)
                       then fail_stale E R K now j state deadline_exceeded
                       else recover_stale E R K now j state)
                      (\<lambda>updated.
                         case updated of
                           None \<Rightarrow> ret ()
                         | Some u \<Rightarrow>
                             if tr_applied u \<and> terminal (tr_state u)
                             then try_sync (rc_synchronizer K) j else ret ())))"

definition reconcile_once ::
    "runtime_env \<Rightarrow> 's server \<Rightarrow> 's collaborators \<Rightarrow> timestamp \<Rightarrow> int \<Rightarrow> int \<Rightarrow> ('s, unit) program" where
  "reconcile_once E R K now stale_seconds max_attempts =
     andThen (always (list_pending_recoveries E R 100)) (\<lambda>pending.
     andThen (forEach pending (\<lambda>(j, g). finish_pending_recovery E R K now j g)) (\<lambda>_.
     andThen
       (case rc_synchronizer K of
          None \<Rightarrow> ret ()
        | Some synchronize \<Rightarrow>
            andThen (always (list_pending_callbacks E R 100)) (\<lambda>js.
              forEach js (\<lambda>j.
                if j \<in> set (map fst pending) then ret () else reconcile_callback E R synchronize j)))
       (\<lambda>_.
          andThen (always (list_stale_jobs E R (now - seconds stale_seconds) 100)) (\<lambda>js.
            forEach js (reconcile_stale E R K now max_attempts)))))"

end
