(* ===== verification/Reconciler_Laws.thy ===== *)
theory Reconciler_Laws
  imports Reconciler Example_Jobs
begin

text \<open>
  What the reconciler guarantees. The locale \<open>reconciler\<close> collects the contracts of its
  collaborators; in it a whole pass is a run of the store, so every safety property of the
  store holds across it.
\<close>

locale reconciler = job_runtime R E for R :: "('s, rval) redis" and E :: runtime_env +
  fixes K :: "'s collaborators"
  assumes backend: "capability_backend R E (rc_coordinator K)"
    and synchronizer: "rc_synchronizer K = Some sy \<Longrightarrow> state_synchronizer R E sy"
    and runs_enqueue: "runs (store_step E R) (rc_enqueue K j g)"
begin

lemma runs_terminal [runs_intros]:
  "runs (store_step E R) (capability_terminal_transition E R (rc_coordinator K) st err now finish cc)"
  by (rule capability_backend.runs_capability_terminal [OF backend])

lemma runs_synchronizer:
  "rc_synchronizer K = Some sy \<Longrightarrow> runs (store_step E R) (sy j)"
  by (rule state_synchronizer.runs_synchronize [OF synchronizer])

lemma runs_try_sync [runs_intros]: "runs (store_step E R) (try_sync (rc_synchronizer K) j)"
  unfolding try_sync_def by (cases "rc_synchronizer K") (auto intro!: runs_intros runs_synchronizer)

lemma runs_sync_terminal [runs_intros]:
  "runs (store_step E R) (sync_capability_terminal (rc_synchronizer K) j u)"
  unfolding sync_capability_terminal_def by (intro runs_intros)

lemma runs_ignore [runs_intros]: "runs r p \<Longrightarrow> runs r (ignore p)"
  unfolding ignore_def by (intro runs_intros)

lemma runs_finish [runs_intros]: "runs (store_step E R) (finish_pending_recovery E R K now j g)"
proof -
  have expose: "runs (store_step E R) (expose_recovery E R K sy now j g st)"
    if "rc_synchronizer K = Some sy" for sy st
    unfolding expose_recovery_def by (intro runs_intros runs_enqueue runs_synchronizer [OF that])
  have fail: "runs (store_step E R) (fail_recovery E R K now j g st)" for st
    unfolding fail_recovery_def Let_def by (intro runs_intros)
  show ?thesis unfolding finish_pending_recovery_def by (intro runs_intros expose fail)
qed

lemma runs_callback:
  "rc_synchronizer K = Some sy \<Longrightarrow> runs (store_step E R) (reconcile_callback E R sy j)"
  unfolding reconcile_callback_def by (intro runs_intros runs_synchronizer)

lemma runs_stale [runs_intros]: "runs (store_step E R) (reconcile_stale E R K now n j)"
proof -
  have "runs (store_step E R) (pending_of E R j st)" for st
    unfolding pending_of_def by (intro runs_intros)
  moreover have "runs (store_step E R) (fail_stale E R K now j st d)" for st d
    unfolding fail_stale_def Let_def by (intro runs_intros)
  moreover have "runs (store_step E R) (recover_stale E R K now j st)" for st
    unfolding recover_stale_def by (intro runs_intros)
  ultimately show ?thesis
    unfolding reconcile_stale_def Let_def by (intro runs_intros)
qed

lemma runs_reconcile_once: "runs (store_step E R) (reconcile_once E R K now stale n)"
  unfolding reconcile_once_def by (intro runs_intros runs_callback)

subsection \<open>The barrier before a recovered generation is enqueued\<close>

lemma enqueue_after_sync:
  assumes inv: "store_inv E R s" and st: "get_state E R s j = Inr (Some st)"
    and agree: "\<And>s1 st1. js_run_generation st = g \<Longrightarrow> \<not> terminal st \<Longrightarrow> now < js_deadline_at st \<Longrightarrow>
        (store_step E R)\<^sup>*\<^sup>* s s1 \<Longrightarrow> get_state E R s1 j = Inr (Some st1) \<Longrightarrow>
        js_revision st \<le> js_callback_synced_revision st1 \<Longrightarrow> rc_enqueue K j g s1 = other j g s1"
  shows "finish_pending_recovery E R (K\<lparr>rc_enqueue := other\<rparr>) now j g s =
    finish_pending_recovery E R K now j g s"
proof -
  have expose: "expose_recovery E R (K\<lparr>rc_enqueue := other\<rparr>) sy now j g st s =
      expose_recovery E R K sy now j g st s" if sy: "rc_synchronizer K = Some sy"
      and open_st: "js_run_generation st = g" "\<not> terminal st" "now < js_deadline_at st" for sy
  proof -
    let ?p = "if js_callback_synced_revision st < js_revision st
        then handle (sy j) (\<lambda>_. ret False) else ret True"
    let ?s1 = "fst (?p s)"
    have "rc_enqueue K j g ?s1 = other j g ?s1" if "snd (?p s) = Inr True"
    proof (cases "js_callback_synced_revision st < js_revision st")
      case True
      then have ok: "snd (sy j s) = Inr True" "?s1 = fst (sy j s)"
        using that by (auto simp: handle_def case_prod_beta ret_def split: sum.splits)
      from state_synchronizer.synchronized [OF synchronizer [OF sy] inv st ok(1)] ok(2)
        runsD [OF runs_synchronizer [OF sy], of s j]
      show ?thesis by (auto intro: agree [OF open_st])
    next
      case False
      then show ?thesis using st by (auto intro: agree [OF open_st])
    qed
    then show ?thesis
      unfolding expose_recovery_def
      by (intro andThen_cong refl) (auto intro!: try_call_cong)
  qed
  have fail: "fail_recovery E R (K\<lparr>rc_enqueue := other\<rparr>) now j g st = fail_recovery E R K now j g st"
  proof -
    have "rc_coordinator (K\<lparr>rc_enqueue := other\<rparr>) = rc_coordinator K"
      "rc_synchronizer (K\<lparr>rc_enqueue := other\<rparr>) = rc_synchronizer K"
      "rc_diagnostic (K\<lparr>rc_enqueue := other\<rparr>) = rc_diagnostic K"
      by simp_all
    then show ?thesis unfolding fail_recovery_def by (simp only:)
  qed
  show ?thesis
    using st expose
    by (auto simp: finish_pending_recovery_def find_state_def require_state_def fail not_le split: option.splits)
qed

subsection \<open>A job past its deadline\<close>

lemma deadline_error_valid:
  "validate_error_state (deadline_error diag) = Some (deadline_error diag)"
  "strip_text (er_user_message (deadline_error diag)) = er_user_message (deadline_error diag)"
  "text_len 1 500 (er_user_message (deadline_error diag))"
proof -
  have "strip_text ''JOB_DEADLINE_EXCEEDED'' = ''JOB_DEADLINE_EXCEEDED''" by code_simp
  moreover have m: "strip_text ''The analysis exceeded its processing deadline.'' =
      ''The analysis exceeded its processing deadline.''" by code_simp
  moreover have "list_all error_code_char ''JOB_DEADLINE_EXCEEDED''" by code_simp
  ultimately show "validate_error_state (deadline_error diag) = Some (deadline_error diag)"
    by (simp add: validate_error_state_def deadline_error_def text_len_def)
  show "strip_text (er_user_message (deadline_error diag)) = er_user_message (deadline_error diag)"
    "text_len 1 500 (er_user_message (deadline_error diag))"
    using m by (simp_all add: deadline_error_def text_len_def)
qed

lemma failed_state_valid:
  assumes st: "valid_state st" "\<not> terminal st" "js_created_at st \<le> now"
    and err: "validate_error_state err = Some err" "strip_text (er_user_message err) = er_user_message err"
      "text_len 1 500 (er_user_message err)"
  shows "validate_job_state (next_state (failure_args st err now g) st) =
    Inr (next_state (failure_args st err now g) st)"
proof (rule validate_validated)
  have "valid_state (next_state (failure_args st err now g) st)"
    using st err unfolding valid_state_iff
    by (auto simp: next_state_def failure_args_def transition_call_def fields_ok_def lifecycle_ok_def)
  then show "valid_state (next_state (failure_args st err now g) st)" .
qed

lemma fail_transition:
  assumes inv: "store_inv E R s" and st: "get_state E R s j = Inr (Some st)" "\<not> terminal st"
      "js_created_at st \<le> now"
    and err: "validate_error_state err = Some err" "strip_text (er_user_message err) = er_user_message err"
      "text_len 1 500 (er_user_message err)"
  shows "snd (transition E R j (failure_args st err now (js_run_generation st)) s) =
      Inr \<lparr>tr_state = next_state (failure_args st err now (js_run_generation st)) st, tr_applied = True\<rparr>"
    and "abs_job E R (fst (transition E R j (failure_args st err now (js_run_generation st)) s)) j =
      Some (Job_abs Failed (js_run_generation st) (js_revision st + 1) (er_retryable err))"
proof -
  let ?a = "failure_args st err now (js_run_generation st)"
  let ?n = "next_state ?a st"
  have v: "valid_state st" using store_invD(2) [OF inv st(1)] by (simp add: state_indexed_def)
  have "Failed \<in> set (ALLOWED_TRANSITIONS (js_status st))"
    using st(2) by (cases "js_status st") (auto simp: terminal_def)
  then have body: "transition_body E R j ?a s =
      Commit (transition_commands E j now ?n) [(events_key (env_prefix E) j, int_str (js_revision ?n))]
        \<lparr>tr_state = ?n, tr_applied = True\<rparr>"
    using st failed_state_valid [OF v st(2,3) err, of "js_run_generation st"]
    by (simp add: transition_body_def) (simp add: failure_args_def transition_call_def)
  have ok: "list_all cmd_ok (transition_commands E j now ?n)"
    using env by (auto simp: transition_commands_def Let_def)
  note r = run_txn_Commit [of "transition_body E R j ?a" s, OF body ok]
  then show "snd (transition E R j ?a s) = Inr \<lparr>tr_state = ?n, tr_applied = True\<rparr>"
    by (simp add: transition_def)
  have "rget R (fst (transition E R j ?a s)) (state_key (env_prefix E) j) = Some (VState ?n)"
    using r(2) by (simp add: transition_def transition_commands_def Let_def)
  then have "abs_job E R (fst (transition E R j ?a s)) j = Some (abs_state ?n)" by (rule abs_job_write)
  then show "abs_job E R (fst (transition E R j ?a s)) j =
      Some (Job_abs Failed (js_run_generation st) (js_revision st + 1) (er_retryable err))"
    by (simp add: abs_state_def job_retryable_def next_state_def failure_args_def transition_call_def)
qed

lemma deadline_recovery:
  assumes inv: "store_inv E R s" and st: "get_state E R s j = Inr (Some st)" "\<not> terminal st"
      "js_created_at st \<le> now" "js_deadline_at st \<le> now"
    and req: "get_request E R s j = Inr req" "\<not> is_capability_request req"
  shows "abs_job E R (fst (finish_pending_recovery E R K now j (js_run_generation st) s)) j =
      Some (Job_abs Failed (js_run_generation st) (js_revision st + 1) False)"
    and "snd (finish_pending_recovery E R K now j (js_run_generation st) s) = Inr ()"
proof -
  let ?err = "deadline_error (rc_diagnostic K j)"
  let ?g = "js_run_generation st"
  let ?t = "transition E R j (failure_args st ?err now ?g) s"
  have id: "js_job_id st = j" using store_invD(2) [OF inv st(1)] by (simp add: state_indexed_def)
  note tr = fail_transition [OF inv st(1-3) deadline_error_valid]
  have noncap: "capability_terminal_transition E R (rc_coordinator K) st ?err now True None s =
      (s, Inr (False, None))"
    using req id by (intro not_capability_job) simp_all
  have step: "transition E R j (failure_args st ?err now ?g) s =
      (fst ?t, Inr \<lparr>tr_state = next_state (failure_args st ?err now ?g) st, tr_applied = True\<rparr>)"
    using tr(1) by (simp add: prod_eq_iff)
  have "finish_pending_recovery E R K now j ?g s = fail_recovery E R K now j ?g st s"
    using st by (simp add: finish_pending_recovery_def find_state_def require_state_def)
  also have "\<dots> = try_sync (rc_synchronizer K) j (fst ?t)"
    unfolding fail_recovery_def Let_def
    by (simp only: andThen_Inr [where p = "capability_terminal_transition E R (rc_coordinator K) st ?err now True None"
          and s = s, OF noncap] prod.case simp_thms if_False
        andThen_Inr [where p = "transition E R j (failure_args st ?err now ?g)" and s = s, OF step])
      simp
  finally have eq: "finish_pending_recovery E R K now j ?g s = try_sync (rc_synchronizer K) j (fst ?t)" .
  have final: "ab_status (Job_abs Failed ?g (js_revision st + 1) False) = Failed
      \<and> \<not> ab_retryable (Job_abs Failed ?g (js_revision st + 1) False)" by simp
  have start: "abs_job E R (fst ?t) j = Some (Job_abs Failed ?g (js_revision st + 1) False)"
    using tr(2) by (simp add: deadline_error_def)
  show "abs_job E R (fst (finish_pending_recovery E R K now j ?g s)) j =
      Some (Job_abs Failed ?g (js_revision st + 1) False)"
    unfolding eq
    by (rule run_final [OF runsD [OF runs_try_sync] transition_inv [OF inv] start]) (use final in blast)
  show "snd (finish_pending_recovery E R K now j ?g s) = Inr ()"
    unfolding eq
    by (auto simp: try_sync_def handle_def andThen_def ret_def case_prod_beta split: option.splits sum.splits)
qed

end

subsection \<open>What becomes of a stale job\<close>

text \<open>
  The decision of the third loop: a terminal job stays; past its deadline a job fails for good;
  while its generation still waits behind the barrier nothing happens; a run that has used
  its attempts fails and may be retried by hand; any other is queued under the next
  generation.
\<close>

definition stale_decision :: "timestamp \<Rightarrow> int \<Rightarrow> bool \<Rightarrow> job_state \<Rightarrow> job_abs option" where
  "stale_decision now max_attempts waiting st =
     (let g = js_run_generation st; rv = js_revision st + 1
      in if terminal st then None
         else if js_deadline_at st \<le> now then Some (Job_abs Failed g rv False)
         else if waiting then None
         else if js_status st = Running \<and> max_attempts \<le> js_attempt_count st
         then Some (Job_abs Failed g rv True)
         else Some (Job_abs Queued (g + 1) rv False))"

lemma takeover_valid:
  assumes "valid_state st" "\<not> terminal st" "js_created_at st \<le> now"
  shows "validate_job_state (takeover_state now st) = Inr (takeover_state now st)"
proof (rule validate_validated)
  have "strip_text ''Queued for recovery after a lost worker heartbeat.'' =
      ''Queued for recovery after a lost worker heartbeat.''" by code_simp
  then show "valid_state (takeover_state now st)"
    using assms valid_open [OF assms(1,2)] unfolding valid_state_iff
    by (auto simp: takeover_state_def fields_ok_def lifecycle_ok_def text_len_def)
qed

lemma exhausted_error_valid:
  "validate_error_state (exhausted_error diag) = Some (exhausted_error diag)"
  "strip_text (er_user_message (exhausted_error diag)) = er_user_message (exhausted_error diag)"
  "text_len 1 500 (er_user_message (exhausted_error diag))"
proof -
  have "strip_text ''JOB_RETRY_EXHAUSTED'' = ''JOB_RETRY_EXHAUSTED''" by code_simp
  moreover have m: "strip_text (er_user_message (exhausted_error diag)) = er_user_message (exhausted_error diag)"
    unfolding exhausted_error_def job_error_state.simps by code_simp
  moreover have "list_all error_code_char ''JOB_RETRY_EXHAUSTED''" by code_simp
  ultimately show "validate_error_state (exhausted_error diag) = Some (exhausted_error diag)"
    by (simp add: validate_error_state_def exhausted_error_def text_len_def)
  show "strip_text (er_user_message (exhausted_error diag)) = er_user_message (exhausted_error diag)"
    "text_len 1 500 (er_user_message (exhausted_error diag))"
    using m by (simp_all add: exhausted_error_def text_len_def)
qed

context reconciler
begin

lemma take_over_applies:
  assumes inv: "store_inv E R s" and st: "get_state E R s j = Inr (Some st)" "\<not> terminal st"
      "js_created_at st \<le> now"
    and free: "zscore R s (recovery_pending_key (env_prefix E)) (uuid_str j) = None"
  shows "snd (take_over_stale E R j (js_run_generation st) now s) =
      Inr \<lparr>tr_state = takeover_state now st, tr_applied = True\<rparr>"
    and "abs_job E R (fst (take_over_stale E R j (js_run_generation st) now s)) j =
      Some (Job_abs Queued (js_run_generation st + 1) (js_revision st + 1) False)"
proof -
  have v: "valid_state st" using store_invD(2) [OF inv st(1)] by (simp add: state_indexed_def)
  let ?t = "take_over_stale E R j (js_run_generation st) now s"
  have body: "take_over_body E R j (js_run_generation st) now s =
      Commit (takeover_commands E j now (takeover_state now st))
        [(events_key (env_prefix E) j, int_str (js_revision (takeover_state now st)))]
        \<lparr>tr_state = takeover_state now st, tr_applied = True\<rparr>"
    using st free takeover_valid [OF v st(2,3)] by (simp add: take_over_body_def)
  have ok: "list_all cmd_ok (takeover_commands E j now (takeover_state now st))"
    using env by (auto simp: takeover_commands_def Let_def)
  note r = run_txn_Commit [of "take_over_body E R j (js_run_generation st) now" s, OF body ok]
  then show "snd ?t = Inr \<lparr>tr_state = takeover_state now st, tr_applied = True\<rparr>"
    by (simp add: take_over_stale_def)
  have "rget R (fst ?t) (state_key (env_prefix E) j) = Some (VState (takeover_state now st))"
    using r(2) by (simp add: take_over_stale_def takeover_commands_def Let_def)
  then have "abs_job E R (fst ?t) j = Some (abs_state (takeover_state now st))" by (rule abs_job_write)
  then show "abs_job E R (fst ?t) j =
      Some (Job_abs Queued (js_run_generation st + 1) (js_revision st + 1) False)"
    using valid_open [OF v st(2)] by (simp add: abs_state_def job_retryable_def takeover_state_def)
qed

text \<open>A recovery entry of another generation, or without one, is dropped first.\<close>

lemma pending_of_settles:
  assumes inv: "store_inv E R s" and st: "get_state E R s j = Inr (Some st)"
  shows "if zscore R s (recovery_pending_key (env_prefix E)) (uuid_str j) = Some (of_count (js_run_generation st))
    then pending_of E R j st s = (s, Inr (Some (js_run_generation st)))
    else \<exists>s1. pending_of E R j st s = (s1, Inr None) \<and> recovery_shrinks s s1
      \<and> zscore R s1 (recovery_pending_key (env_prefix E)) (uuid_str j) = None"
proof -
  let ?z = "zscore R s (recovery_pending_key (env_prefix E)) (uuid_str j)"
  let ?q = "pending_recovery_generation E R j"
  have g: "1 \<le> js_run_generation st"
    using store_invD(2) [OF inv st] by (auto simp: state_indexed_def fields_ok_def dest: valid_state_fields(1))
  consider (waiting) "?z = Some (of_count (js_run_generation st))"
    | (other) h where "snd (?q s) = Some h" "h \<noteq> js_run_generation st"
    | (dropped) "snd (?q s) = None"
    using pending_recovery_generation_Some [of j s] by (cases "snd (?q s)") auto
  then show ?thesis
  proof cases
    case waiting
    then have "?q s = (s, Some (js_run_generation st))"
      using g pending_recovery_generation_Some [of j s "js_run_generation st"]
        pending_recovery_generation_Some_state [of j s "js_run_generation st"] by (simp add: prod_eq_iff)
    then show ?thesis using waiting by (simp add: pending_of_def always_def andThen_def ret_def)
  next
    case other
    then have z: "?z = Some (of_count h)" "?q s = (s, Some h)"
      using pending_recovery_generation_Some pending_recovery_generation_Some_state
      by (simp_all add: prod_eq_iff)
    have "snd (discard_pending_recovery E R j h s) = Inr True"
      using z(1) by (simp add: discard_pending_recovery_def discard_pending_recovery_member_def
          discard_index_member_def discard_index_member_body_def run_txn.simps)
    moreover have "zscore R (fst (discard_pending_recovery E R j h s)) (recovery_pending_key (env_prefix E)) (uuid_str j) = None"
      using z(1) by (simp_all add: discard_pending_recovery_def discard_pending_recovery_member_def
          discard_index_member_views)
    ultimately show ?thesis
      using other z discard_pending_recovery_shrinks [of s j h]
      by (auto simp: pending_of_def always_def andThen_def ret_def case_prod_beta)
  next
    case dropped
    have "zscore R (fst (?q s)) (recovery_pending_key (env_prefix E)) (uuid_str j) = None"
      using dropped by (auto simp: pending_recovery_generation_def discard_pending_recovery_member_def
          discard_index_member_views split: option.splits)
    moreover have "?z \<noteq> Some (of_count (js_run_generation st))"
      using dropped g pending_recovery_generation_Some [of j s] by auto
    ultimately show ?thesis
      using dropped pending_recovery_generation_shrinks [of s j]
      by (auto simp: pending_of_def always_def andThen_def ret_def case_prod_beta)
  qed
qed

lemma shrinks_views:
  assumes "recovery_shrinks s s1"
  shows "get_state E R s1 j = get_state E R s j" "get_request E R s1 j = get_request E R s j"
  using assms by (simp_all add: recovery_shrinks_def get_state_def get_request_def)

lemma stale_terminal:
  "get_state E R s j = Inr (Some st) \<Longrightarrow> terminal st \<Longrightarrow> reconcile_stale E R K now n j s = (s, Inr ())"
  by (simp add: reconcile_stale_def find_state_def require_state_def ret_def)

lemma stale_job:
  assumes inv: "store_inv E R s" and st: "get_state E R s j = Inr (Some st)" "\<not> terminal st"
      "js_created_at st \<le> now"
    and req: "get_request E R s j = Inr req" "\<not> is_capability_request req"
  shows "case stale_decision now n
        (zscore R s (recovery_pending_key (env_prefix E)) (uuid_str j) = Some (of_count (js_run_generation st))) st of
      None \<Rightarrow> reconcile_stale E R K now n j s = (s, Inr ())
    | Some a \<Rightarrow> \<exists>s1. abs_job E R s1 j = Some a
        \<and> (store_step E R)\<^sup>*\<^sup>* s1 (fst (reconcile_stale E R K now n j s))"
proof -
  let ?g = "js_run_generation st"
  let ?w = "zscore R s (recovery_pending_key (env_prefix E)) (uuid_str j) = Some (of_count ?g)"
  let ?late = "js_deadline_at st \<le> now"
  let ?done = "\<lambda>updated. case updated of None \<Rightarrow> ret ()
      | Some u \<Rightarrow> if tr_applied u \<and> terminal (tr_state u) then try_sync (rc_synchronizer K) j else ret ()"
  have id: "js_job_id st = j" using store_invD(2) [OF inv st(1)] by (simp add: state_indexed_def)
  note [simp] = st(2)
  obtain s1 p where p: "pending_of E R j st s = (s1, Inr p)" "recovery_shrinks s s1"
      "p = (if ?w then Some ?g else None)"
      "\<not> ?w \<longrightarrow> zscore R s1 (recovery_pending_key (env_prefix E)) (uuid_str j) = None" "?w \<longrightarrow> s1 = s"
    using pending_of_settles [OF inv st(1)] by (cases ?w) auto
  note s1 = recovery_shrinks_inv [OF inv p(2)] shrinks_views [OF p(2), of j]
  have here: "get_state E R s1 j = Inr (Some st)" using s1(2) st(1) by simp
  have stale: "reconcile_stale E R K now n j s =
      (if ?w \<and> \<not> ?late then (s, Inr ())
       else andThen (if ?late \<or> (js_status st = Running \<and> n \<le> js_attempt_count st)
                     then fail_stale E R K now j st ?late else recover_stale E R K now j st) ?done s1)"
    using st p(1,3,5)
    by (auto simp: reconcile_stale_def find_state_def require_state_def andThen_Inr [where p = "pending_of E R j st" and s = s, OF p(1)] Let_def ret_def)
  have noncap: "capability_terminal_transition E R (rc_coordinator K) st e now b None s1 =
      (s1, Inr (False, None))" for e b
    using req id s1(3) by (intro not_capability_job) simp_all
  then have cap: "andThen (capability_terminal_transition E R (rc_coordinator K) st e now b None) f s1 =
      f (False, None) s1" for e b and f :: "_ \<Rightarrow> ('s, 'b) program"
    by (simp add: andThen_def)
  have failed: "\<exists>s2. abs_job E R s2 j = Some (Job_abs Failed ?g (js_revision st + 1) (\<not> late))
      \<and> (store_step E R)\<^sup>*\<^sup>* s2 (fst (andThen (fail_stale E R K now j st late) ?done s1))" for late
  proof -
    define err where
      "err = (if late then deadline_error (rc_diagnostic K j) else exhausted_error (rc_diagnostic K j))"
    let ?t = "transition E R j (failure_args st err now ?g) s1"
    have ok: "validate_error_state err = Some err" "strip_text (er_user_message err) = er_user_message err"
      "text_len 1 500 (er_user_message err)"
      using deadline_error_valid exhausted_error_valid by (cases late; simp add: err_def)+
    note t = fail_transition [OF s1(1) here st(2,3) ok]
    obtain u where u: "?t = (fst ?t, Inr u)" using t(1) by (metis prod.collapse)
    have "fail_stale E R K now j st late s1 = (fst ?t, Inr (Some u))"
      unfolding fail_stale_def Let_def err_def [symmetric]
      by (simp add: cap)
        (simp add: andThen_Inr [where p = "transition E R j (failure_args st err now ?g)" and s = s1, OF u] ret_def)
    then have "fst (andThen (fail_stale E R K now j st late) ?done s1) = fst (?done (Some u) (fst ?t))"
      by (simp add: andThen_Inr)
    moreover have "(store_step E R)\<^sup>*\<^sup>* (fst ?t) (fst (?done (Some u) (fst ?t)))"
      by (rule runsD) (auto intro: runs_intros)
    moreover have "er_retryable err = (\<not> late)"
      by (simp add: err_def deadline_error_def exhausted_error_def)
    ultimately show ?thesis using t(2) by (intro exI [of _ "fst ?t"]) simp
  qed
  have taken: "\<exists>s2. abs_job E R s2 j = Some (Job_abs Queued (?g + 1) (js_revision st + 1) False)
      \<and> (store_step E R)\<^sup>*\<^sup>* s2 (fst (andThen (recover_stale E R K now j st) ?done s1))" if "\<not> ?w"
  proof -
    let ?t = "take_over_stale E R j ?g now s1"
    have "zscore R s1 (recovery_pending_key (env_prefix E)) (uuid_str j) = None" using p(4) that by blast
    note t = take_over_applies [OF s1(1) here st(2,3) this]
    obtain u where u: "?t = (fst ?t, Inr u)" using t(1) by (metis prod.collapse)
    let ?tail = "andThen (always (pending_recovery_generation E R j)) (\<lambda>recovery.
            andThen (case recovery of None \<Rightarrow> ret () | Some g \<Rightarrow> finish_pending_recovery E R K now j g)
              (\<lambda>_. ret (Some u)))"
    let ?rest = "andThen ?tail ?done"
    have "recover_stale E R K now j st s1 = ?tail (fst ?t)"
      unfolding recover_stale_def
      by (simp add: cap andThen_Inr [where p = "take_over_stale E R j ?g now" and s = s1, OF u])
    then have "fst (andThen (recover_stale E R K now j st) ?done s1) = fst (?rest (fst ?t))"
      by (simp only: andThen_def)
    moreover have "(store_step E R)\<^sup>*\<^sup>* (fst ?t) (fst (?rest (fst ?t)))" by (rule runsD) (intro runs_intros)
    ultimately show ?thesis using t(2) by (intro exI [of _ "fst ?t"]) simp
  qed
  show ?thesis
    using failed [of True] failed [of False] taken
    by (auto simp: stale_decision_def Let_def stale)
qed

end

subsection \<open>The collaborators of the model\<close>

text \<open>
  The synchronizer is the modelled one over the modelled client; the queue accepts every
  job and the coordinator is absent.
\<close>

definition ex_collaborators :: "int \<Rightarrow> rval mem collaborators" where
  "ex_collaborators status =
     \<lparr>rc_synchronizer = Some (sync example_env mem_redis (send ex_client (ex_post status) 0)),
      rc_enqueue = enqueue_execution (\<lambda>_ _ _ _. ret (Some ())),
      rc_coordinator = None, rc_diagnostic = (\<lambda>j. 99)\<rparr>"

lemma runs_arq:
  "(\<And>f a g i. runs r (pool f a g i)) \<Longrightarrow> runs r (arq_enqueue f suffix pool j g)"
  unfolding arq_enqueue_def by (cases "physical_job_id j g") (auto intro!: runs_intros)

lemma ex_collaborators_laws:
  "capability_backend mem_redis example_env (rc_coordinator (ex_collaborators status))"
  "rc_synchronizer (ex_collaborators status) = Some sy \<Longrightarrow> state_synchronizer mem_redis example_env sy"
  "runs (store_step example_env mem_redis) (rc_enqueue (ex_collaborators status) j g)"
proof -
  show "capability_backend mem_redis example_env (rc_coordinator (ex_collaborators status))"
    by unfold_locales (simp add: ex_collaborators_def)
  show "rc_synchronizer (ex_collaborators status) = Some sy \<Longrightarrow> state_synchronizer mem_redis example_env sy"
    using mem_transport.client.synchronizer.state_synchronizer_axioms [of ex_client status 0]
    by (auto simp: ex_collaborators_def)
  show "runs (store_step example_env mem_redis) (rc_enqueue (ex_collaborators status) j g)"
    by (simp add: ex_collaborators_def enqueue_execution_def runs_arq runs_ret)
qed

interpretation mem_reconciler: reconciler mem_redis example_env "ex_collaborators status"
  by (intro reconciler.intro reconciler_axioms.intro mem_runtime ex_collaborators_laws)

lemma mem_reconciler [simp]: "reconciler mem_redis example_env (ex_collaborators status)"
  by (fact mem_reconciler.reconciler_axioms)

end
