(* ===== verification/Cost_Outbox.thy ===== *)
theory Cost_Outbox
  imports Callbacks
begin

text \<open>
  The outbox of cost summaries (app/jobs_v22/cost_persistence.py): a summary is stored and
  indexed, persisted by an HTTP call and only then deleted. The HTTP client and the ISO
  text of a time are parameters; the check of the storage URL is not modelled.
\<close>

subsection \<open>\<open>UUID(text)\<close>\<close>

fun replace_all :: "string \<Rightarrow> string \<Rightarrow> string" where
  "replace_all pat [] = []"
| "replace_all pat (c # cs) =
     (if pat \<noteq> [] \<and> take (length pat) (c # cs) = pat
      then replace_all pat (drop (length pat - 1) cs) else c # replace_all pat cs)"

text \<open>The digits of \<open>int(text, 16)\<close>: single underscores may stand between them.\<close>

fun hex_digits :: "bool \<Rightarrow> string \<Rightarrow> string option" where
  "hex_digits after_digit [] = (if after_digit then Some [] else None)"
| "hex_digits after_digit (c # cs) =
     (if c = CHR ''_'' then (if after_digit then hex_digits False cs else None)
      else let d = (if c \<in> set ''ABCDEF'' then char_of ((of_char c :: nat) + 32) else c)
           in if is_hex_digit d then map_option (Cons d) (hex_digits True cs) else None)"

definition py_int16 :: "string \<Rightarrow> int option" where
  "py_int16 text =
     (let t = strip_chars py_isspace text;
          neg = (take 1 t = ''-'');
          t = (if take 1 t = ''-'' \<or> take 1 t = ''+'' then drop 1 t else t);
          prefixed = (take 2 t = ''0x'' \<or> take 2 t = ''0X'');
          t = (if prefixed then drop 2 t else t);
          t = (if prefixed \<and> take 1 t = ''_'' then drop 1 t else t)
      in map_option (\<lambda>ds. let n = int (parse_hex ds) in if neg then - n else n) (hex_digits False t))"

definition py_uuid :: "string \<Rightarrow> uuid option" where
  "py_uuid v =
     (let h = replace_all ''uuid:'' (replace_all ''urn:'' v);
          h = replace_all ''-'' (strip_chars (\<lambda>c. c = CHR ''{'' \<or> c = CHR ''}'') h)
      in if length h \<noteq> 32 then None
         else (case py_int16 h of None \<Rightarrow> None
               | Some n \<Rightarrow> if 0 \<le> n \<and> n < 2 ^ 128 then Some (of_int n) else None))"

subsection \<open>\<open>UUID(str(u))\<close>\<close>

lemma replace_all_absent: "c \<notin> set s \<Longrightarrow> replace_all (c # pat) s = s"
  by (induction s) (auto simp: neq_Nil_conv)

lemma replace_all_char: "replace_all [c] s = filter (\<lambda>x. x \<noteq> c) s"
  by (induction s) auto

lemma strip_chars_absent: "(\<And>c. c \<in> set s \<Longrightarrow> \<not> p c) \<Longrightarrow> strip_chars p s = s"
proof -
  assume no: "\<And>c. c \<in> set s \<Longrightarrow> \<not> p c"
  have "dropWhile p t = t" if "set t \<subseteq> set s" for t
    using that no by (cases t) auto
  then show ?thesis by (simp add: strip_chars_def)
qed

lemma is_hex_digit_cases: "is_hex_digit c \<Longrightarrow> c \<in> set ''0123456789abcdef''"
  by (simp add: is_hex_digit_def)

lemma hex_digit_plain:
  assumes "is_hex_digit c"
  shows "c \<noteq> CHR ''u''" "c \<noteq> CHR ''{''" "c \<noteq> CHR ''}''" "c \<noteq> CHR ''x''" "c \<noteq> CHR ''X''"
    "c \<noteq> CHR ''-''" "c \<noteq> CHR ''+''" "c \<noteq> CHR ''_''" "c \<notin> set ''ABCDEF''" "\<not> py_isspace c"
  using is_hex_digit_cases [OF assms] by (auto simp: py_isspace_def white_space_def)

lemma uuid_str_chars:
  assumes "c \<in> set (uuid_str u)"
  shows "is_hex_digit c \<or> c = CHR ''-''"
proof (cases "c = CHR ''-''")
  case False
  then have "c \<in> set (filter (\<lambda>c. c \<noteq> CHR ''-'') (uuid_str u))" using assms by simp
  then have "c \<in> set (hex_pad 32 (unat u))" by (simp only: hex_of_uuid_str)
  then show ?thesis using list_all_hex_pad [of 32 "unat u"] by (auto simp: list_all_iff)
qed simp

lemma hex_digits_all: "list_all is_hex_digit h \<Longrightarrow> h \<noteq> [] \<or> b \<Longrightarrow> hex_digits b h = Some h"
proof (induction h arbitrary: b)
  case (Cons c h)
  then have "is_hex_digit c" "hex_digits True h = Some h" by simp_all
  then show ?case using hex_digit_plain [of c] by (simp add: Let_def)
qed simp

lemma py_int16_hex:
  assumes "list_all is_hex_digit h" "2 \<le> length h"
  shows "py_int16 h = Some (int (parse_hex h))"
proof -
  obtain a b r where h: "h = a # b # r" using assms(2) by (cases h; cases "tl h") auto
  have ab: "is_hex_digit a" "is_hex_digit b" using assms(1) by (simp_all add: h)
  have "strip_chars py_isspace h = h"
    using assms(1) hex_digit_plain(10) by (intro strip_chars_absent) (auto simp: list_all_iff)
  moreover have "hex_digits False h = Some h" by (rule hex_digits_all) (use assms in auto)
  ultimately show ?thesis
    using hex_digit_plain [OF ab(1)] hex_digit_plain [OF ab(2)] by (simp add: py_int16_def h)
qed

lemma py_uuid_uuid_str [simp]: "py_uuid (uuid_str u) = Some u"
proof -
  let ?h = "hex_pad 32 (unat u)"
  have "CHR ''u'' \<notin> set (uuid_str u)"
    using uuid_str_chars [of "CHR ''u''" u] hex_digit_plain(1) by auto
  then have 1: "replace_all ''uuid:'' (replace_all ''urn:'' (uuid_str u)) = uuid_str u"
    by (simp add: replace_all_absent)
  have 2: "strip_chars (\<lambda>c. c = CHR ''{'' \<or> c = CHR ''}'') (uuid_str u) = uuid_str u"
    using uuid_str_chars hex_digit_plain(2,3) by (intro strip_chars_absent) fastforce
  have "unat u < 2 ^ 128" using unsigned_less [of u] by simp
  then have 3: "parse_hex ?h = unat u" by (simp add: parse_hex_pad)
  have "py_int16 ?h = Some (int (unat u))"
    using py_int16_hex [of ?h] list_all_hex_pad 3 by simp
  moreover have "uint u < 2 ^ 128" using unsigned_less [of u] by simp
  ultimately show ?thesis
    using 3
    by (simp add: py_uuid_def 1 2 replace_all_char hex_of_uuid_str)
qed

subsection \<open>Persisting a summary (class CostSummaryPersister)\<close>

record summary_persister =
  sp_url :: string
  sp_service_role_key :: string
  sp_isoformat :: "timestamp \<Rightarrow> string"
  sp_json_text :: "json \<Rightarrow> string"

fun job_kind_name :: "cost_job_kind \<Rightarrow> string" where
  "job_kind_name Competitor_discovery = ''competitor_discovery''"
| "job_kind_name Prospect_report = ''prospect_report''"
| "job_kind_name Verified_report = ''verified_report''"
| "job_kind_name Gsc_sync = ''gsc_sync''"
| "job_kind_name Ga4_sync = ''ga4_sync''"
| "job_kind_name Gbp_sync = ''gbp_sync''"

definition persist_body :: "summary_persister \<Rightarrow> cost_summary_record \<Rightarrow> json" where
  "persist_body P r =
     JObj [(''p_job_id'', JStr (uuid_str (cs_job_id r))), (''p_case_id'', JStr (uuid_str (cs_case_id r))),
           (''p_job_kind'', JStr (job_kind_name (cs_job_kind r))),
           (''p_status'', JStr (status_name (cs_status r))),
           (''p_attempt_count'', JInt (cs_attempt_count r)),
           (''p_ledger_revision'', JInt (cs_ledger_revision r)),
           (''p_cost_counters'', JObj (map (\<lambda>(k, v). (k, JInt v)) (cs_cost_counters r))),
           (''p_started_at'', JStr (sp_isoformat P (cs_started_at r))),
           (''p_completed_at'', JStr (sp_isoformat P (cs_completed_at r)))]"

definition persist_summary ::
    "summary_persister \<Rightarrow> (http_request \<Rightarrow> ('s, int) program) \<Rightarrow> cost_summary_record \<Rightarrow> ('s, bool) program"
where
  "persist_summary P post r =
     handle
       (andThen
          (post \<lparr>rq_url = sp_url P @ ''/rest/v1/rpc/upsert_v22_job_cost_summary'',
                 rq_headers = [(''apikey'', sp_service_role_key P),
                   (''authorization'', ''Bearer '' @ sp_service_role_key P),
                   (''content-type'', ''application/json'')],
                 rq_content = sp_json_text P (persist_body P r)\<rparr>)
          (\<lambda>status. ret (200 \<le> status \<and> status < 300)))
       (\<lambda>e. if is_http_error e then ret False else throw e)"

subsection \<open>The outbox (class CostSummaryOutbox)\<close>

definition enqueue_summary ::
    "runtime_env \<Rightarrow> 's server \<Rightarrow> int \<Rightarrow> cost_summary_record \<Rightarrow> ('s, unit) program" where
  "enqueue_summary E R ttl r =
     (\<lambda>s. (rexec R [SetEx (cost_summary_key (env_prefix E) (cs_job_id r)) (VSummary r) ttl,
                    Zadd (cost_sync_pending_key (env_prefix E)) (uuid_str (cs_job_id r))
                      (of_timestamp (cs_completed_at r))] s, Inr ()))"

definition execute :: "'s server \<Rightarrow> rval rcmd list \<Rightarrow> ('s, unit) program" where
  "execute R cs = (\<lambda>s. (rexec R cs s, Inr ()))"

definition sync_summary ::
    "runtime_env \<Rightarrow> 's server \<Rightarrow> (cost_summary_record \<Rightarrow> ('s, bool) program) \<Rightarrow> uuid \<Rightarrow> ('s, bool) program"
where
  "sync_summary E R persist j =
     andThen (reads (\<lambda>s. Inr (rget R s (cost_summary_key (env_prefix E) j)))) (\<lambda>raw.
       case raw of
         None \<Rightarrow>
           andThen (execute R [Zrem (cost_sync_pending_key (env_prefix E)) (uuid_str j)]) (\<lambda>_. ret True)
       | Some (VSummary summary) \<Rightarrow>
           if \<not> summary_valid summary then ret False
           else if cs_job_id summary \<noteq> j then ret False
           else andThen (persist summary) (\<lambda>persisted.
             if \<not> persisted then ret False
             else andThen (execute R [Zrem (cost_sync_pending_key (env_prefix E)) (uuid_str j),
                                      Del [cost_summary_key (env_prefix E) j]]) (\<lambda>_. ret True))
       | Some _ \<Rightarrow> ret False)"

text \<open>The loop of \<open>flush\<close>; a member that is no UUID is dropped from the index.\<close>

fun flush_members ::
    "runtime_env \<Rightarrow> 's server \<Rightarrow> (cost_summary_record \<Rightarrow> ('s, bool) program) \<Rightarrow> string list \<Rightarrow> ('s, int) program"
where
  "flush_members E R persist [] = ret 0"
| "flush_members E R persist (raw_id # rest) =
     (case py_uuid raw_id of
        None \<Rightarrow>
          andThen (execute R [Zrem (cost_sync_pending_key (env_prefix E)) raw_id])
            (\<lambda>_. flush_members E R persist rest)
      | Some j \<Rightarrow>
          andThen (sync_summary E R persist j) (\<lambda>ok.
            andThen (flush_members E R persist rest) (\<lambda>n. ret (n + of_bool ok))))"

definition flush ::
    "runtime_env \<Rightarrow> 's server \<Rightarrow> (cost_summary_record \<Rightarrow> ('s, bool) program) \<Rightarrow> int \<Rightarrow> ('s, int) program"
where
  "flush E R persist limit =
     (if \<not> (1 \<le> limit \<and> limit \<le> 500) then throw (ValueError ''cost summary flush limit is invalid'')
      else andThen (reads (\<lambda>s. Inr (map fst (zrange R s (cost_sync_pending_key (env_prefix E)) (nat limit)))))
             (flush_members E R persist))"

subsection \<open>What the outbox guarantees\<close>

text \<open>A summary that a persister answering \<open>ok\<close>, without effect on the server, gets delivered.\<close>

definition deliverable ::
    "runtime_env \<Rightarrow> 's server \<Rightarrow> (cost_summary_record \<Rightarrow> bool) \<Rightarrow> 's \<Rightarrow> uuid \<Rightarrow> bool" where
  "deliverable E R ok s j \<longleftrightarrow>
     (case rget R s (cost_summary_key (env_prefix E) j) of
        Some (VSummary r) \<Rightarrow> summary_valid r \<and> cs_job_id r = j \<and> ok r | _ \<Rightarrow> False)"

locale summary_outbox = redis_laws R for R :: "('s, rval) redis" +
  fixes E :: runtime_env
begin

lemma execute_fst [simp]: "fst (execute R cs s) = rexec R cs s" "snd (execute R cs s) = Inr ()"
  by (simp_all add: execute_def)

lemma sync_summary_pure:
  "rget R (fst (sync_summary E R (\<lambda>r. ret (ok r)) j s)) =
     (if deliverable E R ok s j then (rget R s)(cost_summary_key (env_prefix E) j := None) else rget R s)"
  by (auto simp: sync_summary_def deliverable_def andThen_fst ret_def get_exec fun_eq_iff
      split: option.splits rval.splits)

lemma sync_summary_ok:
  "snd (sync_summary E R (\<lambda>r. ret (ok r)) j s) =
     Inr (deliverable E R ok s j \<or> rget R s (cost_summary_key (env_prefix E) j) = None)"
  by (auto simp: sync_summary_def deliverable_def andThen_snd ret_def split: option.splits rval.splits)

lemma flush_members_pure:
  "rget R (fst (flush_members E R (\<lambda>r. ret (ok r)) ms s)) (cost_summary_key (env_prefix E) j) =
     (if deliverable E R ok s j \<and> j \<in> set (List.map_filter py_uuid ms) then None
      else rget R s (cost_summary_key (env_prefix E) j))"
proof (induction ms arbitrary: s)
  case Nil
  then show ?case by (simp add: ret_def map_filter_simps)
next
  case (Cons m ms)
  show ?case
  proof (cases "py_uuid m")
    case None
    let ?s1 = "rexec R [Zrem (cost_sync_pending_key (env_prefix E)) m] s"
    have kv: "rget R ?s1 = rget R s" by (simp add: get_exec)
    then have "deliverable E R ok ?s1 j = deliverable E R ok s j" by (simp add: deliverable_def)
    then show ?thesis using None Cons.IH [of ?s1] kv
      by (simp add: andThen_fst map_filter_simps)
  next
    case (Some i)
    let ?s1 = "fst (sync_summary E R (\<lambda>r. ret (ok r)) i s)"
    have fst: "fst (flush_members E R (\<lambda>r. ret (ok r)) (m # ms) s) =
        fst (flush_members E R (\<lambda>r. ret (ok r)) ms ?s1)"
      using Some by (simp add: andThen_fst sync_summary_ok split: sum.splits)
    show ?thesis
    proof (cases "i = j")
      case True
      then show ?thesis using Some Cons.IH [of ?s1] unfolding fst
        by (auto simp: sync_summary_pure map_filter_simps deliverable_def)
    next
      case False
      then have "deliverable E R ok ?s1 j = deliverable E R ok s j"
        by (simp add: deliverable_def sync_summary_pure)
      then show ?thesis using Some False Cons.IH [of ?s1] unfolding fst
        by (auto simp: sync_summary_pure map_filter_simps)
    qed
  qed
qed

text \<open>Nothing is deleted while the persister does not answer True.\<close>

lemma sync_summary_kept:
  assumes r: "rget R s (cost_summary_key (env_prefix E) j) = Some (VSummary r)"
    and no: "snd (persist r s) \<noteq> Inr True"
  shows "snd (sync_summary E R persist j s) \<noteq> Inr True"
    and "fst (sync_summary E R persist j s) \<in> {s, fst (persist r s)}"
  using assms
  by (auto simp: sync_summary_def andThen_fst andThen_snd ret_def split: sum.splits if_splits)

end

interpretation mem_outbox: summary_outbox mem_redis example_env
  by unfold_locales

lemma mem_summary_outbox [simp]: "summary_outbox mem_redis"
  by (fact mem_outbox.summary_outbox_axioms)

end
