(* ===== verification/Recovery_Properties.thy ===== *)
theory Recovery_Properties
  imports Reconciler_Laws Cost_Outbox
begin

text \<open>
  The properties of delivery and recovery: callbacks, the queue's identifiers, the
  reconciler, terminal decisions and the summary outbox.
\<close>

subsection \<open>Callbacks\<close>

text \<open>
  Every valid state of a job has a valid callback event, whose id names the job and
  the revision.
\<close>

theorem valid_state_has_event:
  assumes "valid_state st" "js_revision st < 10 ^ 160"
  shows "\<exists>ev. build_callback_event st = Inr ev \<and> ev_event_id ev = event_id st
    \<and> ev_revision ev = js_revision st \<and> ev_status ev = js_status st \<and> ev_error ev = js_error st"
  using valid_state_event [OF assms] by (simp add: build_callback_event_def callback_event_def)

theorem valid_state_has_event_witness:
  "\<exists>ev. build_callback_event ex_initial = Inr ev \<and> ev_revision ev = 1"
proof -
  have "valid_state ex_initial \<and> js_revision ex_initial < 10 ^ 160 \<and> js_revision ex_initial = 1" by code_simp
  then show ?thesis using valid_state_has_event [of ex_initial] by auto
qed

text \<open>
  A synchronization that reports True has marked the revision it delivered and lost
  nothing: whatever other clients wrote while the request was in flight, the job still
  exists with at least that revision marked, and a newer revision is still in the callback
  index.
\<close>

theorem callback_loses_nothing:
  assumes "callback_sender R E sender" "store_inv E R s"
    and "get_state E R s j = Inr (Some st)" "snd (sync E R sender j s) = Inr True"
  shows "\<exists>st'. get_state E R (fst (sync E R sender j s)) j = Inr (Some st')
    \<and> js_revision st \<le> js_callback_synced_revision st'
    \<and> (js_callback_synced_revision st' < js_revision st' \<longrightarrow>
         zscore R (fst (sync E R sender j s)) (sync_pending_key (env_prefix E)) (uuid_str j)
           = Some (of_count (js_revision st')))"
proof -
  obtain st' where st': "get_state E R (fst (sync E R sender j s)) j = Inr (Some st')"
    "js_revision st \<le> js_callback_synced_revision st'"
    using callback_sender.sync_True [OF assms] by blast
  have "store_inv E R (fst (sync E R sender j s))"
    using job_runtime.run_inv [OF callback_sender.axioms(1) [OF assms(1)]
        runsD [OF callback_sender.runs_sync [OF assms(1)]] assms(2)] .
  from store_invD(2) [OF this st'(1)] st' show ?thesis by (auto simp: state_indexed_def)
qed

theorem callback_loses_nothing_witness:
  "\<exists>st'. get_state example_env mem_redis
      (fst (sync example_env mem_redis (send ex_client (ex_post 200) 0) 1 ex_running)) 1 = Inr (Some st')
    \<and> 2 \<le> js_callback_synced_revision st'"
proof -
  define st where "st = the (projr (get_state example_env mem_redis ex_running 1))"
  have "get_state example_env mem_redis ex_running 1 = Inr (Some st) \<and> js_revision st = 2"
    unfolding st_def by code_simp
  moreover have "snd (sync example_env mem_redis (send ex_client (ex_post 200) 0) 1 ex_running) = Inr True"
    by code_simp
  ultimately show ?thesis
    using callback_loses_nothing [OF mem_transport.client.callback_sender_axioms ex_inv(2)] by fastforce
qed

subsection \<open>The queue\<close>

text \<open>
  Physical run ids identify the job and its generation, so that the queue's
  deduplication never merges two runs, and a generation below 1 is refused.
\<close>

theorem physical_id_identifies_run:
  "physical_job_id i g = physical_job_id j h \<longleftrightarrow> (i = j \<and> g = h) \<or> (g < 1 \<and> h < 1)"
proof -
  have "uuid_str i @ '':run:'' @ int_str g = uuid_str j @ '':run:'' @ int_str h \<longleftrightarrow> i = j \<and> g = h"
    by simp
  then show ?thesis by (auto simp: physical_job_id_def)
qed

subsection \<open>The reconciler\<close>

text \<open>
  (C3) The reconciler decides a stale job by its state alone. A terminal job, and one whose
  generation still waits behind the barrier before the deadline, is left as it is. A job past
  its deadline fails for good, and a run that has used its attempts fails but may be retried
  by hand, both under their own generation with the next revision. Any other job is queued
  under the next generation and revision. That write happens whatever recovery entry of
  another generation was left over, and all that follows it, the callback, the barrier and
  the writes of other clients meanwhile, is a run of the store. This is for jobs that are not
  decided by the SQL coordinator.
\<close>

theorem stale_job_decided:
  assumes "reconciler R E K" "store_inv E R s"
    and "get_state E R s j = Inr (Some st)" "js_created_at st \<le> now"
    and "get_request E R s j = Inr req" "\<not> is_capability_request req"
  shows "case stale_decision now n
        (zscore R s (recovery_pending_key (env_prefix E)) (uuid_str j) = Some (of_count (js_run_generation st))) st of
      None \<Rightarrow> reconcile_stale E R K now n j s = (s, Inr ())
    | Some a \<Rightarrow> \<exists>s1. abs_job E R s1 j = Some a
        \<and> (store_step E R)\<^sup>*\<^sup>* s1 (fst (reconcile_stale E R K now n j s))"
proof (cases "terminal st")
  case True
  then show ?thesis
    using reconciler.stale_terminal [OF assms(1,3)] by (simp add: stale_decision_def Let_def)
next
  case False
  then show ?thesis using reconciler.stale_job [OF assms(1-3) _ assms(4-6)] by blast
qed

theorem stale_job_decided_witness:
  "(\<exists>s1. abs_job example_env mem_redis s1 1 = Some (Job_abs Queued 2 3 False)
      \<and> (store_step example_env mem_redis)\<^sup>*\<^sup>* s1
          (fst (reconcile_stale example_env mem_redis (ex_collaborators 500) 5000 3 1 ex_running)))
   \<and> reconcile_stale example_env mem_redis (ex_collaborators 500) 6000 3 1 ex_taken = (ex_taken, Inr ())"
proof (rule conjI)
  let ?k = "recovery_pending_key (env_prefix example_env)"
  have "case get_state example_env mem_redis ex_running 1 of
      Inr (Some st) \<Rightarrow> js_created_at st \<le> 5000 \<and> stale_decision 5000 3
        (zscore mem_redis ex_running ?k (uuid_str 1) = Some (of_count (js_run_generation st))) st
        = Some (Job_abs Queued 2 3 False) | _ \<Rightarrow> False" by code_simp
  then obtain st where st: "get_state example_env mem_redis ex_running 1 = Inr (Some st)"
    "js_created_at st \<le> 5000" "stale_decision 5000 3
        (zscore mem_redis ex_running ?k (uuid_str 1) = Some (of_count (js_run_generation st))) st
        = Some (Job_abs Queued 2 3 False)"
    by (auto split: sum.splits option.splits)
  have req: "get_request example_env mem_redis ex_running 1 = Inr (Some (JObj []))" by code_simp
  have nc: "\<not> is_capability_request (Some (JObj []))" by (simp add: is_capability_request_def)
  from stale_job_decided [OF mem_reconciler ex_inv(2) st(1,2) req nc, of 500 3] st(3)
  show "\<exists>s1. abs_job example_env mem_redis s1 1 = Some (Job_abs Queued 2 3 False)
      \<and> (store_step example_env mem_redis)\<^sup>*\<^sup>* s1
          (fst (reconcile_stale example_env mem_redis (ex_collaborators 500) 5000 3 1 ex_running))" by simp
  have "case get_state example_env mem_redis ex_taken 1 of
      Inr (Some st) \<Rightarrow> js_created_at st \<le> 6000 \<and> stale_decision 6000 3
        (zscore mem_redis ex_taken ?k (uuid_str 1) = Some (of_count (js_run_generation st))) st = None
      | _ \<Rightarrow> False" by code_simp
  then obtain st where st: "get_state example_env mem_redis ex_taken 1 = Inr (Some st)"
    "js_created_at st \<le> 6000" "stale_decision 6000 3
        (zscore mem_redis ex_taken ?k (uuid_str 1) = Some (of_count (js_run_generation st))) st = None"
    by (auto split: sum.splits option.splits)
  have req: "get_request example_env mem_redis ex_taken 1 = Inr (Some (JObj []))" by code_simp
  from stale_job_decided [OF mem_reconciler ex_inv(4) st(1,2) req nc, of 500 3] st(3)
  show "reconcile_stale example_env mem_redis (ex_collaborators 500) 6000 3 1 ex_taken = (ex_taken, Inr ())"
    by simp
qed

text \<open>
  A whole pass of the reconciler, whatever its collaborators and the other clients do
  meanwhile within the store's operations, keeps the store's indexes consistent, never
  loses a job, never lowers a revision or a generation, and leaves final outcomes as they
  are.
\<close>

theorem reconciler_pass_safe:
  assumes "reconciler R E K" "store_inv E R s" "abs_job E R s j = Some a"
    and "t = fst (reconcile_once E R K now stale_seconds max_attempts s)"
  shows "store_inv E R t \<and> (\<exists>b. abs_job E R t j = Some b
    \<and> ab_revision a \<le> ab_revision b \<and> ab_generation a \<le> ab_generation b
    \<and> (ab_status a = Succeeded \<or> (ab_status a = Failed \<and> \<not> ab_retryable a) \<longrightarrow> b = a))"
proof -
  note rt = reconciler.axioms(1) [OF assms(1)]
  have run: "(store_step E R)\<^sup>*\<^sup>* s t"
    unfolding assms(4) by (rule runsD [OF reconciler.runs_reconcile_once [OF assms(1)]])
  obtain b where "abs_job E R t j = Some b" "ab_revision a \<le> ab_revision b" "ab_generation a \<le> ab_generation b"
    using job_runtime.run_monotone [OF rt run assms(2,3)] by blast
  then show ?thesis
    using job_runtime.run_inv [OF rt run assms(2)] job_runtime.run_final [OF rt run assms(2,3)] by auto
qed

theorem reconciler_pass_safe_witness:
  "abs_job example_env mem_redis
     (fst (reconcile_once example_env mem_redis (ex_collaborators 200) 9000000000 60 3 (ex_failed False))) 1
   = Some (Job_abs Failed 1 3 False)"
proof -
  have "abs_job example_env mem_redis (ex_failed False) 1 = Some (Job_abs Failed 1 3 False)" by code_simp
  from reconciler_pass_safe [OF mem_reconciler ex_inv(3) this refl] show ?thesis by auto
qed

text \<open>
  (C10) The barrier: while finishing the recovery of a generation, the queue is asked to run
  it only when the job was found open, under that generation and before its deadline, and
  only in states where the revision that was found is already marked as delivered. A queue
  that behaves differently in any other case makes no difference.
\<close>

theorem enqueue_only_after_sync:
  assumes "reconciler R E K" "store_inv E R s" "get_state E R s j = Inr (Some st)"
    and "\<And>s1 st1. js_run_generation st = g \<Longrightarrow> \<not> terminal st \<Longrightarrow> now < js_deadline_at st \<Longrightarrow>
        (store_step E R)\<^sup>*\<^sup>* s s1 \<Longrightarrow> get_state E R s1 j = Inr (Some st1) \<Longrightarrow>
        js_revision st \<le> js_callback_synced_revision st1 \<Longrightarrow> rc_enqueue K j g s1 = other j g s1"
  shows "finish_pending_recovery E R (K\<lparr>rc_enqueue := other\<rparr>) now j g s =
    finish_pending_recovery E R K now j g s"
  by (rule reconciler.enqueue_after_sync [OF assms(1-3)]) (rule assms(4))

theorem enqueue_only_after_sync_witness:
  "finish_pending_recovery example_env mem_redis ((ex_collaborators 500)
      \<lparr>rc_enqueue := (\<lambda>j g s. if \<exists>st. get_state example_env mem_redis s j = Inr (Some st)
          \<and> 3 \<le> js_callback_synced_revision st then (s, Inr True) else (s, Inl TypeError))\<rparr>) 6000 1 2 ex_taken
   = finish_pending_recovery example_env mem_redis (ex_collaborators 500) 6000 1 2 ex_taken
 \<and> finish_pending_recovery example_env mem_redis ((ex_collaborators 500)
      \<lparr>rc_enqueue := (\<lambda>j g s. (s, Inl TypeError))\<rparr>) (10 ^ 20) 1 2 ex_taken
   = finish_pending_recovery example_env mem_redis (ex_collaborators 500) (10 ^ 20) 1 2 ex_taken"
proof -
  have "case get_state example_env mem_redis ex_taken 1 of
      Inr (Some st) \<Rightarrow> js_revision st = 3 \<and> js_deadline_at st \<le> 10 ^ 20 | _ \<Rightarrow> False" by code_simp
  then obtain st where st: "get_state example_env mem_redis ex_taken 1 = Inr (Some st)" "js_revision st = 3"
      "js_deadline_at st \<le> 10 ^ 20"
    by (auto split: sum.splits option.splits)
  have enq: "rc_enqueue (ex_collaborators 500) 1 2 s = (s, Inr True)" for s
    by (simp add: ex_collaborators_def enqueue_execution_def arq_enqueue_def physical_job_id_def
        ret_def andThen_def)
  show ?thesis
    by (intro conjI; rule enqueue_only_after_sync [OF mem_reconciler ex_inv(4) st(1)])
      (use st(2,3) in \<open>auto simp: enq\<close>)
qed

text \<open>
  A recovered job past its deadline is failed for good: the recovery writes the
  terminal, not retryable failure under the same generation with the next revision,
  reports no error, and the job stays so.
\<close>

theorem deadline_recovery_fails:
  assumes "reconciler R E K" "store_inv E R s"
    and "get_state E R s j = Inr (Some st)" "\<not> terminal st"
    and "js_created_at st \<le> now" "js_deadline_at st \<le> now"
    and "get_request E R s j = Inr req" "\<not> is_capability_request req"
  shows "snd (finish_pending_recovery E R K now j (js_run_generation st) s) = Inr ()
    \<and> abs_job E R (fst (finish_pending_recovery E R K now j (js_run_generation st) s)) j =
      Some (Job_abs Failed (js_run_generation st) (js_revision st + 1) False)"
  using reconciler.deadline_recovery [OF assms] by simp

text \<open>
  A generation that still waits behind the barrier is never taken over again: while
  the job is in the recovery index a take-over is not applied and changes nothing.
\<close>

theorem pending_recovery_blocks_takeover:
  assumes "zscore R s (recovery_pending_key (env_prefix E)) (uuid_str j) \<noteq> None"
    and "get_state E R s j = Inr (Some st)"
  shows "take_over_stale E R j g now s = (s, Inr \<lparr>tr_state = st, tr_applied = False\<rparr>)"
  using assms by (simp add: take_over_stale_def take_over_body_def run_txn.simps)

end
