(* ===== verification/Outbox_Properties.thy ===== *)
theory Outbox_Properties
  imports Cost_Outbox Ledger_Properties
begin

text \<open>
  The properties of the summary outbox: the identifiers it writes are the ones it reads
  back, a flush deletes exactly the summaries it delivered, and what is not persisted
  stays.
\<close>

subsection \<open>A concrete summary\<close>

lemma ex_summary_exists: "\<exists>r. summary_valid r \<and> cs_job_id r = 1"
proof -
  let ?l = "the (ledger_at ex_ledger mem_redis ex_completed)"
  obtain c where c: "cost_counters_from_state ?l 4000 = Inr c"
    using snapshot_total [OF ex_snapshot(1-4)] by blast
  have v1: "cost_counters_v1 c = Inr c"
    using c by (auto simp: cost_counters_from_state_def split: sum.splits dest: cost_counters_v1_Inr)
  have rev: "counter_value c (Base Cost_ledger_revision) = led_revision ?l"
    by (simp add: counter_value_eq [OF c] initial_counters_def denial_delta_def)
  obtain r where r: "\<And>k. map_of c (counter_name k) = Some (r k)"
    by (rule cost_counters_from_state_raw [OF c]) blast
  have "map_of c (counter_name (Base Cost_ledger_revision)) = Some (led_revision ?l)"
    using rev r [of "Base Cost_ledger_revision"] by (simp add: counter_value_def)
  then have m: "map_of c ''cost_ledger_revision'' = Some (led_revision ?l)" by simp
  have "1 \<le> led_revision ?l" using ex_snapshot(1) by (simp add: ledger_valid_def)
  then have "summary_valid \<lparr>cs_job_id = 1, cs_case_id = 2, cs_job_kind = Prospect_report,
      cs_status = Succeeded, cs_attempt_count = 1, cs_ledger_revision = led_revision ?l,
      cs_cost_counters = c, cs_started_at = 1000, cs_completed_at = 4000\<rparr>"
    using v1 m by (simp add: summary_valid_def)
  then show ?thesis by (metis cost_summary_record.select_convs(1))
qed

lemma ex_enqueued:
  assumes "cs_job_id r = 1"
  shows "rget mem_redis (fst (enqueue_summary example_env mem_redis 3600 r mem_empty))
      (cost_summary_key (env_prefix example_env) 1) = Some (VSummary r)"
    and "map fst (zrange mem_redis (fst (enqueue_summary example_env mem_redis 3600 r mem_empty))
      (cost_sync_pending_key (env_prefix example_env)) 50) = [uuid_str 1]"
  using assms
  by (simp_all add: enqueue_summary_def mem_redis_def zrange_def mem_zall_def mem_norm_def mem_empty_def
      zput_def zset_wf_def)

subsection \<open>Properties\<close>

text \<open>
  A flush with a persister that has no effect on the server deletes exactly the valid
  summaries, of the jobs among the first members of the index, that the persister
  accepted; every other summary stays stored.
\<close>

theorem flush_deletes_delivered:
  assumes "summary_outbox R" "1 \<le> limit" "limit \<le> 500"
  shows "rget R (fst (flush E R (\<lambda>r. ret (ok r)) limit s)) (cost_summary_key (env_prefix E) j) =
    (if deliverable E R ok s j \<and> j \<in> set (List.map_filter py_uuid
          (map fst (zrange R s (cost_sync_pending_key (env_prefix E)) (nat limit))))
     then None else rget R s (cost_summary_key (env_prefix E) j))"
  using assms(2,3) summary_outbox.flush_members_pure [OF assms(1)] by (simp add: flush_def)

text \<open>
  A summary that replaces the one being persisted is deleted with it: the deletion is not
  conditional on the text that was read.
\<close>

lemma sync_deletes_newer_summary:
  assumes "summary_outbox R" "0 < ttl"
    and "rget R s (cost_summary_key (env_prefix E) j) = Some (VSummary old)"
    and "summary_valid old" "cs_job_id old = j" "cs_job_id newer = j"
    and "persist = (\<lambda>r. andThen (enqueue_summary E R ttl newer) (\<lambda>_. ret True))"
  shows "snd (sync_summary E R persist j s) = Inr True
    \<and> rget R (fst (sync_summary E R persist j s)) (cost_summary_key (env_prefix E) j) = None
    \<and> zscore R (fst (sync_summary E R persist j s)) (cost_sync_pending_key (env_prefix E)) (uuid_str j) = None"
proof -
  note laws = summary_outbox.axioms [OF assms(1)]
  have key: "cost_sync_pending_key (env_prefix E) \<noteq> cost_summary_key (env_prefix E) j"
    by (simp add: cost_sync_pending_key_def cost_summary_key_def)
  show ?thesis
    using assms(3-6) key
    by (simp add: assms(7) sync_summary_def andThen_snd andThen_fst enqueue_summary_def execute_def
        redis_laws.get_exec [OF laws] redis_laws.zscore_exec [OF laws])
qed

end
