(* ===== verification/Worker.thy ===== *)
theory Worker
  imports Reconciler Cost_Outbox Cost_Ledger Checkpoints
begin

text \<open>
  The worker that executes one physical run of a job (app/jobs_v22/worker.py). The executor
  that produces the report is a parameter; it gets the stage reporter of the run and acts on
  the server's state. The readings of the clock during a run, the lease token and the
  diagnostic id are arguments. Logging is left out.
\<close>

text \<open>What \<open>asyncio.wait_for(executor.execute(...), timeout)\<close> gives when it does not raise an Exception.\<close>

datatype execution = Report durable_report | Timed_out | Cancelled

type_synonym 's executor =
  "uuid \<Rightarrow> json \<Rightarrow> timestamp \<Rightarrow> job_checkpoints \<Rightarrow> (job_stage \<Rightarrow> ('s, unit) program) \<Rightarrow> ledger_config
   \<Rightarrow> int \<Rightarrow> ('s, execution) program"

record 's worker_context =
  wk_lease_seconds :: int
  wk_state_ttl_seconds :: int
  wk_max_attempts :: int
  wk_cost_pricing :: "pricing_catalog option"
  wk_settings :: cost_settings
  wk_synchronizer :: "(uuid \<Rightarrow> ('s, bool) program) option"
  wk_coordinator :: "'s capability_coordinator option"
  wk_outbox :: "(int \<times> (cost_summary_record \<Rightarrow> ('s, bool) program)) option"
  wk_execute :: "'s executor"
  wk_heartbeat_lost :: "'s \<Rightarrow> bool"          \<comment> \<open>the event of the heartbeat task\<close>
  wk_lease_token :: string
  wk_diagnostic :: uuid

text \<open>The readings of the clocks in one run, by where the source reads them.\<close>

record run_clock =
  rt_ledger :: timestamp
  rt_now :: timestamp
  rt_started :: timestamp
  rt_stage :: "job_stage \<Rightarrow> timestamp"
  rt_remaining :: timestamp
  rt_elapsed_ms :: int
  rt_recorded :: timestamp
  rt_snapshot :: "timestamp \<times> timestamp"
  rt_finished :: timestamp
  rt_summary :: "timestamp \<times> timestamp"

subsection \<open>Retries\<close>

text \<open>The first byte of the digest, read from its hex text.\<close>

definition retry_delay_seconds :: "runtime_env \<Rightarrow> uuid \<Rightarrow> int \<Rightarrow> int" where
  "retry_delay_seconds E j attempt_count =
     (let base = min (5 * 2 ^ nat (max (attempt_count - 1) 0)) 60;
          digest = env_sha256 E (uuid_str j @ '':'' @ int_str attempt_count);
          jitter = int (parse_hex (take 2 digest) mod 4)
      in base + jitter)"

subsection \<open>The ledger of a run\<close>

definition run_ledger ::
    "runtime_env \<Rightarrow> 's worker_context \<Rightarrow> uuid \<Rightarrow> timestamp \<Rightarrow> exn + ledger_config" where
  "run_ledger E K j created_at =
     (case (case wk_cost_pricing K of Some p \<Rightarrow> Inr p
            | None \<Rightarrow> pricing_catalog_from_settings (wk_settings K)) of
        Inl e \<Rightarrow> Inl e
      | Inr pricing \<Rightarrow> new_job_cost_ledger
          \<lparr>lg_prefix = env_prefix E, lg_job_id = j, lg_ttl_seconds = wk_state_ttl_seconds K,
           lg_pricing = pricing, lg_job_created_at = created_at, lg_require_existing = False\<rparr>)"

text \<open>
  A capability run that has cost counters or an attempt behind it requires its ledger; once
  initialised, losing it stops the run.
\<close>

definition open_ledger ::
    "'s server \<Rightarrow> run_clock \<Rightarrow> job_state \<Rightarrow> json option \<Rightarrow> ledger_config \<Rightarrow> ('s, ledger_config) program"
where
  "open_ledger R T state request C =
     (if is_capability_request request
      then
        andThen
          (handle
             (ensure (C\<lparr>lg_require_existing := js_cost_counters state \<noteq> [] \<or> 0 < js_attempt_count state\<rparr>)
                R (rt_ledger T))
             (\<lambda>_. throw (Retry 30)))
          (\<lambda>_. ret (C\<lparr>lg_require_existing := True\<rparr>))
      else andThen (ensure C R (rt_ledger T)) (\<lambda>_. ret C))"

definition run_job_kind :: "json option \<Rightarrow> cost_job_kind" where
  "run_job_kind request =
     (case request of
        None \<Rightarrow> Prospect_report
      | Some v \<Rightarrow>
          if jget ''schema_version'' v = Some (JStr ''v22_verified_request_envelope_v1'')
             \<or> (jget ''schema_version'' v = Some capability_schema
                \<and> (case jget ''capability_request'' v of
                     Some (JObj kvs) \<Rightarrow> map_of kvs ''report_type'' = Some (JStr ''verified_execution'')
                   | _ \<Rightarrow> False))
          then Verified_report else Prospect_report)"

subsection \<open>Notification and cost summary\<close>

definition notify_state :: "'s worker_context \<Rightarrow> uuid \<Rightarrow> ('s, unit) program" where
  "notify_state K j = try_sync (wk_synchronizer K) j"

definition cost_summary ::
    "job_state \<Rightarrow> cost_job_kind \<Rightarrow> timestamp \<Rightarrow> counters \<Rightarrow> exn + cost_summary_record" where
  "cost_summary state kind completed_at counts =
     (case map_of counts ''cost_ledger_revision'' of
        None \<Rightarrow> Inl (OtherException ''KeyError'')
      | Some revision \<Rightarrow>
          (let r = \<lparr>cs_job_id = js_job_id state, cs_case_id = js_case_id state, cs_job_kind = kind,
                cs_status = js_status state, cs_attempt_count = js_attempt_count state,
                cs_ledger_revision = revision, cs_cost_counters = counts,
                cs_started_at = js_created_at state, cs_completed_at = completed_at\<rparr>
           in if summary_valid r then Inr r else Inl ValidationError))"

definition enqueue_cost_summary ::
    "runtime_env \<Rightarrow> 's server \<Rightarrow> 's worker_context \<Rightarrow> run_clock \<Rightarrow> job_state \<Rightarrow> cost_job_kind
     \<Rightarrow> ('s, unit) program" where
  "enqueue_cost_summary E R K T state kind =
     (case wk_outbox K of
        None \<Rightarrow> ret ()
      | Some (ttl, persist) \<Rightarrow>
          (case js_completed_at state of
             None \<Rightarrow> ret ()
           | Some completed_at \<Rightarrow>
               if \<not> terminal state then ret ()
               else
                 handle
                   (case run_ledger E K (js_job_id state) (js_created_at state) of
                      Inl e \<Rightarrow> throw e
                    | Inr C \<Rightarrow>
                        andThen (snapshot C R (fst (rt_summary T)) (snd (rt_summary T))) (\<lambda>counts.
                        case cost_summary state kind completed_at counts of
                          Inl e \<Rightarrow> throw e
                        | Inr summary \<Rightarrow>
                            andThen (enqueue_summary E R ttl summary) (\<lambda>_.
                              ignore (sync_summary E R persist (js_job_id state)))))
                   (\<lambda>_. ret ())))"

definition after_terminal ::
    "runtime_env \<Rightarrow> 's server \<Rightarrow> 's worker_context \<Rightarrow> run_clock \<Rightarrow> cost_job_kind \<Rightarrow> uuid
     \<Rightarrow> transition_result \<Rightarrow> ('s, unit) program" where
  "after_terminal E R K T kind j updated =
     (if tr_applied updated
      then andThen (notify_state K j) (\<lambda>_. enqueue_cost_summary E R K T (tr_state updated) kind)
      else ret ())"

definition reconcile_v22_cost_summaries ::
    "runtime_env \<Rightarrow> 's server \<Rightarrow> 's worker_context \<Rightarrow> ('s, unit) program" where
  "reconcile_v22_cost_summaries E R K =
     (case wk_outbox K of None \<Rightarrow> ret () | Some (ttl, persist) \<Rightarrow> ignore (flush E R persist 50))"

subsection \<open>Failures\<close>

definition requeue_args ::
    "job_state \<Rightarrow> timestamp \<Rightarrow> int \<Rightarrow> counters option \<Rightarrow> int \<Rightarrow> transition_args" where
  "requeue_args state now attempt_count cost_counters run_generation =
     (transition_call Queued St_queued (js_progress state)
        ''A temporary issue occurred. The task will retry automatically.'' now)
     \<lparr>ta_attempt_count := Some attempt_count, ta_cost_counters := cost_counters,
      ta_expected_generation := Some run_generation\<rparr>"

definition failure_error :: "classified_job_error \<Rightarrow> uuid \<Rightarrow> job_error_state" where
  "failure_error failure diagnostic_id =
     \<lparr>er_error_code = (if ce_retryable failure then ''JOB_RETRY_EXHAUSTED'' else ce_error_code failure),
      er_user_message =
        (if ce_retryable failure
         then ''The analysis could not be completed after multiple attempts. Please retry later.''
         else ce_user_message failure),
      er_retryable = ce_retryable failure, er_stage = St_failed, er_diagnostic_id = diagnostic_id\<rparr>"

definition failed_args ::
    "job_state \<Rightarrow> string \<Rightarrow> job_error_state \<Rightarrow> timestamp \<Rightarrow> int \<Rightarrow> counters option \<Rightarrow> int \<Rightarrow> transition_args"
where
  "failed_args state user_message err now attempt_count cost_counters run_generation =
     (transition_call Failed St_failed (js_progress state) user_message now)
     \<lparr>ta_attempt_count := Some attempt_count, ta_error := Some err,
      ta_cost_counters := cost_counters, ta_expected_generation := Some run_generation\<rparr>"

definition finish_failure ::
    "runtime_env \<Rightarrow> 's server \<Rightarrow> 's worker_context \<Rightarrow> run_clock \<Rightarrow> job_state \<Rightarrow> exn \<Rightarrow> int
     \<Rightarrow> counters option \<Rightarrow> cost_job_kind \<Rightarrow> ('s, unit) program" where
  "finish_failure E R K T state e run_generation cost_counters kind =
     (let failure = classify_job_exception e;
          attempt_count = max (js_attempt_count state) 1;
          now = rt_finished T; j = js_job_id state
      in
      if e = JobLeaseLost then ret ()
      else if ce_retryable failure \<and> attempt_count < wk_max_attempts K
      then
        andThen (transition E R j (requeue_args state now attempt_count cost_counters run_generation))
          (\<lambda>queued.
             andThen (if tr_applied queued then notify_state K j else ret ())
               (\<lambda>_. throw (Retry (retry_delay_seconds E j attempt_count))))
      else
        (case validate_error_state (failure_error failure (wk_diagnostic K)) of
           None \<Rightarrow> throw ValidationError
         | Some err \<Rightarrow>
             andThen (capability_terminal_transition E R (wk_coordinator K) state err now True cost_counters)
               (\<lambda>(handled, updated).
                  if handled
                  then (case updated of
                          None \<Rightarrow> throw (Retry 30)
                        | Some u \<Rightarrow> after_terminal E R K T kind j u)
                  else
                    andThen
                      (transition E R j
                         (failed_args state (er_user_message (failure_error failure (wk_diagnostic K)))
                            err now attempt_count cost_counters run_generation))
                      (after_terminal E R K T kind j))))"

text \<open>\<open>_finish_failure(..., cost_counters=(await ledger.snapshot()).root)\<close>\<close>

definition fail_with_costs ::
    "runtime_env \<Rightarrow> 's server \<Rightarrow> 's worker_context \<Rightarrow> run_clock \<Rightarrow> ledger_config \<Rightarrow> job_state \<Rightarrow> exn
     \<Rightarrow> int \<Rightarrow> cost_job_kind \<Rightarrow> ('s, unit) program" where
  "fail_with_costs E R K T C state e run_generation kind =
     andThen (snapshot C R (fst (rt_snapshot T)) (snd (rt_snapshot T))) (\<lambda>counts.
       finish_failure E R K T state e run_generation (Some counts) kind)"

subsection \<open>The run\<close>

fun stage_message :: "job_stage \<Rightarrow> string option" where
  "stage_message St_collecting_market = Some ''Checking the saved search context and source validity.''"
| "stage_message St_collecting_site = Some ''Checking website pages and the public business profile.''"
| "stage_message St_collecting_competitors =
     Some ''Collecting the confirmed competitors' public evidence.''"
| "stage_message St_building_evidence = Some ''Organising saved sources for the diagnosis.''"
| "stage_message St_evaluating = Some ''Evaluating the evidence and supported actions.''"
| "stage_message St_validating = Some ''Validating the report and its source references.''"
| "stage_message St_persisting = Some ''Saving the validated report.''"
| "stage_message _ = None"

definition report_stage ::
    "runtime_env \<Rightarrow> 's server \<Rightarrow> 's worker_context \<Rightarrow> run_clock \<Rightarrow> uuid \<Rightarrow> int \<Rightarrow> job_stage
     \<Rightarrow> ('s, unit) program" where
  "report_stage E R K T j run_generation stage =
     andThen (reads (\<lambda>s. require_state E R s j)) (\<lambda>current.
     andThen (reads (\<lambda>s. Inr (wk_heartbeat_lost K s))) (\<lambda>lost.
       if js_run_generation current \<noteq> run_generation \<or> js_status current \<noteq> Running \<or> lost
       then throw JobLeaseLost
       else (case stage_message stage of
               None \<Rightarrow> throw (OtherException ''KeyError'')
             | Some message \<Rightarrow>
                 andThen
                   (transition E R j
                      ((transition_call Running stage (js_progress current) message (rt_stage T stage))
                       \<lparr>ta_expected_generation := Some run_generation\<rparr>))
                   (\<lambda>updated. if \<not> tr_applied updated then throw JobLeaseLost else notify_state K j))))"

definition running_args :: "run_clock \<Rightarrow> job_state \<Rightarrow> json \<Rightarrow> int \<Rightarrow> transition_args" where
  "running_args T state request run_generation =
     (transition_call Running
        (if jget ''schema_version'' request = Some capability_schema
         then St_building_evidence else St_collecting_site)
        (max (js_progress state) 1) ''Analysis is running.'' (rt_started T))
     \<lparr>ta_attempt_count := Some (js_attempt_count state + 1), ta_heartbeat_at := Some (rt_started T),
      ta_expected_generation := Some run_generation\<rparr>"

definition succeeded_args :: "run_clock \<Rightarrow> durable_report \<Rightarrow> counters \<Rightarrow> int \<Rightarrow> transition_args" where
  "succeeded_args T report cost_counters run_generation =
     (transition_call Succeeded St_completed 100 ''Analysis complete.'' (rt_finished T))
     \<lparr>ta_report := Some report, ta_cost_counters := Some cost_counters,
      ta_expected_generation := Some run_generation\<rparr>"

text \<open>The body of the \<open>try\<close>: the report, unless the lease was lost meanwhile.\<close>

definition run_executor ::
    "runtime_env \<Rightarrow> 's server \<Rightarrow> 's worker_context \<Rightarrow> run_clock \<Rightarrow> uuid \<Rightarrow> int \<Rightarrow> job_state \<Rightarrow> json
     \<Rightarrow> ledger_config \<Rightarrow> ('s, execution) program" where
  "run_executor E R K T j run_generation state request C =
     andThen
       (wk_execute K j request (js_created_at state)
          \<lparr>ck_ttl_seconds = wk_state_ttl_seconds K, ck_run_generation = Some run_generation\<rparr>
          (report_stage E R K T j run_generation) C
          (max (js_deadline_at state - rt_remaining T) 1000))
       (\<lambda>x. case x of
              Report r \<Rightarrow>
                andThen (reads (\<lambda>s. Inr (wk_heartbeat_lost K s))) (\<lambda>lost.
                  if lost then throw JobLeaseLost else ret (Report r))
            | _ \<Rightarrow> ret x)"

text \<open>
  The three \<open>except\<close> clauses: a TimeoutError, of the executor or of \<open>wait_for\<close>, is the
  deadline of the job; a cancellation goes on; any other exception is classified.
\<close>

definition finish_run ::
    "runtime_env \<Rightarrow> 's server \<Rightarrow> 's worker_context \<Rightarrow> run_clock \<Rightarrow> ledger_config \<Rightarrow> uuid \<Rightarrow> int
     \<Rightarrow> job_state \<Rightarrow> cost_job_kind \<Rightarrow> exn + execution \<Rightarrow> ('s, unit) program" where
  "finish_run E R K T C j run_generation running kind x =
     andThen (record_job_attempt C R (max (rt_elapsed_ms T) 0) Execution_phase (rt_recorded T)) (\<lambda>_.
       case x of
         Inl e \<Rightarrow>
           if e = CancelledError then throw CancelledError
           else fail_with_costs E R K T C running (if e = TimeoutError then JobDeadlineExceeded else e)
                  run_generation kind
       | Inr Timed_out \<Rightarrow> fail_with_costs E R K T C running JobDeadlineExceeded run_generation kind
       | Inr Cancelled \<Rightarrow> throw CancelledError
       | Inr (Report report) \<Rightarrow>
           andThen (snapshot C R (fst (rt_snapshot T)) (snd (rt_snapshot T))) (\<lambda>counts.
           andThen (transition E R j (succeeded_args T report counts run_generation))
             (after_terminal E R K T kind j)))"

definition execute_with_lease ::
    "runtime_env \<Rightarrow> 's server \<Rightarrow> 's worker_context \<Rightarrow> run_clock \<Rightarrow> job_state \<Rightarrow> uuid \<Rightarrow> int
     \<Rightarrow> ('s, unit) program" where
  "execute_with_lease E R K T state j run_generation =
     (case run_ledger E K j (js_created_at state) of
        Inl e \<Rightarrow> throw e
      | Inr C0 \<Rightarrow>
          andThen (reads (\<lambda>s. get_request E R s j)) (\<lambda>request.
          andThen (open_ledger R T state request C0) (\<lambda>C.
          let kind = run_job_kind request in
          if js_deadline_at state \<le> rt_now T
          then fail_with_costs E R K T C state JobDeadlineExceeded run_generation kind
          else (case request of
             None \<Rightarrow>
               fail_with_costs E R K T C state
                 (DeterministicJobError ''JOB_REQUEST_MISSING''
                    ''The persisted analysis request is unavailable.'') run_generation kind
           | Some req \<Rightarrow>
               andThen (transition E R j (running_args T state req run_generation)) (\<lambda>running.
                 if \<not> tr_applied running then ret ()
                 else
                   andThen (notify_state K j) (\<lambda>_.
                   andThen (outcome (run_executor E R K T j run_generation state req C))
                     (finish_run E R K T C j run_generation (tr_state running) kind)))))))"

definition execute_v22_job ::
    "runtime_env \<Rightarrow> 's server \<Rightarrow> 's worker_context \<Rightarrow> run_clock \<Rightarrow> string \<Rightarrow> int \<Rightarrow> ('s, unit) program"
where
  "execute_v22_job E R K T job_id_value run_generation =
     (case py_uuid job_id_value of
        None \<Rightarrow> throw (ValueError ''badly formed hexadecimal UUID string'')
      | Some j \<Rightarrow>
          andThen (reads (\<lambda>s. require_state E R s j)) (\<lambda>state.
            if terminal state \<or> js_run_generation state \<noteq> run_generation then ret ()
            else
              andThen (always (acquire_lease E R j run_generation (wk_lease_token K) (wk_lease_seconds K)))
                (\<lambda>acquired.
                   if \<not> acquired then ret ()
                   else
                     finally_do (execute_with_lease E R K T state j run_generation)
                       (ignore (release_lease E R j run_generation (wk_lease_token K))))))"

text \<open>
  The heartbeat task: one round after each interval that passes before the run stops it, at
  the given times. True: the round set \<open>heartbeat_lost\<close> and ended the task.
\<close>

definition heartbeat_round ::
    "runtime_env \<Rightarrow> 's server \<Rightarrow> 's worker_context \<Rightarrow> uuid \<Rightarrow> int \<Rightarrow> timestamp \<Rightarrow> ('s, bool) program" where
  "heartbeat_round E R K j run_generation now =
     handle
       (andThen (refresh_lease E R j run_generation (wk_lease_token K) (wk_lease_seconds K)) (\<lambda>refreshed.
          if \<not> refreshed then ret True
          else andThen (heartbeat E R j run_generation now) (\<lambda>_. ret False)))
       (\<lambda>e. ret (e = JobLeaseLost))"

fun maintain_heartbeat ::
    "runtime_env \<Rightarrow> 's server \<Rightarrow> 's worker_context \<Rightarrow> uuid \<Rightarrow> int \<Rightarrow> timestamp list \<Rightarrow> ('s, bool) program"
where
  "maintain_heartbeat E R K j run_generation [] = ret False"
| "maintain_heartbeat E R K j run_generation (now # later) =
     andThen (heartbeat_round E R K j run_generation now) (\<lambda>lost.
       if lost then ret True else maintain_heartbeat E R K j run_generation later)"

end
