(* ===== verification/Worker_Laws.thy ===== *)
theory Worker_Laws
  imports Worker Reconciler_Laws Ledger_Laws
begin

text \<open>
  What the worker guarantees. The locale \<open>job_worker\<close> collects the contracts of its
  collaborators: each of them, while it runs, only lets steps of the store happen, and the
  executor does so when the stage reporter it is given does. In it a whole run of a job is a
  run of the store.
\<close>

subsection \<open>Retry delays\<close>

lemma retry_delay_bounds: "5 \<le> retry_delay_seconds E j n" "retry_delay_seconds E j n \<le> 63"
proof -
  have jitter: "int (parse_hex x mod 4) \<le> 3" for x
  proof -
    have "parse_hex x mod 4 < 4" by simp
    then show ?thesis by linarith
  qed
  have base: "(5::int) \<le> min (5 * 2 ^ k) 60" for k :: nat
  proof -
    have "(1::int) \<le> 2 ^ k" by simp
    then show ?thesis by simp
  qed
  show "5 \<le> retry_delay_seconds E j n"
    unfolding retry_delay_seconds_def Let_def by (rule add_increasing2) (simp_all add: base del: min.bounded_iff)
  show "retry_delay_seconds E j n \<le> 63"
    using jitter [of "take 2 (env_sha256 E (uuid_str j @ '':'' @ int_str n))"]
    by (simp add: retry_delay_seconds_def Let_def)
qed

subsection \<open>Applied transitions\<close>

text \<open>The state a write leaves is valid when the arguments fit the status.\<close>

definition args_fit :: "transition_args \<Rightarrow> job_state \<Rightarrow> bool" where
  "args_fit a st \<longleftrightarrow>
     strip_text (ta_message a) = ta_message a \<and> text_len 1 500 (ta_message a)
   \<and> 0 \<le> ta_progress a \<and> ta_progress a \<le> 100 \<and> js_created_at st \<le> ta_now a
   \<and> (\<forall>n. ta_attempt_count a = Some n \<longrightarrow> 0 \<le> n)
   \<and> (\<forall>c. ta_cost_counters a = Some c \<longrightarrow> validate_cost_counters_snapshot c = Inr c)
   \<and> ta_report a = None
   \<and> (case ta_status a of
        Succeeded \<Rightarrow> False
      | Failed \<Rightarrow> ta_stage a = St_failed \<and> (\<exists>e. ta_error a = Some e \<and> validate_error_state e = Some e)
      | _ \<Rightarrow> ta_error a = None)"

lemma next_state_valid: "valid_state st \<Longrightarrow> args_fit a st \<Longrightarrow> valid_state (next_state a st)"
  unfolding valid_state_iff
  by (cases "ta_status a")
    (auto simp: args_fit_def next_state_def fields_ok_def lifecycle_ok_def split: option.splits)

context job_runtime
begin

lemma transition_applies:
  assumes inv: "store_inv E R s" and st: "get_state E R s j = Inr (Some st)" "\<not> terminal st"
    and a: "ta_expected_generation a = Some (js_run_generation st)"
      "ta_status a \<in> set (ALLOWED_TRANSITIONS (js_status st))" "args_fit a st"
  shows "transition E R j a s =
      (fst (transition E R j a s), Inr \<lparr>tr_state = next_state a st, tr_applied = True\<rparr>)"
    and "get_state E R (fst (transition E R j a s)) j = Inr (Some (next_state a st))"
proof -
  have v: "valid_state st" using store_invD(2) [OF inv st(1)] by (simp add: state_indexed_def)
  have n: "valid_state (next_state a st)" by (rule next_state_valid [OF v a(3)])
  then have body: "transition_body E R j a s =
      Commit (transition_commands E j (ta_now a) (next_state a st))
        [(events_key (env_prefix E) j, int_str (js_revision (next_state a st)))]
        \<lparr>tr_state = next_state a st, tr_applied = True\<rparr>"
    using st a(1,2) by (simp add: transition_body_def)
  have ok: "list_all cmd_ok (transition_commands E j (ta_now a) (next_state a st))"
    using env by (auto simp: transition_commands_def Let_def)
  note r = run_txn_Commit [of "transition_body E R j a" s, OF body ok]
  show "transition E R j a s =
      (fst (transition E R j a s), Inr \<lparr>tr_state = next_state a st, tr_applied = True\<rparr>)"
    using r(1) by (simp add: transition_def prod_eq_iff)
  have "rget R (fst (transition E R j a s)) (state_key (env_prefix E) j) = Some (VState (next_state a st))"
    using r(2) by (simp add: transition_def transition_commands_def Let_def)
  then show "get_state E R (fst (transition E R j a s)) j = Inr (Some (next_state a st))"
    using n by (simp add: get_state_def)
qed

lemma transition_applies_abs:
  assumes "store_inv E R s" "get_state E R s j = Inr (Some st)" "\<not> terminal st"
    and "ta_expected_generation a = Some (js_run_generation st)"
      "ta_status a \<in> set (ALLOWED_TRANSITIONS (js_status st))" "args_fit a st"
  shows "abs_job E R (fst (transition E R j a s)) j =
    Some (Job_abs (ta_status a) (js_run_generation st) (js_revision st + 1)
      (case ta_error a of None \<Rightarrow> False | Some e \<Rightarrow> er_retryable e))"
proof -
  have "abs_job E R (fst (transition E R j a s)) j = Some (abs_state (next_state a st))"
    using transition_applies(2) [OF assms] abs_job_Some_iff [OF transition_inv [OF assms(1)]] by blast
  then show ?thesis by (simp add: abs_state_def job_retryable_def next_state_def)
qed

subsection \<open>Other components' keys\<close>

lemma runs_elsewhere:
  assumes "\<And>s j. rget R (fst (p s)) (state_key (env_prefix E) j) = rget R s (state_key (env_prefix E) j)"
    and "\<And>s k. k \<in> {active_key (env_prefix E), sync_pending_key (env_prefix E),
           recovery_pending_key (env_prefix E)} \<Longrightarrow> zscore R (fst (p s)) k = zscore R s k"
  shows "runs (store_step E R) p"
  by (intro runs_step step_elsewhere) (simp_all only: assms)

lemma mutate_views:
  assumes C: "lg_prefix C = env_prefix E" "0 < lg_ttl_seconds C"
  shows "rget R (fst (mutate C R f now s)) (state_key (env_prefix E) j) = rget R s (state_key (env_prefix E) j)"
    and "k \<in> {active_key (env_prefix E), sync_pending_key (env_prefix E),
           recovery_pending_key (env_prefix E)} \<Longrightarrow> zscore R (fst (mutate C R f now s)) k = zscore R s k"
proof -
  have "(rget R (fst (mutate C R f now s)) (state_key (env_prefix E) j) = rget R s (state_key (env_prefix E) j))
    \<and> (k \<in> {active_key (env_prefix E), sync_pending_key (env_prefix E),
           recovery_pending_key (env_prefix E)} \<longrightarrow> zscore R (fst (mutate C R f now s)) k = zscore R s k)"
  proof (cases "mutate_body C R f now s")
    case (Commit cs pubs a)
    then obtain l where cs: "cs = [SetEx (ledger_key C) (VLedger l) (lg_ttl_seconds C)]"
      by (auto simp: mutate_body_def split: sum.splits)
    then have "list_all cmd_ok cs" using C by simp
    from run_txn_Commit [of "mutate_body C R f now" s, OF Commit this] show ?thesis
      by (auto simp: mutate_def cs ledger_key_def C)
  qed (simp_all add: mutate_def run_txn_Fail run_txn_Return)
  then show "rget R (fst (mutate C R f now s)) (state_key (env_prefix E) j) = rget R s (state_key (env_prefix E) j)"
    "k \<in> {active_key (env_prefix E), sync_pending_key (env_prefix E),
           recovery_pending_key (env_prefix E)} \<Longrightarrow> zscore R (fst (mutate C R f now s)) k = zscore R s k"
    by blast+
qed

lemma runs_mutate:
  assumes "lg_prefix C = env_prefix E" "0 < lg_ttl_seconds C"
  shows "runs (store_step E R) (mutate C R f now)"
  by (rule runs_elsewhere) (simp_all only: mutate_views [OF assms])

lemma runs_ledger:
  assumes C: "lg_prefix C = env_prefix E" "0 < lg_ttl_seconds C"
  shows "runs (store_step E R) (ensure C R now)"
    and "runs (store_step E R) (record_job_attempt C R ms phase now)"
    and "runs (store_step E R) (snapshot C R now now')"
proof -
  note m = runsD [OF runs_mutate [OF C]]
  show "runs (store_step E R) (ensure C R now)"
    by (simp add: runs_def ensure_def m)
  show "runs (store_step E R) (record_job_attempt C R ms phase now)"
    by (simp add: runs_def record_job_attempt_def m)
  show "runs (store_step E R) (snapshot C R now now')"
    by (auto simp: runs_def fst_snapshot ledger_state_def ensure_def m split: option.splits)
qed

lemma runs_commands:
  assumes "list_all cmd_ok cs"
    and "\<And>m j. fold cmd_kv cs m (state_key (env_prefix E) j) = m (state_key (env_prefix E) j)"
    and "\<And>z k. k \<in> {active_key (env_prefix E), sync_pending_key (env_prefix E),
           recovery_pending_key (env_prefix E)} \<Longrightarrow> fold cmd_zs cs z k = z k"
  shows "runs (store_step E R) (execute R cs)"
  by (rule runs_elsewhere) (simp_all add: execute_def get_exec [OF assms(1)] zscore_exec [OF assms(1)] assms(2,3))

lemma runs_enqueue_summary: "0 < ttl \<Longrightarrow> runs (store_step E R) (enqueue_summary E R ttl r)"
  unfolding enqueue_summary_def execute_def [symmetric]
  by (rule runs_commands) auto

lemma runs_sync_summary:
  assumes "\<And>r. runs (store_step E R) (persist r)"
  shows "runs (store_step E R) (sync_summary E R persist j)"
proof -
  have x: "runs (store_step E R) (execute R [Zrem (cost_sync_pending_key (env_prefix E)) m])"
    "runs (store_step E R) (execute R [Zrem (cost_sync_pending_key (env_prefix E)) m,
        Del [cost_summary_key (env_prefix E) i]])" for m i
    by (rule runs_commands, auto)+
  have "runs (store_step E R) (case raw of
         None \<Rightarrow>
           andThen (execute R [Zrem (cost_sync_pending_key (env_prefix E)) (uuid_str j)]) (\<lambda>_. ret True)
       | Some (VSummary summary) \<Rightarrow>
           if \<not> summary_valid summary then ret False
           else if cs_job_id summary \<noteq> j then ret False
           else andThen (persist summary) (\<lambda>persisted.
             if \<not> persisted then ret False
             else andThen (execute R [Zrem (cost_sync_pending_key (env_prefix E)) (uuid_str j),
                                      Del [cost_summary_key (env_prefix E) j]]) (\<lambda>_. ret True))
       | Some _ \<Rightarrow> ret False)" for raw
    by (auto intro!: runs_intros x assms split: option.split rval.split)
  then show ?thesis unfolding sync_summary_def by (intro runs_andThen runs_reads)
qed

end

subsection \<open>When the executor runs\<close>

text \<open>
  An execution of job \<open>j\<close> under generation \<open>g\<close> that the worker started from \<open>s\<close> owns the
  job when it calls the executor in \<open>s1\<close>: it found the job open under that generation, before
  its deadline, with its request and without a lease; by steps of the store it then held the lease under its own
  token and wrote the job as running, with one more attempt, under that generation; and
  since then the store has made steps only.
\<close>

definition owned_run ::
    "runtime_env \<Rightarrow> 's server \<Rightarrow> 's worker_context \<Rightarrow> run_clock \<Rightarrow> uuid \<Rightarrow> int \<Rightarrow> 's \<Rightarrow> json \<Rightarrow> 's \<Rightarrow> bool" where
  "owned_run E R K T j g s req s1 \<longleftrightarrow>
     rget R s (lease_key (env_prefix E) j) = None \<and> get_request E R s j = Inr (Some req)
   \<and> (\<exists>st s0 nxt. get_state E R s j = Inr (Some st) \<and> \<not> terminal st \<and> js_run_generation st = g
       \<and> rt_now T < js_deadline_at st
       \<and> holds_lease E R s0 j g (wk_lease_token K) \<and> get_state E R s0 j = Inr (Some nxt)
       \<and> js_status nxt = Running \<and> js_run_generation nxt = g
       \<and> js_attempt_count nxt = js_attempt_count st + 1 \<and> js_revision nxt = js_revision st + 1
       \<and> (store_step E R)\<^sup>*\<^sup>* s s0 \<and> (store_step E R)\<^sup>*\<^sup>* s0 s1)"

text \<open>Two executors agree where the run is owned and the checkpoints are fenced.\<close>

definition same_executor ::
    "(json \<Rightarrow> 's \<Rightarrow> bool) \<Rightarrow> int \<Rightarrow> 's executor \<Rightarrow> 's executor \<Rightarrow> bool" where
  "same_executor owned g x y \<longleftrightarrow>
     (\<forall>j req created ck report C lim s1. owned req s1 \<longrightarrow> ck_run_generation ck = Some g \<longrightarrow>
        x j req created ck report C lim s1 = y j req created ck report C lim s1)"

context job_runtime
begin

text \<open>The ledger writes its own key only.\<close>

definition ledger_only :: "ledger_config \<Rightarrow> 's \<Rightarrow> 's \<Rightarrow> bool" where
  "ledger_only C s t \<longleftrightarrow> (\<forall>k. k \<noteq> ledger_key C \<longrightarrow> rget R t k = rget R s k \<and> zscore R t k = zscore R s k)"

lemma ledger_only_refl [simp]: "ledger_only C s s"
  by (simp add: ledger_only_def)

lemma ledger_only_trans: "ledger_only C s t \<Longrightarrow> ledger_only C t u \<Longrightarrow> ledger_only C s u"
  by (simp add: ledger_only_def)

lemma mutate_ledger_only:
  assumes "0 < lg_ttl_seconds C"
  shows "ledger_only C s (fst (mutate C R f now s))"
proof (cases "mutate_body C R f now s")
  case (Commit cs pubs a)
  then obtain l where cs: "cs = [SetEx (ledger_key C) (VLedger l) (lg_ttl_seconds C)]"
    by (auto simp: mutate_body_def split: sum.splits)
  then have "list_all cmd_ok cs" using assms by simp
  from run_txn_Commit [of "mutate_body C R f now" s, OF Commit this] show ?thesis
    by (simp add: mutate_def cs ledger_only_def)
qed (simp_all add: mutate_def run_txn_Fail run_txn_Return)

lemma ledger_programs_only:
  assumes "0 < lg_ttl_seconds C"
  shows "ledger_only C s (fst (ensure C R now s))"
    and "ledger_only C s (fst (record_job_attempt C R ms phase now s))"
    and "ledger_only C s (fst (snapshot C R now now' s))"
    and "ledger_only C s (fst (open_ledger R T st req C s))"
proof -
  note m = mutate_ledger_only [OF assms]
  have e: "ledger_only C s (fst (ensure C' R now s))"
    if "ledger_key C' = ledger_key C" "lg_ttl_seconds C' = lg_ttl_seconds C" for C' now
    using that mutate_ledger_only [of C' s _ now] assms by (simp add: ensure_def ledger_only_def)
  show "ledger_only C s (fst (ensure C R now s))" by (simp add: ensure_def m)
  show "ledger_only C s (fst (record_job_attempt C R ms phase now s))" by (simp add: record_job_attempt_def m)
  show "ledger_only C s (fst (snapshot C R now now' s))"
    by (auto simp: fst_snapshot ledger_state_def ensure_def m split: option.splits)
  show "ledger_only C s (fst (open_ledger R T st req C s))"
    using e by (auto simp: open_ledger_def andThen_fst handle_def case_prod_beta throw_def ret_def
        ledger_key_def split: sum.splits)
qed

lemma ledger_only_views:
  assumes "ledger_only C s t" "lg_prefix C = env_prefix E"
  shows "get_state E R t j = get_state E R s j" "get_request E R t j = get_request E R s j"
    "holds_lease E R t j g tok = holds_lease E R s j g tok"
    "rget R t (lease_key (env_prefix E) j) = rget R s (lease_key (env_prefix E) j)"
  using assms by (simp_all add: ledger_only_def get_state_def get_request_def holds_lease_def ledger_key_def)

end

subsection \<open>The worker and its collaborators\<close>

locale job_worker = job_runtime R E for R :: "('s, rval) redis" and E :: runtime_env +
  fixes K :: "'s worker_context"
  assumes backend: "capability_backend R E (wk_coordinator K)"
    and synchronizer: "wk_synchronizer K = Some sy \<Longrightarrow> state_synchronizer R E sy"
    and runs_execute: "(\<And>stage. runs (store_step E R) (report stage)) \<Longrightarrow>
      runs (store_step E R) (wk_execute K j req t ck report C timeout)"
    and outbox: "wk_outbox K = Some (ttl, persist) \<Longrightarrow> 0 < ttl \<and> runs (store_step E R) (persist r)"
    and lease: "0 < wk_lease_seconds K"
begin

lemma runs_notify [runs_intros]: "runs (store_step E R) (notify_state K j)"
proof -
  have "wk_synchronizer K = Some sy \<Longrightarrow> runs (store_step E R) (sy j)" for sy
    by (rule state_synchronizer.runs_synchronize [OF synchronizer])
  then show ?thesis
    unfolding notify_state_def try_sync_def
    by (cases "wk_synchronizer K") (auto intro!: runs_intros)
qed

lemma run_ledger_config:
  assumes "run_ledger E K j t = Inr C"
  shows "lg_prefix C = env_prefix E" "0 < lg_ttl_seconds C"
  using assms by (auto simp: run_ledger_def new_job_cost_ledger_def split: sum.splits if_splits)

lemma runs_enqueue_cost_summary [runs_intros]:
  "runs (store_step E R) (enqueue_cost_summary E R K T st kind)"
proof (cases "wk_outbox K")
  case None
  then show ?thesis by (simp add: enqueue_cost_summary_def runs_ret)
next
  case (Some o1)
  obtain ttl persist where o1: "o1 = (ttl, persist)" by (cases o1)
  then have ox: "0 < ttl" "runs (store_step E R) (persist r)" for r using outbox Some by blast+
  have post: "runs (store_step E R)
      (case cost_summary st kind t counts of Inl e \<Rightarrow> throw e
       | Inr summary \<Rightarrow> andThen (enqueue_summary E R ttl summary) (\<lambda>_.
           ignore (sync_summary E R persist (js_job_id st))))" for t counts
    unfolding ignore_def
    by (cases "cost_summary st kind t counts")
      (auto intro!: runs_intros runs_enqueue_summary runs_sync_summary ox)
  have body: "runs (store_step E R)
      (case run_ledger E K (js_job_id st) (js_created_at st) of Inl e \<Rightarrow> throw e
       | Inr C \<Rightarrow> andThen (snapshot C R a b) (\<lambda>counts.
           case cost_summary st kind t counts of Inl e \<Rightarrow> throw e
           | Inr summary \<Rightarrow> andThen (enqueue_summary E R ttl summary) (\<lambda>_.
               ignore (sync_summary E R persist (js_job_id st)))))" for a b t
    by (cases "run_ledger E K (js_job_id st) (js_created_at st)")
      (auto intro!: runs_intros post runs_ledger dest: run_ledger_config)
  show ?thesis
    unfolding enqueue_cost_summary_def Some o1 option.case prod.case
    by (cases "js_completed_at st") (auto intro!: runs_intros body)
qed

lemma runs_after_terminal [runs_intros]: "runs (store_step E R) (after_terminal E R K T kind j u)"
  unfolding after_terminal_def by (intro runs_intros)

lemma runs_finish_failure:
  "runs (store_step E R) (finish_failure E R K T st e g cc kind)"
proof -
  have h: "runs (store_step E R)
      (case u of None \<Rightarrow> throw (Retry 30) | Some u \<Rightarrow> after_terminal E R K T kind j u)" for u j
    by (cases u) (auto intro!: runs_intros)
  note cap = capability_backend.runs_capability_terminal [OF backend]
  show ?thesis
    unfolding finish_failure_def Let_def
    by (cases "validate_error_state (failure_error (classify_job_exception e) (wk_diagnostic K))")
      (auto intro!: runs_intros cap h)
qed

lemma runs_fail_with_costs:
  "lg_prefix C = env_prefix E \<Longrightarrow> 0 < lg_ttl_seconds C \<Longrightarrow>
   runs (store_step E R) (fail_with_costs E R K T C st e g kind)"
  unfolding fail_with_costs_def by (intro runs_andThen runs_ledger runs_finish_failure)

lemma runs_report_stage: "runs (store_step E R) (report_stage E R K T j g stage)"
  unfolding report_stage_def by (intro runs_intros)

lemma runs_run_executor: "runs (store_step E R) (run_executor E R K T j g st req C)"
proof -
  have "runs (store_step E R) (case x of
              Report r \<Rightarrow>
                andThen (reads (\<lambda>s. Inr (wk_heartbeat_lost K s))) (\<lambda>lost.
                  if lost then throw JobLeaseLost else ret (Report r))
            | _ \<Rightarrow> ret x)" for x
    by (cases x) (auto intro!: runs_intros simp del: andThen_reads)
  then show ?thesis
    unfolding run_executor_def by (intro runs_andThen runs_execute runs_report_stage)
qed

lemma runs_finish_run:
  assumes C: "lg_prefix C = env_prefix E" "0 < lg_ttl_seconds C"
  shows "runs (store_step E R) (finish_run E R K T C j g st kind x)"
proof -
  have "runs (store_step E R) (case x of
         Inl e \<Rightarrow>
           if e = CancelledError then throw CancelledError
           else fail_with_costs E R K T C st (if e = TimeoutError then JobDeadlineExceeded else e) g kind
       | Inr Timed_out \<Rightarrow> fail_with_costs E R K T C st JobDeadlineExceeded g kind
       | Inr Cancelled \<Rightarrow> throw CancelledError
       | Inr (Report report) \<Rightarrow>
           andThen (snapshot C R (fst (rt_snapshot T)) (snd (rt_snapshot T))) (\<lambda>counts.
           andThen (transition E R j (succeeded_args T report counts g))
             (after_terminal E R K T kind j)))"
    by (auto intro!: runs_intros runs_fail_with_costs runs_ledger C split: sum.split execution.split)
  then show ?thesis unfolding finish_run_def by (intro runs_andThen runs_ledger C)
qed

lemma open_ledger_config:
  assumes "snd (open_ledger R T st req C s) = Inr C'"
  shows "lg_prefix C' = lg_prefix C" "lg_ttl_seconds C' = lg_ttl_seconds C"
  using assms by (auto simp: open_ledger_def andThen_snd ret_def split: sum.splits if_splits)

lemma runs_open_ledger:
  "lg_prefix C = env_prefix E \<Longrightarrow> 0 < lg_ttl_seconds C \<Longrightarrow>
   runs (store_step E R) (open_ledger R T st req C)"
  unfolding open_ledger_def by (intro runs_intros runs_ledger) simp_all

lemma runs_execute_with_lease: "runs (store_step E R) (execute_with_lease E R K T st j g)"
proof (cases "run_ledger E K j (js_created_at st)")
  case (Inl e)
  then show ?thesis by (simp add: execute_with_lease_def runs_throw)
next
  case (Inr C0)
  note C0 = run_ledger_config [OF Inr]
  have run: "runs (store_step E R)
      (let kind = run_job_kind request in
          if js_deadline_at st \<le> rt_now T
          then fail_with_costs E R K T C st JobDeadlineExceeded g kind
          else (case request of
             None \<Rightarrow>
               fail_with_costs E R K T C st
                 (DeterministicJobError ''JOB_REQUEST_MISSING''
                    ''The persisted analysis request is unavailable.'') g kind
           | Some req \<Rightarrow>
               andThen (transition E R j (running_args T st req g)) (\<lambda>running.
                 if \<not> tr_applied running then ret ()
                 else
                   andThen (notify_state K j) (\<lambda>_.
                   andThen (outcome (run_executor E R K T j g st req C))
                     (finish_run E R K T C j g (tr_state running) kind)))))"
    if "lg_prefix C = env_prefix E" "0 < lg_ttl_seconds C" for C request
    unfolding Let_def
    by (intro runs_intros runs_fail_with_costs runs_run_executor runs_finish_run that)
  have opened: "runs (store_step E R) (andThen (open_ledger R T st request C0) f)"
    if "\<And>C. lg_prefix C = env_prefix E \<Longrightarrow> 0 < lg_ttl_seconds C \<Longrightarrow> runs (store_step E R) (f C)"
    for request and f :: "_ \<Rightarrow> ('s, unit) program"
    by (rule runs_andThen_result [OF runs_open_ledger [OF C0]])
      (use C0 in \<open>auto intro!: that dest: open_ledger_config\<close>)
  show ?thesis
    unfolding execute_with_lease_def Inr sum.case
    by (rule runs_andThen [OF runs_reads], rule opened, rule run)
qed

lemma runs_execute_v22_job: "runs (store_step E R) (execute_v22_job E R K T v g)"
proof (cases "py_uuid v")
  case None
  then show ?thesis by (simp add: execute_v22_job_def runs_throw)
next
  case (Some j)
  have ig: "runs r p \<Longrightarrow> runs r (ignore p)" for r and p :: "('s, bool) program"
    unfolding ignore_def by (intro runs_intros)
  show ?thesis
    unfolding execute_v22_job_def Some option.case
    by (intro runs_intros ig runs_lease lease runs_execute_with_lease)
qed

subsection \<open>The guards of a run\<close>

lemma swap_executor:
  "wk_heartbeat_lost (K\<lparr>wk_execute := other\<rparr>) = wk_heartbeat_lost K"
  "wk_state_ttl_seconds (K\<lparr>wk_execute := other\<rparr>) = wk_state_ttl_seconds K"
  "run_ledger E (K\<lparr>wk_execute := other\<rparr>) = run_ledger E K"
  "notify_state (K\<lparr>wk_execute := other\<rparr>) = notify_state K"
  "report_stage E R (K\<lparr>wk_execute := other\<rparr>) T = report_stage E R K T"
proof -
  show l: "wk_heartbeat_lost (K\<lparr>wk_execute := other\<rparr>) = wk_heartbeat_lost K"
    "wk_state_ttl_seconds (K\<lparr>wk_execute := other\<rparr>) = wk_state_ttl_seconds K"
    "run_ledger E (K\<lparr>wk_execute := other\<rparr>) = run_ledger E K"
    by (simp_all add: run_ledger_def fun_eq_iff split: option.split sum.split)
  show n: "notify_state (K\<lparr>wk_execute := other\<rparr>) = notify_state K"
    by (simp add: notify_state_def fun_eq_iff)
  show "report_stage E R (K\<lparr>wk_execute := other\<rparr>) T = report_stage E R K T"
    unfolding fun_eq_iff report_stage_def l n by (intro allI refl)
qed

lemma swap_executor_fields [simp]:
  "wk_outbox (K\<lparr>wk_execute := other\<rparr>) = wk_outbox K"
  "wk_max_attempts (K\<lparr>wk_execute := other\<rparr>) = wk_max_attempts K"
  "wk_diagnostic (K\<lparr>wk_execute := other\<rparr>) = wk_diagnostic K"
  "wk_coordinator (K\<lparr>wk_execute := other\<rparr>) = wk_coordinator K"
  "wk_lease_token (K\<lparr>wk_execute := other\<rparr>) = wk_lease_token K"
  "wk_lease_seconds (K\<lparr>wk_execute := other\<rparr>) = wk_lease_seconds K"
  by simp_all

lemma swap_executor_finish:
  "after_terminal E R (K\<lparr>wk_execute := other\<rparr>) = after_terminal E R K"
  "finish_failure E R (K\<lparr>wk_execute := other\<rparr>) = finish_failure E R K"
  "fail_with_costs E R (K\<lparr>wk_execute := other\<rparr>) = fail_with_costs E R K"
  "finish_run E R (K\<lparr>wk_execute := other\<rparr>) = finish_run E R K"
proof -
  show a: "after_terminal E R (K\<lparr>wk_execute := other\<rparr>) = after_terminal E R K"
    unfolding fun_eq_iff after_terminal_def enqueue_cost_summary_def swap_executor swap_executor_fields
    by (intro allI refl)
  show f: "finish_failure E R (K\<lparr>wk_execute := other\<rparr>) = finish_failure E R K"
    unfolding fun_eq_iff finish_failure_def swap_executor swap_executor_fields a by (intro allI refl)
  show c: "fail_with_costs E R (K\<lparr>wk_execute := other\<rparr>) = fail_with_costs E R K"
    unfolding fun_eq_iff fail_with_costs_def f by (intro allI refl)
  show "finish_run E R (K\<lparr>wk_execute := other\<rparr>) = finish_run E R K"
    unfolding fun_eq_iff finish_run_def a c by (intro allI refl)
qed

text \<open>
  The guards of an execution: an executor that behaves differently only when the worker does
  not own the job, or is not given checkpoints fenced by the generation, makes no
  difference.
\<close>

lemma executor_owned:
  assumes agree: "same_executor (owned_run E R K T j g s) g other (wk_execute K)"
  shows "execute_v22_job E R (K\<lparr>wk_execute := other\<rparr>) T (uuid_str j) g s =
    execute_v22_job E R K T (uuid_str j) g s"
proof -
  let ?K = "K\<lparr>wk_execute := other\<rparr>"
  have run: "outcome (run_executor E R ?K T j g st req C) s1 = outcome (run_executor E R K T j g st req C) s1"
    if "owned_run E R K T j g s req s1" for st req C s1
  proof -
    have "run_executor E R ?K T j g st req C s1 = run_executor E R K T j g st req C s1"
      unfolding run_executor_def swap_executor
      using agree that by (intro andThen_cong) (simp_all add: same_executor_def)
    then show ?thesis by (simp add: outcome_def)
  qed
  have leased: "execute_with_lease E R ?K T st j g s0 = execute_with_lease E R K T st j g s0"
    if st: "get_state E R s j = Inr (Some st)" "\<not> terminal st" "js_run_generation st = g"
      and free: "rget R s (lease_key (env_prefix E) j) = None"
      and s0: "s0 = fst (acquire_lease E R j g (wk_lease_token K) (wk_lease_seconds K) s)" for st s0
  proof (cases "run_ledger E K j (js_created_at st)")
    case (Inl e)
    then show ?thesis by (simp add: execute_with_lease_def swap_executor)
  next
    case (Inr C0)
    note C0 = run_ledger_config [OF Inr]
    have kv: "rget R s0 = (rget R s)(lease_key (env_prefix E) j \<mapsto> VText (lease_value E g (wk_lease_token K)))"
      using acquire_lease_views(2) [OF lease, of j g "wk_lease_token K" s] free by (simp add: s0)
    have v0: "get_state E R s0 j = Inr (Some st)" "get_request E R s0 j = get_request E R s j"
      "holds_lease E R s0 j g (wk_lease_token K)"
      using st(1) by (simp_all add: kv get_state_def get_request_def holds_lease_def)
    show ?thesis
      unfolding execute_with_lease_def swap_executor swap_executor_finish Inr sum.case
    proof (intro andThen_cong refl)
      fix request C
      assume "snd (reads (\<lambda>s. get_request E R s j) s0) = Inr request"
      then have rq: "get_request E R s j = Inr request"
        "fst (reads (\<lambda>s. get_request E R s j) s0) = s0" by (simp_all add: reads_def v0)
      let ?s1 = "fst (open_ledger R T st request C0 (fst (reads (\<lambda>s. get_request E R s j) s0)))"
      note v1 = ledger_only_views [OF ledger_programs_only(4) [OF C0(2), where T = T and st = st
            and req = request and s = s0] C0(1), of j]
      show "(let kind = run_job_kind request in
          if js_deadline_at st \<le> rt_now T
          then fail_with_costs E R K T C st JobDeadlineExceeded g kind
          else (case request of
             None \<Rightarrow>
               fail_with_costs E R K T C st
                 (DeterministicJobError ''JOB_REQUEST_MISSING''
                    ''The persisted analysis request is unavailable.'') g kind
           | Some req \<Rightarrow>
               andThen (transition E R j (running_args T st req g)) (\<lambda>running.
                 if \<not> tr_applied running then ret ()
                 else
                   andThen (notify_state K j) (\<lambda>_.
                   andThen (outcome (run_executor E R ?K T j g st req C))
                     (finish_run E R K T C j g (tr_state running) kind))))) ?s1 =
        (let kind = run_job_kind request in
          if js_deadline_at st \<le> rt_now T
          then fail_with_costs E R K T C st JobDeadlineExceeded g kind
          else (case request of
             None \<Rightarrow>
               fail_with_costs E R K T C st
                 (DeterministicJobError ''JOB_REQUEST_MISSING''
                    ''The persisted analysis request is unavailable.'') g kind
           | Some req \<Rightarrow>
               andThen (transition E R j (running_args T st req g)) (\<lambda>running.
                 if \<not> tr_applied running then ret ()
                 else
                   andThen (notify_state K j) (\<lambda>_.
                   andThen (outcome (run_executor E R K T j g st req C))
                     (finish_run E R K T C j g (tr_state running) kind))))) ?s1"
      proof (cases "request = None \<or> js_deadline_at st \<le> rt_now T")
        case True
        then show ?thesis by (auto simp: Let_def)
      next
        case False
        then obtain req where req: "request = Some req" "rt_now T < js_deadline_at st" by auto
        have "owned_run E R K T j g s req s2"
          if run: "snd (transition E R j (running_args T st req g) ?s1) = Inr u" "tr_applied u"
            and s2: "(store_step E R)\<^sup>*\<^sup>* (fst (transition E R j (running_args T st req g) ?s1)) s2" for u s2
        proof (rule transition_elim [of j "running_args T st req g" ?s1])
          fix current nxt
          assume t: "get_state E R ?s1 j = Inr (Some current)"
              "validate_job_state (next_state (running_args T st req g) current) = Inr nxt"
              "rget R (fst (transition E R j (running_args T st req g) ?s1)) =
                 (rget R ?s1)(state_key (env_prefix E) j \<mapsto> VState nxt)"
          have cur: "current = st" using t(1) v1(1) v0(1) rq(2) by simp
          note n = validate_job_state_Inr [OF t(2)]
          have "get_state E R (fst (transition E R j (running_args T st req g) ?s1)) j = Inr (Some nxt)"
            "holds_lease E R (fst (transition E R j (running_args T st req g) ?s1)) j g (wk_lease_token K)"
            unfolding rq(2) using n(1) v1(3) v0(3)
            by (simp_all add: get_state_def t(3) [unfolded rq(2)] valid_state_def holds_lease_def)
          moreover have "js_status nxt = Running" "js_run_generation nxt = g"
            "js_attempt_count nxt = js_attempt_count st + 1" "js_revision nxt = js_revision st + 1"
            using n st(3) by (simp_all add: cur next_state_def running_args_def transition_call_def)
          moreover have "(store_step E R)\<^sup>*\<^sup>* s (fst (transition E R j (running_args T st req g) ?s1))"
            using step_acquire [OF lease, of E R s j g "wk_lease_token K"]
              runsD [OF runs_open_ledger [OF C0], of s0 T st request]
              step_transition [of E R ?s1 j "running_args T st req g"] rq(2)
            by (auto simp: s0 intro: rtranclp.rtrancl_into_rtrancl converse_rtranclp_into_rtranclp)
          ultimately show ?thesis
            unfolding owned_run_def using st free req rq(1) s2 by blast
        qed (use run in auto)
        then show ?thesis
          using req runsD [OF runs_notify [of j]]
          by (auto simp: Let_def intro!: andThen_cong run)
      qed
    qed
  qed
  show ?thesis
  proof (cases "\<exists>st. get_state E R s j = Inr (Some st) \<and> \<not> terminal st \<and> js_run_generation st = g
      \<and> rget R s (lease_key (env_prefix E) j) = None")
    case True
    then obtain st where st: "get_state E R s j = Inr (Some st)" "\<not> terminal st" "js_run_generation st = g"
      "rget R s (lease_key (env_prefix E) j) = None" by blast
    let ?s0 = "fst (acquire_lease E R j g (wk_lease_token K) (wk_lease_seconds K) s)"
    have "always (acquire_lease E R j g (wk_lease_token K) (wk_lease_seconds K)) s = (?s0, Inr True)"
      using acquire_lease_views(1) [OF lease] st(4) by (simp add: always_def case_prod_beta)
    then show ?thesis
      unfolding execute_v22_job_def swap_executor_fields
      using st leased [OF st refl] by (simp add: require_state_def andThen_def [of "always _"] finally_do_def)
  next
    case False
    then show ?thesis
      by (auto simp: execute_v22_job_def require_state_def ret_def andThen_def reads_def always_def
          acquire_lease_def set_nx_def split: option.splits sum.splits)
  qed
qed

text \<open>
  A superseded run: whatever its executor gave, finishing it under a generation that the job
  no longer has writes nothing but the cost ledger, and it reports an error unless the run
  had already noticed that it lost the job.
\<close>

lemma transition_fenced:
  assumes "get_state E R s j = Inr (Some st)" "js_run_generation st \<noteq> g"
    and "ta_expected_generation a = Some g"
  shows "transition E R j a s = (s, Inl JobLeaseLost)"
  using assms by (simp add: transition_def transition_body_def run_txn.simps)

lemma superseded_failure:
  assumes st: "get_state E R s (js_job_id st0) = Inr (Some st)" "js_run_generation st \<noteq> g"
    and req: "get_request E R s (js_job_id st0) = Inr req" "\<not> is_capability_request req"
  shows "fst (finish_failure E R K T st0 e g cc kind s) = s"
    and "snd (finish_failure E R K T st0 e g cc kind s) = Inr () \<Longrightarrow> e = JobLeaseLost"
proof -
  note fenced = transition_fenced [OF st]
  have noncap: "andThen (capability_terminal_transition E R (wk_coordinator K) st0 err now True cc) f s =
      f (False, None) s" for err now and f :: "_ \<Rightarrow> ('s, unit) program"
    using not_capability_job [OF req] by (simp add: andThen_def)
  have tr: "andThen (transition E R (js_job_id st0) a) f s = (s, Inl JobLeaseLost)"
    if "ta_expected_generation a = Some g" for a and f :: "_ \<Rightarrow> ('s, unit) program"
    using fenced [OF that] by (simp add: andThen_def)
  have "finish_failure E R K T st0 e g cc kind s = (s, Inr ()) \<and> e = JobLeaseLost
      \<or> (\<exists>e'. finish_failure E R K T st0 e g cc kind s = (s, Inl e'))"
    by (auto simp: finish_failure_def Let_def noncap tr ret_def throw_def requeue_args_def failed_args_def
        split: option.splits)
  then show "fst (finish_failure E R K T st0 e g cc kind s) = s"
    "snd (finish_failure E R K T st0 e g cc kind s) = Inr () \<Longrightarrow> e = JobLeaseLost" by auto
qed

lemma superseded_finish:
  assumes C: "lg_prefix C = env_prefix E" "0 < lg_ttl_seconds C"
    and st: "get_state E R s j = Inr (Some st)" "js_run_generation st \<noteq> g" "js_job_id running = j"
    and req: "get_request E R s j = Inr req" "\<not> is_capability_request req"
  shows "ledger_only C s (fst (finish_run E R K T C j g running kind x s))"
    and "snd (finish_run E R K T C j g running kind x s) = Inr () \<Longrightarrow> x = Inl JobLeaseLost"
proof -
  let ?ok = "\<lambda>t r. ledger_only C s t \<and> (r = Inr () \<longrightarrow> x = Inl JobLeaseLost)"
  have here: "get_state E R t j = Inr (Some st)" "get_request E R t j = Inr req" if "ledger_only C s t" for t
    using ledger_only_views [OF that C(1), of j] st(1) req(1) by simp_all
  have costs: "?ok (fst (fail_with_costs E R K T C running e g kind t)) (snd (fail_with_costs E R K T C running e g kind t))"
    if t: "ledger_only C s t" and e: "e = JobLeaseLost \<Longrightarrow> x = Inl JobLeaseLost" for t e
  proof -
    let ?t = "fst (snapshot C R (fst (rt_snapshot T)) (snd (rt_snapshot T)) t)"
    have t': "ledger_only C s ?t"
      using ledger_only_trans [OF t ledger_programs_only(3) [OF C(2)]] .
    note h = here [OF t']
    show ?thesis
      using t' superseded_failure [of ?t running st g req] h st(2,3) req(2) e
      by (auto simp: fail_with_costs_def andThen_fst andThen_snd split: sum.splits)
  qed
  have report: "?ok (fst (p t)) (snd (p t))"
    if p: "p = andThen (snapshot C R (fst (rt_snapshot T)) (snd (rt_snapshot T))) (\<lambda>counts.
           andThen (transition E R j (succeeded_args T report counts g)) (after_terminal E R K T kind j))"
      and t: "ledger_only C s t" for p report t
  proof -
    let ?t = "fst (snapshot C R (fst (rt_snapshot T)) (snd (rt_snapshot T)) t)"
    have t': "ledger_only C s ?t"
      using ledger_only_trans [OF t ledger_programs_only(3) [OF C(2)]] .
    have "transition E R j (succeeded_args T report counts g) ?t = (?t, Inl JobLeaseLost)" for counts
      by (rule transition_fenced [OF here(1) [OF t'] st(2)]) (simp add: succeeded_args_def)
    then show ?thesis using t' unfolding p by (simp add: andThen_fst andThen_snd split: sum.splits)
  qed
  let ?t = "fst (record_job_attempt C R (max (rt_elapsed_ms T) 0) Execution_phase (rt_recorded T) s)"
  have t: "ledger_only C s ?t" by (rule ledger_programs_only(2) [OF C(2)])
  have "?ok (fst (finish_run E R K T C j g running kind x s)) (snd (finish_run E R K T C j g running kind x s))"
    unfolding finish_run_def andThen_fst andThen_snd
    using t costs [OF t] report [OF refl t]
    by (auto simp: throw_def split: sum.splits execution.splits if_splits)
  then show "ledger_only C s (fst (finish_run E R K T C j g running kind x s))"
    "snd (finish_run E R K T C j g running kind x s) = Inr () \<Longrightarrow> x = Inl JobLeaseLost" by simp_all
qed

subsection \<open>How a run fails\<close>

lemma notify_returns: "snd (notify_state K j s) = Inr ()"
  by (auto simp: notify_state_def try_sync_def handle_def andThen_def ret_def case_prod_beta
      split: option.splits sum.splits)

lemma requeue_fits:
  assumes "valid_state st0" "js_created_at st \<le> now" "0 \<le> n"
    and "\<And>c. cc = Some c \<Longrightarrow> validate_cost_counters_snapshot c = Inr c"
  shows "args_fit (requeue_args st0 now n cc g) st"
proof -
  have "strip_text ''A temporary issue occurred. The task will retry automatically.'' =
      ''A temporary issue occurred. The task will retry automatically.''" by code_simp
  moreover have "0 \<le> js_progress st0" "js_progress st0 \<le> 100"
    using valid_state_fields(1) [OF assms(1)] by (simp_all add: fields_ok_def)
  ultimately show ?thesis
    using assms by (simp add: args_fit_def requeue_args_def transition_call_def text_len_def)
qed

text \<open>A transient failure with attempts left requeues the job and asks ARQ for a delayed retry.\<close>

lemma transient_failure:
  assumes inv: "store_inv E R s" and st0: "valid_state st0"
    and st: "get_state E R s (js_job_id st0) = Inr (Some st)" "\<not> terminal st" "js_created_at st \<le> rt_finished T"
    and e: "ce_retryable (classify_job_exception e)" "max (js_attempt_count st0) 1 < wk_max_attempts K"
    and cc: "\<And>c. cc = Some c \<Longrightarrow> validate_cost_counters_snapshot c = Inr c"
  shows "\<exists>s1 d. abs_job E R s1 (js_job_id st0) =
        Some (Job_abs Queued (js_run_generation st) (js_revision st + 1) False)
      \<and> (store_step E R)\<^sup>*\<^sup>* s1 (fst (finish_failure E R K T st0 e (js_run_generation st) cc kind s))
      \<and> snd (finish_failure E R K T st0 e (js_run_generation st) cc kind s) = Inl (Retry d)
      \<and> 5 \<le> d \<and> d \<le> 63"
proof -
  let ?n = "max (js_attempt_count st0) 1"
  let ?a = "requeue_args st0 (rt_finished T) ?n cc (js_run_generation st)"
  let ?t = "transition E R (js_job_id st0) ?a"
  have fit: "args_fit ?a st" using st0 st(3) cc by (intro requeue_fits) auto
  have a: "ta_expected_generation ?a = Some (js_run_generation st)"
    "ta_status ?a \<in> set (ALLOWED_TRANSITIONS (js_status st))"
    "ta_status ?a = Queued" "ta_error ?a = None"
    using st(2) by (cases "js_status st"; simp add: requeue_args_def transition_call_def terminal_def)+
  note t = transition_applies [OF inv st(1,2) a(1,2) fit]
  have "e \<noteq> JobLeaseLost" using e(1) by (auto simp: classify_job_exception_def deterministic_def)
  then have "finish_failure E R K T st0 e (js_run_generation st) cc kind s =
      andThen (notify_state K (js_job_id st0))
        (\<lambda>_. throw (Retry (retry_delay_seconds E (js_job_id st0) ?n))) (fst (?t s))"
    using e by (simp add: finish_failure_def Let_def andThen_Inr [where p = ?t, OF t(1)])
  then have f: "snd (finish_failure E R K T st0 e (js_run_generation st) cc kind s) =
        Inl (Retry (retry_delay_seconds E (js_job_id st0) ?n))"
    "fst (finish_failure E R K T st0 e (js_run_generation st) cc kind s) =
      fst (notify_state K (js_job_id st0) (fst (?t s)))"
    by (simp_all add: andThen_snd andThen_fst notify_returns throw_def)
  have "abs_job E R (fst (?t s)) (js_job_id st0) =
      Some (Job_abs Queued (js_run_generation st) (js_revision st + 1) False)"
    using transition_applies_abs [OF inv st(1,2) a(1,2) fit] by (simp add: a(3,4))
  then show ?thesis
    using f retry_delay_bounds runsD [OF runs_notify [of "js_job_id st0"], of "fst (?t s)"] by metis
qed

lemma failure_fits:
  assumes "valid_state st0" "js_created_at st \<le> now" "0 \<le> n"
    and "validate_error_state err = Some err" "er_user_message err = m"
      "strip_text m = m" "text_len 1 500 m"
    and "\<And>c. cc = Some c \<Longrightarrow> validate_cost_counters_snapshot c = Inr c"
  shows "args_fit (failed_args st0 m err now n cc g) st"
proof -
  have "0 \<le> js_progress st0" "js_progress st0 \<le> 100"
    using valid_state_fields(1) [OF assms(1)] by (simp_all add: fields_ok_def)
  then show ?thesis
    using assms by (simp add: args_fit_def failed_args_def transition_call_def)
qed

lemma after_terminal_returns: "snd (after_terminal E R K T kind j u s) = Inr ()"
proof -
  have "snd (enqueue_cost_summary E R K T st kind t) = Inr ()" for st t
    by (auto simp: enqueue_cost_summary_def handle_def ret_def case_prod_beta
        split: option.splits sum.splits)
  then show ?thesis by (simp add: after_terminal_def andThen_snd notify_returns)
qed

lemma valid_error_message:
  assumes "validate_error_state e = Some e"
  shows "strip_text (er_user_message e) = er_user_message e" "text_len 1 500 (er_user_message e)"
proof -
  let ?e = "e\<lparr>er_error_code := strip_text (er_error_code e), er_user_message := strip_text (er_user_message e)\<rparr>"
  have e: "?e = e" "text_len 1 500 (strip_text (er_user_message e))"
    using assms by (auto simp: validate_error_state_def Let_def split: if_splits)
  have "er_user_message ?e = er_user_message e" by (simp only: e(1))
  then show strip: "strip_text (er_user_message e) = er_user_message e" by simp
  show "text_len 1 500 (er_user_message e)" using e(2) unfolding strip .
qed

text \<open>A failure that is not retryable ends the job for good, under its own error.\<close>

lemma permanent_failure:
  assumes inv: "store_inv E R s" and st0: "valid_state st0"
    and st: "get_state E R s (js_job_id st0) = Inr (Some st)" "\<not> terminal st" "js_created_at st \<le> rt_finished T"
    and e: "e \<noteq> JobLeaseLost" "\<not> ce_retryable (classify_job_exception e)"
    and err: "validate_error_state (failure_error (classify_job_exception e) (wk_diagnostic K)) = Some err"
      "failure_error (classify_job_exception e) (wk_diagnostic K) = err"
    and req: "get_request E R s (js_job_id st0) = Inr req" "\<not> is_capability_request req"
    and cc: "\<And>c. cc = Some c \<Longrightarrow> validate_cost_counters_snapshot c = Inr c"
  shows "snd (finish_failure E R K T st0 e (js_run_generation st) cc kind s) = Inr ()"
    and "abs_job E R (fst (finish_failure E R K T st0 e (js_run_generation st) cc kind s)) (js_job_id st0) =
        Some (Job_abs Failed (js_run_generation st) (js_revision st + 1) False)"
proof -
  let ?n = "max (js_attempt_count st0) 1"
  let ?j = "js_job_id st0"
  let ?a = "failed_args st0 (er_user_message err) err (rt_finished T) ?n cc (js_run_generation st)"
  let ?t = "transition E R ?j ?a"
  have ce: "er_retryable err = False" using e(2) err(2) by (auto simp: failure_error_def)
  have v: "validate_error_state err = Some err" using err by simp
  have fit: "args_fit ?a st"
    using st0 st(3) v valid_error_message [OF v] cc by (intro failure_fits) auto
  have a: "ta_expected_generation ?a = Some (js_run_generation st)"
    "ta_status ?a \<in> set (ALLOWED_TRANSITIONS (js_status st))"
    "ta_status ?a = Failed" "ta_error ?a = Some err"
    using st(2) by (cases "js_status st"; simp add: failed_args_def transition_call_def terminal_def)+
  note t = transition_applies [OF inv st(1,2) a(1,2) fit]
  have noncap: "capability_terminal_transition E R (wk_coordinator K) st0 err (rt_finished T) True cc s =
      (s, Inr (False, None))"
    using req by (intro not_capability_job) simp_all
  have "finish_failure E R K T st0 e (js_run_generation st) cc kind s =
      after_terminal E R K T kind ?j \<lparr>tr_state = next_state ?a st, tr_applied = True\<rparr> (fst (?t s))"
    using e err
    by (simp add: finish_failure_def Let_def andThen_Inr [where p = "capability_terminal_transition E R (wk_coordinator K) st0 err (rt_finished T) True cc", OF noncap]
        andThen_Inr [where p = ?t, OF t(1)])
  then have f: "finish_failure E R K T st0 e (js_run_generation st) cc kind s =
      after_terminal E R K T kind ?j \<lparr>tr_state = next_state ?a st, tr_applied = True\<rparr> (fst (?t s))" .
  then show "snd (finish_failure E R K T st0 e (js_run_generation st) cc kind s) = Inr ()"
    by (simp add: after_terminal_returns)
  have ab: "abs_job E R (fst (?t s)) ?j =
      Some (Job_abs Failed (js_run_generation st) (js_revision st + 1) False)"
    using transition_applies_abs [OF inv st(1,2) a(1,2) fit] by (simp add: a(3,4) ce)
  show "abs_job E R (fst (finish_failure E R K T st0 e (js_run_generation st) cc kind s)) ?j =
        Some (Job_abs Failed (js_run_generation st) (js_revision st + 1) False)"
    unfolding f
    by (rule run_final [OF runsD [OF runs_after_terminal] transition_inv [OF inv] ab]) simp
qed

subsection \<open>The heartbeat\<close>

text \<open>A round reports a loss exactly when the lease or the generation is another's.\<close>

lemma heartbeat_round_reports:
  assumes inv: "store_inv E R s"
  shows "snd (heartbeat_round E R K j g now s) =
    Inr (\<not> holds_lease E R s j g (wk_lease_token K)
         \<or> (\<exists>st. get_state E R s j = Inr (Some st) \<and> js_run_generation st \<noteq> g))"
proof (cases "holds_lease E R s j g (wk_lease_token K)")
  case False
  then have "refresh_lease E R j g (wk_lease_token K) (wk_lease_seconds K) s = (s, Inr False)"
    by (simp add: refresh_lease_def refresh_lease_body_def run_txn.simps)
  then show ?thesis
    using False by (simp add: heartbeat_round_def handle_def andThen_def ret_def)
next
  case True
  let ?t = "refresh_lease E R j g (wk_lease_token K) (wk_lease_seconds K) s"
  have t: "snd ?t = Inr True"
    using True by (simp add: refresh_lease_def refresh_lease_body_def run_txn.simps)
  have same: "get_state E R (fst ?t) j = get_state E R s j"
    using lease by (simp add: get_state_def refresh_lease_views)
  have "snd (heartbeat_round E R K j g now s) =
      (case snd (heartbeat E R j g now (fst ?t)) of Inl e \<Rightarrow> Inr (e = JobLeaseLost) | Inr _ \<Rightarrow> Inr False)"
    using t by (auto simp: heartbeat_round_def handle_def andThen_def ret_def case_prod_beta split: sum.splits)
  moreover have "(\<exists>e. snd (heartbeat E R j g now (fst ?t)) = Inl e \<and> e = JobLeaseLost) \<longleftrightarrow>
      (\<exists>st. get_state E R s j = Inr (Some st) \<and> js_run_generation st \<noteq> g)"
  proof (cases "get_state E R s j")
    case (Inl e)
    then show ?thesis
      using store_inv_get_state [OF inv, of j] by simp
  next
    case (Inr o1)
    show ?thesis
    proof (cases o1)
      case None
      then show ?thesis using Inr same by (simp add: heartbeat_def require_state_def)
    next
      case (Some st)
      have "snd (run_txn R (transition_body E R j (heartbeat_args st g now)) (fst ?t)) = Inl JobLeaseLost \<longleftrightarrow>
          js_run_generation st \<noteq> g"
        using Inr Some same
        by (auto simp: run_txn.simps transition_body_def heartbeat_args_def transition_call_def
            split: sum.splits dest!: validate_job_state_Inl)
      then show ?thesis
        using Inr Some same by (simp add: heartbeat_def require_state_def transition_def)
    qed
  qed
  ultimately show ?thesis using True by (auto split: sum.splits)
qed

text \<open>
  A heartbeat writes back the stage it read. When the run reported a later stage between
  the read and the write, the heartbeat takes the job back to the earlier stage.
\<close>

lemma heartbeat_reverts_stage:
  assumes inv: "store_inv E R s" and st: "get_state E R s j = Inr (Some st)"
      "js_status st = Running" "js_created_at st \<le> now"
    and read: "valid_state old" "js_status old = Running"
  shows "\<exists>st'. get_state E R (fst (transition E R j (heartbeat_args old (js_run_generation st) now) s)) j
      = Inr (Some st') \<and> js_stage st' = js_stage old \<and> js_progress st' = js_progress old"
proof -
  have f: "fields_ok old" "lifecycle_ok old" using valid_state_fields [OF read(1)] by auto
  have "strip_text (js_message old) = js_message old" using read(1) by (simp add: valid_state_iff)
  then have "args_fit (heartbeat_args old (js_run_generation st) now) st"
    using f read(2) st(3) by (simp add: args_fit_def heartbeat_args_def transition_call_def fields_ok_def)
  moreover have "\<not> terminal st" using st(2) by (simp add: terminal_def)
  ultimately show ?thesis
    using transition_applies(2) [OF inv st(1), of "heartbeat_args old (js_run_generation st) now"] read(2) st(2)
    by (simp add: heartbeat_args_def transition_call_def next_state_def)
qed

end

subsection \<open>The collaborators of the model\<close>

definition ex_worker :: "int \<Rightarrow> rval mem worker_context" where
  "ex_worker status =
     \<lparr>wk_lease_seconds = 60, wk_state_ttl_seconds = 604800, wk_max_attempts = 3,
      wk_cost_pricing = None, wk_settings = \<lparr>V22_COST_PRICING_REVISION = 1,
        V22_COST_REQUEST_USD_MICROS = empty_request_prices,
        V22_COST_DIFY_INPUT_MTOK_USD_MICROS = None, V22_COST_DIFY_OUTPUT_MTOK_USD_MICROS = None\<rparr>,
      wk_synchronizer = Some (sync example_env mem_redis (send ex_client (ex_post status) 0)),
      wk_coordinator = Some ex_coordinator, wk_outbox = Some (3600, \<lambda>_. ret True),
      wk_execute = (\<lambda>j req t ck report C timeout.
        andThen (report St_evaluating) (\<lambda>_. ret (Report (ReportV22 (JInt 1))))),
      wk_heartbeat_lost = (\<lambda>_. False), wk_lease_token = ''token'', wk_diagnostic = 99\<rparr>"

interpretation mem_worker: job_worker mem_redis example_env "ex_worker status"
proof (intro job_worker.intro job_worker_axioms.intro mem_runtime)
  show "capability_backend mem_redis example_env (wk_coordinator (ex_worker status))"
    using mem_backend.capability_backend_axioms by (simp add: ex_worker_def)
  show "wk_synchronizer (ex_worker status) = Some sy \<Longrightarrow> state_synchronizer mem_redis example_env sy" for sy
    using mem_transport.client.synchronizer.state_synchronizer_axioms [of ex_client status 0]
    by (auto simp: ex_worker_def)
qed (auto simp: ex_worker_def runs_ret intro!: runs_andThen)

lemma mem_worker [simp]: "job_worker mem_redis example_env (ex_worker status)"
  by (fact mem_worker.job_worker_axioms)

end
