(* ===== verification/Worker_Properties.thy ===== *)
theory Worker_Properties
  imports Worker_Laws
begin

text \<open>The properties of the worker, each with a concrete instance on the server in memory.\<close>

definition ex_clock :: run_clock where
  "ex_clock = \<lparr>rt_ledger = 2000, rt_now = 2000, rt_started = 2000, rt_stage = (\<lambda>_. 2000),
     rt_remaining = 2000, rt_elapsed_ms = 5, rt_recorded = 2500, rt_snapshot = (3000, 3000),
     rt_finished = 3000, rt_summary = (3000, 3000)\<rparr>"

text \<open>
  (C4) The worker executes only what it owns. An executor that behaves differently in any
  other case makes no difference to the execution of a job, so it is called only when the
  worker found the job open under the generation it was asked for, before the deadline, with
  its request and without a lease; when it then took the lease under its own token and wrote
  the job as running with the next attempt and revision under that generation; and only with
  checkpoints fenced by that generation.
\<close>

theorem worker_executes_owned_run:
  assumes "job_worker R E K"
    and "\<And>i req created ck report C timeout s1. owned_run E R K T j g s req s1 \<Longrightarrow>
      ck_run_generation ck = Some g \<Longrightarrow>
      other i req created ck report C timeout s1 = wk_execute K i req created ck report C timeout s1"
  shows "execute_v22_job E R (K\<lparr>wk_execute := other\<rparr>) T (uuid_str j) g s =
    execute_v22_job E R K T (uuid_str j) g s"
  by (rule job_worker.executor_owned [OF assms(1)]) (simp add: same_executor_def assms(2))

text \<open>An executor that raises unless the job has its second revision and fenced checkpoints.\<close>

definition ex_strict_executor :: "rval mem executor" where
  "ex_strict_executor i req created ck report C timeout s =
     (if ck_run_generation ck = Some 1 \<and> (case abs_job example_env mem_redis s 1 of
           None \<Rightarrow> False | Some a \<Rightarrow> ab_generation a \<ge> 1 \<and> ab_revision a \<ge> 2)
      then wk_execute (ex_worker 200) i req created ck report C timeout s else (s, Inl TypeError))"

theorem worker_executes_owned_run_witness:
  "execute_v22_job example_env mem_redis ((ex_worker 200)\<lparr>wk_execute := ex_strict_executor\<rparr>) ex_clock
      (uuid_str 1) 1 ex_registered
   = execute_v22_job example_env mem_redis (ex_worker 200) ex_clock (uuid_str 1) 1 ex_registered"
proof (rule worker_executes_owned_run [OF mem_worker])
  fix i req created report C timeout s1 and ck :: job_checkpoints
  assume o: "owned_run example_env mem_redis (ex_worker 200) ex_clock 1 1 ex_registered req s1"
    and ck: "ck_run_generation ck = Some 1"
  have found: "get_state example_env mem_redis ex_registered 1 = Inr (Some ex_initial)" by code_simp
  have "js_revision ex_initial = 1" by code_simp
  then obtain s0 nxt where s0: "get_state example_env mem_redis s0 1 = Inr (Some nxt)"
    "js_run_generation nxt = 1" "js_revision nxt = 2" "(store_step example_env mem_redis)\<^sup>*\<^sup>* ex_registered s0"
    "(store_step example_env mem_redis)\<^sup>*\<^sup>* s0 s1"
    using o found by (auto simp: owned_run_def)
  have inv: "store_inv example_env mem_redis s0"
    by (rule job_runtime.run_inv [OF mem_runtime s0(4) ex_inv(1)])
  have ab: "abs_job example_env mem_redis s0 1 = Some (abs_state nxt)"
    using s0(1) abs_job_Some_iff [OF inv] by blast
  show "ex_strict_executor i req created ck report C timeout s1 =
      wk_execute (ex_worker 200) i req created ck report C timeout s1"
    using job_runtime.run_monotone [OF mem_runtime s0(5) inv ab] ck s0(2,3)
    by (auto simp: ex_strict_executor_def abs_state_def)
qed

definition ex_run_ledger :: ledger_config where
  "ex_run_ledger = \<lparr>lg_prefix = env_prefix example_env, lg_job_id = 1, lg_ttl_seconds = 604800,
     lg_pricing = \<lparr>pr_revision = 1, pr_request_usd_micros = empty_request_prices,
       pr_dify_input_mtok_usd_micros = None, pr_dify_output_mtok_usd_micros = None\<rparr>,
     lg_job_created_at = 1000, lg_require_existing = False\<rparr>"

text \<open>
  (C40) A superseded run writes nothing: when the job has another generation by the time the
  executor ends, whatever the executor gave, a report, a failure, a timeout or a
  cancellation, the worker changes no key but the cost ledger of the job, and it reports an
  error unless the run had itself noticed that it lost the job.
\<close>

theorem superseded_run_writes_nothing:
  assumes "job_worker R E K" "lg_prefix C = env_prefix E" "0 < lg_ttl_seconds C"
    and "get_state E R s j = Inr (Some st)" "js_run_generation st \<noteq> g" "js_job_id running = j"
    and "get_request E R s j = Inr req" "\<not> is_capability_request req"
  shows "(\<forall>k. k \<noteq> ledger_key C \<longrightarrow>
      rget R (fst (finish_run E R K T C j g running kind x s)) k = rget R s k
      \<and> zscore R (fst (finish_run E R K T C j g running kind x s)) k = zscore R s k)
    \<and> (snd (finish_run E R K T C j g running kind x s) = Inr () \<longrightarrow> x = Inl JobLeaseLost)"
  using job_worker.superseded_finish [OF assms]
  by (simp add: job_runtime.ledger_only_def [OF job_worker.axioms(1) [OF assms(1)]])

theorem superseded_run_writes_nothing_witness:
  "get_state example_env mem_redis (fst (finish_run example_env mem_redis (ex_worker 200) ex_clock
      ex_run_ledger 1 1 ex_initial Prospect_report (Inr (Report (ReportV22 (JInt 1)))) ex_taken)) 1
   = get_state example_env mem_redis ex_taken 1"
proof -
  have "case get_state example_env mem_redis ex_taken 1 of
      Inr (Some st) \<Rightarrow> js_run_generation st = 2 | _ \<Rightarrow> False" by code_simp
  then obtain st where st: "get_state example_env mem_redis ex_taken 1 = Inr (Some st)" "js_run_generation st \<noteq> 1"
    by (auto split: sum.splits option.splits)
  have id: "js_job_id ex_initial = 1" by code_simp
  have req: "get_request example_env mem_redis ex_taken 1 = Inr (Some (JObj []))" by code_simp
  have nc: "\<not> is_capability_request (Some (JObj []))" by (simp add: is_capability_request_def)
  have C: "lg_prefix ex_run_ledger = env_prefix example_env" "0 < lg_ttl_seconds ex_run_ledger"
    "state_key (env_prefix example_env) 1 \<noteq> ledger_key ex_run_ledger"
    by (simp_all add: ex_run_ledger_def ledger_key_def)
  from superseded_run_writes_nothing [OF mem_worker C(1,2) st id req nc, THEN conjunct1] C(3)
  show ?thesis by (simp add: get_state_def)
qed

text \<open>
  A whole execution of a job, with whatever the executor, the callbacks, the SQL
  coordinator and other clients do meanwhile, is a run of the store: the consistency of
  states and indexes is kept, and no job's generation or revision ever goes back.
\<close>

theorem worker_run_safe:
  assumes "job_worker R E K" "store_inv E R s"
  shows "(store_step E R)\<^sup>*\<^sup>* s (fst (execute_v22_job E R K T v g s))
    \<and> store_inv E R (fst (execute_v22_job E R K T v g s))
    \<and> (\<forall>j a. abs_job E R s j = Some a \<longrightarrow>
        (\<exists>b. abs_job E R (fst (execute_v22_job E R K T v g s)) j = Some b
          \<and> ab_generation a \<le> ab_generation b \<and> ab_revision a \<le> ab_revision b))"
proof -
  have rt: "job_runtime R E" using assms(1) by (rule job_worker.axioms(1))
  have run: "(store_step E R)\<^sup>*\<^sup>* s (fst (execute_v22_job E R K T v g s))"
    by (rule runsD [OF job_worker.runs_execute_v22_job [OF assms(1)]])
  show ?thesis
    using run job_runtime.run_inv [OF rt run assms(2)] job_runtime.run_monotone [OF rt run assms(2)]
    by blast
qed

theorem worker_run_safe_witness:
  "store_inv example_env mem_redis
     (fst (execute_v22_job example_env mem_redis (ex_worker 200) ex_clock (uuid_str 1) 1 ex_registered))"
  using worker_run_safe [OF mem_worker ex_inv(1)] by blast

text \<open>
  Duplicate and superseded executions do nothing: an execution of a job that is
  terminal, or of another generation, or whose lease is taken, returns without an error and
  without a write.
\<close>

theorem excluded_run_does_nothing:
  assumes "get_state E R s j = Inr (Some st)"
    and "terminal st \<or> js_run_generation st \<noteq> g \<or> rget R s (lease_key (env_prefix E) j) \<noteq> None"
  shows "execute_v22_job E R K T (uuid_str j) g s = (s, Inr ())"
  using assms
  by (auto simp: execute_v22_job_def require_state_def ret_def andThen_def reads_def always_def acquire_lease_def
      set_nx_def)

text \<open>
  (C33) A transient failure with attempts left is retried: the job goes back to the queue in
  one write of its own generation, and the execution ends by asking the queue for a retry
  after 5 to 63 seconds.
\<close>

theorem transient_failure_requeues:
  assumes "job_worker R E K" "store_inv E R s" "valid_state st0"
    and "get_state E R s (js_job_id st0) = Inr (Some st)" "\<not> terminal st"
      "js_created_at st \<le> rt_finished T"
    and "ce_retryable (classify_job_exception e)" "max (js_attempt_count st0) 1 < wk_max_attempts K"
    and "\<And>c. cc = Some c \<Longrightarrow> validate_cost_counters_snapshot c = Inr c"
  shows "\<exists>s1 d. abs_job E R s1 (js_job_id st0) =
        Some (Job_abs Queued (js_run_generation st) (js_revision st + 1) False)
      \<and> (store_step E R)\<^sup>*\<^sup>* s1 (fst (finish_failure E R K T st0 e (js_run_generation st) cc kind s))
      \<and> snd (finish_failure E R K T st0 e (js_run_generation st) cc kind s) = Inl (Retry d)
      \<and> 5 \<le> d \<and> d \<le> 63"
  using job_worker.transient_failure [OF assms] .

lemma ex_running_state:
  "\<exists>st. get_state example_env mem_redis ex_running 1 = Inr (Some st) \<and> valid_state st \<and> js_job_id st = 1
     \<and> \<not> terminal st \<and> js_created_at st \<le> 3000 \<and> js_attempt_count st = 0
     \<and> js_run_generation st = 1 \<and> js_revision st = 2"
proof -
  have "case get_state example_env mem_redis ex_running 1 of
      Inr (Some st) \<Rightarrow> js_job_id st = 1 \<and> \<not> terminal st \<and> js_created_at st \<le> 3000
        \<and> js_attempt_count st = 0 \<and> js_run_generation st = 1 \<and> js_revision st = 2
    | _ \<Rightarrow> False" by code_simp
  then obtain st where st: "get_state example_env mem_redis ex_running 1 = Inr (Some st)"
    "js_job_id st = 1" "\<not> terminal st" "js_created_at st \<le> 3000" "js_attempt_count st = 0"
    "js_run_generation st = 1" "js_revision st = 2" by (auto split: sum.splits option.splits)
  then show ?thesis using mem_rt.get_state_valid by blast
qed

theorem transient_failure_requeues_witness:
  "\<exists>st d. snd (finish_failure example_env mem_redis (ex_worker 500) ex_clock st HttpNetworkError 1 None
      Prospect_report ex_running) = Inl (Retry d) \<and> d \<le> 63"
proof -
  obtain st where st: "get_state example_env mem_redis ex_running 1 = Inr (Some st)" "valid_state st"
    "js_job_id st = 1" "\<not> terminal st" "js_created_at st \<le> 3000" "js_attempt_count st = 0"
    "js_run_generation st = 1" using ex_running_state by blast
  have "ce_retryable (classify_job_exception HttpNetworkError)"
    by (simp add: classify_job_exception_def provider_unavailable_def)
  then show ?thesis
    using transient_failure_requeues [OF mem_worker ex_inv(2) st(2), of st ex_clock HttpNetworkError 500 None
        Prospect_report] st
    by (auto simp: ex_clock_def ex_worker_def)
qed

text \<open>
  A permanent failure ends the job for good: unless the lease was lost, a failure that
  is not retryable is written once, under the run's generation, with the next revision, and
  whatever happens while the callback and the cost summary are delivered, the job stays
  failed and not retryable.
\<close>

theorem permanent_failure_final:
  assumes "job_worker R E K" "store_inv E R s" "valid_state st0"
    and "get_state E R s (js_job_id st0) = Inr (Some st)" "\<not> terminal st"
      "js_created_at st \<le> rt_finished T"
    and "e \<noteq> JobLeaseLost" "\<not> ce_retryable (classify_job_exception e)"
    and "validate_error_state (failure_error (classify_job_exception e) (wk_diagnostic K)) = Some err"
      "failure_error (classify_job_exception e) (wk_diagnostic K) = err"
    and "get_request E R s (js_job_id st0) = Inr req" "\<not> is_capability_request req"
    and "\<And>c. cc = Some c \<Longrightarrow> validate_cost_counters_snapshot c = Inr c"
  shows "snd (finish_failure E R K T st0 e (js_run_generation st) cc kind s) = Inr ()
    \<and> abs_job E R (fst (finish_failure E R K T st0 e (js_run_generation st) cc kind s)) (js_job_id st0) =
        Some (Job_abs Failed (js_run_generation st) (js_revision st + 1) False)"
  using job_worker.permanent_failure [OF assms] by blast

theorem permanent_failure_final_witness:
  "\<exists>st. abs_job example_env mem_redis (fst (finish_failure example_env mem_redis (ex_worker 200) ex_clock st
      JobDeadlineExceeded 1 None Prospect_report ex_running)) 1 = Some (Job_abs Failed 1 3 False)"
proof -
  obtain st where st: "get_state example_env mem_redis ex_running 1 = Inr (Some st)" "valid_state st"
    "js_job_id st = 1" "\<not> terminal st" "js_created_at st \<le> 3000" "js_attempt_count st = 0"
    "js_run_generation st = 1" "js_revision st = 2" using ex_running_state by blast
  have e: "failure_error (classify_job_exception JobDeadlineExceeded) (wk_diagnostic (ex_worker 200)) =
      deadline_error 99"
    by (simp add: failure_error_def classify_job_exception_def deterministic_def deadline_error_def ex_worker_def)
  have r: "\<not> ce_retryable (classify_job_exception JobDeadlineExceeded)"
    by (simp add: classify_job_exception_def deterministic_def)
  have req: "get_request example_env mem_redis ex_running 1 = Inr (Some (JObj []))" by code_simp
  have nc: "\<not> is_capability_request (Some (JObj []))" by (simp add: is_capability_request_def)
  show ?thesis
    using permanent_failure_final [OF mem_worker ex_inv(2) st(2), of st ex_clock JobDeadlineExceeded 200
        "deadline_error 99" "Some (JObj [])" None Prospect_report] st e r req nc
      mem_reconciler.deadline_error_valid(1)
    by (auto simp: ex_clock_def)
qed

text \<open>
  The heartbeat notices a lost run: a round of the heartbeat reports the lease as lost
  exactly when the stored lease is not the run's own or the job has another generation; any
  other error leaves the run going.
\<close>

theorem heartbeat_detects_loss:
  assumes "job_worker R E K" "store_inv E R s"
  shows "snd (heartbeat_round E R K j g now s) =
    Inr (\<not> holds_lease E R s j g (wk_lease_token K)
         \<or> (\<exists>st. get_state E R s j = Inr (Some st) \<and> js_run_generation st \<noteq> g))"
  using job_worker.heartbeat_round_reports [OF assms] .

end
