(* ===== verification/Linearization.thy ===== *)
theory Linearization
  imports Cost_Ledger Checkpoints Example_Jobs
begin

text \<open>
  Every WATCH / MULTI / EXEC loop of the runtime acts like one atomic operation. The
  watched keys are the arguments of the WATCH commands in app/jobs_v22/store.py,
  cost_ledger.py and checkpoints.py; each decision reads these keys only, so the promise of
  WATCH makes its loop linearizable.
\<close>

named_theorems decisions \<open>decisions that read their watched keys only\<close>

lemma reads_onlyI: "(\<And>s t. same_watched R ks s t \<Longrightarrow> body s = body t) \<Longrightarrow> reads_only R ks body"
  by (simp add: reads_only_def)

lemma get_state_watched:
  "same_watched R ks s t \<Longrightarrow> state_key (env_prefix E) j \<in> set ks \<Longrightarrow>
   get_state E R s j = get_state E R t j"
  by (simp add: get_state_def same_watched_get)

lemma register_reads [decisions]: "reads_only R (register_watched E a) (register_body E R a initial)"
proof (rule reads_onlyI)
  fix s t assume w: "same_watched R (register_watched E a) s t"
  then have 1: "get_state E R s (ra_job_id a) = get_state E R t (ra_job_id a)"
    by (rule get_state_watched) (simp add: register_watched_def)
  have 2: "rget R s (idempotency_key (env_sha256 E) (env_prefix E) (ra_case_id a) (ra_idempotency_key a))
      = rget R t (idempotency_key (env_sha256 E) (env_prefix E) (ra_case_id a) (ra_idempotency_key a))"
    using w by (rule same_watched_get) (simp add: register_watched_def)
  show "register_body E R a initial s = register_body E R a initial t"
    unfolding register_body_def Let_def 1 2 ..
qed

lemma state_decisions [decisions]:
  "reads_only R [state_key (env_prefix E) j] (transition_body E R j ta)"
  "reads_only R [state_key (env_prefix E) j] (mark_callback_synced_body E R j rv)"
  "reads_only R [state_key (env_prefix E) j] (retry_failed_body E R j now)"
  using get_state_watched [of R "[state_key (env_prefix E) j]" _ _ E j]
  by (auto intro!: reads_onlyI
      simp: transition_body_def mark_callback_synced_body_def retry_failed_body_def)

lemma recovery_decisions [decisions]:
  "reads_only R (take_over_watched E j) (take_over_body E R j g now)"
  "reads_only R (take_over_watched E j) (mark_recovery_enqueued_body E R j g now)"
  "reads_only R (take_over_watched E j) (discard_missing_job_recovery_body E R j g)"
proof -
  have w: "get_state E R s j = get_state E R t j"
    "zscore R s (recovery_pending_key (env_prefix E)) m = zscore R t (recovery_pending_key (env_prefix E)) m"
    "rget R s (state_key (env_prefix E) j) = rget R t (state_key (env_prefix E) j)"
    if "same_watched R (take_over_watched E j) s t" for s t m
    using that by (auto simp: take_over_watched_def
        intro: get_state_watched same_watched_zscore same_watched_get)
  have "take_over_body E R j g now s = take_over_body E R j g now t"
    "mark_recovery_enqueued_body E R j g now s = mark_recovery_enqueued_body E R j g now t"
    "discard_missing_job_recovery_body E R j g s = discard_missing_job_recovery_body E R j g t"
    if "same_watched R (take_over_watched E j) s t" for s t
    unfolding take_over_body_def mark_recovery_enqueued_body_def discard_missing_job_recovery_body_def
      Let_def w [OF that] by (rule refl)+
  then show "reads_only R (take_over_watched E j) (take_over_body E R j g now)"
    "reads_only R (take_over_watched E j) (mark_recovery_enqueued_body E R j g now)"
    "reads_only R (take_over_watched E j) (discard_missing_job_recovery_body E R j g)"
    by (simp_all add: reads_only_def)
qed

lemma purge_decisions [decisions]:
  "reads_only R [state_key (env_prefix E) j, active_key (env_prefix E), sync_pending_key (env_prefix E),
      recovery_pending_key (env_prefix E)] (discard_missing_job_indexes_body E R j)"
  "reads_only R [key] (discard_index_member_body R key member sc)"
  by (auto intro!: reads_onlyI simp: discard_missing_job_indexes_body_def discard_index_member_body_def
      Let_def same_watched_def zscore_def)

lemma lease_decisions [decisions]:
  "reads_only R [lease_key (env_prefix E) j] (refresh_lease_body E R j g tok ttl)"
  "reads_only R [lease_key (env_prefix E) j] (release_lease_body E R j g tok)"
  by (auto intro!: reads_onlyI
      simp: refresh_lease_body_def release_lease_body_def holds_lease_def same_watched_def)

lemma ledger_decision [decisions]: "reads_only R [ledger_key C] (mutate_body C R f now)"
  by (auto intro!: reads_onlyI simp: mutate_body_def same_watched_def)

lemma checkpoint_decision [decisions]:
  "reads_only R [state_key (env_prefix E) j, checkpoint_of E j key] (save_body E R ck g j key v)"
  by (auto intro!: reads_onlyI simp: save_body_def same_watched_def)

text \<open>
  Every decision of the durable store, the cost ledger and the checkpoints depends on
  the keys its loop watches and on nothing else of the server.
\<close>

theorem decisions_read_watched_keys:
  "reads_only R (register_watched E a) (register_body E R a initial)
   \<and> reads_only R [state_key (env_prefix E) j] (transition_body E R j ta)
   \<and> reads_only R [state_key (env_prefix E) j] (mark_callback_synced_body E R j rv)
   \<and> reads_only R [state_key (env_prefix E) j] (retry_failed_body E R j now)
   \<and> reads_only R (take_over_watched E j) (take_over_body E R j g now)
   \<and> reads_only R (take_over_watched E j) (mark_recovery_enqueued_body E R j g now)
   \<and> reads_only R (take_over_watched E j) (discard_missing_job_recovery_body E R j g)
   \<and> reads_only R [lease_key (env_prefix E) j] (refresh_lease_body E R j g tok ttl)
   \<and> reads_only R [lease_key (env_prefix E) j] (release_lease_body E R j g tok)
   \<and> reads_only R [ledger_key C] (mutate_body C R f now)
   \<and> reads_only R [state_key (env_prefix E) j, checkpoint_of E j key] (save_body E R ck g j key v)"
  by (intro conjI decisions)

text \<open>
  (C30) The retry loop of a transition is linearizable: whatever other clients write between
  its reads and its EXEC, what it returns and writes is what the atomic transition does at
  the EXEC of one of its attempts, or it writes nothing and returns what the atomic
  transition returns on the state it read.
\<close>

theorem transition_linearizable:
  assumes "watch_loop R (transition_body E R j a) atts = Some (s', r)"
    and "watch_promise R [state_key (env_prefix E) j] atts"
  shows "\<exists>(rd, touched, now) \<in> set atts.
    (s', r) = transition E R j a now \<or> (s' = now \<and> (rd, r) = transition E R j a rd)"
  using watch_loop_linearizable [OF assms(1) state_decisions(1) assms(2)]
  by (simp add: transition_def)

text \<open>A run whose first attempt loses against a take-over: the second sees the new generation.\<close>

theorem transition_linearizable_witness:
  "watch_loop mem_redis (transition_body example_env mem_redis 1 ex_start_args)
     [(ex_registered, True, ex_running), (ex_running, False, ex_running)]
   = Some (transition example_env mem_redis 1 ex_start_args ex_running)
   \<and> (\<exists>(rd, touched, now) \<in> set [(ex_registered, True, ex_running), (ex_running, False, ex_running)].
       transition example_env mem_redis 1 ex_start_args ex_running = transition example_env mem_redis 1 ex_start_args now
       \<or> (fst (transition example_env mem_redis 1 ex_start_args ex_running) = now
          \<and> (rd, snd (transition example_env mem_redis 1 ex_start_args ex_running))
            = transition example_env mem_redis 1 ex_start_args rd))"
proof -
  let ?atts = "[(ex_registered, True, ex_running), (ex_running, False, ex_running)]"
  let ?t = "transition example_env mem_redis 1 ex_start_args ex_running"
  have "\<exists>cs pubs r. transition_body example_env mem_redis 1 ex_start_args ex_registered = Commit cs pubs r"
  proof -
    have "(case transition_body example_env mem_redis 1 ex_start_args ex_registered of
        Commit cs pubs r \<Rightarrow> True | _ \<Rightarrow> False)" by code_simp
    then show ?thesis by (auto split: txn.splits)
  qed
  then have loop: "watch_loop mem_redis (transition_body example_env mem_redis 1 ex_start_args) ?atts = Some ?t"
    using watch_loop_alone [of mem_redis "transition_body example_env mem_redis 1 ex_start_args" ex_running "[]"]
    by (auto simp: transition_def)
  have promise: "watch_promise mem_redis [state_key (env_prefix example_env) 1] ?atts"
    by (simp add: watch_promise_def same_watched_def)
  show ?thesis
    using transition_linearizable [OF _ promise, of ex_start_args "fst ?t" "snd ?t"] loop by simp
qed

end
