(* ===== verification/Discovery_Store.thy ===== *)
theory Discovery_Store
  imports Cost_Outbox
begin

text \<open>
  The durable store of competitor-discovery tasks (app/competitors_v22/store.py and
  keys.py): the same server, its own keys, no leases, no fencing by generation, no callback
  and recovery indexes. As in the job store, a WATCH loop is a decision \<open>discovery_..._body\<close>.
  The configuration holds the normalised prefix of this store. \<open>D\<close> is the configuration.
\<close>

subsection \<open>Keys (class CompetitorDiscoveryRedisKeys)\<close>

definition discovery_prefix :: "string \<Rightarrow> string option" where
  "discovery_prefix p =
     (let normalized = strip_chars (\<lambda>c. c = CHR '':'') (strip_chars py_isspace p)
      in if normalized = [] then None else Some (normalized @ '':competitor-discovery''))"

definition discovery_request_key :: "runtime_env \<Rightarrow> uuid \<Rightarrow> string" where
  "discovery_request_key D j = env_prefix D @ '':job:'' @ uuid_str j @ '':request''"

definition discovery_state_key :: "runtime_env \<Rightarrow> uuid \<Rightarrow> string" where
  "discovery_state_key D j = env_prefix D @ '':job:'' @ uuid_str j @ '':state''"

definition discovery_idempotency_key :: "runtime_env \<Rightarrow> uuid \<Rightarrow> string \<Rightarrow> string" where
  "discovery_idempotency_key D c k =
     env_prefix D @ '':idem:'' @ uuid_str c @ '':'' @ env_sha256 D k"

definition discovery_events_key :: "runtime_env \<Rightarrow> uuid \<Rightarrow> string" where
  "discovery_events_key D j = env_prefix D @ '':events:'' @ uuid_str j"

definition discovery_checkpoint_key :: "runtime_env \<Rightarrow> uuid \<Rightarrow> string \<Rightarrow> string" where
  "discovery_checkpoint_key D j k =
     env_prefix D @ '':job:'' @ uuid_str j @ '':checkpoint:'' @ env_sha256 D k"

definition discovery_active_key :: "runtime_env \<Rightarrow> string" where
  "discovery_active_key D = env_prefix D @ '':active''"

text \<open>The names are those of the job store under another prefix, so its key laws apply.\<close>

lemma discovery_keys [simp]:
  "discovery_request_key D j = request_key (env_prefix D) j"
  "discovery_state_key D j = state_key (env_prefix D) j"
  "discovery_idempotency_key D c k = idempotency_key (env_sha256 D) (env_prefix D) c k"
  "discovery_events_key D j = events_key (env_prefix D) j"
  "discovery_checkpoint_key D j k = checkpoint_key (env_sha256 D) (env_prefix D) j k"
  "discovery_active_key D = active_key (env_prefix D)"
  by (simp_all add: discovery_request_key_def discovery_state_key_def discovery_idempotency_key_def
      discovery_events_key_def discovery_checkpoint_key_def discovery_active_key_def key_defs)

subsection \<open>Reads\<close>

record discovery_registration =
  dg_state :: discovery_state
  dg_replayed :: bool

record discovery_transition_result =
  dt_state :: discovery_state
  dt_applied :: bool

definition discovery_status_name :: "job_status \<Rightarrow> string" where
  "discovery_status_name st = (case st of Queued \<Rightarrow> ''queued'' | Running \<Rightarrow> ''running''
     | Succeeded \<Rightarrow> ''succeeded'' | Failed \<Rightarrow> ''failed'')"

fun DISCOVERY_TRANSITIONS :: "job_status \<Rightarrow> job_status list" where
  "DISCOVERY_TRANSITIONS Queued = [Queued, Running, Failed]"
| "DISCOVERY_TRANSITIONS Running = [Running, Queued, Succeeded, Failed]"
| "DISCOVERY_TRANSITIONS Succeeded = []"
| "DISCOVERY_TRANSITIONS Failed = []"

definition discovery_decode_json :: "rval \<Rightarrow> exn + json" where
  "discovery_decode_json v = (case v of VJson x \<Rightarrow> Inr x | _ \<Rightarrow> Inl (ValueError ''JSONDecodeError''))"

definition discovery_get_state ::
    "runtime_env \<Rightarrow> 's server \<Rightarrow> 's \<Rightarrow> uuid \<Rightarrow> exn + discovery_state option" where
  "discovery_get_state D R s j =
     (case rget R s (discovery_state_key D j) of
        None \<Rightarrow> Inr None
      | Some (VDiscovery st) \<Rightarrow>
          (case validate_discovery st of Inl e \<Rightarrow> Inl e | Inr st' \<Rightarrow> Inr (Some st'))
      | Some _ \<Rightarrow> Inl ValidationError)"

definition discovery_require_state ::
    "runtime_env \<Rightarrow> 's server \<Rightarrow> 's \<Rightarrow> uuid \<Rightarrow> exn + discovery_state" where
  "discovery_require_state D R s j =
     (case discovery_get_state D R s j of
        Inl e \<Rightarrow> Inl e | Inr None \<Rightarrow> Inl JobNotFound | Inr (Some st) \<Rightarrow> Inr st)"

definition discovery_get_request :: "runtime_env \<Rightarrow> 's server \<Rightarrow> 's \<Rightarrow> uuid \<Rightarrow> exn + json option" where
  "discovery_get_request D R s j =
     (case rget R s (discovery_request_key D j) of
        None \<Rightarrow> Inr None
      | Some raw \<Rightarrow>
          (case discovery_decode_json raw of
             Inl e \<Rightarrow> Inl e
           | Inr v \<Rightarrow> Inr (if is_jobj v then Some v else None)))"

subsection \<open>Registration\<close>

record discovery_registration_args =
  dga_job_id :: uuid
  dga_case_id :: uuid
  dga_idempotency_key :: string
  dga_request_payload :: json
  dga_now :: timestamp

definition discovery_idem_digest :: "runtime_env \<Rightarrow> discovery_registration_args \<Rightarrow> string" where
  "discovery_idem_digest D a = ''sha256:'' @ env_sha256 D (dga_idempotency_key a)"

definition discovery_initial :: "runtime_env \<Rightarrow> discovery_registration_args \<Rightarrow> discovery_state" where
  "discovery_initial D a =
     \<lparr>ds_discovery_job_id = dga_job_id a, ds_case_id = dga_case_id a, ds_status = Queued,
      ds_stage = Ds_queued, ds_progress = 0,
      ds_message = ''Queued. Competitor discovery will begin shortly.'',
      ds_attempt_count = 0, ds_run_generation = 1, ds_revision = 1,
      ds_request_digest = request_digest D (dga_request_payload a),
      ds_idempotency_key_digest = discovery_idem_digest D a,
      ds_heartbeat_at = None, ds_created_at = dga_now a, ds_updated_at = dga_now a,
      ds_completed_at = None, ds_result = None, ds_error = None, ds_cost_counters = []\<rparr>"

definition discovery_identity :: "runtime_env \<Rightarrow> discovery_registration_args \<Rightarrow> json" where
  "discovery_identity D a =
     JObj [(''discovery_job_id'', JStr (uuid_str (dga_job_id a))),
           (''case_id'', JStr (uuid_str (dga_case_id a))),
           (''request_digest'', JStr (request_digest D (dga_request_payload a)))]"

definition discovery_register_commands ::
    "runtime_env \<Rightarrow> discovery_registration_args \<Rightarrow> discovery_state \<Rightarrow> rval rcmd list" where
  "discovery_register_commands D a initial =
     (let ttl = env_state_ttl_seconds D; j = dga_job_id a
      in [SetEx (discovery_idempotency_key D (dga_case_id a) (dga_idempotency_key a))
            (VJson (discovery_identity D a)) ttl,
          SetEx (discovery_request_key D j) (VJson (dga_request_payload a)) ttl,
          SetEx (discovery_state_key D j) (VDiscovery initial) ttl,
          Zadd (discovery_active_key D) (uuid_str j) (of_timestamp (dga_now a))])"

definition discovery_register_body ::
    "runtime_env \<Rightarrow> 's server \<Rightarrow> discovery_registration_args \<Rightarrow> discovery_state \<Rightarrow> 's
     \<Rightarrow> discovery_registration decision" where
  "discovery_register_body D R a initial s =
     (let j = dga_job_id a; digest = request_digest D (dga_request_payload a)
      in case rget R s (discovery_idempotency_key D (dga_case_id a) (dga_idempotency_key a)) of
           Some raw \<Rightarrow>
             (case discovery_decode_json raw of
                Inl e \<Rightarrow> Fail e
              | Inr ident \<Rightarrow>
                 if \<not> is_jobj ident then Fail (OtherException ''AttributeError'')
                 else if jget ''request_digest'' ident \<noteq> Some (JStr digest) then Fail IdempotencyConflict
                 else if jget ''discovery_job_id'' ident \<noteq> Some (JStr (uuid_str j))
                 then Fail JobIdentityConflict
                 else (case discovery_get_state D R s j of
                         Inl e \<Rightarrow> Fail e
                       | Inr None \<Rightarrow> Fail JobIdentityConflict
                       | Inr (Some existing) \<Rightarrow> Return \<lparr>dg_state = existing, dg_replayed = True\<rparr>))
         | None \<Rightarrow>
             (case discovery_get_state D R s j of
                Inl e \<Rightarrow> Fail e
              | Inr (Some existing) \<Rightarrow>
                  if ds_case_id existing \<noteq> dga_case_id a \<or> ds_request_digest existing \<noteq> digest
                     \<or> ds_idempotency_key_digest existing \<noteq> discovery_idem_digest D a
                  then Fail JobIdentityConflict
                  else Return \<lparr>dg_state = existing, dg_replayed = True\<rparr>
              | Inr None \<Rightarrow>
                  Commit (discovery_register_commands D a initial)
                    [(discovery_events_key D j, int_str (ds_revision initial))]
                    \<lparr>dg_state = initial, dg_replayed = False\<rparr>))"

definition discovery_register ::
    "runtime_env \<Rightarrow> 's server \<Rightarrow> discovery_registration_args \<Rightarrow> 's \<Rightarrow> 's \<times> (exn + discovery_registration)"
where
  "discovery_register D R a s =
     (case validate_discovery (discovery_initial D a) of
        Inl e \<Rightarrow> (s, Inl e)
      | Inr initial \<Rightarrow> run_txn R (discovery_register_body D R a initial) s)"

subsection \<open>Transitions\<close>

record discovery_transition_args =
  dta_status :: job_status
  dta_stage :: discovery_stage
  dta_progress :: int
  dta_message :: string
  dta_now :: timestamp
  dta_attempt_count :: "int option"
  dta_heartbeat_at :: "timestamp option"
  dta_result :: "discovery_result option"
  dta_error :: "discovery_error option"
  dta_cost_counters :: "counters option"

definition discovery_call ::
    "job_status \<Rightarrow> discovery_stage \<Rightarrow> int \<Rightarrow> string \<Rightarrow> timestamp \<Rightarrow> discovery_transition_args" where
  "discovery_call st sg pr msg now =
     \<lparr>dta_status = st, dta_stage = sg, dta_progress = pr, dta_message = msg, dta_now = now,
      dta_attempt_count = None, dta_heartbeat_at = None, dta_result = None, dta_error = None,
      dta_cost_counters = None\<rparr>"

definition discovery_next :: "discovery_transition_args \<Rightarrow> discovery_state \<Rightarrow> discovery_state" where
  "discovery_next a current = current
     \<lparr>ds_status := dta_status a,
      ds_stage := dta_stage a,
      ds_progress := dta_progress a,
      ds_message := dta_message a,
      ds_attempt_count := (case dta_attempt_count a of None \<Rightarrow> ds_attempt_count current | Some n \<Rightarrow> n),
      ds_revision := ds_revision current + 1,
      ds_heartbeat_at :=
        (case dta_heartbeat_at a of
           Some t \<Rightarrow> Some t
         | None \<Rightarrow> if dta_status a = Running then Some (dta_now a) else ds_heartbeat_at current),
      ds_updated_at := dta_now a,
      ds_completed_at := (if dta_status a \<in> {Succeeded, Failed} then Some (dta_now a) else None),
      ds_result := dta_result a,
      ds_error := dta_error a,
      ds_cost_counters := (case dta_cost_counters a of None \<Rightarrow> ds_cost_counters current | Some c \<Rightarrow> c)\<rparr>"

definition discovery_transition_commands ::
    "runtime_env \<Rightarrow> uuid \<Rightarrow> timestamp \<Rightarrow> discovery_state \<Rightarrow> rval rcmd list" where
  "discovery_transition_commands D j now nxt =
     [SetEx (discovery_state_key D j) (VDiscovery nxt) (env_state_ttl_seconds D),
      Expire (discovery_request_key D j) (env_state_ttl_seconds D),
      (if discovery_terminal nxt then Zrem (discovery_active_key D) (uuid_str j)
       else Zadd (discovery_active_key D) (uuid_str j) (of_timestamp now))]"

definition discovery_transition_body ::
    "runtime_env \<Rightarrow> 's server \<Rightarrow> uuid \<Rightarrow> discovery_transition_args \<Rightarrow> 's
     \<Rightarrow> discovery_transition_result decision" where
  "discovery_transition_body D R j a s =
     (case discovery_get_state D R s j of
        Inl e \<Rightarrow> Fail e
      | Inr None \<Rightarrow> Fail JobNotFound
      | Inr (Some current) \<Rightarrow>
          if discovery_terminal current then Return \<lparr>dt_state = current, dt_applied = False\<rparr>
          else if dta_status a \<notin> set (DISCOVERY_TRANSITIONS (ds_status current))
          then Fail (InvalidJobTransition (''Transition from '' @ discovery_status_name (ds_status current)
                 @ '' to '' @ discovery_status_name (dta_status a) @ '' is not allowed.''))
          else (case validate_discovery (discovery_next a current) of
                  Inl e \<Rightarrow> Fail e
                | Inr nxt \<Rightarrow>
                    Commit (discovery_transition_commands D j (dta_now a) nxt)
                      [(discovery_events_key D j, int_str (ds_revision nxt))]
                      \<lparr>dt_state = nxt, dt_applied = True\<rparr>))"

definition discovery_transition ::
    "runtime_env \<Rightarrow> 's server \<Rightarrow> uuid \<Rightarrow> discovery_transition_args \<Rightarrow> 's
     \<Rightarrow> 's \<times> (exn + discovery_transition_result)" where
  "discovery_transition D R j a s = run_txn R (discovery_transition_body D R j a) s"

subsection \<open>Manual retries\<close>

definition discovery_retry_state :: "timestamp \<Rightarrow> discovery_state \<Rightarrow> discovery_state" where
  "discovery_retry_state now current = current
     \<lparr>ds_status := Queued, ds_stage := Ds_queued, ds_progress := 0,
      ds_message := ''Queued for a manual retry.'',
      ds_run_generation := ds_run_generation current + 1,
      ds_revision := ds_revision current + 1,
      ds_heartbeat_at := None, ds_updated_at := now, ds_completed_at := None,
      ds_result := None, ds_error := None\<rparr>"

definition discovery_retry_commands ::
    "runtime_env \<Rightarrow> uuid \<Rightarrow> timestamp \<Rightarrow> string list \<Rightarrow> discovery_state \<Rightarrow> rval rcmd list" where
  "discovery_retry_commands D j now checkpoint_keys nxt =
     [SetEx (discovery_state_key D j) (VDiscovery nxt) (env_state_ttl_seconds D),
      Expire (discovery_request_key D j) (env_state_ttl_seconds D)]
     @ (if checkpoint_keys \<noteq> [] then [Del checkpoint_keys] else [])
     @ [Zadd (discovery_active_key D) (uuid_str j) (of_timestamp now)]"

text \<open>\<open>checkpoint_keys\<close> is what the SCAN before the transaction returned.\<close>

definition discovery_retry_body ::
    "runtime_env \<Rightarrow> 's server \<Rightarrow> uuid \<Rightarrow> timestamp \<Rightarrow> string list \<Rightarrow> 's \<Rightarrow> discovery_state decision" where
  "discovery_retry_body D R j now checkpoint_keys s =
     (case discovery_get_state D R s j of
        Inl e \<Rightarrow> Fail e
      | Inr None \<Rightarrow> Fail JobNotFound
      | Inr (Some current) \<Rightarrow>
          if ds_status current \<noteq> Failed
             \<or> (case ds_error current of None \<Rightarrow> True | Some er \<Rightarrow> \<not> de_retryable er)
          then Fail JobNotRetryable
          else (case validate_discovery (discovery_retry_state now current) of
                  Inl e \<Rightarrow> Fail e
                | Inr nxt \<Rightarrow>
                    Commit (discovery_retry_commands D j now checkpoint_keys nxt)
                      [(discovery_events_key D j, int_str (ds_revision nxt))] nxt))"

definition discovery_retry_failed ::
    "runtime_env \<Rightarrow> 's server \<Rightarrow> uuid \<Rightarrow> timestamp \<Rightarrow> string list \<Rightarrow> 's \<Rightarrow> 's \<times> (exn + discovery_state)"
where
  "discovery_retry_failed D R j now checkpoint_keys s =
     run_txn R (discovery_retry_body D R j now checkpoint_keys) s"

text \<open>What SCAN with the pattern of the job's checkpoints returns.\<close>

definition scanned :: "runtime_env \<Rightarrow> 's server \<Rightarrow> uuid \<Rightarrow> 's \<Rightarrow> string list \<Rightarrow> bool" where
  "scanned D R j s ks \<longleftrightarrow>
     (\<forall>k. rget R s (discovery_checkpoint_key D j k) \<noteq> None \<longrightarrow> discovery_checkpoint_key D j k \<in> set ks)
   \<and> (\<forall>x \<in> set ks. \<exists>r. x = env_prefix D @ '':job:'' @ uuid_str j @ '':checkpoint:'' @ r)"

subsection \<open>Listing\<close>

definition discovery_active_count :: "runtime_env \<Rightarrow> 's server \<Rightarrow> 's \<Rightarrow> nat" where
  "discovery_active_count D R s = zcard R s (discovery_active_key D)"

text \<open>\<open>[UUID(value) for value in values]\<close>: one malformed member raises.\<close>

fun parse_uuids :: "string list \<Rightarrow> exn + uuid list" where
  "parse_uuids [] = Inr []"
| "parse_uuids (v # vs) =
     (case py_uuid v of
        None \<Rightarrow> Inl (ValueError ''badly formed hexadecimal UUID string'')
      | Some j \<Rightarrow> (case parse_uuids vs of Inl e \<Rightarrow> Inl e | Inr js \<Rightarrow> Inr (j # js)))"

definition discovery_list_stale ::
    "runtime_env \<Rightarrow> 's server \<Rightarrow> timestamp \<Rightarrow> nat \<Rightarrow> 's \<Rightarrow> exn + uuid list" where
  "discovery_list_stale D R cutoff limit s =
     parse_uuids (map fst (zrangebyscore R s (discovery_active_key D) (of_timestamp cutoff) limit))"

lemma parse_uuids_strs [simp]: "parse_uuids (map uuid_str js) = Inr js"
  by (induction js) auto

end
