(* ===== verification/Discovery_Laws.thy ===== *)
theory Discovery_Laws
  imports Discovery_Store Ledger_Laws
begin

text \<open>
  What the discovery store promises: how each operation ends, the invariant of its reachable
  states, and that every step of it is a step of the job lifecycle without
  its recovery step.
\<close>

definition discovery_abs :: "discovery_state \<Rightarrow> job_abs" where
  "discovery_abs st = Job_abs (ds_status st) (ds_run_generation st) (ds_revision st)
     (case ds_error st of None \<Rightarrow> False | Some e \<Rightarrow> de_retryable e)"

definition abs_discovery :: "runtime_env \<Rightarrow> 's server \<Rightarrow> 's \<Rightarrow> uuid \<Rightarrow> job_abs option" where
  "abs_discovery D R s j =
     (case rget R s (discovery_state_key D j) of
        Some (VDiscovery st) \<Rightarrow> Some (discovery_abs st) | _ \<Rightarrow> None)"

text \<open>Stored states are valid and under their own key, and listed as active while they are open.\<close>

definition discovery_job_inv ::
    "runtime_env \<Rightarrow> (string \<Rightarrow> rval option) \<Rightarrow> (string \<Rightarrow> string \<Rightarrow> score option) \<Rightarrow> uuid \<Rightarrow> bool" where
  "discovery_job_inv D kv zs j \<longleftrightarrow>
     (case kv (discovery_state_key D j) of
        None \<Rightarrow> True
      | Some (VDiscovery st) \<Rightarrow>
          discovery_valid st \<and> ds_discovery_job_id st = j
          \<and> (zs (discovery_active_key D) (uuid_str j) \<noteq> None \<longleftrightarrow> \<not> discovery_terminal st)
      | Some _ \<Rightarrow> False)"

definition discovery_inv :: "runtime_env \<Rightarrow> 's server \<Rightarrow> 's \<Rightarrow> bool" where
  "discovery_inv D R s \<longleftrightarrow> (\<forall>j. discovery_job_inv D (rget R s) (zscore R s) j)"

inductive discovery_step :: "runtime_env \<Rightarrow> 's server \<Rightarrow> 's \<Rightarrow> 's \<Rightarrow> bool"
  for D :: runtime_env and R :: "'s server"
where
  dstep_register: "discovery_step D R s (fst (discovery_register D R a s))"
| dstep_transition: "discovery_step D R s (fst (discovery_transition D R j ta s))"
| dstep_retry:
    "\<forall>x \<in> set ks. \<exists>r. x = env_prefix D @ '':job:'' @ uuid_str j @ '':checkpoint:'' @ r \<Longrightarrow>
     discovery_step D R s (fst (discovery_retry_failed D R j now ks s))"
| dstep_elsewhere:
    "(\<And>j. rget R t (discovery_state_key D j) = rget R s (discovery_state_key D j)) \<Longrightarrow>
     zscore R t (discovery_active_key D) = zscore R s (discovery_active_key D) \<Longrightarrow>
     discovery_step D R s t"

lemma discovery_invD:
  assumes "discovery_inv D R s" "discovery_get_state D R s j = Inr (Some st)"
  shows "rget R s (discovery_state_key D j) = Some (VDiscovery st)"
    and "discovery_valid st" "ds_discovery_job_id st = j"
    and "zscore R s (discovery_active_key D) (uuid_str j) \<noteq> None \<longleftrightarrow> \<not> discovery_terminal st"
proof -
  have inv: "discovery_job_inv D (rget R s) (zscore R s) j"
    using assms(1) by (simp add: discovery_inv_def)
  then show kv: "rget R s (discovery_state_key D j) = Some (VDiscovery st)"
    using assms(2)
    by (auto simp: discovery_job_inv_def discovery_get_state_def
        split: option.splits rval.splits sum.splits)
  show "discovery_valid st" "ds_discovery_job_id st = j"
    "zscore R s (discovery_active_key D) (uuid_str j) \<noteq> None \<longleftrightarrow> \<not> discovery_terminal st"
    using inv kv by (auto simp: discovery_job_inv_def)
qed

lemma discovery_inv_get_state:
  assumes "discovery_inv D R s"
  shows "discovery_get_state D R s j =
    Inr (case rget R s (discovery_state_key D j) of Some (VDiscovery st) \<Rightarrow> Some st | _ \<Rightarrow> None)"
proof -
  have "discovery_job_inv D (rget R s) (zscore R s) j" using assms by (simp add: discovery_inv_def)
  then show ?thesis
    by (auto simp: discovery_job_inv_def discovery_get_state_def split: option.splits rval.splits)
qed

text \<open>Replacing one task's state, and leaving all of them alone.\<close>

lemma discovery_inv_update:
  assumes inv: "discovery_inv D R s"
    and kv: "\<And>i. i \<noteq> j \<Longrightarrow> rget R t (discovery_state_key D i) = rget R s (discovery_state_key D i)"
    and zs: "\<And>i. i \<noteq> j \<Longrightarrow> zscore R t (discovery_active_key D) (uuid_str i)
        = zscore R s (discovery_active_key D) (uuid_str i)"
    and new: "rget R t (discovery_state_key D j) = Some (VDiscovery nxt)" "discovery_valid nxt"
      "ds_discovery_job_id nxt = j"
      "zscore R t (discovery_active_key D) (uuid_str j) \<noteq> None \<longleftrightarrow> \<not> discovery_terminal nxt"
  shows "discovery_inv D R t"
  unfolding discovery_inv_def
proof
  fix i
  have i: "discovery_job_inv D (rget R s) (zscore R s) i" using inv by (simp add: discovery_inv_def)
  show "discovery_job_inv D (rget R t) (zscore R t) i"
  proof (cases "i = j")
    case True
    then show ?thesis using new by (simp add: discovery_job_inv_def)
  next
    case False
    then show ?thesis using i unfolding discovery_job_inv_def kv [OF False] zs [OF False] by simp
  qed
qed

text \<open>
  The abstract life of a task: the lifecycle of a job without its recovery step, from the
  first generation and revision. A generation ends only by a manual retry.
\<close>

inductive discovery_life :: "job_abs option \<Rightarrow> job_abs option \<Rightarrow> bool" where
  dlife_create: "discovery_life None (Some (Job_abs Queued 1 1 False))"
| dlife_write:
    "st' \<in> set (DISCOVERY_TRANSITIONS st) \<Longrightarrow> (st' \<noteq> Failed \<longrightarrow> \<not> y') \<Longrightarrow>
     discovery_life (Some (Job_abs st g r y)) (Some (Job_abs st' g (r + 1) y'))"
| dlife_retry:
    "discovery_life (Some (Job_abs Failed g r True)) (Some (Job_abs Queued (g + 1) (r + 1) False))"

inductive_cases discovery_life_SomeE: "discovery_life (Some a) b"

lemma DISCOVERY_TRANSITIONS_job [simp]: "DISCOVERY_TRANSITIONS st = ALLOWED_TRANSITIONS st"
  by (cases st) simp_all

lemma discovery_life_is_lifecycle: "discovery_life a b \<Longrightarrow> lifecycle_step a b"
  by (induction rule: discovery_life.induct) (auto intro: lifecycle_step.intros)

text \<open>The abstract view of a write.\<close>

definition discovery_refines :: "runtime_env \<Rightarrow> 's server \<Rightarrow> 's \<Rightarrow> 's \<Rightarrow> uuid \<Rightarrow> bool" where
  "discovery_refines D R s t j \<longleftrightarrow>
     abs_discovery D R t j = abs_discovery D R s j
   \<or> discovery_life (abs_discovery D R s j) (abs_discovery D R t j)"

lemma discovery_refines_write:
  assumes "abs_discovery D R s i = a"
    and "rget R t (discovery_state_key D i) = Some (VDiscovery nxt)"
    and "\<And>k. k \<noteq> i \<Longrightarrow> rget R t (discovery_state_key D k) = rget R s (discovery_state_key D k)"
    and "discovery_life a (Some (discovery_abs nxt))"
  shows "discovery_refines D R s t j"
  using assms by (cases "j = i") (simp_all add: discovery_refines_def abs_discovery_def)

lemma discovery_refines_same:
  "rget R t (discovery_state_key D j) = rget R s (discovery_state_key D j) \<Longrightarrow> discovery_refines D R s t j"
  by (simp add: discovery_refines_def abs_discovery_def)

lemma discovery_error_retryable:
  assumes "validate_discovery st = Inr st'"
  shows "(case ds_error st' of None \<Rightarrow> False | Some e \<Rightarrow> de_retryable e) =
    (case ds_error st of None \<Rightarrow> False | Some e \<Rightarrow> de_retryable e)"
  using assms
  by (auto simp: validate_discovery_def validate_discovery_error_def Let_def
      split: option.splits sum.splits if_splits)

lemma discovery_not_failed: "discovery_valid st \<Longrightarrow> ds_status st \<noteq> Failed \<Longrightarrow> ds_error st = None"
  using discovery_valid_fields(2) [of st] by (cases "ds_status st") (auto simp: discovery_lifecycle_ok_def)

lemma discovery_valid_texts:
  assumes "discovery_valid st"
  shows "strip_text (ds_request_digest st) = ds_request_digest st"
    "strip_text (ds_idempotency_key_digest st) = ds_idempotency_key_digest st"
    "validate_cost_counters_snapshot (ds_cost_counters st) = Inr (ds_cost_counters st)"
proof -
  let ?st = "st\<lparr>ds_message := strip_text (ds_message st),
     ds_request_digest := strip_text (ds_request_digest st),
     ds_idempotency_key_digest := strip_text (ds_idempotency_key_digest st)\<rparr>"
  obtain err cc where cc: "validate_cost_counters_snapshot (ds_cost_counters st) = Inr cc"
    and st: "?st\<lparr>ds_error := err, ds_cost_counters := cc\<rparr> = st"
    using assms by (auto simp: discovery_valid_def validate_discovery_def Let_def
        split: option.splits sum.splits if_splits)
  have "ds_request_digest (?st\<lparr>ds_error := err, ds_cost_counters := cc\<rparr>) = ds_request_digest st"
    "ds_idempotency_key_digest (?st\<lparr>ds_error := err, ds_cost_counters := cc\<rparr>) = ds_idempotency_key_digest st"
    "ds_cost_counters (?st\<lparr>ds_error := err, ds_cost_counters := cc\<rparr>) = ds_cost_counters st"
    by (simp_all only: st)
  then show "strip_text (ds_request_digest st) = ds_request_digest st"
    "strip_text (ds_idempotency_key_digest st) = ds_idempotency_key_digest st"
    "validate_cost_counters_snapshot (ds_cost_counters st) = Inr (ds_cost_counters st)"
    using cc by simp_all
qed

lemma discovery_retry_valid:
  assumes "discovery_valid st" "ds_status st = Failed" "ds_created_at st \<le> now"
  shows "validate_discovery (discovery_retry_state now st) = Inr (discovery_retry_state now st)"
proof -
  have m: "strip_text ''Queued for a manual retry.'' = ''Queued for a manual retry.''" by code_simp
  show ?thesis
    using assms discovery_valid_fields [OF assms(1)]
    by (simp add: validate_discovery_def Let_def discovery_retry_state_def m discovery_valid_texts
        discovery_fields_ok_def discovery_lifecycle_ok_def text_len_def)
qed

context job_runtime
begin

lemma discovery_transition_elim:
  obtains
    (unchanged) "fst (discovery_transition E R j a s) = s"
      "\<And>r. snd (discovery_transition E R j a s) = Inr r \<Longrightarrow>
        \<not> dt_applied r \<and> discovery_get_state E R s j = Inr (Some (dt_state r)) \<and> discovery_terminal (dt_state r)"
  | (applied) current nxt where
      "discovery_get_state E R s j = Inr (Some current)"
      "\<not> discovery_terminal current"
      "dta_status a \<in> set (DISCOVERY_TRANSITIONS (ds_status current))"
      "validate_discovery (discovery_next a current) = Inr nxt"
      "snd (discovery_transition E R j a s) = Inr \<lparr>dt_state = nxt, dt_applied = True\<rparr>"
      "rget R (fst (discovery_transition E R j a s)) = (rget R s)(discovery_state_key E j \<mapsto> VDiscovery nxt)"
      "zscore R (fst (discovery_transition E R j a s)) =
        fold cmd_zs (discovery_transition_commands E j (dta_now a) nxt) (zscore R s)"
proof (cases "discovery_transition_body E R j a s")
  case (Fail e)
  then show ?thesis using unchanged by (auto simp: discovery_transition_def run_txn_Fail)
next
  case (Return r)
  then have "\<not> dt_applied r \<and> discovery_get_state E R s j = Inr (Some (dt_state r)) \<and> discovery_terminal (dt_state r)"
    by (auto simp: discovery_transition_body_def split: sum.splits option.splits if_splits)
  with Return show ?thesis using unchanged by (auto simp: discovery_transition_def run_txn_Return)
next
  case (Commit cs pubs r)
  then obtain current nxt where *:
      "discovery_get_state E R s j = Inr (Some current)" "\<not> discovery_terminal current"
      "dta_status a \<in> set (DISCOVERY_TRANSITIONS (ds_status current))"
      "validate_discovery (discovery_next a current) = Inr nxt"
      "r = \<lparr>dt_state = nxt, dt_applied = True\<rparr>"
      "cs = discovery_transition_commands E j (dta_now a) nxt"
    by (auto simp: discovery_transition_body_def split: sum.splits option.splits if_splits)
  have ok: "list_all cmd_ok cs" using env by (auto simp: *(6) discovery_transition_commands_def)
  have kv: "fold cmd_kv cs m = m(discovery_state_key E j \<mapsto> VDiscovery nxt)" for m
    by (auto simp: *(6) discovery_transition_commands_def)
  show ?thesis
    using * run_txn_Commit [of "discovery_transition_body E R j a" s, OF Commit ok] kv
    by (intro applied [of current nxt]) (auto simp: discovery_transition_def)
qed

lemma discovery_register_elim:
  obtains
    (unchanged) "fst (discovery_register E R a s) = s"
  | (created) initial where
      "validate_discovery (discovery_initial E a) = Inr initial"
      "discovery_get_state E R s (dga_job_id a) = Inr None"
      "snd (discovery_register E R a s) = Inr \<lparr>dg_state = initial, dg_replayed = False\<rparr>"
      "rget R (fst (discovery_register E R a s)) =
        fold cmd_kv (discovery_register_commands E a initial) (rget R s)"
      "zscore R (fst (discovery_register E R a s)) =
        fold cmd_zs (discovery_register_commands E a initial) (zscore R s)"
proof (cases "validate_discovery (discovery_initial E a)")
  case (Inl e)
  then show ?thesis using unchanged by (simp add: discovery_register_def)
next
  case (Inr initial)
  show ?thesis
  proof (cases "discovery_register_body E R a initial s")
    case (Commit cs pubs r)
    then have *: "discovery_get_state E R s (dga_job_id a) = Inr None"
        "r = \<lparr>dg_state = initial, dg_replayed = False\<rparr>" "cs = discovery_register_commands E a initial"
      by (auto simp: discovery_register_body_def Let_def split: sum.splits option.splits if_splits)
    have ok: "list_all cmd_ok cs" using env by (auto simp: *(3) discovery_register_commands_def Let_def)
    show ?thesis
      using * Inr run_txn_Commit [of "discovery_register_body E R a initial" s, OF Commit ok]
      by (intro created [of initial]) (auto simp: discovery_register_def)
  qed (use unchanged Inr in \<open>auto simp: discovery_register_def run_txn_Fail run_txn_Return\<close>)
qed

lemma discovery_retry_elim:
  obtains
    (unchanged) "fst (discovery_retry_failed E R j now ks s) = s"
  | (requeued) current er nxt where
      "discovery_get_state E R s j = Inr (Some current)"
      "ds_status current = Failed" "ds_error current = Some er" "de_retryable er"
      "validate_discovery (discovery_retry_state now current) = Inr nxt"
      "snd (discovery_retry_failed E R j now ks s) = Inr nxt"
      "rget R (fst (discovery_retry_failed E R j now ks s)) =
        fold cmd_kv (discovery_retry_commands E j now ks nxt) (rget R s)"
      "zscore R (fst (discovery_retry_failed E R j now ks s)) =
        fold cmd_zs (discovery_retry_commands E j now ks nxt) (zscore R s)"
proof (cases "discovery_retry_body E R j now ks s")
  case (Commit cs pubs r)
  then obtain current er where *: "discovery_get_state E R s j = Inr (Some current)"
      "ds_status current = Failed" "ds_error current = Some er" "de_retryable er"
      "validate_discovery (discovery_retry_state now current) = Inr r"
      "cs = discovery_retry_commands E j now ks r"
    by (auto simp: discovery_retry_body_def split: sum.splits option.splits if_splits)
  have ok: "list_all cmd_ok cs" using env by (auto simp: *(6) discovery_retry_commands_def)
  show ?thesis
    using * run_txn_Commit [of "discovery_retry_body E R j now ks" s, OF Commit ok]
    by (intro requeued [of current er r]) (auto simp: discovery_retry_failed_def)
qed (use unchanged in \<open>auto simp: discovery_retry_failed_def run_txn_Fail run_txn_Return\<close>)

lemma checkpoint_not_state:
  "\<forall>x \<in> set ks. \<exists>r. x = env_prefix E @ '':job:'' @ uuid_str j @ '':checkpoint:'' @ r \<Longrightarrow>
   discovery_state_key E i \<notin> set ks \<and> discovery_active_key E \<notin> set ks"
  by (force simp: key_defs)

lemma retry_views:
  assumes "\<forall>x \<in> set ks. \<exists>r. x = env_prefix E @ '':job:'' @ uuid_str j @ '':checkpoint:'' @ r"
  shows "fold cmd_kv (discovery_retry_commands E j now ks nxt) m (discovery_state_key E i) =
      (if i = j then Some (VDiscovery nxt) else m (discovery_state_key E i))"
    and "fold cmd_zs (discovery_retry_commands E j now ks nxt) z (discovery_active_key E) (uuid_str i) =
      (if i = j then Some (of_timestamp now) else z (discovery_active_key E) (uuid_str i))"
  using checkpoint_not_state [OF assms]
  by (auto simp: discovery_retry_commands_def)

subsection \<open>The invariant\<close>

lemma discovery_transition_inv: "discovery_inv E R s \<Longrightarrow> discovery_inv E R (fst (discovery_transition E R j a s))"
proof (rule discovery_transition_elim [of j a s])
  assume inv: "discovery_inv E R s"
  fix current nxt
  assume cur: "discovery_get_state E R s j = Inr (Some current)"
    and val: "validate_discovery (discovery_next a current) = Inr nxt"
    and kv: "rget R (fst (discovery_transition E R j a s)) = (rget R s)(discovery_state_key E j \<mapsto> VDiscovery nxt)"
    and zs: "zscore R (fst (discovery_transition E R j a s)) =
        fold cmd_zs (discovery_transition_commands E j (dta_now a) nxt) (zscore R s)"
  have id: "ds_discovery_job_id nxt = j"
    using discovery_invD(3) [OF inv cur] validate_discovery_Inr(4) [OF val] by (simp add: discovery_next_def)
  show "discovery_inv E R (fst (discovery_transition E R j a s))"
    by (rule discovery_inv_update [OF inv _ _ _ validate_discovery_Inr(1) [OF val] id])
      (auto simp: kv zs discovery_transition_commands_def)
qed simp

lemma discovery_register_inv: "discovery_inv E R s \<Longrightarrow> discovery_inv E R (fst (discovery_register E R a s))"
proof (rule discovery_register_elim [of a s])
  assume inv: "discovery_inv E R s"
  fix initial
  assume val: "validate_discovery (discovery_initial E a) = Inr initial"
    and kv: "rget R (fst (discovery_register E R a s)) =
        fold cmd_kv (discovery_register_commands E a initial) (rget R s)"
    and zs: "zscore R (fst (discovery_register E R a s)) =
        fold cmd_zs (discovery_register_commands E a initial) (zscore R s)"
  have id: "ds_discovery_job_id initial = dga_job_id a" "\<not> discovery_terminal initial"
    using validate_discovery_Inr(4,16) [OF val] by (simp_all add: discovery_initial_def discovery_terminal_def)
  show "discovery_inv E R (fst (discovery_register E R a s))"
    by (rule discovery_inv_update [OF inv _ _ _ validate_discovery_Inr(1) [OF val] id(1)])
      (auto simp: kv zs discovery_register_commands_def Let_def id)
qed simp

lemma discovery_retry_inv:
  assumes inv: "discovery_inv E R s"
    and ks: "\<forall>x \<in> set ks. \<exists>r. x = env_prefix E @ '':job:'' @ uuid_str j @ '':checkpoint:'' @ r"
  shows "discovery_inv E R (fst (discovery_retry_failed E R j now ks s))"
proof (rule discovery_retry_elim [of j now ks s])
  fix current er nxt
  assume cur: "discovery_get_state E R s j = Inr (Some current)"
    and val: "validate_discovery (discovery_retry_state now current) = Inr nxt"
    and kv: "rget R (fst (discovery_retry_failed E R j now ks s)) =
        fold cmd_kv (discovery_retry_commands E j now ks nxt) (rget R s)"
    and zs: "zscore R (fst (discovery_retry_failed E R j now ks s)) =
        fold cmd_zs (discovery_retry_commands E j now ks nxt) (zscore R s)"
  have id: "ds_discovery_job_id nxt = j" "\<not> discovery_terminal nxt"
    using discovery_invD(3) [OF inv cur] validate_discovery_Inr(4,16) [OF val]
    by (simp_all add: discovery_retry_state_def discovery_terminal_def)
  show ?thesis
    by (rule discovery_inv_update [OF inv _ _ _ validate_discovery_Inr(1) [OF val] id(1)])
      (simp_all only: kv zs retry_views [OF ks] id, simp_all)
qed (simp add: inv)

lemma discovery_step_inv: "discovery_step E R s t \<Longrightarrow> discovery_inv E R s \<Longrightarrow> discovery_inv E R t"
proof (induction rule: discovery_step.induct)
  case (dstep_elsewhere t s)
  then show ?case
    unfolding discovery_inv_def discovery_job_inv_def dstep_elsewhere.hyps by simp
qed (auto intro: discovery_register_inv discovery_transition_inv discovery_retry_inv)

subsection \<open>The lifecycle\<close>

lemma discovery_step_refines:
  assumes "discovery_step E R s t" and inv: "discovery_inv E R s"
  shows "discovery_refines E R s t j"
  using assms(1)
proof cases
  case (dstep_register a)
  show ?thesis
  proof (rule discovery_register_elim [of a s])
    fix initial
    assume val: "validate_discovery (discovery_initial E a) = Inr initial"
      and new: "discovery_get_state E R s (dga_job_id a) = Inr None"
      and kv: "rget R (fst (discovery_register E R a s)) =
        fold cmd_kv (discovery_register_commands E a initial) (rget R s)"
    have none: "abs_discovery E R s (dga_job_id a) = None"
      using new discovery_inv_get_state [OF inv, of "dga_job_id a"]
      by (auto simp: abs_discovery_def split: option.splits rval.splits)
    have "discovery_abs initial = Job_abs Queued 1 1 False"
      using validate_discovery_Inr(6,10,11) [OF val] discovery_error_retryable [OF val]
      by (simp add: discovery_abs_def discovery_initial_def)
    then have step: "discovery_life None (Some (discovery_abs initial))" by (simp add: dlife_create)
    show ?thesis unfolding dstep_register
      by (rule discovery_refines_write [OF none _ _ step])
        (simp_all add: kv discovery_register_commands_def Let_def)
  qed (simp add: dstep_register discovery_refines_same)
next
  case (dstep_transition i a)
  show ?thesis
  proof (rule discovery_transition_elim [of i a s])
    fix current nxt
    assume cur: "discovery_get_state E R s i = Inr (Some current)"
      and allowed: "dta_status a \<in> set (DISCOVERY_TRANSITIONS (ds_status current))"
      and val: "validate_discovery (discovery_next a current) = Inr nxt"
      and kv: "rget R (fst (discovery_transition E R i a s)) = (rget R s)(discovery_state_key E i \<mapsto> VDiscovery nxt)"
    note n = validate_discovery_Inr [OF val]
    have old: "abs_discovery E R s i = Some (discovery_abs current)"
      using discovery_invD(1) [OF inv cur] by (simp add: abs_discovery_def)
    have "ds_status nxt \<noteq> Failed \<Longrightarrow> ds_error nxt = None"
      using n(1) by (rule discovery_not_failed)
    then have step: "discovery_life (Some (discovery_abs current)) (Some (discovery_abs nxt))"
      using allowed n(6,10,11)
      by (auto simp: discovery_abs_def discovery_next_def intro!: dlife_write)
    show ?thesis unfolding dstep_transition
      by (rule discovery_refines_write [OF old _ _ step]) (simp_all add: kv)
  qed (simp add: dstep_transition discovery_refines_same)
next
  case (dstep_retry ks i now)
  show ?thesis
  proof (rule discovery_retry_elim [of i now ks s])
    fix current er nxt
    assume cur: "discovery_get_state E R s i = Inr (Some current)"
      and f: "ds_status current = Failed" "ds_error current = Some er" "de_retryable er"
      and val: "validate_discovery (discovery_retry_state now current) = Inr nxt"
      and kv: "rget R (fst (discovery_retry_failed E R i now ks s)) =
        fold cmd_kv (discovery_retry_commands E i now ks nxt) (rget R s)"
    have old: "abs_discovery E R s i = Some (Job_abs Failed (ds_run_generation current) (ds_revision current) True)"
      using discovery_invD(1) [OF inv cur] f by (simp add: abs_discovery_def discovery_abs_def)
    have "discovery_abs nxt = Job_abs Queued (ds_run_generation current + 1) (ds_revision current + 1) False"
      using validate_discovery_Inr(6,10,11,15) [OF val]
      by (simp add: discovery_abs_def discovery_retry_state_def)
    then have step: "discovery_life (Some (Job_abs Failed (ds_run_generation current) (ds_revision current) True))
        (Some (discovery_abs nxt))" by (simp add: dlife_retry)
    show ?thesis unfolding dstep_retry(1)
      by (rule discovery_refines_write [OF old _ _ step])
        (simp_all only: kv retry_views(1) [OF dstep_retry(2)], simp_all)
  qed (simp add: dstep_retry discovery_refines_same)
next
  case dstep_elsewhere
  then show ?thesis by (intro discovery_refines_same)
qed

text \<open>What a run keeps.\<close>

lemma discovery_run_inv: "(discovery_step E R)\<^sup>*\<^sup>* s t \<Longrightarrow> discovery_inv E R s \<Longrightarrow> discovery_inv E R t"
  by (induction rule: rtranclp_induct) (auto intro: discovery_step_inv)

lemma discovery_run_refines:
  "(discovery_step E R)\<^sup>*\<^sup>* s t \<Longrightarrow> discovery_inv E R s \<Longrightarrow>
   discovery_life\<^sup>*\<^sup>* (abs_discovery E R s j) (abs_discovery E R t j)"
proof (induction rule: rtranclp_induct)
  case (step t u)
  have "discovery_refines E R t u j"
    by (rule discovery_step_refines [OF step(2) discovery_run_inv [OF step(1,4)]])
  then show ?case
    using step.IH [OF step(4)] by (auto simp: discovery_refines_def)
qed simp

text \<open>What a manual retry leaves behind.\<close>

lemma discovery_retry_starts:
  assumes inv: "discovery_inv E R s" and ks: "scanned E R j s ks"
    and cur: "discovery_get_state E R s j = Inr (Some st)"
    and st: "ds_status st = Failed" "ds_error st = Some er" "de_retryable er" "ds_created_at st \<le> now"
  shows "snd (discovery_retry_failed E R j now ks s) = Inr (discovery_retry_state now st)
    \<and> abs_discovery E R (fst (discovery_retry_failed E R j now ks s)) j =
        Some (Job_abs Queued (ds_run_generation st + 1) (ds_revision st + 1) False)
    \<and> rget R (fst (discovery_retry_failed E R j now ks s)) (discovery_checkpoint_key E j k) = None
    \<and> rget R (fst (discovery_retry_failed E R j now ks s)) (cost_ledger_key (env_prefix E) j) =
        rget R s (cost_ledger_key (env_prefix E) j)"
proof -
  let ?nxt = "discovery_retry_state now st"
  let ?t = "discovery_retry_failed E R j now ks s"
  note keys = ks [unfolded scanned_def, THEN conjunct2]
  have val: "validate_discovery ?nxt = Inr ?nxt"
    using discovery_retry_valid [OF discovery_invD(2) [OF inv cur] st(1,4)] .
  have body: "discovery_retry_body E R j now ks s =
      Commit (discovery_retry_commands E j now ks ?nxt)
        [(discovery_events_key E j, int_str (ds_revision ?nxt))] ?nxt"
    using st by (simp add: discovery_retry_body_def cur val)
  have ok: "list_all cmd_ok (discovery_retry_commands E j now ks ?nxt)"
    using env by (auto simp: discovery_retry_commands_def)
  note run = run_txn_Commit [of "discovery_retry_body E R j now ks" s, OF body ok]
  have kv: "rget R (fst ?t) = fold cmd_kv (discovery_retry_commands E j now ks ?nxt) (rget R s)"
    and res: "snd ?t = Inr ?nxt"
    using run by (simp_all add: discovery_retry_failed_def)
  have view: "rget R (fst ?t) x =
      (if x \<in> set ks then None else if x = discovery_state_key E j then Some (VDiscovery ?nxt)
       else rget R s x)" for x
    by (auto simp: kv discovery_retry_commands_def)
  have "discovery_state_key E j \<notin> set ks" using checkpoint_not_state [OF keys] by blast
  moreover have "cost_ledger_key (env_prefix E) j \<notin> set ks" using keys by (force simp: key_defs)
  moreover have "discovery_checkpoint_key E j k \<in> set ks \<or> rget R s (discovery_checkpoint_key E j k) = None"
    using ks by (auto simp: scanned_def)
  moreover have "checkpoint_key (env_sha256 E) (env_prefix E) j k \<noteq> state_key (env_prefix E) j"
    "cost_ledger_key (env_prefix E) j \<noteq> state_key (env_prefix E) j"
    by (auto dest: sym)
  ultimately show ?thesis
    using st by (auto simp: res view abs_discovery_def discovery_abs_def discovery_retry_state_def)
qed

end

end
