(* ===== verification/Discovery_Worker.thy ===== *)
theory Discovery_Worker
  imports Discovery_Laws Worker
begin

text \<open>
  Queue, web runtime, reconciler and worker of competitor discovery
  (app/competitors_v22/queue.py, runtime.py, reconciler.py and worker.py). The discovery
  service, the parser of the request and the queue's pool are parameters. Logging is left
  out.
\<close>

subsection \<open>Queue and web runtime\<close>

definition discovery_physical_id :: "uuid \<Rightarrow> int \<Rightarrow> exn + string" where
  "discovery_physical_id j run_generation =
     (if run_generation < 1 then Inl (ValueError ''run generation must be positive'')
      else Inr (''v22:competitor-discovery:'' @ uuid_str j @ '':run:'' @ int_str run_generation))"

definition enqueue_discovery :: "'s arq \<Rightarrow> uuid \<Rightarrow> int \<Rightarrow> ('s, bool) program" where
  "enqueue_discovery pool j g =
     (case discovery_physical_id j g of
        Inl e \<Rightarrow> throw e
      | Inr identity \<Rightarrow>
          andThen (pool ''execute_v22_competitor_discovery'' (uuid_str j) g identity)
            (\<lambda>job. ret (job \<noteq> None)))"

text \<open>The answer of \<open>submit\<close> is the job id with constants; that of \<open>retry\<close> has the next
  attempt, which its contract requires to be at least the second.\<close>

definition discovery_submit ::
    "runtime_env \<Rightarrow> 's server \<Rightarrow> (uuid \<Rightarrow> int \<Rightarrow> ('s, bool) program) \<Rightarrow> discovery_registration_args
     \<Rightarrow> ('s, uuid) program" where
  "discovery_submit D R enqueue a =
     andThen (discovery_register D R a) (\<lambda>registered.
     andThen
       (if \<not> dg_replayed registered
        then ignore (enqueue (dga_job_id a) (ds_run_generation (dg_state registered)))
        else ret ())
       (\<lambda>_. ret (dga_job_id a)))"

definition discovery_retry ::
    "runtime_env \<Rightarrow> 's server \<Rightarrow> (uuid \<Rightarrow> int \<Rightarrow> ('s, bool) program) \<Rightarrow> uuid \<Rightarrow> timestamp
     \<Rightarrow> string list \<Rightarrow> ('s, uuid \<times> int) program" where
  "discovery_retry D R enqueue j now checkpoint_keys =
     andThen (discovery_retry_failed D R j now checkpoint_keys) (\<lambda>state.
     andThen (enqueue j (ds_run_generation state)) (\<lambda>_.
       if 2 \<le> ds_attempt_count state + 1 then ret (j, ds_attempt_count state + 1)
       else throw ValidationError))"

subsection \<open>Reconciler\<close>

definition discovery_exhausted :: "uuid \<Rightarrow> discovery_error" where
  "discovery_exhausted diag =
     \<lparr>de_error_code = ''DISCOVERY_RETRY_EXHAUSTED'',
      de_user_message =
        ''Competitor discovery could not be completed after multiple attempts. Please retry later.'',
      de_retryable = True, de_stage = Ds_failed, de_diagnostic_id = diag\<rparr>"

definition exhausted_args :: "uuid \<Rightarrow> discovery_state \<Rightarrow> timestamp \<Rightarrow> discovery_transition_args" where
  "exhausted_args diag state now =
     (discovery_call Failed Ds_failed (ds_progress state)
        (de_user_message (discovery_exhausted diag)) now)
     \<lparr>dta_error := Some (discovery_exhausted diag)\<rparr>"

definition recovery_args :: "discovery_state \<Rightarrow> timestamp \<Rightarrow> discovery_transition_args" where
  "recovery_args state now =
     (discovery_call Queued Ds_queued (ds_progress state)
        ''Queued for recovery after lost worker activity.'' now)
     \<lparr>dta_attempt_count := Some (ds_attempt_count state)\<rparr>"

definition reconcile_discovery ::
    "runtime_env \<Rightarrow> 's server \<Rightarrow> (uuid \<Rightarrow> int \<Rightarrow> ('s, bool) program) \<Rightarrow> (uuid \<Rightarrow> uuid) \<Rightarrow> timestamp
     \<Rightarrow> int \<Rightarrow> uuid \<Rightarrow> ('s, unit) program" where
  "reconcile_discovery D R enqueue diag now max_attempts j =
     andThen (reads (\<lambda>s. discovery_require_state D R s j)) (\<lambda>state.
       if discovery_terminal state then ret ()
       else if ds_status state = Running \<and> max_attempts \<le> ds_attempt_count state
       then ignore (discovery_transition D R j (exhausted_args (diag j) state now))
       else
         andThen (discovery_transition D R j (recovery_args state now)) (\<lambda>updated.
           if dt_applied updated then ignore (enqueue j (ds_run_generation (dt_state updated)))
           else ret ()))"

definition reconcile_discoveries_once ::
    "runtime_env \<Rightarrow> 's server \<Rightarrow> (uuid \<Rightarrow> int \<Rightarrow> ('s, bool) program) \<Rightarrow> (uuid \<Rightarrow> uuid) \<Rightarrow> timestamp
     \<Rightarrow> int \<Rightarrow> int \<Rightarrow> ('s, unit) program" where
  "reconcile_discoveries_once D R enqueue diag now stale_seconds max_attempts =
     andThen (reads (discovery_list_stale D R (now - seconds stale_seconds) 100)) (\<lambda>js.
       forEach js (reconcile_discovery D R enqueue diag now max_attempts))"

subsection \<open>Worker\<close>

datatype discovery_outcome = Discovered discovery_result | Discovery_cancelled

record 's discovery_context =
  dx_max_attempts :: int
  dx_state_ttl_seconds :: int
  dx_cost_pricing :: "pricing_catalog option"
  dx_settings :: cost_settings
  dx_ledger_job_id :: "uuid option"
  dx_ledger_created_at :: "timestamp option"
  dx_require_existing :: bool
  dx_total_attempts :: "int option"
  dx_outbox :: "(runtime_env \<times> int \<times> (cost_summary_record \<Rightarrow> ('s, bool) program)) option"
  dx_parse_request :: "json \<Rightarrow> exn + json"
  dx_discover :: "uuid \<Rightarrow> json \<Rightarrow> job_checkpoints \<Rightarrow> (discovery_stage \<Rightarrow> int \<Rightarrow> string \<Rightarrow> ('s, unit) program)
      \<Rightarrow> ledger_config \<Rightarrow> ('s, discovery_outcome) program"
  dx_diagnostic :: uuid

record discovery_clock =
  dc_ledger :: timestamp
  dc_started :: timestamp
  dc_progress :: "discovery_stage \<Rightarrow> timestamp \<times> timestamp"
  dc_elapsed_ms :: int
  dc_recorded :: timestamp
  dc_snapshot :: "timestamp \<times> timestamp"
  dc_finished :: timestamp
  dc_summary :: "timestamp \<times> timestamp"

definition discovery_retry_delay_seconds :: "runtime_env \<Rightarrow> uuid \<Rightarrow> int \<Rightarrow> int" where
  "discovery_retry_delay_seconds D j attempt_count =
     (let base = min (5 * 2 ^ nat (max (attempt_count - 1) 0)) 60;
          digest = env_sha256 D (uuid_str j @ '':'' @ int_str attempt_count);
          jitter = int (parse_hex (take 2 digest) mod 4)
      in base + jitter)"

definition or_else :: "'a option \<Rightarrow> 'a \<Rightarrow> 'a" where
  "or_else x y = (case x of None \<Rightarrow> y | Some a \<Rightarrow> a)"

definition discovery_ledger ::
    "runtime_env \<Rightarrow> 's discovery_context \<Rightarrow> uuid \<Rightarrow> timestamp \<Rightarrow> exn + ledger_config" where
  "discovery_ledger D X j created_at =
     (case (case dx_cost_pricing X of Some p \<Rightarrow> Inr p
            | None \<Rightarrow> pricing_catalog_from_settings (dx_settings X)) of
        Inl e \<Rightarrow> Inl e
      | Inr pricing \<Rightarrow> new_job_cost_ledger
          \<lparr>lg_prefix = env_prefix D, lg_job_id = or_else (dx_ledger_job_id X) j,
           lg_ttl_seconds = dx_state_ttl_seconds X, lg_pricing = pricing,
           lg_job_created_at = or_else (dx_ledger_created_at X) created_at,
           lg_require_existing = dx_require_existing X\<rparr>)"

definition discovery_summary ::
    "'s discovery_context \<Rightarrow> discovery_state \<Rightarrow> timestamp \<Rightarrow> counters \<Rightarrow> exn + cost_summary_record" where
  "discovery_summary X state completed_at counts =
     (case map_of counts ''cost_ledger_revision'' of
        None \<Rightarrow> Inl (OtherException ''KeyError'')
      | Some revision \<Rightarrow>
          (let r = \<lparr>cs_job_id = or_else (dx_ledger_job_id X) (ds_discovery_job_id state),
                cs_case_id = ds_case_id state, cs_job_kind = Competitor_discovery,
                cs_status = ds_status state,
                cs_attempt_count = or_else (dx_total_attempts X) (ds_attempt_count state),
                cs_ledger_revision = revision, cs_cost_counters = counts,
                cs_started_at = or_else (dx_ledger_created_at X) (ds_created_at state),
                cs_completed_at = completed_at\<rparr>
           in if summary_valid r then Inr r else Inl ValidationError))"

definition enqueue_discovery_summary ::
    "runtime_env \<Rightarrow> 's server \<Rightarrow> 's discovery_context \<Rightarrow> discovery_clock \<Rightarrow> discovery_state
     \<Rightarrow> ('s, unit) program" where
  "enqueue_discovery_summary D R X T state =
     (case dx_outbox X of
        None \<Rightarrow> ret ()
      | Some (E, ttl, persist) \<Rightarrow>
          (case ds_completed_at state of
             None \<Rightarrow> ret ()
           | Some completed_at \<Rightarrow>
               if \<not> discovery_terminal state then ret ()
               else
                 handle
                   (case discovery_ledger D X (ds_discovery_job_id state) (ds_created_at state) of
                      Inl e \<Rightarrow> throw e
                    | Inr C \<Rightarrow>
                        andThen (snapshot C R (fst (dc_summary T)) (snd (dc_summary T))) (\<lambda>counts.
                        case discovery_summary X state completed_at counts of
                          Inl e \<Rightarrow> throw e
                        | Inr summary \<Rightarrow>
                            andThen (enqueue_summary E R ttl summary) (\<lambda>_.
                              ignore (sync_summary E R persist (cs_job_id summary)))))
                   (\<lambda>_. ret ())))"

definition discovery_requeue_args ::
    "discovery_state \<Rightarrow> timestamp \<Rightarrow> int \<Rightarrow> counters option \<Rightarrow> discovery_transition_args" where
  "discovery_requeue_args state now attempt_count cost_counters =
     (discovery_call Queued Ds_queued (ds_progress state)
        ''A temporary issue occurred. Competitor discovery will retry automatically.'' now)
     \<lparr>dta_attempt_count := Some attempt_count, dta_cost_counters := cost_counters\<rparr>"

definition discovery_failure_error :: "classified_job_error \<Rightarrow> uuid \<Rightarrow> discovery_error" where
  "discovery_failure_error failure diagnostic_id =
     \<lparr>de_error_code =
        (if ce_retryable failure then ''DISCOVERY_RETRY_EXHAUSTED'' else ce_error_code failure),
      de_user_message =
        (if ce_retryable failure
         then ''Competitor discovery could not be completed after multiple attempts. Please retry later.''
         else ce_user_message failure),
      de_retryable = ce_retryable failure, de_stage = Ds_failed, de_diagnostic_id = diagnostic_id\<rparr>"

definition discovery_failed_args ::
    "discovery_state \<Rightarrow> string \<Rightarrow> discovery_error \<Rightarrow> timestamp \<Rightarrow> int \<Rightarrow> counters option
     \<Rightarrow> discovery_transition_args" where
  "discovery_failed_args state user_message err now attempt_count cost_counters =
     (discovery_call Failed Ds_failed (ds_progress state) user_message now)
     \<lparr>dta_attempt_count := Some attempt_count, dta_error := Some err, dta_cost_counters := cost_counters\<rparr>"

definition discovery_finish_failure ::
    "runtime_env \<Rightarrow> 's server \<Rightarrow> 's discovery_context \<Rightarrow> discovery_clock \<Rightarrow> discovery_state \<Rightarrow> exn
     \<Rightarrow> counters option \<Rightarrow> ('s, unit) program" where
  "discovery_finish_failure D R X T state e cost_counters =
     (let failure = classify_job_exception e;
          attempt_count = max (ds_attempt_count state) 1;
          now = dc_finished T; j = ds_discovery_job_id state
      in
      if ce_retryable failure \<and> attempt_count < dx_max_attempts X
      then
        andThen (discovery_transition D R j (discovery_requeue_args state now attempt_count cost_counters))
          (\<lambda>_. throw (Retry (discovery_retry_delay_seconds D j attempt_count)))
      else
        (case validate_discovery_error (discovery_failure_error failure (dx_diagnostic X)) of
           None \<Rightarrow> throw ValidationError
         | Some err \<Rightarrow>
             andThen
               (discovery_transition D R j
                  (discovery_failed_args state
                     (de_user_message (discovery_failure_error failure (dx_diagnostic X)))
                     err now attempt_count cost_counters))
               (\<lambda>failed.
                  if dt_applied failed then enqueue_discovery_summary D R X T (dt_state failed)
                  else ret ())))"

definition discovery_progress ::
    "runtime_env \<Rightarrow> 's server \<Rightarrow> discovery_clock \<Rightarrow> uuid \<Rightarrow> discovery_stage \<Rightarrow> int \<Rightarrow> string
     \<Rightarrow> ('s, unit) program" where
  "discovery_progress D R T j stage percent message =
     ignore (discovery_transition D R j
       ((discovery_call Running stage percent message (fst (dc_progress T stage)))
        \<lparr>dta_heartbeat_at := Some (snd (dc_progress T stage))\<rparr>))"

definition discovery_running_args :: "discovery_clock \<Rightarrow> discovery_state \<Rightarrow> discovery_transition_args" where
  "discovery_running_args T state =
     (discovery_call Running Ds_collecting_market (max (ds_progress state) 1)
        ''Collecting market search results.'' (dc_started T))
     \<lparr>dta_attempt_count := Some (ds_attempt_count state + 1), dta_heartbeat_at := Some (dc_started T)\<rparr>"

definition discovery_succeeded_args ::
    "discovery_clock \<Rightarrow> discovery_result \<Rightarrow> counters \<Rightarrow> discovery_transition_args" where
  "discovery_succeeded_args T result counts =
     (discovery_call Succeeded Ds_completed 100 ''Competitor discovery complete.'' (dc_finished T))
     \<lparr>dta_result := Some result, dta_cost_counters := Some counts\<rparr>"

text \<open>The body of the \<open>try\<close>.\<close>

definition discovery_attempt ::
    "runtime_env \<Rightarrow> 's server \<Rightarrow> 's discovery_context \<Rightarrow> discovery_clock \<Rightarrow> uuid \<Rightarrow> ledger_config
     \<Rightarrow> ('s, discovery_outcome) program" where
  "discovery_attempt D R X T j C =
     andThen (reads (\<lambda>s. discovery_get_request D R s j)) (\<lambda>raw_request.
       case raw_request of
         None \<Rightarrow> throw (DeterministicJobError ''DISCOVERY_REQUEST_MISSING''
                    ''The persisted competitor discovery request is unavailable.'')
       | Some raw \<Rightarrow>
           (case dx_parse_request X raw of
              Inl e \<Rightarrow> throw e
            | Inr request \<Rightarrow>
                dx_discover X j request
                  \<lparr>ck_ttl_seconds = dx_state_ttl_seconds X, ck_run_generation = None\<rparr>
                  (discovery_progress D R T j) C))"

definition discovery_finish ::
    "runtime_env \<Rightarrow> 's server \<Rightarrow> 's discovery_context \<Rightarrow> discovery_clock \<Rightarrow> uuid \<Rightarrow> ledger_config
     \<Rightarrow> discovery_state \<Rightarrow> exn + discovery_outcome \<Rightarrow> ('s, unit) program" where
  "discovery_finish D R X T j C running x =
     andThen (record_job_attempt C R (max (dc_elapsed_ms T) 0) Job_phase (dc_recorded T)) (\<lambda>_.
       case x of
         Inr Discovery_cancelled \<Rightarrow> throw CancelledError
       | Inl e \<Rightarrow>
           if e = CancelledError then throw CancelledError else
           andThen (snapshot C R (fst (dc_snapshot T)) (snd (dc_snapshot T))) (\<lambda>counts.
             discovery_finish_failure D R X T running e (Some counts))
       | Inr (Discovered result) \<Rightarrow>
           andThen (snapshot C R (fst (dc_snapshot T)) (snd (dc_snapshot T))) (\<lambda>counts.
           andThen (discovery_transition D R j (discovery_succeeded_args T result counts)) (\<lambda>completed.
             if dt_applied completed then enqueue_discovery_summary D R X T (dt_state completed)
             else ret ())))"

definition execute_v22_competitor_discovery ::
    "runtime_env \<Rightarrow> 's server \<Rightarrow> 's discovery_context \<Rightarrow> discovery_clock \<Rightarrow> string \<Rightarrow> int
     \<Rightarrow> ('s, unit) program" where
  "execute_v22_competitor_discovery D R X T job_id_value run_generation =
     (case py_uuid job_id_value of
        None \<Rightarrow> throw (ValueError ''badly formed hexadecimal UUID string'')
      | Some j \<Rightarrow>
          andThen (reads (\<lambda>s. discovery_require_state D R s j)) (\<lambda>state.
            if discovery_terminal state \<or> ds_run_generation state \<noteq> run_generation then ret ()
            else
              (case discovery_ledger D X j (ds_created_at state) of
                 Inl e \<Rightarrow> throw e
               | Inr C \<Rightarrow>
                   andThen (ensure C R (dc_ledger T)) (\<lambda>_.
                   andThen (discovery_transition D R j (discovery_running_args T state)) (\<lambda>running.
                     if \<not> dt_applied running then ret ()
                     else
                       andThen (outcome (discovery_attempt D R X T j C))
                         (discovery_finish D R X T j C (dt_state running)))))))"

end
