(* ===== verification/Discovery_Runs.thy ===== *)
theory Discovery_Runs
  imports Discovery_Worker Worker_Laws
begin

text \<open>
  The reconciler and the worker of competitor discovery as runs of their store. The locale
  \<open>discovery_runtime\<close> states what the service, the queue and the outbox may do: change the
  server by steps of the store only. It is interpreted on the server in memory.
\<close>

lemma suffix_neq: "last x \<noteq> last y \<Longrightarrow> x \<noteq> (y :: string)"
  by blast

text \<open>Keys of the outbox, whatever its prefix, are not keys of the discovery store.\<close>

lemma outbox_keys_apart [simp]:
  "cost_summary_key p i \<noteq> state_key q j" "cost_summary_key p i \<noteq> active_key q"
  "cost_sync_pending_key p \<noteq> state_key q j" "cost_sync_pending_key p \<noteq> active_key q"
  by (rule suffix_neq, simp add: key_defs)+

locale discovery_runtime = job_runtime R D for R :: "('s, rval) redis" and D :: runtime_env +
  fixes X :: "'s discovery_context" and enqueue :: "uuid \<Rightarrow> int \<Rightarrow> ('s, bool) program"
  assumes runs_enqueue: "runs (discovery_step D R) (enqueue j g)"
    and runs_discover: "(\<And>stage n m. runs (discovery_step D R) (progress stage n m)) \<Longrightarrow>
      runs (discovery_step D R) (dx_discover X j request ck progress C)"
    and outbox: "dx_outbox X = Some (E, ttl, persist) \<Longrightarrow>
      0 < ttl \<and> runs (discovery_step D R) (persist r)"
begin

lemma runs_discovery_store [runs_intros]:
  "runs (discovery_step D R) (discovery_register D R a)"
  "runs (discovery_step D R) (discovery_transition D R j ta)"
  by (intro runs_step discovery_step.intros)+

lemma runs_ignored [runs_intros]: "runs r p \<Longrightarrow> runs r (ignore p)"
  unfolding ignore_def by (intro runs_intros)

lemma runs_apart:
  assumes "\<And>s j. rget R (fst (p s)) (state_key (env_prefix D) j) = rget R s (state_key (env_prefix D) j)"
    and "\<And>s. zscore R (fst (p s)) (active_key (env_prefix D)) = zscore R s (active_key (env_prefix D))"
  shows "runs (discovery_step D R) p"
  by (intro runs_step dstep_elsewhere) (simp_all only: discovery_keys assms)

lemma runs_discovery_commands:
  assumes "list_all cmd_ok cs"
    and "\<And>m j. fold cmd_kv cs m (state_key (env_prefix D) j) = m (state_key (env_prefix D) j)"
    and "\<And>z. fold cmd_zs cs z (active_key (env_prefix D)) = z (active_key (env_prefix D))"
  shows "runs (discovery_step D R) (execute R cs)"
  by (rule runs_apart) (simp_all add: execute_def get_exec [OF assms(1)] zscore_exec [OF assms(1)] assms(2,3))

lemma runs_discovery_mutate:
  assumes C: "lg_prefix C = env_prefix D" "0 < lg_ttl_seconds C"
  shows "runs (discovery_step D R) (mutate C R f now)"
  by (rule runs_apart) (rule mutate_views [OF C], rule mutate_views(2) [OF C], simp)

lemma runs_discovery_ledger:
  assumes C: "lg_prefix C = env_prefix D" "0 < lg_ttl_seconds C"
  shows "runs (discovery_step D R) (ensure C R now)"
    and "runs (discovery_step D R) (record_job_attempt C R ms phase now)"
    and "runs (discovery_step D R) (snapshot C R now now')"
proof -
  note m = runsD [OF runs_discovery_mutate [OF C]]
  show "runs (discovery_step D R) (ensure C R now)"
    by (simp add: runs_def ensure_def m)
  show "runs (discovery_step D R) (record_job_attempt C R ms phase now)"
    by (simp add: runs_def record_job_attempt_def m)
  show "runs (discovery_step D R) (snapshot C R now now')"
    by (auto simp: runs_def fst_snapshot ledger_state_def ensure_def m split: option.splits)
qed

lemma discovery_ledger_config:
  assumes "discovery_ledger D X j t = Inr C"
  shows "lg_prefix C = env_prefix D" "0 < lg_ttl_seconds C"
  using assms by (auto simp: discovery_ledger_def new_job_cost_ledger_def split: sum.splits if_splits)

lemma runs_discovery_sync:
  assumes "\<And>r. runs (discovery_step D R) (persist r)"
  shows "runs (discovery_step D R) (sync_summary E R persist j)"
proof -
  have x: "runs (discovery_step D R) (execute R [Zrem (cost_sync_pending_key (env_prefix E)) m])"
    "runs (discovery_step D R) (execute R [Zrem (cost_sync_pending_key (env_prefix E)) m,
        Del [cost_summary_key (env_prefix E) i]])" for m i
    by (rule runs_discovery_commands, auto dest: sym)+
  have "runs (discovery_step D R) (case raw of
         None \<Rightarrow>
           andThen (execute R [Zrem (cost_sync_pending_key (env_prefix E)) (uuid_str j)]) (\<lambda>_. ret True)
       | Some (VSummary summary) \<Rightarrow>
           if \<not> summary_valid summary then ret False
           else if cs_job_id summary \<noteq> j then ret False
           else andThen (persist summary) (\<lambda>persisted.
             if \<not> persisted then ret False
             else andThen (execute R [Zrem (cost_sync_pending_key (env_prefix E)) (uuid_str j),
                                      Del [cost_summary_key (env_prefix E) j]]) (\<lambda>_. ret True))
       | Some _ \<Rightarrow> ret False)" for raw
    by (auto intro!: runs_intros x assms split: option.split rval.split)
  then show ?thesis unfolding sync_summary_def by (intro runs_andThen runs_reads)
qed

lemma runs_discovery_enqueue_summary:
  "0 < ttl \<Longrightarrow> runs (discovery_step D R) (enqueue_summary E R ttl r)"
  unfolding enqueue_summary_def execute_def [symmetric]
  by (rule runs_discovery_commands) (auto dest: sym)

lemma runs_discovery_outbox [runs_intros]:
  "runs (discovery_step D R) (enqueue_discovery_summary D R X T st)"
proof (cases "dx_outbox X")
  case None
  then show ?thesis by (simp add: enqueue_discovery_summary_def runs_ret)
next
  case (Some o1)
  obtain E ttl persist where o1: "o1 = (E, ttl, persist)" by (cases o1)
  then have ox: "0 < ttl" "runs (discovery_step D R) (persist r)" for r using outbox Some by blast+
  have post: "runs (discovery_step D R)
      (case discovery_summary X st t counts of Inl e \<Rightarrow> throw e
       | Inr summary \<Rightarrow> andThen (enqueue_summary E R ttl summary) (\<lambda>_.
           ignore (sync_summary E R persist (cs_job_id summary))))" for t counts
    by (cases "discovery_summary X st t counts")
      (auto intro!: runs_intros runs_discovery_enqueue_summary runs_discovery_sync ox)
  have body: "runs (discovery_step D R)
      (case discovery_ledger D X (ds_discovery_job_id st) (ds_created_at st) of
         Inl e \<Rightarrow> throw e
       | Inr C \<Rightarrow>
           andThen (snapshot C R (fst (dc_summary T)) (snd (dc_summary T))) (\<lambda>counts.
           case discovery_summary X st t counts of
             Inl e \<Rightarrow> throw e
           | Inr summary \<Rightarrow> andThen (enqueue_summary E R ttl summary) (\<lambda>_.
               ignore (sync_summary E R persist (cs_job_id summary)))))" for t
    by (cases "discovery_ledger D X (ds_discovery_job_id st) (ds_created_at st)")
      (auto intro!: runs_intros post runs_discovery_ledger dest: discovery_ledger_config)
  show ?thesis
    unfolding enqueue_discovery_summary_def Some o1 option.case prod.case
    by (cases "ds_completed_at st") (auto intro!: runs_intros body)
qed

lemma runs_discovery_failure:
  "runs (discovery_step D R) (discovery_finish_failure D R X T st e cc)"
  unfolding discovery_finish_failure_def Let_def by (intro runs_intros)

lemma runs_discovery_attempt:
  "runs (discovery_step D R) (discovery_attempt D R X T j C)"
proof -
  have p: "runs (discovery_step D R) (discovery_progress D R T j stage n m)" for stage n m
    unfolding discovery_progress_def by (intro runs_intros)
  have "runs (discovery_step D R)
      (case dx_parse_request X raw of Inl e \<Rightarrow> throw e
       | Inr request \<Rightarrow> dx_discover X j request ck (discovery_progress D R T j) C)" for raw ck
    by (cases "dx_parse_request X raw") (auto intro!: runs_intros runs_discover p)
  then show ?thesis unfolding discovery_attempt_def by (intro runs_intros)
qed

lemma runs_discovery_finish:
  assumes C: "lg_prefix C = env_prefix D" "0 < lg_ttl_seconds C"
  shows "runs (discovery_step D R) (discovery_finish D R X T j C running x)"
proof -
  have "runs (discovery_step D R)
      (case x of
         Inr Discovery_cancelled \<Rightarrow> throw CancelledError
       | Inl e \<Rightarrow>
           if e = CancelledError then throw CancelledError else
           andThen (snapshot C R (fst (dc_snapshot T)) (snd (dc_snapshot T))) (\<lambda>counts.
             discovery_finish_failure D R X T running e (Some counts))
       | Inr (Discovered result) \<Rightarrow>
           andThen (snapshot C R (fst (dc_snapshot T)) (snd (dc_snapshot T))) (\<lambda>counts.
           andThen (discovery_transition D R j (discovery_succeeded_args T result counts)) (\<lambda>completed.
             if dt_applied completed then enqueue_discovery_summary D R X T (dt_state completed)
             else ret ())))"
    by (auto intro!: runs_intros runs_discovery_failure runs_discovery_ledger C
        split: sum.split discovery_outcome.split)
  then show ?thesis unfolding discovery_finish_def by (intro runs_andThen runs_discovery_ledger C)
qed

lemma runs_discovery_worker:
  "runs (discovery_step D R) (execute_v22_competitor_discovery D R X T v g)"
proof (cases "py_uuid v")
  case None
  then show ?thesis by (simp add: execute_v22_competitor_discovery_def runs_throw)
next
  case (Some j)
  have "runs (discovery_step D R)
      (case discovery_ledger D X j (ds_created_at st) of
         Inl e \<Rightarrow> throw e
       | Inr C \<Rightarrow>
           andThen (ensure C R (dc_ledger T)) (\<lambda>_.
           andThen (discovery_transition D R j (discovery_running_args T st)) (\<lambda>running.
             if \<not> dt_applied running then ret ()
             else
               andThen (outcome (discovery_attempt D R X T j C))
                 (discovery_finish D R X T j C (dt_state running)))))" for st
    by (cases "discovery_ledger D X j (ds_created_at st)")
      (auto intro!: runs_intros runs_discovery_ledger runs_discovery_attempt runs_discovery_finish
        dest: discovery_ledger_config)
  then show ?thesis
    unfolding execute_v22_competitor_discovery_def Some option.case by (intro runs_intros)
qed

lemma runs_reconcile_discoveries:
  "runs (discovery_step D R) (reconcile_discoveries_once D R enqueue diag now stale n)"
proof -
  have "runs (discovery_step D R) (reconcile_discovery D R enqueue diag now n j)" for j
    unfolding reconcile_discovery_def by (intro runs_intros runs_enqueue)
  then show ?thesis unfolding reconcile_discoveries_once_def by (intro runs_intros)
qed

end

subsection \<open>A pass and the tasks it has not reached\<close>

text \<open>The state of a task and its place in the active index are as before.\<close>

definition same_task :: "runtime_env \<Rightarrow> 's server \<Rightarrow> uuid \<Rightarrow> 's \<Rightarrow> 's \<Rightarrow> bool" where
  "same_task D R k s t \<longleftrightarrow>
     discovery_get_state D R t k = discovery_get_state D R s k
   \<and> zscore R t (discovery_active_key D) (uuid_str k) = zscore R s (discovery_active_key D) (uuid_str k)"

lemma runs_same_task:
  assumes "runs (same_task D R k) p"
  shows "same_task D R k s (fst (p s))"
proof -
  have "(same_task D R k)\<^sup>*\<^sup>* s t \<Longrightarrow> same_task D R k s t" for t
    by (induction rule: rtranclp_induct) (auto simp: same_task_def)
  then show ?thesis using runsD [OF assms] by blast
qed

context job_runtime
begin

lemma transition_other_task:
  "i \<noteq> k \<Longrightarrow> same_task E R k s (fst (discovery_transition E R i a s))"
  by (rule discovery_transition_elim [of i a s])
    (auto simp: same_task_def discovery_get_state_def discovery_transition_commands_def)

lemma reconcile_other_task:
  assumes "i \<noteq> k" and "\<And>g. runs (same_task E R k) (enqueue i g)"
  shows "runs (same_task E R k) (reconcile_discovery E R enqueue diag now n i)"
proof -
  have t: "runs (same_task E R k) (discovery_transition E R i a)" for a
    by (rule runs_step) (rule transition_other_task [OF assms(1)])
  have ig: "runs r p \<Longrightarrow> runs r (ignore p)" for r :: "'s \<Rightarrow> 's \<Rightarrow> bool" and p :: "('s, 'b) program"
    unfolding ignore_def by (intro runs_intros)
  show ?thesis
    unfolding reconcile_discovery_def by (intro runs_intros ig t assms(2))
qed

lemma reconcile_others:
  assumes "k \<notin> set xs" "\<And>i g. runs (same_task E R k) (enqueue i g)"
  shows "runs (same_task E R k) (forEach xs (reconcile_discovery E R enqueue diag now n))"
  using assms(1) by (induction xs) (auto intro!: runs_intros reconcile_other_task assms(2))

text \<open>An entry without a state ends the pass where it stands in the list.\<close>

lemma pass_ends_at_orphan:
  assumes ls: "discovery_list_stale E R (now - seconds stale) 100 s = Inr (earlier @ j # later)"
    and j: "discovery_get_state E R s j = Inr None" "j \<notin> set earlier"
    and enq: "\<And>i g. runs (same_task E R j) (enqueue i g)"
  shows "reconcile_discoveries_once E R enqueue diag now stale n s =
    (let (t, r) = forEach earlier (reconcile_discovery E R enqueue diag now n) s
     in (t, case r of Inl e \<Rightarrow> Inl e | Inr _ \<Rightarrow> Inl JobNotFound))"
proof -
  let ?p = "reconcile_discovery E R enqueue diag now n"
  have app: "forEach (xs @ ys) p t = andThen (forEach xs p) (\<lambda>_. forEach ys p) t"
    for xs ys and p :: "uuid \<Rightarrow> ('s, unit) program" and t
    by (induction xs arbitrary: t) (simp_all add: andThen_def ret_def split: prod.splits sum.splits)
  have "discovery_get_state E R (fst (forEach earlier ?p s)) j = Inr None"
    using runs_same_task [OF reconcile_others [OF j(2) enq]] j(1) by (simp add: same_task_def)
  then have "?p j (fst (forEach earlier ?p s)) = (fst (forEach earlier ?p s), Inl JobNotFound)"
    by (simp add: reconcile_discovery_def discovery_require_state_def)
  moreover have "reconcile_discoveries_once E R enqueue diag now stale n s =
      andThen (forEach earlier ?p) (\<lambda>_. andThen (?p j) (\<lambda>_. forEach later ?p)) s"
    unfolding reconcile_discoveries_once_def by (simp add: ls app)
  ultimately show ?thesis
    by (cases "forEach earlier ?p s") (auto simp: andThen_def split: sum.splits)
qed

end

subsection \<open>The collaborators of the model\<close>

text \<open>A service that reports its progress and finds one candidate.\<close>

definition ex_result :: "uuid \<Rightarrow> discovery_result" where
  "ex_result j = \<lparr>dr_discovery_id = j, dr_case_id = 2, dr_input_digest = ''sha256:'' @ replicate 64 CHR ''0'',
     dr_candidate_digest = ''sha256:'' @ replicate 64 CHR ''0'', dr_market_snapshot_id = 8,
     dr_market_snapshot_checksum = ''sha256:'' @ replicate 64 CHR ''0'',
     dr_candidates = [\<lparr>ca_competitor_id = ''c1'', ca_business_name = ''Acme'',
       ca_website_url = ''https://acme.test/'', ca_public_gbp_url = None,
       ca_query_appearance_count = 1, ca_best_position = 1, ca_relevance_reason = ''Seen.'',
       ca_confidence = Conf_high\<rparr>],
     dr_ready_for_confirmation = True, dr_data_gaps = [], dr_limitations = [],
     dr_created_at = 2000, dr_expires_at = 90000000000\<rparr>"

definition ex_discovery :: "rval mem discovery_context" where
  "ex_discovery =
     \<lparr>dx_max_attempts = 3, dx_state_ttl_seconds = 604800, dx_cost_pricing = None,
      dx_settings = wk_settings (ex_worker 200), dx_ledger_job_id = None,
      dx_ledger_created_at = None, dx_require_existing = False, dx_total_attempts = None,
      dx_outbox = Some (example_env, 3600, \<lambda>_. ret True), dx_parse_request = Inr,
      dx_discover = (\<lambda>j req ck progress C.
        andThen (progress Ds_ranking_candidates 70 ''Ranking competitor candidates.'')
          (\<lambda>_. ret (Discovered (ex_result j)))),
      dx_diagnostic = 98\<rparr>"

definition ex_enqueue :: "uuid \<Rightarrow> int \<Rightarrow> (rval mem, bool) program" where
  "ex_enqueue = enqueue_discovery (\<lambda>f j g i. ret (Some ()))"

interpretation mem_discovery: discovery_runtime mem_redis example_env ex_discovery ex_enqueue
proof (intro discovery_runtime.intro discovery_runtime_axioms.intro mem_runtime)
  show "runs (discovery_step example_env mem_redis) (ex_enqueue j g)" for j g
    unfolding ex_enqueue_def enqueue_discovery_def
    by (cases "discovery_physical_id j g") (auto intro: runs_intros)
qed (auto simp: ex_discovery_def runs_ret intro!: runs_andThen)

lemma mem_discovery [simp]: "discovery_runtime mem_redis example_env ex_discovery ex_enqueue"
  by (fact mem_discovery.discovery_runtime_axioms)

end
