(* ===== verification/Discovery_Properties.thy ===== *)
theory Discovery_Properties
  imports Discovery_Runs
begin

text \<open>
  The properties of competitor discovery, each with a concrete instance on the server in
  memory.
\<close>

subsection \<open>A concrete task\<close>

definition ex_dargs :: discovery_registration_args where
  "ex_dargs = \<lparr>dga_job_id = 5, dga_case_id = 2, dga_idempotency_key = ''key'',
     dga_request_payload = JObj [], dga_now = 1000\<rparr>"

definition ex_dregistered :: "rval mem" where
  "ex_dregistered = fst (discovery_register example_env mem_redis ex_dargs mem_empty)"

definition ex_dfail :: discovery_transition_args where
  "ex_dfail = (discovery_call Failed Ds_failed 10 ''Failed.'' 3000)
     \<lparr>dta_error := Some \<lparr>de_error_code = ''DISCOVERY_RETRY_EXHAUSTED'', de_user_message = ''Failed.'',
        de_retryable = True, de_stage = Ds_failed, de_diagnostic_id = 7\<rparr>\<rparr>"

text \<open>A failed task with a saved checkpoint.\<close>

definition ex_dfailed :: "rval mem" where
  "ex_dfailed = fst (discovery_transition example_env mem_redis 5 ex_dfail
     (rexec mem_redis [SetEx (discovery_checkpoint_key example_env 5 ''serp'') (VJson (JObj [])) 60]
        ex_dregistered))"

definition ex_dclock :: discovery_clock where
  "ex_dclock = \<lparr>dc_ledger = 2000, dc_started = 2000, dc_progress = (\<lambda>_. (2000, 2000)),
     dc_elapsed_ms = 5, dc_recorded = 2500, dc_snapshot = (3000, 3000), dc_finished = 3000,
     dc_summary = (3000, 3000)\<rparr>"

lemma ex_dempty: "discovery_inv example_env mem_redis mem_empty"
  by (simp add: discovery_inv_def discovery_job_inv_def mem_redis_def mem_empty_def)

lemma ex_dregistered_inv: "discovery_inv example_env mem_redis ex_dregistered"
  unfolding ex_dregistered_def by (rule mem_rt.discovery_register_inv [OF ex_dempty])

lemma ex_dfailed_inv: "discovery_inv example_env mem_redis ex_dfailed"
  unfolding ex_dfailed_def
proof (rule mem_rt.discovery_transition_inv, rule mem_rt.discovery_step_inv [OF _ ex_dregistered_inv])
  show "discovery_step example_env mem_redis ex_dregistered
     (rexec mem_redis [SetEx (discovery_checkpoint_key example_env 5 ''serp'') (VJson (JObj [])) 60]
        ex_dregistered)"
    by (rule dstep_elsewhere) (auto simp: mem.get_exec mem.zscore_exec key_defs)
qed

subsection \<open>Properties\<close>

text \<open>
  (C29) The discovery store implements the lifecycle: along every run every task's state
  stays valid, under its own id and listed as active exactly while open; each task moves
  only by steps of the abstract life, in which the generation advances by a manual retry
  only, and a succeeded task or one failed for good never changes again.
\<close>

theorem discovery_store_implements_life:
  assumes "job_runtime R D" "discovery_inv D R s" "(discovery_step D R)\<^sup>*\<^sup>* s t"
  shows "discovery_inv D R t
    \<and> discovery_life\<^sup>*\<^sup>* (abs_discovery D R s j) (abs_discovery D R t j)
    \<and> (abs_discovery D R s j = Some a \<longrightarrow>
        ab_status a = Succeeded \<or> ab_status a = Failed \<and> \<not> ab_retryable a \<longrightarrow>
        abs_discovery D R t j = Some a)"
proof -
  have life: "discovery_life\<^sup>*\<^sup>* (abs_discovery D R s j) (abs_discovery D R t j)"
    by (rule job_runtime.discovery_run_refines [OF assms(1,3,2)])
  have "b = Some a" if "discovery_life\<^sup>*\<^sup>* (Some a) b" "ab_status a = Succeeded \<or> ab_status a = Failed \<and> \<not> ab_retryable a"
    for b using that
    by (induction rule: rtranclp_induct) (auto dest!: discovery_life_is_lifecycle dest: lifecycle_final)
  then show ?thesis
    using life job_runtime.discovery_run_inv [OF assms(1,3,2)] by metis
qed

theorem discovery_store_implements_life_witness:
  "abs_discovery example_env mem_redis ex_dfailed 5 = Some (Job_abs Failed 1 2 True)
   \<and> discovery_inv example_env mem_redis
        (fst (discovery_retry_failed example_env mem_redis 5 4000 [] ex_dfailed))"
proof (rule conjI)
  show "abs_discovery example_env mem_redis ex_dfailed 5 = Some (Job_abs Failed 1 2 True)"
    by code_simp
  have "discovery_step example_env mem_redis ex_dfailed
      (fst (discovery_retry_failed example_env mem_redis 5 4000 [] ex_dfailed))"
    by (rule dstep_retry) simp
  from discovery_store_implements_life [OF mem_runtime ex_dfailed_inv r_into_rtranclp, OF this]
  show "discovery_inv example_env mem_redis
        (fst (discovery_retry_failed example_env mem_redis 5 4000 [] ex_dfailed))" by blast
qed

text \<open>
  A pass of the discovery reconciler and a whole execution of a task, whatever the
  service, the queue and the outbox do meanwhile, are runs of the store: tasks stay
  consistent, keep their generation or are where a client's retry has put them.
\<close>

theorem discovery_runs_safe:
  assumes "discovery_runtime R D X enqueue" "discovery_inv D R s"
  shows "discovery_inv D R (fst (reconcile_discoveries_once D R enqueue diag now stale n s))
    \<and> (discovery_step D R)\<^sup>*\<^sup>* s (fst (reconcile_discoveries_once D R enqueue diag now stale n s))
    \<and> discovery_inv D R (fst (execute_v22_competitor_discovery D R X T v g s))
    \<and> (discovery_step D R)\<^sup>*\<^sup>* s (fst (execute_v22_competitor_discovery D R X T v g s))"
proof -
  note rt = discovery_runtime.axioms(1) [OF assms(1)]
  note runs = runsD [OF discovery_runtime.runs_reconcile_discoveries [OF assms(1)]]
    runsD [OF discovery_runtime.runs_discovery_worker [OF assms(1)]]
  show ?thesis using runs job_runtime.discovery_run_inv [OF rt _ assms(2)] by blast
qed

theorem discovery_runs_safe_witness:
  "discovery_inv example_env mem_redis (fst (execute_v22_competitor_discovery example_env mem_redis
     ex_discovery ex_dclock (uuid_str 5) 1 ex_dregistered))"
  using discovery_runs_safe [OF mem_discovery ex_dregistered_inv] by blast

text \<open>Three active tasks; the state of the second one has expired.\<close>

definition ex_dthree :: "rval mem" where
  "ex_dthree = rexec mem_redis [Del [discovery_state_key example_env 6]]
     (fst (discovery_register example_env mem_redis
             (ex_dargs\<lparr>dga_job_id := 7, dga_case_id := 4, dga_now := 3000\<rparr>)
        (fst (discovery_register example_env mem_redis
                (ex_dargs\<lparr>dga_job_id := 6, dga_case_id := 3, dga_now := 2000\<rparr>)
           ex_dregistered))))"

text \<open>
  (C35) An entry of the active index whose state is gone stops the recovery of every task
  listed behind it. Wherever it stands in the list, the pass raises an error, JobNotFound
  unless a task before it raised one; the tasks listed behind it keep their states; and the
  entry keeps its place in the active index, so that the next pass meets it again.
\<close>

theorem orphan_stops_recovery:
  assumes "job_runtime R D"
    and "discovery_list_stale D R (now - seconds stale) 100 s = Inr (earlier @ j # later)"
    and "discovery_get_state D R s j = Inr None" "j \<notin> set earlier"
    and "\<And>i g k. k \<in> set (j # later) - set earlier \<Longrightarrow> runs (same_task D R k) (enqueue i g)"
  shows "\<exists>t e. reconcile_discoveries_once D R enqueue diag now stale n s = (t, Inl e)
    \<and> (snd (forEach earlier (reconcile_discovery D R enqueue diag now n) s) = Inr () \<longrightarrow> e = JobNotFound)
    \<and> (\<forall>k \<in> set later - set earlier. discovery_get_state D R t k = discovery_get_state D R s k)
    \<and> zscore R t (discovery_active_key D) (uuid_str j) = zscore R s (discovery_active_key D) (uuid_str j)"
proof -
  let ?p = "forEach earlier (reconcile_discovery D R enqueue diag now n)"
  have "same_task D R k s (fst (?p s))" if "k \<in> set (j # later) - set earlier" for k
    using that assms(5)
    by (intro runs_same_task job_runtime.reconcile_others [OF assms(1)]) auto
  then show ?thesis
    using job_runtime.pass_ends_at_orphan [OF assms(1-4), of enqueue diag n] assms(4,5)
    by (cases "snd (?p s)") (auto simp: same_task_def case_prod_beta)
qed

theorem orphan_stops_recovery_witness:
  "\<exists>t. reconcile_discoveries_once example_env mem_redis ex_enqueue (\<lambda>_. 98) (10 ^ 10) 60 3 ex_dthree
      = (t, Inl JobNotFound)
    \<and> discovery_get_state example_env mem_redis t 7 = discovery_get_state example_env mem_redis ex_dthree 7"
proof -
  have "discovery_list_stale example_env mem_redis (10 ^ 10 - seconds 60) 100 ex_dthree = Inr [5, 6, 7]"
    by code_simp
  then have ls: "discovery_list_stale example_env mem_redis (10 ^ 10 - seconds 60) 100 ex_dthree
      = Inr ([5] @ 6 # [7])" by simp
  have gone: "discovery_get_state example_env mem_redis ex_dthree 6 = Inr None" by code_simp
  have first: "snd (forEach [5] (reconcile_discovery example_env mem_redis ex_enqueue (\<lambda>_. 98) (10 ^ 10) 3) ex_dthree)
      = Inr ()" by code_simp
  have quiet: "runs (same_task example_env mem_redis k) (ex_enqueue i g)" for i g k
    unfolding ex_enqueue_def enqueue_discovery_def
    by (cases "discovery_physical_id i g") (auto intro: runs_intros)
  have apart: "(6 :: uuid) \<notin> set [5]" "(7 :: uuid) \<in> set [7] - set [5]" by code_simp+
  from orphan_stops_recovery [OF mem_runtime ls gone apart(1), of ex_enqueue "\<lambda>_. 98" 3, OF quiet]
  show ?thesis using first apart(2) by blast
qed

text \<open>
  (C36) A manual retry starts the task over under the next generation: it is queued and
  active again, every saved checkpoint is gone, and everything else of the task, its cost
  ledger with the claims already made included, is kept.
\<close>

theorem discovery_retry_starts_over:
  assumes "job_runtime R D" "discovery_inv D R s" "scanned D R j s ks"
    and "discovery_get_state D R s j = Inr (Some st)"
    and "ds_status st = Failed" "ds_error st = Some er" "de_retryable er" "ds_created_at st \<le> now"
  shows "snd (discovery_retry_failed D R j now ks s) = Inr (discovery_retry_state now st)
    \<and> abs_discovery D R (fst (discovery_retry_failed D R j now ks s)) j =
        Some (Job_abs Queued (ds_run_generation st + 1) (ds_revision st + 1) False)
    \<and> rget R (fst (discovery_retry_failed D R j now ks s)) (discovery_checkpoint_key D j k) = None
    \<and> rget R (fst (discovery_retry_failed D R j now ks s)) (cost_ledger_key (env_prefix D) j) =
        rget R s (cost_ledger_key (env_prefix D) j)"
  using job_runtime.discovery_retry_starts [OF assms] .

theorem discovery_retry_starts_over_witness:
  "abs_discovery example_env mem_redis
     (fst (discovery_retry_failed example_env mem_redis 5 4000
        [discovery_checkpoint_key example_env 5 ''serp''] ex_dfailed)) 5
   = Some (Job_abs Queued 2 3 False)"
proof -
  have "case discovery_get_state example_env mem_redis ex_dfailed 5 of
      Inr (Some st) \<Rightarrow> ds_status st = Failed \<and> ds_revision st = 2 \<and> ds_run_generation st = 1
        \<and> ds_created_at st \<le> 4000 \<and> (case ds_error st of Some e \<Rightarrow> de_retryable e | None \<Rightarrow> False)
    | _ \<Rightarrow> False" by code_simp
  then obtain st e where st: "discovery_get_state example_env mem_redis ex_dfailed 5 = Inr (Some st)"
    "ds_status st = Failed" "ds_error st = Some e" "de_retryable e" "ds_created_at st \<le> 4000"
    "ds_run_generation st = 1" "ds_revision st = 2" by (auto split: sum.splits option.splits)
  have "scanned example_env mem_redis 5 ex_dfailed [discovery_checkpoint_key example_env 5 ''serp'']"
    by (auto simp: scanned_def key_defs example_env_def)
  from discovery_retry_starts_over [OF mem_runtime ex_dfailed_inv this st(1-5)] st(6,7)
  show ?thesis by simp
qed

text \<open>
  A duplicate or superseded execution of a task does nothing: when the task is terminal
  or of another generation the execution returns without a write.
\<close>

theorem discovery_duplicate_does_nothing:
  assumes "discovery_get_state D R s j = Inr (Some st)"
    and "discovery_terminal st \<or> ds_run_generation st \<noteq> g"
  shows "execute_v22_competitor_discovery D R X T (uuid_str j) g s = (s, Inr ())"
  using assms
  by (auto simp: execute_v22_competitor_discovery_def discovery_require_state_def ret_def)

end
