(* ===== verification/Selection.thy ===== *)
theory Selection
  imports Discovery_Runs
begin

text \<open>
  The shared market snapshots (app/competitors_v22/market_store.py), the normalisation of
  competitor websites (normalization.py) and the gate that links a finished discovery to an
  analysis request (selection.py). UUIDs of version 5 are a parameter; between the read and
  the SET NX of a save other clients may act.
\<close>

subsection \<open>Shared market snapshots\<close>

record market_config =
  mk_prefix :: string
  mk_ttl_seconds :: int
  mk_env :: runtime_env
  mk_uuid5 :: "string \<Rightarrow> uuid"

definition new_market_store ::
    "string \<Rightarrow> int \<Rightarrow> runtime_env \<Rightarrow> (string \<Rightarrow> uuid) \<Rightarrow> exn + market_config" where
  "new_market_store prefix ttl_seconds E uuid5 =
     (let normalized = strip_chars (\<lambda>c. c = CHR '':'') (strip_chars py_isspace prefix)
      in if normalized = [] then Inl (ValueError ''Redis key prefix must not be empty'')
         else if \<not> (60 \<le> ttl_seconds \<and> ttl_seconds \<le> 86400)
         then Inl (ValueError ''competitor market TTL is outside the safe range'')
         else Inr \<lparr>mk_prefix = normalized, mk_ttl_seconds = ttl_seconds, mk_env = E, mk_uuid5 = uuid5\<rparr>)"

definition market_error :: exn where
  "market_error = DeterministicJobError ''V22_COMPETITOR_MARKET_SNAPSHOT_INVALID''
     ''A saved competitor market snapshot could not be validated.''"

definition market_name :: "market_config \<Rightarrow> string \<Rightarrow> string" where
  "market_name M input_digest = mk_prefix M @ '':competitor-market:'' @ drop 7 input_digest"

definition market_key :: "market_config \<Rightarrow> string \<Rightarrow> exn + string" where
  "market_key M input_digest =
     (if \<not> valid_digest input_digest then Inl (ValueError ''competitor market input digest is invalid'')
      else Inr (market_name M input_digest))"

definition snapshot_digest :: "market_config \<Rightarrow> market_snapshot \<Rightarrow> string" where
  "snapshot_digest M x = request_digest (mk_env M) (ms_document x)"

definition validate_shared :: "market_config \<Rightarrow> string \<Rightarrow> rval \<Rightarrow> exn + shared_market" where
  "validate_shared M input_digest raw =
     (case raw of
        VMarket envelope \<Rightarrow>
          if \<not> shared_market_valid envelope then Inl market_error
          else if sm_input_digest envelope \<noteq> input_digest then Inl market_error
          else if snapshot_digest M (sm_snapshot envelope) \<noteq> sm_snapshot_checksum envelope
          then Inl market_error
          else Inr envelope
      | _ \<Rightarrow> Inl market_error)"

definition market_get ::
    "market_config \<Rightarrow> 's server \<Rightarrow> string \<Rightarrow> timestamp \<Rightarrow> ('s, shared_market option) program" where
  "market_get M R input_digest now =
     (case market_key M input_digest of
        Inl e \<Rightarrow> throw e
      | Inr key \<Rightarrow>
          andThen (reads (\<lambda>s. Inr (rget R s key))) (\<lambda>raw.
            case raw of
              None \<Rightarrow> ret None
            | Some v \<Rightarrow>
                (case validate_shared M input_digest v of
                   Inl e \<Rightarrow> throw e
                 | Inr envelope \<Rightarrow>
                     if sm_expires_at envelope \<le> now
                     then andThen (execute R [Del [key]]) (\<lambda>_. ret None)
                     else ret (Some envelope))))"

definition shared_envelope ::
    "market_config \<Rightarrow> string \<Rightarrow> market_snapshot \<Rightarrow> timestamp \<Rightarrow> shared_market" where
  "shared_envelope M input_digest snap now =
     \<lparr>sm_snapshot_id = mk_uuid5 M
        (''searchtrust:v22:market:'' @ input_digest @ '':'' @ snapshot_digest M snap),
      sm_source_job_id = ms_job_id snap, sm_input_digest = input_digest,
      sm_snapshot_checksum = snapshot_digest M snap, sm_created_at = now,
      sm_expires_at = now + seconds (mk_ttl_seconds M), sm_snapshot = snap\<rparr>"

text \<open>\<open>others\<close> is what other clients do between the first read and the SET NX.\<close>

definition market_save ::
    "market_config \<Rightarrow> 's server \<Rightarrow> ('s, unit) program \<Rightarrow> string \<Rightarrow> market_snapshot \<Rightarrow> timestamp
     \<Rightarrow> ('s, shared_market) program" where
  "market_save M R others input_digest snap now =
     andThen (market_get M R input_digest now) (\<lambda>existing.
       case existing of
         Some envelope \<Rightarrow> ret envelope
       | None \<Rightarrow>
           (let envelope = shared_envelope M input_digest snap now
            in if \<not> shared_market_valid envelope then throw ValidationError
               else
                 andThen others (\<lambda>_.
                 (case market_key M input_digest of
                    Inl e \<Rightarrow> throw e
                  | Inr key \<Rightarrow>
                      andThen (always (set_nx R key (VMarket envelope) (mk_ttl_seconds M))) (\<lambda>created.
                        if created then ret envelope
                        else
                          andThen (market_get M R input_digest now) (\<lambda>canonical.
                            case canonical of
                              None \<Rightarrow> throw market_error
                            | Some e \<Rightarrow> ret e))))))"

subsection \<open>Websites\<close>

text \<open>\<open>str.encode("idna")\<close> of an ASCII host name: every label but the last is not empty, none is too long.\<close>

fun split_dots :: "string \<Rightarrow> string list" where
  "split_dots [] = [[]]"
| "split_dots (c # cs) =
     (if c = CHR ''.'' then [] # split_dots cs
      else (case split_dots cs of [] \<Rightarrow> [[c]] | label # labels \<Rightarrow> (c # label) # labels))"

definition idna_ascii :: "string \<Rightarrow> string option" where
  "idna_ascii host =
     (if host = [] then Some []
      else (let labels = split_dots host
            in if list_all (\<lambda>l. l \<noteq> [] \<and> length l < 64) (butlast labels) \<and> length (last labels) < 64
               then Some host else None))"

definition normalize_domain :: "string \<Rightarrow> exn + string option" where
  "normalize_domain value =
     (if value = [] then Inr None
      else (case urlsplit (strip_chars py_isspace value) of
              Inl e \<Rightarrow> Inl e
            | Inr parsed \<Rightarrow>
                (case us_hostname parsed of
                   None \<Rightarrow> Inr None
                 | Some hostname \<Rightarrow>
                     if lower (us_scheme parsed) \<notin> {''http'', ''https''} then Inr None
                     else
                       (let host = rev (dropWhile (\<lambda>c. c = CHR ''.'') (rev (lower hostname)))
                        in Inr (idna_ascii (removeprefix ''www.'' host))))))"

definition canonical_competitor_url :: "string \<Rightarrow> exn + string option" where
  "canonical_competitor_url value =
     (case normalize_domain value of
        Inl e \<Rightarrow> Inl e
      | Inr None \<Rightarrow> Inr None
      | Inr (Some domain) \<Rightarrow> Inr (Some (''https://'' @ domain @ ''/'')))"

subsection \<open>Confirmed competitors\<close>

datatype confirmation_source = By_user | By_system

record confirmed_competitor =
  co_competitor_id :: string
  co_business_name :: string
  co_website_url :: string
  co_public_gbp_url :: "string option"
  co_confirmation_source :: confirmation_source

text \<open>Of an analysis request, what the gate reads; the nested contracts are their JSON.\<close>

record analyze_request =
  aq_case_id :: uuid
  aq_business_identity :: json
  aq_primary_service :: string
  aq_target_market :: json
  aq_queries :: "string list"
  aq_competitors :: "confirmed_competitor list"

record analysis_discovery_link =
  al_discovery_id :: uuid
  al_candidate_digest :: string
  al_market_snapshot_id :: uuid
  al_market_snapshot_checksum :: string

definition selection_error :: "string \<Rightarrow> string \<Rightarrow> exn" where
  "selection_error = DeterministicJobError"

text \<open>\<open>CompetitorDiscoveryRequest\<close> and \<open>SerpMarketContext\<close> validate the request before its digest.\<close>

definition discovery_request_valid :: "analyze_request \<Rightarrow> bool" where
  "discovery_request_valid q \<longleftrightarrow> text_len 1 200 (aq_primary_service q)
     \<and> 3 \<le> length (aq_queries q) \<and> length (aq_queries q) \<le> 5 \<and> distinct (map lower (aq_queries q))"

definition analysis_discovery_input_digest :: "runtime_env \<Rightarrow> analyze_request \<Rightarrow> exn + string" where
  "analysis_discovery_input_digest E q =
     (if \<not> discovery_request_valid q then Inl ValidationError
      else Inr (request_digest E (JObj
        [(''schema_version'', JStr ''competitor_discovery_input_v1''),
         (''case_id'', JStr (uuid_str (aq_case_id q))),
         (''business_identity'', aq_business_identity q),
         (''primary_service'', JStr (aq_primary_service q)),
         (''market_context'', JObj
           [(''target_market'', aq_target_market q), (''queries'', JArr (map JStr (aq_queries q))),
            (''device'', JStr ''mobile''), (''language'', JStr ''en'')])])))"

definition rstrip_slash :: "string \<Rightarrow> string" where
  "rstrip_slash s = rev (dropWhile (\<lambda>c. c = CHR ''/'') (rev s))"

definition same_url :: "string \<Rightarrow> string \<Rightarrow> bool" where
  "same_url a b \<longleftrightarrow> rstrip_slash a = rstrip_slash b"

definition same_gbp :: "string option \<Rightarrow> string option \<Rightarrow> bool" where
  "same_gbp a b = (case (a, b) of
     (None, None) \<Rightarrow> True | (Some x, Some y) \<Rightarrow> same_url x y | _ \<Rightarrow> False)"

definition candidate_of :: "competitor_candidate list \<Rightarrow> string \<Rightarrow> competitor_candidate option" where
  "candidate_of cs i = find (\<lambda>c. ca_competitor_id c = i) (rev cs)"

fun check_confirmed ::
    "competitor_candidate list \<Rightarrow> string list \<Rightarrow> confirmed_competitor list \<Rightarrow> exn + unit" where
  "check_confirmed candidates seen [] = Inr ()"
| "check_confirmed candidates seen (x # xs) =
     (if co_confirmation_source x \<noteq> By_user
      then Inl (selection_error ''COMPETITOR_CONFIRMATION_REQUIRED''
             ''All competitors must be explicitly confirmed by the user.'')
      else
        (case candidate_of candidates (co_competitor_id x) of
           None \<Rightarrow> Inl (selection_error ''COMPETITOR_SELECTION_INVALID''
             ''A confirmed competitor is not present in the current discovery result.'')
         | Some c \<Rightarrow>
             (case canonical_competitor_url (co_website_url x) of
                Inl e \<Rightarrow> Inl e
              | Inr domain_url \<Rightarrow>
                  (case canonical_competitor_url (ca_website_url c) of
                     Inl e \<Rightarrow> Inl e
                   | Inr candidate_url \<Rightarrow>
                       if co_business_name x \<noteq> ca_business_name c \<or> domain_url \<noteq> candidate_url
                          \<or> \<not> same_gbp (co_public_gbp_url x) (ca_public_gbp_url c)
                       then Inl (selection_error ''COMPETITOR_SELECTION_TAMPERED''
                              ''A confirmed competitor does not match its canonical discovery identity.'')
                       else
                         (case domain_url of
                            None \<Rightarrow> Inl (OtherException ''AssertionError'')
                          | Some d \<Rightarrow>
                              if d \<in> set seen
                              then Inl (selection_error ''COMPETITOR_SELECTION_INVALID''
                                     ''Confirmed competitors must use distinct canonical websites.'')
                              else check_confirmed candidates (d # seen) xs)))))"

definition validate_confirmed_competitors ::
    "analyze_request \<Rightarrow> competitor_candidate list \<Rightarrow> exn + unit" where
  "validate_confirmed_competitors q candidates =
     (if length (remdups (map ca_competitor_id candidates)) < COMPETITOR_MIN_COUNT
      then Inl (selection_error ''COMPETITOR_DISCOVERY_NOT_READY''
             ''The competitor discovery does not contain an eligible candidate.'')
      else check_confirmed candidates [] (aq_competitors q))"

subsection \<open>The gate\<close>

definition verify_market ::
    "market_config \<Rightarrow> 's server \<Rightarrow> analyze_request \<Rightarrow> timestamp \<Rightarrow> uuid \<Rightarrow> discovery_result
     \<Rightarrow> ('s, analysis_discovery_link) program" where
  "verify_market M R q now j result =
     andThen (market_get M R (dr_input_digest result) now) (\<lambda>shared.
       if (case shared of
             None \<Rightarrow> True
           | Some m \<Rightarrow> sm_snapshot_id m \<noteq> dr_market_snapshot_id result
               \<or> sm_snapshot_checksum m \<noteq> dr_market_snapshot_checksum result)
       then throw (selection_error ''COMPETITOR_MARKET_SNAPSHOT_INVALID''
              ''The competitor market snapshot is unavailable or no longer valid.'')
       else
         (case validate_confirmed_competitors q (dr_candidates result) of
            Inl e \<Rightarrow> throw e
          | Inr _ \<Rightarrow>
              ret \<lparr>al_discovery_id = j, al_candidate_digest = dr_candidate_digest result,
                   al_market_snapshot_id = dr_market_snapshot_id result,
                   al_market_snapshot_checksum = dr_market_snapshot_checksum result\<rparr>))"

definition verify_result ::
    "runtime_env \<Rightarrow> market_config \<Rightarrow> 's server \<Rightarrow> analyze_request \<Rightarrow> timestamp \<Rightarrow> uuid
     \<Rightarrow> discovery_result \<Rightarrow> ('s, analysis_discovery_link) program" where
  "verify_result D M R q now j result =
     (if dr_expires_at result \<le> now
      then throw (selection_error ''COMPETITOR_DISCOVERY_EXPIRED''
             ''The competitor discovery has expired. Run discovery again.'')
      else if dr_case_id result \<noteq> aq_case_id q
      then throw (selection_error ''COMPETITOR_DISCOVERY_CASE_MISMATCH''
             ''The competitor discovery belongs to a different case.'')
      else
        (case analysis_discovery_input_digest D q of
           Inl e \<Rightarrow> throw e
         | Inr expected \<Rightarrow>
             if dr_input_digest result \<noteq> expected
             then throw (selection_error ''COMPETITOR_DISCOVERY_CONTEXT_MISMATCH''
                    ''The competitor discovery does not match the confirmed analysis context.'')
             else if \<not> dr_ready_for_confirmation result
             then throw (selection_error ''COMPETITOR_DISCOVERY_NOT_READY''
                    ''The competitor discovery does not contain an eligible competitor.'')
             else verify_market M R q now j result))"

definition verify ::
    "runtime_env \<Rightarrow> market_config \<Rightarrow> 's server \<Rightarrow> uuid option \<Rightarrow> analyze_request \<Rightarrow> timestamp
     \<Rightarrow> ('s, analysis_discovery_link) program" where
  "verify D M R discovery_id q now =
     (case discovery_id of
        None \<Rightarrow> throw (selection_error ''COMPETITOR_DISCOVERY_REQUIRED''
                 ''A completed competitor discovery is required before analysis.'')
      | Some j \<Rightarrow>
          andThen (reads (\<lambda>s. discovery_get_state D R s j)) (\<lambda>found.
            case found of
              None \<Rightarrow> throw (selection_error ''COMPETITOR_DISCOVERY_NOT_FOUND''
                       ''The referenced competitor discovery was not found.'')
            | Some state \<Rightarrow>
                (case (ds_status state, ds_result state) of
                   (Succeeded, Some result) \<Rightarrow> verify_result D M R q now j result
                 | _ \<Rightarrow> throw (selection_error ''COMPETITOR_DISCOVERY_INCOMPLETE''
                          ''The referenced competitor discovery has not completed successfully.''))))"

subsection \<open>What the checks accept\<close>

lemma validate_shared_Inr:
  "validate_shared M d raw = Inr m \<longleftrightarrow>
     raw = VMarket m \<and> shared_market_valid m \<and> sm_input_digest m = d
     \<and> snapshot_digest M (sm_snapshot m) = sm_snapshot_checksum m"
  by (auto simp: validate_shared_def split: rval.splits)

text \<open>The stored snapshot a lookup finds, unexpired.\<close>

definition stored_market ::
    "market_config \<Rightarrow> 's server \<Rightarrow> 's \<Rightarrow> string \<Rightarrow> timestamp \<Rightarrow> shared_market \<Rightarrow> bool" where
  "stored_market M R s d now m \<longleftrightarrow> valid_digest d
     \<and> rget R s (market_name M d) = Some (VMarket m)
     \<and> shared_market_valid m \<and> sm_input_digest m = d
     \<and> snapshot_digest M (sm_snapshot m) = sm_snapshot_checksum m \<and> now < sm_expires_at m"

lemma market_get_found:
  assumes "stored_market M R s d now m"
  shows "market_get M R d now s = (s, Inr (Some m))"
proof -
  have m: "market_key M d = Inr (market_name M d)" "rget R s (market_name M d) = Some (VMarket m)"
    "validate_shared M d (VMarket m) = Inr m" "\<not> sm_expires_at m \<le> now"
    using assms by (simp_all add: stored_market_def market_key_def validate_shared_Inr)
  show ?thesis unfolding market_get_def m(1) sum.case andThen_reads m(2) option.case m(3) by (simp add: m(4) ret_def)
qed

lemma market_get_Some:
  "snd (market_get M R d now s) = Inr (Some m) \<longleftrightarrow> stored_market M R s d now m"
proof
  assume "snd (market_get M R d now s) = Inr (Some m)"
  then show "stored_market M R s d now m"
    by (auto simp: market_get_def market_key_def stored_market_def validate_shared_Inr execute_def
        throw_def ret_def andThen_snd split: option.splits sum.splits if_splits)
qed (simp add: market_get_found)

definition confirmed_by :: "competitor_candidate list \<Rightarrow> confirmed_competitor \<Rightarrow> string \<Rightarrow> bool" where
  "confirmed_by candidates x d \<longleftrightarrow> co_confirmation_source x = By_user
     \<and> (\<exists>c. candidate_of candidates (co_competitor_id x) = Some c
          \<and> co_business_name x = ca_business_name c \<and> same_gbp (co_public_gbp_url x) (ca_public_gbp_url c)
          \<and> canonical_competitor_url (co_website_url x) = Inr (Some d)
          \<and> canonical_competitor_url (ca_website_url c) = Inr (Some d))"

lemma check_confirmed_iff:
  "check_confirmed candidates seen xs = Inr () \<longleftrightarrow>
     (\<exists>ds. list_all2 (confirmed_by candidates) xs ds \<and> distinct ds \<and> set ds \<inter> set seen = {})"
proof (induction xs arbitrary: seen)
  case (Cons x xs)
  show ?case
  proof (cases "\<exists>d. confirmed_by candidates x d \<and> d \<notin> set seen")
    case True
    then obtain d where d: "confirmed_by candidates x d" "d \<notin> set seen" by blast
    then have "check_confirmed candidates seen (x # xs) = check_confirmed candidates (d # seen) xs"
      by (auto simp: confirmed_by_def)
    moreover have u: "confirmed_by candidates x e \<longleftrightarrow> e = d" for e
      using d(1) by (auto simp: confirmed_by_def)
    moreover have "(\<exists>ds. list_all2 (confirmed_by candidates) (x # xs) ds \<and> distinct ds \<and> set ds \<inter> set seen = {})
        \<longleftrightarrow> (\<exists>ds. list_all2 (confirmed_by candidates) xs ds \<and> distinct ds \<and> set ds \<inter> set (d # seen) = {})"
      (is "?A \<longleftrightarrow> ?B")
    proof
      assume ?B
      then obtain ds where "list_all2 (confirmed_by candidates) xs ds" "distinct ds" "set ds \<inter> set (d # seen) = {}"
        by blast
      then have "list_all2 (confirmed_by candidates) (x # xs) (d # ds)" "distinct (d # ds)"
        "set (d # ds) \<inter> set seen = {}" using d by auto
      then show ?A by blast
    qed (auto simp: list_all2_Cons1 u)
    ultimately show ?thesis by (simp only: Cons.IH)
  next
    case False
    then have "check_confirmed candidates seen (x # xs) \<noteq> Inr ()"
      by (auto simp: confirmed_by_def split: option.splits sum.splits if_splits)
    moreover have "\<not> (\<exists>ds. list_all2 (confirmed_by candidates) (x # xs) ds \<and> distinct ds \<and> set ds \<inter> set seen = {})"
      using False by (auto simp: list_all2_Cons1)
    ultimately show ?thesis by blast
  qed
qed simp

text \<open>The whole contract of the gate.\<close>

definition selection_ok ::
    "runtime_env \<Rightarrow> market_config \<Rightarrow> 's server \<Rightarrow> 's \<Rightarrow> analyze_request \<Rightarrow> timestamp
     \<Rightarrow> discovery_result \<Rightarrow> bool" where
  "selection_ok D M R s q now r \<longleftrightarrow>
     now < dr_expires_at r \<and> dr_case_id r = aq_case_id q
   \<and> analysis_discovery_input_digest D q = Inr (dr_input_digest r) \<and> dr_ready_for_confirmation r
   \<and> (\<exists>m. stored_market M R s (dr_input_digest r) now m \<and> sm_snapshot_id m = dr_market_snapshot_id r
        \<and> sm_snapshot_checksum m = dr_market_snapshot_checksum r)
   \<and> dr_candidates r \<noteq> []
   \<and> (\<exists>ds. list_all2 (confirmed_by (dr_candidates r)) (aq_competitors q) ds \<and> distinct ds)"

lemma validate_confirmed_iff:
  "validate_confirmed_competitors q cs = Inr () \<longleftrightarrow>
     cs \<noteq> [] \<and> (\<exists>ds. list_all2 (confirmed_by cs) (aq_competitors q) ds \<and> distinct ds)"
proof -
  have "length (remdups (map ca_competitor_id cs)) < COMPETITOR_MIN_COUNT \<longleftrightarrow> cs = []"
    by (cases cs) (auto simp: COMPETITOR_MIN_COUNT_def)
  then show ?thesis by (auto simp: validate_confirmed_competitors_def check_confirmed_iff)
qed

lemma verify_result_iff:
  "snd (verify_result D M R q now j r s) = Inr link \<longleftrightarrow>
     selection_ok D M R s q now r
   \<and> link = \<lparr>al_discovery_id = j, al_candidate_digest = dr_candidate_digest r,
        al_market_snapshot_id = dr_market_snapshot_id r,
        al_market_snapshot_checksum = dr_market_snapshot_checksum r\<rparr>"
  (is "?l \<longleftrightarrow> ?r \<and> link = ?link")
proof (cases "\<exists>m. stored_market M R s (dr_input_digest r) now m \<and> sm_snapshot_id m = dr_market_snapshot_id r
        \<and> sm_snapshot_checksum m = dr_market_snapshot_checksum r")
  case True
  then obtain m where m: "stored_market M R s (dr_input_digest r) now m"
    "sm_snapshot_id m = dr_market_snapshot_id r" "sm_snapshot_checksum m = dr_market_snapshot_checksum r"
    by blast
  have "verify_market M R q now j r s =
      (case validate_confirmed_competitors q (dr_candidates r) of Inl e \<Rightarrow> (s, Inl e) | Inr _ \<Rightarrow> (s, Inr ?link))"
    by (simp add: verify_market_def andThen_def market_get_found [OF m(1)] m(2,3) throw_def ret_def
        split: sum.split)
  then show ?thesis
    using True validate_confirmed_iff [of q "dr_candidates r"]
    by (auto simp: verify_result_def selection_ok_def throw_def split: sum.splits)
next
  case False
  have "snd (verify_market M R q now j r s) \<noteq> Inr link"
    using False market_get_Some [of M R "dr_input_digest r" now s]
    by (auto simp: verify_market_def andThen_snd throw_def split: sum.splits option.splits)
  then show ?thesis
    using False by (auto simp: verify_result_def selection_ok_def throw_def split: sum.splits)
qed

end
