(* ===== verification/Selection_Properties.thy ===== *)
theory Selection_Properties
  imports Selection
begin

text \<open>The properties of shared market snapshots and of the gate before an analysis.\<close>

lemma shared_envelope_fields [simp]:
  "sm_input_digest (shared_envelope M d x now) = d"
  "sm_snapshot_checksum (shared_envelope M d x now) = snapshot_digest M x"
  "sm_expires_at (shared_envelope M d x now) = now + seconds (mk_ttl_seconds M)"
  "sm_snapshot (shared_envelope M d x now) = x"
  by (simp_all add: shared_envelope_def)

lemma market_save_stored:
  assumes R: "redis_laws R" and ttl: "0 < mk_ttl_seconds M"
    and saved: "snd (market_save M R others d x now s) = Inr m"
  shows "stored_market M R (fst (market_save M R others d x now s)) d now m"
proof -
  obtain s1 existing where g: "market_get M R d now s = (s1, Inr existing)"
    using saved by (cases "market_get M R d now s") (auto simp: market_save_def andThen_def split: sum.splits)
  show ?thesis
  proof (cases existing)
    case (Some e)
    then have "stored_market M R s d now e" using market_get_Some [of M R d now s e] g by simp
    moreover from this have "market_save M R others d x now s = (s, Inr e)"
      by (simp add: market_save_def andThen_def market_get_found ret_def)
    ultimately show ?thesis using saved by simp
  next
    case None
    let ?e = "shared_envelope M d x now"
    have v: "shared_market_valid ?e" "valid_digest d"
      using saved g None
      by (auto simp: market_save_def andThen_def Let_def throw_def market_get_def market_key_def
          split: if_splits)
    obtain s2 where o: "others s1 = (s2, Inr ())"
      using saved g None v
      by (cases "others s1") (auto simp: market_save_def andThen_def Let_def split: sum.splits)
    have save: "market_save M R others d x now s =
        (if rget R s2 (market_name M d) = None
         then (rexec R [SetEx (market_name M d) (VMarket ?e) (mk_ttl_seconds M)] s2, Inr ?e)
         else (case market_get M R d now s2 of
                 (s3, Inl e) \<Rightarrow> (s3, Inl e)
               | (s3, Inr None) \<Rightarrow> (s3, Inl market_error)
               | (s3, Inr (Some e)) \<Rightarrow> (s3, Inr e)))"
      using v by (simp add: market_save_def andThen_def g None Let_def o market_key_def always_def set_nx_def
          ret_def throw_def split: prod.split sum.split option.split)
    show ?thesis
    proof (cases "rget R s2 (market_name M d) = None")
      case True
      have "rget R (rexec R [SetEx (market_name M d) (VMarket ?e) (mk_ttl_seconds M)] s2) (market_name M d)
          = Some (VMarket ?e)"
        by (subst redis_laws.get_exec [OF R]) (simp_all add: ttl)
      then show ?thesis
        using saved True v ttl by (auto simp: save stored_market_def seconds_def)
    next
      case False
      then have "snd (market_get M R d now s2) = Inr (Some m)"
        using saved by (auto simp: save split: prod.splits sum.splits option.splits)
      then have "stored_market M R s2 d now m" by (simp only: market_get_Some)
      then show ?thesis using False by (auto simp: save market_get_found)
    qed
  qed
qed

text \<open>
  The first saved snapshot of a market is the snapshot of every caller: what a save
  returns, whatever other clients do meanwhile, is what the key holds afterwards, valid and
  unexpired, and until it expires every later lookup and save of that market returns
  exactly it and writes nothing.
\<close>

theorem market_save_roundtrip:
  assumes "redis_laws R" "0 < mk_ttl_seconds M"
    and "snd (market_save M R others d x now s) = Inr m"
    and "rget R t (market_name M d) = rget R (fst (market_save M R others d x now s)) (market_name M d)"
    and "later < sm_expires_at m"
  shows "stored_market M R (fst (market_save M R others d x now s)) d now m
    \<and> market_get M R d later t = (t, Inr (Some m))
    \<and> market_save M R others' d x' later t = (t, Inr m)"
proof -
  have s: "stored_market M R (fst (market_save M R others d x now s)) d now m"
    by (rule market_save_stored [OF assms(1-3)])
  then have "stored_market M R t d later m" using assms(4,5) by (simp add: stored_market_def)
  then have "market_get M R d later t = (t, Inr (Some m))" by (rule market_get_found)
  then show ?thesis using s by (simp add: market_save_def andThen_def ret_def)
qed

definition ex_market :: market_config where
  "ex_market = \<lparr>mk_prefix = ''test'', mk_ttl_seconds = 3600, mk_env = example_env, mk_uuid5 = (\<lambda>_. 8)\<rparr>"

definition ex_digest :: string where
  "ex_digest = ''sha256:'' @ replicate 64 CHR ''0''"

definition ex_snapshot :: market_snapshot where
  "ex_snapshot = \<lparr>ms_job_id = 5, ms_document = JObj []\<rparr>"

definition ex_saved :: "rval mem \<times> (exn + shared_market)" where
  "ex_saved = market_save ex_market mem_redis (ret ()) ex_digest ex_snapshot 2000 mem_empty"

text \<open>
  (C31) The gate: a discovery is linked to an analysis exactly when it succeeded with a
  result that is unexpired, of the same case and of the digest of the request, ready, with
  its market snapshot still stored under the same identity and checksum, and when every
  competitor of the request was confirmed by the user, equals a candidate of the result in
  name, canonical website and profile, and no two share a website. The link carries the
  result's digests.
\<close>

theorem verify_gate:
  "snd (verify D M R (Some j) q now s) = Inr link \<longleftrightarrow>
    (\<exists>st r. discovery_get_state D R s j = Inr (Some st) \<and> ds_status st = Succeeded
      \<and> ds_result st = Some r \<and> selection_ok D M R s q now r
      \<and> link = \<lparr>al_discovery_id = j, al_candidate_digest = dr_candidate_digest r,
          al_market_snapshot_id = dr_market_snapshot_id r,
          al_market_snapshot_checksum = dr_market_snapshot_checksum r\<rparr>)"
proof (cases "discovery_get_state D R s j")
  case (Inl e)
  then show ?thesis by (simp add: verify_def)
next
  case (Inr found)
  show ?thesis
  proof (cases found)
    case None
    then show ?thesis by (simp add: verify_def Inr throw_def)
  next
    case (Some st)
    show ?thesis
    proof (cases "ds_status st = Succeeded \<and> ds_result st \<noteq> None")
      case True
      then show ?thesis by (auto simp: verify_def Inr Some verify_result_iff)
    next
      case False
      then show ?thesis
        by (cases "ds_status st"; cases "ds_result st") (auto simp: verify_def Inr Some throw_def)
    qed
  qed
qed

text \<open>A finished discovery with its market, and a request that confirms its candidate.\<close>

definition ex_request :: analyze_request where
  "ex_request = \<lparr>aq_case_id = 2, aq_business_identity = JObj [], aq_primary_service = ''plumbing'',
     aq_target_market = JObj [], aq_queries = [''a'', ''b'', ''c''],
     aq_competitors = [\<lparr>co_competitor_id = ''c1'', co_business_name = ''Acme'',
       co_website_url = ''https://www.acme.test/'', co_public_gbp_url = None,
       co_confirmation_source = By_user\<rparr>]\<rparr>"

definition ex_finished :: "rval mem" where
  "ex_finished = rexec mem_redis
     [SetEx (discovery_state_key example_env 5)
        (VDiscovery ((discovery_initial example_env
            \<lparr>dga_job_id = 5, dga_case_id = 2, dga_idempotency_key = ''key'', dga_request_payload = JObj [], dga_now = 1000\<rparr>)
          \<lparr>ds_status := Succeeded, ds_stage := Ds_completed, ds_progress := 100,
           ds_completed_at := Some 2000, ds_updated_at := 2000, ds_result := Some (ex_result 5)\<rparr>)) 60]
     (fst ex_saved)"

lemma ex_gate_accepts:
  "snd (verify example_env ex_market mem_redis (Some 5) ex_request 3000 ex_finished) =
     Inr \<lparr>al_discovery_id = 5, al_candidate_digest = ex_digest, al_market_snapshot_id = 8,
          al_market_snapshot_checksum = ex_digest\<rparr>"
  by code_simp

end
