(* ===== verification/Priority.thy ===== *)
theory Priority
  imports Url "HOL-Library.Multiset"
begin

text \<open>
  The ordering of report actions (app/report_v22/capability_priority.py,
  candidate_priority.py and candidate_delivery.py): how each candidate is graded, the loop
  that draws the actions by precedence after their dependencies, the selection of the
  delivered ones and the checks of an edited delivery. The dictionaries of the code come
  from validated models and are records here; a value of an enumeration that the code only
  compares is a text.
\<close>

subsection \<open>Data\<close>

datatype level = Low | Medium | High | Critical

fun RANK :: "level \<Rightarrow> nat" where
  "RANK Low = 0"
| "RANK Medium = 1"
| "RANK High = 2"
| "RANK Critical = 3"

lemma RANK_inject [simp]: "RANK a = RANK b \<longleftrightarrow> a = b"
  by (cases a; cases b) simp_all

instantiation level :: linorder
begin

definition less_eq_level :: "level \<Rightarrow> level \<Rightarrow> bool" where
  "less_eq_level a b \<longleftrightarrow> RANK a \<le> RANK b"

definition less_level :: "level \<Rightarrow> level \<Rightarrow> bool" where
  "less_level a b \<longleftrightarrow> RANK a < RANK b"

instance
  by standard (auto simp: less_eq_level_def less_level_def)

end

text \<open>\<open>max(..., key=RANK.__getitem__)\<close> of a list that is not empty.\<close>

definition max_level :: "level list \<Rightarrow> level" where
  "max_level xs = foldr max xs Low"

fun level_name :: "level \<Rightarrow> string" where
  "level_name Low = ''low''"
| "level_name Medium = ''medium''"
| "level_name High = ''high''"
| "level_name Critical = ''critical''"

record material =
  ma_kind :: string
  ma_readiness :: string

record report_action =
  ra_id :: string
  ra_target :: string
  ra_finding_ids :: "string list"
  ra_dependencies :: "string list"
  ra_materials :: "material list"

record candidate =
  cd_action_id :: string
  cd_target :: string
  cd_finding_ids :: "string list"
  cd_dependencies :: "string list"
  cd_material_kinds :: "string list"
  cd_readiness :: "string list"

record finding =
  fi_id :: string
  fi_rule_id :: string
  fi_classification :: string
  fi_severity :: level
  fi_confidence :: level
  fi_interpretation :: string
  fi_impact_path :: string
  fi_comparison_scope :: string
  fi_observed_fact :: string
  fi_judgment :: string
  fi_kind :: "string option"
  fi_status :: "string option"
  fi_evidence_ids :: "string list"

record execution_conditions =
  xc_capacity :: string
  xc_publishing_access :: string

record business =
  bu_site_url :: string
  bu_target_pages :: "string list"
  bu_priority :: "string option"
  bu_execution_conditions :: "execution_conditions option"

datatype prerequisite = Access_indexing | Measurement | No_prerequisite
datatype business_match = Confirmed_target | Confirmed_objective | Not_matched | Unknown_match
datatype evidence_support = Supported | Needs_verification | Conflicting
datatype execution_mode = Ready_to_use | Instructions_only | Confirmation_required

record entry =
  en_input :: candidate
  en_prerequisite :: prerequisite
  en_match :: business_match
  en_support :: evidence_support
  en_execution :: execution_mode
  en_severity :: level
  en_confidence :: level
  en_impact_paths :: "string list"
  en_comparison_scopes :: "string list"
  en_reason_codes :: "string list"
  en_explanation :: string
  en_selected_order :: "nat option"
  en_technical_finding_ids :: "string list option"
  en_default_visible :: "bool option"

record trace =
  tr_rules_version :: string
  tr_input_checksum :: string
  tr_business_priority :: "string option"
  tr_target_pages :: "string list"
  tr_action_order :: "string list"
  tr_candidates :: "entry list"
  tr_limitations :: "string list"
  tr_candidate_order :: "string list option"

definition en_id :: "entry \<Rightarrow> string" where
  "en_id e = cd_action_id (en_input e)"

definition en_dependencies :: "entry \<Rightarrow> string list" where
  "en_dependencies e = cd_dependencies (en_input e)"

subsection \<open>Constants\<close>

definition VERSION1 :: string where "VERSION1 = ''v22_business_priority_v1''"
definition VERSION2 :: string where "VERSION2 = ''v22_business_priority_v2''"
definition VERSION3 :: string where "VERSION3 = ''v22_business_priority_v3''"

definition OBJECTIVES :: "(string \<times> string list) list" where
  "OBJECTIVES =
     [(''service_visibility'', [''title_brief'', ''service_brief'']),
      (''contact_path'', [''service_brief'', ''profile_correction'']),
      (''business_identity'', [''profile_correction''])]"

definition PRIORITY_LIMIT :: string where
  "PRIORITY_LIMIT = ''Business return is unknown. This order is not a revenue forecast or evidence that SEO caused a change.''"

definition RULE_HTTP :: string where "RULE_HTTP = ''v22_public.site_http_error''"
definition RULE_NOINDEX :: string where "RULE_NOINDEX = ''v22_public.site_explicit_noindex''"

definition PUBLISHING :: "string list" where
  "PUBLISHING = [''title_brief'', ''service_brief'', ''profile_correction'']"

subsection \<open>Grading\<close>

text \<open>\<open>sorted(set(xs))\<close> and \<open>list(dict.fromkeys(xs))\<close>.\<close>

definition sorted_set :: "string list \<Rightarrow> string list" where
  "sorted_set xs = sort (remdups xs)"

definition fromkeys :: "'a list \<Rightarrow> 'a list" where
  "fromkeys xs = rev (remdups (rev xs))"

definition candidate_input :: "report_action \<Rightarrow> candidate" where
  "candidate_input a =
     \<lparr>cd_action_id = ra_id a, cd_target = ra_target a,
      cd_finding_ids = sort (ra_finding_ids a),
      cd_dependencies = sort (ra_dependencies a),
      cd_material_kinds = sorted_set (map ma_kind (ra_materials a)),
      cd_readiness = sorted_set (map ma_readiness (ra_materials a))\<rparr>"

definition starts_with :: "string \<Rightarrow> string \<Rightarrow> bool" where
  "starts_with p s \<longleftrightarrow> take (length p) s = p"

definition measurement_rule :: "string \<Rightarrow> bool" where
  "measurement_rule rule \<longleftrightarrow>
     list_ex (\<lambda>p. starts_with (p @ ''.'') rule)
       [''V22.FIRST_PARTY.GSC.MEASUREMENT_COVERAGE'', ''V22.FIRST_PARTY.GA4.MEASUREMENT_CONFIGURATION'',
        ''V22.FIRST_PARTY.GBP.PROFILE_OR_MEASUREMENT'']
   \<or> rule \<in> set [''V22.CROSS_SOURCE.GSC_GA4.PAGE_DIRECTION_CONFLICT'',
        ''V22.CROSS_SOURCE.GSC_GA4.AGGREGATE_DIRECTION_CONFLICT'',
        ''V22.CROSS_SOURCE.GSC_GBP.VISIBILITY_CONFLICT'', ''V22.CROSS_SOURCE.GA4_GBP.BEHAVIOR_CONFLICT'',
        ''V22.CROSS_SOURCE.GSC_GA4.WEEKLY_CONFLICT'']"

definition truthy :: "string option \<Rightarrow> bool" where
  "truthy x \<longleftrightarrow> x \<noteq> None \<and> x \<noteq> Some []"

definition bare_host :: "string \<Rightarrow> string" where
  "bare_host h = removeprefix ''www.'' (lower h)"

type_synonym page = "string \<times> int option \<times> string \<times> string"

text \<open>A page that is no explicit page of the business, and any ValueError or AttributeError, is None.\<close>

definition page_of :: "string \<Rightarrow> string \<Rightarrow> page option" where
  "page_of url site =
     (case (urlsplit url, urlsplit site) of
        (Inr parsed, Inr business) \<Rightarrow>
          (case (us_hostname parsed, us_hostname business) of
             (Some h, Some b) \<Rightarrow>
               if us_scheme parsed \<notin> {''http'', ''https''} \<or> truthy (us_username parsed)
                  \<or> truthy (us_password parsed) \<or> bare_host h \<noteq> bare_host b
               then None
               else (case us_port parsed of
                  Inl _ \<Rightarrow> None
                | Inr port \<Rightarrow>
                    Some (bare_host h,
                      (if port = Some (if us_scheme parsed = ''https'' then 443 else 80) then None else port),
                      (if us_path parsed = [] then ''/'' else us_path parsed), us_query parsed))
           | _ \<Rightarrow> None)
      | _ \<Rightarrow> None)"

text \<open>\<open>s.split("\n")\<close>\<close>

fun split_lines :: "string \<Rightarrow> string list" where
  "split_lines [] = [[]]"
| "split_lines (c # cs) =
     (if c = CHR 0x0A then [] # split_lines cs
      else (case split_lines cs of [] \<Rightarrow> [[c]] | line # lines \<Rightarrow> (c # line) # lines))"

text \<open>\<open>by_id[i]\<close>: the last finding with the identifier.\<close>

definition finding_of :: "finding list \<Rightarrow> string \<Rightarrow> finding option" where
  "finding_of fs i = find (\<lambda>f. fi_id f = i) (rev fs)"

definition linked_findings :: "finding list \<Rightarrow> candidate \<Rightarrow> finding list" where
  "linked_findings fs c = List.map_filter (finding_of fs) (cd_finding_ids c)"

definition conditions_of :: "business \<Rightarrow> execution_conditions" where
  "conditions_of b =
     (case bu_execution_conditions b of
        None \<Rightarrow> \<lparr>xc_capacity = ''unknown'', xc_publishing_access = ''unknown''\<rparr> | Some x \<Rightarrow> x)"

definition target_pages_of :: "business \<Rightarrow> page list" where
  "target_pages_of b = List.map_filter (\<lambda>p. page_of p (bu_site_url b)) (bu_target_pages b)"

definition objective_of :: "business \<Rightarrow> string list option" where
  "objective_of b = (case bu_priority b of None \<Rightarrow> None | Some p \<Rightarrow> map_of OBJECTIVES p)"

definition prerequisite_of :: "finding list \<Rightarrow> prerequisite" where
  "prerequisite_of linked =
     (if list_ex (\<lambda>f. fi_rule_id f \<in> {RULE_HTTP, RULE_NOINDEX}) linked then Access_indexing
      else if list_ex (\<lambda>f. measurement_rule (fi_rule_id f)) linked then Measurement
      else No_prerequisite)"

definition meets :: "string list \<Rightarrow> string list \<Rightarrow> bool" where
  "meets xs ys \<longleftrightarrow> list_ex (\<lambda>x. x \<in> set ys) xs"

definition match_of :: "string \<Rightarrow> business \<Rightarrow> candidate \<Rightarrow> finding list \<Rightarrow> business_match" where
  "match_of version b c linked =
     (let pages = target_pages_of b; objective = objective_of b
      in if list_ex (\<lambda>t. case page_of t (bu_site_url b) of None \<Rightarrow> False | Some p \<Rightarrow> p \<in> set pages)
              (split_lines (cd_target c)) then Confirmed_target
         else if (case objective of None \<Rightarrow> False | Some kinds \<Rightarrow>
                    meets (cd_material_kinds c) kinds
                  \<or> version = VERSION2 \<and> bu_priority b = Some ''contact_path''
                    \<and> list_ex (\<lambda>f. fi_rule_id f \<in> {''V22.FIRST_PARTY.GA4.ENGAGEMENT_GAP'',
                          ''V22.FIRST_PARTY.GA4.CONVERSION_GAP''}) linked) then Confirmed_objective
         else if pages \<noteq> [] \<or> objective \<noteq> None then Not_matched else Unknown_match)"

definition support_of :: "finding list \<Rightarrow> evidence_support" where
  "support_of linked =
     (if list_ex (\<lambda>f. fi_interpretation f = ''conflicting'') linked then Conflicting
      else if list_ex (\<lambda>f. fi_interpretation f = ''needs_verification''
             \<or> fi_classification f = ''estimate'') linked then Needs_verification
      else Supported)"

definition publishes :: "candidate \<Rightarrow> bool" where
  "publishes c = meets (cd_material_kinds c) PUBLISHING"

definition execution_of :: "string \<Rightarrow> execution_conditions \<Rightarrow> candidate \<Rightarrow> execution_mode" where
  "execution_of version x c =
     (let execution =
        (if ''requires_confirmation'' \<in> set (cd_readiness c) then Confirmation_required
         else if cd_readiness c \<noteq> [] \<and> set (cd_readiness c) = {''ready_to_use''} then Ready_to_use
         else Instructions_only)
      in if version = VERSION2 \<and> publishes c \<and> xc_publishing_access x = ''needs_approval''
         then Confirmation_required else execution)"

fun prerequisite_name :: "prerequisite \<Rightarrow> string" where
  "prerequisite_name Access_indexing = ''access_indexing''"
| "prerequisite_name Measurement = ''measurement''"
| "prerequisite_name No_prerequisite = ''none''"

fun match_name :: "business_match \<Rightarrow> string" where
  "match_name Confirmed_target = ''confirmed_target''"
| "match_name Confirmed_objective = ''confirmed_objective''"
| "match_name Not_matched = ''not_matched''"
| "match_name Unknown_match = ''unknown''"

fun support_name :: "evidence_support \<Rightarrow> string" where
  "support_name Supported = ''supported''"
| "support_name Needs_verification = ''needs_verification''"
| "support_name Conflicting = ''conflicting''"

fun execution_name :: "execution_mode \<Rightarrow> string" where
  "execution_name Ready_to_use = ''ready_to_use''"
| "execution_name Instructions_only = ''instructions_only''"
| "execution_name Confirmation_required = ''confirmation_required''"

definition reason_codes ::
    "string \<Rightarrow> candidate \<Rightarrow> execution_conditions \<Rightarrow> prerequisite \<Rightarrow> business_match \<Rightarrow> evidence_support
     \<Rightarrow> execution_mode \<Rightarrow> level \<Rightarrow> level \<Rightarrow> string list" where
  "reason_codes version c x prereq match support execution severity confidence =
     [''prerequisite_'' @ prerequisite_name prereq, ''business_'' @ match_name match,
      ''evidence_'' @ support_name support, ''execution_'' @ execution_name execution,
      ''severity_'' @ level_name severity, ''confidence_'' @ level_name confidence,
      ''return_unknown'', ''stable_identity_tiebreak'']
     @ (if cd_dependencies c \<noteq> [] then [''dependencies_first''] else [])
     @ (if version = VERSION2
        then [''capacity_'' @ xc_capacity x, ''publishing_'' @ xc_publishing_access x] else [])"

definition explanation_of ::
    "string \<Rightarrow> candidate \<Rightarrow> execution_conditions \<Rightarrow> prerequisite \<Rightarrow> business_match \<Rightarrow> evidence_support
     \<Rightarrow> execution_mode \<Rightarrow> string" where
  "explanation_of version c x prereq match support execution =
     (case prereq of
        Access_indexing \<Rightarrow> ''Check access and indexing before optimizing affected pages.''
      | Measurement \<Rightarrow> ''Establish reliable measurement before interpreting performance.''
      | No_prerequisite \<Rightarrow>
         (case match of
            Confirmed_target \<Rightarrow> ''This work addresses an explicitly confirmed target page.''
          | Confirmed_objective \<Rightarrow> ''This work matches the explicitly confirmed business objective.''
          | Not_matched \<Rightarrow> ''No direct match to the confirmed focus; this is not a low-value judgment.''
          | Unknown_match \<Rightarrow> ''Business focus is not specified; order uses evidence and problem attributes, not assumed business value.''))
     @ (case support of
          Conflicting \<Rightarrow> '' Conflicting evidence calls for investigation, not a claimed business cause.''
        | Needs_verification \<Rightarrow> '' Confirm the stated assumptions before changing anything.''
        | Supported \<Rightarrow> [])
     @ (if execution = Confirmation_required
        then '' Business details or approval are still required.'' else [])
     @ (if version = VERSION2 \<and> publishes c \<and> xc_capacity x = ''limited''
        then '' Limited execution capacity is confirmed; reserve a separate slot for changes. No duration is estimated.''
        else [])
     @ (if version = VERSION2 \<and> publishes c \<and> xc_publishing_access x = ''unknown''
        then '' Publishing access is unknown, not assumed blocked or approved.'' else [])"

definition make_entry ::
    "string \<Rightarrow> candidate \<Rightarrow> execution_conditions \<Rightarrow> finding list \<Rightarrow> prerequisite \<Rightarrow> business_match
     \<Rightarrow> evidence_support \<Rightarrow> execution_mode \<Rightarrow> level \<Rightarrow> level \<Rightarrow> entry" where
  "make_entry version c x linked prereq match support execution severity confidence =
     \<lparr>en_input = c, en_prerequisite = prereq, en_match = match, en_support = support,
      en_execution = execution, en_severity = severity, en_confidence = confidence,
      en_impact_paths = fromkeys (map fi_impact_path linked),
      en_comparison_scopes = fromkeys (map fi_comparison_scope linked),
      en_reason_codes = reason_codes version c x prereq match support execution severity confidence,
      en_explanation = explanation_of version c x prereq match support execution,
      en_selected_order = None, en_technical_finding_ids = None, en_default_visible = None\<rparr>"

definition grade_linked :: "string \<Rightarrow> business \<Rightarrow> candidate \<Rightarrow> finding list \<Rightarrow> entry" where
  "grade_linked version b c linked =
     make_entry version c (conditions_of b) linked (prerequisite_of linked)
       (match_of version b c linked) (support_of linked)
       (execution_of version (conditions_of b) c)
       (max_level (map fi_severity linked)) (max_level (map fi_confidence linked))"

definition grade :: "string \<Rightarrow> finding list \<Rightarrow> business \<Rightarrow> candidate \<Rightarrow> entry" where
  "grade version findings b c = grade_linked version b c (linked_findings findings c)"

subsection \<open>Drawing\<close>

type_synonym precedence_key = "nat \<times> nat \<times> nat \<times> int \<times> int \<times> nat \<times> nat \<times> string"

fun layer :: "prerequisite \<Rightarrow> nat" where
  "layer Access_indexing = 0"
| "layer Measurement = 1"
| "layer No_prerequisite = 2"

fun match_rank :: "business_match \<Rightarrow> nat" where
  "match_rank Confirmed_target = 0"
| "match_rank Confirmed_objective = 1"
| "match_rank Not_matched = 2"
| "match_rank Unknown_match = 2"

fun support_rank :: "evidence_support \<Rightarrow> nat" where
  "support_rank Supported = 0"
| "support_rank Needs_verification = 1"
| "support_rank Conflicting = 2"

fun execution_rank :: "execution_mode \<Rightarrow> nat" where
  "execution_rank Ready_to_use = 0"
| "execution_rank Instructions_only = 1"
| "execution_rank Confirmation_required = 2"

text \<open>\<open>key(e)\<close>; \<open>limited\<close> is whether limited capacity counts against publishing work.\<close>

definition precedence :: "bool \<Rightarrow> entry \<Rightarrow> precedence_key" where
  "precedence limited e =
     (layer (en_prerequisite e), match_rank (en_match e), support_rank (en_support e),
      - int (RANK (en_severity e)), - int (RANK (en_confidence e)),
      (if limited \<and> publishes (en_input e) then 1 else 0),
      execution_rank (en_execution e), en_id e)"

lemma arg_min_available:
  "filter P xs \<noteq> [] \<Longrightarrow> arg_min_list key (filter P xs) \<in> set xs \<and> P (arg_min_list key (filter P xs))"
  using arg_min_list_in [of "filter P xs" key] by auto

text \<open>
  The loop \<open>while pending\<close> of both rankers: of the entries whose dependencies have been
  drawn, draw the least by the key; \<open>step\<close> is what the body does with it.
\<close>

function draw ::
    "string \<Rightarrow> (entry \<Rightarrow> 'k::linorder) \<Rightarrow> (entry \<Rightarrow> 'a \<Rightarrow> 'a) \<Rightarrow> entry list \<Rightarrow> entry list \<Rightarrow> 'a
     \<Rightarrow> exn + entry list \<times> 'a" where
  "draw cyclic key step pending drawn acc =
     (if pending = [] then Inr (drawn, acc)
      else
        (let available = filter (\<lambda>e. set (en_dependencies e) \<subseteq> set (map en_id drawn)) pending
         in if available = [] then Inl (ValueError cyclic)
            else
              (let e = arg_min_list key available
               in draw cyclic key step (remove1 e pending) (drawn @ [e]) (step e acc))))"
  by pat_completeness auto

termination
proof (relation "measure (\<lambda>(_, _, _, pending, _, _). length pending)", goal_cases)
  case (2 cyclic key step pending drawn acc available e)
  then have "e \<in> set pending" by (metis arg_min_available)
  then show ?case using length_pos_if_in_set [of e pending] by (simp add: length_remove1)
qed simp

declare draw.simps [simp del]

text \<open>
  What the bodies write: the delivered actions, and changes of the drawn entries, which are
  the same objects as those of the candidate list.
\<close>

record selection =
  se_chosen :: "string list"
  se_changes :: "(string \<times> (nat option \<times> string list)) list"

definition select_first :: "entry \<Rightarrow> selection \<Rightarrow> selection" where
  "select_first e s =
     (if length (se_chosen s) < 3
      then \<lparr>se_chosen = se_chosen s @ [en_id e],
            se_changes = se_changes s @ [(en_id e, Some (Suc (length (se_chosen s))), [])]\<rparr>
      else s\<lparr>se_changes := se_changes s @ [(en_id e, None, [''outside_delivery_budget''])]\<rparr>)"

definition apply_changes :: "(string \<times> (nat option \<times> string list)) list \<Rightarrow> entry list \<Rightarrow> entry list" where
  "apply_changes changes es =
     map (\<lambda>e. case map_of changes (en_id e) of
           None \<Rightarrow> e
         | Some (order, codes) \<Rightarrow>
             e\<lparr>en_selected_order := (case order of None \<Rightarrow> en_selected_order e | Some n \<Rightarrow> Some n),
               en_reason_codes := en_reason_codes e @ codes\<rparr>) es"

subsection \<open>The rankers\<close>

definition canonical_input :: "candidate \<Rightarrow> bool" where
  "canonical_input c \<longleftrightarrow> list_all (\<lambda>xs. xs = sorted_set xs)
     [cd_finding_ids c, cd_dependencies c, cd_material_kinds c, cd_readiness c]"

definition valid_references :: "string list \<Rightarrow> finding list \<Rightarrow> candidate \<Rightarrow> bool" where
  "valid_references ids findings c \<longleftrightarrow>
     set (cd_dependencies c) \<subseteq> set ids \<and> cd_action_id c \<notin> set (cd_dependencies c)
   \<and> cd_finding_ids c \<noteq> [] \<and> list_all (\<lambda>i. finding_of findings i \<noteq> None) (cd_finding_ids c)"

fun grade_all ::
    "string \<Rightarrow> string list \<Rightarrow> finding list \<Rightarrow> business \<Rightarrow> candidate list \<Rightarrow> exn + entry list" where
  "grade_all version ids findings b [] = Inr []"
| "grade_all version ids findings b (c # cs) =
     (if \<not> canonical_input c then Inl (ValueError ''noncanonical priority input'')
      else if \<not> valid_references ids findings c then Inl (ValueError ''invalid priority references'')
      else (case grade_all version ids findings b cs of
              Inl e \<Rightarrow> Inl e
            | Inr es \<Rightarrow> Inr (grade version findings b c # es)))"

definition limited_capacity :: "string \<Rightarrow> business \<Rightarrow> bool" where
  "limited_capacity version b \<longleftrightarrow> version = VERSION2 \<and> xc_capacity (conditions_of b) = ''limited''"

definition prioritize_base ::
    "string \<Rightarrow> candidate list \<Rightarrow> finding list \<Rightarrow> business \<Rightarrow> string \<Rightarrow> exn + trace" where
  "prioritize_base version inputs findings b checksum =
     (if version \<notin> {VERSION1, VERSION2} then Inl (ValueError ''unknown priority version'')
      else if \<not> distinct (map cd_action_id inputs) then Inl (ValueError ''duplicate priority candidate'')
      else
        (case grade_all version (map cd_action_id inputs) findings b (sort_key cd_action_id inputs) of
           Inl e \<Rightarrow> Inl e
         | Inr entries \<Rightarrow>
             (case draw ''cyclic priority dependencies'' (precedence (limited_capacity version b))
                     select_first entries [] \<lparr>se_chosen = [], se_changes = []\<rparr> of
                Inl e \<Rightarrow> Inl e
              | Inr (_, s) \<Rightarrow>
                  Inr \<lparr>tr_rules_version = version, tr_input_checksum = checksum,
                       tr_business_priority = bu_priority b, tr_target_pages = bu_target_pages b,
                       tr_action_order = se_chosen s,
                       tr_candidates = apply_changes (se_changes s) entries,
                       tr_limitations = [PRIORITY_LIMIT], tr_candidate_order = None\<rparr>)))"

definition qualified_technical :: "finding \<Rightarrow> bool" where
  "qualified_technical f \<longleftrightarrow>
     fi_rule_id f \<in> {RULE_HTTP, RULE_NOINDEX} \<and> fi_kind f = Some ''fact''
   \<and> fi_status f = Some ''confirmed'' \<and> fi_confidence f \<in> {Medium, High}
   \<and> fi_interpretation f = ''supported'' \<and> fi_evidence_ids f \<noteq> []"

definition mask_unqualified :: "finding \<Rightarrow> finding" where
  "mask_unqualified f =
     (if fi_rule_id f \<in> {RULE_HTTP, RULE_NOINDEX} \<and> \<not> qualified_technical f
      then f\<lparr>fi_rule_id := ''unqualified_technical_observation''\<rparr> else f)"

definition qualify :: "finding list \<Rightarrow> entry \<Rightarrow> entry" where
  "qualify findings e =
     (let linked = linked_findings findings (en_input e)
      in e\<lparr>en_technical_finding_ids := Some (sort (map fi_id (filter qualified_technical linked))),
           en_default_visible :=
             Some (list_ex (\<lambda>f. fi_status f = Some ''confirmed'' \<and> fi_confidence f \<noteq> Low) linked),
           en_selected_order := None,
           en_reason_codes := filter (\<lambda>c. c \<noteq> ''outside_delivery_budget'') (en_reason_codes e)\<rparr>)"

definition visible :: "entry \<Rightarrow> bool" where
  "visible e \<longleftrightarrow> en_default_visible e = Some True"

definition visible_precedence :: "bool \<Rightarrow> entry \<Rightarrow> nat \<times> precedence_key" where
  "visible_precedence limited e = ((if visible e then 0 else 1), precedence limited e)"

definition select_visible :: "entry \<Rightarrow> selection \<Rightarrow> selection" where
  "select_visible e s =
     (if visible e \<and> length (se_chosen s) < 3 \<and> set (en_dependencies e) \<subseteq> set (se_chosen s)
      then \<lparr>se_chosen = se_chosen s @ [en_id e],
            se_changes = se_changes s @ [(en_id e, Some (Suc (length (se_chosen s))), [])]\<rparr>
      else s\<lparr>se_changes := se_changes s @ [(en_id e, None,
             [if \<not> visible e then ''advisor_only_weak_basis''
              else if \<not> set (en_dependencies e) \<subseteq> set (se_chosen s) then ''dependency_not_selected''
              else ''outside_delivery_budget''])]\<rparr>)"

definition prioritize_candidates ::
    "candidate list \<Rightarrow> finding list \<Rightarrow> business \<Rightarrow> string \<Rightarrow> exn + trace" where
  "prioritize_candidates inputs findings b checksum =
     (case prioritize_base VERSION2 inputs (map mask_unqualified findings) b checksum of
        Inl e \<Rightarrow> Inl e
      | Inr base \<Rightarrow>
          (let entries = map (qualify findings) (tr_candidates base)
           in case draw ''cyclic candidate dependencies''
                     (visible_precedence (xc_capacity (conditions_of b) = ''limited''))
                     select_visible entries [] \<lparr>se_chosen = [], se_changes = []\<rparr> of
                Inl e \<Rightarrow> Inl e
              | Inr (drawn, s) \<Rightarrow>
                  Inr (base\<lparr>tr_rules_version := VERSION3, tr_candidate_order := Some (map en_id drawn),
                            tr_action_order := se_chosen s,
                            tr_candidates := apply_changes (se_changes s) entries\<rparr>)))"

definition prioritize ::
    "string \<Rightarrow> candidate list \<Rightarrow> finding list \<Rightarrow> business \<Rightarrow> string \<Rightarrow> exn + trace" where
  "prioritize version inputs findings b checksum =
     (if version = VERSION3 then prioritize_candidates inputs findings b checksum
      else prioritize_base version inputs findings b checksum)"

subsection \<open>The report\<close>

record manifest =
  mf_business :: business
  mf_input_checksum :: string
  mf_ruleset_version :: string

record raw_report =
  rr_actions :: "report_action list"
  rr_action_candidates :: "report_action list"
  rr_action_state :: string
  rr_findings :: "finding list"
  rr_prioritization :: "trace option"
  rr_limitations :: "string list"
  rr_summary :: string

definition ends_with :: "string \<Rightarrow> string \<Rightarrow> bool" where
  "ends_with suffix s \<longleftrightarrow> length suffix \<le> length s \<and> drop (length s - length suffix) s = suffix"

definition full_pool_rules :: "string \<Rightarrow> bool" where
  "full_pool_rules v \<longleftrightarrow> v \<in> {''v22_capability_public_v12'', ''v22_capability_public_v13''}"

definition rules_version_of :: "string \<Rightarrow> string" where
  "rules_version_of v =
     (if full_pool_rules v then VERSION3
      else if list_ex (\<lambda>x. ends_with x v)
             [''_v3'', ''_v4'', ''_v5'', ''_v6'', ''_v7'', ''_v8'', ''_v9'', ''_v10'', ''_v11'']
      then VERSION2 else VERSION1)"

text \<open>\<open>[by_id[key] for key in keys]\<close>\<close>

fun select_actions :: "report_action list \<Rightarrow> string list \<Rightarrow> exn + report_action list" where
  "select_actions actions [] = Inr []"
| "select_actions actions (k # ks) =
     (case find (\<lambda>a. ra_id a = k) (rev actions) of
        None \<Rightarrow> Inl (OtherException ''KeyError'')
      | Some a \<Rightarrow>
          (case select_actions actions ks of Inl e \<Rightarrow> Inl e | Inr selected \<Rightarrow> Inr (a # selected)))"

definition candidates_of :: "string \<Rightarrow> raw_report \<Rightarrow> trace \<Rightarrow> exn + report_action list" where
  "candidates_of ruleset raw t =
     (if full_pool_rules ruleset
      then (case tr_candidate_order t of
              None \<Rightarrow> Inl (OtherException ''KeyError'')
            | Some order \<Rightarrow> select_actions (rr_actions raw) order)
      else Inr (rr_action_candidates raw))"

definition summary_of :: "raw_report \<Rightarrow> report_action list \<Rightarrow> exn + string" where
  "summary_of raw selected =
     (case selected of
        [] \<Rightarrow> Inr (rr_summary raw)
      | a # _ \<Rightarrow>
          (case ra_finding_ids a of
             [] \<Rightarrow> Inl (OtherException ''IndexError'')
           | i # _ \<Rightarrow>
               (case find (\<lambda>f. fi_id f = i) (rr_findings raw) of
                  None \<Rightarrow> Inl (OtherException ''StopIteration'')
                | Some lead \<Rightarrow> Inr (fi_observed_fact lead @ '' '' @ fi_judgment lead))))"

definition apply_priority :: "manifest \<Rightarrow> raw_report \<Rightarrow> exn + raw_report" where
  "apply_priority m raw =
     (case prioritize (rules_version_of (mf_ruleset_version m)) (map candidate_input (rr_actions raw))
             (rr_findings raw) (mf_business m) (mf_input_checksum m) of
        Inl e \<Rightarrow> Inl e
      | Inr t \<Rightarrow>
          (case candidates_of (mf_ruleset_version m) raw t of
             Inl e \<Rightarrow> Inl e
           | Inr pool \<Rightarrow>
               (case select_actions (rr_actions raw) (tr_action_order t) of
                  Inl e \<Rightarrow> Inl e
                | Inr selected \<Rightarrow>
                    (case summary_of raw selected of
                       Inl e \<Rightarrow> Inl e
                     | Inr summary \<Rightarrow>
                         Inr (raw\<lparr>rr_actions := selected, rr_action_candidates := pool,
                           rr_action_state :=
                             (if full_pool_rules (mf_ruleset_version m)
                              then (if selected \<noteq> [] then ''actions_supported'' else ''insufficient_basis'')
                              else rr_action_state raw),
                           rr_prioritization := Some t,
                           rr_limitations := fromkeys (rr_limitations raw @ [PRIORITY_LIMIT]),
                           rr_summary := summary\<rparr>)))))"

subsection \<open>Edited deliveries\<close>

text \<open>The check of a delivery under the second rules; a KeyError is an \<open>Inl\<close>.\<close>

fun delivery_layers :: "entry list \<Rightarrow> string list \<Rightarrow> string list \<Rightarrow> int \<Rightarrow> exn + bool" where
  "delivery_layers entries seen [] current = Inr True"
| "delivery_layers entries seen (i # ids) current =
     (case find (\<lambda>e. en_id e = i) (rev entries) of
        None \<Rightarrow> Inl (OtherException ''KeyError'')
      | Some e \<Rightarrow>
          if int (layer (en_prerequisite e)) < current \<or> \<not> set (en_dependencies e) \<subseteq> set seen
          then Inr False
          else delivery_layers entries (i # seen) ids (int (layer (en_prerequisite e))))"

definition valid_delivery_order :: "string list \<Rightarrow> trace \<Rightarrow> exn + bool" where
  "valid_delivery_order ids t =
     (if \<not> distinct ids \<or> set ids \<noteq> set (tr_action_order t) then Inr False
      else delivery_layers (tr_candidates t) [] ids (- 1))"

text \<open>The checks of a selection under the third rules.\<close>

fun valid_dependencies :: "string list \<Rightarrow> string list \<Rightarrow> (string \<times> string list) list \<Rightarrow> bool" where
  "valid_dependencies seen [] pool = True"
| "valid_dependencies seen (k # ks) pool =
     (case map_of pool k of
        None \<Rightarrow> False
      | Some deps \<Rightarrow>
          if k \<in> set seen \<or> \<not> set deps \<subseteq> set seen then False
          else valid_dependencies (k # seen) ks pool)"

record omission =
  om_omitted :: "string list"
  om_selected :: "string list"
  om_client :: "string list"

definition omission_confirmation :: "trace \<Rightarrow> string list \<Rightarrow> string list \<Rightarrow> omission option" where
  "omission_confirmation t ids client_ids =
     (let technical = sort (map en_id (filter (\<lambda>e. en_technical_finding_ids e \<notin> {None, Some []})
                                          (tr_candidates t)))
      in if technical \<noteq> [] \<and> \<not> meets technical client_ids
         then Some \<lparr>om_omitted = technical, om_selected = ids, om_client = client_ids\<rparr> else None)"

definition candidate_pool :: "report_action list \<Rightarrow> (string \<times> string list) list" where
  "candidate_pool actions = rev (map (\<lambda>a. (ra_id a, ra_dependencies a)) actions)"

definition validate_selection ::
    "trace \<Rightarrow> report_action list \<Rightarrow> string list \<Rightarrow> string list \<Rightarrow> omission option
     \<Rightarrow> exn + unit" where
  "validate_selection t actions ids client_ids confirmation =
     (let pool = candidate_pool actions; visible_ids = filter (\<lambda>k. k \<in> set client_ids) ids
      in if client_ids \<noteq> visible_ids \<or> \<not> valid_dependencies [] ids pool
            \<or> \<not> valid_dependencies [] visible_ids pool
         then Inl (ValueError ''selection dependencies or visible order invalid'')
         else if confirmation \<noteq> omission_confirmation t ids visible_ids
         then Inl (ValueError ''technical omission requires current selection confirmation'')
         else Inr ())"

end
