(* ===== verification/Priority_Laws.thy ===== *)
theory Priority_Laws
  imports Priority "HOL-Library.Sublist"
begin

text \<open>
  What the rankers guarantee: the drawing loop ends, fails exactly on cyclic dependencies
  and otherwise draws every entry once, dependencies first, always the least that is
  available; the selections are prefixes or parts of it; grading is per candidate and does
  not depend on the order of the inputs.
\<close>

subsection \<open>The specification of an order\<close>

definition entry_ids :: "entry list \<Rightarrow> string set" where
  "entry_ids es = set (map en_id es)"

lemma entry_ids_simps [simp]:
  "entry_ids [] = {}" "entry_ids (e # es) = insert (en_id e) (entry_ids es)"
  "entry_ids (es @ fs) = entry_ids es \<union> entry_ids fs"
  by (auto simp: entry_ids_def)

text \<open>Every entry comes after its dependencies and before any available entry of larger key.\<close>

fun greedy :: "(entry \<Rightarrow> 'k::linorder) \<Rightarrow> entry list \<Rightarrow> entry list \<Rightarrow> bool" where
  "greedy key drawn [] = True"
| "greedy key drawn (e # es) =
     (set (en_dependencies e) \<subseteq> entry_ids drawn
      \<and> (\<forall>x \<in> set es. set (en_dependencies x) \<subseteq> entry_ids drawn \<longrightarrow> key e \<le> key x)
      \<and> greedy key (drawn @ [e]) es)"

definition depends :: "(string \<times> string list) set \<Rightarrow> (string \<times> string) set" where
  "depends S = {(d, i). \<exists>ds. (i, ds) \<in> S \<and> d \<in> set ds}"

definition entry_graph :: "entry list \<Rightarrow> (string \<times> string) set" where
  "entry_graph es = depends (set (map (\<lambda>e. (en_id e, en_dependencies e)) es))"

definition candidate_graph :: "candidate list \<Rightarrow> (string \<times> string) set" where
  "candidate_graph cs = depends (set (map (\<lambda>c. (cd_action_id c, cd_dependencies c)) cs))"

lemma entry_graph_iff: "(d, i) \<in> entry_graph es \<longleftrightarrow> (\<exists>e \<in> set es. en_id e = i \<and> d \<in> set (en_dependencies e))"
  by (auto simp: entry_graph_def depends_def)

lemma entry_graph_inputs: "entry_graph es = candidate_graph (map en_input es)"
  by (simp add: entry_graph_def candidate_graph_def en_id_def[abs_def] en_dependencies_def[abs_def] comp_def)

lemma candidate_graph_set: "set cs = set cs' \<Longrightarrow> candidate_graph cs = candidate_graph cs'"
  by (simp add: candidate_graph_def)

lemma greedy_topological:
  "greedy key drawn es \<Longrightarrow> i < length es \<Longrightarrow>
   set (en_dependencies (es ! i)) \<subseteq> entry_ids drawn \<union> entry_ids (take i es)"
proof (induction es arbitrary: drawn i)
  case (Cons e es)
  then show ?case
    by (cases i) (fastforce, use Cons.IH [of "drawn @ [e]" "i - 1"] in auto)
qed simp

lemma greedy_sorted:
  "greedy key drawn es \<Longrightarrow> (\<forall>e \<in> set es. set (en_dependencies e) \<subseteq> entry_ids drawn) \<Longrightarrow>
   sorted (map key es)"
proof (induction es arbitrary: drawn)
  case (Cons e es)
  then have "sorted (map key es)" by (intro Cons.IH [of "drawn @ [e]"]) auto
  then show ?case using Cons.prems by simp
qed simp

lemma position_nth:
  assumes "distinct xs" "i < length xs"
  shows "length (takeWhile (\<lambda>y. y \<noteq> xs ! i) xs) = i"
proof -
  have "takeWhile (\<lambda>y. y \<noteq> xs ! i) xs = take i xs"
    using assms by (intro takeWhile_eq_take_P_nth) (auto simp: nth_eq_iff_index_eq)
  then show ?thesis using assms(2) by simp
qed

lemma greedy_acyclic:
  assumes "greedy key [] es" "distinct (map en_id es)"
  shows "acyclic (entry_graph es)"
proof -
  let ?ids = "map en_id es"
  let ?pos = "\<lambda>x. length (takeWhile (\<lambda>y. y \<noteq> x) ?ids)"
  have "(d, i) \<in> measure ?pos" if "(d, i) \<in> entry_graph es" for d i
  proof -
    have "\<exists>e \<in> set es. en_id e = i \<and> d \<in> set (en_dependencies e)"
      using that by (simp only: entry_graph_iff)
    then obtain e where e: "e \<in> set es" "en_id e = i" "d \<in> set (en_dependencies e)"
      by blast
    from e(1) obtain n where "n < length es" "es ! n = e" unfolding in_set_conv_nth by blast
    then have n: "n < length es" "en_id (es ! n) = i" "d \<in> set (en_dependencies (es ! n))"
      using e by simp_all
    have "d \<in> entry_ids (take n es)"
      using greedy_topological [OF assms(1) n(1)] n(3) by (simp add: subset_iff)
    then have "d \<in> set (take n ?ids)" by (simp add: entry_ids_def take_map)
    then obtain m where "m < length (take n ?ids)" "take n ?ids ! m = d" unfolding in_set_conv_nth by blast
    then have m: "m < n" "?ids ! m = d" by simp_all
    have "?pos d = m" using position_nth [OF assms(2), of m] m n(1) by simp
    moreover have "?pos i = n" using position_nth [OF assms(2), of n] n by simp
    ultimately have "?pos d = m" "?pos i = n" by blast+
    then show ?thesis using m(1) by simp
  qed
  then have "entry_graph es \<subseteq> measure ?pos" by auto
  then show ?thesis by (intro wf_acyclic wf_subset [OF wf_measure])
qed

subsection \<open>The drawing loop\<close>

lemma draw_sound:
  "draw cyclic key step pending drawn acc = Inr (order, acc') \<Longrightarrow>
   \<exists>es. order = drawn @ es \<and> mset es = mset pending \<and> acc' = fold step es acc \<and> greedy key drawn es"
proof (induction cyclic key step pending drawn acc rule: draw.induct)
  case (1 cyclic key step pending drawn acc)
  let ?P = "\<lambda>e. set (en_dependencies e) \<subseteq> set (map en_id drawn)"
  let ?available = "filter ?P pending"
  let ?e = "arg_min_list key ?available"
  show ?case
  proof (cases "pending = []")
    case True
    then show ?thesis using "1.prems" by (simp add: draw.simps)
  next
    case False
    then have av: "?available \<noteq> []"
      using "1.prems" by (subst (asm) draw.simps) (auto simp: Let_def split: if_splits)
    then have e: "?e \<in> set pending" "?P ?e" using arg_min_available [of ?P pending key] by auto
    have "draw cyclic key step (remove1 ?e pending) (drawn @ [?e]) (step ?e acc) = Inr (order, acc')"
      using "1.prems" False av by (subst (asm) draw.simps) (simp add: Let_def)
    from "1.IH" [OF False refl av refl this] obtain es where es:
        "order = (drawn @ [?e]) @ es" "mset es = mset (remove1 ?e pending)"
        "acc' = fold step es (step ?e acc)" "greedy key (drawn @ [?e]) es"
      by blast
    have least: "key ?e \<le> key x" if "x \<in> set pending" "?P x" for x
      using that av by (subst f_arg_min_list_f) auto
    have "set es \<subseteq> set pending"
      using mset_eq_setD [OF es(2)] set_remove1_subset by fastforce
    then have "greedy key drawn (?e # es)"
      using e(2) least es(4) by (auto simp: entry_ids_def)
    moreover have "mset (?e # es) = mset pending" using es(2) e(1) by simp
    ultimately show ?thesis using es(1,3) by (intro exI [of _ "?e # es"]) simp
  qed
qed

lemma acyclic_minimal:
  assumes "acyclic (entry_graph es)" "es \<noteq> []"
    and "\<forall>e \<in> set es. set (en_dependencies e) \<subseteq> A \<union> entry_ids es"
  shows "\<exists>e \<in> set es. set (en_dependencies e) \<subseteq> A"
proof -
  have "finite (entry_graph es)"
  proof (rule finite_subset)
    show "entry_graph es \<subseteq> (\<Union>e \<in> set es. set (en_dependencies e)) \<times> entry_ids es"
      by (auto simp: entry_graph_iff entry_ids_def)
  qed (simp add: entry_ids_def)
  then have wf: "wf (entry_graph es)" using assms(1) by (rule finite_acyclic_wf)
  have "hd es \<in> set es" using assms(2) by simp
  then have "en_id (hd es) \<in> entry_ids es" by (simp add: entry_ids_def)
  then obtain i where i: "i \<in> entry_ids es" "\<And>d. (d, i) \<in> entry_graph es \<Longrightarrow> d \<notin> entry_ids es"
    using wf by (meson wfE_min)
  then obtain e where "e \<in> set es" "en_id e = i" by (auto simp: entry_ids_def)
  then show ?thesis using i(2) assms(3) by (fastforce simp: entry_graph_iff)
qed

lemma draw_complete:
  "acyclic (entry_graph pending) \<Longrightarrow>
   \<forall>e \<in> set pending. set (en_dependencies e) \<subseteq> entry_ids drawn \<union> entry_ids pending \<Longrightarrow>
   \<exists>r. draw cyclic key step pending drawn acc = Inr r"
proof (induction cyclic key step pending drawn acc rule: draw.induct)
  case (1 cyclic key step pending drawn acc)
  let ?P = "\<lambda>e. set (en_dependencies e) \<subseteq> set (map en_id drawn)"
  let ?e = "arg_min_list key (filter ?P pending)"
  show ?case
  proof (cases "pending = []")
    case True
    then show ?thesis by (simp add: draw.simps)
  next
    case False
    then have av: "filter ?P pending \<noteq> []"
      using acyclic_minimal [OF "1.prems"(1) False "1.prems"(2)]
      by (auto simp: entry_ids_def filter_empty_conv)
    then have e: "?e \<in> set pending" using arg_min_available [of ?P pending key] by auto
    have "entry_graph (remove1 ?e pending) \<subseteq> entry_graph pending"
      using set_remove1_subset [of ?e pending] by (fastforce simp: entry_graph_iff)
    then have "acyclic (entry_graph (remove1 ?e pending))"
      by (rule acyclic_subset [OF "1.prems"(1)])
    moreover have "entry_ids pending \<subseteq> insert (en_id ?e) (entry_ids (remove1 ?e pending))"
      using e by (auto simp: entry_ids_def) (metis in_set_remove1 image_eqI)
    then have "\<forall>x \<in> set (remove1 ?e pending).
        set (en_dependencies x) \<subseteq> entry_ids (drawn @ [?e]) \<union> entry_ids (remove1 ?e pending)"
      using "1.prems"(2) set_remove1_subset [of ?e pending] by (auto 4 4)
    ultimately have "\<exists>r. draw cyclic key step (remove1 ?e pending) (drawn @ [?e]) (step ?e acc) = Inr r"
      by (rule "1.IH" [OF False refl av refl])
    then show ?thesis using False av by (subst draw.simps) (simp add: Let_def)
  qed
qed

lemma draw_Inl: "draw cyclic key step pending drawn acc = Inl x \<Longrightarrow> x = ValueError cyclic"
proof (induction cyclic key step pending drawn acc rule: draw.induct)
  case (1 cyclic key step pending drawn acc)
  then show ?case
    by (subst (asm) (2) draw.simps) (auto simp: Let_def split: if_splits)
qed

text \<open>Without earlier draws the loop succeeds exactly on acyclic, closed dependencies.\<close>

lemma draw_iff_acyclic:
  assumes "distinct (map en_id es)" "\<forall>e \<in> set es. set (en_dependencies e) \<subseteq> entry_ids es"
  shows "(\<exists>r. draw cyclic key step es [] acc = Inr r) \<longleftrightarrow> acyclic (entry_graph es)"
proof
  assume "\<exists>r. draw cyclic key step es [] acc = Inr r"
  then obtain order acc' where "draw cyclic key step es [] acc = Inr (order, acc')" by auto
  from draw_sound [OF this] obtain fs where fs: "mset fs = mset es" "greedy key [] fs" by auto
  have "distinct (map en_id fs)"
    using assms(1) fs(1) by (metis mset_map distinct_count_atmost_1 mset_eq_setD list.set_map)
  then have "acyclic (entry_graph fs)" by (rule greedy_acyclic [OF fs(2)])
  then show "acyclic (entry_graph es)"
    using mset_eq_setD [OF fs(1)] by (simp add: entry_graph_def)
next
  assume "acyclic (entry_graph es)"
  then show "\<exists>r. draw cyclic key step es [] acc = Inr r"
    by (rule draw_complete) (simp add: assms(2))
qed

subsection \<open>Selections\<close>

lemma fold_select_first:
  "se_chosen (fold select_first es s) =
     se_chosen s @ map en_id (take (3 - length (se_chosen s)) es)"
proof (induction es arbitrary: s)
  case (Cons e es)
  show ?case
    unfolding fold_Cons comp_apply Cons.IH
    by (auto simp: select_first_def take_Cons')
qed simp

lemma subseq_facts:
  "subseq xs ys \<Longrightarrow> set xs \<subseteq> set ys \<and> (distinct (map f ys) \<longrightarrow> distinct (map f xs))"
  by (induction rule: list_emb.induct) auto

text \<open>Visible entries whose dependencies were chosen before, three at most, in the order drawn.\<close>

definition chosen_ok :: "entry list \<Rightarrow> selection \<Rightarrow> bool" where
  "chosen_ok es s \<longleftrightarrow> length (se_chosen s) \<le> 3
     \<and> (\<exists>us. subseq us es \<and> se_chosen s = map en_id us \<and> list_all visible us
          \<and> (\<forall>i < length us. set (en_dependencies (us ! i)) \<subseteq> entry_ids (take i us)))"

lemma select_visible_ok:
  assumes "chosen_ok es s"
  shows "chosen_ok (es @ [e]) (select_visible e s)"
proof -
  obtain us where us: "length (se_chosen s) \<le> 3" "subseq us es" "se_chosen s = map en_id us"
      "list_all visible us" "\<forall>i < length us. set (en_dependencies (us ! i)) \<subseteq> entry_ids (take i us)"
    using assms by (auto simp: chosen_ok_def)
  show ?thesis
  proof (cases "visible e \<and> length (se_chosen s) < 3 \<and> set (en_dependencies e) \<subseteq> set (se_chosen s)")
    case True
    have "set (en_dependencies ((us @ [e]) ! i)) \<subseteq> entry_ids (take i (us @ [e]))" if "i < length (us @ [e])" for i
      using that us(3,5) True by (cases "i = length us") (auto simp: nth_append entry_ids_def)
    moreover have "subseq (us @ [e]) (es @ [e])" using us(2) by (simp add: list_emb_append_mono)
    ultimately show ?thesis
      using us True unfolding chosen_ok_def
      by (intro conjI exI [of _ "us @ [e]"]) (auto simp: select_visible_def)
  next
    case False
    then have "se_chosen (select_visible e s) = se_chosen s" by (simp add: select_visible_def)
    moreover have "subseq us (es @ [e])" using list_emb_append_mono [OF us(2), of "[]" "[e]"] by simp
    ultimately show ?thesis
      using us unfolding chosen_ok_def by (intro conjI exI [of _ us]) auto
  qed
qed

lemma fold_select_visible:
  "chosen_ok es (fold select_visible es \<lparr>se_chosen = [], se_changes = []\<rparr>)"
  by (induction es rule: rev_induct) (auto simp: chosen_ok_def [of "[]"] intro: select_visible_ok)

subsection \<open>Changes keep what identifies an entry\<close>

definition same_entries :: "entry list \<Rightarrow> entry list \<Rightarrow> bool" where
  "same_entries es fs \<longleftrightarrow>
     map (\<lambda>e. (en_input e, en_prerequisite e, en_match e, en_support e, en_execution e, en_severity e,
           en_confidence e)) es
   = map (\<lambda>e. (en_input e, en_prerequisite e, en_match e, en_support e, en_execution e, en_severity e,
           en_confidence e)) fs"

lemma same_entries_apply [simp]: "same_entries (apply_changes cs es) es"
  by (auto simp: same_entries_def apply_changes_def split: option.splits prod.splits)

lemma same_entries_qualify [simp]: "same_entries (map (qualify fs) es) es"
  by (simp add: same_entries_def qualify_def Let_def)

lemma same_entries_trans: "same_entries es fs \<Longrightarrow> same_entries fs gs \<Longrightarrow> same_entries es gs"
  by (simp add: same_entries_def)

lemma same_entries_inputs:
  assumes "same_entries es fs"
  shows "map en_input es = map en_input fs"
  using arg_cong [OF assms [unfolded same_entries_def], of "map fst"] by (simp add: comp_def)

lemma same_entries_ids:
  assumes "same_entries es fs"
  shows "map en_id es = map en_id fs" "map en_dependencies es = map en_dependencies fs"
    "entry_graph es = entry_graph fs"
proof -
  note inputs = same_entries_inputs [OF assms]
  have "map f (map en_input es) = map f (map en_input fs)" for f :: "candidate \<Rightarrow> 'a"
    by (simp only: inputs)
  then have ids: "map (\<lambda>e. f (en_input e)) es = map (\<lambda>e. f (en_input e)) fs" for f :: "candidate \<Rightarrow> 'a"
    by (simp add: comp_def)
  show "map en_id es = map en_id fs" "map en_dependencies es = map en_dependencies fs"
    unfolding en_id_def[abs_def] en_dependencies_def[abs_def] by (rule ids)+
  show "entry_graph es = entry_graph fs" by (simp only: entry_graph_inputs inputs)
qed

subsection \<open>Grading\<close>

definition gradable :: "string list \<Rightarrow> finding list \<Rightarrow> candidate \<Rightarrow> bool" where
  "gradable ids findings c \<longleftrightarrow> canonical_input c \<and> valid_references ids findings c"

lemma grade_all_iff:
  "(\<exists>es. grade_all version ids findings b cs = Inr es) \<longleftrightarrow> list_all (gradable ids findings) cs"
  by (induction cs) (auto simp: gradable_def split: sum.splits)

lemma grade_all_Inr:
  "grade_all version ids findings b cs = Inr es \<Longrightarrow>
   es = map (grade version findings b) cs \<and> list_all (gradable ids findings) cs"
  by (induction cs arbitrary: es) (auto simp: gradable_def split: if_splits sum.splits)

lemma grade_all_gradable:
  "list_all (gradable ids findings) cs \<Longrightarrow>
   grade_all version ids findings b cs = Inr (map (grade version findings b) cs)"
  by (induction cs) (auto simp: gradable_def)

lemma grade_all_cong: "set ids = set ids' \<Longrightarrow> grade_all version ids findings b cs = grade_all version ids' findings b cs"
  by (induction cs) (auto simp: valid_references_def split: sum.splits)

lemma en_input_grade [simp]: "en_input (grade version findings b c) = c"
  by (simp add: grade_def grade_linked_def make_entry_def)

lemma en_id_grade [simp]: "en_id (grade version findings b c) = cd_action_id c"
  by (simp add: en_id_def)

lemma en_dependencies_grade [simp]: "en_dependencies (grade version findings b c) = cd_dependencies c"
  by (simp add: en_dependencies_def)

text \<open>Masking rule identities does not change which references are valid.\<close>

lemma finding_of_mask: "finding_of (map mask_unqualified fs) i = map_option mask_unqualified (finding_of fs i)"
proof -
  have "find (\<lambda>f. fi_id f = i) (map mask_unqualified gs) = map_option mask_unqualified (find (\<lambda>f. fi_id f = i) gs)"
    for gs by (induction gs) (auto simp: mask_unqualified_def)
  then show ?thesis by (simp add: finding_of_def rev_map)
qed

lemma gradable_mask [simp]: "gradable ids (map mask_unqualified fs) = gradable ids fs"
  by (simp add: fun_eq_iff gradable_def valid_references_def finding_of_mask)

text \<open>What sorting by identifiers keeps.\<close>

lemma sort_inputs:
  assumes "mset cs = mset cs'" "distinct (map cd_action_id cs)"
  shows "sort_key cd_action_id cs = sort_key cd_action_id cs'"
proof (rule sort_key_inj_key_eq)
  show "mset cs = mset (sort_key cd_action_id cs')" using assms(1) by simp
  show "inj_on cd_action_id (set cs)" using assms(2) by (simp add: distinct_map)
qed simp

subsection \<open>Deliveries\<close>

lemma find_distinct:
  "distinct (map f xs) \<Longrightarrow> x \<in> set xs \<Longrightarrow> find (\<lambda>y. f y = f x) xs = Some x"
  by (induction xs) (auto simp: image_iff)

text \<open>Looking an entry up by its identifier finds its grades.\<close>

lemma find_same_entries:
  assumes "same_entries cs es" "distinct (map en_id es)" "e \<in> set es"
  obtains c where "find (\<lambda>x. en_id x = en_id e) (rev cs) = Some c"
    "en_prerequisite c = en_prerequisite e" "en_dependencies c = en_dependencies e"
proof -
  let ?g = "\<lambda>e. (en_input e, en_prerequisite e, en_match e, en_support e, en_execution e, en_severity e,
           en_confidence e)"
  have "?g e \<in> set (map ?g cs)" using assms(1,3) unfolding same_entries_def by simp
  then obtain c where c: "c \<in> set cs" "?g c = ?g e" by (auto simp: image_iff)
  then have e: "en_id c = en_id e" "en_prerequisite c = en_prerequisite e"
    "en_dependencies c = en_dependencies e" by (simp_all add: en_id_def en_dependencies_def)
  have "distinct (map en_id (rev cs))"
    using same_entries_ids(1) [OF assms(1)] assms(2) by (simp add: rev_map [symmetric])
  then have "find (\<lambda>x. en_id x = en_id c) (rev cs) = Some c" using c(1) by (intro find_distinct) simp_all
  then show thesis using that e by simp
qed

definition entry_layers :: "entry list \<Rightarrow> int list" where
  "entry_layers us = map (\<lambda>e. int (layer (en_prerequisite e))) us"

lemma delivery_layers_own:
  assumes "same_entries cs es" "distinct (map en_id es)"
  shows "set us \<subseteq> set es \<Longrightarrow>
    \<forall>i < length us. set (en_dependencies (us ! i)) \<subseteq> set seen \<union> entry_ids (take i us) \<Longrightarrow>
    delivery_layers cs seen (map en_id us) current = Inr (sorted (current # entry_layers us))"
proof (induction us arbitrary: seen current)
  case (Cons e us)
  obtain c where c: "find (\<lambda>x. en_id x = en_id e) (rev cs) = Some c"
    "en_prerequisite c = en_prerequisite e" "en_dependencies c = en_dependencies e"
    using find_same_entries [OF assms, of e] Cons.prems(1) by auto
  have deps: "set (en_dependencies e) \<subseteq> set seen" using Cons.prems(2) [THEN spec, of 0] by simp
  have rest: "\<forall>i < length us. set (en_dependencies (us ! i)) \<subseteq> set (en_id e # seen) \<union> entry_ids (take i us)"
  proof (intro allI impI)
    fix i assume "i < length us"
    then show "set (en_dependencies (us ! i)) \<subseteq> set (en_id e # seen) \<union> entry_ids (take i us)"
      using Cons.prems(2) [THEN spec, of "Suc i"] by auto
  qed
  have "delivery_layers cs (en_id e # seen) (map en_id us) (int (layer (en_prerequisite e))) =
      Inr (sorted (int (layer (en_prerequisite e)) # entry_layers us))"
    using Cons.prems(1) by (intro Cons.IH rest) simp
  then show ?case using c deps by (auto simp: entry_layers_def intro: order.trans)
qed (simp add: entry_layers_def)

lemma delivery_layers_bound:
  "delivery_layers cs seen ids current = Inr True \<Longrightarrow> k \<in> set ids \<Longrightarrow>
   find (\<lambda>x. en_id x = k) (rev cs) = Some e \<Longrightarrow> current \<le> int (layer (en_prerequisite e))"
proof (induction ids arbitrary: seen current)
  case (Cons i ids)
  then show ?case by (auto split: option.splits if_splits) (meson order.trans linorder_not_less)+
qed simp

text \<open>An accepted delivery has no dependency on an action of a later layer.\<close>

lemma delivery_layers_dependency:
  "delivery_layers cs seen ids current = Inr True \<Longrightarrow> k \<in> set ids \<Longrightarrow>
   find (\<lambda>x. en_id x = k) (rev cs) = Some e \<Longrightarrow> d \<in> set (en_dependencies e) \<Longrightarrow>
   find (\<lambda>x. en_id x = d) (rev cs) = Some f \<Longrightarrow> d \<notin> set seen \<Longrightarrow>
   layer (en_prerequisite f) \<le> layer (en_prerequisite e)"
proof (induction ids arbitrary: seen current)
  case (Cons i ids)
  obtain g where g: "find (\<lambda>x. en_id x = i) (rev cs) = Some g"
      "set (en_dependencies g) \<subseteq> set seen"
      "delivery_layers cs (i # seen) ids (int (layer (en_prerequisite g))) = Inr True"
    using Cons.prems(1) by (auto split: option.splits if_splits)
  have k: "k \<in> set ids" using Cons.prems(2-4,6) g by auto
  show ?case
  proof (cases "d = i")
    case True
    then show ?thesis using delivery_layers_bound [OF g(3) k Cons.prems(3)] g(1) Cons.prems(5) by simp
  next
    case False
    then show ?thesis using Cons.prems by (intro Cons.IH [OF g(3) k]) auto
  qed
qed simp

text \<open>A list after its dependencies passes the check of a selection.\<close>

lemma valid_dependencies_own:
  assumes "\<forall>e \<in> set us. \<exists>ds. map_of pool (en_id e) = Some ds \<and> set ds = set (en_dependencies e)"
    and "distinct (map en_id us)" "set seen \<inter> entry_ids us = {}"
    and "\<forall>i < length us. set (en_dependencies (us ! i)) \<subseteq> set seen \<union> entry_ids (take i us)"
  shows "valid_dependencies seen (map en_id us) pool"
  using assms
proof (induction us arbitrary: seen)
  case (Cons e us)
  have deps: "set (en_dependencies e) \<subseteq> set seen" using Cons.prems(4) [THEN spec, of 0] by simp
  have "\<forall>i < length us. set (en_dependencies (us ! i)) \<subseteq> set (en_id e # seen) \<union> entry_ids (take i us)"
  proof (intro allI impI)
    fix i assume "i < length us"
    then show "set (en_dependencies (us ! i)) \<subseteq> set (en_id e # seen) \<union> entry_ids (take i us)"
      using Cons.prems(4) [THEN spec, of "Suc i"] by auto
  qed
  then have "valid_dependencies (en_id e # seen) (map en_id us) pool"
    using Cons.prems(1-3) by (intro Cons.IH) (auto simp: entry_ids_def)
  moreover have "en_id e \<notin> set seen" using Cons.prems(3) by auto
  ultimately show ?case using Cons.prems(1) deps by auto
qed simp

end
