(* ===== verification/Priority_Properties.thy ===== *)
theory Priority_Properties
  imports Priority_Laws
begin

text \<open>
  The properties of the action order, over the whole of \<open>prioritize\<close>, with concrete
  instances.
\<close>

subsection \<open>Well-formed requests\<close>

text \<open>What the code checks before it draws: the version, distinct candidates, their inputs.\<close>

definition priority_request :: "string \<Rightarrow> candidate list \<Rightarrow> finding list \<Rightarrow> bool" where
  "priority_request version inputs findings \<longleftrightarrow>
     version \<in> {VERSION1, VERSION2, VERSION3} \<and> distinct (map cd_action_id inputs)
   \<and> list_all (gradable (map cd_action_id inputs) findings) inputs"

lemma versions_distinct [simp]:
  "VERSION1 \<noteq> VERSION2" "VERSION1 \<noteq> VERSION3" "VERSION2 \<noteq> VERSION3"
  "VERSION2 \<noteq> VERSION1" "VERSION3 \<noteq> VERSION1" "VERSION3 \<noteq> VERSION2"
  by (simp_all add: VERSION1_def VERSION2_def VERSION3_def)

definition graded :: "string \<Rightarrow> candidate list \<Rightarrow> finding list \<Rightarrow> business \<Rightarrow> entry list" where
  "graded version inputs findings b = map (grade version findings b) (sort_key cd_action_id inputs)"

text \<open>The entries of the third version: masked findings grade, the frozen ones qualify.\<close>

definition graded_visible :: "candidate list \<Rightarrow> finding list \<Rightarrow> business \<Rightarrow> entry list" where
  "graded_visible inputs findings b =
     map (qualify findings) (graded VERSION2 inputs (map mask_unqualified findings) b)"

lemma list_all_sort_key [simp]: "list_all P (sort_key f xs) = list_all P xs"
  by (simp add: list_all_iff)

lemma graded_ids:
  "map en_id (graded version inputs findings b) = map cd_action_id (sort_key cd_action_id inputs)"
  "map en_input (graded version inputs findings b) = sort_key cd_action_id inputs"
  by (simp_all add: graded_def comp_def)

lemma graded_closed:
  assumes "priority_request version inputs findings"
  shows "distinct (map en_id (graded v inputs fs b))"
    and "\<forall>e \<in> set (graded v inputs fs b). set (en_dependencies e) \<subseteq> entry_ids (graded v inputs fs b)"
    and "entry_graph (graded v inputs fs b) = candidate_graph inputs"
proof -
  have d: "distinct (map cd_action_id inputs)" and g: "list_all (gradable (map cd_action_id inputs) findings) inputs"
    using assms by (simp_all add: priority_request_def)
  have "mset (map cd_action_id (sort_key cd_action_id inputs)) = mset (map cd_action_id inputs)" by simp
  then show "distinct (map en_id (graded v inputs fs b))"
    using d unfolding graded_ids by (metis mset_eq_imp_distinct_iff)
  show "\<forall>e \<in> set (graded v inputs fs b). set (en_dependencies e) \<subseteq> entry_ids (graded v inputs fs b)"
    using g by (auto simp: graded_def entry_ids_def list_all_iff gradable_def valid_references_def image_image)
  show "entry_graph (graded v inputs fs b) = candidate_graph inputs"
    unfolding entry_graph_inputs graded_ids by (rule candidate_graph_set) simp
qed

lemma prioritize_base_graded:
  assumes "priority_request version inputs findings" "version \<noteq> VERSION3"
  shows "prioritize_base version inputs findings b checksum =
    (case draw ''cyclic priority dependencies'' (precedence (limited_capacity version b))
            select_first (graded version inputs findings b) [] \<lparr>se_chosen = [], se_changes = []\<rparr> of
       Inl e \<Rightarrow> Inl e
     | Inr (_, s) \<Rightarrow>
         Inr \<lparr>tr_rules_version = version, tr_input_checksum = checksum,
              tr_business_priority = bu_priority b, tr_target_pages = bu_target_pages b,
              tr_action_order = se_chosen s,
              tr_candidates = apply_changes (se_changes s) (graded version inputs findings b),
              tr_limitations = [PRIORITY_LIMIT], tr_candidate_order = None\<rparr>)"
  using assms unfolding graded_def
  by (simp add: priority_request_def prioritize_base_def grade_all_gradable)

lemma prioritize_base_request:
  assumes "prioritize_base version inputs findings b checksum = Inr t"
  shows "priority_request version inputs findings" "version \<noteq> VERSION3"
  using assms
  by (auto simp: prioritize_base_def priority_request_def dest!: grade_all_Inr
      split: if_splits sum.splits)

text \<open>The order in which the inputs are listed does not matter.\<close>

lemma prioritize_base_perm:
  assumes "mset inputs' = mset inputs"
  shows "prioritize_base version inputs' findings b checksum = prioritize_base version inputs findings b checksum"
proof -
  have "mset (map cd_action_id inputs') = mset (map cd_action_id inputs)" using assms by simp
  then have d: "distinct (map cd_action_id inputs') = distinct (map cd_action_id inputs)"
    by (rule mset_eq_imp_distinct_iff)
  have ids: "set (map cd_action_id inputs') = set (map cd_action_id inputs)"
    using mset_eq_setD [OF assms] by simp
  show ?thesis
  proof (cases "distinct (map cd_action_id inputs')")
    case True
    show ?thesis
      unfolding prioritize_base_def d sort_inputs [OF assms True] grade_all_cong [OF ids] ..
  qed (simp add: prioritize_base_def d [symmetric])
qed

text \<open>The draw of the first two versions.\<close>

lemma prioritize_base_draw:
  assumes "prioritize_base version inputs findings b checksum = Inr t"
  obtains drawn where "mset drawn = mset (graded version inputs findings b)"
    "greedy (precedence (limited_capacity version b)) [] drawn"
    "tr_action_order t = map en_id (take 3 drawn)"
    "tr_candidates t =
       apply_changes (se_changes (fold select_first drawn \<lparr>se_chosen = [], se_changes = []\<rparr>))
         (graded version inputs findings b)"
    "tr_candidate_order t = None"
proof -
  obtain order s where d: "draw ''cyclic priority dependencies'' (precedence (limited_capacity version b))
        select_first (graded version inputs findings b) [] \<lparr>se_chosen = [], se_changes = []\<rparr> = Inr (order, s)"
    and t: "tr_action_order t = se_chosen s" "tr_candidate_order t = None"
      "tr_candidates t = apply_changes (se_changes s) (graded version inputs findings b)"
    using assms prioritize_base_graded [OF prioritize_base_request [OF assms]]
    by (auto split: sum.splits)
  from draw_sound [OF d] obtain drawn where drawn:
      "mset drawn = mset (graded version inputs findings b)"
      "greedy (precedence (limited_capacity version b)) [] drawn"
      "s = fold select_first drawn \<lparr>se_chosen = [], se_changes = []\<rparr>" by auto
  show thesis by (rule that [OF drawn(1,2)]) (simp_all add: t drawn(3) fold_select_first)
qed

subsection \<open>When the rankers return\<close>

lemma prioritize_base_iff:
  assumes "priority_request version inputs findings" "version \<noteq> VERSION3"
  shows "(\<exists>t. prioritize_base version inputs findings b checksum = Inr t) \<longleftrightarrow> acyclic (candidate_graph inputs)"
    and "\<not> acyclic (candidate_graph inputs) \<Longrightarrow>
      prioritize_base version inputs findings b checksum = Inl (ValueError ''cyclic priority dependencies'')"
proof -
  let ?d = "draw ''cyclic priority dependencies'' (precedence (limited_capacity version b))
            select_first (graded version inputs findings b) [] \<lparr>se_chosen = [], se_changes = []\<rparr>"
  have iff: "(\<exists>r. ?d = Inr r) \<longleftrightarrow> acyclic (candidate_graph inputs)"
    by (rule draw_iff_acyclic [OF graded_closed(1,2) [OF assms(1)], unfolded graded_closed(3) [OF assms(1)]])
  show "(\<exists>t. prioritize_base version inputs findings b checksum = Inr t) \<longleftrightarrow> acyclic (candidate_graph inputs)"
    unfolding prioritize_base_graded [OF assms] iff [symmetric] by (auto split: sum.splits)
  show "\<not> acyclic (candidate_graph inputs) \<Longrightarrow>
      prioritize_base version inputs findings b checksum = Inl (ValueError ''cyclic priority dependencies'')"
    unfolding prioritize_base_graded [OF assms] iff [symmetric]
    by (cases ?d) (auto dest: draw_Inl)
qed

text \<open>What the first draw changes in an entry, qualifying undoes.\<close>

definition undone :: "selection \<Rightarrow> bool" where
  "undone s \<longleftrightarrow> (\<forall>(i, n, codes) \<in> set (se_changes s). codes \<in> {[], [''outside_delivery_budget'']})"

lemma undone_fold: "undone s \<Longrightarrow> undone (fold select_first es s)"
proof (induction es arbitrary: s)
  case (Cons e es)
  have "undone (select_first e s)" using Cons.prems by (auto simp: undone_def select_first_def)
  then show ?case using Cons.IH by simp
qed simp

lemma qualify_changes:
  assumes "undone s"
  shows "map (qualify fs) (apply_changes (se_changes s) es) = map (qualify fs) es"
proof -
  have "qualify fs (case map_of (se_changes s) (en_id e) of None \<Rightarrow> e
      | Some (order, codes) \<Rightarrow>
          e\<lparr>en_selected_order := (case order of None \<Rightarrow> en_selected_order e | Some n \<Rightarrow> Some n),
            en_reason_codes := en_reason_codes e @ codes\<rparr>) = qualify fs e" for e
    using assms by (auto simp: undone_def qualify_def Let_def split: option.splits dest!: map_of_SomeD)
  then show ?thesis by (simp add: apply_changes_def)
qed

lemma prioritize_candidates_base:
  assumes "prioritize_base VERSION2 inputs (map mask_unqualified findings) b checksum = Inr base"
  shows "map (qualify findings) (tr_candidates base) = graded_visible inputs findings b"
proof -
  from prioritize_base_draw [OF assms] obtain drawn where
    c: "tr_candidates base =
       apply_changes (se_changes (fold select_first drawn \<lparr>se_chosen = [], se_changes = []\<rparr>))
         (graded VERSION2 inputs (map mask_unqualified findings) b)" by blast
  show ?thesis
    unfolding c graded_visible_def by (rule qualify_changes, rule undone_fold) (simp add: undone_def)
qed

lemma graded_visible_closed:
  assumes "priority_request version inputs findings"
  shows "distinct (map en_id (graded_visible inputs fs b))"
    and "\<forall>e \<in> set (graded_visible inputs fs b). set (en_dependencies e) \<subseteq> entry_ids (graded_visible inputs fs b)"
    and "entry_graph (graded_visible inputs fs b) = candidate_graph inputs"
proof -
  have q: "en_id (qualify fs e) = en_id e" "en_dependencies (qualify fs e) = en_dependencies e" for e
    by (simp_all add: qualify_def Let_def en_id_def en_dependencies_def)
  note g = graded_closed [OF assms, of VERSION2 "map mask_unqualified fs" b]
  note same = same_entries_ids [OF same_entries_qualify [of fs "graded VERSION2 inputs (map mask_unqualified fs) b"]]
  show "distinct (map en_id (graded_visible inputs fs b))" unfolding graded_visible_def same by (rule g(1))
  show "entry_graph (graded_visible inputs fs b) = candidate_graph inputs"
    unfolding graded_visible_def same by (rule g(3))
  show "\<forall>e \<in> set (graded_visible inputs fs b). set (en_dependencies e) \<subseteq> entry_ids (graded_visible inputs fs b)"
    using g(2) by (simp add: graded_visible_def q entry_ids_def image_image)
qed

lemma masked_request:
  "priority_request VERSION3 inputs findings \<Longrightarrow>
   priority_request VERSION2 inputs (map mask_unqualified findings)"
  by (simp add: priority_request_def)

lemma prioritize_candidates_iff:
  assumes "priority_request VERSION3 inputs findings"
  shows "(\<exists>t. prioritize_candidates inputs findings b checksum = Inr t) \<longleftrightarrow> acyclic (candidate_graph inputs)"
    and "\<not> acyclic (candidate_graph inputs) \<Longrightarrow>
      prioritize_candidates inputs findings b checksum = Inl (ValueError ''cyclic priority dependencies'')"
proof -
  note base = prioritize_base_iff [OF masked_request [OF assms], of b checksum]
  let ?d = "draw ''cyclic candidate dependencies''
      (visible_precedence (xc_capacity (conditions_of b) = ''limited''))
      select_visible (graded_visible inputs findings b) [] \<lparr>se_chosen = [], se_changes = []\<rparr>"
  show cyc: "\<not> acyclic (candidate_graph inputs) \<Longrightarrow>
      prioritize_candidates inputs findings b checksum = Inl (ValueError ''cyclic priority dependencies'')"
    using base(2) by (simp add: prioritize_candidates_def)
  show "(\<exists>t. prioritize_candidates inputs findings b checksum = Inr t) \<longleftrightarrow> acyclic (candidate_graph inputs)"
  proof
    assume a: "acyclic (candidate_graph inputs)"
    then obtain t where t: "prioritize_base VERSION2 inputs (map mask_unqualified findings) b checksum = Inr t"
      using base(1) by auto
    have "\<exists>r. ?d = Inr r"
      by (rule draw_iff_acyclic [OF graded_visible_closed(1,2) [OF assms],
            unfolded graded_visible_closed(3) [OF assms], THEN iffD2, OF a])
    then show "\<exists>t. prioritize_candidates inputs findings b checksum = Inr t"
      by (auto simp: prioritize_candidates_def t Let_def prioritize_candidates_base [OF t] split: sum.splits)
  next
    assume "\<exists>t. prioritize_candidates inputs findings b checksum = Inr t"
    then show "acyclic (candidate_graph inputs)" by (rule contrapos_pp) (simp add: cyc)
  qed
qed

subsection \<open>A concrete request\<close>

definition ex_finding :: "string \<Rightarrow> string \<Rightarrow> level \<Rightarrow> finding" where
  "ex_finding i rule severity =
     \<lparr>fi_id = i, fi_rule_id = rule, fi_classification = ''fact'', fi_severity = severity,
      fi_confidence = Medium, fi_interpretation = ''supported'', fi_impact_path = ''path'',
      fi_comparison_scope = ''scope'', fi_observed_fact = ''fact'', fi_judgment = ''judgment'',
      fi_kind = Some ''fact'', fi_status = Some ''confirmed'', fi_evidence_ids = [''e1'']\<rparr>"

definition ex_findings :: "finding list" where
  "ex_findings = [ex_finding ''f1'' RULE_HTTP Medium, ex_finding ''f2'' ''v22_public.site_duplicate_title'' Low,
     ex_finding ''f3'' ''v22_public.site_duplicate_title'' High]"

definition ex_candidate :: "string \<Rightarrow> string \<Rightarrow> string list \<Rightarrow> candidate" where
  "ex_candidate i f deps =
     \<lparr>cd_action_id = i, cd_target = ''https://acme.test/a'', cd_finding_ids = [f], cd_dependencies = deps,
      cd_material_kinds = [''technical_check''], cd_readiness = [''instructions'']\<rparr>"

definition ex_business :: business where
  "ex_business = \<lparr>bu_site_url = ''https://acme.test'', bu_target_pages = [], bu_priority = None,
     bu_execution_conditions = None\<rparr>"

text \<open>Independent work, work after a repair, and a repair after other work.\<close>

definition ex_inputs :: "string list \<Rightarrow> string list \<Rightarrow> candidate list" where
  "ex_inputs repair_deps title_deps =
     [ex_candidate ''a'' ''f2'' title_deps, ex_candidate ''b'' ''f1'' repair_deps, ex_candidate ''c'' ''f3'' []]"

definition ex_trace :: "string \<Rightarrow> string list \<Rightarrow> string list \<Rightarrow> trace" where
  "ex_trace version repair_deps title_deps =
     projr (prioritize version (ex_inputs repair_deps title_deps) ex_findings ex_business ''checksum'')"

definition ex_run :: "string \<Rightarrow> string list \<Rightarrow> string list \<Rightarrow> exn + trace" where
  "ex_run version repair_deps title_deps =
     prioritize version (ex_inputs repair_deps title_deps) ex_findings ex_business ''checksum''"

text \<open>What the runs give, each run evaluated once.\<close>

lemma ex_outcome_v2_repair:
  "case ex_run VERSION2 [] [''b''] of Inl _ \<Rightarrow> False | Inr t \<Rightarrow> tr_action_order t = [''b'', ''c'', ''a'']"
  by code_simp

lemma ex_outcome_v2_free:
  "case ex_run VERSION2 [] [] of Inl _ \<Rightarrow> False | Inr t \<Rightarrow> tr_action_order t = [''b'', ''c'', ''a'']"
  by code_simp

lemma ex_outcome_v3_repair:
  "case ex_run VERSION3 [] [''b''] of Inl _ \<Rightarrow> False
    | Inr t \<Rightarrow> tr_candidate_order t = Some [''b'', ''c'', ''a'']"
  by code_simp

lemma ex_outcome_v2_late:
  "case ex_run VERSION2 [''a''] [] of Inl _ \<Rightarrow> False
    | Inr t \<Rightarrow> tr_action_order t = [''c'', ''a'', ''b'']
        \<and> valid_delivery_order [''c'', ''a'', ''b''] t = Inr False
        \<and> (case find (\<lambda>x. en_id x = ''b'') (rev (tr_candidates t)) of None \<Rightarrow> False
           | Some e \<Rightarrow> en_dependencies e = [''a''] \<and> en_prerequisite e = Access_indexing)
        \<and> (case find (\<lambda>x. en_id x = ''a'') (rev (tr_candidates t)) of None \<Rightarrow> False
           | Some f \<Rightarrow> en_prerequisite f = No_prerequisite)"
  by code_simp

lemmas ex_outcomes = ex_outcome_v2_repair ex_outcome_v2_free ex_outcome_v3_repair ex_outcome_v2_late

lemma ex_traces:
  "prioritize VERSION2 (ex_inputs [] [''b'']) ex_findings ex_business ''checksum'' = Inr (ex_trace VERSION2 [] [''b''])"
  "prioritize VERSION2 (ex_inputs [''a''] []) ex_findings ex_business ''checksum'' = Inr (ex_trace VERSION2 [''a''] [])"
  "prioritize VERSION2 (ex_inputs [] []) ex_findings ex_business ''checksum'' = Inr (ex_trace VERSION2 [] [])"
  "prioritize VERSION3 (ex_inputs [] [''b'']) ex_findings ex_business ''checksum'' = Inr (ex_trace VERSION3 [] [''b''])"
  using ex_outcomes by (auto simp: ex_run_def ex_trace_def split: sum.splits)

lemmas ex_orders = ex_outcomes [unfolded ex_run_def ex_traces sum.case]

subsection \<open>Properties\<close>

text \<open>
  (C7) Ordering ends, and fails only on cycles: a request with distinct candidates whose
  inputs are canonical and whose references exist gets a trace exactly when the
  dependencies are acyclic, and the error about cycles otherwise, under every version; the
  second draw of the third version never fails.
\<close>

theorem prioritize_returns_iff_acyclic:
  assumes "priority_request version inputs findings"
  shows "((\<exists>t. prioritize version inputs findings b checksum = Inr t) \<longleftrightarrow> acyclic (candidate_graph inputs))
    \<and> (\<not> acyclic (candidate_graph inputs) \<longrightarrow>
        prioritize version inputs findings b checksum = Inl (ValueError ''cyclic priority dependencies''))"
proof (cases "version = VERSION3")
  case True
  then show ?thesis
    using prioritize_candidates_iff [of inputs findings b checksum] assms by (simp add: prioritize_def)
next
  case False
  then show ?thesis
    using prioritize_base_iff [OF assms False, of b checksum] by (simp add: prioritize_def)
qed

theorem prioritize_returns_iff_acyclic_witness:
  "\<not> acyclic (candidate_graph (ex_inputs [''a''] [''b''])) \<and> acyclic (candidate_graph (ex_inputs [] [''b'']))"
proof -
  have "priority_request VERSION2 (ex_inputs [''a''] [''b'']) ex_findings"
    "priority_request VERSION2 (ex_inputs [] [''b'']) ex_findings" by code_simp+
  note returns = this [THEN prioritize_returns_iff_acyclic [where b = ex_business and checksum = "''checksum''"]]
  have "isl (prioritize VERSION2 (ex_inputs [''a''] [''b'']) ex_findings ex_business ''checksum'')"
    by code_simp
  then show ?thesis using returns ex_traces(1) by (auto simp: isl_def)
qed

text \<open>
  (C13) The order of the first two versions: every graded candidate is drawn once, after its
  dependencies and before every available candidate of higher key, and the delivered
  actions are the first three.
\<close>

theorem prioritize_order:
  assumes "prioritize version inputs findings b checksum = Inr t" "version \<noteq> VERSION3"
  shows "\<exists>drawn. mset drawn = mset (map (grade version findings b) inputs)
    \<and> greedy (precedence (limited_capacity version b)) [] drawn
    \<and> tr_action_order t = map en_id (take 3 drawn)"
proof -
  have "prioritize_base version inputs findings b checksum = Inr t"
    using assms by (simp add: prioritize_def)
  from prioritize_base_draw [OF this] show ?thesis
    by (metis graded_def mset_map mset_sort)
qed

theorem prioritize_order_witness:
  "tr_action_order (ex_trace VERSION2 [] [''b'']) = [''b'', ''c'', ''a'']
   \<and> (\<exists>drawn. greedy (precedence (limited_capacity VERSION2 ex_business)) [] drawn
        \<and> map en_id (take 3 drawn) = [''b'', ''c'', ''a''])"
proof -
  note ex_orders(1)
  moreover obtain drawn where "greedy (precedence (limited_capacity VERSION2 ex_business)) [] drawn"
      "tr_action_order (ex_trace VERSION2 [] [''b'']) = map en_id (take 3 drawn)"
    using prioritize_order [OF ex_traces(1) versions_distinct(3)] by blast
  ultimately show ?thesis by metis
qed

text \<open>The draw of the third version.\<close>

lemma prioritize_visible_draw:
  assumes "prioritize VERSION3 inputs findings b checksum = Inr t"
  obtains drawn us where "mset drawn = mset (graded_visible inputs findings b)"
    "greedy (visible_precedence (xc_capacity (conditions_of b) = ''limited'')) [] drawn"
    "tr_candidate_order t = Some (map en_id drawn)"
    "tr_action_order t = map en_id us" "length us \<le> 3" "subseq us drawn" "list_all visible us"
    "\<forall>i < length us. set (en_dependencies (us ! i)) \<subseteq> entry_ids (take i us)"
proof -
  obtain base drawn s where
      base: "prioritize_base VERSION2 inputs (map mask_unqualified findings) b checksum = Inr base"
    and d: "draw ''cyclic candidate dependencies''
        (visible_precedence (xc_capacity (conditions_of b) = ''limited''))
        select_visible (map (qualify findings) (tr_candidates base)) []
        \<lparr>se_chosen = [], se_changes = []\<rparr> = Inr (drawn, s)"
    and t: "tr_candidate_order t = Some (map en_id drawn)" "tr_action_order t = se_chosen s"
    using assms by (auto simp: prioritize_def prioritize_candidates_def Let_def split: sum.splits)
  from draw_sound [OF d] have dr: "mset drawn = mset (graded_visible inputs findings b)"
      "greedy (visible_precedence (xc_capacity (conditions_of b) = ''limited'')) [] drawn"
      "s = fold select_visible drawn \<lparr>se_chosen = [], se_changes = []\<rparr>"
    by (auto simp: prioritize_candidates_base [OF base])
  then have "chosen_ok drawn s" using fold_select_visible by simp
  then obtain us where "length us \<le> 3" "subseq us drawn" "se_chosen s = map en_id us" "list_all visible us"
      "\<forall>i < length us. set (en_dependencies (us ! i)) \<subseteq> entry_ids (take i us)"
    by (auto simp: chosen_ok_def)
  with dr t show thesis by (intro that [of drawn us]) simp_all
qed

text \<open>
  (C14) The order of the third version: the whole pool is ordered the same way with the
  candidates of a visible basis first, and the delivered actions are at most three visible
  candidates in that order whose dependencies are delivered before them.
\<close>

theorem prioritize_visible_order:
  assumes "prioritize VERSION3 inputs findings b checksum = Inr t"
  shows "\<exists>drawn us. mset drawn = mset (graded_visible inputs findings b)
    \<and> greedy (visible_precedence (xc_capacity (conditions_of b) = ''limited'')) [] drawn
    \<and> tr_candidate_order t = Some (map en_id drawn)
    \<and> tr_action_order t = map en_id us \<and> length us \<le> 3 \<and> subseq us drawn \<and> list_all visible us
    \<and> (\<forall>i < length us. set (en_dependencies (us ! i)) \<subseteq> entry_ids (take i us))"
  using prioritize_visible_draw [OF assms] by metis

theorem prioritize_visible_order_witness:
  "\<exists>drawn. tr_candidate_order (ex_trace VERSION3 [] [''b'']) = Some (map en_id drawn)
     \<and> map en_id drawn = [''b'', ''c'', ''a'']"
proof -
  note ex_orders(3)
  moreover obtain drawn where "tr_candidate_order (ex_trace VERSION3 [] [''b'']) = Some (map en_id drawn)"
    using prioritize_visible_order [OF ex_traces(4)] by blast
  ultimately show ?thesis by (metis option.inject)
qed

text \<open>
  Without dependencies ordering is sorting: the delivered actions are the first three
  candidates by the key, whose last component is the action's identity.
\<close>

theorem prioritize_sorts:
  assumes "prioritize version inputs findings b checksum = Inr t" "version \<noteq> VERSION3"
    and "list_all (\<lambda>c. cd_dependencies c = []) inputs"
  shows "tr_action_order t =
    map en_id (take 3 (sort_key (precedence (limited_capacity version b))
       (map (grade version findings b) inputs)))"
proof -
  let ?key = "precedence (limited_capacity version b)"
  let ?es = "map (grade version findings b) inputs"
  have base: "prioritize_base version inputs findings b checksum = Inr t"
    using assms(1,2) by (simp add: prioritize_def)
  obtain drawn where d: "mset drawn = mset ?es" "greedy ?key [] drawn"
      "tr_action_order t = map en_id (take 3 drawn)"
    using prioritize_base_draw [OF base] by (metis graded_def mset_map mset_sort)
  have deps: "\<forall>e \<in> set drawn. set (en_dependencies e) \<subseteq> entry_ids []"
    using mset_eq_setD [OF d(1)] assms(3) by (auto simp: list_all_iff)
  have "distinct (map cd_action_id inputs)"
    using prioritize_base_request(1) [OF base] by (auto simp: priority_request_def)
  then have "inj_on ?key (set ?es)"
    by (auto simp: inj_on_def precedence_def distinct_map) 
  then have "sort_key ?key ?es = drawn"
    by (intro sort_key_inj_key_eq) (use d(1) greedy_sorted [OF d(2) deps] in simp_all)
  then show ?thesis using d(3) by simp
qed

text \<open>
  (C15) A trace replays: ordering the inputs recorded in a trace again, enumerated in any
  order, with the same findings, business and version gives the same trace.
\<close>

theorem prioritize_replays:
  assumes "prioritize version inputs findings b checksum = Inr t"
    and "mset inputs' = mset (map en_input (tr_candidates t))"
  shows "prioritize version inputs' findings b checksum = Inr t"
proof -
  have inputs: "mset inputs' = mset inputs"
    if "prioritize_base v inputs fs b checksum = Inr u" "map en_input (tr_candidates t) = map en_input (tr_candidates u)"
    for v fs u
    using assms(2) that(2) prioritize_base_draw [OF that(1)] graded_ids(2)
    by (metis mset_sort same_entries_apply same_entries_inputs)
  show ?thesis
  proof (cases "version = VERSION3")
    case False
    then have b: "prioritize_base version inputs findings b checksum = Inr t"
      using assms(1) by (simp add: prioritize_def)
    then show ?thesis
      using False prioritize_base_perm [OF inputs [OF b refl]] by (simp add: prioritize_def)
  next
    case True
    then obtain base r where
        base: "prioritize_base VERSION2 inputs (map mask_unqualified findings) b checksum = Inr base"
      and "draw ''cyclic candidate dependencies''
        (visible_precedence (xc_capacity (conditions_of b) = ''limited''))
        select_visible (map (qualify findings) (tr_candidates base)) []
        \<lparr>se_chosen = [], se_changes = []\<rparr> = Inr r"
      and t: "tr_candidates t =
        apply_changes (se_changes (snd r)) (map (qualify findings) (tr_candidates base))"
      using assms(1) by (auto simp: prioritize_def prioritize_candidates_def Let_def split: sum.splits)
    have "same_entries (tr_candidates t) (tr_candidates base)"
      unfolding t by (rule same_entries_trans [OF same_entries_apply same_entries_qualify])
    from prioritize_base_perm [OF inputs [OF base same_entries_inputs [OF this]]]
    show ?thesis using assms(1) True by (simp add: prioritize_def prioritize_candidates_def)
  qed
qed

theorem prioritize_replays_witness:
  "prioritize VERSION2 (rev (map en_input (tr_candidates (ex_trace VERSION2 [] [''b''])))) ex_findings
     ex_business ''checksum'' = Inr (ex_trace VERSION2 [] [''b''])"
  by (rule prioritize_replays [OF ex_traces(1)]) simp

text \<open>
  (C37) The report's own order as a delivery: the check of a delivery accepts the order that
  ranking chose exactly when its layers (access and indexing, measurement, other work) never
  go down.
\<close>

theorem own_order_delivery:
  assumes "prioritize version inputs findings b checksum = Inr t" "version \<noteq> VERSION3"
  shows "\<exists>us. tr_action_order t = map en_id us \<and> set us \<subseteq> set (map (grade version findings b) inputs)
    \<and> valid_delivery_order (tr_action_order t) t = Inr (sorted (entry_layers us))"
proof -
  have base: "prioritize_base version inputs findings b checksum = Inr t"
    using assms by (simp add: prioritize_def)
  from prioritize_base_draw [OF base] obtain drawn where
    d: "mset drawn = mset (graded version inputs findings b)"
      "greedy (precedence (limited_capacity version b)) [] drawn"
      "tr_action_order t = map en_id (take 3 drawn)"
      "same_entries (tr_candidates t) (graded version inputs findings b)"
    by (metis same_entries_apply)
  let ?us = "take 3 drawn"
  note ids = graded_closed(1) [OF prioritize_base_request(1) [OF base]]
  have "mset (map en_id drawn) = mset (map en_id (graded version inputs findings b))" using d(1) by simp
  then have dist: "distinct (map en_id drawn)" using ids by (metis mset_eq_imp_distinct_iff)
  have top: "\<forall>i < length ?us. set (en_dependencies (?us ! i)) \<subseteq> set [] \<union> entry_ids (take i ?us)"
    using greedy_topological [OF d(2)] by (auto simp: min_def)
  have us: "set ?us \<subseteq> set (graded version inputs findings b)"
    using mset_eq_setD [OF d(1)] set_take_subset by fastforce
  have "delivery_layers (tr_candidates t) [] (map en_id ?us) (- 1) = Inr (sorted (- 1 # entry_layers ?us))"
    by (rule delivery_layers_own [OF d(4) ids us top])
  moreover have "sorted (- 1 # entry_layers ?us) = sorted (entry_layers ?us)"
    by (auto simp: entry_layers_def)
  moreover have "distinct (map en_id ?us)" using dist by (simp add: take_map [symmetric])
  ultimately have "valid_delivery_order (tr_action_order t) t = Inr (sorted (entry_layers ?us))"
    by (simp add: valid_delivery_order_def d(3))
  then show ?thesis using d(3) us by (intro exI [of _ ?us]) (simp add: graded_def)
qed

theorem own_order_delivery_witness:
  "(\<exists>us. map en_id us = [''c'', ''a'', ''b''] \<and> \<not> sorted (entry_layers us))
   \<and> valid_delivery_order [''c'', ''a'', ''b''] (ex_trace VERSION2 [''a''] []) = Inr False"
proof -
  note ex_orders(4)
  moreover obtain us where "tr_action_order (ex_trace VERSION2 [''a''] []) = map en_id us"
      "valid_delivery_order (tr_action_order (ex_trace VERSION2 [''a''] [])) (ex_trace VERSION2 [''a''] [])
        = Inr (sorted (entry_layers us))"
    using own_order_delivery [OF ex_traces(2) versions_distinct(3)] by blast
  ultimately show ?thesis by (metis sum.inject(2))
qed

text \<open>A delivered action that depends on a delivered one of a later layer has no accepted order.\<close>

lemma crossing_has_no_delivery:
  assumes "k \<in> set (tr_action_order t)"
    and "find (\<lambda>x. en_id x = k) (rev (tr_candidates t)) = Some e"
    and "d \<in> set (en_dependencies e)" "find (\<lambda>x. en_id x = d) (rev (tr_candidates t)) = Some f"
    and "layer (en_prerequisite e) < layer (en_prerequisite f)"
  shows "valid_delivery_order ids t \<noteq> Inr True"
proof
  assume v: "valid_delivery_order ids t = Inr True"
  then have "delivery_layers (tr_candidates t) [] ids (- 1) = Inr True" "k \<in> set ids"
    using assms(1) by (auto simp: valid_delivery_order_def split: if_splits)
  from delivery_layers_dependency [OF this assms(2-4)] assms(5) show False by simp
qed

lemma ex_crossing: "valid_delivery_order ids (ex_trace VERSION2 [''a''] []) \<noteq> Inr True"
proof -
  let ?t = "ex_trace VERSION2 [''a''] []"
  from ex_orders(4) obtain e f where
    "''b'' \<in> set (tr_action_order ?t)" "find (\<lambda>x. en_id x = ''b'') (rev (tr_candidates ?t)) = Some e"
    "''a'' \<in> set (en_dependencies e)" "find (\<lambda>x. en_id x = ''a'') (rev (tr_candidates ?t)) = Some f"
    "layer (en_prerequisite e) < layer (en_prerequisite f)"
    by (auto split: option.splits)
  then show ?thesis by (rule crossing_has_no_delivery)
qed

text \<open>The selection of the third version passes the dependency check of a delivery.\<close>

lemma own_selection_dependencies:
  assumes "prioritize VERSION3 (map candidate_input actions) findings b checksum = Inr t"
  shows "valid_dependencies [] (tr_action_order t) (candidate_pool actions)"
proof -
  let ?inputs = "map candidate_input actions"
  obtain drawn us where
    d: "mset drawn = mset (graded_visible ?inputs findings b)" "tr_action_order t = map en_id us"
      "subseq us drawn" "\<forall>i < length us. set (en_dependencies (us ! i)) \<subseteq> set [] \<union> entry_ids (take i us)"
    using prioritize_visible_draw [OF assms] by (metis list.set(1) sup_bot_left)
  obtain base where "prioritize_base VERSION2 ?inputs (map mask_unqualified findings) b checksum = Inr base"
    using assms by (auto simp: prioritize_def prioritize_candidates_def split: sum.splits)
  note req = prioritize_base_request(1) [OF this]
  have "mset (map en_id drawn) = mset (map en_id (graded_visible ?inputs findings b))" using d(1) by simp
  then have "distinct (map en_id drawn)" using graded_visible_closed(1) [OF req] by (metis mset_eq_imp_distinct_iff)
  then have dist: "distinct (map en_id us)" using subseq_facts [OF d(3)] by blast
  have ids: "distinct (map ra_id actions)"
    using req by (simp add: priority_request_def candidate_input_def comp_def)
  have pool: "\<exists>ds. map_of (candidate_pool actions) (en_id e) = Some ds \<and> set ds = set (en_dependencies e)"
    if "e \<in> set us" for e
  proof -
    have "set us \<subseteq> set (graded_visible ?inputs findings b)"
      using subseq_facts [OF d(3), of en_id] mset_eq_setD [OF d(1)] by simp
    then obtain a where a: "a \<in> set actions" "en_input e = candidate_input a"
      using \<open>e \<in> set us\<close> by (auto simp: graded_visible_def graded_def qualify_def Let_def)
    have "distinct (map fst (candidate_pool actions))"
      using ids by (simp add: candidate_pool_def comp_def rev_map [symmetric])
    moreover have "(ra_id a, ra_dependencies a) \<in> set (candidate_pool actions)"
      using a(1) by (simp add: candidate_pool_def)
    ultimately have "map_of (candidate_pool actions) (ra_id a) = Some (ra_dependencies a)" by simp
    then show ?thesis using a(2) by (simp add: en_id_def en_dependencies_def candidate_input_def)
  qed
  show ?thesis unfolding d(2) by (rule valid_dependencies_own) (use pool dist d(4) in auto)
qed

text \<open>A report delivers the actions of its trace, in its order.\<close>

lemma select_actions_ids:
  "select_actions actions ks = Inr selected \<Longrightarrow> map ra_id selected = ks \<and> set selected \<subseteq> set actions"
proof (induction ks arbitrary: selected)
  case (Cons k ks)
  have f: "find P xs = Some a \<Longrightarrow> P a \<and> a \<in> set xs" for P and xs :: "report_action list" and a
    by (auto simp: find_Some_iff)
  show ?case
    using Cons by (auto split: option.splits sum.splits dest!: f)
qed simp

lemma apply_priority_delivers:
  assumes "apply_priority m raw = Inr raw'"
  obtains t where "rr_prioritization raw' = Some t" "map ra_id (rr_actions raw') = tr_action_order t"
    "set (rr_actions raw') \<subseteq> set (rr_actions raw)"
    "prioritize (rules_version_of (mf_ruleset_version m)) (map candidate_input (rr_actions raw))
       (rr_findings raw) (mf_business m) (mf_input_checksum m) = Inr t"
  using assms that by (auto simp: apply_priority_def split: sum.splits dest!: select_actions_ids)

end
