(* ===== verification/Store_Types.thy ===== *)
theory Store_Types
  imports Example_Jobs
begin

text \<open>
  What the operations of the store return is a valid state, and it is what the store holds
  afterwards.
\<close>

context job_runtime
begin

lemma get_state_after_write:
  assumes "rget R s (state_key (env_prefix E) j) = Some (VState st)" "valid_state st"
  shows "get_state E R s j = Inr (Some st)"
  using assms by (simp add: get_state_def valid_state_def)

lemma transition_reads_back:
  assumes "snd (transition E R j a s) = Inr r"
  shows "valid_state (tr_state r) \<and> get_state E R (fst (transition E R j a s)) j = Inr (Some (tr_state r))"
proof (rule transition_elim [of j a s])
  assume "fst (transition E R j a s) = s"
    and "\<And>r. snd (transition E R j a s) = Inr r \<Longrightarrow>
        \<not> tr_applied r \<and> get_state E R s j = Inr (Some (tr_state r)) \<and> terminal (tr_state r)"
  then show ?thesis using assms by (auto dest: get_state_valid)
next
  fix current nxt
  assume "validate_job_state (next_state a current) = Inr nxt"
    "snd (transition E R j a s) = Inr \<lparr>tr_state = nxt, tr_applied = True\<rparr>"
    "rget R (fst (transition E R j a s)) = (rget R s)(state_key (env_prefix E) j \<mapsto> VState nxt)"
  then show ?thesis
    using assms validate_job_state_Inr(1) by (auto intro!: get_state_after_write)
qed

lemma take_over_reads_back:
  assumes "snd (take_over_stale E R j g now s) = Inr r"
  shows "valid_state (tr_state r)
    \<and> get_state E R (fst (take_over_stale E R j g now s)) j = Inr (Some (tr_state r))"
proof (rule take_over_elim [of j g now s])
  assume "fst (take_over_stale E R j g now s) = s"
    and "\<And>r. snd (take_over_stale E R j g now s) = Inr r \<Longrightarrow>
        \<not> tr_applied r \<and> get_state E R s j = Inr (Some (tr_state r))"
  then show ?thesis using assms by (auto dest: get_state_valid)
next
  fix current nxt
  assume "validate_job_state (takeover_state now current) = Inr nxt"
    "snd (take_over_stale E R j g now s) = Inr \<lparr>tr_state = nxt, tr_applied = True\<rparr>"
    "rget R (fst (take_over_stale E R j g now s)) =
        (rget R s)(state_key (env_prefix E) j \<mapsto> VState nxt, lease_key (env_prefix E) j := None)"
  then show ?thesis
    using assms validate_job_state_Inr(1) by (auto intro!: get_state_after_write)
qed

lemma retry_reads_back:
  assumes "snd (retry_failed E R j now s) = Inr st"
  shows "valid_state st \<and> get_state E R (fst (retry_failed E R j now s)) j = Inr (Some st)"
proof (rule retry_failed_elim [of j now s])
  fix current er nxt
  assume "validate_job_state (retry_state now current) = Inr nxt"
    "snd (retry_failed E R j now s) = Inr nxt"
    "rget R (fst (retry_failed E R j now s)) = (rget R s)(state_key (env_prefix E) j \<mapsto> VState nxt)"
  then show ?thesis
    using assms validate_job_state_Inr(1) by (auto intro!: get_state_after_write)
qed (use assms in auto)

lemma register_reads_back:
  assumes "snd (register_job E R a s) = Inr r"
  shows "valid_state (rr_state r)
    \<and> get_state E R (fst (register_job E R a s)) (ra_job_id a) = Inr (Some (rr_state r))"
proof (rule register_elim [of a s])
  assume "fst (register_job E R a s) = s"
    and "\<And>r. snd (register_job E R a s) = Inr r \<Longrightarrow>
        rr_replayed r \<and> get_state E R s (ra_job_id a) = Inr (Some (rr_state r))"
  then show ?thesis using assms by (auto dest: get_state_valid)
next
  fix initial
  assume v: "validate_job_state (initial_state E a) = Inr initial"
    and r: "snd (register_job E R a s) = Inr \<lparr>rr_state = initial, rr_replayed = False\<rparr>"
    and kv: "rget R (fst (register_job E R a s)) = fold cmd_kv (register_commands E a initial) (rget R s)"
  have "rget R (fst (register_job E R a s)) (state_key (env_prefix E) (ra_job_id a)) = Some (VState initial)"
    by (auto simp: kv register_commands_def Let_def)
  then show ?thesis
    using assms r validate_job_state_Inr(1) [OF v] by (auto intro!: get_state_after_write)
qed

end

text \<open>
  (C32) Results are typed and stored: whenever a registration, a transition, a take-over or a
  manual retry returns a state, applied or replayed, that state is valid and reading the job
  back from the store right afterwards gives exactly it.
\<close>

theorem returned_states_read_back:
  assumes "job_runtime R E"
  shows "(\<forall>r. snd (register_job E R a s) = Inr r \<longrightarrow> valid_state (rr_state r)
      \<and> get_state E R (fst (register_job E R a s)) (ra_job_id a) = Inr (Some (rr_state r)))
    \<and> (\<forall>r. snd (transition E R j ta s) = Inr r \<longrightarrow> valid_state (tr_state r)
      \<and> get_state E R (fst (transition E R j ta s)) j = Inr (Some (tr_state r)))
    \<and> (\<forall>r. snd (take_over_stale E R j g now s) = Inr r \<longrightarrow> valid_state (tr_state r)
      \<and> get_state E R (fst (take_over_stale E R j g now s)) j = Inr (Some (tr_state r)))
    \<and> (\<forall>st. snd (retry_failed E R j now s) = Inr st \<longrightarrow> valid_state st
      \<and> get_state E R (fst (retry_failed E R j now s)) j = Inr (Some st))"
  using job_runtime.register_reads_back [OF assms] job_runtime.transition_reads_back [OF assms]
    job_runtime.take_over_reads_back [OF assms] job_runtime.retry_reads_back [OF assms]
  by blast

theorem returned_states_read_back_witness:
  "get_state example_env mem_redis ex_running 1 =
     Inr (Some (tr_state (projr (snd (transition example_env mem_redis 1 ex_start_args ex_registered)))))"
proof -
  have "snd (transition example_env mem_redis 1 ex_start_args ex_registered) =
      Inr (projr (snd (transition example_env mem_redis 1 ex_start_args ex_registered)))"
    by code_simp
  then show ?thesis using returned_states_read_back [OF mem_runtime] unfolding ex_running_def by blast
qed

end
