(* ===== verification/Serp_Payload.thy ===== *)
theory Serp_Payload
  imports Cost_Outbox "HOL-Library.Multiset"
begin

text \<open>
  Responses of the paid search (app/collectors/serp_market.py): what is kept of a payload,
  the error it may carry, and the reading of single values. \<open>repr\<close> is \<open>str(v)\<close> of a float,
  list or dict, whose texts are a parameter.
\<close>

datatype serp_engine = Google_maps | Google

definition SERP_RESULT_LIMIT_PER_TYPE :: nat where
  "SERP_RESULT_LIMIT_PER_TYPE = 20"

subsection \<open>Values of the language\<close>

fun jtruthy :: "json \<Rightarrow> bool" where
  "jtruthy JNull = False"
| "jtruthy (JBool b) = b"
| "jtruthy (JInt n) = (n \<noteq> 0)"
| "jtruthy (JFloat x) = (x \<noteq> Some 0)"
| "jtruthy (JStr s) = (s \<noteq> [])"
| "jtruthy (JArr xs) = (xs \<noteq> [])"
| "jtruthy (JObj kvs) = (kvs \<noteq> [])"

text \<open>\<open>str(v)\<close>\<close>

fun py_str :: "(json \<Rightarrow> string) \<Rightarrow> json \<Rightarrow> string" where
  "py_str repr JNull = ''None''"
| "py_str repr (JBool b) = (if b then ''True'' else ''False'')"
| "py_str repr (JInt n) = int_str n"
| "py_str repr (JStr s) = s"
| "py_str repr v = repr v"

text \<open>\<open>d.get(key)\<close> with None as JSON null\<close>

definition jfind :: "string \<Rightarrow> json \<Rightarrow> json" where
  "jfind k d = (case jget k d of None \<Rightarrow> JNull | Some v \<Rightarrow> v)"

text \<open>\<open>a or b\<close>\<close>

definition jor :: "json \<Rightarrow> json \<Rightarrow> json" where
  "jor a b = (if jtruthy a then a else b)"

text \<open>\<open>list(dict.fromkeys(xs))\<close>\<close>

fun unique :: "'a list \<Rightarrow> 'a list" where
  "unique [] = []"
| "unique (x # xs) = x # unique (filter (\<lambda>y. y \<noteq> x) xs)"

text \<open>A dict comprehension over \<open>ks\<close> that leaves out the keys without a value.\<close>

definition collect :: "(string \<Rightarrow> 'a option) \<Rightarrow> string list \<Rightarrow> (string \<times> 'a) list" where
  "collect f ks = List.map_filter (\<lambda>k. map_option (Pair k) (f k)) ks"

subsection \<open>What is kept of a payload\<close>

definition bounded_text :: "(json \<Rightarrow> string) \<Rightarrow> json \<Rightarrow> nat \<Rightarrow> string option" where
  "bounded_text repr v limit =
     (let t = strip_chars py_isspace (if jtruthy v then py_str repr v else [])
      in if t \<noteq> [] \<and> length t \<le> limit then Some t else None)"

definition STRING_LIMITS :: "(string \<times> nat) list" where
  "STRING_LIMITS =
     [(''title'', 240), (''name'', 240), (''website'', 2083), (''link'', 2083), (''place_id'', 500),
      (''data_id'', 500), (''cid'', 200), (''address'', 500), (''phone'', 100), (''type'', 240),
      (''snippet'', 2000)]"

definition NUMBER_FIELDS :: "string list" where
  "NUMBER_FIELDS = [''position'', ''rating'', ''reviews'', ''reviews_count'']"

definition LIST_FIELDS :: "string list" where
  "LIST_FIELDS = [''types'', ''categories'']"

fun clean_number :: "json \<Rightarrow> json option" where
  "clean_number (JInt n) = (if \<bar>n\<bar> \<le> 10 ^ 12 then Some (JInt n) else None)"
| "clean_number (JFloat (Some x)) = (if \<bar>x\<bar> \<le> 10 ^ 12 then Some (JFloat (Some x)) else None)"
| "clean_number (JStr s) = (if length s \<le> 30 then Some (JStr s) else None)"
| "clean_number _ = None"

fun clean_list :: "(json \<Rightarrow> string) \<Rightarrow> json \<Rightarrow> json option" where
  "clean_list repr (JArr values) =
     Some (JArr (map JStr (List.map_filter (\<lambda>v. bounded_text repr v 240) (take 20 values))))"
| "clean_list repr _ = None"

definition clean_text :: "(json \<Rightarrow> string) \<Rightarrow> json \<Rightarrow> string \<Rightarrow> json option" where
  "clean_text repr item k =
     (case map_of STRING_LIMITS k of None \<Rightarrow> None
      | Some limit \<Rightarrow> map_option JStr (bounded_text repr (jfind k item) limit))"

definition clean_members :: "(json \<Rightarrow> string) \<Rightarrow> json \<Rightarrow> (string \<times> json) list" where
  "clean_members repr item =
     collect (clean_text repr item) (map fst STRING_LIMITS)
     @ collect (\<lambda>k. clean_number (jfind k item)) NUMBER_FIELDS
     @ collect (\<lambda>k. clean_list repr (jfind k item)) LIST_FIELDS"

fun clean_item :: "(json \<Rightarrow> string) \<Rightarrow> json \<Rightarrow> json" where
  "clean_item repr (JObj kvs) = JObj (clean_members repr (JObj kvs))"
| "clean_item repr _ = JNull"

definition clean_section :: "(json \<Rightarrow> string) \<Rightarrow> json \<Rightarrow> string \<Rightarrow> json option" where
  "clean_section repr payload section =
     (case jfind section payload of
        JNull \<Rightarrow> None
      | JArr raw \<Rightarrow> Some (JArr (map (clean_item repr) (take SERP_RESULT_LIMIT_PER_TYPE raw)))
      | _ \<Rightarrow> Some (JStr ''invalid''))"

definition clean_metadata :: "(json \<Rightarrow> string) \<Rightarrow> json \<Rightarrow> json option" where
  "clean_metadata repr payload =
     (case jfind ''search_metadata'' payload of
        JObj kvs \<Rightarrow>
          Some (JObj (collect (\<lambda>k. map_option JStr (bounded_text repr (jfind k (JObj kvs)) 200))
                        [''id'', ''status'']))
      | _ \<Rightarrow> None)"

definition clean_error :: "(json \<Rightarrow> string) \<Rightarrow> json \<Rightarrow> json option" where
  "clean_error repr payload =
     (let e = jfind ''error'' payload
      in if \<not> jtruthy e then None
         else Some (JStr (case bounded_text repr e 500 of None \<Rightarrow> ''provider_error'' | Some t \<Rightarrow> t)))"

definition sections :: "serp_engine \<Rightarrow> string list" where
  "sections engine = ''local_results'' # (if engine = Google then [''organic_results''] else [])"

definition sanitize_serp_payload :: "(json \<Rightarrow> string) \<Rightarrow> json \<Rightarrow> serp_engine \<Rightarrow> json" where
  "sanitize_serp_payload repr payload engine =
     JObj (collect (\<lambda>_. clean_metadata repr payload) [''search_metadata'']
           @ collect (\<lambda>_. clean_error repr payload) [''error'']
           @ collect (clean_section repr payload) (sections engine))"

subsection \<open>Reading a payload\<close>

definition contains :: "string \<Rightarrow> string \<Rightarrow> bool" where
  "contains s t \<longleftrightarrow> (\<exists>n \<in> set [0..<Suc (length t)]. take (length s) (drop n t) = s)"

text \<open>\<open>" ".join(s.split())\<close>\<close>

fun collapse_spaces :: "string \<Rightarrow> string" where
  "collapse_spaces [] = []"
| "collapse_spaces (c # cs) =
     (let r = collapse_spaces cs
      in if \<not> py_isspace c then c # r
         else if r = [] \<or> hd r = CHR '' '' then r else CHR '' '' # r)"

definition join_words :: "string \<Rightarrow> string" where
  "join_words s = collapse_spaces (dropWhile py_isspace s)"

definition EMPTY_MARKERS :: "string list" where
  "EMPTY_MARKERS = [''hasn t returned any results'', ''has not returned any results'',
     ''no results found'', ''no results'', ''did not return any results'']"

text \<open>The message of a payload's error, if it has one, and whether it only says that nothing was found.\<close>

definition payload_error :: "(json \<Rightarrow> string) \<Rightarrow> json \<Rightarrow> string option \<times> bool" where
  "payload_error repr payload =
     (let raw = jfind ''error'' payload
      in if jtruthy raw
         then (let error = (case bounded_text repr raw 500 of None \<Rightarrow> ''provider_error'' | Some t \<Rightarrow> t);
                   normalized = join_words (map (\<lambda>c. if c = CHR 0x27 then CHR '' '' else c) (lower error))
               in (Some error, list_ex (\<lambda>m. contains m normalized) EMPTY_MARKERS))
         else (case jfind ''search_metadata'' payload of
                 JObj kvs \<Rightarrow>
                   (let v = jfind ''status'' (JObj kvs);
                        status = lower (strip_chars py_isspace (if jtruthy v then py_str repr v else []))
                    in if status \<noteq> [] \<and> status \<notin> {''success'', ''cached''}
                       then (Some (''status:'' @ take 100 status), False) else (None, False))
               | _ \<Rightarrow> (None, False)))"

definition provider_search_id :: "(json \<Rightarrow> string) \<Rightarrow> json \<Rightarrow> string option" where
  "provider_search_id repr payload =
     (case jfind ''search_metadata'' payload of
        JObj kvs \<Rightarrow> bounded_text repr (jfind ''id'' (JObj kvs)) 200
      | _ \<Rightarrow> None)"

definition result_list :: "json \<Rightarrow> string \<Rightarrow> json list" where
  "result_list payload key =
     (case jfind key payload of JArr raw \<Rightarrow> take SERP_RESULT_LIMIT_PER_TYPE raw | _ \<Rightarrow> [])"

text \<open>The text of a URL of the web and its host without \<open>www.\<close>, or neither.\<close>

definition safe_url :: "(json \<Rightarrow> string) \<Rightarrow> json \<Rightarrow> string option \<times> string option" where
  "safe_url repr v =
     (case bounded_text repr v 2083 of
        None \<Rightarrow> (None, None)
      | Some t \<Rightarrow>
          (case urlsplit t of
             Inl _ \<Rightarrow> (None, None)
           | Inr parsed \<Rightarrow>
               (case us_hostname parsed of
                  None \<Rightarrow> (None, None)
                | Some hostname \<Rightarrow>
                    if us_scheme parsed \<notin> {''http'', ''https''}
                       \<or> us_username parsed \<noteq> None \<and> us_username parsed \<noteq> Some []
                    then (None, None)
                    else (let host = removeprefix ''www.'' (lower hostname)
                          in (Some t, if length host \<le> 253 then Some host else None)))))"

fun number_in :: "json \<Rightarrow> rat \<Rightarrow> rat \<Rightarrow> rat option" where
  "number_in (JInt n) lo hi = (if lo \<le> of_int n \<and> of_int n \<le> hi then Some (of_int n) else None)"
| "number_in (JFloat (Some x)) lo hi = (if lo \<le> x \<and> x \<le> hi then Some x else None)"
| "number_in _ lo hi = None"

text \<open>
  \<open>s.isdigit()\<close> holds of the superscript digits too, for which \<open>int(s)\<close> raises a ValueError.
\<close>

definition superscript_digit :: "char \<Rightarrow> bool" where
  "superscript_digit c \<longleftrightarrow> (of_char c :: nat) \<in> {178, 179, 185}"

fun integer_in :: "json \<Rightarrow> int \<Rightarrow> int \<Rightarrow> exn + int option" where
  "integer_in (JInt n) lo hi = Inr (if lo \<le> n \<and> n \<le> hi then Some n else None)"
| "integer_in (JStr s) lo hi =
     (let t = filter (\<lambda>c. c \<noteq> CHR '','') s
      in if t \<noteq> [] \<and> list_all (\<lambda>c. is_digit c \<or> superscript_digit c) t
         then (if list_ex superscript_digit t
               then Inl (ValueError ''invalid literal for int() with base 10'')
               else Inr (if lo \<le> digits_value t \<and> digits_value t \<le> hi then Some (digits_value t) else None))
         else Inr None)"
| "integer_in _ lo hi = Inr None"

text \<open>A text of superscript digits passes the test and fails in the conversion.\<close>

lemma superscript_raises:
  "t \<noteq> [] \<Longrightarrow> list_all superscript_digit t \<Longrightarrow>
   integer_in (JStr t) lo hi = Inl (ValueError ''invalid literal for int() with base 10'')"
  by (cases t) (auto simp: list_all_iff list_ex_iff superscript_digit_def Let_def filter_id_conv)

definition categories_of :: "(json \<Rightarrow> string) \<Rightarrow> json \<Rightarrow> string list" where
  "categories_of repr item =
     (let raw = jor (jor (jfind ''types'' item) (jfind ''categories'' item)) (jfind ''type'' item);
          values = (case raw of JArr vs \<Rightarrow> vs | v \<Rightarrow> [v])
      in unique (List.map_filter (\<lambda>v. bounded_text repr v 240) (take 20 values)))"

definition provider_cid :: "(json \<Rightarrow> string) \<Rightarrow> json \<Rightarrow> string option \<Rightarrow> string option" where
  "provider_cid repr item data_id =
     (case bounded_text repr (jfind ''cid'' item) 200 of
        Some explicit \<Rightarrow> Some explicit
      | None \<Rightarrow>
          (case data_id of
             None \<Rightarrow> None
           | Some d \<Rightarrow>
               if d = [] \<or> CHR '':'' \<notin> set d then None
               else (let tail = after_last CHR '':'' d
                     in if take 2 (lower tail) = ''0x'' then map_option int_str (py_int16 tail) else None)))"

subsection \<open>Sanitizing is idempotent\<close>

text \<open>A document as the canonical JSON text orders it: the members of every object by key.\<close>

primrec sort_members :: "json \<Rightarrow> json" where
  "sort_members JNull = JNull"
| "sort_members (JBool b) = JBool b"
| "sort_members (JInt n) = JInt n"
| "sort_members (JFloat x) = JFloat x"
| "sort_members (JStr s) = JStr s"
| "sort_members (JArr xs) = JArr (map sort_members xs)"
| "sort_members (JObj kvs) = JObj (sort_key fst (map (map_prod id sort_members) kvs))"

lemma map_of_collect: "map_of (collect f ks) k = (if k \<in> set ks then f k else None)"
proof (induction ks)
  case (Cons x ks)
  then show ?case by (cases "f x") (auto simp: collect_def map_filter_simps)
qed (simp add: collect_def map_filter_simps)

lemma distinct_collect:
  assumes "distinct ks"
  shows "distinct (map fst (collect f ks))" "set (map fst (collect f ks)) \<subseteq> set ks"
proof -
  have sub: "set (map fst (collect f ks)) \<subseteq> set ks" for ks
    by (induction ks) (auto simp: collect_def map_filter_simps split: option.splits)
  then show "set (map fst (collect f ks)) \<subseteq> set ks" .
  show "distinct (map fst (collect f ks))" using assms
  proof (induction ks)
    case (Cons x ks)
    then show ?case using sub [of ks] by (cases "f x") (auto simp: collect_def map_filter_simps)
  qed (simp add: collect_def map_filter_simps)
qed

lemma collect_cong: "(\<And>k. k \<in> set ks \<Longrightarrow> f k = g k) \<Longrightarrow> collect f ks = collect g ks"
  by (induction ks) (auto simp: collect_def map_filter_simps split: option.splits)

lemma jget_sort_members:
  assumes "distinct (map fst kvs)"
  shows "jget k (sort_members (JObj kvs)) = map_option sort_members (jget k (JObj kvs))"
proof -
  have "map_of (sort_key fst kvs') k = map_of kvs' k" if "distinct (map fst kvs')" for kvs' :: "(string \<times> json) list"
  proof -
    have "mset (map fst (sort_key fst kvs')) = mset (map fst kvs')" by (simp only: mset_map mset_sort)
    then have "distinct (map fst (sort_key fst kvs'))" using that by (metis mset_eq_imp_distinct_iff)
    with that have "map_of (sort_key fst kvs') k = Some v \<longleftrightarrow> map_of kvs' k = Some v" for v
      by (simp add: map_of_eq_Some_iff)
    then show ?thesis by (metis not_None_eq)
  qed
  moreover have "map_of (map (map_prod id sort_members) kvs) k = map_option sort_members (map_of kvs k)"
    by (induction kvs) auto
  ultimately show ?thesis using assms by (simp add: comp_def)
qed

lemma bounded_text_again: "bounded_text repr v n = Some t \<Longrightarrow> bounded_text repr' (JStr t) n = Some t"
  by (auto simp: bounded_text_def Let_def split: if_splits)

text \<open>Texts, numbers and lists of texts have no members to sort, and are kept as they are.\<close>

lemma sort_members_clean:
  "clean_text repr item k = Some v \<Longrightarrow> sort_members v = v"
  "clean_number w = Some v \<Longrightarrow> sort_members v = v"
  "clean_list repr w = Some v \<Longrightarrow> sort_members v = v"
  by (auto simp: clean_text_def split: option.splits)
    (auto elim!: clean_number.elims clean_list.elims split: if_splits)

lemma clean_number_again: "clean_number w = Some v \<Longrightarrow> clean_number v = Some v"
  by (cases w rule: clean_number.cases) (auto split: if_splits)

lemma clean_list_again: "clean_list repr w = Some v \<Longrightarrow> clean_list repr v = Some v"
proof (cases w)
  case (JArr vs)
  assume w: "clean_list repr w = Some v"
  let ?ts = "List.map_filter (\<lambda>v. bounded_text repr v 240) (take 20 vs)"
  have v: "v = JArr (map JStr ?ts)" using w JArr by simp
  have "List.map_filter (\<lambda>v. bounded_text repr v 240) (map JStr (List.map_filter (\<lambda>v. bounded_text repr v 240) us))
      = List.map_filter (\<lambda>v. bounded_text repr v 240) us" for us
    by (induction us) (auto simp: map_filter_simps bounded_text_again split: option.splits)
  moreover have "length ?ts \<le> 20"
    by (simp add: List.map_filter_def le_trans [OF length_filter_le])
  ultimately show ?thesis by (simp add: v)
qed auto

lemma distinct_fields: "distinct (map fst STRING_LIMITS)" "distinct NUMBER_FIELDS" "distinct LIST_FIELDS"
  "set (map fst STRING_LIMITS) \<inter> set NUMBER_FIELDS = {}" "set (map fst STRING_LIMITS) \<inter> set LIST_FIELDS = {}"
  "set NUMBER_FIELDS \<inter> set LIST_FIELDS = {}"
  by (simp_all add: STRING_LIMITS_def NUMBER_FIELDS_def LIST_FIELDS_def)

lemma clean_members_facts:
  "distinct (map fst (clean_members repr item))"
  "map_of (clean_members repr item) k =
    (if k \<in> set (map fst STRING_LIMITS) then clean_text repr item k
     else if k \<in> set NUMBER_FIELDS then clean_number (jfind k item)
     else if k \<in> set LIST_FIELDS then clean_list repr (jfind k item) else None)"
proof -
  have "distinct (xs @ ys @ zs)"
    if "distinct xs" "set xs \<subseteq> A" "distinct ys" "set ys \<subseteq> B" "distinct zs" "set zs \<subseteq> C"
      "A \<inter> B = {}" "A \<inter> C = {}" "B \<inter> C = {}"
    for xs ys zs :: "string list" and A B C
    using that by (simp add: disjoint_iff) blast
  note append = this [OF distinct_collect [OF distinct_fields(1)] distinct_collect [OF distinct_fields(2)]
      distinct_collect [OF distinct_fields(3)] distinct_fields(4-6)]
  show "distinct (map fst (clean_members repr item))"
    unfolding clean_members_def map_append by (rule append)
  show "map_of (clean_members repr item) k =
    (if k \<in> set (map fst STRING_LIMITS) then clean_text repr item k
     else if k \<in> set NUMBER_FIELDS then clean_number (jfind k item)
     else if k \<in> set LIST_FIELDS then clean_list repr (jfind k item) else None)"
    using distinct_fields(4-6)
    by (auto simp: clean_members_def map_add_def map_of_collect split: option.splits)
qed

lemma bounded_text_JNull [simp]: "bounded_text repr JNull n = None"
  by (simp add: bounded_text_def strip_chars_def)

lemma clean_members_lookup:
  assumes find: "\<And>k. jfind k q = (case map_of (clean_members repr item) k of None \<Rightarrow> JNull | Some v \<Rightarrow> v)"
  shows "clean_members repr q = clean_members repr item"
proof -
  note facts = clean_members_facts(2) [of repr item]
  have t: "clean_text repr q k = clean_text repr item k" if k: "k \<in> set (map fst STRING_LIMITS)" for k
  proof -
    have "jfind k q = (case clean_text repr item k of None \<Rightarrow> JNull | Some v \<Rightarrow> v)"
      using k by (simp only: find facts if_True)
    then show ?thesis
      by (auto simp: clean_text_def bounded_text_again [where repr' = repr] split: option.splits)
  qed
  have n: "clean_number (jfind k q) = clean_number (jfind k item)" if k: "k \<in> set NUMBER_FIELDS" for k
  proof -
    have "jfind k q = (case clean_number (jfind k item) of None \<Rightarrow> JNull | Some v \<Rightarrow> v)"
      using k distinct_fields(4) by (simp only: find facts disjoint_iff) auto
    then show ?thesis by (auto simp: clean_number_again split: option.splits)
  qed
  have l: "clean_list repr (jfind k q) = clean_list repr (jfind k item)" if k: "k \<in> set LIST_FIELDS" for k
  proof -
    have "jfind k q = (case clean_list repr (jfind k item) of None \<Rightarrow> JNull | Some v \<Rightarrow> v)"
      using k distinct_fields(5-6) by (simp only: find facts disjoint_iff) auto
    then show ?thesis by (auto simp: clean_list_again split: option.splits)
  qed
  show ?thesis
    unfolding clean_members_def using t n l by (intro arg_cong2 [where f = append] collect_cong) auto
qed

text \<open>Reading a sorted object: the values of a cleaned one have no members to sort.\<close>

lemma jfind_sort_members:
  assumes "distinct (map fst kvs)" "\<And>k v. map_of kvs k = Some v \<Longrightarrow> sort_members v = v"
  shows "jfind k (sort_members (JObj kvs)) = (case map_of kvs k of None \<Rightarrow> JNull | Some v \<Rightarrow> v)"
  unfolding jfind_def jget_sort_members [OF assms(1)] using assms(2) by (cases "map_of kvs k") auto

lemma clean_members_again:
  "clean_members repr (sort_members (JObj (clean_members repr item))) = clean_members repr item"
proof (rule clean_members_lookup, rule jfind_sort_members)
  show "sort_members v = v" if "map_of (clean_members repr item) k = Some v" for k v
    using that by (auto simp: clean_members_facts(2) dest: sort_members_clean split: if_splits)
qed (rule clean_members_facts)

lemma clean_item_again: "clean_item repr (sort_members (clean_item repr item)) = clean_item repr item"
proof (cases item)
  case (JObj kvs)
  then show ?thesis using clean_members_again [of repr "JObj kvs"] by simp
qed simp_all

lemma sort_key_sorted: "sorted (map f xs) \<Longrightarrow> sort_key f xs = xs"
  by (induction xs) (auto simp: insort_is_Cons)

lemma sort_members_idem [simp]: "sort_members (sort_members v) = sort_members v"
proof (induction v)
  case (JObj kvs)
  have "map (map_prod id sort_members) (sort_key fst (map (map_prod id sort_members) kvs))
      = sort_key fst (map (map_prod id sort_members) kvs)"
    using JObj by (intro map_idI) (auto simp: map_prod_def split: prod.splits)
  moreover have "sorted (map fst (sort_key fst (map (map_prod id sort_members) kvs)))" by simp
  ultimately show ?case by (simp add: sort_key_sorted)
qed auto

definition kept :: "(json \<Rightarrow> string) \<Rightarrow> json \<Rightarrow> serp_engine \<Rightarrow> string \<Rightarrow> json option" where
  "kept repr p engine k =
     (if k = ''search_metadata'' then clean_metadata repr p
      else if k = ''error'' then clean_error repr p
      else if k \<in> set (sections engine) then clean_section repr p k else None)"

lemma sanitize_members:
  obtains ms where "sanitize_serp_payload repr p engine = JObj ms" "distinct (map fst ms)"
    "\<And>k. map_of ms k = kept repr p engine k"
proof
  let ?ks = "[''search_metadata'', ''error''] @ sections engine"
  have ks: "set (sections engine) \<subseteq> {''local_results'', ''organic_results''}" "distinct (sections engine)"
    by (auto simp: sections_def)
  have app: "collect f xs @ collect f ys = collect f (xs @ ys)" for f :: "string \<Rightarrow> json option" and xs ys
    by (induction xs) (auto simp: collect_def map_filter_simps split: option.splits)
  have "collect (\<lambda>_. clean_metadata repr p) [''search_metadata'']
      = collect (kept repr p engine) [''search_metadata'']"
    "collect (\<lambda>_. clean_error repr p) [''error''] = collect (kept repr p engine) [''error'']"
    "collect (clean_section repr p) (sections engine) = collect (kept repr p engine) (sections engine)"
    using ks by (auto intro!: collect_cong simp: kept_def)
  then show "sanitize_serp_payload repr p engine = JObj (collect (kept repr p engine) ?ks)"
    by (simp add: sanitize_serp_payload_def app)
  have "distinct ?ks" using ks by auto
  then show "distinct (map fst (collect (kept repr p engine) ?ks))" by (rule distinct_collect)
  show "map_of (collect (kept repr p engine) ?ks) k = kept repr p engine k" for k
    by (auto simp: map_of_collect kept_def)
qed

lemma clean_metadata_again:
  assumes "clean_metadata repr p = Some v" "jfind ''search_metadata'' q = sort_members v"
  shows "clean_metadata repr q = Some v"
proof -
  obtain kvs where "jfind ''search_metadata'' p = JObj kvs"
    and v: "v = JObj (collect (\<lambda>k. map_option JStr (bounded_text repr (jfind k (JObj kvs)) 200)) [''id'', ''status''])"
    (is "v = JObj (collect ?f _)")
    using assms(1) by (auto simp: clean_metadata_def split: json.splits)
  have find: "jfind k (sort_members v) = (case map_of (collect ?f [''id'', ''status'']) k of None \<Rightarrow> JNull | Some v \<Rightarrow> v)" for k
    unfolding v
    by (rule jfind_sort_members, rule distinct_collect) (auto simp: map_of_collect split: if_splits)
  have "map_option JStr (bounded_text repr (jfind k (sort_members v)) 200) = ?f k" if "k \<in> set [''id'', ''status'']" for k
    using that unfolding find
    by (auto simp: map_of_collect bounded_text_again split: option.splits)
  then have c: "collect (\<lambda>k. map_option JStr (bounded_text repr (jfind k (sort_members v)) 200)) [''id'', ''status'']
      = collect ?f [''id'', ''status'']" by (rule collect_cong)
  obtain kvs' where "sort_members v = JObj kvs'" by (simp add: v)
  then show ?thesis using c assms(2) by (simp add: clean_metadata_def v)
qed

lemma clean_error_again:
  assumes "clean_error repr p = Some v" "jfind ''error'' q = sort_members v"
  shows "clean_error repr q = Some v"
proof -
  let ?t = "case bounded_text repr (jfind ''error'' p) 500 of None \<Rightarrow> ''provider_error'' | Some t \<Rightarrow> t"
  have "v = JStr ?t" using assms(1) by (auto simp: clean_error_def Let_def split: if_splits)
  moreover have "bounded_text repr (JStr ?t) 500 = Some ?t \<and> ?t \<noteq> []"
  proof (cases "bounded_text repr (jfind ''error'' p) 500")
    case None
    have "bounded_text repr (JStr ''provider_error'') 500 = Some ''provider_error''" by code_simp
    then show ?thesis by (simp add: None)
  next
    case (Some t)
    then have "t \<noteq> []" by (auto simp: bounded_text_def Let_def split: if_splits)
    then show ?thesis using bounded_text_again [OF Some, of repr] by (simp add: Some)
  qed
  ultimately show ?thesis using assms(2) by (simp add: clean_error_def)
qed

lemma clean_section_again:
  assumes "clean_section repr p k = Some v" "jfind k q = sort_members v"
  shows "clean_section repr q k = Some v"
  using assms
  by (auto simp: clean_section_def SERP_RESULT_LIMIT_PER_TYPE_def clean_item_again comp_def split: json.splits)

text \<open>What was kept of a payload is kept as it is, in the order the stored text gives it back.\<close>

lemma sanitize_again:
  "sanitize_serp_payload repr (sort_members (sanitize_serp_payload repr p engine)) engine
   = sanitize_serp_payload repr p engine"
proof -
  obtain ms where ms: "sanitize_serp_payload repr p engine = JObj ms" "distinct (map fst ms)"
    "\<And>k. map_of ms k = kept repr p engine k" by (rule sanitize_members) blast
  let ?q = "sort_members (sanitize_serp_payload repr p engine)"
  have find: "jfind k ?q = (case kept repr p engine k of None \<Rightarrow> JNull | Some v \<Rightarrow> sort_members v)" for k
    unfolding ms(1) jfind_def jget_sort_members [OF ms(2)] by (simp add: ms(3) split: option.splits)
  have keys: "''search_metadata'' \<notin> set (sections engine)" "''error'' \<notin> set (sections engine)"
    by (auto simp: sections_def)
  have "clean_metadata repr ?q = clean_metadata repr p"
    using find [of "''search_metadata''"] clean_metadata_again [of repr p _ ?q]
    by (cases "clean_metadata repr p") (auto simp: kept_def clean_metadata_def [of repr ?q])
  moreover have "clean_error repr ?q = clean_error repr p"
    using find [of "''error''"] clean_error_again [of repr p _ ?q]
    by (cases "clean_error repr p") (auto simp: kept_def clean_error_def [of repr ?q])
  moreover have "clean_section repr ?q k = clean_section repr p k" if "k \<in> set (sections engine)" for k
    using find [of k] clean_section_again [of repr p k _ ?q] that keys
    by (cases "clean_section repr p k") (auto simp: kept_def clean_section_def [of repr ?q])
  ultimately show ?thesis
    unfolding sanitize_serp_payload_def
    by (intro arg_cong [where f = JObj] arg_cong2 [where f = append] collect_cong) simp_all
qed

end
