(* ===== verification/Serp_Models.thy ===== *)
theory Serp_Models
  imports Serp_Payload Runtime_Values
begin

text \<open>
  The contracts of the paid search (app/collectors/serp_market_models.py and the plan of
  app/collectors/serp_market_requests.py). The pydantic models become records with a
  predicate \<open>..._valid\<close>; texts are stripped already. Coordinates are the rational values of
  the floats. The fields latitude, longitude, country code, language and device that a plan,
  its calls, their results and a snapshot share are one record. Case folding is that of
  ASCII texts.
\<close>

datatype search_device = Desktop | Mobile

datatype serp_result_type = Maps_result | Local_pack | Organic

datatype serp_call_status = Call_succeeded | Failed_transient | Failed_deterministic

datatype rank_source = Provider_position | Response_order

datatype point_source = Explicit_coordinates | Provider_location

fun engine_name :: "serp_engine \<Rightarrow> string" where
  "engine_name Google_maps = ''google_maps''"
| "engine_name Google = ''google''"

fun device_name :: "search_device \<Rightarrow> string" where
  "device_name Desktop = ''desktop''"
| "device_name Mobile = ''mobile''"

fun result_type_name :: "serp_result_type \<Rightarrow> string" where
  "result_type_name Maps_result = ''maps''"
| "result_type_name Local_pack = ''local_pack''"
| "result_type_name Organic = ''organic''"

fun result_types_of :: "serp_engine \<Rightarrow> serp_result_type list" where
  "result_types_of Google_maps = [Maps_result]"
| "result_types_of Google = [Local_pack, Organic]"

definition SERP_QUERY_MIN :: nat where "SERP_QUERY_MIN = 3"
definition SERP_QUERY_MAX :: nat where "SERP_QUERY_MAX = 5"
definition SERP_CALLS_PER_QUERY :: nat where "SERP_CALLS_PER_QUERY = 2"
definition SERP_LOGICAL_CALL_LIMIT :: nat where "SERP_LOGICAL_CALL_LIMIT = 10"
definition SERP_PROVIDER_ATTEMPT_LIMIT_PER_CALL :: nat where "SERP_PROVIDER_ATTEMPT_LIMIT_PER_CALL = 3"
definition SERP_MAP_ZOOM :: int where "SERP_MAP_ZOOM = 14"

lemmas serp_limits = SERP_QUERY_MIN_def SERP_QUERY_MAX_def SERP_CALLS_PER_QUERY_def
  SERP_LOGICAL_CALL_LIMIT_def SERP_PROVIDER_ATTEMPT_LIMIT_PER_CALL_def SERP_MAP_ZOOM_def

record search_context =
  sx_latitude :: rat
  sx_longitude :: rat
  sx_country_code :: string
  sx_language :: string
  sx_device :: search_device

record target_point =
  tp_requested_label :: string
  tp_canonical_name :: string
  tp_country_code :: string
  tp_latitude :: rat
  tp_longitude :: rat
  tp_source :: point_source
  tp_provider_location_id :: "string option"
  tp_resolved_at :: timestamp
  tp_response_checksum :: "string option"

definition upper_char :: "char \<Rightarrow> bool" where
  "upper_char c \<longleftrightarrow> (let n = (of_char c :: nat) in 65 \<le> n \<and> n \<le> 90)"

lemma upper_char_code [code]: "upper_char (Char a b c d e f g h) \<longleftrightarrow> \<not> f \<and> is_alpha (Char a b c d e f g h)"
  by (cases a; cases b; cases c; cases d; cases e; cases f; cases g; cases h)
    (simp_all add: upper_char_def is_alpha_def)

definition country_ok :: "string \<Rightarrow> bool" where
  "country_ok c \<longleftrightarrow> length c = 2 \<and> list_all upper_char c"

definition language_ok :: "string \<Rightarrow> bool" where
  "language_ok l \<longleftrightarrow> text_len 2 12 l \<and> list_all (\<lambda>c. is_alpha c \<or> is_digit c \<or> c = CHR ''-'') l"

definition opt_len :: "nat \<Rightarrow> string option \<Rightarrow> bool" where
  "opt_len n x \<longleftrightarrow> (case x of None \<Rightarrow> True | Some s \<Rightarrow> length s \<le> n)"

definition opt_digest :: "string option \<Rightarrow> bool" where
  "opt_digest x \<longleftrightarrow> (case x of None \<Rightarrow> True | Some s \<Rightarrow> valid_digest s)"

definition target_point_valid :: "target_point \<Rightarrow> bool" where
  "target_point_valid p \<longleftrightarrow>
     text_len 1 200 (tp_requested_label p) \<and> text_len 1 300 (tp_canonical_name p)
   \<and> country_ok (tp_country_code p)
   \<and> - 90 \<le> tp_latitude p \<and> tp_latitude p \<le> 90 \<and> - 180 \<le> tp_longitude p \<and> tp_longitude p \<le> 180
   \<and> opt_len 200 (tp_provider_location_id p) \<and> opt_digest (tp_response_checksum p)
   \<and> (if tp_source p = Provider_location
      then tp_provider_location_id p \<notin> {None, Some []} \<and> tp_response_checksum p \<noteq> None
      else tp_provider_location_id p = None \<and> tp_response_checksum p = None)"

subsection \<open>The search plan\<close>

record planned_call =
  pc_call_id :: string
  pc_request_digest :: string
  pc_query_index :: nat
  pc_query :: string
  pc_engine :: serp_engine
  pc_result_types :: "serp_result_type list"
  pc_params :: "(string \<times> string) list"

definition planned_call_valid :: "planned_call \<Rightarrow> bool" where
  "planned_call_valid c \<longleftrightarrow>
     valid_digest (pc_call_id c) \<and> valid_digest (pc_request_digest c)
   \<and> 1 \<le> pc_query_index c \<and> pc_query_index c \<le> SERP_QUERY_MAX \<and> text_len 1 300 (pc_query c)
   \<and> 5 \<le> length (pc_params c) \<and> length (pc_params c) \<le> 10
   \<and> ''api_key'' \<notin> fst ` set (pc_params c) \<and> ''start'' \<notin> fst ` set (pc_params c)
   \<and> map_of (pc_params c) ''engine'' = Some (engine_name (pc_engine c))
   \<and> map_of (pc_params c) ''q'' = Some (pc_query c)
   \<and> pc_result_types c = result_types_of (pc_engine c)"

record search_plan =
  pl_target_point :: target_point
  pl_device :: search_device
  pl_language :: string
  pl_country_code :: string
  pl_queries :: "string list"
  pl_calls :: "planned_call list"

definition pl_context :: "search_plan \<Rightarrow> search_context" where
  "pl_context p = \<lparr>sx_latitude = tp_latitude (pl_target_point p), sx_longitude = tp_longitude (pl_target_point p),
     sx_country_code = pl_country_code p, sx_language = pl_language p, sx_device = pl_device p\<rparr>"

text \<open>Two calls for each query, in order: \<open>for index, query in enumerate(queries, start=1) for engine in ...\<close>\<close>

definition call_order :: "string list \<Rightarrow> (nat \<times> string \<times> serp_engine) list" where
  "call_order queries =
     concat (map (\<lambda>(index, query). [(index, query, Google_maps), (index, query, Google)])
       (enumerate 1 queries))"

definition search_plan_valid :: "search_plan \<Rightarrow> bool" where
  "search_plan_valid p \<longleftrightarrow>
     target_point_valid (pl_target_point p) \<and> language_ok (pl_language p) \<and> country_ok (pl_country_code p)
   \<and> SERP_QUERY_MIN \<le> length (pl_queries p) \<and> length (pl_queries p) \<le> SERP_QUERY_MAX
   \<and> 6 \<le> length (pl_calls p) \<and> length (pl_calls p) \<le> SERP_LOGICAL_CALL_LIMIT
   \<and> list_all planned_call_valid (pl_calls p)
   \<and> pl_country_code p = tp_country_code (pl_target_point p)
   \<and> length (pl_calls p) = length (pl_queries p) * SERP_CALLS_PER_QUERY
   \<and> map (\<lambda>c. (pc_query_index c, pc_query c, pc_engine c)) (pl_calls p) = call_order (pl_queries p)
   \<and> distinct (map pc_request_digest (pl_calls p))"

subsection \<open>Records of a collection\<close>

record serp_call =
  sc_call_id :: string
  sc_request_digest :: string
  sc_query :: string
  sc_engine :: serp_engine
  sc_result_types :: "serp_result_type list"
  sc_context :: search_context
  sc_maps_zoom :: "int option"
  sc_status :: serp_call_status
  sc_started_at :: timestamp
  sc_completed_at :: timestamp
  sc_provider_search_id :: "string option"
  sc_response_checksum :: "string option"
  sc_logical_call_used :: bool
  sc_provider_attempts :: int
  sc_checkpoint_hit :: bool
  sc_error_code :: "string option"

definition context_ok :: "search_context \<Rightarrow> bool" where
  "context_ok x \<longleftrightarrow> - 90 \<le> sx_latitude x \<and> sx_latitude x \<le> 90 \<and> - 180 \<le> sx_longitude x
     \<and> sx_longitude x \<le> 180 \<and> country_ok (sx_country_code x) \<and> language_ok (sx_language x)"

definition serp_call_valid :: "serp_call \<Rightarrow> bool" where
  "serp_call_valid c \<longleftrightarrow>
     valid_digest (sc_call_id c) \<and> valid_digest (sc_request_digest c) \<and> text_len 1 300 (sc_query c)
   \<and> context_ok (sc_context c) \<and> opt_len 200 (sc_provider_search_id c)
   \<and> opt_digest (sc_response_checksum c)
   \<and> 0 \<le> sc_provider_attempts c \<and> sc_provider_attempts c \<le> int SERP_PROVIDER_ATTEMPT_LIMIT_PER_CALL
   \<and> (case sc_error_code c of None \<Rightarrow> True
      | Some code \<Rightarrow> text_len 1 120 code \<and> list_all error_code_char code)
   \<and> sc_started_at c \<le> sc_completed_at c
   \<and> sc_result_types c = result_types_of (sc_engine c)
   \<and> sc_maps_zoom c = (if sc_engine c = Google_maps then Some SERP_MAP_ZOOM else None)
   \<and> sc_logical_call_used c = (0 < sc_provider_attempts c)
   \<and> (if sc_status c = Call_succeeded then sc_response_checksum c \<noteq> None \<and> sc_error_code c = None
      else sc_error_code c \<noteq> None)"

record serp_result =
  sr_record_id :: string
  sr_call_id :: string
  sr_query :: string
  sr_result_type :: serp_result_type
  sr_position :: int
  sr_rank_source :: rank_source
  sr_display_name :: string
  sr_url :: "string option"
  sr_normalized_domain :: "string option"
  sr_provider_place_id :: "string option"
  sr_provider_data_id :: "string option"
  sr_provider_cid :: "string option"
  sr_address :: "string option"
  sr_phone :: "string option"
  sr_categories :: "string list"
  sr_rating :: "rat option"
  sr_review_count :: "int option"
  sr_snippet :: "string option"
  sr_provider_search_id :: "string option"
  sr_response_checksum :: string
  sr_observed_at :: timestamp
  sr_context :: search_context

definition serp_result_valid :: "serp_result \<Rightarrow> bool" where
  "serp_result_valid r \<longleftrightarrow>
     valid_digest (sr_record_id r) \<and> valid_digest (sr_call_id r) \<and> text_len 1 300 (sr_query r)
   \<and> 1 \<le> sr_position r \<and> sr_position r \<le> 10000 \<and> text_len 1 240 (sr_display_name r)
   \<and> opt_len 253 (sr_normalized_domain r) \<and> opt_len 500 (sr_provider_place_id r)
   \<and> opt_len 500 (sr_provider_data_id r) \<and> opt_len 200 (sr_provider_cid r)
   \<and> opt_len 500 (sr_address r) \<and> opt_len 100 (sr_phone r)
   \<and> length (sr_categories r) \<le> 20 \<and> list_all (text_len 1 240) (sr_categories r)
   \<and> (case sr_rating r of None \<Rightarrow> True | Some x \<Rightarrow> 0 \<le> x \<and> x \<le> 5)
   \<and> (case sr_review_count r of None \<Rightarrow> True | Some n \<Rightarrow> 0 \<le> n \<and> n \<le> 1000000000)
   \<and> opt_len 2000 (sr_snippet r) \<and> opt_len 200 (sr_provider_search_id r)
   \<and> valid_digest (sr_response_checksum r) \<and> context_ok (sr_context r)
   \<and> (case sr_url r of
        None \<Rightarrow> sr_normalized_domain r = None
      | Some u \<Rightarrow> sr_normalized_domain r = Some (site_domain u))
   \<and> distinct (sr_categories r)"

record query_run =
  qr_query_index :: nat
  qr_query :: string
  qr_maps_call :: serp_call
  qr_google_call :: serp_call
  qr_results :: "serp_result list"
  qr_complete :: bool
  qr_limitations :: "string list"

definition count_type :: "serp_result_type \<Rightarrow> serp_result list \<Rightarrow> nat" where
  "count_type t rs = length (filter (\<lambda>r. sr_result_type r = t) rs)"

text \<open>The call a result names; the later entry of the dict wins.\<close>

definition run_call :: "query_run \<Rightarrow> string \<Rightarrow> serp_call option" where
  "run_call q i = map_of [(sc_call_id (qr_google_call q), qr_google_call q),
                          (sc_call_id (qr_maps_call q), qr_maps_call q)] i"

definition query_run_valid :: "query_run \<Rightarrow> bool" where
  "query_run_valid q \<longleftrightarrow>
     1 \<le> qr_query_index q \<and> qr_query_index q \<le> SERP_QUERY_MAX \<and> text_len 1 300 (qr_query q)
   \<and> serp_call_valid (qr_maps_call q) \<and> serp_call_valid (qr_google_call q)
   \<and> length (qr_results q) \<le> 60 \<and> list_all serp_result_valid (qr_results q)
   \<and> length (qr_limitations q) \<le> 20 \<and> list_all (text_len 1 300) (qr_limitations q)
   \<and> sc_engine (qr_maps_call q) = Google_maps \<and> sc_engine (qr_google_call q) = Google
   \<and> sc_query (qr_maps_call q) = qr_query q \<and> sc_query (qr_google_call q) = qr_query q
   \<and> qr_complete q = (sc_status (qr_maps_call q) = Call_succeeded
                       \<and> sc_status (qr_google_call q) = Call_succeeded)
   \<and> list_all (\<lambda>t. count_type t (qr_results q) \<le> SERP_RESULT_LIMIT_PER_TYPE) [Maps_result, Local_pack, Organic]
   \<and> list_all (\<lambda>r. case run_call q (sr_call_id r) of
          None \<Rightarrow> False
        | Some c \<Rightarrow> sr_query r = qr_query q \<and> sr_result_type r \<in> set (sc_result_types c)
                    \<and> sr_context r = sc_context c) (qr_results q)"

record serp_budget =
  bg_logical_calls_planned :: nat
  bg_logical_calls_used :: nat
  bg_provider_attempt_limit :: nat
  bg_provider_attempts :: int
  bg_checkpoint_hits :: nat
  bg_location_resolution_calls :: nat

definition serp_budget_valid :: "serp_budget \<Rightarrow> bool" where
  "serp_budget_valid b \<longleftrightarrow>
     6 \<le> bg_logical_calls_planned b \<and> bg_logical_calls_planned b \<le> SERP_LOGICAL_CALL_LIMIT
   \<and> bg_logical_calls_used b \<le> SERP_LOGICAL_CALL_LIMIT
   \<and> 18 \<le> bg_provider_attempt_limit b \<and> bg_provider_attempt_limit b \<le> 30
   \<and> 0 \<le> bg_provider_attempts b \<and> bg_provider_attempts b \<le> 30
   \<and> bg_checkpoint_hits b \<le> SERP_LOGICAL_CALL_LIMIT \<and> bg_location_resolution_calls b \<le> 1
   \<and> bg_logical_calls_planned b mod SERP_CALLS_PER_QUERY = 0
   \<and> bg_logical_calls_used b \<le> bg_logical_calls_planned b
   \<and> bg_provider_attempt_limit b = bg_logical_calls_planned b * SERP_PROVIDER_ATTEMPT_LIMIT_PER_CALL
   \<and> bg_provider_attempts b \<le> int (bg_provider_attempt_limit b)"

record serp_snapshot =
  ss_job_id :: uuid
  ss_started_at :: timestamp
  ss_completed_at :: timestamp
  ss_target_point :: target_point
  ss_device :: search_device
  ss_language :: string
  ss_country_code :: string
  ss_queries :: "string list"
  ss_query_runs :: "query_run list"
  ss_result_counts :: "(serp_result_type \<times> nat) list"
  ss_complete_query_count :: nat
  ss_budget :: serp_budget
  ss_limitations :: "string list"

definition ss_context :: "serp_snapshot \<Rightarrow> search_context" where
  "ss_context s = \<lparr>sx_latitude = tp_latitude (ss_target_point s), sx_longitude = tp_longitude (ss_target_point s),
     sx_country_code = ss_country_code s, sx_language = ss_language s, sx_device = ss_device s\<rparr>"

definition run_calls :: "query_run list \<Rightarrow> serp_call list" where
  "run_calls qs = concat (map (\<lambda>q. [qr_maps_call q, qr_google_call q]) qs)"

definition serp_snapshot_valid :: "serp_snapshot \<Rightarrow> bool" where
  "serp_snapshot_valid s \<longleftrightarrow>
     (let qs = ss_query_runs s; calls = run_calls qs; results = concat (map qr_results qs)
      in target_point_valid (ss_target_point s) \<and> language_ok (ss_language s) \<and> country_ok (ss_country_code s)
       \<and> SERP_QUERY_MIN \<le> length (ss_queries s) \<and> length (ss_queries s) \<le> SERP_QUERY_MAX
       \<and> SERP_QUERY_MIN \<le> length qs \<and> length qs \<le> SERP_QUERY_MAX \<and> list_all query_run_valid qs
       \<and> length (ss_result_counts s) = 3
       \<and> list_all (\<lambda>(t, n). n \<le> SERP_QUERY_MAX * SERP_RESULT_LIMIT_PER_TYPE) (ss_result_counts s)
       \<and> SERP_QUERY_MIN \<le> ss_complete_query_count s \<and> ss_complete_query_count s \<le> SERP_QUERY_MAX
       \<and> serp_budget_valid (ss_budget s)
       \<and> length (ss_limitations s) \<le> 100 \<and> list_all (text_len 1 300) (ss_limitations s)
       \<and> ss_started_at s \<le> ss_completed_at s
       \<and> distinct (map lower (ss_queries s))
       \<and> ss_queries s = map qr_query qs
       \<and> map qr_query_index qs = [1..<Suc (length (ss_queries s))]
       \<and> ss_complete_query_count s = length (filter qr_complete qs)
       \<and> bg_logical_calls_planned (ss_budget s) = length (ss_queries s) * SERP_CALLS_PER_QUERY
       \<and> ss_country_code s = tp_country_code (ss_target_point s)
       \<and> list_all (\<lambda>c. sc_context c = ss_context s) calls
       \<and> distinct (map sc_call_id calls)
       \<and> distinct (map sr_record_id results)
       \<and> fst ` set (ss_result_counts s) = {Maps_result, Local_pack, Organic}
       \<and> list_all (\<lambda>t. map_of (rev (ss_result_counts s)) t = Some (count_type t results))
           [Maps_result, Local_pack, Organic]
       \<and> bg_logical_calls_used (ss_budget s) = length (filter sc_logical_call_used calls)
       \<and> bg_provider_attempts (ss_budget s) = sum_list (map sc_provider_attempts calls))"

end
