(* ===== verification/Serp_Location.thy ===== *)
theory Serp_Location
  imports Serp_Models Effects
begin

text \<open>
  The one point a market search is made from (app/collectors/serp_market_location.py): the
  coordinates of the market, or the best match among the provider's locations.
  \<open>nfkd\<close> is NFKD normalisation and case folding, whose tables are a parameter, and \<open>repr\<close> the text
  of a float, list or dict. The requests of the provider are a parameter.
\<close>

record target_market =
  tm_display_name :: string
  tm_country_code :: string
  tm_region :: "string option"
  tm_city :: "string option"
  tm_postal_code :: "string option"
  tm_latitude :: "rat option"
  tm_longitude :: "rat option"

definition target_market_valid :: "target_market \<Rightarrow> bool" where
  "target_market_valid m \<longleftrightarrow>
     text_len 1 200 (tm_display_name m) \<and> country_ok (tm_country_code m)
   \<and> opt_len 120 (tm_region m) \<and> opt_len 120 (tm_city m) \<and> opt_len 32 (tm_postal_code m)
   \<and> (case tm_latitude m of None \<Rightarrow> True | Some x \<Rightarrow> - 90 \<le> x \<and> x \<le> 90)
   \<and> (case tm_longitude m of None \<Rightarrow> True | Some x \<Rightarrow> - 180 \<le> x \<and> x \<le> 180)"

text \<open>Code, user message and whether it is retryable.\<close>

type_synonym location_error = "string \<times> string \<times> bool"

record location_lookup =
  lk_items :: "json list"
  lk_response_checksum :: string

subsection \<open>Texts\<close>

fun squeeze :: "string \<Rightarrow> string" where
  "squeeze [] = []"
| "squeeze (c # cs) =
     (let r = squeeze cs; n = (of_char c :: nat)
      in if (97 \<le> n \<and> n \<le> 122) \<or> is_digit c then c # r
         else if r \<noteq> [] \<and> hd r = CHR '' '' then r else CHR '' '' # r)"

definition normalize_text :: "(string \<Rightarrow> string) \<Rightarrow> string \<Rightarrow> string" where
  "normalize_text nfkd s = strip_chars py_isspace (squeeze (nfkd s))"

definition upper :: "string \<Rightarrow> string" where
  "upper s = map (\<lambda>c. let n = (of_char c :: nat) in if 97 \<le> n \<and> n \<le> 122 then char_of (n - 32) else c) s"

definition US_STATES :: "(string \<times> string) list" where
  "US_STATES =
     [(''AL'', ''Alabama''), (''AK'', ''Alaska''), (''AZ'', ''Arizona''), (''AR'', ''Arkansas''),
      (''CA'', ''California''), (''CO'', ''Colorado''), (''CT'', ''Connecticut''), (''DE'', ''Delaware''),
      (''FL'', ''Florida''), (''GA'', ''Georgia''), (''HI'', ''Hawaii''), (''ID'', ''Idaho''),
      (''IL'', ''Illinois''), (''IN'', ''Indiana''), (''IA'', ''Iowa''), (''KS'', ''Kansas''),
      (''KY'', ''Kentucky''), (''LA'', ''Louisiana''), (''ME'', ''Maine''), (''MD'', ''Maryland''),
      (''MA'', ''Massachusetts''), (''MI'', ''Michigan''), (''MN'', ''Minnesota''),
      (''MS'', ''Mississippi''), (''MO'', ''Missouri''), (''MT'', ''Montana''), (''NE'', ''Nebraska''),
      (''NV'', ''Nevada''), (''NH'', ''New Hampshire''), (''NJ'', ''New Jersey''), (''NM'', ''New Mexico''),
      (''NY'', ''New York''), (''NC'', ''North Carolina''), (''ND'', ''North Dakota''), (''OH'', ''Ohio''),
      (''OK'', ''Oklahoma''), (''OR'', ''Oregon''), (''PA'', ''Pennsylvania''), (''RI'', ''Rhode Island''),
      (''SC'', ''South Carolina''), (''SD'', ''South Dakota''), (''TN'', ''Tennessee''), (''TX'', ''Texas''),
      (''UT'', ''Utah''), (''VT'', ''Vermont''), (''VA'', ''Virginia''), (''WA'', ''Washington''),
      (''WV'', ''West Virginia''), (''WI'', ''Wisconsin''), (''WY'', ''Wyoming''),
      (''DC'', ''District of Columbia'')]"

definition state_name :: "string \<Rightarrow> string" where
  "state_name region = (case map_of US_STATES (upper region) of None \<Rightarrow> region | Some n \<Rightarrow> n)"

definition region_name :: "target_market \<Rightarrow> string" where
  "region_name m =
     (let region = strip_chars py_isspace (opt_text (tm_region m))
      in if tm_country_code m = ''US'' then state_name region else region)"

definition build_location_query :: "target_market \<Rightarrow> string" where
  "build_location_query m =
     (let postal_code = strip_chars py_isspace (opt_text (tm_postal_code m));
          city = strip_chars py_isspace (opt_text (tm_city m)); region = region_name m;
          display = strip_chars py_isspace (tm_display_name m)
      in if postal_code \<noteq> [] then take 300 postal_code
         else if city \<noteq> [] then take 300 (join_with '', '' (filter (\<lambda>w. w \<noteq> []) [city, region]))
         else if tm_country_code m = ''US''
         then (case map (strip_chars py_isspace) (split_on CHR '','' display) of
                 [] \<Rightarrow> []
               | first # rest \<Rightarrow> take 300 (join_with '', '' (first # map state_name rest)))
         else take 300 display)"

subsection \<open>Candidates\<close>

text \<open>\<open>str(item.get(key) or "").strip()\<close>\<close>

definition item_text :: "(json \<Rightarrow> string) \<Rightarrow> string \<Rightarrow> json \<Rightarrow> string" where
  "item_text repr k item =
     (let v = jfind k item in strip_chars py_isspace (if jtruthy v then py_str repr v else []))"

definition before_comma :: "string \<Rightarrow> string" where
  "before_comma s = fst (partition_at CHR '','' s)"

definition token_overlap :: "string \<Rightarrow> string \<Rightarrow> int" where
  "token_overlap display candidate_text =
     (let words = (\<lambda>s. filter (\<lambda>w. w \<noteq> []) (split_on CHR '' '' s))
      in int (length (unique (filter (\<lambda>w. w \<in> set (words candidate_text)) (words display)))))"

definition candidate_score ::
    "(string \<Rightarrow> string) \<Rightarrow> (json \<Rightarrow> string) \<Rightarrow> json \<Rightarrow> target_market \<Rightarrow> int option" where
  "candidate_score nfkd repr item m =
     (let norm = normalize_text nfkd;
          country = (let v = jfind ''country_code'' item in upper (if jtruthy v then py_str repr v else []));
          name = item_text repr ''name'' item; canonical = item_text repr ''canonical_name'' item;
          candidate_text = norm (name @ '' '' @ canonical);
          postal = norm (opt_text (tm_postal_code m)); city = norm (opt_text (tm_city m));
          region = norm (region_name m); display = norm (tm_display_name m);
          target_type = norm (let v = jfind ''target_type'' item in if jtruthy v then py_str repr v else []);
          heads = {norm name, norm (before_comma canonical)};
          postal_match = (postal \<noteq> [] \<and> postal \<in> heads);
          is_matching_postal = (contains ''postal'' target_type \<and> postal_match)
      in if country \<noteq> tm_country_code m then None
         else if name = [] \<or> canonical = [] \<or> candidate_text = [] then None
         else if target_type \<in> {''country'', ''dma region''} then None
         else if postal \<noteq> [] \<and> \<not> postal_match then None
         else if city \<noteq> [] \<and> \<not> contains city candidate_text \<and> \<not> is_matching_postal then None
         else Some
           ((if display \<noteq> [] \<and> display = norm name then 80 else 0)
            + (if display \<noteq> [] \<and> display = norm canonical then 100 else 0)
            + (if postal \<noteq> [] then 100 else 0)
            + (if city \<noteq> [] then 50 + (if city \<in> heads then 100 else 0) else 0)
            + (if region \<noteq> [] \<and> contains region candidate_text then 25 else 0)
            + token_overlap display candidate_text
            + (if is_matching_postal then 40
               else if city \<noteq> [] \<and> target_type = ''city'' then 1000 else 0)))"

text \<open>Latitude and longitude of \<open>gps\<close>, which lists the longitude first.\<close>

fun number_value :: "json \<Rightarrow> rat option" where
  "number_value (JInt n) = Some (of_int n)"
| "number_value (JFloat x) = x"
| "number_value _ = None"

definition coordinates_of :: "json \<Rightarrow> (rat \<times> rat) option" where
  "coordinates_of item =
     (case jfind ''gps'' item of
        JArr [longitude, latitude] \<Rightarrow>
          (case (number_value longitude, number_value latitude) of
             (Some x, Some y) \<Rightarrow>
               if - 180 \<le> x \<and> x \<le> 180 \<and> - 90 \<le> y \<and> y \<le> 90 then Some (y, x) else None
           | _ \<Rightarrow> None)
      | _ \<Rightarrow> None)"

record location_row =
  rw_score :: int
  rw_provider_id :: string
  rw_canonical :: string
  rw_point :: "rat \<times> rat"

definition row_of ::
    "(string \<Rightarrow> string) \<Rightarrow> (json \<Rightarrow> string) \<Rightarrow> target_market \<Rightarrow> json \<Rightarrow> location_row option" where
  "row_of nfkd repr m item =
     (let provider_id = item_text repr ''id'' item; name = item_text repr ''name'' item;
          canonical = item_text repr ''canonical_name'' item
      in if \<not> is_jobj item then None
         else (case (candidate_score nfkd repr item m, coordinates_of item) of
                 (Some score, Some point) \<Rightarrow>
                   if provider_id = [] \<or> 200 < length provider_id \<or> 200 < length name
                      \<or> 300 < length canonical then None
                   else Some \<lparr>rw_score = score, rw_provider_id = provider_id, rw_canonical = canonical,
                              rw_point = point\<rparr>
               | _ \<Rightarrow> None))"

definition location_not_found :: location_error where
  "location_not_found = (''SERP_LOCATION_NOT_FOUND'',
     ''The target market could not be matched to a supported search location.'', False)"

definition location_ambiguous :: location_error where
  "location_ambiguous = (''SERP_LOCATION_AMBIGUOUS'',
     ''The target market matches more than one supported search location.'', False)"

definition select_row :: "location_row list \<Rightarrow> location_error + location_row" where
  "select_row scored =
     (case sort_key (\<lambda>r. (- rw_score r, rw_provider_id r)) scored of
        [] \<Rightarrow> Inl location_not_found
      | best # rest \<Rightarrow>
          (let finalists = filter (\<lambda>r. rw_score r = rw_score best) (best # rest)
           in if length (unique (map (\<lambda>r. (rw_canonical r, rw_point r)) finalists)) \<noteq> 1
              then Inl location_ambiguous
              else Inr (hd finalists)))"

definition explicit_point :: "target_market \<Rightarrow> rat \<Rightarrow> rat \<Rightarrow> timestamp \<Rightarrow> target_point" where
  "explicit_point m latitude longitude now =
     \<lparr>tp_requested_label = tm_display_name m, tp_canonical_name = tm_display_name m,
      tp_country_code = tm_country_code m, tp_latitude = latitude, tp_longitude = longitude,
      tp_source = Explicit_coordinates, tp_provider_location_id = None, tp_resolved_at = now,
      tp_response_checksum = None\<rparr>"

definition provider_point :: "target_market \<Rightarrow> location_row \<Rightarrow> string \<Rightarrow> timestamp \<Rightarrow> target_point" where
  "provider_point m r checksum now =
     \<lparr>tp_requested_label = tm_display_name m, tp_canonical_name = rw_canonical r,
      tp_country_code = tm_country_code m, tp_latitude = fst (rw_point r), tp_longitude = snd (rw_point r),
      tp_source = Provider_location, tp_provider_location_id = Some (rw_provider_id r), tp_resolved_at = now,
      tp_response_checksum = Some checksum\<rparr>"

definition select_point ::
    "(string \<Rightarrow> string) \<Rightarrow> (json \<Rightarrow> string) \<Rightarrow> target_market \<Rightarrow> location_lookup \<Rightarrow> timestamp
     \<Rightarrow> location_error + target_point" where
  "select_point nfkd repr m lookup now =
     (case select_row (List.map_filter (row_of nfkd repr m) (take 10 (lk_items lookup))) of
        Inl e \<Rightarrow> Inl e
      | Inr r \<Rightarrow> Inr (provider_point m r (lk_response_checksum lookup) now))"

text \<open>
  \<open>resolve_target_point\<close>: a resolution error is a value of the result, another exception of
  the provider, or a point that is not valid, an exception.
\<close>

definition resolve_target_point ::
    "(string \<Rightarrow> string) \<Rightarrow> (json \<Rightarrow> string) \<Rightarrow> target_market
     \<Rightarrow> (string \<Rightarrow> ('s, location_error + location_lookup) program) option \<Rightarrow> timestamp
     \<Rightarrow> ('s, location_error + target_point) program" where
  "resolve_target_point nfkd repr m provider now =
     (case (tm_latitude m, tm_longitude m) of
        (Some x, Some y) \<Rightarrow>
          if target_point_valid (explicit_point m x y now) then ret (Inr (explicit_point m x y now))
          else throw ValidationError
      | (None, None) \<Rightarrow>
          (case provider of
             None \<Rightarrow> ret (Inl (''SERP_LOCATION_PROVIDER_UNAVAILABLE'',
                       ''The target market could not be resolved to one search point.'', True))
           | Some search \<Rightarrow>
               andThen (search (build_location_query m)) (\<lambda>answer.
                 case answer of
                   Inl e \<Rightarrow> ret (Inl e)
                 | Inr lookup \<Rightarrow>
                     (case select_point nfkd repr m lookup now of
                        Inl e \<Rightarrow> ret (Inl e)
                      | Inr p \<Rightarrow> if target_point_valid p then ret (Inr p) else throw ValidationError)))
      | _ \<Rightarrow> ret (Inl (''SERP_LOCATION_COORDINATES_INCOMPLETE'',
                ''The target market must provide both latitude and longitude.'', False)))"

subsection \<open>The point that is chosen\<close>

lemma set_unique [simp]: "set (unique xs) = set xs"
  by (induction xs rule: unique.induct) auto

lemma distinct_unique [simp]: "distinct (unique xs)"
  by (induction xs rule: unique.induct) auto

lemma length_unique_1: "length (unique xs) = 1 \<longleftrightarrow> (\<exists>a. set xs = {a})"
  by (metis distinct_card distinct_unique set_unique card_1_singleton_iff One_nat_def)

lemma select_row_iff:
  "select_row rows = Inr r \<longleftrightarrow>
     r \<in> set rows \<and> (\<exists>first. sort_key (\<lambda>r. (- rw_score r, rw_provider_id r)) rows = r # first)
     \<and> (\<forall>r' \<in> set rows. rw_score r' = rw_score r \<longrightarrow> (rw_canonical r', rw_point r') = (rw_canonical r, rw_point r))"
proof (cases "sort_key (\<lambda>r. (- rw_score r, rw_provider_id r)) rows")
  case Nil
  then show ?thesis by (simp add: select_row_def)
next
  case (Cons best rest)
  then have set: "set rows = insert best (set rest)" by (metis list.simps(15) set_sort)
  have "length (unique (map (\<lambda>r. (rw_canonical r, rw_point r))
      (filter (\<lambda>r. rw_score r = rw_score best) (best # rest)))) = 1 \<longleftrightarrow>
    (\<forall>r' \<in> set rows. rw_score r' = rw_score best \<longrightarrow>
       (rw_canonical r', rw_point r') = (rw_canonical best, rw_point best))"
    unfolding length_unique_1 by (auto simp: set)
  then show ?thesis using set by (auto simp: select_row_def Cons Let_def)
qed

text \<open>It does not depend on the order in which the provider lists its locations.\<close>

lemma select_row_order:
  assumes "select_row rows = Inr r" "mset rows' = mset rows"
  shows "\<exists>r'. select_row rows' = Inr r' \<and> (rw_score r', rw_provider_id r', rw_canonical r', rw_point r')
    = (rw_score r, rw_provider_id r, rw_canonical r, rw_point r)"
proof -
  let ?k = "\<lambda>r. (- rw_score r, rw_provider_id r)"
  have set: "set rows' = set rows" using assms(2) by (rule mset_eq_setD)
  have r: "r \<in> set rows" "\<And>r'. r' \<in> set rows \<Longrightarrow> rw_score r' = rw_score r \<Longrightarrow>
      (rw_canonical r', rw_point r') = (rw_canonical r, rw_point r)"
    and first: "\<exists>rest. sort_key ?k rows = r # rest"
    using assms(1) unfolding select_row_iff by blast+
  have least: "?k r \<le> ?k x" if "x \<in> set rows" for x
  proof -
    obtain rest where rest: "sort_key ?k rows = r # rest" using first by blast
    then have "sorted (map ?k (r # rest))" by (metis sorted_sort_key)
    moreover have "x \<in> set (r # rest)" using that rest by (metis set_sort)
    ultimately show ?thesis by auto
  qed
  obtain r' rest' where r': "sort_key ?k rows' = r' # rest'"
    using r(1) set by (metis list.exhaust set_sort empty_iff list.set(1))
  then have "sorted (map ?k (r' # rest'))" by (metis sorted_sort_key)
  moreover have in': "r' \<in> set rows'" "r \<in> set (r' # rest')"
    using r' r(1) set by (metis list.set_intros(1) set_sort)+
  ultimately have "?k r' \<le> ?k r" by auto
  with least [of r'] in'(1) set have "?k r' = ?k r" by auto
  then have k: "rw_score r' = rw_score r" "rw_provider_id r' = rw_provider_id r" by auto
  then have "select_row rows' = Inr r'"
    unfolding select_row_iff using in'(1) r' r(2) set by auto
  then show ?thesis using k r(2) [of r'] in'(1) set by auto
qed

lemma mset_map_filter: "mset xs = mset ys \<Longrightarrow> mset (List.map_filter f xs) = mset (List.map_filter f ys)"
  by (simp add: List.map_filter_def)

lemma select_point_order:
  assumes "select_point nfkd repr m (lookup\<lparr>lk_items := items\<rparr>) now = Inr p"
    and "mset items' = mset items" "length items \<le> 10"
  shows "select_point nfkd repr m (lookup\<lparr>lk_items := items'\<rparr>) now = Inr p"
proof -
  have len: "length items' \<le> 10" using assms(2,3) by (metis size_mset)
  obtain r where r: "select_row (List.map_filter (row_of nfkd repr m) items) = Inr r"
    "p = provider_point m r (lk_response_checksum lookup) now"
    using assms(1,3) by (auto simp: select_point_def split: sum.splits)
  from select_row_order [OF r(1) mset_map_filter [OF assms(2)]] obtain r' where
    "select_row (List.map_filter (row_of nfkd repr m) items') = Inr r'"
    "rw_provider_id r' = rw_provider_id r" "rw_canonical r' = rw_canonical r" "rw_point r' = rw_point r"
    by blast
  then show ?thesis using r(2) len by (simp add: select_point_def provider_point_def)
qed

text \<open>A chosen point is valid.\<close>

lemma candidate_score_canonical:
  "item_text repr ''canonical_name'' item = [] \<Longrightarrow> candidate_score nfkd repr item m = None"
  by (simp add: candidate_score_def Let_def)

lemma coordinates_of_bounds:
  "coordinates_of item = Some q \<Longrightarrow>
   - 90 \<le> fst q \<and> fst q \<le> 90 \<and> - 180 \<le> snd q \<and> snd q \<le> 180"
  by (auto simp: coordinates_of_def split: json.splits list.splits option.splits if_splits)

lemma row_of_Some:
  assumes "row_of nfkd repr m item = Some r"
  obtains score where "candidate_score nfkd repr item m = Some score" "coordinates_of item = Some (rw_point r)"
    "rw_provider_id r \<noteq> []" "length (rw_provider_id r) \<le> 200"
    "rw_canonical r = item_text repr ''canonical_name'' item" "length (rw_canonical r) \<le> 300"
  using assms that by (auto simp: row_of_def Let_def split: if_splits option.splits)

lemma row_of_bounds:
  assumes "row_of nfkd repr m item = Some r"
  shows "text_len 1 200 (rw_provider_id r)" "text_len 1 300 (rw_canonical r)"
    "- 90 \<le> fst (rw_point r)" "fst (rw_point r) \<le> 90" "- 180 \<le> snd (rw_point r)" "snd (rw_point r) \<le> 180"
proof -
  obtain score where r: "candidate_score nfkd repr item m = Some score" "coordinates_of item = Some (rw_point r)"
    "rw_provider_id r \<noteq> []" "length (rw_provider_id r) \<le> 200"
    "rw_canonical r = item_text repr ''canonical_name'' item" "length (rw_canonical r) \<le> 300"
    using assms by (rule row_of_Some)
  have "rw_canonical r \<noteq> []"
    unfolding r(5) using candidate_score_canonical r(1) by (metis option.distinct(1))
  with r show "text_len 1 200 (rw_provider_id r)" "text_len 1 300 (rw_canonical r)"
    by (simp_all add: text_len_def Suc_le_eq)
  show "- 90 \<le> fst (rw_point r)" "fst (rw_point r) \<le> 90" "- 180 \<le> snd (rw_point r)" "snd (rw_point r) \<le> 180"
    using coordinates_of_bounds [OF r(2)] by blast+
qed

lemma select_point_valid:
  assumes "target_market_valid m" "valid_digest (lk_response_checksum lookup)"
    and "select_point nfkd repr m lookup now = Inr p"
  shows "target_point_valid p"
proof -
  obtain r where r: "select_row (List.map_filter (row_of nfkd repr m) (take 10 (lk_items lookup))) = Inr r"
    "p = provider_point m r (lk_response_checksum lookup) now"
    using assms(3) by (auto simp: select_point_def split: sum.splits)
  then have "r \<in> set (List.map_filter (row_of nfkd repr m) (take 10 (lk_items lookup)))"
    by (simp add: select_row_iff)
  then obtain item where "row_of nfkd repr m item = Some r"
    by (auto simp: List.map_filter_def)
  note bounds = row_of_bounds [OF this]
  show ?thesis using assms(1,2) bounds
    by (auto simp: r(2) provider_point_def target_point_valid_def target_market_valid_def opt_len_def
        opt_digest_def text_len_def)
qed

lemma explicit_point_valid:
  "target_market_valid m \<Longrightarrow> tm_latitude m = Some x \<Longrightarrow> tm_longitude m = Some y \<Longrightarrow>
   target_point_valid (explicit_point m x y now)"
  by (simp add: target_market_valid_def explicit_point_def target_point_valid_def opt_len_def
      opt_digest_def text_len_def)

end
