(* ===== verification/Serp_Keys.thy ===== *)
theory Serp_Keys
  imports Serp_Location Circuit_Breaker
begin

text \<open>
  Rotation of the provider's keys (app/integrations/serpapi.py): one logical request is tried
  with one configured key after the other, the last one that worked first, without those that
  are cooling down. A program runs on the server's state and the memory of the process:
  the key state, the permits and claims of attempts that are under way, and, for the statements
  about it, the number of requests sent. Monotonic times are microseconds.
\<close>

record serp_process =
  sp_active_fingerprint :: string
  sp_blocked_until :: "(string \<times> int) list"
  sp_key_permits :: "(string \<times> circuit_permit) list"
  sp_active_claims :: "((nat \<times> string) \<times> uuid \<times> int) list"
  sp_sent :: nat

type_synonym ('s, 'a) serp_program = "('s \<times> serp_process, 'a) program"

definition new_process :: serp_process where
  "new_process = \<lparr>sp_active_fingerprint = [], sp_blocked_until = [], sp_key_permits = [],
     sp_active_claims = [], sp_sent = 0\<rparr>"

text \<open>An operation on the server, and one on the memory of the process.\<close>

definition on_server :: "('s, 'a) program \<Rightarrow> ('s, 'a) serp_program" where
  "on_server p = (\<lambda>(s, q). case p s of (s', r) \<Rightarrow> ((s', q), r))"

definition update_process :: "(serp_process \<Rightarrow> serp_process) \<Rightarrow> ('s, unit) serp_program" where
  "update_process f = (\<lambda>(s, q). ((s, f q), Inr ()))"

definition read_process :: "(serp_process \<Rightarrow> 'a) \<Rightarrow> ('s, 'a) serp_program" where
  "read_process f = (\<lambda>(s, q). ((s, q), Inr (f q)))"

subsection \<open>Keys and answers\<close>

definition configured_serpapi_keys :: "string option list \<Rightarrow> string list" where
  "configured_serpapi_keys vs =
     unique (filter (\<lambda>k. k \<noteq> []) (map (\<lambda>v. strip_chars py_isspace (opt_text v)) vs))"

definition serpapi_key_fingerprint :: "(string \<Rightarrow> string) \<Rightarrow> string \<Rightarrow> string" where
  "serpapi_key_fingerprint sha256 key = take 12 (sha256 key)"

definition serpapi_payload_error :: "(json \<Rightarrow> string) \<Rightarrow> json \<Rightarrow> string option" where
  "serpapi_payload_error repr data =
     (let error = jfind ''error'' data
      in if jtruthy error then Some (py_str repr error)
         else (case jfind ''search_metadata'' data of
                 JObj kvs \<Rightarrow>
                   (let v = jfind ''status'' (JObj kvs);
                        status = lower (strip_chars py_isspace (if jtruthy v then py_str repr v else []))
                    in if status \<noteq> [] \<and> status \<notin> {''success'', ''cached''}
                       then Some (''SerpAPI search status was '' @ py_str repr v @ ''.'') else None)
               | _ \<Rightarrow> None))"

datatype key_failure = Invalid_or_forbidden | Monthly_quota_exhausted | Rate_limited

fun key_failure_name :: "key_failure \<Rightarrow> string" where
  "key_failure_name Invalid_or_forbidden = ''invalid_or_forbidden''"
| "key_failure_name Monthly_quota_exhausted = ''monthly_quota_exhausted''"
| "key_failure_name Rate_limited = ''rate_limited''"

definition FORBIDDEN_MARKERS :: "string list" where
  "FORBIDDEN_MARKERS = [''invalid api key'', ''no valid api key'', ''account has been deleted'',
     ''account is disabled'', ''doesn t have permission'']"

definition serpapi_key_failure_kind :: "(string \<Rightarrow> string) \<Rightarrow> int \<Rightarrow> string option \<Rightarrow> key_failure option" where
  "serpapi_key_failure_kind nfkd status_code message =
     (let normalized = normalize_text nfkd (opt_text message)
      in if status_code \<in> {401, 403} \<or> list_ex (\<lambda>m. contains m normalized) FORBIDDEN_MARKERS
         then Some Invalid_or_forbidden
         else if contains ''run out of searches'' normalized \<or> contains ''no searches remaining'' normalized
         then Some Monthly_quota_exhausted
         else if status_code = 429 then Some Rate_limited
         else None)"

subsection \<open>One logical request\<close>

text \<open>
  What the provider answers: a status and the JSON value of the body, None when the body is no
  JSON. An exception of the client is one of the program \<open>send\<close>. \<open>BaseException\<close>s that are no
  \<open>Exception\<close> (the cancellation of the task, here also by \<open>asyncio.timeout\<close>) pass through.
\<close>

type_synonym http_answer = "int \<times> json option"

record serpapi_response =
  sa_payload :: json
  sa_attempt_count :: nat
  sa_key_slot :: nat
  sa_key_fingerprint :: string

record 's key_run =
  kr_sha256 :: "string \<Rightarrow> string"
  kr_repr :: "json \<Rightarrow> string"
  kr_nfkd :: "string \<Rightarrow> string"
  kr_send :: "string \<Rightarrow> ('s, http_answer) program"
  kr_monotonic :: "('s, int) program"
  kr_before_attempt :: "nat \<Rightarrow> string \<Rightarrow> ('s, unit) serp_program"
  kr_key_available :: "string \<Rightarrow> ('s, bool) serp_program"
  kr_after_attempt :: "nat \<Rightarrow> string \<Rightarrow> string option \<Rightarrow> ('s, unit) serp_program"

definition is_exception :: "exn \<Rightarrow> bool" where
  "is_exception e \<longleftrightarrow> e \<noteq> CancelledError \<and> e \<noteq> TimeoutError"

definition blocked_until :: "serp_process \<Rightarrow> string \<Rightarrow> int" where
  "blocked_until q fingerprint = (case map_of (sp_blocked_until q) fingerprint of None \<Rightarrow> 0 | Some t \<Rightarrow> t)"

definition key_order :: "(string \<Rightarrow> string) \<Rightarrow> string \<Rightarrow> string list \<Rightarrow> (nat \<times> string) list" where
  "key_order sha256 active keys =
     sort_key (\<lambda>(i, k). (serpapi_key_fingerprint sha256 k \<noteq> active, i)) (enumerate 0 keys)"

fun available_keys :: "'s key_run \<Rightarrow> int \<Rightarrow> (nat \<times> string) list \<Rightarrow> ('s, (nat \<times> string) list) serp_program" where
  "available_keys G now [] = ret []"
| "available_keys G now ((slot, key) # rest) =
     (let fingerprint = serpapi_key_fingerprint (kr_sha256 G) key
      in andThen (read_process (\<lambda>q. blocked_until q fingerprint \<le> now)) (\<lambda>cool.
         andThen (if cool then kr_key_available G fingerprint else ret False) (\<lambda>ok.
         andThen (available_keys G now rest) (\<lambda>ks. ret (if ok then (slot, key) # ks else ks)))))"

definition block_key :: "string \<Rightarrow> int \<Rightarrow> serp_process \<Rightarrow> serp_process" where
  "block_key fingerprint until q =
     q\<lparr>sp_blocked_until := AList.update fingerprint until (sp_blocked_until q),
       sp_active_fingerprint := (if sp_active_fingerprint q = fingerprint then [] else sp_active_fingerprint q)\<rparr>"

text \<open>\<open>client.get\<close>, counted\<close>

definition send_request :: "'s key_run \<Rightarrow> string \<Rightarrow> ('s, http_answer) serp_program" where
  "send_request G key =
     andThen (update_process (\<lambda>q. q\<lparr>sp_sent := Suc (sp_sent q)\<rparr>)) (\<lambda>_. on_server (kr_send G key))"

text \<open>The outcome of a request that was answered: a response, an error, or None to try the next key.\<close>

definition read_answer ::
    "'s key_run \<Rightarrow> nat \<Rightarrow> string \<Rightarrow> nat \<Rightarrow> http_answer \<Rightarrow> ('s, serpapi_response option) serp_program" where
  "read_answer G slot fingerprint attempt_count answer =
     (case snd answer of
        None \<Rightarrow>
          andThen (kr_after_attempt G (slot + 1) fingerprint (Some ''invalid_response''))
            (\<lambda>_. throw SerpApiInvalidResponse)
      | Some payload \<Rightarrow>
          (let data = (if is_jobj payload then payload else JObj []);
               status_code = (if fst answer = 0 then 200 else fst answer)
           in case serpapi_key_failure_kind (kr_nfkd G) status_code (serpapi_payload_error (kr_repr G) data) of
                Some failure_kind \<Rightarrow>
                  andThen (kr_after_attempt G (slot + 1) fingerprint (Some (key_failure_name failure_kind))) (\<lambda>_.
                  andThen (on_server (kr_monotonic G)) (\<lambda>t.
                  andThen (update_process (block_key fingerprint
                             (t + seconds (if failure_kind = Rate_limited then 60 else 300))))
                    (\<lambda>_. ret None)))
              | None \<Rightarrow>
                  if 400 \<le> status_code
                  then andThen (kr_after_attempt G (slot + 1) fingerprint (Some (''http_'' @ int_str status_code)))
                         (\<lambda>_. throw (SerpApiHttpError status_code))
                  else
                    andThen (update_process (\<lambda>q. q\<lparr>sp_active_fingerprint := fingerprint\<rparr>)) (\<lambda>_.
                    andThen (kr_after_attempt G (slot + 1) fingerprint None) (\<lambda>_.
                      ret (Some \<lparr>sa_payload = data, sa_attempt_count = attempt_count,
                                 sa_key_slot = slot + 1, sa_key_fingerprint = fingerprint\<rparr>)))))"

fun try_keys :: "'s key_run \<Rightarrow> nat \<Rightarrow> (nat \<times> string) list \<Rightarrow> ('s, serpapi_response) serp_program" where
  "try_keys G attempts [] = throw SerpApiKeysUnavailable"
| "try_keys G attempts ((slot, key) # rest) =
     (let fingerprint = serpapi_key_fingerprint (kr_sha256 G) key
      in andThen (kr_before_attempt G (slot + 1) fingerprint) (\<lambda>_.
         andThen
           (handle (send_request G key)
              (\<lambda>e. if is_exception e
                   then andThen (kr_after_attempt G (slot + 1) fingerprint (Some ''transport''))
                          (\<lambda>_. throw (SerpApiTransportError (e = ResponseTooLarge)))
                   else throw e))
           (\<lambda>answer.
              andThen (read_answer G slot fingerprint (attempts + 1) answer) (\<lambda>r.
                case r of
                  Some response \<Rightarrow> ret response
                | None \<Rightarrow> try_keys G (attempts + 1) rest))))"

definition execute_serpapi_get :: "'s key_run \<Rightarrow> string list \<Rightarrow> ('s, serpapi_response) serp_program" where
  "execute_serpapi_get G keys =
     (let configured = configured_serpapi_keys (map Some keys)
      in if configured = [] then throw SerpApiKeysUnavailable
         else
           andThen (on_server (kr_monotonic G)) (\<lambda>now.
           andThen (read_process (\<lambda>q. key_order (kr_sha256 G) (sp_active_fingerprint q) configured)) (\<lambda>ordered.
           andThen (available_keys G now ordered) (\<lambda>available.
             if available = [] then throw SerpApiKeysUnavailable
             else try_keys G 0 available))))"

end
