(* ===== verification/Serp_Plan.thy ===== *)
theory Serp_Plan
  imports Serp_Models
begin

text \<open>
  Planning the calls of a market search (app/collectors/serp_market_requests.py): two
  requests for each query, one to each engine, each named by the digest of its parameters.
\<close>

subsection \<open>Coordinates\<close>

text \<open>\<open>round\<close> to the nearest integer, ties to the even one\<close>

definition round_half_even :: "rat \<Rightarrow> int" where
  "round_half_even x =
     (let f = \<lfloor>x\<rfloor>; d = x - of_int f
      in if d < 1 / 2 then f else if 1 / 2 < d then f + 1 else if even f then f else f + 1)"

definition rstrip :: "char \<Rightarrow> string \<Rightarrow> string" where
  "rstrip c s = rev (dropWhile (\<lambda>x. x = c) (rev s))"

definition zero_pad :: "nat \<Rightarrow> string \<Rightarrow> string" where
  "zero_pad n s = replicate (n - length s) CHR ''0'' @ s"

text \<open>\<open>f"{value:.7f}".rstrip("0").rstrip(".")\<close>\<close>

definition coordinate :: "rat \<Rightarrow> string" where
  "coordinate v =
     (if v = 0 then ''0''
      else (let n = nat (round_half_even (\<bar>v\<bar> * 10 ^ 7))
            in (if v < 0 then ''-'' else '''')
               @ rstrip CHR ''.'' (rstrip CHR ''0''
                   (nat_str (n div 10 ^ 7) @ ''.'' @ zero_pad 7 (nat_str (n mod 10 ^ 7))))))"

subsection \<open>Calls\<close>

definition params_of ::
    "serp_engine \<Rightarrow> string \<Rightarrow> target_point \<Rightarrow> search_device \<Rightarrow> string \<Rightarrow> (string \<times> string) list" where
  "params_of engine query point device language =
     (let country = lower (tp_country_code point);
          latitude = coordinate (tp_latitude point); longitude = coordinate (tp_longitude point)
      in if engine = Google_maps
         then [(''engine'', ''google_maps''), (''q'', query), (''type'', ''search''),
               (''ll'', ''@'' @ latitude @ '','' @ longitude @ '','' @ int_str SERP_MAP_ZOOM @ ''z''),
               (''gl'', country), (''hl'', language), (''device'', device_name device)]
         else [(''engine'', ''google''), (''q'', query), (''lat'', latitude), (''lon'', longitude),
               (''gl'', country), (''hl'', language), (''device'', device_name device), (''num'', ''20'')])"

definition params_digest :: "runtime_env \<Rightarrow> (string \<times> string) list \<Rightarrow> string" where
  "params_digest E params =
     request_digest E (JObj [(''schema_version'', JStr ''serp_request_v1''),
                             (''params'', JObj (map (map_prod id JStr) params))])"

definition planned_call_of ::
    "runtime_env \<Rightarrow> nat \<Rightarrow> string \<Rightarrow> serp_engine \<Rightarrow> target_point \<Rightarrow> search_device \<Rightarrow> string \<Rightarrow> planned_call"
where
  "planned_call_of E index query engine point device language =
     (let params = params_of engine query point device language; digest = params_digest E params
      in \<lparr>pc_call_id = request_digest E (JObj [(''schema_version'', JStr ''serp_call_id_v1''),
                                              (''request'', JStr digest)]),
          pc_request_digest = digest, pc_query_index = index, pc_query = query, pc_engine = engine,
          pc_result_types = result_types_of engine, pc_params = params\<rparr>)"

definition build_serp_search_plan ::
    "runtime_env \<Rightarrow> string list \<Rightarrow> target_point \<Rightarrow> search_device \<Rightarrow> string \<Rightarrow> exn + search_plan" where
  "build_serp_search_plan E queries point device language =
     (let normalized = map (strip_chars py_isspace) queries;
          calls = map (\<lambda>(index, query, engine). planned_call_of E index query engine point device language)
                    (call_order normalized);
          plan = \<lparr>pl_target_point = point, pl_device = device, pl_language = language,
                   pl_country_code = tp_country_code point, pl_queries = normalized, pl_calls = calls\<rparr>
      in if \<not> (SERP_QUERY_MIN \<le> length normalized \<and> length normalized \<le> SERP_QUERY_MAX)
         then Inl (ValueError ''SERP requires three to five queries'')
         else if list_ex (\<lambda>q. q = [] \<or> 300 < length q) normalized
         then Inl (ValueError ''SERP queries must be non-empty and bounded'')
         else if \<not> distinct (map lower normalized)
         then Inl (ValueError ''SERP queries must be unique'')
         else if \<not> list_all planned_call_valid calls then Inl ValidationError
         else if SERP_LOGICAL_CALL_LIMIT < length calls
         then Inl (ValueError ''SERP logical call budget exceeded'')
         else if \<not> search_plan_valid plan then Inl ValidationError
         else Inr plan)"

subsection \<open>When there is a plan\<close>

lemma length_call_order: "length (call_order qs) = 2 * length qs"
proof -
  have "length (concat (map (\<lambda>(i, q). [(i, q, Google_maps), (i, q, Google)]) xs)) = 2 * length xs"
    for xs :: "(nat \<times> string) list"
    by (induction xs) auto
  then show ?thesis by (simp add: call_order_def)
qed

lemma set_call_order:
  "(i, q, e) \<in> set (call_order qs) \<longleftrightarrow> 1 \<le> i \<and> i \<le> length qs \<and> q = qs ! (i - 1)"
proof -
  have "(i, q, e) \<in> set (call_order qs) \<longleftrightarrow> (i, q) \<in> set (enumerate 1 qs)"
    by (cases e) (auto simp: call_order_def)
  also have "\<dots> \<longleftrightarrow> 1 \<le> i \<and> i \<le> length qs \<and> q = qs ! (i - 1)"
    by (auto simp: in_set_enumerate_eq)
  finally show ?thesis .
qed

lemma planned_fields [simp]:
  "pc_query_index (planned_call_of E i q e p d l) = i" "pc_query (planned_call_of E i q e p d l) = q"
  "pc_engine (planned_call_of E i q e p d l) = e"
  "pc_result_types (planned_call_of E i q e p d l) = result_types_of e"
  "pc_params (planned_call_of E i q e p d l) = params_of e q p d l"
  "pc_request_digest (planned_call_of E i q e p d l) = params_digest E (params_of e q p d l)"
  by (simp_all add: planned_call_of_def Let_def)

lemma planned_call_of_valid:
  assumes "env_ok E" "1 \<le> i" "i \<le> 5" "text_len 1 300 q"
  shows "planned_call_valid (planned_call_of E i q e p d l)"
  using assms valid_digest_request_digest
  by (cases e)
    (auto simp: planned_call_valid_def serp_limits params_digest_def params_of_def Let_def planned_call_of_def)

lemma params_of_query: "params_of e q p d l = params_of e' q' p d l \<Longrightarrow> e = e' \<and> q = q'"
  by (cases e; cases e') (auto simp: params_of_def Let_def)

text \<open>The parameters of the planned requests: what a digest must tell apart.\<close>

definition plan_params ::
    "string list \<Rightarrow> target_point \<Rightarrow> search_device \<Rightarrow> string \<Rightarrow> (string \<times> string) list list" where
  "plan_params queries point device language =
     map (\<lambda>(index, query, engine). params_of engine query point device language)
       (call_order (map (strip_chars py_isspace) queries))"

lemma distinct_plan_params:
  assumes "distinct (map (strip_chars py_isspace) queries)"
  shows "distinct (plan_params queries point device language)"
proof -
  let ?qs = "map (strip_chars py_isspace) queries"
  have "distinct (concat (map (\<lambda>x. [(snd x, Google_maps), (snd x, Google)]) xs))"
    if "distinct (map snd xs)" for xs :: "(nat \<times> string) list"
    using that by (induction xs) force+
  from this [of "enumerate 1 ?qs"] assms
  have d: "distinct (map snd (call_order ?qs))"
    by (simp add: call_order_def map_concat comp_def case_prod_beta)
  show ?thesis
    unfolding plan_params_def distinct_map
  proof
    show "distinct (call_order ?qs)" using d by (simp add: distinct_map)
    have inj: "inj_on snd (set (call_order ?qs))" using d by (simp add: distinct_map)
    show "inj_on (\<lambda>(index, query, engine). params_of engine query point device language) (set (call_order ?qs))"
    proof (rule inj_onI)
      fix x y
      assume xy: "x \<in> set (call_order ?qs)" "y \<in> set (call_order ?qs)"
        "(\<lambda>(index, query, engine). params_of engine query point device language) x
         = (\<lambda>(index, query, engine). params_of engine query point device language) y"
      then have "snd x = snd y" by (auto simp: case_prod_beta prod_eq_iff dest: params_of_query)
      then show "x = y" using inj xy by (simp add: inj_on_eq_iff)
    qed
  qed
qed

lemma plan_exists_iff:
  assumes "env_ok E" "target_point_valid point" "language_ok language"
    and "inj_on (params_digest E) (set (plan_params queries point device language))"
  shows "(\<exists>plan. build_serp_search_plan E queries point device language = Inr plan) \<longleftrightarrow>
     3 \<le> length queries \<and> length queries \<le> 5
     \<and> (\<forall>q \<in> set queries. text_len 1 300 (strip_chars py_isspace q))
     \<and> distinct (map (\<lambda>q. lower (strip_chars py_isspace q)) queries)"
    (is "_ \<longleftrightarrow> ?ok")
proof
  let ?qs = "map (strip_chars py_isspace) queries"
  let ?calls = "map (\<lambda>(i, q, e). planned_call_of E i q e point device language) (call_order ?qs)"
  assume ?ok
  then have len: "3 \<le> length queries" "length queries \<le> 5"
    and texts: "\<And>q. q \<in> set ?qs \<Longrightarrow> text_len 1 300 q" and low: "distinct (map lower ?qs)"
    by (auto simp: comp_def)
  have valid: "list_all planned_call_valid ?calls"
  proof (clarsimp simp: list_all_iff)
    fix i q e assume "(i, q, e) \<in> set (call_order ?qs)"
    then have "1 \<le> i" "i \<le> length ?qs" "q = ?qs ! (i - 1)" unfolding set_call_order by blast+
    moreover from this have "q \<in> set ?qs" by (metis nth_mem One_nat_def Suc_pred less_eq_Suc_le)
    ultimately show "planned_call_valid (planned_call_of E i q e point device language)"
      using len texts by (intro planned_call_of_valid assms(1)) auto
  qed
  have "distinct ?qs" using low distinct_map [of lower ?qs] by blast
  then have "distinct (map (params_digest E) (plan_params queries point device language))"
    by (simp add: distinct_map distinct_plan_params assms(4))
  then have digests: "distinct (map pc_request_digest ?calls)"
    by (simp add: plan_params_def comp_def case_prod_beta)
  have order: "map (\<lambda>c. (pc_query_index c, pc_query c, pc_engine c)) ?calls = call_order ?qs"
    by (simp add: comp_def case_prod_beta)
  have "\<not> list_ex (\<lambda>q. q = [] \<or> 300 < length q) ?qs"
    by (auto simp: list_ex_iff simp del: set_map dest!: texts) (simp_all add: text_len_def)
  then show "\<exists>plan. build_serp_search_plan E queries point device language = Inr plan"
    using len low valid digests order assms(2,3)
    by (auto simp: build_serp_search_plan_def Let_def serp_limits search_plan_valid_def length_call_order
        target_point_valid_def)
next
  assume "\<exists>plan. build_serp_search_plan E queries point device language = Inr plan"
  then show ?ok
    by (auto simp: build_serp_search_plan_def Let_def serp_limits list_ex_iff text_len_def comp_def Suc_le_eq
        split: if_splits)
qed

lemma plan_valid:
  "build_serp_search_plan E queries point device language = Inr plan \<Longrightarrow>
   search_plan_valid plan \<and> pl_queries plan = map (strip_chars py_isspace) queries
   \<and> pl_target_point plan = point \<and> pl_device plan = device \<and> pl_language plan = language"
  by (auto simp: build_serp_search_plan_def Let_def split: if_splits)

end
