(* ===== verification/Serp_Collector.thy ===== *)
theory Serp_Collector
  imports Serp_Plan Serp_Location
begin

text \<open>
  Collecting a market (app/collectors/serp_market.py): the planned calls one after the other,
  the results of each, the pairs of calls as query runs, and the snapshot. The provider
  and the clock are programs on a state of any type. \<open>http_url\<close> is the text of pydantic's
  HttpUrl, None for a text that is no URL.
\<close>

record serp_env =
  se_env :: runtime_env
  se_repr :: "json \<Rightarrow> string"
  se_http_url :: "string \<Rightarrow> string option"

record provider_response =
  pr_payload :: json
  pr_provider_attempts :: int
  pr_logical_call_used :: bool
  pr_checkpoint_hit :: bool
  pr_started_at :: "timestamp option"
  pr_completed_at :: "timestamp option"

subsection \<open>The results of a call\<close>

definition limitation :: "serp_result_type \<Rightarrow> string \<Rightarrow> string" where
  "limitation t what = ''SERP_'' @ upper (result_type_name t) @ what"

definition opt_json :: "string option \<Rightarrow> json" where
  "opt_json x = (case x of None \<Rightarrow> JNull | Some s \<Rightarrow> JStr s)"

text \<open>What is read of an item before its record is built.\<close>

record result_draft =
  rd_display_name :: string
  rd_provider_position :: "int option"
  rd_position :: int
  rd_url :: "string option"
  rd_domain :: "string option"
  rd_place_id :: "string option"
  rd_data_id :: "string option"

definition draft_url :: "serp_env \<Rightarrow> serp_result_type \<Rightarrow> json \<Rightarrow> string option \<times> string option" where
  "draft_url S t item =
     (let v = jfind (if t \<noteq> Organic then ''website'' else ''link'') item;
          v = (if \<not> jtruthy v then jfind ''link'' item else v);
          (url, domain) = safe_url (se_repr S) v
      in (if url \<noteq> None \<and> domain = None then None else url, domain))"

text \<open>None: the item is skipped.\<close>

definition draft_of :: "serp_env \<Rightarrow> serp_result_type \<Rightarrow> nat \<Rightarrow> json \<Rightarrow> exn + result_draft option" where
  "draft_of S t index item =
     (if \<not> is_jobj item then Inr None
      else (case bounded_text (se_repr S) (jor (jfind ''title'' item) (jfind ''name'' item)) 240 of
              None \<Rightarrow> Inr None
            | Some display_name \<Rightarrow>
                (case integer_in (jfind ''position'' item) 1 10000 of
                   Inl e \<Rightarrow> Inl e
                 | Inr provider_position \<Rightarrow>
                     Inr (Some
                       \<lparr>rd_display_name = display_name, rd_provider_position = provider_position,
                        rd_position = (case provider_position of None \<Rightarrow> int index | Some p \<Rightarrow> p),
                        rd_url = fst (draft_url S t item), rd_domain = snd (draft_url S t item),
                        rd_place_id = bounded_text (se_repr S) (jfind ''place_id'' item) 500,
                        rd_data_id = bounded_text (se_repr S) (jfind ''data_id'' item) 500\<rparr>))))"

definition identity_of :: "planned_call \<Rightarrow> serp_result_type \<Rightarrow> result_draft \<Rightarrow> json" where
  "identity_of c t d =
     JObj [(''schema_version'', JStr ''serp_result_v1''), (''call_id'', JStr (pc_call_id c)),
           (''result_type'', JStr (result_type_name t)), (''position'', JInt (rd_position d)),
           (''place_id'', opt_json (rd_place_id d)), (''data_id'', opt_json (rd_data_id d)),
           (''domain'', opt_json (rd_domain d)), (''display_name'', JStr (lower (rd_display_name d)))]"

text \<open>\<open>None\<close>: pydantic refuses the record.\<close>

definition record_of ::
    "serp_env \<Rightarrow> search_plan \<Rightarrow> planned_call \<Rightarrow> string \<Rightarrow> timestamp \<Rightarrow> string option \<Rightarrow> serp_result_type
     \<Rightarrow> json \<Rightarrow> result_draft \<Rightarrow> exn + serp_result option" where
  "record_of S plan c checksum observed_at search_id t item d =
     (case integer_in (if jget ''reviews'' item \<noteq> None then jfind ''reviews'' item
                       else jfind ''reviews_count'' item) 0 1000000000 of
        Inl e \<Rightarrow> Inl e
      | Inr review_count \<Rightarrow>
          (let r = \<lparr>sr_record_id = request_digest (se_env S) (identity_of c t d), sr_call_id = pc_call_id c,
                    sr_query = pc_query c, sr_result_type = t, sr_position = rd_position d,
                    sr_rank_source = (if rd_provider_position d \<noteq> None then Provider_position else Response_order),
                    sr_display_name = rd_display_name d,
                    sr_url = (case rd_url d of None \<Rightarrow> None | Some u \<Rightarrow> se_http_url S u),
                    sr_normalized_domain = rd_domain d, sr_provider_place_id = rd_place_id d,
                    sr_provider_data_id = rd_data_id d,
                    sr_provider_cid = provider_cid (se_repr S) item (rd_data_id d),
                    sr_address = bounded_text (se_repr S) (jfind ''address'' item) 500,
                    sr_phone = bounded_text (se_repr S) (jfind ''phone'' item) 100,
                    sr_categories = categories_of (se_repr S) item,
                    sr_rating = number_in (jfind ''rating'' item) 0 5, sr_review_count = review_count,
                    sr_snippet = bounded_text (se_repr S) (jfind ''snippet'' item) 2000,
                    sr_provider_search_id = search_id, sr_response_checksum = checksum,
                    sr_observed_at = observed_at, sr_context = pl_context plan\<rparr>
           in Inr (if (rd_url d \<noteq> None \<longrightarrow> sr_url r \<noteq> None) \<and> serp_result_valid r then Some r else None)))"

record normal_state =
  ns_records :: "serp_result list"
  ns_limitations :: "string list"
  ns_seen :: "string list"

definition add_limitation :: "string \<Rightarrow> normal_state \<Rightarrow> normal_state" where
  "add_limitation l n = n\<lparr>ns_limitations := ns_limitations n @ [l]\<rparr>"

fun normalize_items ::
    "serp_env \<Rightarrow> search_plan \<Rightarrow> planned_call \<Rightarrow> string \<Rightarrow> timestamp \<Rightarrow> string option \<Rightarrow> serp_result_type
     \<Rightarrow> (nat \<times> json) list \<Rightarrow> normal_state \<Rightarrow> exn + normal_state" where
  "normalize_items S plan c checksum observed_at search_id t [] n = Inr n"
| "normalize_items S plan c checksum observed_at search_id t ((index, item) # rest) n =
     (case draft_of S t index item of
        Inl e \<Rightarrow> Inl e
      | Inr None \<Rightarrow> normalize_items S plan c checksum observed_at search_id t rest
                     (add_limitation (limitation t ''_RESULT_SKIPPED'') n)
      | Inr (Some d) \<Rightarrow>
          (let record_id = request_digest (se_env S) (identity_of c t d)
           in if record_id \<in> set (ns_seen n)
              then normalize_items S plan c checksum observed_at search_id t rest
                     (add_limitation (limitation t ''_DUPLICATE_SKIPPED'') n)
              else
                (case record_of S plan c checksum observed_at search_id t item d of
                   Inl e \<Rightarrow> Inl e
                 | Inr r \<Rightarrow>
                     normalize_items S plan c checksum observed_at search_id t rest
                       (case r of
                          None \<Rightarrow> (add_limitation (limitation t ''_RESULT_SKIPPED'') n)
                                    \<lparr>ns_seen := record_id # ns_seen n\<rparr>
                        | Some x \<Rightarrow> n\<lparr>ns_records := ns_records n @ [x],
                                     ns_seen := record_id # ns_seen n\<rparr>))))"

definition section_of :: "serp_result_type \<Rightarrow> string" where
  "section_of t = (if t = Organic then ''organic_results'' else ''local_results'')"

fun is_jarr :: "json \<Rightarrow> bool" where
  "is_jarr (JArr _) = True"
| "is_jarr _ = False"

fun normalize_sections ::
    "serp_env \<Rightarrow> search_plan \<Rightarrow> planned_call \<Rightarrow> json \<Rightarrow> string \<Rightarrow> timestamp \<Rightarrow> serp_result_type list
     \<Rightarrow> normal_state \<Rightarrow> exn + normal_state" where
  "normalize_sections S plan c payload checksum observed_at [] n = Inr n"
| "normalize_sections S plan c payload checksum observed_at (t # ts) n =
     (if jfind (section_of t) payload \<noteq> JNull \<and> \<not> is_jarr (jfind (section_of t) payload)
      then normalize_sections S plan c payload checksum observed_at ts
             (add_limitation (limitation t ''_SECTION_INVALID'') n)
      else (case normalize_items S plan c checksum observed_at (provider_search_id (se_repr S) payload) t
                   (enumerate 1 (result_list payload (section_of t))) n of
              Inl e \<Rightarrow> Inl e
            | Inr n' \<Rightarrow> normalize_sections S plan c payload checksum observed_at ts n'))"

definition normalize_results ::
    "serp_env \<Rightarrow> search_plan \<Rightarrow> planned_call \<Rightarrow> json \<Rightarrow> string \<Rightarrow> timestamp
     \<Rightarrow> exn + serp_result list \<times> string list" where
  "normalize_results S plan c payload checksum observed_at =
     (case normalize_sections S plan c payload checksum observed_at (result_types_of (pc_engine c))
             \<lparr>ns_records = [], ns_limitations = [], ns_seen = []\<rparr> of
        Inl e \<Rightarrow> Inl e
      | Inr n \<Rightarrow> Inr (ns_records n, take 20 (unique (ns_limitations n))))"

subsection \<open>One call\<close>

record call_outcome =
  co_call :: serp_call
  co_results :: "serp_result list"
  co_limitations :: "string list"

definition attempts_ok :: "int \<Rightarrow> bool \<Rightarrow> bool" where
  "attempts_ok attempts used \<longleftrightarrow>
     0 \<le> attempts \<and> attempts \<le> int SERP_PROVIDER_ATTEMPT_LIMIT_PER_CALL \<and> used = (0 < attempts)"

definition attempt_limit_invalid :: exn where
  "attempt_limit_invalid = SerpMarketProviderError ''SERP_PROVIDER_ATTEMPT_LIMIT_INVALID'' False 0 False False"

definition call_record :: "search_plan \<Rightarrow> planned_call \<Rightarrow> timestamp \<Rightarrow> timestamp \<Rightarrow> int \<Rightarrow> bool \<Rightarrow> bool \<Rightarrow> serp_call"
where
  "call_record plan c started_at completed_at attempts used hit =
     \<lparr>sc_call_id = pc_call_id c, sc_request_digest = pc_request_digest c, sc_query = pc_query c,
      sc_engine = pc_engine c, sc_result_types = pc_result_types c, sc_context = pl_context plan,
      sc_maps_zoom = (if pc_engine c = Google_maps then Some SERP_MAP_ZOOM else None),
      sc_status = Call_succeeded, sc_started_at = started_at, sc_completed_at = completed_at,
      sc_provider_search_id = None, sc_response_checksum = None, sc_logical_call_used = used,
      sc_provider_attempts = attempts, sc_checkpoint_hit = hit, sc_error_code = None\<rparr>"

definition succeeded_call ::
    "serp_env \<Rightarrow> search_plan \<Rightarrow> planned_call \<Rightarrow> json \<Rightarrow> provider_response \<Rightarrow> timestamp \<Rightarrow> timestamp \<Rightarrow> serp_call"
where
  "succeeded_call S plan c safe_payload response started_at completed_at =
     (call_record plan c started_at completed_at (pr_provider_attempts response)
        (pr_logical_call_used response) (pr_checkpoint_hit response))
     \<lparr>sc_provider_search_id := provider_search_id (se_repr S) safe_payload,
      sc_response_checksum := Some (request_digest (se_env S) safe_payload)\<rparr>"

definition failed_call ::
    "search_plan \<Rightarrow> planned_call \<Rightarrow> string \<Rightarrow> bool \<Rightarrow> int \<Rightarrow> bool \<Rightarrow> bool \<Rightarrow> timestamp \<Rightarrow> timestamp \<Rightarrow> serp_call"
where
  "failed_call plan c code retryable attempts used hit started_at completed_at =
     (call_record plan c started_at completed_at attempts used hit)
     \<lparr>sc_status := (if retryable then Failed_transient else Failed_deterministic),
      sc_error_code := Some code\<rparr>"

text \<open>The \<open>try\<close> of a call.\<close>

definition read_response ::
    "serp_env \<Rightarrow> ('x, timestamp) program \<Rightarrow> search_plan \<Rightarrow> planned_call \<Rightarrow> timestamp \<Rightarrow> provider_response
     \<Rightarrow> ('x, call_outcome) program" where
  "read_response S clock plan c call_started_at response =
     (let safe_payload = sanitize_serp_payload (se_repr S) (pr_payload response) (pc_engine c);
          error = payload_error (se_repr S) safe_payload;
          started_at = (case pr_started_at response of None \<Rightarrow> call_started_at | Some t \<Rightarrow> t)
      in if \<not> attempts_ok (pr_provider_attempts response) (pr_logical_call_used response)
         then throw attempt_limit_invalid
         else if fst error \<noteq> None \<and> \<not> snd error
         then throw (SerpMarketProviderError ''SERP_PROVIDER_RESPONSE_ERROR'' False
                (pr_provider_attempts response) (pr_logical_call_used response) (pr_checkpoint_hit response))
         else
           andThen (case pr_completed_at response of None \<Rightarrow> clock | Some t \<Rightarrow> ret t) (\<lambda>completed_at.
             case normalize_results S plan c (if snd error then JObj [] else safe_payload)
                    (request_digest (se_env S) safe_payload) completed_at of
               Inl e \<Rightarrow> throw e
             | Inr (records, limitations) \<Rightarrow>
                 (let call = succeeded_call S plan c safe_payload response started_at completed_at
                  in if \<not> serp_call_valid call then throw ValidationError
                     else ret \<lparr>co_call = call, co_results = records,
                               co_limitations = limitations
                                 @ (if snd error then [''SERP_PROVIDER_EMPTY_RESULTS''] else [])\<rparr>)))"

text \<open>Its \<open>except SerpMarketProviderError\<close>.\<close>

definition record_failed ::
    "('x, timestamp) program \<Rightarrow> search_plan \<Rightarrow> planned_call \<Rightarrow> timestamp \<Rightarrow> string \<Rightarrow> bool \<Rightarrow> int \<Rightarrow> bool \<Rightarrow> bool
     \<Rightarrow> ('x, call_outcome) program" where
  "record_failed clock plan c call_started_at code retryable attempts used hit =
     andThen clock (\<lambda>completed_at.
       let ok = attempts_ok attempts used;
           call = (if ok then failed_call plan c code retryable attempts used hit call_started_at completed_at
                   else failed_call plan c ''SERP_PROVIDER_ATTEMPT_LIMIT_INVALID'' False 0 False False
                          call_started_at completed_at)
       in if \<not> serp_call_valid call then throw ValidationError
          else ret \<lparr>co_call = call, co_results = [],
                    co_limitations = [if ok then code else ''SERP_PROVIDER_ATTEMPT_LIMIT_INVALID'']\<rparr>)"

definition collect_call ::
    "serp_env \<Rightarrow> ('x, timestamp) program \<Rightarrow> (planned_call \<Rightarrow> ('x, provider_response) program)
     \<Rightarrow> search_plan \<Rightarrow> planned_call \<Rightarrow> ('x, call_outcome) program" where
  "collect_call S clock search plan c =
     andThen clock (\<lambda>call_started_at.
       handle
         (andThen (search c) (read_response S clock plan c call_started_at))
         (\<lambda>e. case e of
                SerpMarketProviderError code retryable attempts used hit \<Rightarrow>
                  record_failed clock plan c call_started_at code retryable attempts used hit
              | _ \<Rightarrow> throw e))"

fun collect_calls ::
    "serp_env \<Rightarrow> ('x, timestamp) program \<Rightarrow> (planned_call \<Rightarrow> ('x, provider_response) program)
     \<Rightarrow> search_plan \<Rightarrow> planned_call list \<Rightarrow> ('x, (string \<times> call_outcome) list) program" where
  "collect_calls S clock search plan [] = ret []"
| "collect_calls S clock search plan (c # cs) =
     andThen (collect_call S clock search plan c) (\<lambda>o1.
     andThen (collect_calls S clock search plan cs) (\<lambda>os. ret ((pc_call_id c, o1) # os)))"

subsection \<open>The snapshot\<close>

text \<open>\<open>calls[call_id]\<close> and the like: a later call under the same id overwrites.\<close>

definition outcome_of :: "(string \<times> call_outcome) list \<Rightarrow> planned_call \<Rightarrow> call_outcome" where
  "outcome_of os c = the (map_of (rev os) (pc_call_id c))"

definition run_of :: "search_plan \<Rightarrow> (string \<times> call_outcome) list \<Rightarrow> nat \<times> string \<Rightarrow> query_run" where
  "run_of plan os =
     (\<lambda>(index, query).
       let m = outcome_of os (pl_calls plan ! ((index - 1) * 2));
           g = outcome_of os (pl_calls plan ! ((index - 1) * 2 + 1))
       in \<lparr>qr_query_index = index, qr_query = query, qr_maps_call = co_call m, qr_google_call = co_call g,
           qr_results = co_results m @ co_results g,
           qr_complete = (sc_status (co_call m) = Call_succeeded \<and> sc_status (co_call g) = Call_succeeded),
           qr_limitations = take 20 (unique (co_limitations m @ co_limitations g))\<rparr>)"

definition budget_of :: "search_plan \<Rightarrow> serp_call list \<Rightarrow> nat \<Rightarrow> serp_budget" where
  "budget_of plan calls location_calls =
     \<lparr>bg_logical_calls_planned = length (pl_calls plan),
      bg_logical_calls_used = length (filter sc_logical_call_used calls),
      bg_provider_attempt_limit = length (pl_calls plan) * SERP_PROVIDER_ATTEMPT_LIMIT_PER_CALL,
      bg_provider_attempts = sum_list (map sc_provider_attempts calls),
      bg_checkpoint_hits = length (filter sc_checkpoint_hit calls),
      bg_location_resolution_calls = location_calls\<rparr>"

definition snapshot_of ::
    "uuid \<Rightarrow> search_plan \<Rightarrow> query_run list \<Rightarrow> serp_budget \<Rightarrow> timestamp \<Rightarrow> timestamp \<Rightarrow> serp_snapshot" where
  "snapshot_of job_id plan qs budget started_at completed_at =
     (let results = concat (map qr_results qs)
      in \<lparr>ss_job_id = job_id, ss_started_at = started_at, ss_completed_at = completed_at,
          ss_target_point = pl_target_point plan, ss_device = pl_device plan, ss_language = pl_language plan,
          ss_country_code = pl_country_code plan, ss_queries = pl_queries plan, ss_query_runs = qs,
          ss_result_counts = map (\<lambda>t. (t, count_type t results)) [Maps_result, Local_pack, Organic],
          ss_complete_query_count = length (filter qr_complete qs), ss_budget = budget,
          ss_limitations = take 100 (unique (concat (map qr_limitations qs)))\<rparr>)"

definition insufficient :: "bool \<Rightarrow> exn" where
  "insufficient retryable =
     SerpMarketCollectionError ''SERP_MARKET_INSUFFICIENT_COMPLETE_QUERIES''
       ''At least three comparable search query groups are required.'' retryable"

definition assemble_market ::
    "('x, timestamp) program \<Rightarrow> uuid \<Rightarrow> search_plan \<Rightarrow> nat \<Rightarrow> timestamp \<Rightarrow> (string \<times> call_outcome) list
     \<Rightarrow> ('x, serp_snapshot) program" where
  "assemble_market clock job_id plan location_calls started_at os =
     (let qs = map (run_of plan os) (enumerate 1 (pl_queries plan));
          budget = budget_of plan (run_calls qs) location_calls
      in if \<not> list_all query_run_valid qs then throw ValidationError
         else if \<not> serp_budget_valid budget then throw ValidationError
         else if length (filter qr_complete qs) < 3
         then throw (insufficient (list_ex (\<lambda>c. sc_status c = Failed_transient) (run_calls qs)))
         else
           andThen clock (\<lambda>completed_at.
             let snapshot = snapshot_of job_id plan qs budget started_at completed_at
             in if serp_snapshot_valid snapshot then ret snapshot else throw ValidationError))"

definition collect_market ::
    "serp_env \<Rightarrow> ('x, timestamp) program \<Rightarrow> (planned_call \<Rightarrow> ('x, provider_response) program) \<Rightarrow> uuid
     \<Rightarrow> search_plan \<Rightarrow> nat \<Rightarrow> ('x, serp_snapshot) program" where
  "collect_market S clock search job_id plan location_calls =
     andThen clock (\<lambda>started_at.
     andThen (collect_calls S clock search plan (pl_calls plan))
       (assemble_market clock job_id plan location_calls started_at))"

end
