(* ===== verification/Serp_Provider.thy ===== *)
theory Serp_Provider
  imports Serp_Keys Serp_Collector Checkpoints
begin

text \<open>
  The provider of a market search inside a job (app/jobs_v22/serp_market_stage.py): attempts
  that are claimed before a request is sent, saved responses, circuit breakers for the provider
  and for each key, and the ledger of costs. \<open>V\<close> holds the collaborators: clocks, uuid4, the HTTP
  client, what other clients of the server do while a claim is made, and the number of rounds
  after which the worker cancels a claim that still waits.
\<close>

record 's search_run =
  sv_serp :: serp_env
  sv_checkpoints :: job_checkpoints
  sv_job_id :: uuid
  sv_circuit :: "circuit_config option"
  sv_ledger :: "ledger_config option"
  sv_keys :: "string list"
  sv_nfkd :: "string \<Rightarrow> string"
  sv_iso :: "timestamp \<Rightarrow> string"
  sv_parse_time :: "string \<Rightarrow> timestamp option"
  sv_clock :: "('s, timestamp) program"
  sv_monotonic :: "('s, int) program"
  sv_uuid4 :: "('s, uuid) program"
  sv_send :: "(string \<times> string) list \<Rightarrow> string \<Rightarrow> ('s, http_answer) program"
  sv_others :: "('s, unit) program"
  sv_patience :: nat

abbreviation sv_env :: "'s search_run \<Rightarrow> runtime_env" where
  "sv_env V \<equiv> se_env (sv_serp V)"

definition serp_checkpoint_error :: exn where
  "serp_checkpoint_error = DeterministicJobError ''V22_SERP_MARKET_CHECKPOINT_INVALID''
     ''A saved SERP market checkpoint could not be validated.''"

subsection \<open>Documents\<close>

text \<open>Fields of a decoded document: pydantic strips texts.\<close>

definition jstr :: "string \<Rightarrow> json \<Rightarrow> string option" where
  "jstr k d = (case jfind k d of JStr s \<Rightarrow> Some (strip_text s) | _ \<Rightarrow> None)"

definition jint :: "string \<Rightarrow> json \<Rightarrow> int option" where
  "jint k d = (case jfind k d of JInt n \<Rightarrow> Some n | _ \<Rightarrow> None)"

definition jtime :: "(string \<Rightarrow> timestamp option) \<Rightarrow> string \<Rightarrow> json \<Rightarrow> timestamp option" where
  "jtime parse k d = (case jfind k d of JStr s \<Rightarrow> parse s | _ \<Rightarrow> None)"

fun has_fields :: "string list \<Rightarrow> json \<Rightarrow> bool" where
  "has_fields ks (JObj kvs) = (set (map fst kvs) = set ks)"
| "has_fields ks _ = False"

record attempt_claim =
  at_request_digest :: string
  at_attempt_number :: int
  at_key_slot :: int
  at_key_fingerprint :: string
  at_claimed_at :: timestamp

definition attempt_claim_valid :: "attempt_claim \<Rightarrow> bool" where
  "attempt_claim_valid a \<longleftrightarrow>
     valid_digest (at_request_digest a)
   \<and> 1 \<le> at_attempt_number a \<and> at_attempt_number a \<le> int SERP_PROVIDER_ATTEMPT_LIMIT_PER_CALL
   \<and> 1 \<le> at_key_slot a \<and> at_key_slot a \<le> 3
   \<and> length (at_key_fingerprint a) = 12 \<and> list_all is_hex_digit (at_key_fingerprint a)"

definition attempt_claim_json :: "(timestamp \<Rightarrow> string) \<Rightarrow> attempt_claim \<Rightarrow> json" where
  "attempt_claim_json time_text a =
     JObj [(''schema_version'', JStr ''serp_provider_attempt_v1''),
           (''request_digest'', JStr (at_request_digest a)),
           (''attempt_number'', JInt (at_attempt_number a)), (''key_slot'', JInt (at_key_slot a)),
           (''key_fingerprint'', JStr (at_key_fingerprint a)),
           (''claimed_at'', JStr (time_text (at_claimed_at a)))]"

definition parse_attempt_claim :: "(string \<Rightarrow> timestamp option) \<Rightarrow> json \<Rightarrow> attempt_claim option" where
  "parse_attempt_claim parse d =
     (if \<not> has_fields [''schema_version'', ''request_digest'', ''attempt_number'', ''key_slot'',
                       ''key_fingerprint'', ''claimed_at''] d then None
      else (case (jstr ''schema_version'' d, jstr ''request_digest'' d, jint ''attempt_number'' d,
                  jint ''key_slot'' d, jstr ''key_fingerprint'' d, jtime parse ''claimed_at'' d) of
              (Some version, Some digest, Some number, Some slot, Some fingerprint, Some claimed_at) \<Rightarrow>
                (let a = \<lparr>at_request_digest = digest, at_attempt_number = number, at_key_slot = slot,
                          at_key_fingerprint = fingerprint, at_claimed_at = claimed_at\<rparr>
                 in if version = ''serp_provider_attempt_v1'' \<and> attempt_claim_valid a then Some a else None)
            | _ \<Rightarrow> None))"

record provider_checkpoint =
  pk_request_digest :: string
  pk_engine :: serp_engine
  pk_payload :: json
  pk_payload_checksum :: string
  pk_provider_attempts :: int
  pk_started_at :: timestamp
  pk_completed_at :: timestamp

definition provider_checkpoint_valid :: "provider_checkpoint \<Rightarrow> bool" where
  "provider_checkpoint_valid p \<longleftrightarrow>
     valid_digest (pk_request_digest p) \<and> is_jobj (pk_payload p) \<and> valid_digest (pk_payload_checksum p)
   \<and> 1 \<le> pk_provider_attempts p \<and> pk_provider_attempts p \<le> int SERP_PROVIDER_ATTEMPT_LIMIT_PER_CALL
   \<and> pk_started_at p \<le> pk_completed_at p"

text \<open>As its canonical text gives it back.\<close>

definition provider_checkpoint_json :: "(timestamp \<Rightarrow> string) \<Rightarrow> provider_checkpoint \<Rightarrow> json" where
  "provider_checkpoint_json time_text p =
     JObj [(''schema_version'', JStr ''serp_provider_response_v1''),
           (''request_digest'', JStr (pk_request_digest p)), (''engine'', JStr (engine_name (pk_engine p))),
           (''payload'', sort_members (pk_payload p)),
           (''payload_checksum'', JStr (pk_payload_checksum p)),
           (''provider_attempts'', JInt (pk_provider_attempts p)),
           (''started_at'', JStr (time_text (pk_started_at p))), (''completed_at'', JStr (time_text (pk_completed_at p)))]"

definition engine_of :: "string \<Rightarrow> serp_engine option" where
  "engine_of s = (if s = ''google_maps'' then Some Google_maps else if s = ''google'' then Some Google else None)"

definition parse_provider_checkpoint :: "(string \<Rightarrow> timestamp option) \<Rightarrow> json \<Rightarrow> provider_checkpoint option"
where
  "parse_provider_checkpoint parse d =
     (if \<not> has_fields [''schema_version'', ''request_digest'', ''engine'', ''payload'', ''payload_checksum'',
                       ''provider_attempts'', ''started_at'', ''completed_at''] d then None
      else (case (jstr ''schema_version'' d, jstr ''request_digest'' d,
                  Option.bind (jstr ''engine'' d) engine_of, jstr ''payload_checksum'' d,
                  jint ''provider_attempts'' d, jtime parse ''started_at'' d, jtime parse ''completed_at'' d) of
              (Some version, Some digest, Some engine, Some checksum, Some attempts, Some started, Some completed) \<Rightarrow>
                (let p = \<lparr>pk_request_digest = digest, pk_engine = engine, pk_payload = jfind ''payload'' d,
                          pk_payload_checksum = checksum, pk_provider_attempts = attempts,
                          pk_started_at = started, pk_completed_at = completed\<rparr>
                 in if version = ''serp_provider_response_v1'' \<and> provider_checkpoint_valid p then Some p else None)
            | _ \<Rightarrow> None))"

subsection \<open>Claimed attempts (class \<open>ProviderAttemptLedger\<close>)\<close>

definition attempt_key :: "planned_call \<Rightarrow> nat \<Rightarrow> string" where
  "attempt_key c n = ''serp_market_v1:attempt:'' @ drop 7 (pc_request_digest c) @ '':'' @ nat_str n"

text \<open>The claims of a call: a gap, or a document that is no claim of it, is an error.\<close>

fun existing_claims ::
    "'s server \<Rightarrow> 's search_run \<Rightarrow> planned_call \<Rightarrow> bool \<Rightarrow> nat list \<Rightarrow> 's \<Rightarrow> exn + attempt_claim list" where
  "existing_claims R V c missing_seen [] s = Inr []"
| "existing_claims R V c missing_seen (n # ns) s =
     (case checkpoint_get (sv_env V) R (sv_job_id V) (attempt_key c n) s of
        Inl e \<Rightarrow> Inl e
      | Inr raw \<Rightarrow>
          if raw = JNull then existing_claims R V c True ns s
          else if missing_seen then Inl serp_checkpoint_error
          else (case parse_attempt_claim (sv_parse_time V) raw of
                  None \<Rightarrow> Inl serp_checkpoint_error
                | Some a \<Rightarrow>
                    if at_request_digest a \<noteq> pc_request_digest c \<or> at_attempt_number a \<noteq> int n
                    then Inl serp_checkpoint_error
                    else (case existing_claims R V c missing_seen ns s of
                            Inl e \<Rightarrow> Inl e | Inr claims \<Rightarrow> Inr (a # claims))))"

definition claims_of :: "'s server \<Rightarrow> 's search_run \<Rightarrow> planned_call \<Rightarrow> 's \<Rightarrow> exn + attempt_claim list" where
  "claims_of R V c s =
     existing_claims R V c False [1..<Suc SERP_PROVIDER_ATTEMPT_LIMIT_PER_CALL] s"

definition attempt_count :: "'s server \<Rightarrow> 's search_run \<Rightarrow> planned_call \<Rightarrow> ('s, nat) program" where
  "attempt_count R V c = reads (\<lambda>s. map_sum id length (claims_of R V c s))"

text \<open>
  \<open>while True\<close>, until a claim is saved; the task is cancelled after the given number of rounds.
\<close>

fun claim_attempt ::
    "'s server \<Rightarrow> 's search_run \<Rightarrow> planned_call \<Rightarrow> nat \<Rightarrow> string \<Rightarrow> nat \<Rightarrow> ('s, nat) program" where
  "claim_attempt R V c key_slot fingerprint 0 = throw CancelledError"
| "claim_attempt R V c key_slot fingerprint (Suc rounds) =
     andThen (reads (claims_of R V c)) (\<lambda>claims.
       let next_number = length claims + 1
       in if SERP_PROVIDER_ATTEMPT_LIMIT_PER_CALL < next_number then throw SerpProviderAttemptsExhausted
          else
            andThen (sv_clock V) (\<lambda>now.
              let a = \<lparr>at_request_digest = pc_request_digest c, at_attempt_number = int next_number,
                       at_key_slot = int key_slot, at_key_fingerprint = fingerprint, at_claimed_at = now\<rparr>
              in if \<not> attempt_claim_valid a then throw ValidationError
                 else
                   andThen (sv_others V) (\<lambda>_.
                   andThen
                     (checkpoint_save (sv_env V) R (sv_checkpoints V) (sv_job_id V) (attempt_key c next_number)
                        (attempt_claim_json (sv_iso V) a))
                     (\<lambda>saved. if saved then ret next_number
                              else claim_attempt R V c key_slot fingerprint rounds))))"

subsection \<open>Before and after an attempt\<close>

definition duration_ms :: "int \<Rightarrow> int \<Rightarrow> int" where
  "duration_ms started finished = max ((finished - started) div 1000) 0"

definition completion_of :: "bool \<Rightarrow> int \<Rightarrow> completion" where
  "completion_of success ms =
     \<lparr>co_outcome = (if success then Success else Failure), co_duration_ms = ms, co_billable_units = 1,
      co_usage_known = False, co_input_tokens = None, co_output_tokens = None, co_total_tokens = None\<rparr>"

definition before_attempt ::
    "'s server \<Rightarrow> 's search_run \<Rightarrow> planned_call \<Rightarrow> nat \<Rightarrow> string \<Rightarrow> ('s, unit) serp_program" where
  "before_attempt R V c key_slot fingerprint =
     andThen (on_server (claim_attempt R V c key_slot fingerprint (sv_patience V))) (\<lambda>_.
       case sv_ledger V of
         None \<Rightarrow> ret ()
       | Some C \<Rightarrow>
           andThen (on_server (sv_uuid4 V)) (\<lambda>claim_id.
           andThen (on_server (sv_clock V)) (\<lambda>now.
           andThen (on_server (claim C R Serpapi_market_search claim_id now)) (\<lambda>cl.
           andThen (on_server (sv_monotonic V)) (\<lambda>t.
             update_process (\<lambda>q. q\<lparr>sp_active_claims :=
               AList.update (key_slot, fingerprint) (cl_claim_id cl, t) (sp_active_claims q)\<rparr>))))))"

definition after_attempt ::
    "'s server \<Rightarrow> 's search_run \<Rightarrow> nat \<Rightarrow> string \<Rightarrow> string option \<Rightarrow> ('s, unit) serp_program" where
  "after_attempt R V key_slot fingerprint failure_kind =
     andThen (read_process (\<lambda>q. map_of (sp_active_claims q) (key_slot, fingerprint))) (\<lambda>active.
     andThen (update_process (\<lambda>q. q\<lparr>sp_active_claims :=
                AList.delete (key_slot, fingerprint) (sp_active_claims q)\<rparr>)) (\<lambda>_.
       case (sv_ledger V, active) of
         (Some C, Some (claim_id, started)) \<Rightarrow>
           andThen (on_server (sv_monotonic V)) (\<lambda>t.
           andThen (on_server (sv_clock V)) (\<lambda>now.
           andThen (on_server (complete C R claim_id
                      (completion_of (failure_kind = None) (duration_ms started t)) now)) (\<lambda>_. ret ())))
       | _ \<Rightarrow> ret ()))"

subsection \<open>The adapter of the provider (class \<open>SerpApiSearchAdapter\<close>)\<close>

definition token_text :: "uuid \<Rightarrow> string" where
  "token_text u = uuid_str u"

definition key_provider :: "string \<Rightarrow> string" where
  "key_provider fingerprint = ''serpapi-key:'' @ fingerprint"

definition search_operation :: "planned_call \<Rightarrow> string" where
  "search_operation c = ''search:'' @ engine_name (pc_engine c)"

definition key_available ::
    "'s server \<Rightarrow> 's search_run \<Rightarrow> planned_call \<Rightarrow> string \<Rightarrow> ('s, bool) serp_program" where
  "key_available R V c fingerprint =
     (case sv_circuit V of
        None \<Rightarrow> ret True
      | Some cfg \<Rightarrow>
          handle
            (andThen (on_server (sv_clock V)) (\<lambda>now.
             andThen (on_server (sv_uuid4 V)) (\<lambda>token.
             andThen (on_server (before_call (sv_env V) R cfg (key_provider fingerprint)
                        (search_operation c) now (token_text token))) (\<lambda>permit.
             andThen (update_process (\<lambda>q. q\<lparr>sp_key_permits :=
                        AList.update fingerprint permit (sp_key_permits q)\<rparr>)) (\<lambda>_. ret True)))))
            (\<lambda>e. if e = ProviderCircuitOpen then ret False else throw e))"

definition settle_key ::
    "'s server \<Rightarrow> 's search_run \<Rightarrow> circuit_config \<Rightarrow> circuit_permit \<Rightarrow> string option \<Rightarrow> ('s, unit) program" where
  "settle_key R V cfg permit failure_kind =
     (case failure_kind of
        None \<Rightarrow> (\<lambda>s. (record_success (sv_env V) R permit s, Inr ()))
      | Some kind \<Rightarrow>
          (let immediate = (kind \<in> {''invalid_or_forbidden'', ''monthly_quota_exhausted'', ''rate_limited''});
               eligible = (immediate \<or> kind = ''transport'' \<or> take 6 kind = ''http_5'')
           in andThen (sv_clock V) (\<lambda>now.
              andThen (sv_uuid4 V) (\<lambda>member.
              andThen (record_failure (sv_env V) R cfg permit now eligible immediate (Some 3)
                         (token_text member)) (\<lambda>_. ret ())))))"

definition handle_after_attempt ::
    "'s server \<Rightarrow> 's search_run \<Rightarrow> nat \<Rightarrow> string \<Rightarrow> string option \<Rightarrow> ('s, unit) serp_program" where
  "handle_after_attempt R V slot fingerprint failure_kind =
     andThen (read_process (\<lambda>q. map_of (sp_key_permits q) fingerprint)) (\<lambda>permit.
     andThen (update_process (\<lambda>q. q\<lparr>sp_key_permits := AList.delete fingerprint (sp_key_permits q)\<rparr>)) (\<lambda>_.
     andThen (case (sv_circuit V, permit) of
                (Some cfg, Some p) \<Rightarrow> on_server (settle_key R V cfg p failure_kind)
              | _ \<Rightarrow> ret ())
       (\<lambda>_. after_attempt R V slot fingerprint failure_kind)))"

text \<open>
  The search runs under \<open>asyncio.timeout\<close>, which cancels a claim that is still waiting and
  raises the cancellation as TimeoutError. The rounds of a claim, \<open>sv_patience\<close>, are those
  before this timeout.
\<close>

definition under_timeout :: "('s, 'a) program \<Rightarrow> ('s, 'a) program" where
  "under_timeout p = handle p (\<lambda>e. throw (if e = CancelledError then TimeoutError else e))"

definition key_run_of :: "'s server \<Rightarrow> 's search_run \<Rightarrow> planned_call \<Rightarrow> 's key_run" where
  "key_run_of R V c =
     \<lparr>kr_sha256 = env_sha256 (sv_env V), kr_repr = se_repr (sv_serp V), kr_nfkd = sv_nfkd V,
      kr_send = sv_send V (pc_params c), kr_monotonic = sv_monotonic V,
      kr_before_attempt = (\<lambda>slot fingerprint. under_timeout (before_attempt R V c slot fingerprint)),
      kr_key_available = key_available R V c,
      kr_after_attempt = handle_after_attempt R V\<rparr>"

text \<open>The \<open>except\<close> clauses; the defaults of the error are one attempt and a call used.\<close>

definition provider_error :: "string \<Rightarrow> bool \<Rightarrow> exn" where
  "provider_error code retryable = SerpMarketProviderError code retryable 1 True False"

definition adapter_error :: "exn \<Rightarrow> exn" where
  "adapter_error e =
     (case e of
        SerpApiKeysUnavailable \<Rightarrow> provider_error ''SERP_PROVIDER_KEYS_UNAVAILABLE'' True
      | SerpApiHttpError status \<Rightarrow>
          provider_error (if 500 \<le> status then ''SERP_PROVIDER_TEMPORARY'' else ''SERP_PROVIDER_REJECTED'')
            (500 \<le> status)
      | SerpApiInvalidResponse \<Rightarrow> provider_error ''SERP_PROVIDER_RESPONSE_INVALID'' False
      | SerpApiTransportError too_large \<Rightarrow>
          if too_large then provider_error ''SERP_PROVIDER_RESPONSE_TOO_LARGE'' False
          else provider_error ''SERP_PROVIDER_TEMPORARY'' True
      | TimeoutError \<Rightarrow> provider_error ''SERP_PROVIDER_TEMPORARY'' True
      | _ \<Rightarrow> e)"

definition adapter_search ::
    "'s server \<Rightarrow> 's search_run \<Rightarrow> planned_call \<Rightarrow> ('s, provider_response) serp_program" where
  "adapter_search R V c =
     (if configured_serpapi_keys (map Some (sv_keys V)) = []
      then throw (SerpMarketProviderError ''SERP_PROVIDER_NOT_CONFIGURED'' False 0 False False)
      else
        andThen (on_server (sv_clock V)) (\<lambda>started_at.
        andThen (update_process (\<lambda>q. q\<lparr>sp_key_permits := []\<rparr>)) (\<lambda>_.
        andThen
          (handle (execute_serpapi_get (key_run_of R V c) (configured_serpapi_keys (map Some (sv_keys V))))
             (\<lambda>e. throw (adapter_error e)))
          (\<lambda>result.
             andThen (on_server (sv_clock V)) (\<lambda>completed_at.
               ret \<lparr>pr_payload = sa_payload result, pr_provider_attempts = int (sa_attempt_count result),
                    pr_logical_call_used = True, pr_checkpoint_hit = False,
                    pr_started_at = Some started_at, pr_completed_at = Some completed_at\<rparr>)))))"

subsection \<open>The checkpointed provider (class \<open>CheckpointedSerpProvider\<close>)\<close>

definition search_key :: "planned_call \<Rightarrow> string" where
  "search_key c = ''serp_market_v1:search:'' @ drop 7 (pc_request_digest c)"

definition MAX_NORMALIZED_CHECKPOINT_BYTES :: int where
  "MAX_NORMALIZED_CHECKPOINT_BYTES = 500000"

text \<open>Bytes of a text in UTF-8.\<close>

definition utf8_length :: "string \<Rightarrow> nat" where
  "utf8_length s = sum_list (map (\<lambda>c. if (of_char c :: nat) < 128 then 1 else 2) s)"

text \<open>On the bits of a character, for evaluation.\<close>

lemma utf8_length_code [code]:
  "utf8_length [] = 0"
  "utf8_length (Char a b c d e f g h # cs) = (if h then 2 + utf8_length cs else 1 + utf8_length cs)"
  by (cases h; simp add: utf8_length_def)+

definition too_large :: "'s search_run \<Rightarrow> json \<Rightarrow> bool" where
  "too_large V payload \<longleftrightarrow> MAX_NORMALIZED_CHECKPOINT_BYTES < int (utf8_length (env_json_text (sv_env V) payload))"

definition validated_checkpoint :: "'s search_run \<Rightarrow> json \<Rightarrow> planned_call \<Rightarrow> exn + provider_checkpoint" where
  "validated_checkpoint V raw c =
     (case parse_provider_checkpoint (sv_parse_time V) raw of
        None \<Rightarrow> Inl serp_checkpoint_error
      | Some p \<Rightarrow>
          if pk_request_digest p \<noteq> pc_request_digest c \<or> pk_engine p \<noteq> pc_engine c
          then Inl serp_checkpoint_error
          else if too_large V (pk_payload p) then Inl serp_checkpoint_error
          else if sort_members (sanitize_serp_payload (se_repr (sv_serp V)) (pk_payload p) (pc_engine c))
                  \<noteq> sort_members (pk_payload p)
          then Inl serp_checkpoint_error
          else if request_digest (sv_env V) (pk_payload p) \<noteq> pk_payload_checksum p
          then Inl serp_checkpoint_error
          else Inr p)"

definition response_of :: "provider_checkpoint \<Rightarrow> bool \<Rightarrow> provider_response" where
  "response_of p hit =
     \<lparr>pr_payload = pk_payload p, pr_provider_attempts = pk_provider_attempts p, pr_logical_call_used = True,
      pr_checkpoint_hit = hit, pr_started_at = Some (pk_started_at p),
      pr_completed_at = Some (pk_completed_at p)\<rparr>"

definition attempts_exhausted :: exn where
  "attempts_exhausted = SerpMarketProviderError ''SERP_PROVIDER_ATTEMPTS_EXHAUSTED'' False
     (int SERP_PROVIDER_ATTEMPT_LIMIT_PER_CALL) True False"

text \<open>A checkpoint hit.\<close>

definition use_checkpoint ::
    "'s server \<Rightarrow> 's search_run \<Rightarrow> planned_call \<Rightarrow> json \<Rightarrow> ('s, provider_response) serp_program" where
  "use_checkpoint R V c existing =
     andThen (case sv_ledger V of
                None \<Rightarrow> ret ()
              | Some C \<Rightarrow> andThen (on_server (sv_clock V)) (\<lambda>now. on_server (record_checkpoint_hit C R 1 now)))
       (\<lambda>_. case validated_checkpoint V existing c of
              Inl e \<Rightarrow> throw e
            | Inr p \<Rightarrow> ret (response_of p True))"

text \<open>What follows a failure of the delegate.\<close>

definition search_failed ::
    "'s server \<Rightarrow> 's search_run \<Rightarrow> planned_call \<Rightarrow> (circuit_config \<times> circuit_permit) option \<Rightarrow> exn
     \<Rightarrow> ('s, provider_response) serp_program" where
  "search_failed R V c permit e =
     (case e of
        SerpProviderAttemptsExhausted \<Rightarrow> throw attempts_exhausted
      | SerpMarketProviderError code retryable _ _ _ \<Rightarrow>
          andThen
            (case permit of
               None \<Rightarrow> ret ()
             | Some (cfg, p) \<Rightarrow>
                 andThen (on_server (sv_clock V)) (\<lambda>now.
                 andThen (on_server (sv_uuid4 V)) (\<lambda>member.
                 andThen (on_server (record_failure (sv_env V) R cfg p now retryable
                            (code = ''SERP_PROVIDER_KEYS_UNAVAILABLE'') None (token_text member)))
                   (\<lambda>_. ret ()))))
            (\<lambda>_. andThen (on_server (attempt_count R V c)) (\<lambda>attempts.
               throw (SerpMarketProviderError code retryable (int attempts) (0 < attempts) False)))
      | _ \<Rightarrow> throw e)"

text \<open>What follows a response of the delegate.\<close>

definition save_response ::
    "'s server \<Rightarrow> 's search_run \<Rightarrow> planned_call \<Rightarrow> timestamp \<Rightarrow> provider_response
     \<Rightarrow> ('s, provider_response) serp_program" where
  "save_response R V c started_at response =
     andThen (on_server (attempt_count R V c)) (\<lambda>attempts.
       if attempts = 0
       then throw (SerpMarketProviderError ''SERP_PROVIDER_ATTEMPT_AUDIT_MISSING'' False 0 False False)
       else
         andThen (case pr_completed_at response of None \<Rightarrow> on_server (sv_clock V) | Some t \<Rightarrow> ret t)
           (\<lambda>completed_at.
              let payload = sanitize_serp_payload (se_repr (sv_serp V)) (pr_payload response) (pc_engine c);
                  p = \<lparr>pk_request_digest = pc_request_digest c, pk_engine = pc_engine c, pk_payload = payload,
                       pk_payload_checksum = request_digest (sv_env V) payload,
                       pk_provider_attempts = int attempts,
                       pk_started_at = (case pr_started_at response of None \<Rightarrow> started_at | Some t \<Rightarrow> t),
                       pk_completed_at = completed_at\<rparr>
              in if \<not> provider_checkpoint_valid p then throw ValidationError
                 else if too_large V payload
                 then throw (SerpMarketProviderError ''SERP_PROVIDER_RESPONSE_TOO_LARGE'' False (int attempts) True False)
                 else
                   andThen (on_server (checkpoint_save (sv_env V) R (sv_checkpoints V) (sv_job_id V) (search_key c)
                              (provider_checkpoint_json (sv_iso V) p))) (\<lambda>_.
                   andThen (on_server (reads (checkpoint_get (sv_env V) R (sv_job_id V) (search_key c)))) (\<lambda>persisted.
                     if persisted = JNull then ret (response_of p False)
                     else (case validated_checkpoint V persisted c of
                             Inl e \<Rightarrow> throw e
                           | Inr canonical \<Rightarrow> ret (response_of canonical False))))))"

definition open_permit ::
    "'s server \<Rightarrow> 's search_run \<Rightarrow> planned_call \<Rightarrow> timestamp
     \<Rightarrow> ('s, (circuit_config \<times> circuit_permit) option) serp_program" where
  "open_permit R V c now =
     (case sv_circuit V of
        None \<Rightarrow> ret None
      | Some cfg \<Rightarrow>
          andThen (on_server (sv_uuid4 V)) (\<lambda>token.
          andThen (on_server (before_call (sv_env V) R cfg ''serpapi'' (search_operation c) now (token_text token)))
            (\<lambda>p. ret (Some (cfg, p)))))"

definition checkpointed_search ::
    "'s server \<Rightarrow> 's search_run \<Rightarrow> (planned_call \<Rightarrow> ('s, provider_response) serp_program) \<Rightarrow> planned_call
     \<Rightarrow> ('s, provider_response) serp_program" where
  "checkpointed_search R V delegate c =
     andThen (on_server (reads (checkpoint_get (sv_env V) R (sv_job_id V) (search_key c)))) (\<lambda>existing.
       if existing \<noteq> JNull then use_checkpoint R V c existing
       else
         andThen (on_server (attempt_count R V c)) (\<lambda>attempts.
           if SERP_PROVIDER_ATTEMPT_LIMIT_PER_CALL \<le> attempts then throw attempts_exhausted
           else
             andThen (update_process (\<lambda>q. q\<lparr>sp_active_claims := []\<rparr>)) (\<lambda>_.
             andThen (on_server (sv_clock V)) (\<lambda>started_at.
             andThen (open_permit R V c started_at) (\<lambda>permit.
             andThen (outcome (delegate c)) (\<lambda>result.
               case result of
                 Inl e \<Rightarrow> search_failed R V c permit e
               | Inr response \<Rightarrow>
                   andThen (case permit of
                              None \<Rightarrow> ret ()
                            | Some (cfg, p) \<Rightarrow> on_server (\<lambda>s. (record_success (sv_env V) R p s, Inr ())))
                     (\<lambda>_. save_response R V c started_at response)))))))"

end
