(* ===== verification/Serp_Stage.thy ===== *)
theory Serp_Stage
  imports Serp_Provider
begin

text \<open>
  The market stage of a job (class CheckpointedSerpMarketStage of
  app/jobs_v22/serp_market_stage.py): the search point, the plan, the collection through the
  checkpointed provider, and the saved snapshot. The provider of locations and the JSON form
  of a snapshot are collaborators.
\<close>

record 's market_stage =
  mg_run :: "'s search_run"
  mg_location :: "string \<Rightarrow> ('s, location_error + location_lookup) program"
  mg_snapshot_json :: "serp_snapshot \<Rightarrow> json"
  mg_parse_snapshot :: "json \<Rightarrow> serp_snapshot option"

record market_context =
  mc_target_market :: target_market
  mc_queries :: "string list"
  mc_device :: search_device
  mc_language :: string

definition market_context_valid :: "market_context \<Rightarrow> bool" where
  "market_context_valid x \<longleftrightarrow>
     target_market_valid (mc_target_market x)
   \<and> SERP_QUERY_MIN \<le> length (mc_queries x) \<and> length (mc_queries x) \<le> SERP_QUERY_MAX
   \<and> language_ok (mc_language x) \<and> distinct (map lower (mc_queries x))"

text \<open>The device and language are those of the parent report, where there is one.\<close>

definition request_search_context :: "(search_device \<times> string) option \<Rightarrow> search_device \<times> string" where
  "request_search_context parent = (case parent of None \<Rightarrow> (Mobile, ''en'') | Some x \<Rightarrow> x)"

definition serp_market_context_from_analyze ::
    "target_market \<Rightarrow> string list \<Rightarrow> (search_device \<times> string) option \<Rightarrow> exn + market_context" where
  "serp_market_context_from_analyze m queries parent =
     (let x = \<lparr>mc_target_market = m, mc_queries = queries, mc_device = fst (request_search_context parent),
               mc_language = snd (request_search_context parent)\<rparr>
      in if market_context_valid x then Inr x else Inl ValidationError)"

subsection \<open>Documents\<close>

definition opt_float :: "rat option \<Rightarrow> json" where
  "opt_float x = (case x of None \<Rightarrow> JNull | Some r \<Rightarrow> JFloat (Some r))"

definition market_json :: "target_market \<Rightarrow> json" where
  "market_json m =
     JObj [(''display_name'', JStr (tm_display_name m)), (''country_code'', JStr (tm_country_code m)),
           (''region'', opt_json (tm_region m)), (''city'', opt_json (tm_city m)),
           (''postal_code'', opt_json (tm_postal_code m)), (''latitude'', opt_float (tm_latitude m)),
           (''longitude'', opt_float (tm_longitude m))]"

definition context_json :: "market_context \<Rightarrow> json" where
  "context_json x =
     JObj [(''queries'', JArr (map JStr (mc_queries x))),
           (''target_market'', market_json (mc_target_market x)),
           (''device'', JStr (device_name (mc_device x))), (''language'', JStr (mc_language x))]"

fun source_name :: "point_source \<Rightarrow> string" where
  "source_name Explicit_coordinates = ''explicit_coordinates''"
| "source_name Provider_location = ''serpapi_location''"

definition source_of :: "string \<Rightarrow> point_source option" where
  "source_of s = (if s = ''explicit_coordinates'' then Some Explicit_coordinates
     else if s = ''serpapi_location'' then Some Provider_location else None)"

definition point_json :: "(timestamp \<Rightarrow> string) \<Rightarrow> target_point \<Rightarrow> json" where
  "point_json time_text p =
     JObj [(''requested_label'', JStr (tp_requested_label p)), (''canonical_name'', JStr (tp_canonical_name p)),
           (''country_code'', JStr (tp_country_code p)), (''latitude'', JFloat (Some (tp_latitude p))),
           (''longitude'', JFloat (Some (tp_longitude p))), (''source'', JStr (source_name (tp_source p))),
           (''provider_location_id'', opt_json (tp_provider_location_id p)),
           (''resolved_at'', JStr (time_text (tp_resolved_at p))),
           (''response_checksum'', opt_json (tp_response_checksum p))]"

definition jfloat :: "string \<Rightarrow> json \<Rightarrow> rat option" where
  "jfloat k d = (case jfind k d of JFloat (Some r) \<Rightarrow> Some r | JInt n \<Rightarrow> Some (of_int n) | _ \<Rightarrow> None)"

text \<open>A text or null; a missing member is null.\<close>

definition jopt :: "string \<Rightarrow> json \<Rightarrow> string option option" where
  "jopt k d = (case jfind k d of JNull \<Rightarrow> Some None | JStr s \<Rightarrow> Some (Some (strip_text s)) | _ \<Rightarrow> None)"

definition parse_point :: "(string \<Rightarrow> timestamp option) \<Rightarrow> json \<Rightarrow> target_point option" where
  "parse_point parse d =
     (case d of
        JObj kvs \<Rightarrow>
          if \<not> (set [''requested_label'', ''canonical_name'', ''country_code'', ''latitude'', ''longitude'',
                     ''source'', ''resolved_at''] \<subseteq> fst ` set kvs
                \<and> fst ` set kvs \<subseteq> set [''requested_label'', ''canonical_name'', ''country_code'', ''latitude'',
                     ''longitude'', ''source'', ''provider_location_id'', ''resolved_at'', ''response_checksum''])
          then None
          else (case (jstr ''requested_label'' d, jstr ''canonical_name'' d, jstr ''country_code'' d,
                      jfloat ''latitude'' d, jfloat ''longitude'' d, Option.bind (jstr ''source'' d) source_of,
                      jopt ''provider_location_id'' d, jtime parse ''resolved_at'' d, jopt ''response_checksum'' d) of
                  (Some label, Some name, Some country, Some x, Some y, Some source, Some location_id,
                   Some resolved_at, Some checksum) \<Rightarrow>
                    (let p = \<lparr>tp_requested_label = label, tp_canonical_name = name, tp_country_code = country,
                              tp_latitude = x, tp_longitude = y, tp_source = source,
                              tp_provider_location_id = location_id, tp_resolved_at = resolved_at,
                              tp_response_checksum = checksum\<rparr>
                     in if target_point_valid p then Some p else None)
                | _ \<Rightarrow> None)
      | _ \<Rightarrow> None)"

definition location_checkpoint_json :: "(timestamp \<Rightarrow> string) \<Rightarrow> string \<Rightarrow> target_point \<Rightarrow> json" where
  "location_checkpoint_json time_text identity p =
     JObj [(''schema_version'', JStr ''serp_location_response_v1''), (''request_digest'', JStr identity),
           (''point'', point_json time_text p)]"

definition parse_location_checkpoint ::
    "(string \<Rightarrow> timestamp option) \<Rightarrow> json \<Rightarrow> (string \<times> target_point) option" where
  "parse_location_checkpoint parse d =
     (if \<not> has_fields [''schema_version'', ''request_digest'', ''point''] d then None
      else (case (jstr ''schema_version'' d, jstr ''request_digest'' d, parse_point parse (jfind ''point'' d)) of
              (Some version, Some digest, Some p) \<Rightarrow>
                if version = ''serp_location_response_v1'' \<and> valid_digest digest then Some (digest, p) else None
            | _ \<Rightarrow> None))"

definition snapshot_checkpoint_json :: "'s market_stage \<Rightarrow> string \<Rightarrow> serp_snapshot \<Rightarrow> json" where
  "snapshot_checkpoint_json G identity x =
     JObj [(''schema_version'', JStr ''serp_market_snapshot_checkpoint_v1''), (''request_digest'', JStr identity),
           (''snapshot'', mg_snapshot_json G x)]"

definition parse_snapshot_checkpoint :: "'s market_stage \<Rightarrow> json \<Rightarrow> (string \<times> serp_snapshot) option" where
  "parse_snapshot_checkpoint G d =
     (if \<not> has_fields [''schema_version'', ''request_digest'', ''snapshot''] d then None
      else (case (jstr ''schema_version'' d, jstr ''request_digest'' d, mg_parse_snapshot G (jfind ''snapshot'' d)) of
              (Some version, Some digest, Some x) \<Rightarrow>
                if version = ''serp_market_snapshot_checkpoint_v1'' \<and> valid_digest digest then Some (digest, x)
                else None
            | _ \<Rightarrow> None))"

subsection \<open>The search point\<close>

definition job_error :: "bool \<Rightarrow> string \<Rightarrow> string \<Rightarrow> exn" where
  "job_error retryable code message =
     (if retryable then TransientJobError (''V22_'' @ code) message
      else DeterministicJobError (''V22_'' @ code) message)"

definition location_identity :: "'s search_run \<Rightarrow> target_market \<Rightarrow> string" where
  "location_identity V m = request_digest (sv_env V) (market_json m)"

definition location_key :: "'s search_run \<Rightarrow> target_market \<Rightarrow> string" where
  "location_key V m = ''serp_market_v1:location:'' @ drop 7 (location_identity V m)"

text \<open>\<open>cost_ledger.claim\<close> and \<open>complete\<close> around the lookup\<close>

definition claim_location :: "'s server \<Rightarrow> 's search_run \<Rightarrow> ('s, uuid option) program" where
  "claim_location R V =
     (case sv_ledger V of
        None \<Rightarrow> ret None
      | Some C \<Rightarrow>
          andThen (sv_uuid4 V) (\<lambda>claim_id.
          andThen (sv_clock V) (\<lambda>now.
          andThen (claim C R Serpapi_location claim_id now) (\<lambda>cl. ret (Some (cl_claim_id cl))))))"

definition settle_location :: "'s server \<Rightarrow> 's search_run \<Rightarrow> uuid option \<Rightarrow> int \<Rightarrow> bool \<Rightarrow> ('s, unit) program" where
  "settle_location R V claim_id started success =
     (case (sv_ledger V, claim_id) of
        (Some C, Some i) \<Rightarrow>
          andThen (sv_monotonic V) (\<lambda>t.
          andThen (sv_clock V) (\<lambda>now.
          andThen (complete C R i (completion_of success (duration_ms started t)) now) (\<lambda>_. ret ())))
      | _ \<Rightarrow> ret ())"

definition lookup_location :: "'s server \<Rightarrow> 's market_stage \<Rightarrow> target_market \<Rightarrow> ('s, json) program" where
  "lookup_location R G m =
     (let V = mg_run G
      in andThen (claim_location R V) (\<lambda>claim_id.
         andThen (sv_monotonic V) (\<lambda>started.
         andThen (outcome (andThen (sv_clock V)
                    (resolve_target_point (sv_nfkd V) (se_repr (sv_serp V)) m (Some (mg_location G))))) (\<lambda>r.
           case r of
             Inl e \<Rightarrow>
               andThen (if e = CancelledError then ret () else settle_location R V claim_id started False)
                 (\<lambda>_. throw e)
           | Inr (Inl (code, message, retryable)) \<Rightarrow>
               andThen (settle_location R V claim_id started False)
                 (\<lambda>_. throw (job_error retryable code message))
           | Inr (Inr p) \<Rightarrow>
               andThen (settle_location R V claim_id started True)
                 (\<lambda>_. ret (location_checkpoint_json (sv_iso V) (location_identity V m) p))))))"

definition target_point_of ::
    "'s server \<Rightarrow> 's market_stage \<Rightarrow> target_market \<Rightarrow> ('s, target_point \<times> nat) program" where
  "target_point_of R G m =
     (let V = mg_run G
      in if tm_latitude m \<noteq> None \<or> tm_longitude m \<noteq> None
         then
           andThen (sv_clock V) (\<lambda>now.
           andThen (resolve_target_point (sv_nfkd V) (se_repr (sv_serp V)) m None now) (\<lambda>r.
             case r of
               Inl (code, message, _) \<Rightarrow> throw (job_error False code message)
             | Inr p \<Rightarrow> ret (p, 0)))
         else
           andThen (case sv_ledger V of
                      None \<Rightarrow> ret ()
                    | Some C \<Rightarrow>
                        andThen (reads (checkpoint_get (sv_env V) R (sv_job_id V) (location_key V m))) (\<lambda>existing.
                          if existing \<noteq> JNull
                          then andThen (sv_clock V) (\<lambda>now. record_checkpoint_hit C R 1 now) else ret ()))
             (\<lambda>_. andThen (run_once (sv_env V) R (sv_checkpoints V) (sv_job_id V) (location_key V m)
                             (lookup_location R G m))
               (\<lambda>raw. case parse_location_checkpoint (sv_parse_time V) raw of
                        None \<Rightarrow> throw serp_checkpoint_error
                      | Some (digest, p) \<Rightarrow>
                          if digest \<noteq> location_identity V m then throw serp_checkpoint_error
                          else ret (p, 1))))"

subsection \<open>The stage\<close>

definition market_identity :: "'s search_run \<Rightarrow> market_context \<Rightarrow> string" where
  "market_identity V x = request_digest (sv_env V) (context_json x)"

definition snapshot_key :: "'s search_run \<Rightarrow> market_context \<Rightarrow> string" where
  "snapshot_key V x = ''serp_market_v1:snapshot:'' @ drop 7 (market_identity V x)"

text \<open>A saved snapshot is the one of this job, context and these queries.\<close>

definition check_snapshot ::
    "'s market_stage \<Rightarrow> market_context \<Rightarrow> string list \<Rightarrow> json \<Rightarrow> exn + serp_snapshot" where
  "check_snapshot G x queries raw =
     (case parse_snapshot_checkpoint G raw of
        None \<Rightarrow> Inl serp_checkpoint_error
      | Some (digest, s) \<Rightarrow>
          if digest \<noteq> market_identity (mg_run G) x then Inl serp_checkpoint_error
          else if ss_job_id s \<noteq> sv_job_id (mg_run G) \<or> ss_queries s \<noteq> queries then Inl serp_checkpoint_error
          else Inr s)"

definition saved_calls :: "serp_snapshot \<Rightarrow> int" where
  "saved_calls s = int (bg_logical_calls_used (ss_budget s) + bg_location_resolution_calls (ss_budget s))"

definition reuse_snapshot ::
    "'s server \<Rightarrow> 's market_stage \<Rightarrow> market_context \<Rightarrow> json \<Rightarrow> ('s, serp_snapshot) program" where
  "reuse_snapshot R G x existing =
     (case check_snapshot G x (mc_queries x) existing of
        Inl e \<Rightarrow> throw e
      | Inr s \<Rightarrow>
          (case sv_ledger (mg_run G) of
             None \<Rightarrow> ret s
           | Some C \<Rightarrow>
               andThen (sv_clock (mg_run G)) (\<lambda>now.
               andThen (record_checkpoint_hit C R (saved_calls s) now) (\<lambda>_. ret s))))"

definition collection_error :: "exn \<Rightarrow> exn" where
  "collection_error e =
     (case e of SerpMarketCollectionError code message retryable \<Rightarrow> job_error retryable code message | _ \<Rightarrow> e)"

definition plan_error :: exn where
  "plan_error = DeterministicJobError ''V22_SERP_SEARCH_PLAN_INVALID'' ''The SERP search plan is invalid.''"

definition collect_new ::
    "'s server \<Rightarrow> 's market_stage \<Rightarrow> market_context \<Rightarrow> ('s, serp_snapshot) serp_program" where
  "collect_new R G x =
     (let V = mg_run G
      in andThen (on_server (target_point_of R G (mc_target_market x))) (\<lambda>(point, location_calls).
           case build_serp_search_plan (sv_env V) (mc_queries x) point (mc_device x) (mc_language x) of
             Inl _ \<Rightarrow> throw plan_error
           | Inr plan \<Rightarrow>
               andThen
                 (handle
                    (collect_market (sv_serp V) (on_server (sv_clock V))
                       (checkpointed_search R V (adapter_search R V)) (sv_job_id V) plan location_calls)
                    (\<lambda>e. throw (collection_error e)))
                 (\<lambda>s. andThen
                    (on_server (run_once (sv_env V) R (sv_checkpoints V) (sv_job_id V) (snapshot_key V x)
                       (ret (snapshot_checkpoint_json G (market_identity V x) s))))
                    (\<lambda>raw. case check_snapshot G x (pl_queries plan) raw of
                             Inl e \<Rightarrow> throw e | Inr persisted \<Rightarrow> ret persisted))))"

definition collect_context ::
    "'s server \<Rightarrow> 's market_stage \<Rightarrow> market_context \<Rightarrow> ('s, serp_snapshot) serp_program" where
  "collect_context R G x =
     (let V = mg_run G
      in andThen (on_server (reads (checkpoint_get (sv_env V) R (sv_job_id V) (snapshot_key V x)))) (\<lambda>existing.
           if existing \<noteq> JNull then on_server (reuse_snapshot R G x existing)
           else collect_new R G x))"

definition serp_market_cost_counters :: "serp_snapshot \<Rightarrow> (string \<times> int) list" where
  "serp_market_cost_counters s =
     [(''serp_logical_calls'', int (bg_logical_calls_used (ss_budget s))),
      (''serp_provider_attempts'', bg_provider_attempts (ss_budget s)),
      (''serp_checkpoint_hits'', int (bg_checkpoint_hits (ss_budget s))),
      (''serp_location_calls'', int (bg_location_resolution_calls (ss_budget s)))]"

end
