(* ===== verification/Serp_Laws.thy ===== *)
theory Serp_Laws
  imports Serp_Stage Ledger_Properties Circuit_Properties
begin

text \<open>
  What a search of the market stage does to the store and to the provider: the claims of
  attempts are never lost, every request is paid with a new claim, and a saved response is
  read back. The collaborators' contract is the locale \<open>search_client\<close>.
\<close>

subsection \<open>Keys\<close>

lemma checkpoint_key_neq [simp]:
  "checkpoint_key h p j k \<noteq> circuit_key h' p x y" "circuit_key h' p x y \<noteq> checkpoint_key h p j k"
  "checkpoint_key h p j k \<noteq> circuit_key h' p x y @ z" "circuit_key h' p x y @ z \<noteq> checkpoint_key h p j k"
  "checkpoint_key h p j k \<noteq> circuit_failures_key h' p x y" "circuit_failures_key h' p x y \<noteq> checkpoint_key h p j k"
  by (auto simp: key_defs)

lemma checkpoint_of_neq [simp]:
  "checkpoint_of E j k \<noteq> circuit_of E x y" "checkpoint_of E j k \<noteq> probe_of E x y"
  "checkpoint_of E j k \<noteq> failures_of E x y"
  by (simp_all add: circuit_of_def probe_of_def failures_of_def checkpoint_of_def)

lemma key_run_views [simp]:
  "kr_sha256 (key_run_of R V c) = env_sha256 (sv_env V)" "kr_monotonic (key_run_of R V c) = sv_monotonic V"
  "kr_repr (key_run_of R V c) = se_repr (sv_serp V)" "kr_nfkd (key_run_of R V c) = sv_nfkd V"
  "kr_send (key_run_of R V c) = sv_send V (pc_params c)"
  "kr_before_attempt (key_run_of R V c) =
     (\<lambda>slot fingerprint. under_timeout (before_attempt R V c slot fingerprint))"
  "kr_key_available (key_run_of R V c) = key_available R V c"
  "kr_after_attempt (key_run_of R V c) = handle_after_attempt R V"
  by (simp_all add: key_run_of_def)

lemma andThen_Inr_elim:
  assumes "andThen p f s = (s', Inr v)"
  obtains a t where "p s = (t, Inr a)" "f a t = (s', Inr v)"
  using assms by (auto simp: andThen_def split: prod.splits sum.splits)

subsection \<open>Accounts of requests and claims\<close>

definition claimed :: "'s server \<Rightarrow> 's search_run \<Rightarrow> planned_call \<Rightarrow> 's \<Rightarrow> nat \<Rightarrow> bool" where
  "claimed R V c s n \<longleftrightarrow> rget R s (checkpoint_of (sv_env V) (sv_job_id V) (attempt_key c n)) \<noteq> None"

definition claims_made :: "'s server \<Rightarrow> 's search_run \<Rightarrow> planned_call \<Rightarrow> 's \<Rightarrow> nat" where
  "claims_made R V c s = length (filter (claimed R V c s) [1..<Suc SERP_PROVIDER_ATTEMPT_LIMIT_PER_CALL])"

lemma claims_made_le: "claims_made R V c s \<le> SERP_PROVIDER_ATTEMPT_LIMIT_PER_CALL"
  unfolding claims_made_def using length_filter_le [of "claimed R V c s" "[1..<Suc SERP_PROVIDER_ATTEMPT_LIMIT_PER_CALL]"]
  by (simp del: upt_Suc)

lemma length_filter_mono:
  "(\<And>x. x \<in> set xs \<Longrightarrow> P x \<Longrightarrow> Q x) \<Longrightarrow> length (filter P xs) \<le> length (filter Q xs)"
  by (induction xs) auto

lemma length_filter_strict:
  assumes "\<And>x. x \<in> set xs \<Longrightarrow> P x \<Longrightarrow> Q x" "y \<in> set xs" "\<not> P y" "Q y"
  shows "length (filter P xs) < length (filter Q xs)"
  using assms
proof (induction xs)
  case (Cons x xs)
  have le: "length (filter P xs) \<le> length (filter Q xs)" using Cons.prems(1) by (intro length_filter_mono) auto
  show ?case
  proof (cases "x = y")
    case True
    then show ?thesis using Cons.prems(3,4) le by simp
  next
    case False
    then have "length (filter P xs) < length (filter Q xs)"
      using Cons.prems by (intro Cons.IH) auto
    then show ?thesis using Cons.prems(1) [of x] by auto
  qed
qed simp

lemma claims_made_mono:
  "(\<And>n. claimed R V c s n \<Longrightarrow> claimed R V c s' n) \<Longrightarrow> claims_made R V c s \<le> claims_made R V c s'"
  unfolding claims_made_def by (rule length_filter_mono)

lemma claims_made_new:
  assumes "\<And>n. claimed R V c s n \<Longrightarrow> claimed R V c s' n"
    and "1 \<le> n" "n \<le> SERP_PROVIDER_ATTEMPT_LIMIT_PER_CALL" "\<not> claimed R V c s n" "claimed R V c s' n"
  shows "claims_made R V c s < claims_made R V c s'"
  unfolding claims_made_def using assms by (intro length_filter_strict [where y = n]) auto

text \<open>
  \<open>balance\<close>: claims made less requests sent. \<open>earns a b p\<close>: a run of \<open>p\<close> that returns adds at
  least \<open>a\<close> to it, one that raises at least \<open>b\<close>.
\<close>

definition balance :: "'s server \<Rightarrow> 's search_run \<Rightarrow> planned_call \<Rightarrow> 's \<times> serp_process \<Rightarrow> int" where
  "balance R V c x = int (claims_made R V c (fst x)) - int (sp_sent (snd x))"

definition earns ::
    "'s server \<Rightarrow> 's search_run \<Rightarrow> planned_call \<Rightarrow> int \<Rightarrow> int \<Rightarrow> ('s, 'a) serp_program \<Rightarrow> bool" where
  "earns R V c a b p \<longleftrightarrow>
     (\<forall>x. balance R V c x + (case snd (p x) of Inr _ \<Rightarrow> a | Inl _ \<Rightarrow> b) \<le> balance R V c (fst (p x)))"

lemma earnsD:
  "earns R V c a b p \<Longrightarrow> p x = (y, r) \<Longrightarrow>
   balance R V c x + (case r of Inr _ \<Rightarrow> a | Inl _ \<Rightarrow> b) \<le> balance R V c y"
  unfolding earns_def by (drule spec [of _ x]) simp

named_theorems earns_intros \<open>what programs earn, by their structure\<close>

lemma earns_ret [earns_intros]: "earns R V c 0 b (ret x)"
  by (simp add: earns_def)

lemma earns_throw [earns_intros]: "earns R V c a 0 (throw e)"
  by (simp add: earns_def throw_def)

lemma earns_weaken: "earns R V c a b p \<Longrightarrow> a' \<le> a \<Longrightarrow> b' \<le> b \<Longrightarrow> earns R V c a' b' p"
  unfolding earns_def by (force split: sum.splits)

lemma earns_andThen_result:
  assumes "earns R V c a b p" "\<And>x y r. p x = (y, Inr r) \<Longrightarrow> earns R V c (c1 - a) (d - a) (f r)" "d \<le> b"
  shows "earns R V c c1 d (andThen p f)"
  unfolding earns_def
proof
  fix x
  obtain y r where p: "p x = (y, r)" by (cases "p x")
  have 1: "balance R V c x + (case r of Inr _ \<Rightarrow> a | Inl _ \<Rightarrow> b) \<le> balance R V c y"
    by (rule earnsD [OF assms(1) p])
  show "balance R V c x + (case snd (andThen p f x) of Inr _ \<Rightarrow> c1 | Inl _ \<Rightarrow> d)
      \<le> balance R V c (fst (andThen p f x))"
  proof (cases r)
    case (Inl e)
    then show ?thesis using 1 assms(3) by (simp add: andThen_def p)
  next
    case (Inr v)
    have "balance R V c y + (case snd (f v y) of Inr _ \<Rightarrow> c1 - a | Inl _ \<Rightarrow> d - a) \<le> balance R V c (fst (f v y))"
      using p Inr by (intro earnsD [OF assms(2) surjective_pairing]) simp
    then show ?thesis using 1 Inr by (auto simp: andThen_def p split: sum.splits)
  qed
qed

lemma earns_andThen_gen:
  "earns R V c a b p \<Longrightarrow> (\<And>r. earns R V c (c1 - a) (d - a) (f r)) \<Longrightarrow> d \<le> b \<Longrightarrow>
   earns R V c c1 d (andThen p f)"
  by (rule earns_andThen_result)

lemma earns_andThen [earns_intros]:
  "earns R V c 0 0 p \<Longrightarrow> (\<And>r. earns R V c 0 0 (f r)) \<Longrightarrow> earns R V c 0 0 (andThen p f)"
  by (rule earns_andThen_gen [where a = 0 and b = 0]) auto

lemma earns_handle:
  assumes "earns R V c a b p" "\<And>e. earns R V c (a - b) (d - b) (h e)"
  shows "earns R V c a d (handle p h)"
  unfolding earns_def
proof
  fix x
  obtain y r where p: "p x = (y, r)" by (cases "p x")
  have 1: "balance R V c x + (case r of Inr _ \<Rightarrow> a | Inl _ \<Rightarrow> b) \<le> balance R V c y"
    by (rule earnsD [OF assms(1) p])
  show "balance R V c x + (case snd (handle p h x) of Inr _ \<Rightarrow> a | Inl _ \<Rightarrow> d)
      \<le> balance R V c (fst (handle p h x))"
  proof (cases r)
    case (Inr v)
    then show ?thesis using 1 by (simp add: handle_def p)
  next
    case (Inl e)
    have "balance R V c y + (case snd (h e y) of Inr _ \<Rightarrow> a - b | Inl _ \<Rightarrow> d - b) \<le> balance R V c (fst (h e y))"
      by (rule earnsD [OF assms(2) surjective_pairing])
    then show ?thesis using 1 Inl by (auto simp: handle_def p split: sum.splits)
  qed
qed

lemma earns_handle_0 [earns_intros]:
  "earns R V c 0 0 p \<Longrightarrow> (\<And>e. earns R V c 0 0 (h e)) \<Longrightarrow> earns R V c 0 0 (handle p h)"
  using earns_handle [of R V c 0 0 p 0 h] by simp

lemma earns_outcome [earns_intros]: "earns R V c 0 0 p \<Longrightarrow> earns R V c 0 0 (outcome p)"
  unfolding earns_def outcome_def by (auto simp: case_prod_beta split: sum.splits)

lemma earns_if [earns_intros]:
  "earns R V c a b p \<Longrightarrow> earns R V c a b q \<Longrightarrow> earns R V c a b (if t then p else q)"
  by simp

lemma earns_option [earns_intros]:
  "earns R V c a b p \<Longrightarrow> (\<And>x. v = Some x \<Longrightarrow> earns R V c a b (f x)) \<Longrightarrow>
   earns R V c a b (case v of None \<Rightarrow> p | Some x \<Rightarrow> f x)"
  by (cases v) auto

lemma earns_sum [earns_intros]:
  "(\<And>x. earns R V c a b (f x)) \<Longrightarrow> (\<And>x. earns R V c a b (g x)) \<Longrightarrow>
   earns R V c a b (case v of Inl x \<Rightarrow> f x | Inr x \<Rightarrow> g x)"
  by (cases v) auto

lemma earns_pair [earns_intros]:
  "(\<And>x y. earns R V c a b (f x y)) \<Longrightarrow> earns R V c a b (case v of (x, y) \<Rightarrow> f x y)"
  by (cases v) auto

lemma earns_let [earns_intros]: "earns R V c a b (f x) \<Longrightarrow> earns R V c a b (let v = x in f v)"
  by simp

lemma earns_read_process [earns_intros]: "earns R V c 0 0 (read_process f)"
  by (simp add: earns_def read_process_def split: prod.splits)

lemma earns_update_process [earns_intros]:
  "(\<And>q. sp_sent (f q) = sp_sent q) \<Longrightarrow> earns R V c 0 0 (update_process f)"
  by (simp add: earns_def update_process_def balance_def split: prod.splits)

text \<open>A program on the server that keeps the claims.\<close>

definition keeps_claims :: "'s server \<Rightarrow> 's search_run \<Rightarrow> planned_call \<Rightarrow> ('s, 'a) program \<Rightarrow> bool" where
  "keeps_claims R V c p \<longleftrightarrow> (\<forall>s n. claimed R V c s n \<longrightarrow> claimed R V c (fst (p s)) n)"

lemma earns_on_server [earns_intros]:
  assumes "keeps_claims R V c p"
  shows "earns R V c 0 0 (on_server p)"
proof -
  have "claims_made R V c s \<le> claims_made R V c (fst (p s))" for s
    using assms by (intro claims_made_mono) (simp add: keeps_claims_def)
  then show ?thesis
    by (auto simp: earns_def on_server_def balance_def split: prod.splits sum.splits)
      (metis fst_conv)+
qed

named_theorems keeps_intros \<open>programs on the server that keep the claims\<close>

lemma keeps_ret [keeps_intros]: "keeps_claims R V c (ret x)"
  by (simp add: keeps_claims_def)

lemma keeps_throw [keeps_intros]: "keeps_claims R V c (throw e)"
  by (simp add: keeps_claims_def throw_def)

lemma keeps_reads [keeps_intros]: "keeps_claims R V c (reads f)"
  by (simp add: keeps_claims_def reads_def)

lemma keeps_andThen [keeps_intros]:
  "keeps_claims R V c p \<Longrightarrow> (\<And>r. keeps_claims R V c (f r)) \<Longrightarrow> keeps_claims R V c (andThen p f)"
  by (auto simp: keeps_claims_def andThen_def split: prod.splits sum.splits) (metis fst_conv)+

lemma keeps_if [keeps_intros]:
  "keeps_claims R V c p \<Longrightarrow> keeps_claims R V c q \<Longrightarrow> keeps_claims R V c (if t then p else q)"
  by simp

lemma keeps_option [keeps_intros]:
  "keeps_claims R V c p \<Longrightarrow> (\<And>x. v = Some x \<Longrightarrow> keeps_claims R V c (f x)) \<Longrightarrow>
   keeps_claims R V c (case v of None \<Rightarrow> p | Some x \<Rightarrow> f x)"
  by (cases v) auto

lemma keeps_let [keeps_intros]: "keeps_claims R V c (f x) \<Longrightarrow> keeps_claims R V c (let v = x in f v)"
  by simp

text \<open>A program that keeps every key outside a set without checkpoints keeps the claims.\<close>

lemma keeps_same:
  assumes "\<And>k s. rget R (fst (p s)) (checkpoint_of (sv_env V) (sv_job_id V) k)
    = rget R s (checkpoint_of (sv_env V) (sv_job_id V) k)"
  shows "keeps_claims R V c p"
  using assms by (auto simp: keeps_claims_def claimed_def)

subsection \<open>The contract of the collaborators\<close>

definition run_ok :: "'s search_run \<Rightarrow> bool" where
  "run_ok V \<longleftrightarrow>
     0 < ck_ttl_seconds (sv_checkpoints V)
   \<and> (\<forall>C. sv_ledger V = Some C \<longrightarrow> new_job_cost_ledger C = Inr C \<and> lg_prefix C = env_prefix (sv_env V))
   \<and> (\<forall>cfg. sv_circuit V = Some cfg \<longrightarrow> 0 < cb_window_seconds cfg \<and> cb_cooldown_seconds cfg \<noteq> []
        \<and> list_all (\<lambda>x. 0 < x) (cb_cooldown_seconds cfg))"

text \<open>
  Nobody else deletes a claim while the job runs: not the clocks, not the provider, and not
  the other clients (a claim expires days after the job has ended).
\<close>

definition keeps_attempts :: "'s server \<Rightarrow> 's search_run \<Rightarrow> planned_call \<Rightarrow> bool" where
  "keeps_attempts R V c \<longleftrightarrow>
     keeps_claims R V c (sv_clock V) \<and> keeps_claims R V c (sv_monotonic V) \<and> keeps_claims R V c (sv_uuid4 V)
   \<and> keeps_claims R V c (sv_others V) \<and> (\<forall>ps key. keeps_claims R V c (sv_send V ps key))"

locale search_client = redis_laws R for R :: "('s, rval) redis" +
  fixes V :: "'s search_run" and c :: planned_call
  assumes run: "run_ok V" and keeps: "keeps_attempts R V c"
begin

lemma client_keeps [keeps_intros]:
  "keeps_claims R V c (sv_clock V)" "keeps_claims R V c (sv_monotonic V)" "keeps_claims R V c (sv_uuid4 V)"
  "keeps_claims R V c (sv_others V)" "keeps_claims R V c (sv_send V ps key)"
  using keeps by (simp_all add: keeps_attempts_def)

lemma store: "checkpoint_store R (sv_checkpoints V)"
  using run by unfold_locales (simp add: run_ok_def)

lemma keeps_save [keeps_intros]: "keeps_claims R V c (checkpoint_save (sv_env V) R (sv_checkpoints V) j key v)"
  unfolding keeps_claims_def
proof (intro allI impI)
  fix s n assume "claimed R V c s n"
  then show "claimed R V c (fst (checkpoint_save (sv_env V) R (sv_checkpoints V) j key v s)) n"
    by (cases rule: checkpoint_store.checkpoint_save_cases [OF store, of "sv_env V" j key v s])
      (simp_all add: claimed_def)
qed

lemma ledger:
  assumes "sv_ledger V = Some C"
  shows "job_ledger R C" "lg_prefix C = env_prefix (sv_env V)"
  using run assms by (auto simp: run_ok_def intro!: job_ledger.intro redis_laws_axioms job_ledger_axioms.intro)

lemma keeps_mutate:
  assumes "sv_ledger V = Some C"
  shows "keeps_claims R V c (mutate C R f now)"
proof (rule keeps_same)
  fix k s
  show "rget R (fst (mutate C R f now s)) (checkpoint_of (sv_env V) (sv_job_id V) k)
      = rget R s (checkpoint_of (sv_env V) (sv_job_id V) k)"
    by (rule job_ledger.mutate_elim [OF ledger(1) [OF assms], of f now s])
      (simp_all add: ledger_key_def ledger(2) [OF assms] checkpoint_of_def)
qed

lemma keeps_ledger [keeps_intros]:
  assumes "sv_ledger V = Some C"
  shows "keeps_claims R V c (claim C R op i now)" "keeps_claims R V c (complete C R i co now)"
    "keeps_claims R V c (record_checkpoint_hit C R hits now)"
  using keeps_mutate [OF assms]
  by (auto simp: keeps_claims_def fst_claim complete_def record_checkpoint_hit_def)

lemma circuit:
  assumes "sv_circuit V = Some cfg"
  shows "circuit_runtime R cfg"
  using run assms
  by (auto simp: run_ok_def intro!: circuit_runtime.intro redis_laws_axioms circuit_runtime_axioms.intro)

lemma cooldown_any:
  assumes "sv_circuit V = Some cfg"
  shows "0 < cooldown cfg n"
proof -
  have "cb_cooldown_seconds cfg \<noteq> []" "list_all (\<lambda>x. 0 < x) (cb_cooldown_seconds cfg)"
    using run assms by (auto simp: run_ok_def)
  moreover from this have "nat (min (n - 1) (int (length (cb_cooldown_seconds cfg)) - 1)) < length (cb_cooldown_seconds cfg)"
    by (cases "cb_cooldown_seconds cfg") auto
  ultimately show ?thesis by (simp add: cooldown_def list_all_length)
qed

lemma keeps_before_call [keeps_intros]:
  assumes "sv_circuit V = Some cfg"
  shows "keeps_claims R V c (before_call (sv_env V) R cfg provider operation now token)"
proof (rule keeps_same)
  fix k s
  show "rget R (fst (before_call (sv_env V) R cfg provider operation now token s))
        (checkpoint_of (sv_env V) (sv_job_id V) k) = rget R s (checkpoint_of (sv_env V) (sv_job_id V) k)"
    by (auto simp: before_call_def set_nx_def get_exec split: sum.splits list.splits)
qed

lemma keeps_record_success [keeps_intros]:
  "keeps_claims R V c (\<lambda>s. (record_success (sv_env V) R permit s, x))"
  by (rule keeps_same) (simp add: record_success_def get_exec)

lemma keeps_record_failure [keeps_intros]:
  assumes "sv_circuit V = Some cfg"
  shows "keeps_claims R V c (record_failure (sv_env V) R cfg permit now eligible im th member)"
proof (rule keeps_same)
  fix k s
  let ?ck = "checkpoint_of (sv_env V) (sv_job_id V) k"
  note failures = circuit_runtime.failure_views(1) [OF circuit [OF assms]]
  have window: "0 < cb_window_seconds cfg" using run assms by (auto simp: run_ok_def)
  have opened: "rget R (open_circuit (sv_env V) R cfg permit now n t) ?ck = rget R t ?ck" for n t
  proof -
    have "0 < cooldown cfg n + cb_window_seconds cfg" using cooldown_any [OF assms, of n] window by simp
    then show ?thesis by (simp add: open_circuit_def Let_def get_exec)
  qed
  show "rget R (fst (record_failure (sv_env V) R cfg permit now eligible im th member s)) ?ck = rget R s ?ck"
    by (auto simp: record_failure_def Let_def opened failures get_exec
        split: sum.splits)
qed

subsection \<open>A claim is earned before a request is sent\<close>

lemma claim_attempt_keeps [keeps_intros]:
  "keeps_claims R V c (claim_attempt R V c slot fingerprint rounds)"
  by (induction rounds) (auto intro!: keeps_intros simp del: andThen_reads)

lemma keeps_claims_made:
  "keeps_claims R V c p \<Longrightarrow> p s = (s', r) \<Longrightarrow> claims_made R V c s \<le> claims_made R V c s'"
  by (rule claims_made_mono) (metis fst_conv keeps_claims_def)

lemma claim_attempt_new:
  "claim_attempt R V c slot fingerprint rounds s = (s', Inr n) \<Longrightarrow> claims_made R V c s < claims_made R V c s'"
proof (induction rounds arbitrary: s)
  case 0
  then show ?case by (simp add: throw_def)
next
  case (Suc rounds)
  let ?p = "claim_attempt R V c slot fingerprint rounds"
  obtain claims where claims_of: "claims_of R V c s = Inr claims"
    using Suc.prems by (auto split: sum.splits)
  have claims: "Suc (length claims) \<le> SERP_PROVIDER_ATTEMPT_LIMIT_PER_CALL"
      "andThen (sv_clock V) (\<lambda>now.
         let a = \<lparr>at_request_digest = pc_request_digest c, at_attempt_number = int (Suc (length claims)),
                  at_key_slot = int slot, at_key_fingerprint = fingerprint, at_claimed_at = now\<rparr>
         in if \<not> attempt_claim_valid a then throw ValidationError
            else andThen (sv_others V) (\<lambda>_.
              andThen (checkpoint_save (sv_env V) R (sv_checkpoints V) (sv_job_id V)
                         (attempt_key c (Suc (length claims))) (attempt_claim_json (sv_iso V) a))
                (\<lambda>saved. if saved then ret (Suc (length claims)) else ?p))) s = (s', Inr n)"
    using Suc.prems
    by (simp_all add: claims_of Let_def throw_def not_less split: if_splits)
  obtain now s1 where now: "sv_clock V s = (s1, Inr now)"
    and 1: "(let a = \<lparr>at_request_digest = pc_request_digest c, at_attempt_number = int (Suc (length claims)),
                  at_key_slot = int slot, at_key_fingerprint = fingerprint, at_claimed_at = now\<rparr>
         in if \<not> attempt_claim_valid a then throw ValidationError
            else andThen (sv_others V) (\<lambda>_.
              andThen (checkpoint_save (sv_env V) R (sv_checkpoints V) (sv_job_id V)
                         (attempt_key c (Suc (length claims))) (attempt_claim_json (sv_iso V) a))
                (\<lambda>saved. if saved then ret (Suc (length claims)) else ?p))) s1 = (s', Inr n)"
    using claims(2) by (rule andThen_Inr_elim)
  obtain a where "andThen (sv_others V) (\<lambda>_.
      andThen (checkpoint_save (sv_env V) R (sv_checkpoints V) (sv_job_id V)
                 (attempt_key c (Suc (length claims))) (attempt_claim_json (sv_iso V) a))
        (\<lambda>saved. if saved then ret (Suc (length claims)) else ?p)) s1 = (s', Inr n)"
    using 1 by (auto simp: Let_def throw_def split: if_splits)
  then obtain u s2 where others: "sv_others V s1 = (s2, Inr u)"
    and 2: "andThen (checkpoint_save (sv_env V) R (sv_checkpoints V) (sv_job_id V)
                 (attempt_key c (Suc (length claims))) (attempt_claim_json (sv_iso V) a))
        (\<lambda>saved. if saved then ret (Suc (length claims)) else ?p) s2 = (s', Inr n)"
    by (rule andThen_Inr_elim)
  from 2 obtain saved s3 where save: "checkpoint_save (sv_env V) R (sv_checkpoints V) (sv_job_id V)
        (attempt_key c (Suc (length claims))) (attempt_claim_json (sv_iso V) a) s2 = (s3, Inr saved)"
    and 3: "(if saved then ret (Suc (length claims)) else ?p) s3 = (s', Inr n)"
    by (rule andThen_Inr_elim)
  have "claims_made R V c s \<le> claims_made R V c s1" "claims_made R V c s1 \<le> claims_made R V c s2"
    by (rule keeps_claims_made [OF client_keeps(1) now], rule keeps_claims_made [OF client_keeps(4) others])
  moreover have "claims_made R V c s2 < claims_made R V c s'"
  proof (cases saved)
    case False
    have "claims_made R V c s2 \<le> claims_made R V c s3"
      by (rule keeps_claims_made [OF keeps_save save])
    moreover have "claims_made R V c s3 < claims_made R V c s'" using 3 False by (intro Suc.IH) simp
    ultimately show ?thesis by simp
  next
    case True
    then have s': "s' = s3" using 3 by (simp add: ret_def)
    have absent: "\<not> claimed R V c s2 (Suc (length claims))" and new: "claimed R V c s3 (Suc (length claims))"
      using save True
      by (cases rule: checkpoint_store.checkpoint_save_cases [OF store, of "sv_env V" "sv_job_id V"
            "attempt_key c (Suc (length claims))" "attempt_claim_json (sv_iso V) a" s2],
          simp_all add: claimed_def)+
    have "claimed R V c s2 n \<Longrightarrow> claimed R V c s3 n" for n
      using keeps_save [of "sv_job_id V"] save by (metis fst_conv keeps_claims_def)
    from claims_made_new [OF this _ claims(1) absent new] show ?thesis by (simp add: s')
  qed
  ultimately show ?case by linarith
qed

lemma claim_attempt_earns: "earns R V c 1 0 (on_server (claim_attempt R V c slot fingerprint rounds))"
  unfolding earns_def
proof
  fix x :: "'s \<times> serp_process"
  obtain s q where x: "x = (s, q)" by (cases x)
  obtain s' r where p: "claim_attempt R V c slot fingerprint rounds s = (s', r)"
    by (cases "claim_attempt R V c slot fingerprint rounds s")
  have "claims_made R V c s \<le> claims_made R V c s'"
    by (rule keeps_claims_made [OF claim_attempt_keeps p])
  moreover have "claims_made R V c s < claims_made R V c s'" if "r = Inr n" for n
    using p that by (intro claim_attempt_new) simp
  ultimately show "balance R V c x + (case snd (on_server (claim_attempt R V c slot fingerprint rounds) x) of
      Inl e \<Rightarrow> 0 | Inr n \<Rightarrow> 1) \<le> balance R V c (fst (on_server (claim_attempt R V c slot fingerprint rounds) x))"
    by (auto simp: on_server_def x p balance_def split: sum.splits)
qed

subsection \<open>Searches\<close>

lemma before_attempt_earns: "earns R V c 1 0 (before_attempt R V c slot fingerprint)"
  unfolding before_attempt_def
  by (rule earns_andThen_gen [OF claim_attempt_earns])
    (auto intro!: earns_intros keeps_intros earns_weaken [where a = 0 and b = 0])

lemma after_attempt_earns [earns_intros]: "earns R V c 0 0 (handle_after_attempt R V slot fingerprint kind)"
  unfolding handle_after_attempt_def after_attempt_def settle_key_def
  by (auto intro!: earns_intros keeps_intros split: option.splits)

lemma key_available_earns [earns_intros]: "earns R V c 0 0 (key_available R V c fingerprint)"
  unfolding key_available_def by (auto intro!: earns_intros keeps_intros)

lemma available_keys_earns [earns_intros]:
  "earns R V c 0 0 (available_keys (key_run_of R V c) now ks)"
proof (induction ks)
  case (Cons k ks)
  then show ?case
    by (cases k) (auto simp: Let_def intro!: earns_intros)
qed (auto intro: earns_intros)

lemma send_request_earns: "earns R V c (- 1) (- 1) (send_request (key_run_of R V c) key)"
proof -
  have "earns R V c (- 1) (- 1) (update_process (\<lambda>q. q\<lparr>sp_sent := Suc (sp_sent q)\<rparr>))"
    by (simp add: earns_def update_process_def balance_def split: prod.splits)
  then show ?thesis
    unfolding send_request_def
    by (rule earns_andThen_gen) (auto intro!: earns_intros keeps_intros)
qed

lemma read_answer_earns: "earns R V c 0 0 (read_answer (key_run_of R V c) slot fingerprint n answer)"
proof -
  have after: "earns R V c 0 0 (kr_after_attempt (key_run_of R V c) i f x)" for i f x
    by (simp add: after_attempt_earns)
  show ?thesis
    unfolding read_answer_def
    by (intro earns_intros after keeps_intros)
      (auto simp: block_key_def after_attempt_earns intro: keeps_intros)
qed

lemma earns_under_timeout: "earns R V c a 0 p \<Longrightarrow> earns R V c a 0 (under_timeout p)"
  unfolding under_timeout_def by (rule earns_handle [where b = 0]) (auto intro: earns_intros)

lemma try_keys_earns [earns_intros]: "earns R V c 0 0 (try_keys (key_run_of R V c) n ks)"
proof (induction ks arbitrary: n)
  case (Cons k ks)
  let ?G = "key_run_of R V c"
  have after: "earns R V c 0 0 (kr_after_attempt ?G i f x)" for i f x
    by (auto intro: earns_intros)
  have before: "earns R V c 1 0 (kr_before_attempt ?G i f)" for i f
    by (simp add: earns_under_timeout before_attempt_earns)
  have h: "earns R V c 0 0 (if is_exception e
      then andThen (kr_after_attempt ?G i f x) (\<lambda>_. throw y) else throw e)" for e i f x y
    by (intro earns_intros after)
  have sent: "earns R V c (- 1) (- 1)
     (handle (send_request ?G key)
        (\<lambda>e. if is_exception e
             then andThen (kr_after_attempt ?G i f (Some ''transport''))
                    (\<lambda>_. throw (SerpApiTransportError (e = ResponseTooLarge)))
             else throw e))" for key i f
    by (rule earns_handle [OF send_request_earns]) (simp add: h)
  show ?case
  proof (cases k)
    case (Pair slot key)
    show ?thesis
      unfolding Pair try_keys.simps Let_def
    proof (rule earns_andThen_gen [OF before], rule earns_andThen_gen [OF sent])
      show "earns R V c (0 - 1 - - 1) (0 - 1 - - 1)
         (andThen (read_answer ?G slot (serpapi_key_fingerprint (kr_sha256 ?G) key) (n + 1) answer)
            (\<lambda>r. case r of None \<Rightarrow> try_keys ?G (n + 1) ks | Some response \<Rightarrow> ret response))" for answer
        using Cons.IH by (auto intro!: earns_intros read_answer_earns)
    qed simp_all
  qed
qed (auto intro: earns_intros)

lemma adapter_search_earns [earns_intros]: "earns R V c 0 0 (adapter_search R V c)"
  unfolding adapter_search_def execute_serpapi_get_def Let_def
  by (auto intro!: earns_intros keeps_intros)

lemma open_permit_Some:
  "open_permit R V c now x = (y, Inr (Some (cfg, p))) \<Longrightarrow> sv_circuit V = Some cfg"
  by (auto simp: open_permit_def andThen_def ret_def split: option.splits prod.splits sum.splits)

lemma search_failed_earns:
  assumes "\<And>cfg p. permit = Some (cfg, p) \<Longrightarrow> sv_circuit V = Some cfg"
  shows "earns R V c 0 0 (search_failed R V c permit e)"
  using assms unfolding search_failed_def attempt_count_def
  by (cases e) (auto intro!: earns_intros keeps_intros)

lemma save_response_earns [earns_intros]: "earns R V c 0 0 (save_response R V c started response)"
  unfolding save_response_def attempt_count_def
  by (auto simp: Let_def intro!: earns_intros keeps_intros)

lemma checkpointed_search_earns:
  assumes "earns R V c 0 0 (delegate c)"
  shows "earns R V c 0 0 (checkpointed_search R V delegate c)"
proof -
  have permit: "earns R V c 0 0 (open_permit R V c t)" for t
    unfolding open_permit_def by (auto intro!: earns_intros keeps_intros)
  have rest: "earns R V c 0 0
     (andThen (outcome (delegate c)) (\<lambda>result.
        case result of
          Inl e \<Rightarrow> search_failed R V c pm e
        | Inr response \<Rightarrow>
            andThen (case pm of
                       None \<Rightarrow> ret ()
                     | Some (cfg, p) \<Rightarrow> on_server (\<lambda>s. (record_success (sv_env V) R p s, Inr ())))
              (\<lambda>_. save_response R V c t response)))"
    if "\<And>cfg p. pm = Some (cfg, p) \<Longrightarrow> sv_circuit V = Some cfg" for pm t
    using that
    by (intro earns_andThen earns_outcome assms earns_sum search_failed_earns)
      (auto intro!: earns_intros keeps_intros)
  have "earns R V c 0 0
     (andThen (open_permit R V c t) (\<lambda>pm.
        andThen (outcome (delegate c)) (\<lambda>result.
          case result of
            Inl e \<Rightarrow> search_failed R V c pm e
          | Inr response \<Rightarrow>
              andThen (case pm of
                         None \<Rightarrow> ret ()
                       | Some (cfg, p) \<Rightarrow> on_server (\<lambda>s. (record_success (sv_env V) R p s, Inr ())))
                (\<lambda>_. save_response R V c t response))))" for t
  proof (rule earns_andThen_result [OF permit])
    fix x y pm assume "open_permit R V c t x = (y, Inr pm)"
    then have "pm = Some (cfg, p) \<Longrightarrow> sv_circuit V = Some cfg" for cfg p
      by (auto intro: open_permit_Some)
    note rest [of pm t, OF this]
    then show "earns R V c (0 - 0) (0 - 0)
     (andThen (outcome (delegate c)) (\<lambda>result.
        case result of
          Inl e \<Rightarrow> search_failed R V c pm e
        | Inr response \<Rightarrow>
            andThen (case pm of
                       None \<Rightarrow> ret ()
                     | Some (cfg, p) \<Rightarrow> on_server (\<lambda>s. (record_success (sv_env V) R p s, Inr ())))
              (\<lambda>_. save_response R V c t response)))" by simp
  qed simp
  note call = this
  show ?thesis
    unfolding checkpointed_search_def use_checkpoint_def attempt_count_def
    by (rule call earns_intros keeps_intros | simp)+
qed

text \<open>What a search sends is paid with new claims, so it never sends more than the limit leaves.\<close>

lemma search_paid:
  assumes "checkpointed_search R V (adapter_search R V) c (s, q) = ((s', q'), r)"
  shows "sp_sent q' + claims_made R V c s \<le> sp_sent q + claims_made R V c s'"
    and "sp_sent q' + claims_made R V c s \<le> sp_sent q + SERP_PROVIDER_ATTEMPT_LIMIT_PER_CALL"
proof -
  show paid: "sp_sent q' + claims_made R V c s \<le> sp_sent q + claims_made R V c s'"
    using earnsD [OF checkpointed_search_earns [of "adapter_search R V", OF adapter_search_earns] assms]
    by (simp add: balance_def split: sum.splits)
  then show "sp_sent q' + claims_made R V c s \<le> sp_sent q + SERP_PROVIDER_ATTEMPT_LIMIT_PER_CALL"
    using claims_made_le [of R V c s'] by linarith
qed

end

end
