(* ===== verification/Serp_Documents.thy ===== *)
theory Serp_Documents
  imports Serp_Stage
begin

text \<open>
  The documents of the market stage are read back as they were written: claims of attempts,
  saved responses and search points. Times go through the text of pydantic; a document is
  written with its members in order, which its canonical text ignores.
\<close>

definition times_read_back :: "'s search_run \<Rightarrow> bool" where
  "times_read_back V \<longleftrightarrow> (\<forall>t. sv_parse_time V (sv_iso V t) = Some t)"

definition canonical_text :: "runtime_env \<Rightarrow> bool" where
  "canonical_text E \<longleftrightarrow> (\<forall>v. env_json_text E (sort_members v) = env_json_text E v)"

lemma canonical_digest: "canonical_text E \<Longrightarrow> request_digest E (sort_members v) = request_digest E v"
  by (simp add: canonical_text_def request_digest_def)

lemma strip_text_absent: "(\<And>c. c \<in> set s \<Longrightarrow> \<not> py_isspace c) \<Longrightarrow> strip_text s = s"
  unfolding strip_text_def by (rule strip_chars_absent) (auto simp: py_isspace_def)

lemma strip_text_hex: "list_all is_hex_digit s \<Longrightarrow> strip_text s = s"
  by (rule strip_text_absent) (auto simp: list_all_iff hex_digit_plain(10))

lemma strip_text_digest [simp]:
  assumes "valid_digest s"
  shows "strip_text s = s"
proof (rule strip_text_absent)
  fix c assume "c \<in> set s"
  moreover have "set s = set (take 7 s) \<union> set (drop 7 s)" by (metis append_take_drop_id set_append)
  ultimately have "c \<in> set ''sha256:'' \<or> is_hex_digit c"
    using assms by (auto simp: valid_digest_def list_all_iff)
  then show "\<not> py_isspace c" using hex_digit_plain(10) by (auto simp: py_isspace_def white_space_def)
qed

lemma strip_versions [simp]:
  "strip_text ''serp_provider_attempt_v1'' = ''serp_provider_attempt_v1''"
  "strip_text ''serp_provider_response_v1'' = ''serp_provider_response_v1''"
  "strip_text ''serp_location_response_v1'' = ''serp_location_response_v1''"
  "strip_text ''serp_market_snapshot_checkpoint_v1'' = ''serp_market_snapshot_checkpoint_v1''"
  "strip_text ''google_maps'' = ''google_maps''" "strip_text ''google'' = ''google''"
  "strip_text ''explicit_coordinates'' = ''explicit_coordinates''"
  "strip_text ''serpapi_location'' = ''serpapi_location''"
  by code_simp+

lemma attempt_claim_read_back:
  assumes "sv_parse_time V (sv_iso V (at_claimed_at a)) = Some (at_claimed_at a)" "attempt_claim_valid a"
  shows "parse_attempt_claim (sv_parse_time V) (attempt_claim_json (sv_iso V) a) = Some a"
proof -
  have "strip_text (at_request_digest a) = at_request_digest a"
    "strip_text (at_key_fingerprint a) = at_key_fingerprint a"
    using assms(2) by (simp_all add: attempt_claim_valid_def strip_text_hex)
  then show ?thesis
    using assms by (cases a) (simp add: parse_attempt_claim_def attempt_claim_json_def jstr_def jint_def jtime_def jfind_def
        Let_def)
qed

lemma is_jobj_sort_members [simp]: "is_jobj (sort_members v) = is_jobj v"
  by (cases v) auto

lemma engine_read_back [simp]: "Option.bind (Some (strip_text (engine_name e))) engine_of = Some e"
  by (cases e) (simp_all add: engine_of_def)

lemma provider_checkpoint_read_back:
  assumes "times_read_back V" "provider_checkpoint_valid p"
  shows "parse_provider_checkpoint (sv_parse_time V) (provider_checkpoint_json (sv_iso V) p)
    = Some (p\<lparr>pk_payload := sort_members (pk_payload p)\<rparr>)"
proof -
  have "strip_text (pk_request_digest p) = pk_request_digest p"
    "strip_text (pk_payload_checksum p) = pk_payload_checksum p"
    using assms(2) by (simp_all add: provider_checkpoint_valid_def)
  then show ?thesis
    using assms engine_read_back [of "pk_engine p"]
    by (simp add: parse_provider_checkpoint_def provider_checkpoint_json_def jstr_def jint_def jtime_def
        jfind_def times_read_back_def provider_checkpoint_valid_def del: engine_read_back)
qed

text \<open>The response that a search saves: its payload is what the sanitizer keeps of the provider's.\<close>

definition saved_response_ok :: "'s search_run \<Rightarrow> planned_call \<Rightarrow> json \<Rightarrow> provider_checkpoint \<Rightarrow> bool" where
  "saved_response_ok V c raw p \<longleftrightarrow>
     provider_checkpoint_valid p \<and> pk_request_digest p = pc_request_digest c \<and> pk_engine p = pc_engine c
   \<and> pk_payload p = sanitize_serp_payload (se_repr (sv_serp V)) raw (pc_engine c)
   \<and> pk_payload_checksum p = request_digest (sv_env V) (pk_payload p) \<and> \<not> too_large V (pk_payload p)"

lemma saved_response_accepted:
  assumes "times_read_back V" "canonical_text (sv_env V)" "saved_response_ok V c raw p"
  shows "validated_checkpoint V (provider_checkpoint_json (sv_iso V) p) c
    = Inr (p\<lparr>pk_payload := sort_members (pk_payload p)\<rparr>)"
proof -
  have "too_large V (sort_members (pk_payload p)) = too_large V (pk_payload p)"
    using assms(2) by (simp add: too_large_def canonical_text_def)
  moreover have "parse_provider_checkpoint (sv_parse_time V) (provider_checkpoint_json (sv_iso V) p)
    = Some (p\<lparr>pk_payload := sort_members (pk_payload p)\<rparr>)"
    using assms by (intro provider_checkpoint_read_back) (simp_all add: saved_response_ok_def)
  ultimately show ?thesis
    using assms(3) unfolding saved_response_ok_def
    by (elim conjE) (simp add: validated_checkpoint_def sanitize_again canonical_digest [OF assms(2)])
qed

text \<open>A search point\<close>

definition stripped :: "string \<Rightarrow> bool" where
  "stripped s \<longleftrightarrow> strip_text s = s"

definition point_stripped :: "target_point \<Rightarrow> bool" where
  "point_stripped p \<longleftrightarrow> stripped (tp_requested_label p) \<and> stripped (tp_canonical_name p)
     \<and> stripped (tp_country_code p)
     \<and> (case tp_provider_location_id p of None \<Rightarrow> True | Some s \<Rightarrow> stripped s)"

lemma jopt_opt_json:
  "jfind k d = opt_json x \<Longrightarrow> (case x of None \<Rightarrow> True | Some s \<Rightarrow> strip_text s = s) \<Longrightarrow> jopt k d = Some x"
  by (cases x) (simp_all add: jopt_def opt_json_def)

lemma point_read_back:
  assumes "times_read_back V" "target_point_valid p" "point_stripped p"
  shows "parse_point (sv_parse_time V) (point_json (sv_iso V) p) = Some p"
proof -
  let ?d = "point_json (sv_iso V) p"
  have members: "?d = JObj kvs \<Longrightarrow> fst ` set kvs = set [''requested_label'', ''canonical_name'', ''country_code'',
     ''latitude'', ''longitude'', ''source'', ''provider_location_id'', ''resolved_at'', ''response_checksum'']"
    for kvs by (auto simp: point_json_def)
  have texts: "jstr ''requested_label'' ?d = Some (tp_requested_label p)"
    "jstr ''canonical_name'' ?d = Some (tp_canonical_name p)"
    "jstr ''country_code'' ?d = Some (tp_country_code p)"
    using assms(3) by (simp_all add: point_json_def jstr_def jfind_def point_stripped_def stripped_def)
  have source: "Option.bind (jstr ''source'' ?d) source_of = Some (tp_source p)"
    by (cases "tp_source p") (simp_all add: point_json_def jstr_def jfind_def source_of_def)
  have numbers: "jfloat ''latitude'' ?d = Some (tp_latitude p)" "jfloat ''longitude'' ?d = Some (tp_longitude p)"
    "jtime (sv_parse_time V) ''resolved_at'' ?d = Some (tp_resolved_at p)"
    using assms(1) by (simp_all add: point_json_def jfloat_def jfind_def jtime_def times_read_back_def)
  have "jopt ''provider_location_id'' ?d = Some (tp_provider_location_id p)"
    using assms(3) by (intro jopt_opt_json)
      (simp_all add: point_json_def jfind_def point_stripped_def stripped_def split: option.splits)
  moreover have "jopt ''response_checksum'' ?d = Some (tp_response_checksum p)"
    using assms(2) by (intro jopt_opt_json)
      (auto simp: point_json_def jfind_def target_point_valid_def opt_digest_def split: option.splits)
  ultimately have opts: "jopt ''provider_location_id'' ?d = Some (tp_provider_location_id p)"
    "jopt ''response_checksum'' ?d = Some (tp_response_checksum p)" .
  have eta: "\<lparr>tp_requested_label = tp_requested_label p, tp_canonical_name = tp_canonical_name p,
     tp_country_code = tp_country_code p, tp_latitude = tp_latitude p, tp_longitude = tp_longitude p,
     tp_source = tp_source p, tp_provider_location_id = tp_provider_location_id p,
     tp_resolved_at = tp_resolved_at p, tp_response_checksum = tp_response_checksum p\<rparr> = p"
    by (cases p) simp
  obtain kvs where kvs: "?d = JObj kvs" by (simp add: point_json_def)
  show ?thesis
    using members [OF kvs] texts source numbers opts assms(2)
    by (simp add: parse_point_def kvs eta)
qed

end
