(* ===== verification/Serp_Example.thy ===== *)
theory Serp_Example
  imports Serp_Stage
begin

text \<open>A concrete search on the server in memory, for the witnesses.\<close>

text \<open>A digest that tells short texts apart: the low half of the last 64 characters.\<close>

fun low_half :: "char \<Rightarrow> char" where
  "low_half (Char a b c d _ _ _ _) =
     (if d \<and> (b \<or> c)
      then Char (\<not> a) (if a then b else \<not> b) (if a \<or> b then c else \<not> c) False False True True False
      else Char a b c d True True False False)"

definition ex_digest :: "string \<Rightarrow> string" where
  "ex_digest x = map low_half (rev (take 64 (rev x @ replicate 64 CHR ''0'')))"

definition serp_example_env :: runtime_env where
  "serp_example_env = example_env\<lparr>env_sha256 := ex_digest\<rparr>"

definition ex_time_text :: "timestamp \<Rightarrow> string" where
  "ex_time_text t = (if t < 0 then CHR ''-'' # replicate (nat (- t)) CHR ''1'' else replicate (nat t) CHR ''1'')"

definition ex_parse_time :: "string \<Rightarrow> timestamp option" where
  "ex_parse_time s =
     (if s \<noteq> [] \<and> hd s = CHR ''-'' then Some (- int (length (tl s))) else Some (int (length s)))"

definition ex_call :: planned_call where
  "ex_call =
     \<lparr>pc_call_id = ''sha256:'' @ ex_digest ''call'', pc_request_digest = ''sha256:'' @ ex_digest ''request'',
      pc_query_index = 1, pc_query = ''plumber'', pc_engine = Google, pc_result_types = [Local_pack, Organic],
      pc_params = [(''engine'', ''google''), (''q'', ''plumber'')]\<rparr>"

definition ex_payload :: json where
  "ex_payload = JObj [(''search_metadata'', JObj [(''status'', JStr ''Success'')]), (''local_results'', JArr [])]"

text \<open>The first key is out of searches, the second one answers.\<close>

definition ex_answer :: "string \<Rightarrow> http_answer" where
  "ex_answer key = (if key = ''one'' then (429, Some (JObj [])) else (200, Some ex_payload))"

definition ex_search :: "rval mem search_run" where
  "ex_search =
     \<lparr>sv_serp = \<lparr>se_env = serp_example_env, se_repr = (\<lambda>_. []), se_http_url = Some\<rparr>,
      sv_checkpoints = ex_checkpoints, sv_job_id = 1, sv_circuit = None, sv_ledger = None,
      sv_keys = [''one'', ''two''], sv_nfkd = lower, sv_iso = ex_time_text, sv_parse_time = ex_parse_time,
      sv_clock = ret 0, sv_monotonic = ret 0, sv_uuid4 = ret 7, sv_send = (\<lambda>_ key. ret (ex_answer key)),
      sv_others = ret (), sv_patience = 2\<rparr>"

lemma ex_time_read_back: "ex_parse_time (ex_time_text t) = Some t"
  by (cases "t < 0"; cases "nat t") (auto simp: ex_time_text_def ex_parse_time_def)

lemma ex_env [simp]: "sv_env ex_search = serp_example_env" "sv_job_id ex_search = 1"
  by (simp_all add: ex_search_def)

lemma ex_slots_differ: "inj_on (\<lambda>n. env_sha256 (sv_env ex_search) (attempt_key ex_call n)) {1..3}"
proof -
  have "distinct (map (\<lambda>n. env_sha256 (sv_env ex_search) (attempt_key ex_call n)) [1, 2, 3])" by code_simp
  then have "inj_on (\<lambda>n. env_sha256 (sv_env ex_search) (attempt_key ex_call n)) (set [1, 2, 3])"
    unfolding distinct_map by blast
  moreover have "set [1, 2, 3::nat] = {1..3}" by auto
  ultimately show ?thesis by (simp only:)
qed

end
