(* ===== verification/Serp_Claims.thy ===== *)
theory Serp_Claims
  imports Serp_Laws Serp_Documents Serp_Example
begin

text \<open>
  The claim of an attempt: one round is enough while the worker owns its job, and no number of
  rounds is once the job was superseded or has ended.
\<close>

subsection \<open>The claims that are stored\<close>

definition slot_value :: "'s server \<Rightarrow> 's search_run \<Rightarrow> planned_call \<Rightarrow> 's \<Rightarrow> nat \<Rightarrow> exn + json" where
  "slot_value R V c s n = checkpoint_get (sv_env V) R (sv_job_id V) (attempt_key c n) s"

lemma existing_claims_missing:
  "existing_claims R V c True ns s = Inr cs \<Longrightarrow> cs = [] \<and> (\<forall>n \<in> set ns. slot_value R V c s n = Inr JNull)"
  by (induction ns) (auto simp: slot_value_def split: sum.splits if_splits)

lemma existing_claims_none:
  "(\<And>n. n \<in> set ns \<Longrightarrow> slot_value R V c s n = Inr JNull) \<Longrightarrow> existing_claims R V c b ns s = Inr []"
  by (induction ns arbitrary: b) (auto simp: slot_value_def)

lemma existing_claims_next:
  "existing_claims R V c False ns s = Inr cs \<Longrightarrow> length cs < length ns \<Longrightarrow>
   slot_value R V c s (ns ! length cs) = Inr JNull"
proof (induction ns arbitrary: cs)
  case (Cons m ns)
  show ?case
  proof (cases "slot_value R V c s m = Inr JNull")
    case True
    then have "cs = []" using Cons.prems(1) by (auto simp: slot_value_def dest: existing_claims_missing)
    then show ?thesis using True by simp
  next
    case False
    then obtain am cs' where "existing_claims R V c False ns s = Inr cs'" "cs = am # cs'"
      using Cons.prems(1) by (auto simp: slot_value_def split: sum.splits if_splits option.splits)
    then show ?thesis using Cons.IH Cons.prems(2) by simp
  qed
qed simp

lemma existing_claims_add:
  assumes "existing_claims R V c False ns s = Inr cs" "length cs < length ns" "n = ns ! length cs" "distinct ns"
    and "\<And>i. i \<in> set ns \<Longrightarrow> i \<noteq> n \<Longrightarrow> slot_value R V c s' i = slot_value R V c s i"
    and "slot_value R V c s' n = Inr raw" "raw \<noteq> JNull" "parse_attempt_claim (sv_parse_time V) raw = Some a"
    and "at_request_digest a = pc_request_digest c" "at_attempt_number a = int n"
  shows "existing_claims R V c False ns s' = Inr (cs @ [a])"
  using assms(1-5)
proof (induction ns arbitrary: cs)
  case (Cons m ns)
  show ?case
  proof (cases "slot_value R V c s m = Inr JNull")
    case True
    then have "existing_claims R V c True ns s = Inr cs"
      using Cons.prems(1) by (simp add: slot_value_def)
    then have none: "cs = []" "\<And>i. i \<in> set ns \<Longrightarrow> slot_value R V c s i = Inr JNull"
      by (auto dest: existing_claims_missing)
    then have n: "n = m" using Cons.prems(3) by simp
    have "existing_claims R V c False ns s' = Inr []"
      using Cons.prems(4,5) none(2) n by (intro existing_claims_none) force
    then show ?thesis using assms(6-10) none(1) n True by (simp add: slot_value_def)
  next
    case False
    then obtain rawm am cs' where m: "slot_value R V c s m = Inr rawm" "rawm \<noteq> JNull"
      "parse_attempt_claim (sv_parse_time V) rawm = Some am" "at_request_digest am = pc_request_digest c"
      "at_attempt_number am = int m" "existing_claims R V c False ns s = Inr cs'" "cs = am # cs'"
      using Cons.prems(1) by (auto simp: slot_value_def split: sum.splits if_splits option.splits)
    have n: "n = ns ! length cs'" "length cs' < length ns" using Cons.prems(2,3) m(7) by simp_all
    then have "n \<in> set ns" by simp
    then have ne: "m \<noteq> n" using Cons.prems(4) by auto
    have "existing_claims R V c False ns s' = Inr (cs' @ [a])"
      using Cons.prems(4,5) n m(6) by (intro Cons.IH) auto
    moreover have "slot_value R V c s' m = Inr rawm" using Cons.prems(5) [of m] ne m(1) by simp
    ultimately show ?thesis using m by (simp add: slot_value_def)
  qed
qed simp

definition new_attempt :: "planned_call \<Rightarrow> nat \<Rightarrow> string \<Rightarrow> nat \<Rightarrow> timestamp \<Rightarrow> attempt_claim" where
  "new_attempt c slot fingerprint n now =
     \<lparr>at_request_digest = pc_request_digest c, at_attempt_number = int n, at_key_slot = int slot,
      at_key_fingerprint = fingerprint, at_claimed_at = now\<rparr>"

lemma claims_upt: "[1..<Suc SERP_PROVIDER_ATTEMPT_LIMIT_PER_CALL] = [1, 2, 3]"
  by (simp add: serp_limits upt_rec)

lemma claims_of_add:
  assumes "claims_of R V c s = Inr cs" "length cs < SERP_PROVIDER_ATTEMPT_LIMIT_PER_CALL"
    and "n = Suc (length cs)"
    and "inj_on (\<lambda>n. env_sha256 (sv_env V) (attempt_key c n)) {1..3}"
    and "rget R s' = (rget R s)(checkpoint_of (sv_env V) (sv_job_id V) (attempt_key c n) \<mapsto>
           VJson (attempt_claim_json (sv_iso V) a))"
    and "sv_parse_time V (sv_iso V (at_claimed_at a)) = Some (at_claimed_at a)" "attempt_claim_valid a"
    and "at_request_digest a = pc_request_digest c" "at_attempt_number a = int n"
  shows "claims_of R V c s' = Inr (cs @ [a])"
proof -
  have range: "set [1, 2, 3::nat] = {1..3}" by auto
  have n: "n = [1, 2, 3] ! length cs" "length cs < length [1, 2, 3::nat]"
    using assms(2,3) by (auto simp: serp_limits numeral_3_eq_3 less_Suc_eq)
  then have "n \<in> {1..3}" by (metis nth_mem range)
  then have other: "slot_value R V c s' i = slot_value R V c s i" if "i \<in> set [1, 2, 3::nat]" "i \<noteq> n" for i
  proof -
    have "env_sha256 (sv_env V) (attempt_key c i) \<noteq> env_sha256 (sv_env V) (attempt_key c n)"
      using inj_onD [OF assms(4), of i n] that \<open>n \<in> {1..3}\<close> unfolding range by blast
    then show ?thesis
      by (simp add: slot_value_def checkpoint_get_def assms(5) checkpoint_of_def checkpoint_key_inject)
  qed
  have here: "slot_value R V c s' n = Inr (attempt_claim_json (sv_iso V) a)"
    by (simp add: slot_value_def checkpoint_get_def assms(5) decode_json_def)
  show ?thesis
    using assms(1) unfolding claims_of_def claims_upt
    by (intro existing_claims_add [OF _ n(2) n(1) _ other here])
      (use assms in \<open>simp_all add: attempt_claim_read_back, simp add: attempt_claim_json_def\<close>)
qed

subsection \<open>Properties\<close>

text \<open>The job still belongs to the generation of the worker.\<close>

definition owns :: "'s server \<Rightarrow> 's search_run \<Rightarrow> 's \<Rightarrow> bool" where
  "owns R V s \<longleftrightarrow>
     (case ck_run_generation (sv_checkpoints V) of
        None \<Rightarrow> True
      | Some g \<Rightarrow> (case rget R s (state_key (env_prefix (sv_env V)) (sv_job_id V)) of
                    Some (VState st) \<Rightarrow> js_run_generation st = g \<and> js_status st \<notin> {Succeeded, Failed}
                  | _ \<Rightarrow> False))"

lemma owned_save:
  assumes "checkpoint_store R (sv_checkpoints V)" "owns R V s"
    and "rget R s (checkpoint_of (sv_env V) (sv_job_id V) key) = None"
  shows "snd (checkpoint_save (sv_env V) R (sv_checkpoints V) (sv_job_id V) key v s) = Inr True"
  using assms(2,3)
  by (auto simp: owns_def checkpoint_save_def set_nx_def run_txn.simps save_body_def
      split: option.splits rval.splits)

lemma refused_save:
  assumes "ck_run_generation (sv_checkpoints V) = Some g" "\<not> owns R V s"
    and "rget R s (state_key (env_prefix (sv_env V)) (sv_job_id V)) \<in> {None} \<union> range (\<lambda>st. Some (VState st))"
  shows "checkpoint_save (sv_env V) R (sv_checkpoints V) (sv_job_id V) key v s = (s, Inr False)"
  using assms
  by (auto simp: owns_def checkpoint_save_def run_txn.simps save_body_def split: option.splits rval.splits)

lemma claim_attempt_round:
  assumes "claims_of R V c s = Inr cs" "length cs < SERP_PROVIDER_ATTEMPT_LIMIT_PER_CALL"
    and clock: "sv_clock V s = (s1, Inr now)" and others: "sv_others V s1 = (s2, Inr ())"
    and "attempt_claim_valid (new_attempt c slot fingerprint (Suc (length cs)) now)"
    and save: "checkpoint_save (sv_env V) R (sv_checkpoints V) (sv_job_id V) (attempt_key c (Suc (length cs)))
       (attempt_claim_json (sv_iso V) (new_attempt c slot fingerprint (Suc (length cs)) now)) s2 = (s3, Inr saved)"
  shows "claim_attempt R V c slot fingerprint (Suc rounds) s =
     (if saved then (s3, Inr (Suc (length cs))) else claim_attempt R V c slot fingerprint rounds s3)"
proof -
  have valid: "attempt_claim_valid \<lparr>at_request_digest = pc_request_digest c,
      at_attempt_number = int (length cs + 1), at_key_slot = int slot, at_key_fingerprint = fingerprint,
      at_claimed_at = now\<rparr>"
    using assms(5) by (simp add: new_attempt_def)
  have "checkpoint_save (sv_env V) R (sv_checkpoints V) (sv_job_id V) (attempt_key c (length cs + 1))
       (attempt_claim_json (sv_iso V) \<lparr>at_request_digest = pc_request_digest c,
      at_attempt_number = int (length cs + 1), at_key_slot = int slot, at_key_fingerprint = fingerprint,
      at_claimed_at = now\<rparr>) s2 = (s3, Inr saved)"
    using save by (simp add: new_attempt_def)
  then show ?thesis
    using assms(1,2) valid
    by (simp add: Let_def not_less Suc_le_eq andThen_Inr [where p = "sv_clock V", OF clock]
        andThen_Inr [where p = "sv_others V", OF others] andThen_Inr ret_def)
qed

lemma owns_state:
  "rget R t (state_key (env_prefix (sv_env V)) (sv_job_id V))
     = rget R s (state_key (env_prefix (sv_env V)) (sv_job_id V)) \<Longrightarrow> owns R V t = owns R V s"
  by (cases "ck_run_generation (sv_checkpoints V)") (simp_all add: owns_def)

text \<open>
  (C26) A worker that owns its job gets its claim in the first round: with fewer than three
  claims the next number is saved and returned, and from then on it is counted.
\<close>

theorem owned_claim_returns:
  assumes "checkpoint_store R (sv_checkpoints V)" "owns R V s"
    and "claims_of R V c s = Inr cs" "length cs < SERP_PROVIDER_ATTEMPT_LIMIT_PER_CALL"
    and "rget R s (checkpoint_of (sv_env V) (sv_job_id V) (attempt_key c (Suc (length cs)))) \<noteq> Some (VJson JNull)"
    and "sv_clock V s = (s1, Inr now)" "rget R s1 = rget R s"
    and "sv_others V s1 = (s2, Inr ())" "rget R s2 = rget R s1"
    and "sv_parse_time V (sv_iso V now) = Some now"
    and "attempt_claim_valid (new_attempt c slot fingerprint (Suc (length cs)) now)"
    and "inj_on (\<lambda>n. env_sha256 (sv_env V) (attempt_key c n)) {1..3}"
  shows "\<exists>s'. claim_attempt R V c slot fingerprint (Suc rounds) s = (s', Inr (Suc (length cs)))
    \<and> claims_of R V c s' = Inr (cs @ [new_attempt c slot fingerprint (Suc (length cs)) now])"
proof -
  let ?n = "Suc (length cs)"
  let ?a = "new_attempt c slot fingerprint ?n now"
  let ?key = "checkpoint_of (sv_env V) (sv_job_id V) (attempt_key c ?n)"
  obtain s3 r where save: "checkpoint_save (sv_env V) R (sv_checkpoints V) (sv_job_id V) (attempt_key c ?n)
     (attempt_claim_json (sv_iso V) ?a) s2 = (s3, r)" by fastforce
  have fields: "at_request_digest ?a = pc_request_digest c" "at_attempt_number ?a = int ?n" "at_claimed_at ?a = now"
    by (simp_all add: new_attempt_def)
  have new: "claims_of R V c s' = Inr (cs @ [?a])"
    if "rget R s' = (rget R s)(?key \<mapsto> VJson (attempt_claim_json (sv_iso V) ?a))" for s'
    by (rule claims_of_add [OF assms(3,4) refl assms(12) that _ assms(11) fields(1,2)])
      (simp add: assms(10) fields(3))
  have "slot_value R V c s ([1, 2, 3] ! length cs) = Inr JNull"
    using assms(3,4) unfolding claims_of_def claims_upt
    by (intro existing_claims_next) (simp_all add: serp_limits)
  moreover have "[1, 2, 3] ! length cs = ?n"
    using assms(4) by (auto simp: serp_limits numeral_3_eq_3 less_Suc_eq)
  ultimately have "rget R s ?key = None"
    using assms(5) by (auto simp: slot_value_def checkpoint_get_def decode_json_def split: option.splits rval.splits)
  then have free: "rget R s2 ?key = None" using assms(7,9) by simp
  have "owns R V s2" using assms(2,7,9) owns_state [of R s2 V s] by simp
  from owned_save [OF assms(1) this free, of "attempt_claim_json (sv_iso V) ?a"] have "r = Inr True"
    by (simp add: save)
  note save = save [unfolded this]
  have "rget R s3 = (rget R s)(?key \<mapsto> VJson (attempt_claim_json (sv_iso V) ?a))"
    using save assms(7,9)
    by (cases rule: checkpoint_store.checkpoint_save_cases [OF assms(1), of "sv_env V" "sv_job_id V"
          "attempt_key c ?n" "attempt_claim_json (sv_iso V) ?a" s2]) simp_all
  then show ?thesis
    using claim_attempt_round [OF assms(3,4,6,8,11) save] new by auto
qed

definition ex_fingerprint :: string where
  "ex_fingerprint = ''0123456789ab''"

lemma ex_attempt_valid: "attempt_claim_valid (new_attempt ex_call 1 ex_fingerprint 1 0)"
  by code_simp

lemma ex_claims: "claims_of mem_redis ex_search ex_call ex_running = Inr []"
  "rget mem_redis ex_running (checkpoint_of serp_example_env 1 (attempt_key ex_call 1)) = None"
  by code_simp+

theorem owned_claim_returns_witness:
  "\<exists>s'. claim_attempt mem_redis ex_search ex_call 1 ex_fingerprint 1 ex_running = (s', Inr 1)
   \<and> claims_of mem_redis ex_search ex_call s' = Inr [new_attempt ex_call 1 ex_fingerprint 1 0]"
proof -
  have "owns mem_redis ex_search ex_running" by code_simp
  moreover have "checkpoint_store mem_redis (sv_checkpoints ex_search)" by (simp add: ex_search_def)
  moreover have "sv_clock ex_search ex_running = (ex_running, Inr 0)" "sv_others ex_search ex_running = (ex_running, Inr ())"
    by (simp_all add: ex_search_def ret_def)
  moreover have "sv_parse_time ex_search (sv_iso ex_search 0) = Some 0"
    by (simp add: ex_search_def ex_time_read_back)
  ultimately show ?thesis
    using owned_claim_returns [of mem_redis ex_search ex_running ex_call "[]" ex_running 0 ex_running 1
        ex_fingerprint 0] ex_claims ex_attempt_valid ex_slots_differ
    by (simp add: serp_limits)
qed

text \<open>The record of the job and the claims of the call are as before.\<close>

definition same_job :: "'s server \<Rightarrow> 's search_run \<Rightarrow> planned_call \<Rightarrow> 's \<Rightarrow> 's \<Rightarrow> bool" where
  "same_job R V c s t \<longleftrightarrow>
     rget R t (state_key (env_prefix (sv_env V)) (sv_job_id V))
       = rget R s (state_key (env_prefix (sv_env V)) (sv_job_id V))
   \<and> claims_of R V c t = claims_of R V c s"

text \<open>
  (C27) Once the job was superseded or has ended, a claim never returns: every round is refused
  and the loop starts over, for as long as no timeout cancels it.
\<close>

theorem superseded_claim_waits:
  assumes "ck_run_generation (sv_checkpoints V) = Some g" "\<not> owns R V s"
    and "rget R s (state_key (env_prefix (sv_env V)) (sv_job_id V)) \<in> {None} \<union> range (\<lambda>st. Some (VState st))"
    and "claims_of R V c s = Inr cs" "length cs < SERP_PROVIDER_ATTEMPT_LIMIT_PER_CALL"
    and "\<And>t. same_job R V c s t \<Longrightarrow> \<exists>t1 now. sv_clock V t = (t1, Inr now) \<and> same_job R V c s t1
       \<and> attempt_claim_valid (new_attempt c slot fingerprint (Suc (length cs)) now)"
    and "\<And>t. same_job R V c s t \<Longrightarrow> \<exists>t1. sv_others V t = (t1, Inr ()) \<and> same_job R V c s t1"
  shows "\<exists>s'. claim_attempt R V c slot fingerprint rounds s = (s', Inl CancelledError) \<and> same_job R V c s s'"
proof -
  have "\<exists>s'. claim_attempt R V c slot fingerprint rounds t = (s', Inl CancelledError) \<and> same_job R V c s s'"
    if "same_job R V c s t" for t
    using that
  proof (induction rounds arbitrary: t)
    case 0
    then show ?case by (simp add: throw_def)
  next
    case (Suc rounds)
    obtain t1 now where t1: "sv_clock V t = (t1, Inr now)" "same_job R V c s t1"
      "attempt_claim_valid (new_attempt c slot fingerprint (Suc (length cs)) now)"
      using assms(6) [OF Suc.prems] by blast
    obtain t2 where t2: "sv_others V t1 = (t2, Inr ())" "same_job R V c s t2"
      using assms(7) [OF t1(2)] by blast
    have claims: "claims_of R V c t = Inr cs" using Suc.prems assms(4) by (simp add: same_job_def)
    have "\<not> owns R V t2" "rget R t2 (state_key (env_prefix (sv_env V)) (sv_job_id V))
        \<in> {None} \<union> range (\<lambda>st. Some (VState st))"
      using t2(2) assms(2,3) owns_state [of R t2 V s] by (simp_all add: same_job_def)
    note refused = refused_save [OF assms(1) this]
    show ?case
      using Suc.IH [OF t2(2)]
      by (simp only: claim_attempt_round [OF claims assms(5) t1(1) t2(1) t1(3) refused] if_False)
  qed
  then show ?thesis by (simp add: same_job_def)
qed

text \<open>The search's timeout makes of such a claim a temporary failure of the provider.\<close>

lemma late_claim_is_temporary:
  assumes "claim_attempt R V c slot fingerprint (sv_patience V) s = (s', Inl CancelledError)"
  shows "kr_before_attempt (key_run_of R V c) slot fingerprint (s, q) = ((s', q), Inl TimeoutError)"
    and "adapter_error TimeoutError = provider_error ''SERP_PROVIDER_TEMPORARY'' True"
  using assms
  by (simp_all add: key_run_of_def under_timeout_def before_attempt_def handle_def andThen_def on_server_def
      throw_def adapter_error_def)

definition ex_late_search :: "rval mem search_run" where
  "ex_late_search = ex_search\<lparr>sv_checkpoints := \<lparr>ck_ttl_seconds = 600, ck_run_generation = Some 0\<rparr>\<rparr>"

theorem superseded_claim_waits_witness:
  "\<exists>s'. claim_attempt mem_redis ex_late_search ex_call 1 ex_fingerprint 1000 ex_running = (s', Inl CancelledError)
   \<and> same_job mem_redis ex_late_search ex_call ex_running s'"
proof -
  have "\<not> owns mem_redis ex_late_search ex_running" by code_simp
  moreover have "ck_run_generation (sv_checkpoints ex_late_search) = Some 0" by (simp add: ex_late_search_def)
  moreover have "claims_of mem_redis ex_late_search ex_call ex_running = Inr []" by code_simp
  moreover have "case rget mem_redis ex_running (state_key (env_prefix (sv_env ex_late_search)) (sv_job_id ex_late_search))
      of Some (VState st) \<Rightarrow> True | _ \<Rightarrow> False" by code_simp
  then have "rget mem_redis ex_running (state_key (env_prefix (sv_env ex_late_search)) (sv_job_id ex_late_search))
      \<in> {None} \<union> range (\<lambda>st. Some (VState st))" by (auto split: option.splits rval.splits)
  moreover have "sv_clock ex_late_search t = (t, Inr 0)" "sv_others ex_late_search t = (t, Inr ())" for t
    by (simp_all add: ex_late_search_def ex_search_def ret_def)
  ultimately show ?thesis
    using superseded_claim_waits [of ex_late_search 0 mem_redis ex_running ex_call "[]" 1 ex_fingerprint 1000]
      ex_attempt_valid by (simp add: serp_limits)
qed

end
