(* ===== verification/Serp_Rotation.thy ===== *)
theory Serp_Rotation
  imports Serp_Example
begin

text \<open>
  Which keys a request is tried with: the last key that worked first, then the configured
  order, without the keys that cool down; the first answer that is not a failure of its key
  ends the request.
\<close>

subsection \<open>The order of the keys\<close>

lemma key_order_eq:
  "key_order sha256 active keys =
     filter (\<lambda>(i, k). serpapi_key_fingerprint sha256 k = active) (enumerate 0 keys)
     @ filter (\<lambda>(i, k). serpapi_key_fingerprint sha256 k \<noteq> active) (enumerate 0 keys)"
proof -
  let ?f = "\<lambda>(i :: nat, k). (serpapi_key_fingerprint sha256 k \<noteq> active, i)"
  let ?first = "filter (\<lambda>(i, k). serpapi_key_fingerprint sha256 k = active) (enumerate 0 keys)"
  let ?rest = "filter (\<lambda>(i, k). serpapi_key_fingerprint sha256 k \<noteq> active) (enumerate 0 keys)"
  have idx: "sorted (map fst (filter P (enumerate 0 keys)))" for P :: "nat \<times> string \<Rightarrow> bool"
    by (intro sorted_filter) simp
  have "sorted (map ?f ?first)"
  proof -
    have "map ?f ?first = map (Pair False) (map fst ?first)" by auto
    moreover have "sorted (map (Pair False) (xs :: nat list))" if "sorted xs" for xs
      using that by (induction xs) auto
    ultimately show ?thesis using idx by (simp only:)
  qed
  moreover have "sorted (map ?f ?rest)"
  proof -
    have "map ?f ?rest = map (Pair True) (map fst ?rest)" by auto
    moreover have "sorted (map (Pair True) (xs :: nat list))" if "sorted xs" for xs
      using that by (induction xs) auto
    ultimately show ?thesis using idx by (simp only:)
  qed
  moreover have "x \<le> y" if "x \<in> ?f ` set ?first" "y \<in> ?f ` set ?rest" for x y
  proof -
    have "fst x = False" "fst y = True" using that by auto
    then show ?thesis by (cases x; cases y) simp
  qed
  ultimately have sorted: "sorted (map ?f (?first @ ?rest))"
    unfolding map_append sorted_append set_map by blast
  have inj: "inj_on ?f (set (enumerate 0 keys))"
  proof (rule inj_onI)
    fix x y assume "x \<in> set (enumerate 0 keys)" "y \<in> set (enumerate 0 keys)" "?f x = ?f y"
    moreover from this have "fst x = fst y" by (simp add: case_prod_beta)
    ultimately show "x = y" by (metis in_set_enumerate_eq prod_eq_iff)
  qed
  have "mset (enumerate 0 keys) = mset (?first @ ?rest)"
    using multiset_partition [of "mset (enumerate 0 keys)" "\<lambda>(i, k). serpapi_key_fingerprint sha256 k = active"]
    by (simp add: case_prod_unfold)
  then show ?thesis unfolding key_order_def using inj sorted by (rule sort_key_inj_key_eq)
qed

subsection \<open>A request\<close>

text \<open>The collaborators of a request with a fixed answer for each key.\<close>

definition quiet_run :: "'s key_run \<Rightarrow> (string \<Rightarrow> http_answer) \<Rightarrow> int \<Rightarrow> bool" where
  "quiet_run G answer now \<longleftrightarrow>
     (\<forall>key. kr_send G key = ret (answer key)) \<and> kr_monotonic G = ret now
   \<and> (\<forall>i f. kr_before_attempt G i f = ret ()) \<and> (\<forall>f. kr_key_available G f = ret True)
   \<and> (\<forall>i f x. kr_after_attempt G i f x = ret ())"

definition answer_data :: "json \<Rightarrow> json" where
  "answer_data payload = (if is_jobj payload then payload else JObj [])"

definition answer_status :: "http_answer \<Rightarrow> int" where
  "answer_status answer = (if fst answer = 0 then 200 else fst answer)"

definition key_failure_of :: "'s key_run \<Rightarrow> http_answer \<Rightarrow> key_failure option" where
  "key_failure_of G answer =
     (case snd answer of
        None \<Rightarrow> None
      | Some payload \<Rightarrow> serpapi_key_failure_kind (kr_nfkd G) (answer_status answer)
                         (serpapi_payload_error (kr_repr G) (answer_data payload)))"

definition key_failed :: "'s key_run \<Rightarrow> (string \<Rightarrow> http_answer) \<Rightarrow> nat \<times> string \<Rightarrow> bool" where
  "key_failed G answer k \<longleftrightarrow> key_failure_of G (answer (snd k)) \<noteq> None"

text \<open>What the caller gets from the answer that ended the request, after \<open>n\<close> failed keys.\<close>

definition final_result :: "'s key_run \<Rightarrow> nat \<Rightarrow> nat \<times> string \<Rightarrow> http_answer \<Rightarrow> exn + serpapi_response" where
  "final_result G n k answer =
     (case snd answer of
        None \<Rightarrow> Inl SerpApiInvalidResponse
      | Some payload \<Rightarrow>
          if 400 \<le> answer_status answer then Inl (SerpApiHttpError (answer_status answer))
          else Inr \<lparr>sa_payload = answer_data payload, sa_attempt_count = n + 1, sa_key_slot = fst k + 1,
                    sa_key_fingerprint = serpapi_key_fingerprint (kr_sha256 G) (snd k)\<rparr>)"

definition available_of :: "'s key_run \<Rightarrow> int \<Rightarrow> serp_process \<Rightarrow> (nat \<times> string) list \<Rightarrow> (nat \<times> string) list" where
  "available_of G now q ks =
     filter (\<lambda>k. blocked_until q (serpapi_key_fingerprint (kr_sha256 G) (snd k)) \<le> now) ks"

lemma available_keys_quiet:
  assumes "quiet_run G answer now"
  shows "available_keys G now ks (s, q) = ((s, q), Inr (available_of G now q ks))"
proof (induction ks)
  case (Cons k ks)
  obtain slot key where k: "k = (slot, key)" by (cases k)
  show ?case
    using Cons assms
    by (auto simp: k available_of_def quiet_run_def Let_def andThen_def read_process_def ret_def)
qed (simp add: available_of_def ret_def)

text \<open>What a failed key leaves in the memory of the process.\<close>

definition after_failure :: "'s key_run \<Rightarrow> int \<Rightarrow> nat \<times> string \<Rightarrow> key_failure \<Rightarrow> serp_process \<Rightarrow> serp_process" where
  "after_failure G now k kind q =
     block_key (serpapi_key_fingerprint (kr_sha256 G) (snd k))
       (now + seconds (if kind = Rate_limited then 60 else 300)) (q\<lparr>sp_sent := Suc (sp_sent q)\<rparr>)"

lemma try_keys_quiet:
  assumes quiet: "quiet_run G answer now"
  shows "try_keys G n (k # ks) (s, q) =
     (case key_failure_of G (answer (snd k)) of
        Some kind \<Rightarrow> try_keys G (n + 1) ks (s, after_failure G now k kind q)
      | None \<Rightarrow>
          ((s, (if \<exists>r. final_result G n k (answer (snd k)) = Inr r
                then q\<lparr>sp_sent := Suc (sp_sent q),
                       sp_active_fingerprint := serpapi_key_fingerprint (kr_sha256 G) (snd k)\<rparr>
                else q\<lparr>sp_sent := Suc (sp_sent q)\<rparr>)),
           final_result G n k (answer (snd k))))"
proof -
  obtain slot key where k: "k = (slot, key)" by (cases k)
  obtain status body where a: "answer key = (status, body)" by (cases "answer key")
  have G: "kr_send G key = ret (answer key)" "kr_monotonic G = ret now" "\<And>i f. kr_before_attempt G i f = ret ()"
    "\<And>i f x. kr_after_attempt G i f x = ret ()"
    using quiet by (simp_all add: quiet_run_def)
  show ?thesis
    by (cases body)
      (auto simp: k a G send_request_def read_answer_def Let_def andThen_def handle_def update_process_def
        on_server_def ret_def throw_def final_result_def key_failure_of_def answer_data_def
        answer_status_def after_failure_def split: option.split)
qed

lemma blocked_until_block [simp]:
  "blocked_until (block_key f t q) f' = (if f' = f then t else blocked_until q f')"
  by (simp add: blocked_until_def block_key_def update_conv')

lemma sent_after_failure [simp]: "sp_sent (after_failure G now k kind q) = Suc (sp_sent q)"
  by (simp add: after_failure_def block_key_def)

lemma try_keys_blocks:
  assumes quiet: "quiet_run G answer now"
    and "try_keys G n ks (s, q) = ((s', q'), r)" "now + seconds 60 \<le> blocked_until q f"
  shows "now + seconds 60 \<le> blocked_until q' f"
  using assms(2,3)
proof (induction ks arbitrary: n q)
  case Nil
  then show ?case by (simp add: throw_def)
next
  case (Cons k ks)
  show ?case
  proof (cases "key_failure_of G (answer (snd k))")
    case None
    then show ?thesis
      using Cons.prems by (auto simp: try_keys_quiet [OF quiet] blocked_until_def split: if_splits)
  next
    case (Some kind)
    have "now + seconds 60 \<le> blocked_until (after_failure G now k kind q) f"
      using Cons.prems(2) by (auto simp: after_failure_def blocked_until_def seconds_def block_key_def update_conv')
    then show ?thesis using Cons.IH Cons.prems(1) by (simp add: try_keys_quiet [OF quiet] Some)
  qed
qed

lemma try_keys_result:
  assumes quiet: "quiet_run G answer now"
    and run: "try_keys G n ks (s, q) = ((s', q'), r)"
    and tried: "tried = takeWhile (key_failed G answer) ks" and left: "left = dropWhile (key_failed G answer) ks"
  shows "s' = s \<and> r = (case left of [] \<Rightarrow> Inl SerpApiKeysUnavailable
            | k # _ \<Rightarrow> final_result G (n + length tried) k (answer (snd k)))
    \<and> sp_sent q' = sp_sent q + length tried + (if left = [] then 0 else 1)
    \<and> (\<forall>k \<in> set tried. now + seconds 60 \<le> blocked_until q' (serpapi_key_fingerprint (kr_sha256 G) (snd k)))
    \<and> (\<forall>x. r = Inr x \<longrightarrow> sp_active_fingerprint q' = sa_key_fingerprint x)"
  using run tried left
proof (induction ks arbitrary: n q tried)
  case Nil
  then show ?case by (auto simp: throw_def)
next
  case (Cons k ks)
  show ?case
  proof (cases "key_failure_of G (answer (snd k))")
    case None
    then have "tried = []" "left = k # ks" using Cons.prems(2,3) by (simp_all add: key_failed_def)
    then show ?thesis
      using Cons.prems(1) None by (auto simp: try_keys_quiet [OF quiet] final_result_def split: option.splits if_splits)
  next
    case (Some kind)
    let ?q = "after_failure G now k kind q"
    have run: "try_keys G (n + 1) ks (s, ?q) = ((s', q'), r)"
      using Cons.prems(1) by (simp add: try_keys_quiet [OF quiet] Some)
    have failed: "key_failed G answer k" by (simp add: key_failed_def Some)
    have tried: "tried = k # takeWhile (key_failed G answer) ks" "left = dropWhile (key_failed G answer) ks"
      using Cons.prems(2,3) by (simp_all add: failed)
    note IH = Cons.IH [OF run refl tried(2)]
    have "now + seconds 60 \<le> blocked_until ?q (serpapi_key_fingerprint (kr_sha256 G) (snd k))"
      by (simp add: after_failure_def seconds_def)
    from try_keys_blocks [OF quiet run this] IH show ?thesis by (auto simp: tried(1) split: list.splits)
  qed
qed

text \<open>
  (C24) A request goes to the keys that are not cooling down, the last one that worked first and
  the others in their configured order, one after the other until an answer is no failure of
  its key: that answer is the result, with the number of requests sent and the slot of the key,
  every failed key cools down for at least a minute, and a key that worked is the first of the
  next request.
\<close>

theorem key_rotation:
  assumes "quiet_run G answer now" "configured_serpapi_keys (map Some keys) = configured" "configured \<noteq> []"
    and "execute_serpapi_get G keys (s, q) = ((s', q'), r)"
    and "available = available_of G now q
       (filter (\<lambda>(i, k). serpapi_key_fingerprint (kr_sha256 G) k = sp_active_fingerprint q) (enumerate 0 configured)
        @ filter (\<lambda>(i, k). serpapi_key_fingerprint (kr_sha256 G) k \<noteq> sp_active_fingerprint q) (enumerate 0 configured))"
    and "tried = takeWhile (key_failed G answer) available" "left = dropWhile (key_failed G answer) available"
  shows "r = (case left of [] \<Rightarrow> Inl SerpApiKeysUnavailable
            | k # _ \<Rightarrow> final_result G (length tried) k (answer (snd k)))
    \<and> sp_sent q' = sp_sent q + length tried + (if left = [] then 0 else 1)
    \<and> (\<forall>k \<in> set tried. now + seconds 60 \<le> blocked_until q' (serpapi_key_fingerprint (kr_sha256 G) (snd k)))
    \<and> (\<forall>x. r = Inr x \<longrightarrow> sp_active_fingerprint q' = sa_key_fingerprint x)"
proof -
  have mono: "kr_monotonic G = ret now" using assms(1) by (simp add: quiet_run_def)
  note prepare = execute_serpapi_get_def andThen_def on_server_def ret_def read_process_def
    available_keys_quiet [OF assms(1)] key_order_eq assms(2,3) mono
  show ?thesis
  proof (cases "available = []")
    case True
    then have "execute_serpapi_get G keys (s, q) = ((s, q), Inl SerpApiKeysUnavailable)"
      unfolding assms(5) by (simp add: prepare throw_def)
    then show ?thesis using assms(4,6,7) True by auto
  next
    case False
    then have "execute_serpapi_get G keys (s, q) = try_keys G 0 available (s, q)"
      unfolding assms(5) by (simp add: prepare)
    then have "try_keys G 0 available (s, q) = ((s', q'), r)" using assms(4) by simp
    from try_keys_result [OF assms(1) this assms(6,7)] show ?thesis by (cases left) simp_all
  qed
qed

definition ex_keys :: "rval mem key_run" where
  "ex_keys = \<lparr>kr_sha256 = ex_digest, kr_repr = (\<lambda>_. []), kr_nfkd = lower, kr_send = (\<lambda>key. ret (ex_answer key)),
     kr_monotonic = ret 0, kr_before_attempt = (\<lambda>_ _. ret ()), kr_key_available = (\<lambda>_. ret True),
     kr_after_attempt = (\<lambda>_ _ _. ret ())\<rparr>"

theorem key_rotation_witness:
  "case execute_serpapi_get ex_keys [''one'', ''two''] (ex_running, new_process) of ((s, q), r) \<Rightarrow>
     r = Inr \<lparr>sa_payload = ex_payload, sa_attempt_count = 2, sa_key_slot = 2,
              sa_key_fingerprint = serpapi_key_fingerprint ex_digest ''two''\<rparr>
   \<and> sp_sent q = 2 \<and> sp_active_fingerprint q = serpapi_key_fingerprint ex_digest ''two''"
proof -
  let ?keys = "[(0, ''one''), (1, ''two'')] :: (nat \<times> string) list"
  obtain s q r where run: "execute_serpapi_get ex_keys [''one'', ''two''] (ex_running, new_process) = ((s, q), r)"
    by (metis prod.exhaust)
  have quiet: "quiet_run ex_keys ex_answer 0" by (simp add: quiet_run_def ex_keys_def)
  have keys: "configured_serpapi_keys (map Some [''one'', ''two'']) = [''one'', ''two'']" by code_simp
  have available: "?keys = available_of ex_keys 0 new_process
     (filter (\<lambda>(i, k). serpapi_key_fingerprint (kr_sha256 ex_keys) k = sp_active_fingerprint new_process)
        (enumerate 0 [''one'', ''two''])
      @ filter (\<lambda>(i, k). serpapi_key_fingerprint (kr_sha256 ex_keys) k \<noteq> sp_active_fingerprint new_process)
        (enumerate 0 [''one'', ''two'']))" by code_simp
  have tried: "[(0, ''one'')] = takeWhile (key_failed ex_keys ex_answer) ?keys"
    "[(1, ''two'')] = dropWhile (key_failed ex_keys ex_answer) ?keys" by code_simp+
  have final: "final_result ex_keys 1 (1, ''two'') (ex_answer ''two'')
    = Inr \<lparr>sa_payload = ex_payload, sa_attempt_count = 2, sa_key_slot = 2,
           sa_key_fingerprint = serpapi_key_fingerprint ex_digest ''two''\<rparr>" by code_simp
  have sent: "sp_sent new_process = 0" by (simp add: new_process_def)
  show ?thesis
    using key_rotation [OF quiet keys _ run available tried] sent
    by (simp add: run final [unfolded One_nat_def])
qed

end
