(* ===== verification/Serp_Properties.thy ===== *)
theory Serp_Properties
  imports Serp_Claims Serp_Rotation
begin

text \<open>
  What the market stage promises its job: at most three paid requests for a planned call over
  all the runs of the job, a saved response and a collected snapshot that are final, and, at
  a concrete server, the witnesses of the properties.
\<close>

subsection \<open>A concrete search\<close>

definition ex_searched :: "(rval mem \<times> serp_process) \<times> (exn + provider_response)" where
  "ex_searched = checkpointed_search mem_redis ex_search (adapter_search mem_redis ex_search) ex_call
     (ex_running, new_process)"

lemma ex_searched_facts:
  "case ex_searched of ((s, q), r) \<Rightarrow>
     sp_sent q = 2 \<and> claims_made mem_redis ex_search ex_call s = 2
   \<and> r = Inr \<lparr>pr_payload = sort_members ex_payload, pr_provider_attempts = 2, pr_logical_call_used = True,
           pr_checkpoint_hit = False, pr_started_at = Some 0, pr_completed_at = Some 0\<rparr>
   \<and> (case rget mem_redis s (checkpoint_of serp_example_env 1 (search_key ex_call)) of
        Some (VJson v) \<Rightarrow> v \<noteq> JNull | _ \<Rightarrow> False)"
  by code_simp

lemma ex_run_ok: "run_ok ex_search"
  by (simp add: run_ok_def ex_search_def ex_checkpoints_def)

lemma ex_keeps_attempts: "keeps_attempts mem_redis ex_search c"
  by (simp add: keeps_attempts_def ex_search_def keeps_ret)

interpretation mem_search: search_client mem_redis ex_search ex_call
  by (intro search_client.intro search_client_axioms.intro mem.redis_laws_axioms ex_run_ok ex_keeps_attempts)

lemma sent_new_process: "sp_sent new_process = 0"
  by (simp add: new_process_def)

subsection \<open>Paid requests\<close>

text \<open>
  Searches of a call in the runs of a job, one after the other: each run has its own generation,
  clocks, keys and collaborators, other clients work in between, and the process may be another.
\<close>

definition search_runs ::
    "'s server \<Rightarrow> planned_call \<Rightarrow> ('s search_run \<times> (serp_process \<Rightarrow> serp_process)) list \<Rightarrow> ('s, unit) serp_program"
where
  "search_runs R c runs_list =
     forEach runs_list (\<lambda>(V, restart).
       andThen (outcome (checkpointed_search R V (adapter_search R V) c)) (\<lambda>_.
       andThen (on_server (sv_others V)) (\<lambda>_. update_process restart)))"

definition run_of_job ::
    "'s server \<Rightarrow> runtime_env \<Rightarrow> uuid \<Rightarrow> planned_call \<Rightarrow> 's search_run \<times> (serp_process \<Rightarrow> serp_process) \<Rightarrow> bool"
where
  "run_of_job R E j c = (\<lambda>(V, restart).
     sv_env V = E \<and> sv_job_id V = j \<and> run_ok V \<and> keeps_attempts R V c
   \<and> (\<forall>q. sp_sent (restart q) = sp_sent q))"

lemma earns_same_job:
  "sv_env V = sv_env W \<Longrightarrow> sv_job_id V = sv_job_id W \<Longrightarrow> earns R V c a b p = earns R W c a b p"
  by (simp add: earns_def balance_def claims_made_def claimed_def [abs_def])

lemma search_runs_earn:
  assumes "redis_laws R" "list_all (run_of_job R E j c) vs" "sv_env W = E" "sv_job_id W = j"
  shows "earns R W c 0 0 (search_runs R c vs)"
  using assms(2)
proof (induction vs)
  case Nil
  then show ?case by (simp add: search_runs_def earns_ret)
next
  case (Cons v vs)
  obtain V restart where v: "v = (V, restart)" by (cases v)
  have V: "sv_env V = sv_env W" "sv_job_id V = sv_job_id W" "run_ok V" "keeps_attempts R V c"
    "\<And>q. sp_sent (restart q) = sp_sent q"
    using Cons.prems assms(3,4) by (simp_all add: v run_of_job_def)
  have client: "search_client R V c"
    using assms(1) V(3,4) by (intro search_client.intro search_client_axioms.intro)
  have "earns R V c 0 0 (checkpointed_search R V (adapter_search R V) c)"
    by (intro search_client.checkpointed_search_earns [OF client] search_client.adapter_search_earns [OF client])
  moreover have "earns R V c 0 0 (on_server (sv_others V))"
    by (intro earns_on_server search_client.client_keeps [OF client])
  ultimately have "earns R W c 0 0
     (andThen (outcome (checkpointed_search R V (adapter_search R V) c)) (\<lambda>_.
       andThen (on_server (sv_others V)) (\<lambda>_. update_process restart)))"
    unfolding earns_same_job [OF V(1,2), symmetric]
    by (intro earns_andThen earns_outcome earns_update_process V(5))
  moreover have "earns R W c 0 0 (search_runs R c vs)" using Cons by simp
  ultimately show ?case
    unfolding search_runs_def forEach.simps v prod.case by (rule earns_andThen)
qed

text \<open>
  (C16) A job pays for at most three requests of a planned call, over all its runs: whatever the
  runs are, how often the search is repeated, which keys fail and in which process it happens,
  the requests sent are at most the claims that were added, and there are at most three claims.
\<close>

theorem paid_requests_bounded:
  assumes "redis_laws R" "list_all (run_of_job R E j c) vs"
    and "search_runs R c vs (s, q) = ((s', q'), r)" "sv_env V = E" "sv_job_id V = j"
  shows "sp_sent q' + claims_made R V c s \<le> sp_sent q + claims_made R V c s'
    \<and> sp_sent q' \<le> sp_sent q + SERP_PROVIDER_ATTEMPT_LIMIT_PER_CALL"
  using earnsD [OF search_runs_earn [OF assms(1,2,4,5)] assms(3)] claims_made_le [of R V c s']
  by (auto simp: balance_def split: sum.splits)

theorem paid_requests_bounded_witness:
  "case search_runs mem_redis ex_call [(ex_search, \<lambda>q. q), (ex_search, \<lambda>q. q), (ex_search, \<lambda>q. q)]
      (ex_running, new_process) of ((s, q), r) \<Rightarrow> sp_sent q \<le> 3"
proof -
  obtain s q r where run: "search_runs mem_redis ex_call
      [(ex_search, \<lambda>q. q), (ex_search, \<lambda>q. q), (ex_search, \<lambda>q. q)] (ex_running, new_process) = ((s, q), r)"
    by (metis prod.exhaust)
  have "list_all (run_of_job mem_redis serp_example_env 1 ex_call)
      [(ex_search, \<lambda>q. q), (ex_search, \<lambda>q. q), (ex_search, \<lambda>q. q)]"
    by (simp add: run_of_job_def ex_run_ok ex_keeps_attempts)
  from paid_requests_bounded [OF mem.redis_laws_axioms this run, of ex_search] show ?thesis
    by (simp add: run serp_limits sent_new_process)
qed

subsection \<open>Saved responses\<close>

lemma save_response_reports_stored:
  assumes "save_response R V c started response (s, q) = ((s', q'), Inr r)"
    and "rget R s' (checkpoint_of (sv_env V) (sv_job_id V) (search_key c)) = Some (VJson w)" "w \<noteq> JNull"
  shows "\<exists>p. validated_checkpoint V w c = Inr p \<and> r = response_of p False"
proof -
  have get: "checkpoint_get (sv_env V) R (sv_job_id V) (search_key c) s' = Inr w"
    by (simp add: checkpoint_get_def assms(2) decode_json_def)
  show ?thesis
    using assms(1,3) unfolding save_response_def
    by (elim andThen_Inr_elim)
      (auto simp: Let_def throw_def on_server_def reads_def get ret_def
        elim!: andThen_Inr_elim split: if_splits prod.splits sum.splits)
qed

lemma searched_new:
  assumes "checkpointed_search R V delegate c (s, q) = ((s', q'), Inr r)" "\<not> pr_checkpoint_hit r"
  obtains started response s1 q1 where "save_response R V c started response (s1, q1) = ((s', q'), Inr r)"
  using assms unfolding checkpointed_search_def
  by (elim andThen_Inr_elim)
    (auto simp: use_checkpoint_def search_failed_def throw_def outcome_def ret_def response_of_def
      elim!: andThen_Inr_elim split: if_splits sum.splits exn.splits prod.splits)

text \<open>
  (C23) A saved response is final: once a search returned a new response and its checkpoint is
  stored, every later search of the call, through whatever provider and in whatever process,
  sends nothing and returns the same payload, times and attempts, marked as a checkpoint hit,
  unless the cost ledger fails to record the hit.
\<close>

theorem saved_response_final:
  assumes "checkpointed_search R V delegate c (s, q) = ((s', q'), Inr r)" "\<not> pr_checkpoint_hit r"
    and "rget R s' (checkpoint_of (sv_env V) (sv_job_id V) (search_key c)) = Some (VJson w)" "w \<noteq> JNull"
    and "rget R t (checkpoint_of (sv_env V) (sv_job_id V) (search_key c)) = Some (VJson w)"
    and "checkpointed_search R V delegate' c (t, u) = ((t', u'), x)"
  shows "u' = u \<and> (x = Inr (r\<lparr>pr_checkpoint_hit := True\<rparr>) \<or> sv_ledger V \<noteq> None \<and> (\<exists>e. x = Inl e))"
proof -
  obtain started response s1 q1 where save: "save_response R V c started response (s1, q1) = ((s', q'), Inr r)"
    using assms(1,2) by (rule searched_new)
  obtain p where p: "validated_checkpoint V w c = Inr p" "r = response_of p False"
    using save_response_reports_stored [OF save assms(3,4)] by blast
  have "checkpoint_get (sv_env V) R (sv_job_id V) (search_key c) t = Inr w"
    by (simp add: checkpoint_get_def assms(5) decode_json_def)
  then have x: "use_checkpoint R V c w (t, u) = ((t', u'), x)"
    using assms(4,6) by (simp add: checkpointed_search_def on_server_def reads_def andThen_def)
  show ?thesis
  proof (cases "sv_ledger V")
    case None
    then show ?thesis using x p by (simp add: use_checkpoint_def andThen_def ret_def response_of_def)
  next
    case (Some C)
    then show ?thesis
      using x p by (auto simp: use_checkpoint_def andThen_def on_server_def ret_def response_of_def
          split: prod.splits sum.splits)
  qed
qed

theorem saved_response_final_witness:
  "case ex_searched of ((s, q), r) \<Rightarrow>
     \<exists>s' q'. checkpointed_search mem_redis ex_search (\<lambda>_. throw TimeoutError) ex_call (s, new_process)
       = ((s', q'), Inr \<lparr>pr_payload = sort_members ex_payload, pr_provider_attempts = 2,
           pr_logical_call_used = True, pr_checkpoint_hit = True, pr_started_at = Some 0, pr_completed_at = Some 0\<rparr>)
     \<and> sp_sent q' = 0"
proof -
  obtain s q r where run: "ex_searched = ((s, q), r)" by (metis prod.exhaust)
  have r: "r = Inr \<lparr>pr_payload = sort_members ex_payload, pr_provider_attempts = 2, pr_logical_call_used = True,
      pr_checkpoint_hit = False, pr_started_at = Some 0, pr_completed_at = Some 0\<rparr>"
    and "case rget mem_redis s (checkpoint_of serp_example_env 1 (search_key ex_call)) of
        Some (VJson v) \<Rightarrow> v \<noteq> JNull | _ \<Rightarrow> False"
    using ex_searched_facts by (simp_all add: run)
  then obtain w where w: "rget mem_redis s (checkpoint_of serp_example_env 1 (search_key ex_call)) = Some (VJson w)"
    "w \<noteq> JNull" by (auto split: option.splits rval.splits)
  obtain s' q' x where again: "checkpointed_search mem_redis ex_search (\<lambda>_. throw TimeoutError) ex_call (s, new_process)
      = ((s', q'), x)" by (metis prod.exhaust)
  note first = run [unfolded ex_searched_def r]
  have "sv_ledger ex_search = None" by (simp add: ex_search_def)
  with saved_response_final [OF first _ _ w(2) _ again] w(1) show ?thesis
    by (simp add: run again sent_new_process)
qed

text \<open>
  (C25) What a search saves is accepted again: the checkpoint it writes for what the sanitizer
  keeps of any answer is read back as the same attempts, times and checksum, with the members
  of the payload in order.
\<close>

theorem saved_response_roundtrip:
  assumes "times_read_back V" "canonical_text (sv_env V)" "saved_response_ok V c raw p"
  shows "validated_checkpoint V (provider_checkpoint_json (sv_iso V) p) c
    = Inr (p\<lparr>pk_payload := sort_members (pk_payload p)\<rparr>)"
  by (rule saved_response_accepted [OF assms])

definition ex_saved :: provider_checkpoint where
  "ex_saved = \<lparr>pk_request_digest = pc_request_digest ex_call, pk_engine = Google, pk_payload = ex_payload,
     pk_payload_checksum = request_digest serp_example_env ex_payload, pk_provider_attempts = 2,
     pk_started_at = 0, pk_completed_at = 1\<rparr>"

theorem saved_response_roundtrip_witness:
  "validated_checkpoint ex_search (provider_checkpoint_json ex_time_text ex_saved) ex_call
   = Inr (ex_saved\<lparr>pk_payload := sort_members ex_payload\<rparr>)"
proof -
  have "times_read_back ex_search" by (simp add: times_read_back_def ex_search_def ex_time_read_back)
  moreover have "canonical_text (sv_env ex_search)"
    by (simp add: canonical_text_def serp_example_env_def example_env_def)
  moreover have "saved_response_ok ex_search ex_call ex_payload ex_saved" by code_simp
  ultimately show ?thesis
    using saved_response_roundtrip [of ex_search ex_call ex_payload ex_saved]
    by (simp add: ex_saved_def ex_search_def)
qed

subsection \<open>The stage\<close>

text \<open>
  (C22) A market is collected once: after a collection whose snapshot is stored, the stage
  returns that snapshot for the same context and sends nothing, in whatever process and
  state of the provider, unless the cost ledger fails to record the saved calls.
\<close>

theorem market_collected_once:
  fixes R :: "'s server" and G :: "'s market_stage"
  assumes "checkpoint_store R (sv_checkpoints (mg_run G))"
    and "map (strip_chars py_isspace) (mc_queries x) = mc_queries x"
    and "checkpoint_get (sv_env (mg_run G)) R (sv_job_id (mg_run G)) (snapshot_key (mg_run G) x) s = Inr JNull"
    and "collect_context R G x (s, q) = ((s', q'), Inr r)"
    and "rget R s' (checkpoint_of (sv_env (mg_run G)) (sv_job_id (mg_run G)) (snapshot_key (mg_run G) x))
       = Some (VJson w)" "w \<noteq> JNull"
    and "rget R t (checkpoint_of (sv_env (mg_run G)) (sv_job_id (mg_run G)) (snapshot_key (mg_run G) x))
       = Some (VJson w)"
    and "collect_context R G x (t, u) = ((t', u'), y)"
  shows "u' = u \<and> (y = Inr r \<or> sv_ledger (mg_run G) \<noteq> None \<and> (\<exists>e. y = Inl e))"
proof -
  let ?V = "mg_run G"
  have "collect_new R G x (s, q) = ((s', q'), Inr r)"
    using assms(3,4) by (simp add: collect_context_def Let_def on_server_def reads_def andThen_def)
  then obtain point calls s1 where
    "(case build_serp_search_plan (sv_env ?V) (mc_queries x) point (mc_device x) (mc_language x) of
        Inl _ \<Rightarrow> throw plan_error
      | Inr plan \<Rightarrow>
          andThen
            (handle
               (collect_market (sv_serp ?V) (on_server (sv_clock ?V))
                  (checkpointed_search R ?V (adapter_search R ?V)) (sv_job_id ?V) plan calls)
               (\<lambda>e. throw (collection_error e)))
            (\<lambda>s. andThen
               (on_server (run_once (sv_env ?V) R (sv_checkpoints ?V) (sv_job_id ?V) (snapshot_key ?V x)
                  (ret (snapshot_checkpoint_json G (market_identity ?V x) s))))
               (\<lambda>raw. case check_snapshot G x (pl_queries plan) raw of
                        Inl e \<Rightarrow> throw e | Inr persisted \<Rightarrow> ret persisted))) s1 = ((s', q'), Inr r)"
    unfolding collect_new_def Let_def by (elim andThen_Inr_elim) (auto simp: case_prod_beta)
  then obtain plan where plan:
      "build_serp_search_plan (sv_env ?V) (mc_queries x) point (mc_device x) (mc_language x) = Inr plan"
    and run: "andThen
         (handle
            (collect_market (sv_serp ?V) (on_server (sv_clock ?V))
               (checkpointed_search R ?V (adapter_search R ?V)) (sv_job_id ?V) plan calls)
            (\<lambda>e. throw (collection_error e)))
         (\<lambda>s. andThen
            (on_server (run_once (sv_env ?V) R (sv_checkpoints ?V) (sv_job_id ?V) (snapshot_key ?V x)
               (ret (snapshot_checkpoint_json G (market_identity ?V x) s))))
            (\<lambda>raw. case check_snapshot G x (pl_queries plan) raw of
                     Inl e \<Rightarrow> throw e | Inr persisted \<Rightarrow> ret persisted)) s1 = ((s', q'), Inr r)"
    by (simp add: throw_def split: sum.splits)
  obtain snap s2 where rest: "andThen
         (on_server (run_once (sv_env ?V) R (sv_checkpoints ?V) (sv_job_id ?V) (snapshot_key ?V x)
            (ret (snapshot_checkpoint_json G (market_identity ?V x) snap))))
         (\<lambda>raw. case check_snapshot G x (pl_queries plan) raw of
                  Inl e \<Rightarrow> throw e | Inr persisted \<Rightarrow> ret persisted) s2 = ((s', q'), Inr r)"
    using run by (rule andThen_Inr_elim)
  have queries: "pl_queries plan = mc_queries x" using plan_valid [OF plan] assms(2) by simp
  obtain raw s3 where once: "on_server (run_once (sv_env ?V) R (sv_checkpoints ?V) (sv_job_id ?V)
        (snapshot_key ?V x) (ret (snapshot_checkpoint_json G (market_identity ?V x) snap))) s2 = (s3, Inr raw)"
    and check: "(case check_snapshot G x (mc_queries x) raw of Inl e \<Rightarrow> throw e | Inr persisted \<Rightarrow> ret persisted) s3
       = ((s', q'), Inr r)"
    using rest unfolding queries by (rule andThen_Inr_elim)
  then have check: "check_snapshot G x (mc_queries x) raw = Inr r" and s3: "s3 = (s', q')"
    by (auto simp: throw_def ret_def split: sum.splits)
  obtain s4 q4 where s2: "s2 = (s4, q4)" by (cases s2)
  have "run_once (sv_env ?V) R (sv_checkpoints ?V) (sv_job_id ?V) (snapshot_key ?V x)
      (ret (snapshot_checkpoint_json G (market_identity ?V x) snap)) s4 = (s', Inr raw)"
    using once by (auto simp: s2 s3 on_server_def split: prod.splits)
  from checkpoint_store.run_once_reports_stored [OF assms(1) this assms(5,6)] have raw: "raw = w" .
  have "checkpoint_get (sv_env ?V) R (sv_job_id ?V) (snapshot_key ?V x) t = Inr w"
    by (simp add: checkpoint_get_def assms(7) decode_json_def)
  then have again: "on_server (reuse_snapshot R G x w) (t, u) = ((t', u'), y)"
    using assms(6,8) by (simp add: collect_context_def Let_def on_server_def reads_def andThen_def)
  show ?thesis
    using again check unfolding raw
    by (cases "sv_ledger ?V")
      (auto simp: reuse_snapshot_def on_server_def andThen_def ret_def split: prod.splits sum.splits)
qed

text \<open>A market whose searches are saved already, with a text of JSON values that keeps their texts.\<close>

fun flat_text :: "json \<Rightarrow> string" where
  "flat_text (JStr s) = s"
| "flat_text (JArr xs) = concat (map flat_text xs)"
| "flat_text (JObj kvs) = concat (map (\<lambda>(k, v). flat_text v) kvs)"
| "flat_text _ = []"

definition market_env :: runtime_env where
  "market_env = serp_example_env\<lparr>env_json_text := (\<lambda>v. flat_text (sort_members v))\<rparr>"

definition ex_market :: target_market where
  "ex_market = \<lparr>tm_display_name = ''Null Island'', tm_country_code = ''US'', tm_region = None, tm_city = None,
     tm_postal_code = None, tm_latitude = Some 0, tm_longitude = Some 0\<rparr>"

definition ex_context :: market_context where
  "ex_context = \<lparr>mc_target_market = ex_market, mc_queries = [''a1'', ''a2'', ''a3''], mc_device = Mobile,
     mc_language = ''en''\<rparr>"

definition ex_market_run :: "rval mem search_run" where
  "ex_market_run = ex_search\<lparr>sv_serp := \<lparr>se_env = market_env, se_repr = (\<lambda>_. []), se_http_url = Some\<rparr>\<rparr>"

definition ex_plan_calls :: "planned_call list" where
  "ex_plan_calls =
     (case build_serp_search_plan market_env (mc_queries ex_context) (explicit_point ex_market 0 0 0) Mobile ''en'' of
        Inl _ \<Rightarrow> [] | Inr plan \<Rightarrow> pl_calls plan)"

definition ex_document :: "planned_call \<Rightarrow> json" where
  "ex_document c = provider_checkpoint_json ex_time_text
     \<lparr>pk_request_digest = pc_request_digest c, pk_engine = pc_engine c, pk_payload = ex_payload,
      pk_payload_checksum = request_digest market_env ex_payload, pk_provider_attempts = 1,
      pk_started_at = 0, pk_completed_at = 0\<rparr>"

definition ex_presaved :: "rval mem" where
  "ex_presaved = rexec mem_redis
     (map (\<lambda>c. SetEx (checkpoint_of market_env 1 (search_key c)) (VJson (ex_document c)) 600) ex_plan_calls)
     ex_running"

definition ex_snapshot :: serp_snapshot where
  "ex_snapshot =
     \<lparr>ss_job_id = 1, ss_started_at = 0, ss_completed_at = 0, ss_target_point = explicit_point ex_market 0 0 0,
      ss_device = Mobile, ss_language = ''en'', ss_country_code = ''US'', ss_queries = [''a1'', ''a2'', ''a3''],
      ss_query_runs = [], ss_result_counts = [], ss_complete_query_count = 3,
      ss_budget = \<lparr>bg_logical_calls_planned = 6, bg_logical_calls_used = 6, bg_provider_attempt_limit = 18,
        bg_provider_attempts = 6, bg_checkpoint_hits = 6, bg_location_resolution_calls = 0\<rparr>,
      ss_limitations = []\<rparr>"

definition ex_snapshot_json :: "serp_snapshot \<Rightarrow> json" where
  "ex_snapshot_json s = JArr (map JStr (ss_queries s))"

definition ex_market_stage :: "rval mem market_stage" where
  "ex_market_stage = \<lparr>mg_run = ex_market_run, mg_location = (\<lambda>_. throw TimeoutError),
     mg_snapshot_json = ex_snapshot_json,
     mg_parse_snapshot = (\<lambda>d. if d = ex_snapshot_json ex_snapshot then Some ex_snapshot else None)\<rparr>"

definition ex_collected :: "(rval mem \<times> serp_process) \<times> (exn + serp_snapshot)" where
  "ex_collected = collect_context mem_redis ex_market_stage ex_context (ex_presaved, new_process)"

lemma ex_collected_facts:
  "case ex_collected of ((s, q), r) \<Rightarrow> r = Inr ex_snapshot
     \<and> (case rget mem_redis s (checkpoint_of market_env 1 (snapshot_key ex_market_run ex_context)) of
          Some (VJson v) \<Rightarrow> v \<noteq> JNull | _ \<Rightarrow> False)"
  by code_simp

lemma ex_not_collected:
  "checkpoint_get market_env mem_redis 1 (snapshot_key ex_market_run ex_context) ex_presaved = Inr JNull"
  by code_simp

lemma ex_market_env [simp]: "sv_env ex_market_run = market_env" "sv_job_id ex_market_run = 1"
  "sv_checkpoints ex_market_run = ex_checkpoints" "sv_ledger ex_market_run = None"
  "mg_run ex_market_stage = ex_market_run"
  by (simp_all add: ex_market_run_def ex_search_def ex_market_stage_def)

theorem market_collected_once_witness:
  "case ex_collected of ((s, q), r) \<Rightarrow>
     \<exists>s'. collect_context mem_redis ex_market_stage ex_context (s, new_process) = ((s', new_process), Inr ex_snapshot)"
proof -
  obtain s q r where run: "ex_collected = ((s, q), r)" by (metis prod.exhaust)
  have r: "r = Inr ex_snapshot" using ex_collected_facts by (simp add: run)
  have "case rget mem_redis s (checkpoint_of market_env 1 (snapshot_key ex_market_run ex_context)) of
      Some (VJson v) \<Rightarrow> v \<noteq> JNull | _ \<Rightarrow> False" using ex_collected_facts by (simp add: run)
  then obtain w where w: "rget mem_redis s (checkpoint_of market_env 1 (snapshot_key ex_market_run ex_context))
      = Some (VJson w)" "w \<noteq> JNull" by (auto split: option.splits rval.splits)
  obtain s' q' y where again: "collect_context mem_redis ex_market_stage ex_context (s, new_process)
      = ((s', q'), y)" by (metis prod.exhaust)
  have "map (strip_chars py_isspace) (mc_queries ex_context) = mc_queries ex_context" by code_simp
  with market_collected_once [of mem_redis ex_market_stage ex_context ex_presaved new_process s q ex_snapshot
      w s new_process s' q' y] w again run [unfolded ex_collected_def r] ex_not_collected
  show ?thesis by (simp add: run again)
qed

text \<open>
  There is a search plan exactly for three to five queries, each of 1 to 300 characters and
  no two alike in lower case once stripped; a plan has two calls for each query, in order.
\<close>

theorem search_plan_exists_iff:
  assumes "env_ok E" "target_point_valid point" "language_ok language"
    and "inj_on (params_digest E) (set (plan_params queries point device language))"
  shows "(\<exists>plan. build_serp_search_plan E queries point device language = Inr plan) \<longleftrightarrow>
    3 \<le> length queries \<and> length queries \<le> 5
    \<and> list_all (\<lambda>q. text_len 1 300 (strip_chars py_isspace q)) queries
    \<and> distinct (map (\<lambda>q. lower (strip_chars py_isspace q)) queries)"
  using plan_exists_iff [OF assms] by (simp add: list_all_iff)

lemma is_hex_low_half: "is_hex_digit (low_half c)"
  by (cases c) (auto simp: is_hex_digit_def)

lemma market_env_ok: "env_ok market_env"
proof -
  have "length (ex_digest x) = 64" for x by (simp add: ex_digest_def)
  moreover have "list_all is_hex_digit (ex_digest x)" for x
    unfolding ex_digest_def list_all_iff set_map using is_hex_low_half by blast
  ultimately show ?thesis
    by (simp add: env_ok_def market_env_def serp_example_env_def example_env_def)
qed

theorem search_plan_exists_iff_witness:
  "\<exists>plan. build_serp_search_plan market_env [''a1'', '' a2'', ''a3''] (explicit_point ex_market 0 0 0) Mobile ''en''
    = Inr plan"
proof -
  let ?qs = "[''a1'', '' a2'', ''a3'']" and ?p = "explicit_point ex_market 0 0 0"
  have "target_point_valid ?p" "language_ok ''en''" by code_simp+
  moreover have "distinct (map (params_digest market_env) (plan_params ?qs ?p Mobile ''en''))" by code_simp
  then have "inj_on (params_digest market_env) (set (plan_params ?qs ?p Mobile ''en''))"
    unfolding distinct_map by blast
  moreover have "3 \<le> length ?qs \<and> length ?qs \<le> 5
      \<and> list_all (\<lambda>q. text_len 1 300 (strip_chars py_isspace q)) ?qs
      \<and> distinct (map (\<lambda>q. lower (strip_chars py_isspace q)) ?qs)" by code_simp
  ultimately show ?thesis using search_plan_exists_iff [OF market_env_ok, of ?p "''en''" ?qs Mobile] by blast
qed

text \<open>
  (C28) The search point does not depend on the order in which the provider lists its
  locations, and it is a valid point of the market.
\<close>

theorem location_order_free:
  assumes "target_market_valid m" "valid_digest (lk_response_checksum lookup)"
    and "select_point nfkd repr m (lookup\<lparr>lk_items := items\<rparr>) now = Inr p"
    and "mset items' = mset items" "length items \<le> 10"
  shows "select_point nfkd repr m (lookup\<lparr>lk_items := items'\<rparr>) now = Inr p \<and> target_point_valid p"
  using select_point_order [OF assms(3,4,5)] select_point_valid [OF assms(1) _ assms(3)] assms(2) by simp

definition ex_location :: "string \<Rightarrow> string \<Rightarrow> int \<Rightarrow> json" where
  "ex_location i name latitude =
     JObj [(''id'', JStr i), (''name'', JStr name), (''canonical_name'', JStr (name @ '', Ohio'')),
           (''country_code'', JStr ''US''), (''target_type'', JStr ''City''),
           (''gps'', JArr [JInt (-81), JInt latitude])]"

definition ex_city :: target_market where
  "ex_city = ex_market\<lparr>tm_city := Some ''Akron'', tm_latitude := None, tm_longitude := None\<rparr>"

definition ex_lookup :: location_lookup where
  "ex_lookup = \<lparr>lk_items = [], lk_response_checksum = ''sha256:'' @ ex_digest []\<rparr>"

theorem location_order_free_witness:
  "\<exists>p. select_point lower (\<lambda>_. []) ex_city
     (ex_lookup\<lparr>lk_items := [ex_location ''2'' ''North Akron'' 42, ex_location ''1'' ''Akron'' 41]\<rparr>) 0 = Inr p
   \<and> tp_latitude p = 41"
proof -
  let ?a = "ex_location ''1'' ''Akron'' 41" and ?b = "ex_location ''2'' ''North Akron'' 42"
  let ?r = "select_point lower (\<lambda>_. []) ex_city (ex_lookup\<lparr>lk_items := [?a, ?b]\<rparr>) 0"
  have "case ?r of Inl _ \<Rightarrow> False | Inr p \<Rightarrow> tp_latitude p = 41" by code_simp
  then obtain p where p: "?r = Inr p" "tp_latitude p = 41" by (cases ?r) auto
  have "target_market_valid ex_city" "valid_digest (lk_response_checksum ex_lookup)" by code_simp+
  from location_order_free [OF this p(1), of "[?b, ?a]"] p(2) show ?thesis by simp
qed

end
