(* ===== verification/Serp_Lookup.thy ===== *)
theory Serp_Lookup
  imports Serp_Location
begin

text \<open>
  The HTTP side of the search (SerpApiLocationProvider of app/collectors/serp_market_location.py,
  \<open>_BoundedHttpClient\<close> of app/jobs_v22/serp_market_stage.py). A streamed answer is its status,
  the sizes of its chunks, the JSON value of its body, None for a body that is no JSON, and the
  SHA-256 digest of the body. An exception of the client is one of the program \<open>stream\<close>.
\<close>

record http_stream =
  hs_status :: int
  hs_chunks :: "nat list"
  hs_body :: "json option"
  hs_digest :: string

text \<open>The bytes read before the limit stops the loop; None when it does.\<close>

fun read_chunks :: "nat \<Rightarrow> nat \<Rightarrow> nat list \<Rightarrow> nat option" where
  "read_chunks limit got [] = Some got"
| "read_chunks limit got (n # ns) =
     (if limit < got + n then None else read_chunks limit (got + n) ns)"

definition location_temporary :: location_error where
  "location_temporary = (''SERP_LOCATION_PROVIDER_TEMPORARY'',
     ''The search location provider is temporarily unavailable.'', True)"

definition location_invalid :: location_error where
  "location_invalid = (''SERP_LOCATION_RESPONSE_INVALID'',
     ''The search location provider returned an invalid response.'', False)"

definition read_locations :: "nat \<Rightarrow> http_stream \<Rightarrow> location_error + location_lookup" where
  "read_locations max_bytes h =
     (if hs_status h = 429 \<or> 500 \<le> hs_status h then Inl location_temporary
      else if 400 \<le> hs_status h
      then Inl (''SERP_LOCATION_REQUEST_REJECTED'',
                ''The search location provider rejected the target market.'', False)
      else if read_chunks max_bytes 0 (hs_chunks h) = None
      then Inl (''SERP_LOCATION_RESPONSE_TOO_LARGE'',
                ''The search location response exceeded the safe limit.'', False)
      else (case hs_body h of
              Some (JArr items) \<Rightarrow>
                Inr \<lparr>lk_items = filter is_jobj (take 10 items),
                     lk_response_checksum = ''sha256:'' @ hs_digest h\<rparr>
            | _ \<Rightarrow> Inl location_invalid))"

definition location_search ::
    "(string \<Rightarrow> ('s, http_stream) program) \<Rightarrow> nat \<Rightarrow> string
     \<Rightarrow> ('s, location_error + location_lookup) program" where
  "location_search stream max_bytes query =
     handle
       (andThen (stream query) (\<lambda>h. ret (read_locations max_bytes h)))
       (\<lambda>e. if e \<in> {TimeoutError, HttpTimeoutException, HttpNetworkError}
            then ret (Inl location_temporary) else throw e)"

text \<open>The bounded client of the search provider: the answer, or an exception past the limit.\<close>

definition bounded_get ::
    "('s, http_stream) program \<Rightarrow> nat \<Rightarrow> ('s, int \<times> json option) program" where
  "bounded_get stream max_bytes =
     andThen stream (\<lambda>h.
       if read_chunks max_bytes 0 (hs_chunks h) = None then throw ResponseTooLarge
       else ret (hs_status h, hs_body h))"

lemma read_chunks_iff: "got \<le> limit \<Longrightarrow> read_chunks limit got ns \<noteq> None \<longleftrightarrow> got + sum_list ns \<le> limit"
proof (induction ns arbitrary: got)
  case (Cons n ns)
  show ?case
  proof (cases "limit < got + n")
    case False
    then show ?thesis using Cons.IH [of "got + n"] by (simp add: add.assoc)
  qed simp
qed simp

text \<open>A lookup that is returned is within its bounds.\<close>

lemma length_filter_take: "length (filter P (take n xs)) \<le> n"
  by (rule le_trans [OF length_filter_le]) simp

lemma read_locations_bounds:
  "read_locations max_bytes h = Inr lookup \<Longrightarrow>
   length (lk_items lookup) \<le> 10 \<and> list_all is_jobj (lk_items lookup)
   \<and> sum_list (hs_chunks h) \<le> max_bytes \<and> hs_status h < 400"
  using read_chunks_iff [of 0 max_bytes "hs_chunks h"]
  by (auto simp: read_locations_def list_all_iff not_le length_filter_take
      split: if_splits option.splits json.splits)

end
