(* ===== verification/Url_Safety.thy ===== *)
theory Url_Safety
  imports Url Effects
begin

text \<open>
  The boundary of every request to a site (app/preflight_v22/urls.py): which URLs are accepted,
  and the public addresses that a request is pinned to. IDNA and \<open>ipaddress\<close> of the standard
  library are the record \<open>url_lib\<close>: \<open>ul_idna\<close> is the encoded host name, None for a
  UnicodeError, \<open>ul_ip\<close> the address that a text denotes. The resolver is a program, whose
  None is the error of getaddrinfo.
\<close>

record address =
  ad_text :: string
  ad_global :: bool
  ad_ipv4_mapped :: bool

text \<open>Percent-coding of \<open>urllib.parse\<close>: \<open>unquote\<close> and \<open>quote_plus\<close>.\<close>

record url_lib =
  ul_idna :: "string \<Rightarrow> string option"
  ul_ip :: "string \<Rightarrow> address option"
  ul_unquote :: "string \<Rightarrow> string"
  ul_quote_plus :: "string \<Rightarrow> string"

record parsed_url =
  pu_split :: split_url
  pu_scheme :: string
  pu_hostname :: string
  pu_port :: int
  pu_explicit_port :: bool

record safe_target =
  su_normalized_url :: string
  su_request_url :: string
  su_scheme :: string
  su_hostname :: string
  su_port :: int
  su_addresses :: "string list"

definition BLOCKED_HOSTNAMES :: "string list" where
  "BLOCKED_HOSTNAMES = [''instance-data'', ''localhost'', ''metadata.aws.internal'', ''metadata.google'',
     ''metadata.google.internal'']"

definition ALLOWED_PORTS :: "int list" where
  "ALLOWED_PORTS = [80, 443]"

definition ends_with :: "string \<Rightarrow> string \<Rightarrow> bool" where
  "ends_with s p \<longleftrightarrow> length p \<le> length s \<and> drop (length s - length p) s = p"

definition starts_with :: "string \<Rightarrow> string \<Rightarrow> bool" where
  "starts_with s p \<longleftrightarrow> take (length p) s = p"

text \<open>\<open>s.rstrip(c)\<close>\<close>

definition rstrip_char :: "char \<Rightarrow> string \<Rightarrow> string" where
  "rstrip_char c s = rev (dropWhile (\<lambda>x. x = c) (rev s))"

definition url_invalid :: exn where
  "url_invalid = UrlSafetyError ''URL_INVALID'' ''The URL is invalid.''"

definition address_forbidden :: exn where
  "address_forbidden = UrlSafetyError ''URL_ADDRESS_FORBIDDEN''
     ''The URL resolves to a private or reserved address.''"

definition require_global_address :: "address \<Rightarrow> exn + unit" where
  "require_global_address a =
     (if ad_ipv4_mapped a then Inl address_forbidden
      else if \<not> ad_global a then Inl address_forbidden
      else Inr ())"

definition raw_hostname :: "split_url \<Rightarrow> string" where
  "raw_hostname u = rstrip_char CHR ''.'' (strip_chars py_isspace (opt_text (us_hostname u)))"

definition parse_url :: "url_lib \<Rightarrow> string \<Rightarrow> exn + parsed_url" where
  "parse_url L value =
     (case urlsplit (strip_chars py_isspace value) of
        Inl _ \<Rightarrow> Inl url_invalid
      | Inr u \<Rightarrow>
        (let scheme = lower (us_scheme u)
         in if scheme \<notin> {''http'', ''https''}
            then Inl (UrlSafetyError ''URL_SCHEME_UNSUPPORTED'' ''Only HTTP and HTTPS URLs are supported.'')
            else if us_username u \<noteq> None \<or> us_password u \<noteq> None
            then Inl (UrlSafetyError ''URL_USERINFO_FORBIDDEN'' ''URLs containing user information are not allowed.'')
            else if raw_hostname u = []
            then Inl (UrlSafetyError ''URL_HOST_MISSING'' ''The URL must include a hostname.'')
            else (case ul_idna L (raw_hostname u) of
                    None \<Rightarrow> Inl (UrlSafetyError ''URL_HOST_INVALID'' ''The URL hostname is invalid.'')
                  | Some encoded \<Rightarrow>
                    (let hostname = lower encoded
                     in if hostname \<in> set BLOCKED_HOSTNAMES \<or> ends_with hostname ''.localhost''
                        then Inl (UrlSafetyError ''URL_HOST_FORBIDDEN'' ''The URL hostname is not a public target.'')
                        else (case us_port u of
                                Inl _ \<Rightarrow> Inl (UrlSafetyError ''URL_PORT_INVALID'' ''The URL port is invalid.'')
                              | Inr parsed_port \<Rightarrow>
                                (let explicit = parsed_port \<noteq> None;
                                     port = (case parsed_port of
                                               Some p \<Rightarrow> if p = 0 then (if scheme = ''https'' then 443 else 80) else p
                                             | None \<Rightarrow> if scheme = ''https'' then 443 else 80)
                                 in if explicit \<and> port \<notin> set ALLOWED_PORTS
                                    then Inl (UrlSafetyError ''URL_PORT_FORBIDDEN''
                                           ''Only public web ports 80 and 443 are allowed.'')
                                    else
                                      (let parsed = \<lparr>pu_split = u, pu_scheme = scheme, pu_hostname = hostname,
                                             pu_port = port, pu_explicit_port = explicit\<rparr>
                                       in case ul_ip L hostname of
                                            None \<Rightarrow> Inr parsed
                                          | Some a \<Rightarrow>
                                              (case require_global_address a of
                                                 Inl e \<Rightarrow> Inl e | Inr _ \<Rightarrow> Inr parsed))))))))"

definition authority :: "parsed_url \<Rightarrow> string" where
  "authority p =
     (let host = (if CHR '':'' \<in> set (pu_hostname p) then ''['' @ pu_hostname p @ '']'' else pu_hostname p);
          default_port = (if pu_scheme p = ''https'' then 443 else 80)
      in if pu_explicit_port p \<and> pu_port p \<noteq> default_port then host @ CHR '':'' # int_str (pu_port p) else host)"

definition normalized_root :: "parsed_url \<Rightarrow> string" where
  "normalized_root p = urlunsplit (pu_scheme p) (authority p) ''/'' [] []"

definition normalize_site_url :: "url_lib \<Rightarrow> string \<Rightarrow> exn + string" where
  "normalize_site_url L value = map_sum id normalized_root (parse_url L value)"

text \<open>Every address is checked; equal ones are kept once.\<close>

fun check_addresses :: "url_lib \<Rightarrow> string list \<Rightarrow> string list \<Rightarrow> exn + string list" where
  "check_addresses L kept [] = Inr kept"
| "check_addresses L kept (raw # rest) =
     (case ul_ip L raw of
        None \<Rightarrow> Inl (UrlSafetyError ''URL_ADDRESS_INVALID'' ''The site hostname resolved to an invalid address.'')
      | Some a \<Rightarrow>
          (case require_global_address a of
             Inl e \<Rightarrow> Inl e
           | Inr _ \<Rightarrow>
               check_addresses L (if ad_text a \<in> set kept then kept else kept @ [ad_text a]) rest))"

definition dns_unavailable :: exn where
  "dns_unavailable = UrlUnreachableError ''SITE_DNS_UNAVAILABLE'' ''The site hostname could not be resolved.''"

definition request_url_of :: "parsed_url \<Rightarrow> string" where
  "request_url_of p =
     (let path = us_path (pu_split p)
      in urlunsplit (pu_scheme p) (authority p) (if path = [] then ''/'' else path) (us_query (pu_split p)) [])"

definition lookup_addresses ::
    "url_lib \<Rightarrow> (string \<Rightarrow> ('s, string list option) program) \<Rightarrow> string \<Rightarrow> ('s, string list) program" where
  "lookup_addresses L resolver hostname =
     (case ul_ip L hostname of
        Some a \<Rightarrow> ret [ad_text a]
      | None \<Rightarrow>
          andThen (resolver hostname) (\<lambda>found.
            case found of
              None \<Rightarrow> throw dns_unavailable
            | Some values \<Rightarrow>
                if values = [] then throw dns_unavailable
                else if 16 < length values
                then throw (UrlSafetyError ''URL_ADDRESS_INVALID''
                       ''The site hostname resolved to too many addresses.'')
                else ret values))"

definition resolve_public_url ::
    "url_lib \<Rightarrow> (string \<Rightarrow> ('s, string list option) program) \<Rightarrow> string \<Rightarrow> ('s, safe_target) program" where
  "resolve_public_url L resolver value =
     (case parse_url L value of
        Inl e \<Rightarrow> throw e
      | Inr p \<Rightarrow>
          andThen (lookup_addresses L resolver (pu_hostname p)) (\<lambda>values.
            case check_addresses L [] values of
              Inl e \<Rightarrow> throw e
            | Inr unique_addresses \<Rightarrow>
                ret \<lparr>su_normalized_url = normalized_root p, su_request_url = request_url_of p,
                     su_scheme = pu_scheme p, su_hostname = pu_hostname p, su_port = pu_port p,
                     su_addresses = unique_addresses\<rparr>))"

definition validate_gbp_url :: "url_lib \<Rightarrow> string \<Rightarrow> exn + string" where
  "validate_gbp_url L value =
     (let raw = strip_chars py_isspace value
      in case parse_url L raw of
           Inl e \<Rightarrow> Inl e
         | Inr p \<Rightarrow>
           (let path = (if us_path (pu_split p) = [] then ''/'' else us_path (pu_split p));
                host = pu_hostname p
            in if host \<in> {''google.com'', ''www.google.com''} \<and> starts_with path ''/maps''
                  \<or> host = ''maps.google.com''
                  \<or> host = ''search.google.com'' \<and> starts_with path ''/local/''
                  \<or> host = ''maps.app.goo.gl'' \<and> path \<noteq> ''/''
                  \<or> host = ''goo.gl'' \<and> starts_with path ''/maps/''
                  \<or> host = ''share.google'' \<and> path \<noteq> ''/''
               then Inr raw
               else Inl (UrlSafetyError ''GBP_URL_UNSUPPORTED''
                      ''The GBP URL must be a supported public Google Maps URL.'')))"

subsection \<open>What is let through\<close>

text \<open>A target is public: http or https, port 80 or 443, and every address is a global one.\<close>

definition public_target :: "url_lib \<Rightarrow> safe_target \<Rightarrow> bool" where
  "public_target L t \<longleftrightarrow>
     su_scheme t \<in> {''http'', ''https''} \<and> su_port t \<in> {80, 443}
   \<and> su_hostname t \<notin> set BLOCKED_HOSTNAMES \<and> \<not> ends_with (su_hostname t) ''.localhost''
   \<and> su_addresses t \<noteq> []
   \<and> (\<forall>x \<in> set (su_addresses t). \<exists>raw a. ul_ip L raw = Some a \<and> ad_text a = x \<and> ad_global a \<and> \<not> ad_ipv4_mapped a)"

lemma require_global_Inr: "require_global_address a = Inr u \<longleftrightarrow> ad_global a \<and> \<not> ad_ipv4_mapped a"
  by (auto simp: require_global_address_def)

lemma parse_url_Inr:
  assumes "parse_url L value = Inr p"
  shows "pu_scheme p \<in> {''http'', ''https''}" "pu_port p \<in> {80, 443}"
    "pu_hostname p \<notin> set BLOCKED_HOSTNAMES" "\<not> ends_with (pu_hostname p) ''.localhost''"
    "\<And>a. ul_ip L (pu_hostname p) = Some a \<Longrightarrow> ad_global a \<and> \<not> ad_ipv4_mapped a"
  using assms
  by (auto simp: parse_url_def Let_def ALLOWED_PORTS_def require_global_Inr
      split: sum.splits option.splits if_splits)

lemma check_addresses_Inr:
  "check_addresses L kept raws = Inr unique_addresses \<Longrightarrow>
   set unique_addresses = set kept \<union> {ad_text a |a. \<exists>raw \<in> set raws. ul_ip L raw = Some a}
   \<and> (\<forall>raw \<in> set raws. \<exists>a. ul_ip L raw = Some a \<and> ad_global a \<and> \<not> ad_ipv4_mapped a)"
proof (induction L kept raws rule: check_addresses.induct)
  case (2 L kept raw rest)
  then obtain a where a: "ul_ip L raw = Some a" "ad_global a" "\<not> ad_ipv4_mapped a"
    and rest: "check_addresses L (if ad_text a \<in> set kept then kept else kept @ [ad_text a]) rest = Inr unique_addresses"
    by (auto simp: require_global_Inr split: option.splits sum.splits)
  have "require_global_address a = Inr ()" using a by (simp add: require_global_Inr)
  from 2 (1) [OF a(1) this rest] show ?case using a by auto
qed simp

lemma lookup_addresses_Inr: "lookup_addresses L resolver h s = (s', Inr found) \<Longrightarrow> found \<noteq> []"
  by (auto simp: lookup_addresses_def program_defs split: option.splits if_splits prod.splits sum.splits)

lemma resolve_public_target:
  assumes "resolve_public_url L resolver value s = (s', Inr t)"
  shows "public_target L t"
proof -
  obtain p found where p: "parse_url L value = Inr p"
    and found: "lookup_addresses L resolver (pu_hostname p) s = (s', Inr found)"
    and t: "check_addresses L [] found = Inr (su_addresses t)" "su_scheme t = pu_scheme p"
      "su_port t = pu_port p" "su_hostname t = pu_hostname p"
    using assms
    by (auto simp: resolve_public_url_def program_defs split: sum.splits prod.splits)
  have "\<exists>raw a. ul_ip L raw = Some a \<and> ad_text a = x \<and> ad_global a \<and> \<not> ad_ipv4_mapped a"
    if "x \<in> set (su_addresses t)" for x
    using check_addresses_Inr [OF t(1)] that by fastforce
  moreover have "su_addresses t \<noteq> []"
    using check_addresses_Inr [OF t(1)] lookup_addresses_Inr [OF found] by (cases found) fastforce+
  ultimately show ?thesis
    using parse_url_Inr [OF p] t by (auto simp: public_target_def)
qed

end
