(* ===== verification/Site_Urls.thy ===== *)
theory Site_Urls
  imports Url_Safety "HOL-Library.List_Lexorder" "HOL-Library.Char_ord" "HOL-Library.Product_Lexorder"
begin

text \<open>
  Which URLs belong to the inventory of a site, and their canonical form
  (app/collectors/site_inventory_urls.py, app/collectors/site_page_scope.py, and the contact
  paths of app/collectors/site_contact_coverage.py).
\<close>

record site_scope =
  sc_root_url :: string
  sc_scheme :: string
  sc_canonical_host :: string
  sc_allowed_hosts :: "string list"

definition scope_from_root :: "url_lib \<Rightarrow> string \<Rightarrow> exn + site_scope" where
  "scope_from_root L root_url =
     (case normalize_site_url L root_url of
        Inl e \<Rightarrow> Inl e
      | Inr normalized \<Rightarrow>
        (case urlsplit normalized of
           Inl e \<Rightarrow> Inl e
         | Inr u \<Rightarrow>
           (let host = opt_text (us_hostname u);
                other = (if ul_ip L host \<noteq> None then []
                         else if starts_with host ''www.'' then [drop 4 host] else [''www.'' @ host])
            in Inr \<lparr>sc_root_url = normalized, sc_scheme = us_scheme u, sc_canonical_host = host,
                    sc_allowed_hosts = host # other\<rparr>)))"

definition contains_host :: "url_lib \<Rightarrow> site_scope \<Rightarrow> string \<Rightarrow> bool" where
  "contains_host L sc hostname =
     (case ul_idna L (rstrip_char CHR ''.'' (strip_chars py_isspace hostname)) of
        None \<Rightarrow> False
      | Some encoded \<Rightarrow> lower encoded \<in> set (sc_allowed_hosts sc))"

subsection \<open>Paths\<close>

text \<open>\<open>re.sub(r"/{2,}", "/", path)\<close>\<close>

fun collapse_slashes :: "string \<Rightarrow> string" where
  "collapse_slashes (c # d # s) =
     (if c = CHR ''/'' \<and> d = CHR ''/'' then collapse_slashes (d # s) else c # collapse_slashes (d # s))"
| "collapse_slashes s = s"

text \<open>\<open>posixpath.normpath\<close> of a text without two slashes in a row\<close>

fun norm_components :: "bool \<Rightarrow> string list \<Rightarrow> string list \<Rightarrow> string list" where
  "norm_components rooted kept_rev [] = rev kept_rev"
| "norm_components rooted kept_rev (c # cs) =
     (if c = [] \<or> c = ''.'' then norm_components rooted kept_rev cs
      else if c \<noteq> ''..'' \<or> (\<not> rooted \<and> kept_rev = []) \<or> (kept_rev \<noteq> [] \<and> hd kept_rev = ''..'')
      then norm_components rooted (c # kept_rev) cs
      else norm_components rooted (drop 1 kept_rev) cs)"

definition normpath :: "string \<Rightarrow> string" where
  "normpath path =
     (if path = [] then ''.''
      else
        (let rooted = starts_with path ''/'';
             joined = join_with ''/'' (norm_components rooted [] (split_on CHR ''/'' path));
             whole = (if rooted then CHR ''/'' # joined else joined)
         in if whole = [] then ''.'' else whole))"

definition DEFAULT_DOCUMENTS :: "string list" where
  "DEFAULT_DOCUMENTS = [''index.htm'', ''index.html'', ''index.php'', ''default.htm'', ''default.html'']"

definition normalized_path :: "string \<Rightarrow> string" where
  "normalized_path path =
     (let collapsed = collapse_slashes (if path = [] then ''/'' else path);
          n1 = normpath collapsed;
          n2 = (if starts_with n1 ''/'' then n1 else CHR ''/'' # n1);
          n3 = (if n2 = ''/.'' then ''/'' else n2);
          segments = split_on CHR ''/'' (rstrip_char CHR ''/'' n3);
          n4 = (if lower (last segments) \<in> set DEFAULT_DOCUMENTS
                then (let shorter = join_with ''/'' (butlast segments) in if shorter = [] then ''/'' else shorter)
                else n3)
      in if n4 \<noteq> ''/'' then rstrip_char CHR ''/'' n4 else n4)"

definition REJECTED_PATH_SEGMENTS :: "string list" where
  "REJECTED_PATH_SEGMENTS =
     [''account'', ''admin'', ''cart'', ''checkout'', ''delete'', ''login'', ''logout'', ''my-account'',
      ''register'', ''search'', ''signin'', ''signup'', ''wp-admin'']"

definition STATIC_EXTENSIONS :: "string list" where
  "STATIC_EXTENSIONS =
     [''.7z'', ''.avi'', ''.bmp'', ''.css'', ''.csv'', ''.doc'', ''.docx'', ''.eot'', ''.exe'', ''.gif'', ''.gz'',
      ''.ico'', ''.jpeg'', ''.jpg'', ''.js'', ''.json'', ''.m4a'', ''.mov'', ''.mp3'', ''.mp4'', ''.ogg'',
      ''.pdf'', ''.png'', ''.ppt'', ''.pptx'', ''.rar'', ''.rss'', ''.svg'', ''.tar'', ''.tif'', ''.tiff'',
      ''.ttf'', ''.txt'', ''.wav'', ''.webm'', ''.webp'', ''.woff'', ''.woff2'', ''.xls'', ''.xlsx'', ''.xml'',
      ''.zip'']"

definition path_segments_of :: "string \<Rightarrow> string list" where
  "path_segments_of path = map lower (filter (\<lambda>s. s \<noteq> []) (split_on CHR ''/'' path))"

definition path_is_excluded :: "string \<Rightarrow> bool" where
  "path_is_excluded path =
     (let segments = path_segments_of path;
          final_segment = (if segments = [] then [] else last segments)
      in if list_ex (\<lambda>s. s \<in> set REJECTED_PATH_SEGMENTS) segments then True
         else if list_ex (\<lambda>s. s \<in> {''remove'', ''destroy'', ''unsubscribe''}) segments then True
         else list_ex (ends_with final_segment) STATIC_EXTENSIONS)"

subsection \<open>Queries\<close>

definition TRACKING_QUERY_KEYS :: "string list" where
  "TRACKING_QUERY_KEYS =
     [''fbclid'', ''gclid'', ''gbraid'', ''mc_cid'', ''mc_eid'', ''msclkid'', ''ref'', ''source'', ''wbraid'']"

definition REJECTED_QUERY_KEYS :: "string list" where
  "REJECTED_QUERY_KEYS =
     [''filter'', ''facet'', ''order'', ''page'', ''paged'', ''q'', ''query'', ''s'', ''search'', ''session'',
      ''sessionid'', ''sid'', ''sort'']"

text \<open>\<open>parse_qsl\<close> with blank values kept, \<open>urlencode\<close>\<close>

definition decode_query :: "url_lib \<Rightarrow> string \<Rightarrow> string" where
  "decode_query L s = ul_unquote L (map (\<lambda>c. if c = CHR ''+'' then CHR '' '' else c) s)"

definition parse_qsl :: "url_lib \<Rightarrow> string \<Rightarrow> (string \<times> string) list" where
  "parse_qsl L query =
     map (\<lambda>part. (let (name, value) = partition_at CHR ''='' part
                  in (decode_query L name, decode_query L (opt_text value))))
       (filter (\<lambda>part. part \<noteq> []) (split_on CHR ''&'' query))"

definition urlencode :: "url_lib \<Rightarrow> (string \<times> string) list \<Rightarrow> string" where
  "urlencode L items =
     join_with ''&'' (map (\<lambda>(k, v). ul_quote_plus L k @ CHR ''='' # ul_quote_plus L v) items)"

definition tracking_key :: "string \<Rightarrow> bool" where
  "tracking_key key \<longleftrightarrow> lower key \<in> set TRACKING_QUERY_KEYS \<or> starts_with (lower key) ''utm_''"

text \<open>The items that stay; None when a key rejects the whole URL.\<close>

fun query_items :: "(string \<times> string) list \<Rightarrow> (string \<times> string) list option" where
  "query_items [] = Some []"
| "query_items ((raw_key, raw_value) # rest) =
     (let key = strip_chars py_isspace raw_key
      in if lower key \<in> set REJECTED_QUERY_KEYS then None
         else if tracking_key key then query_items rest
         else map_option (Cons (key, raw_value)) (query_items rest))"

subsection \<open>Canonical URLs\<close>

definition allowed_authority :: "url_lib \<Rightarrow> site_scope \<Rightarrow> split_url \<Rightarrow> bool" where
  "allowed_authority L sc u \<longleftrightarrow>
     lower (us_scheme u) \<in> {''http'', ''https''}
   \<and> us_username u = None \<and> us_password u = None
   \<and> contains_host L sc (raw_hostname u)
   \<and> us_port u \<in> {Inr None, Inr (Some 80), Inr (Some 443)}"

definition absolute_url :: "site_scope \<Rightarrow> string option \<Rightarrow> string \<Rightarrow> exn + split_url" where
  "absolute_url sc base raw =
     (case urljoin (case base of Some b \<Rightarrow> if b = [] then sc_root_url sc else b | None \<Rightarrow> sc_root_url sc) raw of
        Inl e \<Rightarrow> Inl e | Inr absolute \<Rightarrow> urlsplit absolute)"

definition canonicalize_inventory_url ::
    "url_lib \<Rightarrow> site_scope \<Rightarrow> string option \<Rightarrow> string \<Rightarrow> string option" where
  "canonicalize_inventory_url L sc base value =
     (let raw = strip_chars py_isspace value
      in if raw = [] then None
         else (case absolute_url sc base raw of
                 Inl _ \<Rightarrow> None
               | Inr u \<Rightarrow>
                 if \<not> allowed_authority L sc u then None
                 else if path_is_excluded (normalized_path (us_path u)) then None
                 else (case query_items (parse_qsl L (us_query u)) of
                         None \<Rightarrow> None
                       | Some items \<Rightarrow>
                           Some (urlunsplit (sc_scheme sc) (sc_canonical_host sc) (normalized_path (us_path u))
                             (urlencode L (sort_key (\<lambda>(k, v). (lower k, v)) items)) []))))"

definition canonicalize_site_resource_url ::
    "url_lib \<Rightarrow> site_scope \<Rightarrow> string option \<Rightarrow> string \<Rightarrow> string option" where
  "canonicalize_site_resource_url L sc base value =
     (let raw = strip_chars py_isspace value
      in if raw = [] then None
         else (case absolute_url sc base raw of
                 Inl _ \<Rightarrow> None
               | Inr u \<Rightarrow>
                 if \<not> allowed_authority L sc u then None
                 else Some (urlunsplit (sc_scheme sc) (sc_canonical_host sc) (normalized_path (us_path u))
                        (us_query u) [])))"

definition stable_url_digest :: "(string \<Rightarrow> string) \<Rightarrow> string \<Rightarrow> string" where
  "stable_url_digest sha256 url = ''sha256:'' @ sha256 url"

subsection \<open>Administrative pages and contact paths\<close>

definition is_admin_page :: "url_lib \<Rightarrow> string option \<Rightarrow> bool" where
  "is_admin_page L url =
     (case url of
        None \<Rightarrow> False
      | Some v \<Rightarrow>
        if v = [] then False
        else (case urlsplit v of
                Inl _ \<Rightarrow> False
              | Inr u \<Rightarrow>
                  list_ex (\<lambda>s. s \<in> {''wp-login.php'', ''wp-admin''})
                    (split_on CHR ''/'' (lower (ul_unquote L (us_path u))))
                \<or> list_ex (\<lambda>(k, _). lower k = ''action'') (parse_qsl L (us_query u))))"

definition contact_label :: "string \<Rightarrow> bool" where
  "contact_label s \<longleftrightarrow> lower s \<in> set [''contact'', ''contact us'', ''contact-us'', ''get in touch'',
     ''get-in touch'', ''get in-touch'', ''get-in-touch'']"

definition without_html :: "string \<Rightarrow> string" where
  "without_html s =
     (if ends_with (lower s) ''.html'' then take (length s - 5) s
      else if ends_with (lower s) ''.htm'' then take (length s - 4) s else s)"

definition contact_path :: "string \<Rightarrow> exn + bool" where
  "contact_path url =
     map_sum id (\<lambda>u. contact_label (without_html (after_last CHR ''/'' (rstrip_char CHR ''/'' (us_path u)))))
       (urlsplit url)"

subsection \<open>The form of a canonical URL\<close>

definition clean_segment :: "string \<Rightarrow> bool" where
  "clean_segment c \<longleftrightarrow> c \<notin> {[], ''.'', ''..''} \<and> CHR ''/'' \<notin> set c"

lemma norm_components_clean:
  assumes "list_all clean_segment kept" "\<And>c. c \<in> set cs \<Longrightarrow> CHR ''/'' \<notin> set c"
  shows "list_all clean_segment (norm_components True kept cs)"
  using assms
proof (induction cs arbitrary: kept)
  case (Cons c cs)
  have IH: "list_all clean_segment (norm_components True k cs)" if "list_all clean_segment k" for k
    using Cons.IH [OF that] Cons.prems(2) by simp
  have "list_all clean_segment (drop 1 kept)" using Cons.prems(1) by (cases kept) auto
  moreover have "\<not> (kept \<noteq> [] \<and> hd kept = ''..'')"
    using Cons.prems(1) by (cases kept) (auto simp: clean_segment_def)
  moreover have "c \<notin> {[], ''.'', ''..''} \<Longrightarrow> list_all clean_segment (c # kept)"
    using Cons.prems by (simp add: clean_segment_def [of c])
  ultimately show ?case using IH [of kept] IH [of "c # kept"] IH [of "drop 1 kept"] Cons.prems(1)
    by (cases "c \<in> {[], ''.'', ''..''}") auto
qed (simp add: list_all_iff)

lemma join_clean_last:
  "list_all clean_segment cs \<Longrightarrow> cs \<noteq> [] \<Longrightarrow>
   join_with ''/'' cs \<noteq> [] \<and> last (join_with ''/'' cs) \<noteq> CHR ''/''"
proof (induction "''/''" cs rule: join_with.induct)
  case (2 w)
  then show ?case by (auto simp: clean_segment_def dest: last_in_set)
next
  case (3 w v ws)
  then show ?case by (auto simp: clean_segment_def)
qed simp

lemma rstrip_char_keep: "s = [] \<or> last s \<noteq> c \<Longrightarrow> rstrip_char c s = s"
  by (cases s rule: rev_cases) (auto simp: rstrip_char_def)

lemma collapse_slashes_head: "\<exists>t. collapse_slashes (c # s) = c # t"
proof (induction s arbitrary: c)
  case (Cons d s)
  from Cons.IH [of d] show ?case by auto
qed simp

lemma clean_no_slash: "list_all clean_segment cs \<Longrightarrow> c \<in> set cs \<Longrightarrow> CHR ''/'' \<notin> set c"
  by (auto simp: list_all_iff clean_segment_def)

text \<open>A rooted path, from its clean segments.\<close>

definition rooted_path :: "string list \<Rightarrow> string" where
  "rooted_path cs = CHR ''/'' # join_with ''/'' cs"

lemma rooted_path_facts:
  assumes "list_all clean_segment cs"
  shows "rstrip_char CHR ''/'' (rooted_path cs) = (if cs = [] then [] else rooted_path cs)"
    and "split_on CHR ''/'' (rooted_path cs) = [] # (if cs = [] then [[]] else cs)"
proof -
  show "rstrip_char CHR ''/'' (rooted_path cs) = (if cs = [] then [] else rooted_path cs)"
    using join_clean_last [OF assms]
    by (auto simp: rooted_path_def rstrip_char_keep) (simp add: rstrip_char_def)
  have "split_on CHR ''/'' (join_with ''/'' cs) = (if cs = [] then [[]] else cs)"
    using split_join_on [of cs "CHR ''/''"] clean_no_slash [OF assms] by auto
  moreover have "split_on c (c # s) = [] # split_on c s" for c s
    by (cases "split_on c s") simp_all
  ultimately show "split_on CHR ''/'' (rooted_path cs) = [] # (if cs = [] then [[]] else cs)"
    by (simp only: rooted_path_def)
qed

lemma normpath_rooted:
  assumes "p \<noteq> []" "hd p = CHR ''/''"
  shows "\<exists>cs. list_all clean_segment cs \<and> normpath p = rooted_path cs"
proof -
  have "starts_with p ''/''" using assms by (cases p) (auto simp: starts_with_def)
  moreover have "list_all clean_segment (norm_components True [] (split_on CHR ''/'' p))"
    by (rule norm_components_clean) (auto dest: split_on_avoids)
  ultimately show ?thesis using assms(1) by (auto simp: normpath_def Let_def rooted_path_def)
qed

lemma normalized_path_form:
  assumes "path = [] \<or> hd path = CHR ''/''"
  shows "\<exists>cs. list_all clean_segment cs \<and> normalized_path path = rooted_path cs"
proof -
  let ?p = "if path = [] then ''/'' else path"
  obtain s where "?p = CHR ''/'' # s" using assms by (cases path) auto
  then have "collapse_slashes ?p \<noteq> []" "hd (collapse_slashes ?p) = CHR ''/''"
    using collapse_slashes_head [of "CHR ''/''" s] by auto
  then obtain cs where cs: "list_all clean_segment cs" "normpath (collapse_slashes ?p) = rooted_path cs"
    using normpath_rooted by blast
  have no_dot: "rooted_path cs \<noteq> ''/.''"
    using cs(1) by (cases cs rule: remdups_adj.cases)
      (auto simp: rooted_path_def clean_segment_def append_eq_Cons_conv)
  have rooted: "starts_with (rooted_path cs) ''/''" by (simp add: starts_with_def rooted_path_def)
  define shorter where "shorter = (if cs = [] then [] else butlast cs)"
  have short: "list_all clean_segment shorter"
    using cs(1) by (auto simp: shorter_def list_all_iff dest: in_set_butlastD)
  have lower_Nil: "lower [] = []" by (simp add: lower_def)
  let ?default = "cs \<noteq> [] \<and> lower (last cs) \<in> set DEFAULT_DOCUMENTS"
  have split: "split_on CHR ''/'' (rstrip_char CHR ''/'' (rooted_path cs)) = (if cs = [] then [[]] else [] # cs)"
    using rooted_path_facts [OF cs(1)] by simp
  have "(let shorter = join_with ''/'' (butlast ([] # cs)) in if shorter = [] then ''/'' else shorter)
      = rooted_path shorter" if "cs \<noteq> []"
    using that by (cases "butlast cs") (auto simp: shorter_def rooted_path_def)
  then have "normalized_path path = (let n = rooted_path (if ?default then shorter else cs)
      in if n \<noteq> ''/'' then rstrip_char CHR ''/'' n else n)"
    using no_dot rooted split unfolding normalized_path_def cs(2) Let_def by (auto simp: DEFAULT_DOCUMENTS_def lower_Nil)
  moreover have "(let n = rooted_path ds in if n \<noteq> ''/'' then rstrip_char CHR ''/'' n else n) = rooted_path ds"
    if "list_all clean_segment ds" for ds
    using rooted_path_facts(1) [OF that] by (auto simp: rooted_path_def Let_def)
  ultimately show ?thesis using cs(1) short by auto
qed

lemma urlsplit_path:
  assumes "urlsplit url = Inr u" "us_netloc u \<noteq> []"
  shows "us_path u = [] \<or> hd (us_path u) = CHR ''/''"
proof -
  define rest where "rest = snd (split_scheme (filter (\<lambda>c. (of_char c :: nat) \<notin> {9, 10, 13})
      (dropWhile (\<lambda>c. (of_char c :: nat) \<le> 32) url)))"
  have rest: "us_path u = fst (partition_at CHR ''?'' (fst (partition_at CHR ''#'' (snd (split_netloc rest)))))"
    "us_netloc u = fst (split_netloc rest)"
    using assms(1) unfolding urlsplit_def Let_def case_prod_beta rest_def by (auto split: if_splits)
  then have "snd (split_netloc rest) = dropWhile (\<lambda>c. c \<notin> set ''/?#'') (drop 2 rest)"
    using assms(2) by (auto simp: split_netloc_def split: if_splits)
  then have r: "snd (split_netloc rest) = [] \<or> hd (snd (split_netloc rest)) \<in> set ''/?#''"
    using hd_dropWhile [of "\<lambda>c. c \<notin> set ''/?#''" "drop 2 rest"] by auto
  have "us_path u = takeWhile (\<lambda>x. x \<noteq> CHR ''?'') (takeWhile (\<lambda>x. x \<noteq> CHR ''#'') (snd (split_netloc rest)))"
    by (simp add: rest(1) partition_at_def)
  with r show ?thesis by (cases "snd (split_netloc rest)") auto
qed

lemma query_items_Some:
  "query_items raw = Some items \<Longrightarrow> (k, v) \<in> set items \<Longrightarrow>
   lower k \<notin> set REJECTED_QUERY_KEYS \<and> \<not> tracking_key k"
proof (induction raw arbitrary: items)
  case (Cons x raw)
  then show ?case by (cases x) (auto simp: Let_def split: if_splits)
qed simp

lemma netloc_of_raw_hostname: "raw_hostname u \<noteq> [] \<Longrightarrow> us_netloc u \<noteq> []"
  by (auto simp: raw_hostname_def us_hostname_def hostinfo_def partition_at_def after_last_def opt_text_def
      rstrip_char_def strip_chars_def)

lemma canonical_url_parts:
  assumes "\<not> contains_host L sc []" "canonicalize_inventory_url L sc base value = Some u"
  shows "\<exists>cs items. u = urlunsplit (sc_scheme sc) (sc_canonical_host sc) (rooted_path cs) (urlencode L items) []
    \<and> list_all clean_segment cs \<and> \<not> path_is_excluded (rooted_path cs)
    \<and> sorted (map (\<lambda>(k, v). (lower k, v)) items)
    \<and> (\<forall>(k, v) \<in> set items. lower k \<notin> set REJECTED_QUERY_KEYS \<and> \<not> tracking_key k)"
proof -
  obtain a items where a: "absolute_url sc base (strip_chars py_isspace value) = Inr a" "allowed_authority L sc a"
    and path: "\<not> path_is_excluded (normalized_path (us_path a))"
    and items: "query_items (parse_qsl L (us_query a)) = Some items"
    and u: "u = urlunsplit (sc_scheme sc) (sc_canonical_host sc) (normalized_path (us_path a))
        (urlencode L (sort_key (\<lambda>(k, v). (lower k, v)) items)) []"
    using assms(2) by (auto simp: canonicalize_inventory_url_def Let_def split: sum.splits option.splits if_splits)
  have "us_netloc a \<noteq> []"
    using a(2) assms(1) by (intro netloc_of_raw_hostname) (auto simp: allowed_authority_def)
  moreover obtain t where "urlsplit t = Inr a"
    using a(1) by (auto simp: absolute_url_def split: sum.splits)
  ultimately obtain cs where cs: "list_all clean_segment cs" "normalized_path (us_path a) = rooted_path cs"
    using normalized_path_form urlsplit_path by blast
  show ?thesis
    using u cs path query_items_Some [OF items]
    by (intro exI [of _ cs] exI [of _ "sort_key (\<lambda>(k, v). (lower k, v)) items"]) auto
qed

end
