(* ===== verification/Site_Pages.thy ===== *)
theory Site_Pages
  imports Site_Urls
begin

text \<open>
  The contracts of the site inventory (app/collectors/site_inventory_models.py). A HttpUrl is its
  text; \<open>http_url\<close> is pydantic's reading of one, None when it is refused.
\<close>

datatype page_type =
    Home_page | Service_index_page | Service_detail_page | Service_area_page | Location_page | About_page
  | Contact_page | Team_page | Review_testimonial_page | Case_study_portfolio_page | Faq_page
  | Blog_index_page | Blog_post_page | Product_category_page | Product_detail_page | Legal_page | Other_page

datatype discovery_source =
    Seed | Robots_sitemap | Default_sitemap | Internal_link | Firecrawl_map

datatype page_status = Page_checked | Page_failed | Page_robots_disallowed

definition SITE_PAGE_TYPE_ORDER :: "page_type list" where
  "SITE_PAGE_TYPE_ORDER =
     [Home_page, Service_index_page, Service_detail_page, Service_area_page, Location_page, About_page,
      Contact_page, Team_page, Review_testimonial_page, Case_study_portfolio_page, Faq_page,
      Blog_index_page, Blog_post_page, Product_category_page, Product_detail_page, Legal_page, Other_page]"

definition DISCOVERY_SOURCE_ORDER :: "discovery_source list" where
  "DISCOVERY_SOURCE_ORDER = [Seed, Robots_sitemap, Default_sitemap, Internal_link, Firecrawl_map]"

definition INVENTORY_ERROR_CODES :: "string list" where
  "INVENTORY_ERROR_CODES =
     [''unsafe_target'', ''root_unreachable'', ''robots_unavailable'', ''sitemap_unavailable'', ''page_timeout'',
      ''response_too_large'', ''content_unsupported'', ''http_error'', ''parse_failed'',
      ''firecrawl_unavailable'', ''candidate_exhausted'', ''empty_inventory'']"

record gsc_priority =
  gp_url :: string
  gp_impressions :: rat
  gp_clicks :: rat
  gp_observed_at :: timestamp

text \<open>
  \<open>pg_v2\<close> tells the class of the record, and \<open>pg_truncated\<close> is the field that the second
  version adds.
\<close>

record page_record =
  pg_url :: string
  pg_sources :: "discovery_source list"
  pg_depth :: int
  pg_status :: page_status
  pg_status_code :: "int option"
  pg_final_url :: "string option"
  pg_content_type :: "string option"
  pg_response_bytes :: int
  pg_title :: "string option"
  pg_h1 :: "string option"
  pg_canonical_url :: "string option"
  pg_meta_robots :: "string list"
  pg_schema_types :: "string list"
  pg_internal_links :: "string list"
  pg_type :: page_type
  pg_reasons :: "string list"
  pg_error :: "string option"
  pg_v2 :: bool
  pg_truncated :: bool

definition opt_all :: "('a \<Rightarrow> bool) \<Rightarrow> 'a option \<Rightarrow> bool" where
  "opt_all P x = (case x of None \<Rightarrow> True | Some v \<Rightarrow> P v)"

definition page_record_valid :: "page_record \<Rightarrow> bool" where
  "page_record_valid p \<longleftrightarrow>
     1 \<le> length (pg_sources p) \<and> length (pg_sources p) \<le> 5
   \<and> 0 \<le> pg_depth p \<and> pg_depth p \<le> 100
   \<and> opt_all (\<lambda>c. 100 \<le> c \<and> c \<le> 599) (pg_status_code p)
   \<and> opt_all (\<lambda>t. length t \<le> 200) (pg_content_type p)
   \<and> 0 \<le> pg_response_bytes p \<and> pg_response_bytes p \<le> 5000000
   \<and> opt_all (\<lambda>t. length t \<le> 500) (pg_title p) \<and> opt_all (\<lambda>t. length t \<le> 500) (pg_h1 p)
   \<and> length (pg_meta_robots p) \<le> 20 \<and> length (pg_schema_types p) \<le> 50
   \<and> length (pg_internal_links p) \<le> 500 \<and> length (pg_reasons p) \<le> 20
   \<and> opt_all (\<lambda>c. c \<in> set INVENTORY_ERROR_CODES) (pg_error p)
   \<and> distinct (pg_sources p) \<and> distinct (pg_internal_links p)
   \<and> (if pg_status p = Page_checked
      then pg_status_code p \<noteq> None \<and> pg_final_url p \<noteq> None \<and> pg_content_type p \<noteq> None \<and> pg_error p = None
      else pg_error p \<noteq> None)
   \<and> (pg_truncated p \<longrightarrow> pg_v2 p \<and>
        opt_text (pg_title p) = [] \<and> opt_text (pg_h1 p) = [] \<and> pg_canonical_url p = None
      \<and> pg_meta_robots p = [] \<and> pg_schema_types p = [])"

text \<open>The URLs of a record are read by pydantic, then the record is checked.\<close>

definition read_urls :: "(string \<Rightarrow> string option) \<Rightarrow> string list \<Rightarrow> string list option" where
  "read_urls http_url urls =
     (let read = map http_url urls in if None \<in> set read then None else Some (map the read))"

definition read_url :: "(string \<Rightarrow> string option) \<Rightarrow> string option \<Rightarrow> string option option" where
  "read_url http_url u = (case u of None \<Rightarrow> Some None | Some v \<Rightarrow> map_option Some (http_url v))"

definition make_page :: "(string \<Rightarrow> string option) \<Rightarrow> page_record \<Rightarrow> exn + page_record" where
  "make_page http_url p =
     (case http_url (pg_url p) of
        None \<Rightarrow> Inl ValidationError
      | Some url \<Rightarrow>
        (case read_url http_url (pg_final_url p) of
           None \<Rightarrow> Inl ValidationError
         | Some final_url \<Rightarrow>
           (case read_url http_url (pg_canonical_url p) of
              None \<Rightarrow> Inl ValidationError
            | Some canonical_url \<Rightarrow>
              (case read_urls http_url (pg_internal_links p) of
                 None \<Rightarrow> Inl ValidationError
               | Some links \<Rightarrow>
                 (let q = p\<lparr>pg_url := url, pg_final_url := final_url, pg_canonical_url := canonical_url,
                            pg_internal_links := links\<rparr>
                  in if page_record_valid q then Inr q else Inl ValidationError)))))"

record deep_snapshot =
  dp_url :: string
  dp_final_url :: string
  dp_page_type :: page_type
  dp_crawl_depth :: int
  dp_collected_at :: timestamp
  dp_status_code :: int
  dp_content_type :: string
  dp_response_bytes :: int
  dp_content_checksum :: string
  dp_html :: string
  dp_text :: string
  dp_title :: "string option"
  dp_h1 :: "string option"

definition deep_snapshot_valid :: "deep_snapshot \<Rightarrow> bool" where
  "deep_snapshot_valid d \<longleftrightarrow>
     0 \<le> dp_crawl_depth d \<and> dp_crawl_depth d \<le> 100
   \<and> 100 \<le> dp_status_code d \<and> dp_status_code d \<le> 599
   \<and> dp_content_type d \<noteq> [] \<and> length (dp_content_type d) \<le> 200
   \<and> 0 \<le> dp_response_bytes d \<and> dp_response_bytes d \<le> 5000000
   \<and> valid_digest (dp_content_checksum d)
   \<and> int (length (dp_html d)) \<le> 5000000 \<and> int (length (dp_text d)) \<le> 2000000
   \<and> opt_all (\<lambda>t. length t \<le> 500) (dp_title d) \<and> opt_all (\<lambda>t. length t \<le> 500) (dp_h1 d)"

record selected_page =
  sl_url :: string
  sl_page_type :: page_type
  sl_crawl_depth :: int
  sl_score :: rat
  sl_reasons :: "string list"
  sl_deep_analyzed :: bool
  sl_deep_snapshot :: "deep_snapshot option"

definition selected_page_valid :: "selected_page \<Rightarrow> bool" where
  "selected_page_valid p \<longleftrightarrow>
     0 \<le> sl_crawl_depth p \<and> sl_crawl_depth p \<le> 100
   \<and> 1 \<le> length (sl_reasons p) \<and> length (sl_reasons p) \<le> 20
   \<and> sl_deep_analyzed p = (sl_deep_snapshot p \<noteq> None)
   \<and> opt_all (\<lambda>d. dp_url d = sl_url p) (sl_deep_snapshot p)"

record deep_attempt =
  da_url :: string
  da_rank :: int
  da_succeeded :: bool
  da_selected_final :: bool
  da_error :: "string option"

definition deep_attempt_valid :: "deep_attempt \<Rightarrow> bool" where
  "deep_attempt_valid a \<longleftrightarrow>
     1 \<le> da_rank a \<and> da_rank a \<le> 500
   \<and> opt_all (\<lambda>c. c \<in> set INVENTORY_ERROR_CODES) (da_error a)
   \<and> da_succeeded a = (da_error a = None)"

datatype inventory_version = Inventory_v1 | Inventory_v2 | Inventory_v3

record site_snapshot =
  st_version :: inventory_version
  st_root_url :: string
  st_canonical_host :: string
  st_started_at :: timestamp
  st_completed_at :: timestamp
  st_discovery_limit :: nat
  st_deep_analysis_limit :: nat
  st_discovered_url_count :: nat
  st_structurally_checked_count :: nat
  st_deep_analyzed_count :: nat
  st_pages :: "page_record list"
  st_selected_pages :: "selected_page list"
  st_deep_attempts :: "deep_attempt list"
  st_page_type_counts :: "(page_type \<times> nat) list"
  st_source_counts :: "(discovery_source \<times> nat) list"
  st_limitations :: "string list"

definition site_snapshot_valid :: "site_snapshot \<Rightarrow> bool" where
  "site_snapshot_valid s \<longleftrightarrow>
     1 \<le> length (st_canonical_host s) \<and> length (st_canonical_host s) \<le> 253
   \<and> 1 \<le> st_discovery_limit s \<and> st_discovery_limit s \<le> 500
   \<and> 1 \<le> st_deep_analysis_limit s \<and> st_deep_analysis_limit s \<le> 50
   \<and> 1 \<le> st_discovered_url_count s \<and> st_discovered_url_count s \<le> 500
   \<and> 1 \<le> st_structurally_checked_count s \<and> st_structurally_checked_count s \<le> 500
   \<and> st_deep_analyzed_count s \<le> 50
   \<and> 1 \<le> length (st_pages s) \<and> length (st_pages s) \<le> 500
   \<and> length (st_selected_pages s) \<le> 50 \<and> length (st_deep_attempts s) \<le> 500
   \<and> length (st_page_type_counts s) \<le> 17 \<and> length (st_source_counts s) \<le> 5
   \<and> length (st_limitations s) \<le> 100
   \<and> list_all (\<lambda>(_, n). int n \<le> 10000) (st_page_type_counts s)
   \<and> list_all (\<lambda>(_, n). int n \<le> 10000) (st_source_counts s)
   \<and> st_started_at s \<le> st_completed_at s
   \<and> st_discovered_url_count s = length (st_pages s)
   \<and> distinct (map pg_url (st_pages s))
   \<and> st_structurally_checked_count s = length (filter (\<lambda>p. pg_status p = Page_checked) (st_pages s))
   \<and> st_structurally_checked_count s \<le> st_discovered_url_count s
   \<and> distinct (map sl_url (st_selected_pages s))
   \<and> set (map sl_url (st_selected_pages s))
       \<subseteq> set (map pg_url (filter (\<lambda>p. pg_status p = Page_checked) (st_pages s)))
   \<and> length (st_selected_pages s) \<le> st_deep_analysis_limit s
   \<and> st_deep_analyzed_count s = length (filter sl_deep_analyzed (st_selected_pages s))
   \<and> st_deep_analyzed_count s \<le> st_structurally_checked_count s
   \<and> distinct (map fst (st_page_type_counts s))
   \<and> list_all (\<lambda>t. (case map_of (filter (\<lambda>(_, n). n \<noteq> 0) (st_page_type_counts s)) t of None \<Rightarrow> 0 | Some n \<Rightarrow> n)
        = length (filter (\<lambda>p. pg_status p = Page_checked \<and> pg_type p = t) (st_pages s))) SITE_PAGE_TYPE_ORDER
   \<and> distinct (map fst (st_source_counts s))"

lemma page_type_listed: "t \<in> set SITE_PAGE_TYPE_ORDER"
  by (cases t) (simp_all add: SITE_PAGE_TYPE_ORDER_def)

lemma discovery_source_listed: "d \<in> set DISCOVERY_SOURCE_ORDER"
  by (cases d) (simp_all add: DISCOVERY_SOURCE_ORDER_def)

lemma orders_distinct: "distinct SITE_PAGE_TYPE_ORDER" "distinct DISCOVERY_SOURCE_ORDER"
  by (simp_all add: SITE_PAGE_TYPE_ORDER_def DISCOVERY_SOURCE_ORDER_def)

lemma make_page_Inr:
  assumes "make_page http_url p = Inr q"
  shows "page_record_valid q" "http_url (pg_url p) = Some (pg_url q)"
    "pg_sources q = pg_sources p" "pg_depth q = pg_depth p" "pg_status q = pg_status p"
    "pg_status_code q = pg_status_code p" "pg_type q = pg_type p" "pg_meta_robots q = pg_meta_robots p"
    "pg_v2 q = pg_v2 p"
    "pg_canonical_url q = None \<longleftrightarrow> pg_canonical_url p = None"
  using assms by (auto simp: make_page_def Let_def read_url_def split: option.splits if_splits)
    (metis not_None_eq)+

end
