(* ===== verification/Site_Html.thy ===== *)
theory Site_Html
  imports Site_Pages
begin

text \<open>
  What the inventory keeps of a page (app/collectors/site_inventory_html.py). \<open>html.parser\<close> of
  the standard library is a parameter, the events that it reports for a text up to its end or
  to the exception that the code swallows; \<open>json.loads\<close> is another one. A set of schema types
  is kept in the order of insertion.
\<close>

datatype html_event =
    Start_tag string "(string \<times> string option) list"
  | End_tag string
  | Data string

record html_structure =
  ht_title :: "string option"
  ht_h1 :: "string option"
  ht_canonical_url :: "string option"
  ht_meta_robots :: "string list"
  ht_schema_types :: "string list"
  ht_internal_links :: "string list"
  ht_visible_text :: string

record html_state =
  hs_title_parts :: "string list"
  hs_h1_parts :: "string list"
  hs_visible_parts :: "string list"
  hs_links :: "string list"
  hs_canonical_href :: "string option"
  hs_robot_tokens :: "string list"
  hs_json_ld_documents :: "string list"
  hs_json_ld_parts :: "string list"
  hs_in_title :: nat
  hs_in_h1 :: nat
  hs_ignored_depth :: nat
  hs_in_json_ld :: nat

definition html_start :: html_state where
  "html_start = \<lparr>hs_title_parts = [], hs_h1_parts = [], hs_visible_parts = [], hs_links = [],
     hs_canonical_href = None, hs_robot_tokens = [], hs_json_ld_documents = [], hs_json_ld_parts = [],
     hs_in_title = 0, hs_in_h1 = 0, hs_ignored_depth = 0, hs_in_json_ld = 0\<rparr>"

definition IGNORED_TEXT_TAGS :: "string list" where
  "IGNORED_TEXT_TAGS = [''script'', ''style'', ''noscript'', ''template'', ''svg'']"

text \<open>\<open>s.split()\<close>, and \<open>re.split\<close> at a class of characters without the empty pieces\<close>

fun pieces :: "(char \<Rightarrow> bool) \<Rightarrow> string \<Rightarrow> string list" where
  "pieces sep [] = [[]]"
| "pieces sep (c # cs) =
     (if sep c then [] # pieces sep cs
      else (case pieces sep cs of [] \<Rightarrow> [[c]] | w # ws \<Rightarrow> (c # w) # ws))"

definition tokens_of :: "(char \<Rightarrow> bool) \<Rightarrow> string \<Rightarrow> string list" where
  "tokens_of sep s = filter (\<lambda>w. w \<noteq> []) (pieces sep s)"

definition add_new :: "'a \<Rightarrow> 'a list \<Rightarrow> 'a list" where
  "add_new x xs = (if x \<in> set xs then xs else xs @ [x])"

text \<open>The attributes as a dict: a later one of a name replaces an earlier one.\<close>

definition attributes_of :: "(string \<times> string option) list \<Rightarrow> string \<Rightarrow> string" where
  "attributes_of attrs key =
     (case map_of (rev (map (\<lambda>(k, v). (lower k, opt_text v)) attrs)) key of None \<Rightarrow> [] | Some v \<Rightarrow> v)"

definition handle_starttag :: "string \<Rightarrow> (string \<times> string option) list \<Rightarrow> html_state \<Rightarrow> html_state" where
  "handle_starttag tag attrs h =
     (let lowered = lower tag;
          attr = attributes_of attrs;
          h1 = (if lowered = ''title'' then h\<lparr>hs_in_title := hs_in_title h + 1\<rparr> else h);
          h2 = (if lowered = ''h1'' \<and> hs_h1_parts h1 = [] then h1\<lparr>hs_in_h1 := hs_in_h1 h1 + 1\<rparr> else h1);
          h3 = (if lowered = ''script'' \<and> lower (attr ''type'') = ''application/ld+json''
                then h2\<lparr>hs_in_json_ld := hs_in_json_ld h2 + 1, hs_json_ld_parts := []\<rparr> else h2);
          h4 = (if lowered \<in> set IGNORED_TEXT_TAGS
                then h3\<lparr>hs_ignored_depth := hs_ignored_depth h3 + 1\<rparr> else h3);
          h5 = (if lowered = ''a'' \<and> attr ''href'' \<noteq> [] then h4\<lparr>hs_links := hs_links h4 @ [attr ''href'']\<rparr> else h4);
          h6 = (if lowered = ''link'' \<and> hs_canonical_href h5 = None
                   \<and> ''canonical'' \<in> set (map lower (tokens_of py_isspace (attr ''rel''))) \<and> attr ''href'' \<noteq> []
                then h5\<lparr>hs_canonical_href := Some (attr ''href'')\<rparr> else h5)
      in if lowered = ''meta'' \<and> lower (attr ''name'') \<in> {''robots'', ''googlebot''}
         then h6\<lparr>hs_robot_tokens :=
                   fold add_new (tokens_of (\<lambda>c. py_isspace c \<or> c = CHR '','') (lower (attr ''content'')))
                     (hs_robot_tokens h6)\<rparr>
         else h6)"

definition handle_endtag :: "string \<Rightarrow> html_state \<Rightarrow> html_state" where
  "handle_endtag tag h =
     (let lowered = lower tag;
          h1 = (if lowered = ''title'' \<and> 0 < hs_in_title h then h\<lparr>hs_in_title := hs_in_title h - 1\<rparr> else h);
          h2 = (if lowered = ''h1'' \<and> 0 < hs_in_h1 h1 then h1\<lparr>hs_in_h1 := hs_in_h1 h1 - 1\<rparr> else h1);
          h3 = (if lowered = ''script'' \<and> 0 < hs_in_json_ld h2
                then (let document = strip_chars py_isspace (concat (hs_json_ld_parts h2))
                      in h2\<lparr>hs_json_ld_documents :=
                              (if document \<noteq> [] then hs_json_ld_documents h2 @ [document]
                               else hs_json_ld_documents h2),
                            hs_json_ld_parts := [], hs_in_json_ld := hs_in_json_ld h2 - 1\<rparr>)
                else h2)
      in if lowered \<in> set IGNORED_TEXT_TAGS \<and> 0 < hs_ignored_depth h3
         then h3\<lparr>hs_ignored_depth := hs_ignored_depth h3 - 1\<rparr> else h3)"

definition handle_data :: "string \<Rightarrow> html_state \<Rightarrow> html_state" where
  "handle_data data h =
     (let h1 = (if 0 < hs_in_json_ld h then h\<lparr>hs_json_ld_parts := hs_json_ld_parts h @ [data]\<rparr> else h);
          h2 = (if 0 < hs_in_title h1 then h1\<lparr>hs_title_parts := hs_title_parts h1 @ [data]\<rparr> else h1);
          h3 = (if 0 < hs_in_h1 h2 then h2\<lparr>hs_h1_parts := hs_h1_parts h2 @ [data]\<rparr> else h2)
      in if hs_ignored_depth h3 = 0 then h3\<lparr>hs_visible_parts := hs_visible_parts h3 @ [data]\<rparr> else h3)"

fun handle_event :: "html_event \<Rightarrow> html_state \<Rightarrow> html_state" where
  "handle_event (Start_tag tag attrs) h = handle_starttag tag attrs h"
| "handle_event (End_tag tag) h = handle_endtag tag h"
| "handle_event (Data data) h = handle_data data h"

text \<open>\<open>s[:limit]\<close>, and \<open>_clean_text\<close>\<close>

definition prefix_text :: "int \<Rightarrow> string \<Rightarrow> string" where
  "prefix_text limit s = (if int (length s) \<le> limit then s else take (nat limit) s)"

definition clean_parts :: "string list \<Rightarrow> int \<Rightarrow> string" where
  "clean_parts parts limit = prefix_text limit (join_with '' '' (tokens_of py_isspace (join_with '' '' parts)))"

subsection \<open>Schema types\<close>

definition type_texts :: "json option \<Rightarrow> string list" where
  "type_texts raw =
     (let keep = (\<lambda>s. let t = strip_chars py_isspace s in if t = [] then [] else [t])
      in case raw of
           Some (JStr s) \<Rightarrow> keep s
         | Some (JArr items) \<Rightarrow> concat (map (\<lambda>i. case i of JStr s \<Rightarrow> keep s | _ \<Rightarrow> []) items)
         | _ \<Rightarrow> [])"

fun collect_schema_types :: "json \<Rightarrow> string list \<Rightarrow> string list" where
  "collect_schema_types (JObj kvs) found =
     fold (\<lambda>(_, v). collect_schema_types v) kvs (fold add_new (type_texts (map_of kvs ''@type'')) found)"
| "collect_schema_types (JArr xs) found = fold collect_schema_types xs found"
| "collect_schema_types _ found = found"

subsection \<open>The structure of a page\<close>

fun collect_links :: "(string \<Rightarrow> string option) \<Rightarrow> nat \<Rightarrow> string list \<Rightarrow> string list \<Rightarrow> string list" where
  "collect_links canonical max_links links [] = links"
| "collect_links canonical max_links links (raw # rest) =
     (let links' = (case canonical raw of Some u \<Rightarrow> add_new u links | None \<Rightarrow> links)
      in if max_links \<le> length links' then links' else collect_links canonical max_links links' rest)"

definition nonempty_text :: "string \<Rightarrow> string option" where
  "nonempty_text s = (if s = [] then None else Some s)"

record html_lib =
  hl_events :: "string \<Rightarrow> html_event list"
  hl_json :: "string \<Rightarrow> json option"

definition extract_html_structure ::
    "url_lib \<Rightarrow> html_lib \<Rightarrow> site_scope \<Rightarrow> string \<Rightarrow> int \<Rightarrow> string \<Rightarrow> html_structure" where
  "extract_html_structure L H sc page_url max_text_chars html =
     (let h = fold handle_event (hl_events H html) html_start;
          canonical = canonicalize_inventory_url L sc (Some page_url);
          schema_types = fold (\<lambda>d found. case hl_json H d of None \<Rightarrow> found | Some v \<Rightarrow> collect_schema_types v found)
             (hs_json_ld_documents h) []
      in \<lparr>ht_title = nonempty_text (clean_parts (hs_title_parts h) 500),
          ht_h1 = nonempty_text (clean_parts (hs_h1_parts h) 500),
          ht_canonical_url = (case hs_canonical_href h of None \<Rightarrow> None | Some href \<Rightarrow> canonical href),
          ht_meta_robots = take 20 (hs_robot_tokens h),
          ht_schema_types = take 50 (sort_key lower schema_types),
          ht_internal_links = collect_links canonical 500 [] (hs_links h),
          ht_visible_text = clean_parts (hs_visible_parts h) max_text_chars\<rparr>)"

subsection \<open>Bounds\<close>

lemma collect_links_bounds:
  "distinct links \<Longrightarrow> length links < n \<Longrightarrow>
   distinct (collect_links canonical n links raws) \<and> length (collect_links canonical n links raws) \<le> n"
proof (induction raws arbitrary: links)
  case (Cons raw raws)
  let ?links = "case canonical raw of Some u \<Rightarrow> add_new u links | None \<Rightarrow> links"
  have "distinct ?links" "length ?links \<le> n" using Cons.prems by (auto simp: add_new_def split: option.splits)
  then show ?case using Cons.IH [of ?links] by (simp add: Let_def)
qed simp

lemma collect_links_canonical:
  "x \<in> set (collect_links canonical n links raws) \<Longrightarrow> x \<in> set links \<or> (\<exists>raw \<in> set raws. canonical raw = Some x)"
proof (induction raws arbitrary: links)
  case (Cons raw raws)
  let ?links = "case canonical raw of Some u \<Rightarrow> add_new u links | None \<Rightarrow> links"
  have "x \<in> set ?links \<or> (\<exists>raw \<in> set raws. canonical raw = Some x)"
    using Cons.prems Cons.IH [of ?links] by (simp add: Let_def split: if_splits)
  then show ?case by (auto simp: add_new_def split: option.splits if_splits)
qed simp

lemma structure_bounds:
  fixes L H sc u n html
  defines "t \<equiv> extract_html_structure L H sc u n html"
  shows "opt_all (\<lambda>x. length x \<le> 500) (ht_title t)" "opt_all (\<lambda>x. length x \<le> 500) (ht_h1 t)"
    "length (ht_meta_robots t) \<le> 20" "length (ht_schema_types t) \<le> 50"
    "length (ht_internal_links t) \<le> 500" "distinct (ht_internal_links t)"
    "0 \<le> n \<Longrightarrow> int (length (ht_visible_text t)) \<le> n"
    "\<And>x. x \<in> set (ht_internal_links t) \<Longrightarrow> \<exists>raw. canonicalize_inventory_url L sc (Some u) raw = Some x"
proof -
  show "distinct (ht_internal_links t)" "length (ht_internal_links t) \<le> 500"
    using collect_links_bounds [of "[]" 500] by (simp_all add: t_def extract_html_structure_def Let_def)
  show "\<exists>raw. canonicalize_inventory_url L sc (Some u) raw = Some x" if "x \<in> set (ht_internal_links t)" for x
    using collect_links_canonical that by (fastforce simp: t_def extract_html_structure_def Let_def)
qed (auto simp: t_def extract_html_structure_def Let_def opt_all_def nonempty_text_def clean_parts_def prefix_text_def
    split: option.splits if_splits)

end
