(* ===== verification/Site_Fetch.thy ===== *)
theory Site_Fetch
  imports Site_Html Serp_Payload
begin

text \<open>
  The bounded fetches of the inventory (app/collectors/site_inventory_fetcher.py). A body is its
  bytes, as characters. The HTTP client, the resolver and the wait for the rate limiter are
  programs; a timeout of the whole fetch is an exception of one of them. The semaphore lets the
  fetches of a batch overlap, each of which is a program of its own.
\<close>

record fetch_response =
  fr_requested_url :: string
  fr_final_url :: string
  fr_status_code :: int
  fr_content_type :: string
  fr_body :: string
  fr_truncated :: bool

definition response_bytes :: "fetch_response \<Rightarrow> int" where
  "response_bytes r = int (length (fr_body r))"

record http_reply =
  rp_status :: int
  rp_location :: string
  rp_content_type :: string
  rp_content_length :: string
  rp_chunks :: "string list"
  rp_url :: string

record 'w fetcher =
  fe_lib :: url_lib
  fe_resolver :: "string \<Rightarrow> ('w, string list option) program"
  fe_wait :: "('w, unit) program"
  fe_send :: "safe_target \<Rightarrow> ('w, http_reply) program"
  fe_apply_crawl_delay :: "rat option \<Rightarrow> ('w, unit) program"
  fe_max_redirects :: nat
  fe_redirect_limit_code :: string

definition REDIRECT_STATUSES :: "int list" where
  "REDIRECT_STATUSES = [301, 302, 303, 307, 308]"

definition too_large_error :: exn where
  "too_large_error = SiteFetchError ''response_too_large'' ''The page response exceeded the size limit.''"

definition redirect_limit_message :: string where
  "redirect_limit_message = ''The page exceeded the redirect limit.''"

text \<open>\<open>text.isdigit() and int(text) > limit\<close>\<close>

definition digits_above :: "string \<Rightarrow> int \<Rightarrow> exn + bool" where
  "digits_above s limit =
     (if s = [] \<or> \<not> list_all (\<lambda>c. is_digit c \<or> superscript_digit c) s then Inr False
      else if list_ex superscript_digit s then Inl (ValueError ''invalid literal for int() with base 10'')
      else Inr (limit < digits_value s))"

fun read_body :: "int \<Rightarrow> bool \<Rightarrow> string \<Rightarrow> string list \<Rightarrow> exn + string \<times> bool" where
  "read_body max_bytes allow_prefix body [] = Inr (body, False)"
| "read_body max_bytes allow_prefix body (chunk # rest) =
     (if max_bytes < int (length (body @ chunk))
      then (if allow_prefix then Inr (take (nat max_bytes) (body @ chunk), True) else Inl too_large_error)
      else read_body max_bytes allow_prefix (body @ chunk) rest)"

definition media_type_of :: "string \<Rightarrow> string" where
  "media_type_of content_type =
     lower (strip_chars py_isspace (fst (partition_at CHR '';'' content_type)))"

text \<open>An answer that is no redirect.\<close>

definition read_reply ::
    "int \<Rightarrow> string list option \<Rightarrow> bool \<Rightarrow> string \<Rightarrow> http_reply \<Rightarrow> exn + fetch_response" where
  "read_reply max_bytes accepted allow_prefix initial_url r =
     (let content_type = strip_chars py_isspace (rp_content_type r)
      in if (case accepted of None \<Rightarrow> False | Some types \<Rightarrow> media_type_of content_type \<notin> set types)
         then Inl (SiteFetchError ''content_unsupported'' ''The page returned an unsupported content type.'')
         else
           (case (if allow_prefix then Inr False
                  else digits_above (strip_chars py_isspace (rp_content_length r)) max_bytes) of
              Inl e \<Rightarrow> Inl e
            | Inr True \<Rightarrow> Inl too_large_error
            | Inr False \<Rightarrow>
                (case read_body max_bytes allow_prefix [] (rp_chunks r) of
                   Inl e \<Rightarrow> Inl e
                 | Inr (body, truncated) \<Rightarrow>
                     Inr \<lparr>fr_requested_url = initial_url, fr_final_url = rp_url r, fr_status_code = rp_status r,
                          fr_content_type = content_type, fr_body = body, fr_truncated = truncated\<rparr>)))"

definition reads_result :: "exn + 'a \<Rightarrow> ('w, 'a) program" where
  "reads_result x = (case x of Inl e \<Rightarrow> throw e | Inr a \<Rightarrow> ret a)"

text \<open>The redirects, with the number of requests that are left.\<close>

fun fetch_hops ::
    "'w fetcher \<Rightarrow> site_scope \<Rightarrow> int \<Rightarrow> string list option \<Rightarrow> bool \<Rightarrow> string \<Rightarrow> nat \<Rightarrow> string
     \<Rightarrow> ('w, fetch_response) program" where
  "fetch_hops F sc max_bytes accepted allow_prefix initial_url 0 current_url =
     throw (SiteFetchError ''http_error'' redirect_limit_message)"
| "fetch_hops F sc max_bytes accepted allow_prefix initial_url (Suc left) current_url =
     andThen (resolve_public_url (fe_lib F) (fe_resolver F) current_url) (\<lambda>target.
       if \<not> contains_host (fe_lib F) sc (su_hostname target)
       then throw (SiteFetchError ''unsafe_target'' ''The request left the allowed site scope.'')
       else
         andThen (fe_wait F) (\<lambda>_.
         andThen (fe_send F target) (\<lambda>r.
           if rp_status r \<in> set REDIRECT_STATUSES
           then (let location = strip_chars py_isspace (rp_location r)
                 in if location = []
                    then throw (SiteFetchError ''http_error'' ''The page returned a redirect without a destination.'')
                    else if left = 0 then throw (SiteFetchError (fe_redirect_limit_code F) redirect_limit_message)
                    else andThen (reads_result (urljoin (su_request_url target) location))
                           (fetch_hops F sc max_bytes accepted allow_prefix initial_url left))
           else reads_result (read_reply max_bytes accepted allow_prefix initial_url r))))"

definition fetch_error :: "exn \<Rightarrow> exn" where
  "fetch_error e =
     (case e of
        TimeoutError \<Rightarrow> SiteFetchError ''page_timeout'' ''The page request timed out.''
      | HttpTimeoutException \<Rightarrow> SiteFetchError ''page_timeout'' ''The page request timed out.''
      | HttpNetworkError \<Rightarrow> SiteFetchError ''http_error'' ''The page could not be reached.''
      | HttpStatusError _ \<Rightarrow> SiteFetchError ''http_error'' ''The page could not be reached.''
      | HttpProtocolError \<Rightarrow> SiteFetchError ''http_error'' ''The page could not be reached.''
      | _ \<Rightarrow> e)"

definition fetch ::
    "'w fetcher \<Rightarrow> site_scope \<Rightarrow> int \<Rightarrow> string list option \<Rightarrow> bool \<Rightarrow> string \<Rightarrow> ('w, fetch_response) program" where
  "fetch F sc max_bytes accepted allow_prefix url =
     handle (fetch_hops F sc max_bytes accepted allow_prefix url (Suc (fe_max_redirects F)) url)
       (\<lambda>e. throw (fetch_error e))"

subsection \<open>The rate limiter\<close>

record rate_limiter =
  rl_interval :: rat
  rl_next_allowed :: rat

text \<open>A program of the first part of a state.\<close>

definition on_first :: "('w, 'a) program \<Rightarrow> ('w \<times> 'l, 'a) program" where
  "on_first p = (\<lambda>(w, l). case p w of (w', r) \<Rightarrow> ((w', l), r))"

definition make_limiter :: "rat \<Rightarrow> exn + rate_limiter" where
  "make_limiter requests_per_second =
     (if requests_per_second \<le> 0 then Inl (ValueError ''requests per second must be positive'')
      else Inr \<lparr>rl_interval = 1 / requests_per_second, rl_next_allowed = 0\<rparr>)"

definition limiter_wait ::
    "('w, rat) program \<Rightarrow> (rat \<Rightarrow> ('w, unit) program) \<Rightarrow> ('w \<times> rate_limiter, unit) program" where
  "limiter_wait clock sleep =
     andThen (on_first clock) (\<lambda>now.
     andThen (\<lambda>s. (s, Inr (max 0 (rl_next_allowed (snd s) - now)))) (\<lambda>delay.
     andThen (if delay \<noteq> 0 then andThen (on_first (sleep delay)) (\<lambda>_. on_first clock) else ret now) (\<lambda>now'.
       (\<lambda>(w, l). ((w, l\<lparr>rl_next_allowed := max now' (rl_next_allowed l) + rl_interval l\<rparr>), Inr ())))))"

definition apply_minimum_delay :: "('w, rat) program \<Rightarrow> rat \<Rightarrow> ('w \<times> rate_limiter, unit) program" where
  "apply_minimum_delay clock delay =
     (if 0 < delay
      then andThen (on_first clock) (\<lambda>now. (\<lambda>(w, l).
             let interval = max (rl_interval l) delay
             in ((w, \<lparr>rl_interval = interval, rl_next_allowed = max (rl_next_allowed l) (now + interval)\<rparr>), Inr ())))
      else ret ())"

subsection \<open>What a fetch sends\<close>

text \<open>The targets of the requests, in order, beside the state.\<close>

definition logging :: "(safe_target \<Rightarrow> ('w, http_reply) program) \<Rightarrow> safe_target \<Rightarrow> ('w \<times> safe_target list, http_reply) program" where
  "logging client t = (\<lambda>(w, log). case client t w of (w', r) \<Rightarrow> ((w', log @ [t]), r))"

definition logged :: "'w fetcher \<Rightarrow> ('w \<times> safe_target list) fetcher" where
  "logged F =
     \<lparr>fe_lib = fe_lib F, fe_resolver = (\<lambda>h. on_first (fe_resolver F h)), fe_wait = on_first (fe_wait F),
      fe_send = logging (fe_send F), fe_apply_crawl_delay = (\<lambda>d. on_first (fe_apply_crawl_delay F d)),
      fe_max_redirects = fe_max_redirects F, fe_redirect_limit_code = fe_redirect_limit_code F\<rparr>"

text \<open>A program sends at most \<open>n\<close> requests, all of them to \<open>P\<close>.\<close>

definition sends :: "(safe_target \<Rightarrow> bool) \<Rightarrow> nat \<Rightarrow> ('w \<times> safe_target list, 'a) program \<Rightarrow> bool" where
  "sends P n p \<longleftrightarrow> (\<forall>w log. \<exists>new. snd (fst (p (w, log))) = log @ new \<and> length new \<le> n \<and> list_all P new)"

lemma sends_quiet: "(\<And>w log. snd (fst (p (w, log))) = log) \<Longrightarrow> sends P n p"
  by (auto simp: sends_def intro: exI [of _ "[]"])

lemma sends_ret: "sends P n (ret x)" "sends P n (throw e)"
  by (auto intro!: sends_quiet simp: ret_def throw_def)

lemma sends_on_first: "sends P n (on_first p)"
  by (rule sends_quiet) (auto simp: on_first_def split: prod.splits)

lemma sends_reads_result: "sends P n (reads_result x)"
  by (cases x) (auto simp: reads_result_def sends_ret)

lemma sends_send: "P t \<Longrightarrow> sends P (Suc 0) (logging client t)"
  by (auto simp: sends_def logging_def split: prod.splits)

lemma sends_andThen_result:
  assumes "sends P m p" "\<And>s s' a. p s = (s', Inr a) \<Longrightarrow> sends P n (f a)" "m + n \<le> k"
  shows "sends P k (andThen p f)"
  unfolding sends_def
proof (intro allI)
  fix w log
  obtain w' log' r where p: "p (w, log) = ((w', log'), r)" by (metis prod.exhaust)
  obtain new where new: "log' = log @ new" "length new \<le> m" "list_all P new"
    using assms(1) p unfolding sends_def by (metis fst_conv snd_conv)
  show "\<exists>new. snd (fst (andThen p f (w, log))) = log @ new \<and> length new \<le> k \<and> list_all P new"
  proof (cases r)
    case (Inl e)
    then show ?thesis using new assms(3) p by (auto simp: andThen_def)
  next
    case (Inr a)
    then obtain more where "snd (fst (f a (w', log'))) = log' @ more" "length more \<le> n" "list_all P more"
      using assms(2) [of "(w, log)" "(w', log')" a] p unfolding sends_def by auto
    then show ?thesis using Inr p new assms(3) by (auto simp: andThen_def intro!: exI [of _ "new @ more"])
  qed
qed

lemma sends_andThen: "sends P m p \<Longrightarrow> (\<And>a. sends P n (f a)) \<Longrightarrow> m + n \<le> k \<Longrightarrow> sends P k (andThen p f)"
  by (rule sends_andThen_result)

lemma sends_handle: "sends P n p \<Longrightarrow> sends P n (handle p (\<lambda>e. throw (h e)))"
  unfolding sends_def handle_def throw_def by (auto simp: case_prod_beta split: sum.splits)

lemma sends_resolve: "sends P n (resolve_public_url L (\<lambda>h. on_first (resolver h)) url)"
  unfolding resolve_public_url_def lookup_addresses_def
  by (auto intro!: sends_ret sends_andThen [where m = 0 and n = 0] sends_on_first split: sum.splits option.splits)

text \<open>A target within the site.\<close>

definition site_target :: "url_lib \<Rightarrow> site_scope \<Rightarrow> safe_target \<Rightarrow> bool" where
  "site_target L sc t \<longleftrightarrow> public_target L t \<and> contains_host L sc (su_hostname t)"

lemma fetch_hops_sends:
  "sends (site_target (fe_lib F) sc) n (fetch_hops (logged F) sc max_bytes accepted allow_prefix initial_url n url)"
proof (induction n arbitrary: url)
  case (Suc n)
  let ?P = "site_target (fe_lib F) sc"
  have answer: "sends ?P n (if rp_status r \<in> set REDIRECT_STATUSES
     then (let location = strip_chars py_isspace (rp_location r)
           in if location = [] then throw e1 else if n = 0 then throw e2
              else andThen (reads_result (urljoin u location))
                     (fetch_hops (logged F) sc max_bytes accepted allow_prefix initial_url n))
     else reads_result x)" for r u e1 e2 x
    by (auto simp: Let_def sends_ret sends_reads_result
        intro!: sends_andThen [where m = 0 and n = n] Suc.IH)
  have rest: "sends ?P (Suc n) (if \<not> contains_host (fe_lib F) sc (su_hostname t) then throw e
     else andThen (fe_wait (logged F)) (\<lambda>_. andThen (fe_send (logged F) t) (f t)))"
    if "public_target (fe_lib F) t" "\<And>r. sends ?P n (f t r)" for t e f
  proof (cases "contains_host (fe_lib F) sc (su_hostname t)")
    case True
    then have "sends ?P (Suc 0) (fe_send (logged F) t)"
      using that(1) by (simp add: logged_def sends_send site_target_def)
    then have inner: "sends ?P (Suc n) (andThen (fe_send (logged F) t) (f t))"
      by (rule sends_andThen) (auto intro: that(2))
    have "sends ?P 0 (fe_wait (logged F))" by (simp add: logged_def sends_on_first)
    then have "sends ?P (Suc n) (andThen (fe_wait (logged F)) (\<lambda>_. andThen (fe_send (logged F) t) (f t)))"
      by (rule sends_andThen) (use inner in auto)
    then show ?thesis using True by simp
  qed (simp add: sends_ret)
  have lib: "fe_lib (logged F) = fe_lib F" by (simp add: logged_def)
  have resolve: "sends ?P 0 (resolve_public_url (fe_lib F) (fe_resolver (logged F)) url)"
    by (simp add: logged_def sends_resolve)
  show ?case
    unfolding fetch_hops.simps lib
  proof (rule sends_andThen_result [OF resolve, where n = "Suc n"])
    fix s s' t
    assume "resolve_public_url (fe_lib F) (fe_resolver (logged F)) url s = (s', Inr t)"
    from rest [OF resolve_public_target [OF this] answer]
    show "sends ?P (Suc n) (if \<not> contains_host (fe_lib F) sc (su_hostname t)
       then throw (SiteFetchError ''unsafe_target'' ''The request left the allowed site scope.'')
       else
         andThen (fe_wait (logged F)) (\<lambda>_.
         andThen (fe_send (logged F) t) (\<lambda>r.
           if rp_status r \<in> set REDIRECT_STATUSES
           then (let location = strip_chars py_isspace (rp_location r)
                 in if location = []
                    then throw (SiteFetchError ''http_error'' ''The page returned a redirect without a destination.'')
                    else if n = 0 then throw (SiteFetchError (fe_redirect_limit_code (logged F)) redirect_limit_message)
                    else andThen (reads_result (urljoin (su_request_url t) location))
                           (fetch_hops (logged F) sc max_bytes accepted allow_prefix initial_url n))
           else reads_result (read_reply max_bytes accepted allow_prefix initial_url r))))" .
  qed simp
qed (simp add: sends_ret)

lemma read_body_bounds:
  "read_body max_bytes allow_prefix body chunks = Inr (b, t) \<Longrightarrow> 0 \<le> max_bytes \<Longrightarrow>
   int (length body) \<le> max_bytes \<Longrightarrow>
   int (length b) \<le> max_bytes \<and> (t \<longrightarrow> allow_prefix \<and> int (length b) = max_bytes)"
  by (induction max_bytes allow_prefix body chunks rule: read_body.induct) (auto split: if_splits)

lemma read_reply_bounds:
  "read_reply max_bytes accepted allow_prefix url r = Inr x \<Longrightarrow> 0 \<le> max_bytes \<Longrightarrow>
   response_bytes x \<le> max_bytes \<and> (fr_truncated x \<longrightarrow> allow_prefix)
   \<and> (case accepted of None \<Rightarrow> True | Some types \<Rightarrow> media_type_of (fr_content_type x) \<in> set types)"
  by (auto simp: read_reply_def Let_def response_bytes_def dest!: read_body_bounds
      split: if_splits sum.splits option.splits bool.splits)

lemma fetch_hops_bounds:
  "fetch_hops F sc max_bytes accepted allow_prefix initial_url n url s = (s', Inr x) \<Longrightarrow> 0 \<le> max_bytes \<Longrightarrow>
   response_bytes x \<le> max_bytes \<and> (fr_truncated x \<longrightarrow> allow_prefix)
   \<and> (case accepted of None \<Rightarrow> True | Some types \<Rightarrow> media_type_of (fr_content_type x) \<in> set types)"
proof (induction n arbitrary: url s)
  case (Suc n)
  show ?case
    using Suc.prems Suc.IH
    by (auto simp: andThen_def throw_def ret_def reads_result_def Let_def dest!: read_reply_bounds
        split: prod.splits sum.splits if_splits)
qed (simp add: throw_def)

end
