(* ===== verification/Site_Select.thy ===== *)
theory Site_Select
  imports Site_Fetch
begin

text \<open>
  The type of a page, the ranking of the pages for the deep analysis, and the reservation of
  contact pages (app/collectors/site_inventory_selection.py and
  app/collectors/site_contact_coverage.py). Scores are exact rationals where the code has
  doubles; \<open>log1p\<close> of the mathematics library is a parameter.
\<close>

subsection \<open>The type of a page\<close>

fun contains_text :: "string \<Rightarrow> string \<Rightarrow> bool" where
  "contains_text needle [] \<longleftrightarrow> needle = []"
| "contains_text needle (c # cs) \<longleftrightarrow> starts_with (c # cs) needle \<or> contains_text needle cs"

definition path_or_root :: "split_url \<Rightarrow> string" where
  "path_or_root u = (let p = rstrip_char CHR ''/'' (us_path u) in if p = [] then ''/'' else p)"

definition heading_text :: "html_structure \<Rightarrow> string" where
  "heading_text t = join_with '' '' (filter (\<lambda>x. x \<noteq> []) [opt_text (ht_title t), opt_text (ht_h1 t)])"

text \<open>The tests in their order, over the segments, the headings and the schema types.\<close>

definition classify_segments ::
    "string list \<Rightarrow> string \<Rightarrow> string list \<Rightarrow> page_type \<times> string" where
  "classify_segments segments headings schema_types =
     (let some = list_ex (\<lambda>t. t \<in> set segments);
          final = (\<lambda>ts. segments \<noteq> [] \<and> last segments \<in> set ts);
          joined = join_with ''/'' segments
      in if some [''privacy'', ''terms'', ''legal'', ''cookies''] then (Legal_page, ''legal_path'')
         else if ''faqpage'' \<in> set schema_types \<or> contains_text ''frequently asked'' headings
                 \<or> contains_text ''common questions'' headings then (Faq_page, ''faq_signal'')
         else if ''product'' \<in> set schema_types then (Product_detail_page, ''schema_product'')
         else if list_ex (\<lambda>t. t \<in> set schema_types) [''blogposting'', ''newsarticle'', ''article'']
         then (Blog_post_page, ''schema_article'')
         else if some [''contact'', ''contact-us'', ''get-in-touch''] then (Contact_page, ''contact_path'')
         else if some [''about'', ''about-us'', ''our-story''] then (About_page, ''about_path'')
         else if some [''team'', ''staff'', ''leadership'', ''people''] then (Team_page, ''team_path'')
         else if some [''reviews'', ''testimonials'', ''testimonial''] then (Review_testimonial_page, ''review_path'')
         else if some [''case-study'', ''case-studies'', ''portfolio'', ''projects'', ''our-work'']
         then (Case_study_portfolio_page, ''case_study_path'')
         else if some [''service-area'', ''service-areas'', ''areas-we-serve'']
         then (Service_area_page, ''service_area_path'')
         else if some [''location'', ''locations'', ''branches'', ''stores''] then (Location_page, ''location_path'')
         else if final [''services'', ''service'', ''what-we-do''] then (Service_index_page, ''service_index_path'')
         else if some [''services''] \<or> ''service'' \<in> set schema_types
         then (Service_detail_page, ''service_detail_signal'')
         else if final [''blog'', ''news'', ''insights'', ''resources''] then (Blog_index_page, ''blog_index_path'')
         else if some [''blog'', ''news'', ''insights''] then (Blog_post_page, ''blog_path'')
         else if final [''products'', ''shop'', ''catalog''] then (Product_category_page, ''product_index_path'')
         else if some [''products'', ''product'', ''shop'', ''items''] then (Product_detail_page, ''product_path'')
         else (Other_page, ''unmatched_path:'' @ (if joined = [] then ''/'' else joined)))"

definition classify_page :: "string \<Rightarrow> string \<Rightarrow> html_structure \<Rightarrow> exn + (page_type \<times> string list)" where
  "classify_page url root_url t =
     (case urlsplit url of
        Inl e \<Rightarrow> Inl e
      | Inr u \<Rightarrow>
        (case urlsplit root_url of
           Inl e \<Rightarrow> Inl e
         | Inr home \<Rightarrow>
             if path_or_root u = path_or_root home \<and> us_hostname u = us_hostname home
             then Inr (Home_page, [''root_url''])
             else (case classify_segments (path_segments_of (us_path u)) (lower (heading_text t))
                          (map lower (ht_schema_types t)) of
                     (page_type, reason) \<Rightarrow> Inr (page_type, [reason]))))"

subsection \<open>Ranking\<close>

record ranked_page =
  rk_page :: page_record
  rk_score :: rat
  rk_reasons :: "string list"

fun TYPE_SCORES :: "page_type \<Rightarrow> int" where
  "TYPE_SCORES Home_page = 10000"
| "TYPE_SCORES Service_index_page = 700"
| "TYPE_SCORES Service_detail_page = 680"
| "TYPE_SCORES Service_area_page = 650"
| "TYPE_SCORES Location_page = 640"
| "TYPE_SCORES About_page = 560"
| "TYPE_SCORES Contact_page = 550"
| "TYPE_SCORES Team_page = 520"
| "TYPE_SCORES Review_testimonial_page = 540"
| "TYPE_SCORES Case_study_portfolio_page = 530"
| "TYPE_SCORES Faq_page = 510"
| "TYPE_SCORES Blog_index_page = 260"
| "TYPE_SCORES Blog_post_page = 180"
| "TYPE_SCORES Product_category_page = 450"
| "TYPE_SCORES Product_detail_page = 300"
| "TYPE_SCORES Legal_page = 80"
| "TYPE_SCORES Other_page = 100"

fun page_type_name :: "page_type \<Rightarrow> string" where
  "page_type_name Home_page = ''home''"
| "page_type_name Service_index_page = ''service_index''"
| "page_type_name Service_detail_page = ''service_detail''"
| "page_type_name Service_area_page = ''service_area''"
| "page_type_name Location_page = ''location''"
| "page_type_name About_page = ''about''"
| "page_type_name Contact_page = ''contact''"
| "page_type_name Team_page = ''team''"
| "page_type_name Review_testimonial_page = ''review_testimonial''"
| "page_type_name Case_study_portfolio_page = ''case_study_portfolio''"
| "page_type_name Faq_page = ''faq''"
| "page_type_name Blog_index_page = ''blog_index''"
| "page_type_name Blog_post_page = ''blog_post''"
| "page_type_name Product_category_page = ''product_category''"
| "page_type_name Product_detail_page = ''product_detail''"
| "page_type_name Legal_page = ''legal''"
| "page_type_name Other_page = ''other''"

definition COVERAGE_ORDER :: "page_type list" where
  "COVERAGE_ORDER =
     [Service_index_page, Service_detail_page, Service_area_page, Location_page, About_page, Contact_page,
      Team_page, Review_testimonial_page, Case_study_portfolio_page, Faq_page, Product_category_page,
      Blog_index_page]"

definition business_tokens :: "string list \<Rightarrow> string list" where
  "business_tokens texts =
     unique (filter (\<lambda>t. 3 \<le> length t)
       (concat (map (\<lambda>v. tokens_of (\<lambda>c. \<not> (is_alpha c \<or> is_digit c)) (lower v)) texts)))"

text \<open>\<open>round(x, 6)\<close>, half to even\<close>

definition round_half_even :: "rat \<Rightarrow> int" where
  "round_half_even y =
     (let f = floor y; d = y - of_int f
      in if d < 1 / 2 then f else if 1 / 2 < d then f + 1 else if even f then f else f + 1)"

definition round6 :: "rat \<Rightarrow> rat" where
  "round6 x = of_int (round_half_even (x * 1000000)) / 1000000"

definition gsc_bonus :: "(rat \<Rightarrow> rat) \<Rightarrow> gsc_priority \<Rightarrow> rat" where
  "gsc_bonus log1p p = min 250 (log1p (gp_impressions p) * 12 + log1p (gp_clicks p) * 24)"

definition rank_page ::
    "(rat \<Rightarrow> rat) \<Rightarrow> string list \<Rightarrow> gsc_priority list \<Rightarrow> page_record \<Rightarrow> ranked_page" where
  "rank_page log1p tokens priorities page =
     (let base = TYPE_SCORES (pg_type page) - min (pg_depth page) 20 * 2;
          haystack = lower (join_with '' '' (filter (\<lambda>x. x \<noteq> [])
             [pg_url page, opt_text (pg_title page), opt_text (pg_h1 page)]));
          matches = filter (\<lambda>t. contains_text t haystack) tokens;
          matched = (if matches \<noteq> [] then base + int (min (length matches) 5) * 50 else base);
          priority = find (\<lambda>p. gp_url p = pg_url page) (rev priorities)
      in \<lparr>rk_page = page,
          rk_score = round6 (case priority of None \<Rightarrow> of_int matched
                             | Some p \<Rightarrow> of_int matched + gsc_bonus log1p p),
          rk_reasons = (''page_type:'' @ page_type_name (pg_type page)) # (if matches \<noteq> [] then [''business_match''] else [])
            @ (if priority \<noteq> None then [''gsc_priority''] else [])
            @ (if pg_type page = Home_page then [''home_required''] else [])\<rparr>)"

definition page_eligible :: "page_record \<Rightarrow> bool" where
  "page_eligible p \<longleftrightarrow>
     pg_status p = Page_checked
   \<and> (case pg_status_code p of None \<Rightarrow> False | Some c \<Rightarrow> c \<noteq> 0 \<and> c < 400)
   \<and> ''noindex'' \<notin> set (pg_meta_robots p)"

abbreviation rk_url :: "ranked_page \<Rightarrow> string" where "rk_url r \<equiv> pg_url (rk_page r)"
abbreviation rk_type :: "ranked_page \<Rightarrow> page_type" where "rk_type r \<equiv> pg_type (rk_page r)"

definition choose_page :: "nat \<Rightarrow> ranked_page \<Rightarrow> ranked_page list \<Rightarrow> ranked_page list" where
  "choose_page limit item chosen =
     (if rk_url item \<notin> set (map rk_url chosen) \<and> length chosen < limit then chosen @ [item] else chosen)"

fun cover_types :: "nat \<Rightarrow> ranked_page list \<Rightarrow> page_type list \<Rightarrow> ranked_page list \<Rightarrow> ranked_page list" where
  "cover_types limit ranked [] chosen = chosen"
| "cover_types limit ranked (t # ts) chosen =
     (if limit \<le> length chosen then chosen
      else cover_types limit ranked ts
             (case find (\<lambda>r. rk_type r = t) ranked of None \<Rightarrow> chosen | Some r \<Rightarrow> choose_page limit r chosen))"

definition capped :: "nat \<Rightarrow> ranked_page \<Rightarrow> ranked_page list \<Rightarrow> bool" where
  "capped limit item chosen \<longleftrightarrow>
     rk_type item \<in> {Blog_post_page, Product_detail_page}
   \<and> max 2 (limit div 5) \<le> length (filter (\<lambda>r. rk_type r = rk_type item) chosen)"

fun fill_pages :: "nat \<Rightarrow> ranked_page list \<Rightarrow> ranked_page list \<Rightarrow> ranked_page list" where
  "fill_pages limit [] chosen = chosen"
| "fill_pages limit (item # rest) chosen =
     (if limit \<le> length chosen then chosen
      else if capped limit item chosen then fill_pages limit rest chosen
      else fill_pages limit rest (choose_page limit item chosen))"

definition rank_pages ::
    "(rat \<Rightarrow> rat) \<Rightarrow> string list \<Rightarrow> gsc_priority list \<Rightarrow> page_record list \<Rightarrow> ranked_page list" where
  "rank_pages log1p texts priorities pages =
     sort_key (\<lambda>r. (- rk_score r, rk_url r))
       (map (rank_page log1p (business_tokens texts) priorities) (filter page_eligible pages))"

definition select_key_pages ::
    "(rat \<Rightarrow> rat) \<Rightarrow> string \<Rightarrow> string \<Rightarrow> gsc_priority list \<Rightarrow> int \<Rightarrow> page_record list \<Rightarrow> ranked_page list" where
  "select_key_pages log1p primary_service target_market priorities requested pages =
     (let limit = nat (min (max requested 0) 500)
      in if limit = 0 then []
         else
           (let ranked = rank_pages log1p [primary_service, target_market] priorities pages;
                home = (case find (\<lambda>r. rk_type r = Home_page) ranked of None \<Rightarrow> [] | Some r \<Rightarrow> choose_page limit r [])
            in fill_pages limit ranked (cover_types limit ranked COVERAGE_ORDER home)))"

subsection \<open>Priorities from the search console\<close>

record snapshot_row =
  sr_dimensions :: "(string \<times> string) list"
  sr_metrics :: "(string \<times> rat) list"

record first_party_snapshot =
  fs_source_type :: string
  fs_health_status :: string
  fs_identity_match_status :: string
  fs_fetched_at :: timestamp
  fs_expires_at :: "timestamp option"
  fs_rows :: "snapshot_row list"

definition last_value :: "(string \<times> 'a) list \<Rightarrow> string \<Rightarrow> 'a option" where
  "last_value kvs = map_of (rev (map (\<lambda>(k, v). (lower k, v)) kvs))"

definition row_url :: "snapshot_row \<Rightarrow> string option" where
  "row_url row =
     (let dims = last_value (sr_dimensions row)
      in case find (\<lambda>k. dims k \<noteq> None) [''page'', ''url'', ''landing_page'', ''landingpage''] of
           None \<Rightarrow> None | Some k \<Rightarrow> dims k)"

definition metric_of :: "snapshot_row \<Rightarrow> string \<Rightarrow> rat" where
  "metric_of row k = max 0 (case last_value (sr_metrics row) k of None \<Rightarrow> 0 | Some v \<Rightarrow> v)"

definition usable_snapshot :: "timestamp \<Rightarrow> first_party_snapshot \<Rightarrow> bool" where
  "usable_snapshot now s \<longleftrightarrow>
     fs_source_type s = ''gsc'' \<and> fs_health_status s = ''healthy'' \<and> fs_identity_match_status s = ''matched''
   \<and> \<not> (case fs_expires_at s of None \<Rightarrow> False | Some t \<Rightarrow> t \<le> now)"

definition add_row ::
    "url_lib \<Rightarrow> site_scope \<Rightarrow> timestamp \<Rightarrow> snapshot_row
     \<Rightarrow> (string \<times> rat \<times> rat \<times> timestamp) list \<Rightarrow> (string \<times> rat \<times> rat \<times> timestamp) list" where
  "add_row L sc fetched_at row totals =
     (case row_url row of
        None \<Rightarrow> totals
      | Some raw \<Rightarrow>
        (case canonicalize_inventory_url L sc None raw of
           None \<Rightarrow> totals
         | Some url \<Rightarrow>
           (let impressions = metric_of row ''impressions''; clicks = metric_of row ''clicks''
            in if impressions = 0 \<and> clicks = 0 then totals
               else (case map_of totals url of
                       None \<Rightarrow> totals @ [(url, impressions, clicks, fetched_at)]
                     | Some (i, c, t) \<Rightarrow>
                         AList.update url (i + impressions, c + clicks, max t fetched_at) totals))))"

definition gsc_priorities_from_snapshots ::
    "url_lib \<Rightarrow> site_scope \<Rightarrow> timestamp \<Rightarrow> first_party_snapshot list \<Rightarrow> gsc_priority list" where
  "gsc_priorities_from_snapshots L sc now snapshots =
     map (\<lambda>(url, i, c, t). \<lparr>gp_url = url, gp_impressions = i, gp_clicks = c, gp_observed_at = t\<rparr>)
       (sort_key fst (fold (\<lambda>s. fold (add_row L sc (fs_fetched_at s)) (fs_rows s))
          (filter (usable_snapshot now) snapshots) []))"

subsection \<open>Contact pages\<close>

record contact_state =
  cs_links :: "(string \<times> string) list"
  cs_href :: "string option"
  cs_text :: "string list"
  cs_hidden :: nat

definition HIDDEN_TAGS :: "string list" where
  "HIDDEN_TAGS = [''script'', ''style'', ''template'', ''noscript'']"

fun contact_event :: "html_event \<Rightarrow> contact_state \<Rightarrow> contact_state" where
  "contact_event (Start_tag tag attrs) c =
     (let c1 = (if tag \<in> set HIDDEN_TAGS then c\<lparr>cs_hidden := cs_hidden c + 1\<rparr> else c)
      in if tag = ''a'' \<and> cs_hidden c1 = 0
         then c1\<lparr>cs_href := (case map_of (rev attrs) ''href'' of None \<Rightarrow> None | Some v \<Rightarrow> v), cs_text := []\<rparr>
         else c1)"
| "contact_event (Data data) c =
     (if opt_text (cs_href c) \<noteq> [] \<and> cs_hidden c = 0 then c\<lparr>cs_text := cs_text c @ [data]\<rparr> else c)"
| "contact_event (End_tag tag) c =
     (let c1 = (if tag = ''a'' \<and> opt_text (cs_href c) \<noteq> []
                then c\<lparr>cs_links := cs_links c
                         @ [(opt_text (cs_href c),
                             join_with '' '' (tokens_of py_isspace (join_with '' '' (cs_text c))))],
                       cs_href := None\<rparr>
                else c)
      in if tag \<in> set HIDDEN_TAGS then c1\<lparr>cs_hidden := cs_hidden c1 - 1\<rparr> else c1)"

definition contact_links_of :: "html_lib \<Rightarrow> string \<Rightarrow> (string \<times> string) list" where
  "contact_links_of H html =
     cs_links (fold contact_event (hl_events H html) \<lparr>cs_links = [], cs_href = None, cs_text = [], cs_hidden = 0\<rparr>)"

type_synonym contact_rank = "bool \<times> bool \<times> nat \<times> string"

fun scan_contacts ::
    "url_lib \<Rightarrow> site_scope \<Rightarrow> (string \<times> string) list \<Rightarrow> (string \<times> contact_rank) list \<Rightarrow> string list
     \<Rightarrow> exn + ((string \<times> contact_rank) list \<times> string list)" where
  "scan_contacts L sc [] found urls = Inr (found, urls)"
| "scan_contacts L sc ((href, label) # rest) found urls =
     (case canonicalize_inventory_url L sc (Some (sc_root_url sc)) href of
        None \<Rightarrow> scan_contacts L sc rest found urls
      | Some url \<Rightarrow>
          if is_admin_page L (Some url) \<or> list_ex (starts_with href) [''#'', ''mailto:'', ''tel:'']
          then scan_contacts L sc rest found urls
          else if url = sc_root_url sc then scan_contacts L sc rest found (add_new url urls)
          else (case contact_path url of
                  Inl e \<Rightarrow> Inl e
                | Inr path \<Rightarrow>
                  (let named = contact_label label
                   in if named \<or> path
                      then (case urlsplit url of
                              Inl e \<Rightarrow> Inl e
                            | Inr u \<Rightarrow>
                              (let rank = (\<not> named, \<not> path, length (filter (\<lambda>c. c = CHR ''/'') (us_path u)), url);
                                   best = (case map_of found url of None \<Rightarrow> rank | Some r \<Rightarrow> min r rank)
                               in scan_contacts L sc rest (AList.update url best found) (add_new url urls)))
                      else scan_contacts L sc rest found (add_new url urls))))"

definition discover_contacts ::
    "url_lib \<Rightarrow> html_lib \<Rightarrow> site_scope \<Rightarrow> string \<Rightarrow> exn + (string list \<times> string list)" where
  "discover_contacts L H sc html =
     map_sum id (\<lambda>(found, urls). (map fst (sort_key snd found), urls))
       (scan_contacts L sc (contact_links_of H html) [] [])"

text \<open>\<open>\\b\<close> of a regular expression\<close>

definition word_char :: "char \<Rightarrow> bool" where
  "word_char c \<longleftrightarrow>
     is_alpha c \<or> is_digit c \<or> c = CHR ''_''
   \<or> (let n = (of_char c :: nat)
      in n \<in> {170, 178, 179, 181, 185, 186, 188, 189, 190} \<or> 192 \<le> n \<and> n \<noteq> 215 \<and> n \<noteq> 247)"

fun has_word :: "string \<Rightarrow> bool \<Rightarrow> string \<Rightarrow> bool" where
  "has_word w inside [] \<longleftrightarrow> False"
| "has_word w inside (c # cs) \<longleftrightarrow>
     (\<not> inside \<and> starts_with (c # cs) w
      \<and> (let rest = drop (length w) (c # cs) in rest = [] \<or> \<not> word_char (hd rest)))
   \<or> has_word w (word_char c) cs"

definition confirmed_contact :: "html_structure \<Rightarrow> bool" where
  "confirmed_contact t \<longleftrightarrow>
     ''ContactPage'' \<in> set (ht_schema_types t)
   \<or> has_word ''contact'' False (lower (heading_text t)) \<or> has_word ''get in touch'' False (lower (heading_text t))"

definition home_contact_complete :: "url_lib \<Rightarrow> html_lib \<Rightarrow> site_scope \<Rightarrow> string \<Rightarrow> bool" where
  "home_contact_complete L H sc html \<longleftrightarrow>
     (let t = extract_html_structure L H sc (sc_root_url sc) 200000 html
      in ''ContactPage'' \<in> set (ht_schema_types t)
       \<and> (contains_text ''tel:'' (lower html) \<or> contains_text ''mailto:'' (lower html))
       \<and> (has_word ''address'' False (lower (ht_visible_text t)) \<or> has_word ''hours'' False (lower (ht_visible_text t))))"

definition prioritize_contacts ::
    "string list \<Rightarrow> page_record list \<Rightarrow> ranked_page list \<Rightarrow> ranked_page list" where
  "prioritize_contacts urls pages ranked =
     (let home = filter (\<lambda>r. rk_type r = Home_page) ranked
      in if list_ex (\<lambda>r. ''ContactPage'' \<in> set (pg_schema_types (rk_page r))) home then ranked
         else
           (let contacts = filter (\<lambda>p. pg_url p \<in> set urls \<and> pg_type p = Contact_page
                  \<and> (case pg_status_code p of None \<Rightarrow> False | Some c \<Rightarrow> c \<noteq> 0 \<and> c < 400)) pages;
                position = (\<lambda>p. length (takeWhile (\<lambda>u. u \<noteq> pg_url p) urls));
                reserved = map (\<lambda>p. \<lparr>rk_page = p, rk_score = 9999, rk_reasons = [''contact_reserved'']\<rparr>)
                  (take 2 (sort_key position contacts));
                chosen = map rk_url (home @ reserved)
            in home @ reserved @ filter (\<lambda>r. rk_url r \<notin> set chosen) ranked))"

end
