(* ===== verification/Site_Discovery.thy ===== *)
theory Site_Discovery
  imports Site_Select
begin

text \<open>
  Robots rules and the bounded search of sitemaps (app/collectors/site_inventory_discovery.py).
  \<open>urllib.robotparser\<close>, \<open>gzip\<close> and \<open>xml.etree\<close> are parameters: the rules of a text, at most
  the given number of decompressed bytes (None for a corrupt stream), the element tree of a
  document (None for a ParseError), and the text of a body under its content type.
\<close>

datatype xml_element = Xml_element string "string option" "xml_element list"

text \<open>A tag of \<open>html.parser\<close>: its line and column, and the length of the text of a start tag.\<close>

datatype tag_position = Start_at nat nat nat | End_at nat nat

record robots_file =
  rf_allowed :: "string \<Rightarrow> bool"
  rf_sitemaps :: "string list"
  rf_agent_delay :: "rat option"
  rf_default_delay :: "rat option"

record site_lib =
  sb_html :: html_lib
  sb_decode :: "string \<Rightarrow> string \<Rightarrow> string"
  sb_tags :: "string \<Rightarrow> tag_position list"
  sb_robots :: "string \<Rightarrow> robots_file"
  sb_gunzip :: "string \<Rightarrow> int \<Rightarrow> string option"
  sb_xml :: "string \<Rightarrow> xml_element option"
  sb_http_url :: "string \<Rightarrow> string option"
  sb_log1p :: "rat \<Rightarrow> rat"
  sb_sha256 :: "string \<Rightarrow> string"

definition decoded :: "site_lib \<Rightarrow> fetch_response \<Rightarrow> string" where
  "decoded B r = sb_decode B (fr_content_type r) (fr_body r)"

subsection \<open>Robots rules\<close>

record robots_policy =
  rb_root_url :: string
  rb_rules :: "robots_file option"
  rb_sitemaps :: "string list"
  rb_crawl_delay :: "rat option"
  rb_limitations :: "string list"

definition allow_all :: "string \<Rightarrow> string option \<Rightarrow> robots_policy" where
  "allow_all root_url limitation =
     \<lparr>rb_root_url = root_url, rb_rules = None, rb_sitemaps = [], rb_crawl_delay = None,
      rb_limitations = (case limitation of None \<Rightarrow> [] | Some l \<Rightarrow> [l])\<rparr>"

definition robots_allowed :: "robots_policy \<Rightarrow> string \<Rightarrow> bool" where
  "robots_allowed rb url = (case rb_rules rb of None \<Rightarrow> True | Some rules \<Rightarrow> rf_allowed rules url)"

fun new_resources :: "(string \<Rightarrow> string option) \<Rightarrow> string list \<Rightarrow> string list \<Rightarrow> string list" where
  "new_resources canonical urls [] = urls"
| "new_resources canonical urls (raw # rest) =
     new_resources canonical (case canonical raw of None \<Rightarrow> urls | Some u \<Rightarrow> add_new u urls) rest"

definition parse_robots :: "url_lib \<Rightarrow> site_lib \<Rightarrow> string \<Rightarrow> string \<Rightarrow> exn + robots_policy" where
  "parse_robots L B content root_url =
     (case scope_from_root L root_url of
        Inl e \<Rightarrow> Inl e
      | Inr sc \<Rightarrow>
        (let rules = sb_robots B content
         in Inr \<lparr>rb_root_url = sc_root_url sc, rb_rules = Some rules,
                 rb_sitemaps = new_resources (canonicalize_site_resource_url L sc None) [] (rf_sitemaps rules),
                 rb_crawl_delay = (case rf_agent_delay rules of None \<Rightarrow> rf_default_delay rules | Some d \<Rightarrow> Some d),
                 rb_limitations = []\<rparr>))"

definition site_file :: "site_scope \<Rightarrow> string \<Rightarrow> string" where
  "site_file sc name = rstrip_char CHR ''/'' (sc_root_url sc) @ name"

fun is_site_fetch_error :: "exn \<Rightarrow> bool" where
  "is_site_fetch_error (SiteFetchError _ _) = True"
| "is_site_fetch_error _ = False"

fun is_url_unreachable :: "exn \<Rightarrow> bool" where
  "is_url_unreachable (UrlUnreachableError _ _) = True"
| "is_url_unreachable _ = False"

fun is_url_safety :: "exn \<Rightarrow> bool" where
  "is_url_safety (UrlSafetyError _ _) = True"
| "is_url_safety _ = False"

fun is_sitemap_parse_error :: "exn \<Rightarrow> bool" where
  "is_sitemap_parse_error (SitemapParseError _) = True"
| "is_sitemap_parse_error _ = False"

definition load_robots ::
    "'w fetcher \<Rightarrow> site_lib \<Rightarrow> site_scope \<Rightarrow> int \<Rightarrow> ('w, robots_policy) program" where
  "load_robots F B sc max_bytes =
     andThen
       (handle (andThen (fetch F sc max_bytes None False (site_file sc ''/robots.txt'')) (\<lambda>r. ret (Some r)))
          (\<lambda>e. if is_site_fetch_error e \<or> is_url_unreachable e then ret None else throw e))
       (\<lambda>fetched.
          case fetched of
            None \<Rightarrow> ret (allow_all (sc_root_url sc) (Some ''robots_unavailable''))
          | Some r \<Rightarrow>
              if fr_status_code r \<in> {404, 410} then ret (allow_all (sc_root_url sc) None)
              else if 400 \<le> fr_status_code r
              then ret (allow_all (sc_root_url sc) (Some ''robots_unavailable''))
              else (case parse_robots (fe_lib F) B (decoded B r) (sc_root_url sc) of
                      Inl e \<Rightarrow> throw e
                    | Inr policy \<Rightarrow>
                        andThen (fe_apply_crawl_delay F (rb_crawl_delay policy)) (\<lambda>_. ret policy)))"

subsection \<open>One sitemap\<close>

record sitemap_document =
  sd_page_urls :: "string list"
  sd_child_sitemaps :: "string list"

definition bounded_gzip_decompress :: "site_lib \<Rightarrow> int \<Rightarrow> string \<Rightarrow> exn + string" where
  "bounded_gzip_decompress B max_bytes body =
     (case sb_gunzip B body (max_bytes + 1) of
        None \<Rightarrow> Inl (SitemapParseError ''invalid gzip sitemap'')
      | Some result \<Rightarrow>
          if max_bytes < int (length result)
          then Inl (SitemapParseError ''decompressed sitemap exceeded the size limit'') else Inr result)"

fun iter_xml :: "xml_element \<Rightarrow> (string \<times> string option) list" where
  "iter_xml (Xml_element tag content children) = (tag, content) # concat (map iter_xml children)"

definition local_name :: "string \<Rightarrow> string" where
  "local_name tag = lower (after_last CHR ''}'' tag)"

fun xml_tag :: "xml_element \<Rightarrow> string" where
  "xml_tag (Xml_element tag _ _) = tag"

definition loc_texts :: "xml_element \<Rightarrow> string list" where
  "loc_texts x =
     map (\<lambda>(_, content). opt_text content)
       (filter (\<lambda>(tag, content). local_name tag = ''loc'' \<and> opt_text content \<noteq> []) (iter_xml x))"

definition parse_sitemap_document ::
    "url_lib \<Rightarrow> site_lib \<Rightarrow> site_scope \<Rightarrow> int \<Rightarrow> string \<Rightarrow> string \<Rightarrow> exn + sitemap_document" where
  "parse_sitemap_document L B sc max_decompressed_bytes source_url body =
     (case (if starts_with body [char_of (31 :: nat), char_of (139 :: nat)]
            then bounded_gzip_decompress B max_decompressed_bytes body else Inr body) of
        Inl e \<Rightarrow> Inl e
      | Inr payload \<Rightarrow>
          if max_decompressed_bytes < int (length payload)
          then Inl (SitemapParseError ''sitemap exceeded the size limit'')
          else if contains_text ''<!doctype'' (lower payload) \<or> contains_text ''<!entity'' (lower payload)
          then Inl (SitemapParseError ''XML declarations with entities are not allowed'')
          else (case sb_xml B payload of
                  None \<Rightarrow> Inl (SitemapParseError ''invalid sitemap XML'')
                | Some x \<Rightarrow>
                    if 20000 < int (length (iter_xml x))
                    then Inl (SitemapParseError ''sitemap exceeded the node limit'')
                    else if local_name (xml_tag x) = ''urlset''
                    then Inr \<lparr>sd_page_urls = new_resources (canonicalize_inventory_url L sc (Some source_url)) [] (loc_texts x),
                              sd_child_sitemaps = []\<rparr>
                    else if local_name (xml_tag x) = ''sitemapindex''
                    then Inr \<lparr>sd_page_urls = [],
                              sd_child_sitemaps =
                                new_resources (canonicalize_site_resource_url L sc (Some source_url)) [] (loc_texts x)\<rparr>
                    else Inl (SitemapParseError ''unsupported sitemap root element'')))"

subsection \<open>The search\<close>

record sitemap_limits =
  sm_max_files :: nat
  sm_max_depth :: nat
  sm_max_bytes :: int
  sm_max_decompressed_bytes :: int
  sm_page_limit :: nat

record sitemap_search =
  ss_queue :: "(string \<times> nat) list"
  ss_visited :: "string list"
  ss_found :: "string list"
  ss_notes :: "string list"

text \<open>The document of a sitemap; None when it is unavailable.\<close>

definition read_sitemap ::
    "'w fetcher \<Rightarrow> site_lib \<Rightarrow> site_scope \<Rightarrow> sitemap_limits \<Rightarrow> string \<Rightarrow> ('w, sitemap_document option) program" where
  "read_sitemap F B sc lm url =
     handle
       (andThen (fetch F sc (sm_max_bytes lm) None False url) (\<lambda>r.
          if 400 \<le> fr_status_code r
          then throw (SiteFetchError ''http_error'' ''The sitemap returned an HTTP error.'')
          else reads_result (map_sum id Some
                 (parse_sitemap_document (fe_lib F) B sc (sm_max_decompressed_bytes lm) (fr_final_url r) (fr_body r)))))
       (\<lambda>e. if is_site_fetch_error e \<or> is_sitemap_parse_error e \<or> is_url_unreachable e then ret None else throw e)"

fun add_pages :: "(string \<Rightarrow> bool) \<Rightarrow> nat \<Rightarrow> string list \<Rightarrow> string list \<Rightarrow> string list" where
  "add_pages allowed limit found [] = found"
| "add_pages allowed limit found (u # us) =
     (if allowed u \<and> u \<notin> set found
      then (if limit \<le> length found + 1 then found @ [u] else add_pages allowed limit (found @ [u]) us)
      else add_pages allowed limit found us)"

fun add_children :: "nat \<Rightarrow> string list \<Rightarrow> string list \<Rightarrow> (string \<times> nat) list \<Rightarrow> (string \<times> nat) list" where
  "add_children depth visited [] queue = queue"
| "add_children depth visited (u # us) queue =
     add_children depth visited us
       (if u \<notin> set visited \<and> u \<notin> set (map fst queue) then queue @ [(u, depth)] else queue)"

definition visit_document ::
    "(string \<Rightarrow> bool) \<Rightarrow> sitemap_limits \<Rightarrow> nat \<Rightarrow> sitemap_document option \<Rightarrow> sitemap_search \<Rightarrow> sitemap_search" where
  "visit_document allowed lm depth document st =
     (case document of
        None \<Rightarrow> st\<lparr>ss_notes := add_new ''sitemap_unavailable'' (ss_notes st)\<rparr>
      | Some d \<Rightarrow>
          st\<lparr>ss_found := add_pages allowed (sm_page_limit lm) (ss_found st) (sd_page_urls d),
             ss_queue := (if depth < sm_max_depth lm
                          then add_children (depth + 1) (ss_visited st) (sd_child_sitemaps d) (ss_queue st)
                          else ss_queue st)\<rparr>)"

definition search_over :: "sitemap_limits \<Rightarrow> sitemap_search \<Rightarrow> bool" where
  "search_over lm st \<longleftrightarrow>
     ss_queue st = [] \<or> sm_max_files lm \<le> length (ss_visited st) \<or> sm_page_limit lm \<le> length (ss_found st)"

text \<open>The loop ends: each round visits a new file or shortens the queue.\<close>

function search_sitemaps ::
    "(string \<Rightarrow> ('w, sitemap_document option) program) \<Rightarrow> (string \<Rightarrow> bool) \<Rightarrow> sitemap_limits
     \<Rightarrow> sitemap_search \<Rightarrow> ('w, sitemap_search) program" where
  "search_sitemaps read allowed lm st w =
     (if search_over lm st then (w, Inr st)
      else
        (let (url, depth) = hd (ss_queue st);
             popped = st\<lparr>ss_queue := tl (ss_queue st)\<rparr>
         in if url \<in> set (ss_visited st) then search_sitemaps read allowed lm popped w
            else (case read url w of
                    (w', Inl e) \<Rightarrow> (w', Inl e)
                  | (w', Inr document) \<Rightarrow>
                      search_sitemaps read allowed lm
                        (visit_document allowed lm depth document
                           (popped\<lparr>ss_visited := ss_visited st @ [url]\<rparr>)) w')))"
  by pat_completeness auto

lemma visit_document_visited [simp]: "ss_visited (visit_document allowed lm depth document st) = ss_visited st"
  by (simp add: visit_document_def split: option.splits)

termination search_sitemaps
  by (relation "measures [\<lambda>(_, _, lm, st, _). sm_max_files lm - length (ss_visited st),
        \<lambda>(_, _, _, st, _). length (ss_queue st)]")
    (auto simp: search_over_def)

declare search_sitemaps.simps [simp del]

record sitemap_result =
  sr_page_urls :: "string list"
  sr_fetched_sitemaps :: nat
  sr_limitations :: "string list"

definition finish_search :: "sitemap_limits \<Rightarrow> sitemap_search \<Rightarrow> sitemap_result" where
  "finish_search lm st =
     \<lparr>sr_page_urls = ss_found st, sr_fetched_sitemaps = length (ss_visited st),
      sr_limitations = ss_notes st
        @ (if ss_queue st \<noteq> [] \<and> sm_max_files lm \<le> length (ss_visited st)
           then [''sitemap_file_limit_reached''] else [])
        @ (if sm_page_limit lm \<le> length (ss_found st) then [''sitemap_page_limit_reached''] else [])\<rparr>"

definition start_search :: "url_lib \<Rightarrow> site_scope \<Rightarrow> string list \<Rightarrow> sitemap_search" where
  "start_search L sc sitemap_urls =
     \<lparr>ss_queue = map (\<lambda>u. (u, 0)) (new_resources (canonicalize_site_resource_url L sc None) [] sitemap_urls),
      ss_visited = [], ss_found = [], ss_notes = []\<rparr>"

definition discover_sitemap_urls ::
    "'w fetcher \<Rightarrow> site_lib \<Rightarrow> site_scope \<Rightarrow> robots_policy \<Rightarrow> sitemap_limits \<Rightarrow> string list
     \<Rightarrow> ('w, sitemap_result) program" where
  "discover_sitemap_urls F B sc rb lm sitemap_urls =
     andThen (search_sitemaps (read_sitemap F B sc lm) (robots_allowed rb) lm
                (start_search (fe_lib F) sc sitemap_urls))
       (\<lambda>st. ret (finish_search lm st))"

end
