(* ===== verification/Site_Firecrawl.thy ===== *)
theory Site_Firecrawl
  imports Site_Fetch
begin

text \<open>
  The map of a site from Firecrawl (app/collectors/site_inventory_firecrawl.py): one request, whose
  answer is checked, and no error that leaves the adapter. The client and \<open>json.loads\<close> of a body
  are parameters.
\<close>

record firecrawl_result =
  fm_urls :: "string list"
  fm_limitation :: "string option"

record 'w firecrawl_adapter =
  fa_enabled :: bool
  fa_api_key :: string
  fa_max_response_bytes :: int
  fa_send :: "string \<Rightarrow> int \<Rightarrow> ('w, http_reply) program"
  fa_json :: "string \<Rightarrow> json option"

definition firecrawl_unavailable :: firecrawl_result where
  "firecrawl_unavailable = \<lparr>fm_urls = [], fm_limitation = Some ''firecrawl_unavailable''\<rparr>"

text \<open>\<open>httpx.HTTPError\<close>, \<open>TypeError\<close> and \<open>ValueError\<close>\<close>

fun firecrawl_caught :: "exn \<Rightarrow> bool" where
  "firecrawl_caught HttpTimeoutException = True"
| "firecrawl_caught HttpNetworkError = True"
| "firecrawl_caught (HttpStatusError _) = True"
| "firecrawl_caught HttpProtocolError = True"
| "firecrawl_caught TypeError = True"
| "firecrawl_caught (ValueError _) = True"
| "firecrawl_caught _ = False"

fun link_text :: "json \<Rightarrow> string option" where
  "link_text (JStr s) = Some s"
| "link_text (JObj kvs) = (case map_of kvs ''url'' of Some (JStr s) \<Rightarrow> Some s | _ \<Rightarrow> None)"
| "link_text _ = None"

fun map_links :: "int \<Rightarrow> string list \<Rightarrow> json list \<Rightarrow> string list" where
  "map_links limit urls [] = urls"
| "map_links limit urls (item # rest) =
     (let urls' = (case link_text item of
                     None \<Rightarrow> urls
                   | Some v \<Rightarrow>
                       if strip_chars py_isspace v \<noteq> [] \<and> v \<notin> set urls
                       then urls @ [strip_chars py_isspace v] else urls)
      in if limit \<le> int (length urls') then urls' else map_links limit urls' rest)"

definition map_payload :: "int \<Rightarrow> json option \<Rightarrow> exn + firecrawl_result" where
  "map_payload limit payload =
     (case payload of
        Some (JObj kvs) \<Rightarrow>
          if map_of kvs ''success'' \<noteq> Some (JBool True)
          then Inl (ValueError ''Firecrawl returned an invalid result'')
          else if \<not> set (map fst kvs) \<subseteq> {''success'', ''links''}
          then Inl (ValueError ''Firecrawl returned unknown fields'')
          else (case map_of kvs ''links'' of
                  Some (JArr items) \<Rightarrow>
                    Inr \<lparr>fm_urls = map_links (min limit 500) [] items, fm_limitation = None\<rparr>
                | _ \<Rightarrow> Inl (ValueError ''Firecrawl links were missing''))
      | Some _ \<Rightarrow> Inl (ValueError ''Firecrawl returned an invalid result'')
      | None \<Rightarrow> Inl (ValueError ''invalid JSON''))"

definition read_map :: "int \<Rightarrow> (string \<Rightarrow> json option) \<Rightarrow> int \<Rightarrow> http_reply \<Rightarrow> exn + firecrawl_result" where
  "read_map max_bytes loads limit r =
     (if rp_status r < 200 \<or> 299 < rp_status r then Inl (HttpStatusError (rp_status r))
      else (case digits_above (rp_content_length r) max_bytes of
              Inl e \<Rightarrow> Inl e
            | Inr True \<Rightarrow> Inl (ValueError ''Firecrawl response exceeded the size limit'')
            | Inr False \<Rightarrow>
                (case read_body max_bytes False [] (rp_chunks r) of
                   Inl _ \<Rightarrow> Inl (ValueError ''Firecrawl response exceeded the size limit'')
                 | Inr (body, _) \<Rightarrow> map_payload limit (loads body))))"

definition firecrawl_map ::
    "'w firecrawl_adapter \<Rightarrow> string \<Rightarrow> int \<Rightarrow> ('w, firecrawl_result) program" where
  "firecrawl_map A root_url limit =
     (if \<not> fa_enabled A \<or> fa_api_key A = [] \<or> limit \<le> 0 then ret firecrawl_unavailable
      else handle
        (andThen (fa_send A root_url (min limit 500))
           (\<lambda>r. reads_result (read_map (fa_max_response_bytes A) (fa_json A) limit r)))
        (\<lambda>e. if firecrawl_caught e then ret firecrawl_unavailable else throw e))"

lemma map_links_length:
  "int (length urls) < limit \<Longrightarrow> int (length (map_links limit urls items)) \<le> limit"
proof (induction items arbitrary: urls)
  case (Cons item items)
  then show ?case by (auto simp: Let_def split: option.splits)
qed simp

text \<open>The only errors that leave the adapter are those of the client that it does not catch.\<close>

lemma firecrawl_map_outcome:
  assumes "firecrawl_map A root_url limit w = (w', r)"
  shows "(\<exists>m. r = Inr m \<and> int (length (fm_urls m)) \<le> 500 \<and> (0 < limit \<longrightarrow> int (length (fm_urls m)) \<le> limit))
    \<or> (\<exists>e. r = Inl e \<and> \<not> firecrawl_caught e \<and> snd (fa_send A root_url (min limit 500) w) = Inl e)"
proof (cases "\<not> fa_enabled A \<or> fa_api_key A = [] \<or> limit \<le> 0")
  case True
  then show ?thesis using assms by (auto simp: firecrawl_map_def ret_def firecrawl_unavailable_def)
next
  case False
  obtain w1 x where send: "fa_send A root_url (min limit 500) w = (w1, x)" by fastforce
  show ?thesis
  proof (cases x)
    case (Inl e)
    then show ?thesis using assms False send
      by (auto simp: firecrawl_map_def handle_def andThen_def ret_def throw_def firecrawl_unavailable_def
          split: if_splits)
  next
    case (Inr reply)
    have "e = HttpStatusError (rp_status reply) \<or> (\<exists>m. e = ValueError m)"
      if "read_map (fa_max_response_bytes A) (fa_json A) limit reply = Inl e" for e
      using that by (auto simp: read_map_def map_payload_def digits_above_def
          split: if_splits sum.splits bool.splits option.splits json.splits)
    moreover have "int (length (fm_urls m)) \<le> min limit 500"
      if "read_map (fa_max_response_bytes A) (fa_json A) limit reply = Inr m" for m
    proof -
      have "\<exists>items. m = \<lparr>fm_urls = map_links (min limit 500) [] items, fm_limitation = None\<rparr>"
        using that by (auto simp: read_map_def map_payload_def
            split: if_splits sum.splits bool.splits option.splits json.splits)
      then show ?thesis using map_links_length [of "[]" "min limit 500"] False by auto
    qed
    ultimately show ?thesis using assms False send Inr
      by (fastforce simp: firecrawl_map_def handle_def andThen_def reads_result_def ret_def throw_def
          firecrawl_unavailable_def split: if_splits sum.splits)
  qed
qed

end
