(* ===== verification/Site_Crawl.thy ===== *)
theory Site_Crawl
  imports Site_Discovery Site_Firecrawl
begin

text \<open>
  The crawl of a site (app/collectors/site_inventory.py, app/collectors/site_inventory_prefix.py):
  the candidates, their structural check and the loop that empties the queue. The dicts of the
  collector are association lists in the order of insertion; \<open>crawl\<close> holds the local variables
  of \<open>collect\<close> that its closures change, with the two attributes of the collector that a crawl
  changes. The pages of a batch are fetched one after the other.
\<close>

subsection \<open>The complete tags of a prefix\<close>

fun line_starts :: "nat \<Rightarrow> string \<Rightarrow> nat list" where
  "line_starts i [] = []"
| "line_starts i (c # cs) = (if c = char_of (10 :: nat) then Suc i # line_starts (Suc i) cs else line_starts (Suc i) cs)"

definition source_offset :: "string \<Rightarrow> nat \<Rightarrow> nat \<Rightarrow> exn + nat" where
  "source_offset s line column =
     (let lines = 0 # line_starts 0 s
      in if line - 1 < length lines then Inr (lines ! (line - 1) + column)
         else Inl (OtherException ''IndexError''))"

fun index_from :: "char \<Rightarrow> string \<Rightarrow> nat \<Rightarrow> exn + nat" where
  "index_from c s i =
     (let skipped = takeWhile (\<lambda>d. d \<noteq> c) (drop i s)
      in if i + length skipped < length s then Inr (i + length skipped)
         else Inl (ValueError ''substring not found''))"

text \<open>The last position that the tags set.\<close>

fun tags_end :: "string \<Rightarrow> tag_position list \<Rightarrow> nat \<Rightarrow> exn + nat" where
  "tags_end s [] final = Inr final"
| "tags_end s (Start_at line column width # rest) final =
     (case source_offset s line column of Inl e \<Rightarrow> Inl e | Inr offset \<Rightarrow> tags_end s rest (offset + width))"
| "tags_end s (End_at line column # rest) final =
     (case source_offset s line column of
        Inl e \<Rightarrow> Inl e
      | Inr offset \<Rightarrow>
        (case index_from CHR ''>'' s offset of Inl e \<Rightarrow> Inl e | Inr i \<Rightarrow> tags_end s rest (Suc i)))"

definition complete_tag_prefix :: "site_lib \<Rightarrow> string \<Rightarrow> exn + string" where
  "complete_tag_prefix B s = map_sum id (\<lambda>n. take n s) (tags_end s (sb_tags B s) 0)"

subsection \<open>The collector and its state\<close>

record 'w collector =
  si_fetcher :: "'w fetcher"
  si_lib :: site_lib
  si_firecrawl :: "(string \<Rightarrow> int \<Rightarrow> ('w, firecrawl_result) program) option"
  si_structural_max_bytes :: int
  si_sitemap_max_bytes :: int
  si_sitemap_decompressed_max_bytes :: int
  si_sitemap_max_files :: nat
  si_sitemap_max_depth :: nat
  si_batch_size :: nat
  si_deep_max_bytes :: int
  si_resource_limits :: bool
  si_sampling_quality :: bool
  si_contact_coverage :: bool
  si_clock :: "('w, timestamp) program"

abbreviation si_urls :: "'w collector \<Rightarrow> url_lib" where
  "si_urls C \<equiv> fe_lib (si_fetcher C)"

record crawl_candidate =
  ca_url :: string
  ca_sources :: "discovery_source list"
  ca_depth :: int
  ca_prefetched :: "fetch_response option"

record crawl =
  cw_candidates :: "(string \<times> crawl_candidate) list"
  cw_queue :: "string list"
  cw_records :: "(string \<times> page_record) list"
  cw_responses :: "(string \<times> fetch_response) list"
  cw_truncated :: bool
  cw_limitations :: "string list"
  cw_contact_urls :: "string list"
  cw_contact_success :: bool

definition HTML_TYPES :: "string list" where
  "HTML_TYPES = [''text/html'', ''application/xhtml+xml'']"

definition ADMIN_NOTE :: string where
  "ADMIN_NOTE = ''An administrative URL was excluded from the public page sample.''"

definition crawl_start :: "string list \<Rightarrow> crawl" where
  "crawl_start limitations =
     \<lparr>cw_candidates = [], cw_queue = [], cw_records = [], cw_responses = [], cw_truncated = False,
      cw_limitations = limitations, cw_contact_urls = [], cw_contact_success = False\<rparr>"

fun inventory_error_code :: "exn \<Rightarrow> string" where
  "inventory_error_code (SiteFetchError code _) =
     (if code \<in> set [''unsafe_target'', ''page_timeout'', ''response_too_large'', ''content_unsupported'', ''http_error'']
      then code else ''http_error'')"
| "inventory_error_code (UrlSafetyError _ _) = ''unsafe_target''"
| "inventory_error_code _ = ''http_error''"

definition fetch_failed :: "exn \<Rightarrow> bool" where
  "fetch_failed e \<longleftrightarrow> is_site_fetch_error e \<or> is_url_safety e \<or> is_url_unreachable e"

subsection \<open>Candidates\<close>

text \<open>A known page or candidate that is found again.\<close>

definition seen_again :: "discovery_source \<Rightarrow> int \<Rightarrow> fetch_response option \<Rightarrow> crawl_candidate \<Rightarrow> crawl_candidate" where
  "seen_again source depth prefetched c =
     c\<lparr>ca_sources := add_new source (ca_sources c), ca_depth := min (ca_depth c) depth,
       ca_prefetched := (case prefetched of None \<Rightarrow> ca_prefetched c | Some r \<Rightarrow> Some r)\<rparr>"

definition accept_url ::
    "nat \<Rightarrow> string \<Rightarrow> discovery_source \<Rightarrow> int \<Rightarrow> fetch_response option \<Rightarrow> crawl \<Rightarrow> crawl" where
  "accept_url limit url source depth prefetched cw =
     (case map_of (cw_records cw) url of
        Some p \<Rightarrow>
          cw\<lparr>cw_records := AList.update url (p\<lparr>pg_sources := add_new source (pg_sources p)\<rparr>) (cw_records cw)\<rparr>
      | None \<Rightarrow>
        (case map_of (cw_candidates cw) url of
           Some c \<Rightarrow>
             cw\<lparr>cw_candidates := AList.update url (seen_again source depth prefetched c) (cw_candidates cw)\<rparr>
         | None \<Rightarrow>
             if limit \<le> length (cw_records cw) + length (cw_candidates cw) then cw\<lparr>cw_truncated := True\<rparr>
             else cw\<lparr>cw_candidates := AList.update url
                        \<lparr>ca_url = url, ca_sources = [source], ca_depth = depth, ca_prefetched = prefetched\<rparr>
                        (cw_candidates cw),
                     cw_queue := cw_queue cw @ [url]\<rparr>))"

definition add_candidate ::
    "'w collector \<Rightarrow> site_scope \<Rightarrow> robots_policy \<Rightarrow> nat \<Rightarrow> string option \<Rightarrow> fetch_response option
     \<Rightarrow> string \<Rightarrow> discovery_source \<Rightarrow> int \<Rightarrow> crawl \<Rightarrow> crawl" where
  "add_candidate C sc rb limit base prefetched raw source depth cw =
     (if si_contact_coverage C \<and> raw \<in> set (drop 1 (cw_contact_urls cw)) \<and> cw_contact_success cw then cw
      else if si_sampling_quality C \<and> is_admin_page (si_urls C) (Some raw)
      then cw\<lparr>cw_limitations := add_new ADMIN_NOTE (cw_limitations cw)\<rparr>
      else (case canonicalize_inventory_url (si_urls C) sc base raw of
              None \<Rightarrow> cw
            | Some url \<Rightarrow>
                if source \<noteq> Seed \<and> \<not> robots_allowed rb url then cw
                else accept_url limit url source depth prefetched cw))"

subsection \<open>The structural check\<close>

definition only_links :: "string list \<Rightarrow> html_structure" where
  "only_links links =
     \<lparr>ht_title = None, ht_h1 = None, ht_canonical_url = None, ht_meta_robots = [], ht_schema_types = [],
      ht_internal_links = links, ht_visible_text = []\<rparr>"

definition content_type_of :: "fetch_response \<Rightarrow> string" where
  "content_type_of r =
     (let t = take 200 (fr_content_type r) in if t = [] then ''application/octet-stream'' else t)"

definition page_structure :: "'w collector \<Rightarrow> site_scope \<Rightarrow> fetch_response \<Rightarrow> exn + html_structure" where
  "page_structure C sc r =
     (case (if fr_truncated r then complete_tag_prefix (si_lib C) (decoded (si_lib C) r)
            else Inr (decoded (si_lib C) r)) of
        Inl e \<Rightarrow> Inl e
      | Inr html \<Rightarrow>
        (let t = extract_html_structure (si_urls C) (sb_html (si_lib C)) sc (fr_final_url r) 200000 html
         in Inr (if fr_truncated r then only_links (ht_internal_links t) else t)))"

definition page_classification ::
    "'w collector \<Rightarrow> site_scope \<Rightarrow> string list \<Rightarrow> string \<Rightarrow> fetch_response \<Rightarrow> html_structure
     \<Rightarrow> exn + (page_type \<times> string list)" where
  "page_classification C sc contact_urls url r t =
     (case classify_page url (sc_root_url sc) t of
        Inl e \<Rightarrow> Inl e
      | Inr (page_type, reasons) \<Rightarrow>
          Inr (if si_contact_coverage C \<and> url \<in> set contact_urls \<and> \<not> fr_truncated r
               then (if confirmed_contact t then (Contact_page, [''verified_contact_role''])
                     else if page_type = Contact_page then (Other_page, [''contact_role_unconfirmed''])
                     else (page_type, reasons))
               else (page_type, reasons)))"

definition checked_record ::
    "'w collector \<Rightarrow> crawl_candidate \<Rightarrow> fetch_response \<Rightarrow> html_structure \<Rightarrow> page_type \<times> string list
     \<Rightarrow> exn + page_record" where
  "checked_record C c r t classification =
     make_page (sb_http_url (si_lib C))
       \<lparr>pg_url = ca_url c, pg_sources = ca_sources c, pg_depth = ca_depth c, pg_status = Page_checked,
        pg_status_code = Some (fr_status_code r), pg_final_url = Some (fr_final_url r),
        pg_content_type = Some (content_type_of r), pg_response_bytes = response_bytes r,
        pg_title = ht_title t, pg_h1 = ht_h1 t, pg_canonical_url = ht_canonical_url t,
        pg_meta_robots = ht_meta_robots t, pg_schema_types = ht_schema_types t,
        pg_internal_links = ht_internal_links t, pg_type = fst classification,
        pg_reasons = snd classification, pg_error = None, pg_v2 = si_resource_limits C,
        pg_truncated = (si_resource_limits C \<and> fr_truncated r)\<rparr>"

definition failed_record :: "'w collector \<Rightarrow> crawl_candidate \<Rightarrow> exn \<Rightarrow> exn + page_record" where
  "failed_record C c e =
     make_page (sb_http_url (si_lib C))
       \<lparr>pg_url = ca_url c, pg_sources = ca_sources c, pg_depth = ca_depth c, pg_status = Page_failed,
        pg_status_code = None, pg_final_url = None, pg_content_type = None, pg_response_bytes = 0,
        pg_title = None, pg_h1 = None, pg_canonical_url = None, pg_meta_robots = [], pg_schema_types = [],
        pg_internal_links = [], pg_type = Other_page, pg_reasons = [''check_failed''],
        pg_error = Some (inventory_error_code e), pg_v2 = False, pg_truncated = False\<rparr>"

record checked_candidate =
  cc_candidate :: crawl_candidate
  cc_record :: page_record
  cc_structure :: "html_structure option"
  cc_response :: "fetch_response option"

definition check_response ::
    "'w collector \<Rightarrow> site_scope \<Rightarrow> string list \<Rightarrow> crawl_candidate \<Rightarrow> fetch_response \<Rightarrow> exn + checked_candidate" where
  "check_response C sc contact_urls c r =
     (case page_structure C sc r of
        Inl e \<Rightarrow> Inl e
      | Inr t \<Rightarrow>
        (case page_classification C sc contact_urls (ca_url c) r t of
           Inl e \<Rightarrow> Inl e
         | Inr classification \<Rightarrow>
             map_sum id (\<lambda>p. \<lparr>cc_candidate = c, cc_record = p, cc_structure = Some t, cc_response = Some r\<rparr>)
               (checked_record C c r t classification)))"

definition check_candidate ::
    "'w collector \<Rightarrow> site_scope \<Rightarrow> string list \<Rightarrow> crawl_candidate \<Rightarrow> ('w, checked_candidate) program" where
  "check_candidate C sc contact_urls c =
     handle
       (andThen
          (case ca_prefetched c of
             Some r \<Rightarrow> ret r
           | None \<Rightarrow>
               fetch (si_fetcher C) sc
                 (if si_contact_coverage C \<and> ca_url c \<in> set contact_urls then 4000000 else si_structural_max_bytes C)
                 (Some HTML_TYPES) (si_resource_limits C \<and> ca_url c \<notin> set contact_urls) (ca_url c))
          (\<lambda>r. reads_result (check_response C sc contact_urls c r)))
       (\<lambda>e. if fetch_failed e
            then reads_result (map_sum id
                   (\<lambda>p. \<lparr>cc_candidate = c, cc_record = p, cc_structure = None, cc_response = None\<rparr>)
                   (failed_record C c e))
            else throw e)"

subsection \<open>A batch\<close>

fun pop_batch :: "bool \<Rightarrow> nat \<Rightarrow> crawl_candidate list \<Rightarrow> string list \<Rightarrow> crawl \<Rightarrow> crawl_candidate list \<times> crawl" where
  "pop_batch coverage n batch [] cw = (batch, cw\<lparr>cw_queue := []\<rparr>)"
| "pop_batch coverage n batch (url # rest) cw =
     (if n \<le> length batch then (batch, cw\<lparr>cw_queue := url # rest\<rparr>)
      else (case map_of (cw_candidates cw) url of
              None \<Rightarrow> pop_batch coverage n batch rest cw
            | Some c \<Rightarrow>
                pop_batch coverage n
                  (if coverage \<and> cw_contact_success cw \<and> url \<in> set (drop 1 (cw_contact_urls cw)) then batch
                   else batch @ [c])
                  rest (cw\<lparr>cw_candidates := AList.delete url (cw_candidates cw)\<rparr>)))"

fun in_turn :: "('a \<Rightarrow> ('w, 'b) program) \<Rightarrow> 'a list \<Rightarrow> ('w, 'b list) program" where
  "in_turn p [] = ret []"
| "in_turn p (x # xs) = andThen (p x) (\<lambda>y. andThen (in_turn p xs) (\<lambda>ys. ret (y # ys)))"

text \<open>The URL that a checked page is kept under.\<close>

definition chosen_url :: "checked_candidate \<Rightarrow> string" where
  "chosen_url k =
     (if Seed \<notin> set (ca_sources (cc_candidate k))
      then (case pg_canonical_url (cc_record k) of None \<Rightarrow> ca_url (cc_candidate k) | Some u \<Rightarrow> u)
      else ca_url (cc_candidate k))"

text \<open>
  A record that gets another URL is dumped and validated as an InventoryPageRecord, whose
  base class forbids every field that is not its own.
\<close>

definition INVENTORY_PAGE_FIELDS :: "string list" where
  "INVENTORY_PAGE_FIELDS =
     [''url'', ''discovery_sources'', ''crawl_depth'', ''check_status'', ''status_code'', ''final_url'',
      ''content_type'', ''response_bytes'', ''title'', ''h1'', ''canonical_url'', ''meta_robots'',
      ''schema_types'', ''internal_links'', ''page_type'', ''classification_reasons'', ''error_code'']"

definition dumped_fields :: "page_record \<Rightarrow> string list" where
  "dumped_fields p = INVENTORY_PAGE_FIELDS @ (if pg_v2 p then [''structural_truncated''] else [])"

definition with_url :: "(string \<Rightarrow> string option) \<Rightarrow> string \<Rightarrow> page_record \<Rightarrow> exn + page_record" where
  "with_url http_url url p =
     (if url = pg_url p then Inr p
      else if list_all (\<lambda>f. f \<in> set INVENTORY_PAGE_FIELDS) (dumped_fields p)
      then make_page http_url (p\<lparr>pg_url := url\<rparr>)
      else Inl ValidationError)"

lemma second_version_forbidden: "pg_v2 p \<Longrightarrow> url \<noteq> pg_url p \<Longrightarrow> with_url http_url url p = Inl ValidationError"
  by (simp add: with_url_def dumped_fields_def INVENTORY_PAGE_FIELDS_def)

definition status_or_500 :: "page_record \<Rightarrow> int" where
  "status_or_500 p = (case pg_status_code p of None \<Rightarrow> 500 | Some c \<Rightarrow> if c = 0 then 500 else c)"

text \<open>The candidate that waits under the chosen URL is merged.\<close>

definition pending_alias :: "checked_candidate \<Rightarrow> crawl \<Rightarrow> crawl_candidate option" where
  "pending_alias k cw =
     (if chosen_url k \<noteq> ca_url (cc_candidate k) then map_of (cw_candidates cw) (chosen_url k) else None)"

definition merged_sources :: "checked_candidate \<Rightarrow> crawl_candidate option \<Rightarrow> discovery_source list" where
  "merged_sources k pending =
     (case pending of None \<Rightarrow> ca_sources (cc_candidate k)
      | Some c \<Rightarrow> fold add_new (ca_sources c) (ca_sources (cc_candidate k)))"

definition merged_depth :: "checked_candidate \<Rightarrow> crawl_candidate option \<Rightarrow> int" where
  "merged_depth k pending =
     (case pending of None \<Rightarrow> ca_depth (cc_candidate k) | Some c \<Rightarrow> min (ca_depth (cc_candidate k)) (ca_depth c))"

text \<open>Another page is kept under the URL already.\<close>

definition merge_into :: "discovery_source list \<Rightarrow> int \<Rightarrow> page_record \<Rightarrow> page_record" where
  "merge_into sources depth p =
     p\<lparr>pg_sources := fold add_new sources (pg_sources p), pg_depth := min (pg_depth p) depth\<rparr>"

definition add_links ::
    "'w collector \<Rightarrow> site_scope \<Rightarrow> robots_policy \<Rightarrow> nat \<Rightarrow> page_record \<Rightarrow> html_structure option \<Rightarrow> crawl \<Rightarrow> crawl" where
  "add_links C sc rb limit p structure cw =
     (case structure of
        None \<Rightarrow> cw
      | Some t \<Rightarrow>
          if ''nofollow'' \<in> set (ht_meta_robots t) then cw
          else fold (\<lambda>link. add_candidate C sc rb limit
                       (Some (case pg_final_url p of None \<Rightarrow> pg_url p | Some u \<Rightarrow> u)) None
                       link Internal_link (pg_depth p + 1))
                 (ht_internal_links t) cw)"

definition keep_record ::
    "'w collector \<Rightarrow> checked_candidate \<Rightarrow> string \<Rightarrow> page_record \<Rightarrow> crawl \<Rightarrow> crawl" where
  "keep_record C k url p cw =
     cw\<lparr>cw_records := AList.update url p (cw_records cw),
        cw_contact_success :=
          (cw_contact_success cw
           \<or> (si_contact_coverage C \<and> ca_url (cc_candidate k) \<in> set (cw_contact_urls cw)
              \<and> pg_type p = Contact_page \<and> status_or_500 p < 400
              \<and> (case cc_response k of None \<Rightarrow> False | Some r \<Rightarrow> \<not> fr_truncated r))),
        cw_responses := (case cc_response k of None \<Rightarrow> cw_responses cw
                         | Some r \<Rightarrow> AList.update url r (cw_responses cw))\<rparr>"

definition process_checked ::
    "'w collector \<Rightarrow> site_scope \<Rightarrow> robots_policy \<Rightarrow> nat \<Rightarrow> checked_candidate \<Rightarrow> crawl \<Rightarrow> exn + crawl" where
  "process_checked C sc rb limit k cw =
     (let url = chosen_url k;
          pending = pending_alias k cw;
          sources = merged_sources k pending;
          depth = merged_depth k pending;
          cw1 = (if pending = None then cw else cw\<lparr>cw_candidates := AList.delete url (cw_candidates cw)\<rparr>)
      in case map_of (cw_records cw1) url of
           Some p \<Rightarrow> Inr (cw1\<lparr>cw_records := AList.update url (merge_into sources depth p) (cw_records cw1)\<rparr>)
         | None \<Rightarrow>
           (case with_url (sb_http_url (si_lib C)) url (cc_record k) of
              Inl e \<Rightarrow> Inl e
            | Inr p \<Rightarrow>
              (let q = p\<lparr>pg_sources := sources, pg_depth := depth\<rparr>
               in Inr (add_links C sc rb limit q (cc_structure k) (keep_record C k url q cw1)))))"

fun process_batch ::
    "'w collector \<Rightarrow> site_scope \<Rightarrow> robots_policy \<Rightarrow> nat \<Rightarrow> checked_candidate list \<Rightarrow> crawl \<Rightarrow> exn + crawl" where
  "process_batch C sc rb limit [] cw = Inr cw"
| "process_batch C sc rb limit (k # ks) cw =
     (case process_checked C sc rb limit k cw of
        Inl e \<Rightarrow> Inl e | Inr cw' \<Rightarrow> process_batch C sc rb limit ks cw')"

subsection \<open>The loop\<close>

lemma length_update:
  "length (AList.update k v xs) = (if map_of xs k = None then Suc (length xs) else length xs)"
  by (induction xs) auto

lemma length_delete:
  assumes "distinct (map fst xs)"
  shows "length (AList.delete k xs) = (if map_of xs k = None then length xs else length xs - 1)"
  using assms
proof (induction xs)
  case (Cons x xs)
  then show ?case
    by (cases "xs = []"; cases "fst x = k")
      (auto simp: delete_id map_of_eq_None_iff Suc_pred' length_greater_0_conv split: if_splits)
qed simp

lemma pop_batch_shorter: "length (cw_queue (snd (pop_batch coverage n batch q cw))) \<le> length q"
  by (induction coverage n batch q cw rule: pop_batch.induct) (auto split: option.splits intro: le_SucI)

lemma pop_batch_takes:
  "length batch < n \<Longrightarrow> q \<noteq> [] \<Longrightarrow> length (cw_queue (snd (pop_batch coverage n batch q cw))) < length q"
  by (cases q) (auto split: option.splits simp: less_Suc_eq_le pop_batch_shorter)

lemma pop_batch_keeps:
  "cw_records (snd (pop_batch coverage n batch q cw)) = cw_records cw"
  "cw_contact_urls (snd (pop_batch coverage n batch q cw)) = cw_contact_urls cw"
  "length batch \<le> n \<Longrightarrow> length (fst (pop_batch coverage n batch q cw)) \<le> n"
  by (induction coverage n batch q cw rule: pop_batch.induct) (auto split: option.splits)

text \<open>How an operation may change the progress of the crawl: only a new record opens the queue.\<close>

definition progress_of :: "nat \<Rightarrow> crawl \<Rightarrow> nat \<times> nat" where
  "progress_of limit cw = (limit - length (cw_records cw), length (cw_queue cw))"

definition closer :: "nat \<Rightarrow> crawl \<Rightarrow> crawl \<Rightarrow> bool" where
  "closer limit cw cw' \<longleftrightarrow>
     fst (progress_of limit cw') < fst (progress_of limit cw) \<or> progress_of limit cw' = progress_of limit cw"

lemma accept_url_facts:
  "length (cw_records (accept_url limit url source depth r cw)) = length (cw_records cw)"
  "limit \<le> length (cw_records cw) \<Longrightarrow> cw_queue (accept_url limit url source depth r cw) = cw_queue cw"
  "cw_contact_urls (accept_url limit url source depth r cw) = cw_contact_urls cw"
  by (auto simp: accept_url_def length_update split: option.splits)

lemma add_candidate_facts:
  "length (cw_records (add_candidate C sc rb limit base r raw source depth cw)) = length (cw_records cw)"
  "limit \<le> length (cw_records cw) \<Longrightarrow>
   cw_queue (add_candidate C sc rb limit base r raw source depth cw) = cw_queue cw"
  "cw_contact_urls (add_candidate C sc rb limit base r raw source depth cw) = cw_contact_urls cw"
  by (auto simp: add_candidate_def accept_url_facts split: option.splits)

lemma fold_candidates_facts:
  "length (cw_records (fold (\<lambda>l. add_candidate C sc rb limit base r l source depth) ls cw)) = length (cw_records cw)"
  "limit \<le> length (cw_records cw) \<Longrightarrow>
   cw_queue (fold (\<lambda>l. add_candidate C sc rb limit base r l source depth) ls cw) = cw_queue cw"
  "cw_contact_urls (fold (\<lambda>l. add_candidate C sc rb limit base r l source depth) ls cw) = cw_contact_urls cw"
  by (induction ls arbitrary: cw) (auto simp: add_candidate_facts)

lemma add_links_facts:
  "length (cw_records (add_links C sc rb limit p t cw)) = length (cw_records cw)"
  "limit \<le> length (cw_records cw) \<Longrightarrow> cw_queue (add_links C sc rb limit p t cw) = cw_queue cw"
  "cw_contact_urls (add_links C sc rb limit p t cw) = cw_contact_urls cw"
  by (auto simp: add_links_def fold_candidates_facts split: option.splits)

lemma process_checked_facts:
  assumes "process_checked C sc rb limit k cw = Inr cw'"
  shows "closer limit cw cw'" "cw_contact_urls cw' = cw_contact_urls cw"
proof -
  let ?pending = "pending_alias k cw"
  define cw1 where "cw1 = (if ?pending = None then cw else cw\<lparr>cw_candidates := AList.delete (chosen_url k) (cw_candidates cw)\<rparr>)"
  have same: "cw_records cw1 = cw_records cw" "cw_queue cw1 = cw_queue cw" "cw_contact_urls cw1 = cw_contact_urls cw"
    by (simp_all add: cw1_def)
  note unfolded = assms [unfolded process_checked_def Let_def, folded cw1_def]
  show "closer limit cw cw'"
  proof (cases "map_of (cw_records cw1) (chosen_url k)")
    case (Some p)
    then show ?thesis using unfolded same by (auto simp: closer_def progress_of_def length_update)
  next
    case None
    then obtain q where "cw' = add_links C sc rb limit q (cc_structure k) (keep_record C k (chosen_url k) q cw1)"
      using unfolded by (auto split: sum.splits)
    then show ?thesis using None same
      by (auto simp: closer_def progress_of_def add_links_facts keep_record_def length_update)
  qed
  show "cw_contact_urls cw' = cw_contact_urls cw"
    using unfolded same by (auto simp: add_links_facts keep_record_def split: option.splits sum.splits)
qed

lemma closer_trans: "closer limit a b \<Longrightarrow> closer limit b c \<Longrightarrow> closer limit a c"
  by (auto simp: closer_def)

lemma process_batch_facts:
  "process_batch C sc rb limit ks cw = Inr cw' \<Longrightarrow> closer limit cw cw' \<and> cw_contact_urls cw' = cw_contact_urls cw"
proof (induction ks arbitrary: cw)
  case (Cons k ks)
  then obtain cw1 where "process_checked C sc rb limit k cw = Inr cw1" "process_batch C sc rb limit ks cw1 = Inr cw'"
    by (auto split: sum.splits)
  then show ?case using Cons.IH [of cw1] process_checked_facts [of C sc rb limit k cw cw1] closer_trans by metis
qed (simp add: closer_def)

definition batch_limit :: "'w collector \<Rightarrow> crawl \<Rightarrow> nat" where
  "batch_limit C cw = (if si_contact_coverage C \<and> cw_contact_urls cw \<noteq> [] then 1 else si_batch_size C)"

text \<open>
  The settings allow batches of 1 to 100 pages. The source's loop would spin on batches of 0
  pages until its process is stopped, which the second branch stands for. Otherwise the loop
  ends: a batch makes a record more, below the limit, or takes from the queue.
\<close>

function drain ::
    "'w collector \<Rightarrow> site_scope \<Rightarrow> robots_policy \<Rightarrow> nat \<Rightarrow> crawl \<Rightarrow> ('w, crawl) program" where
  "drain C sc rb limit cw w =
     (if cw_queue cw = [] then (w, Inr cw)
      else if batch_limit C cw = 0 then (w, Inl CancelledError)
      else
        (case pop_batch (si_contact_coverage C) (batch_limit C cw) [] (cw_queue cw) cw of
           (batch, cw1) \<Rightarrow>
             (case in_turn (check_candidate C sc (cw_contact_urls cw)) batch w of
                (w', Inl e) \<Rightarrow> (w', Inl e)
              | (w', Inr checked) \<Rightarrow>
                  (case process_batch C sc rb limit checked cw1 of
                     Inl e \<Rightarrow> (w', Inl e)
                   | Inr cw2 \<Rightarrow> drain C sc rb limit cw2 w'))))"
  by pat_completeness auto

lemma drain_closer:
  assumes "cw_queue cw \<noteq> []" "batch_limit C cw \<noteq> 0"
    and "(batch, cw1) = pop_batch (si_contact_coverage C) (batch_limit C cw) [] (cw_queue cw) cw"
    and "process_batch C sc rb limit checked cw1 = Inr cw2"
  shows "(progress_of limit cw2, progress_of limit cw) \<in> less_than <*lex*> less_than"
proof -
  have pop: "cw1 = snd (pop_batch (si_contact_coverage C) (batch_limit C cw) [] (cw_queue cw) cw)"
    using assms(3) by (metis snd_conv)
  have "cw_records cw1 = cw_records cw" "length (cw_queue cw1) < length (cw_queue cw)"
    unfolding pop using assms(1,2) by (auto intro!: pop_batch_keeps pop_batch_takes)
  then have "(progress_of limit cw1, progress_of limit cw) \<in> less_than <*lex*> less_than"
    by (simp add: progress_of_def)
  moreover have "closer limit cw1 cw2" using process_batch_facts [OF assms(4)] by simp
  ultimately show ?thesis
    by (cases "progress_of limit cw"; cases "progress_of limit cw1"; cases "progress_of limit cw2")
      (auto simp: closer_def)
qed

termination drain
  by (relation "inv_image (less_than <*lex*> less_than) (\<lambda>(C, sc, rb, limit, cw, w). progress_of limit cw)")
    (auto simp: in_inv_image simp del: in_lex_prod intro: drain_closer)

declare drain.simps [simp del]

end
