(* ===== verification/Site_Inventory.thy ===== *)
theory Site_Inventory
  imports Site_Crawl
begin

text \<open>
  The collection of a site's inventory (\<open>SiteInventoryCollector.collect\<close>, \<open>_collect_deep_pages\<close>
  and \<open>_deep_snapshot\<close> of app/collectors/site_inventory.py), in the order of its phases.
\<close>

subsection \<open>Deep pages\<close>

definition make_deep_snapshot :: "(string \<Rightarrow> string option) \<Rightarrow> deep_snapshot \<Rightarrow> exn + deep_snapshot" where
  "make_deep_snapshot http_url d =
     (case http_url (dp_final_url d) of
        None \<Rightarrow> Inl ValidationError
      | Some u \<Rightarrow>
          if deep_snapshot_valid (d\<lparr>dp_final_url := u\<rparr>) then Inr (d\<lparr>dp_final_url := u\<rparr>) else Inl ValidationError)"

definition reusable :: "'w collector \<Rightarrow> fetch_response option \<Rightarrow> bool" where
  "reusable C cached =
     (case cached of
        None \<Rightarrow> False
      | Some r \<Rightarrow>
          \<not> fr_truncated r
        \<and> \<not> (si_structural_max_bytes C \<le> response_bytes r \<and> \<not> si_contact_coverage C)
        \<and> fr_status_code r < 400)"

definition deep_response ::
    "'w collector \<Rightarrow> site_scope \<Rightarrow> fetch_response option \<Rightarrow> ranked_page \<Rightarrow> ('w, fetch_response) program" where
  "deep_response C sc cached r =
     (if reusable C cached then ret (the cached)
      else fetch (si_fetcher C) sc
             (if si_contact_coverage C \<and> rk_type r \<in> {Home_page, Contact_page} then 4000000 else si_deep_max_bytes C)
             (Some HTML_TYPES) False (rk_url r))"

definition outside_contact_scope :: "'w collector \<Rightarrow> site_scope \<Rightarrow> fetch_response \<Rightarrow> bool" where
  "outside_contact_scope C sc x \<longleftrightarrow>
     canonicalize_inventory_url (si_urls C) sc None (fr_final_url x) = None
   \<or> is_admin_page (si_urls C) (Some (fr_final_url x)) \<or> fr_truncated x"

definition deep_of_response ::
    "'w collector \<Rightarrow> site_scope \<Rightarrow> ranked_page \<Rightarrow> fetch_response \<Rightarrow> ('w, deep_snapshot) program" where
  "deep_of_response C sc r x =
     (if 400 \<le> fr_status_code x then throw (SiteFetchError ''http_error'' ''The deep page returned an HTTP error.'')
      else if si_contact_coverage C \<and> outside_contact_scope C sc x
      then throw (SiteFetchError ''unsafe_target'' ''Contact evidence is outside the allowed page scope.'')
      else
        (let html = decoded (si_lib C) x;
             t = extract_html_structure (si_urls C) (sb_html (si_lib C)) sc (fr_final_url x) 2000000 html
         in andThen (si_clock C) (\<lambda>now.
              reads_result (make_deep_snapshot (sb_http_url (si_lib C))
                \<lparr>dp_url = rk_url r, dp_final_url = fr_final_url x, dp_page_type = rk_type r,
                 dp_crawl_depth = pg_depth (rk_page r), dp_collected_at = now, dp_status_code = fr_status_code x,
                 dp_content_type = content_type_of x, dp_response_bytes = response_bytes x,
                 dp_content_checksum = ''sha256:'' @ sb_sha256 (si_lib C) (fr_body x),
                 dp_html = html, dp_text = ht_visible_text t, dp_title = ht_title t, dp_h1 = ht_h1 t\<rparr>))))"

definition take_deep_snapshot ::
    "'w collector \<Rightarrow> site_scope \<Rightarrow> fetch_response option \<Rightarrow> ranked_page \<Rightarrow> ('w, deep_snapshot) program" where
  "take_deep_snapshot C sc cached r = andThen (deep_response C sc cached r) (deep_of_response C sc r)"

text \<open>An attempt with its rank: the snapshot, or the code of the error.\<close>

record deep_outcome =
  do_rank :: nat
  do_ranked :: ranked_page
  do_result :: "string + deep_snapshot"

definition deep_done :: "deep_outcome \<Rightarrow> bool" where
  "deep_done x = (\<exists>d. do_result x = Inr d)"

lemma deep_done_code [code]: "deep_done x = (case do_result x of Inl _ \<Rightarrow> False | Inr _ \<Rightarrow> True)"
  by (auto simp: deep_done_def split: sum.splits)

definition deep_attempt_of ::
    "'w collector \<Rightarrow> site_scope \<Rightarrow> (string \<times> fetch_response) list \<Rightarrow> ranked_page \<Rightarrow> ('w, string + deep_snapshot) program" where
  "deep_attempt_of C sc responses r =
     handle (andThen (take_deep_snapshot C sc (map_of responses (rk_url r)) r) (\<lambda>d. ret (Inr d)))
       (\<lambda>e. if fetch_failed e then ret (Inl (inventory_error_code e)) else throw e)"

definition deep_skipped :: "'w collector \<Rightarrow> ranked_page \<Rightarrow> bool" where
  "deep_skipped C r \<longleftrightarrow>
     si_sampling_quality C
   \<and> (is_admin_page (si_urls C) (Some (rk_url r)) \<or> is_admin_page (si_urls C) (pg_final_url (rk_page r)))"

fun deep_attempts ::
    "'w collector \<Rightarrow> site_scope \<Rightarrow> (string \<times> fetch_response) list \<Rightarrow> nat \<Rightarrow> nat \<Rightarrow> nat \<Rightarrow> bool
     \<Rightarrow> ranked_page list \<Rightarrow> ('w, deep_outcome list) program" where
  "deep_attempts C sc responses limit rank successes contact [] = ret []"
| "deep_attempts C sc responses limit rank successes contact (r # rest) =
     (if deep_skipped C r then deep_attempts C sc responses limit (Suc rank) successes contact rest
      else if limit \<le> successes then ret []
      else if si_contact_coverage C \<and> ''contact_reserved'' \<in> set (rk_reasons r) \<and> contact
      then deep_attempts C sc responses limit (Suc rank) successes contact rest
      else
        andThen (deep_attempt_of C sc responses r) (\<lambda>x.
        andThen
          (case x of
             Inl _ \<Rightarrow> deep_attempts C sc responses limit (Suc rank) successes contact rest
           | Inr _ \<Rightarrow> deep_attempts C sc responses limit (Suc rank) (Suc successes)
                       (contact \<or> rk_type r = Contact_page) rest)
          (\<lambda>xs. ret (\<lparr>do_rank = rank, do_ranked = r, do_result = x\<rparr> # xs))))"

text \<open>The failed attempts fill what the successful ones leave free.\<close>

definition final_outcomes :: "nat \<Rightarrow> deep_outcome list \<Rightarrow> deep_outcome list" where
  "final_outcomes limit xs =
     sort_key do_rank
       (filter deep_done xs @ take (limit - length (filter deep_done xs)) (filter (\<lambda>x. \<not> deep_done x) xs))"

definition selected_of :: "deep_outcome \<Rightarrow> selected_page" where
  "selected_of x =
     (let r = do_ranked x
      in \<lparr>sl_url = rk_url r, sl_page_type = rk_type r, sl_crawl_depth = pg_depth (rk_page r),
          sl_score = rk_score r, sl_reasons = rk_reasons r, sl_deep_analyzed = deep_done x,
          sl_deep_snapshot = (case do_result x of Inl _ \<Rightarrow> None | Inr d \<Rightarrow> Some d)\<rparr>)"

definition attempt_of :: "string list \<Rightarrow> deep_outcome \<Rightarrow> deep_attempt" where
  "attempt_of final_urls x =
     \<lparr>da_url = rk_url (do_ranked x), da_rank = int (do_rank x), da_succeeded = deep_done x,
      da_selected_final = (rk_url (do_ranked x) \<in> set final_urls),
      da_error = (case do_result x of Inl code \<Rightarrow> Some code | Inr _ \<Rightarrow> None)\<rparr>"

definition deep_limitations :: "nat \<Rightarrow> deep_outcome list \<Rightarrow> string list" where
  "deep_limitations limit xs =
     (if length (filter deep_done xs) < limit then [''candidate_exhausted''] else [])
     @ (if list_all deep_done xs then [] else [''deep_page_failures_present''])"

definition deep_results ::
    "nat \<Rightarrow> deep_outcome list \<Rightarrow> exn + (selected_page list \<times> deep_attempt list \<times> string list)" where
  "deep_results limit xs =
     (let final = final_outcomes limit xs;
          selected = map selected_of final;
          attempts = map (attempt_of (map (\<lambda>x. rk_url (do_ranked x)) final)) xs
      in if list_all selected_page_valid selected \<and> list_all deep_attempt_valid attempts
         then Inr (selected, attempts, deep_limitations limit xs) else Inl ValidationError)"

definition collect_deep_pages ::
    "'w collector \<Rightarrow> site_scope \<Rightarrow> (string \<times> fetch_response) list \<Rightarrow> nat \<Rightarrow> ranked_page list
     \<Rightarrow> ('w, selected_page list \<times> deep_attempt list \<times> string list) program" where
  "collect_deep_pages C sc responses limit ranked =
     andThen (deep_attempts C sc responses limit 1 0 False ranked) (\<lambda>xs. reads_result (deep_results limit xs))"

subsection \<open>The homepage and its contacts\<close>

definition clamp :: "int \<Rightarrow> int \<Rightarrow> nat" where
  "clamp requested most = nat (min (max requested 1) most)"

definition root_error :: "exn \<Rightarrow> exn" where
  "root_error e =
     (if is_site_fetch_error e \<or> is_url_unreachable e
      then SiteInventoryCollectionError ''root_unreachable''
             ''The site homepage could not be reached for inventory collection.''
      else if is_url_safety e
      then SiteInventoryCollectionError ''unsafe_target'' ''The site homepage is not a safe public target.''
      else e)"

definition fetch_root :: "'w collector \<Rightarrow> site_scope \<Rightarrow> ('w, fetch_response) program" where
  "fetch_root C sc =
     andThen
       (handle (fetch (si_fetcher C) sc (si_structural_max_bytes C) (Some HTML_TYPES) (si_resource_limits C) (sc_root_url sc))
          (\<lambda>e. throw (root_error e)))
       (\<lambda>r. if 400 \<le> fr_status_code r
             then throw (SiteInventoryCollectionError ''root_unreachable'' ''The site homepage returned an HTTP error.'')
             else ret r)"

text \<open>What the scan for contacts gives: the page, the known URLs, whether the page is enough.\<close>

record contact_scan =
  sk_root_response :: fetch_response
  sk_links :: "string list"
  sk_known_urls :: "string list"
  sk_limitations :: "string list"

definition links_of_root ::
    "'w collector \<Rightarrow> site_scope \<Rightarrow> fetch_response \<Rightarrow> exn + (string list \<times> string list)" where
  "links_of_root C sc r = discover_contacts (si_urls C) (sb_html (si_lib C)) sc (decoded (si_lib C) r)"

definition rescan_root ::
    "'w collector \<Rightarrow> site_scope \<Rightarrow> contact_scan \<Rightarrow> ('w, contact_scan) program" where
  "rescan_root C sc k =
     (let incomplete = k\<lparr>sk_limitations := [''contact_discovery_incomplete'']\<rparr>
      in handle
           (andThen (fetch (si_fetcher C) sc 4000000 (Some HTML_TYPES) False (sc_root_url sc)) (\<lambda>scan.
              if fr_status_code scan < 400 \<and> \<not> fr_truncated scan
              then andThen (reads_result (links_of_root C sc scan)) (\<lambda>(links, urls).
                     ret (k\<lparr>sk_root_response := scan, sk_links := links, sk_known_urls := urls\<rparr>))
              else ret incomplete))
           (\<lambda>e. if fetch_failed e then ret incomplete else throw e))"

definition scan_root ::
    "'w collector \<Rightarrow> site_scope \<Rightarrow> robots_policy \<Rightarrow> nat \<Rightarrow> nat \<Rightarrow> fetch_response \<Rightarrow> ('w, contact_scan) program" where
  "scan_root C sc rb limit deep_limit r =
     andThen (reads_result (links_of_root C sc r)) (\<lambda>(links, urls).
       let k = \<lparr>sk_root_response = r, sk_links = links, sk_known_urls = urls, sk_limitations = []\<rparr>
       in if links = [] \<and> fr_truncated r \<and> 2 \<le> limit \<and> 2 \<le> deep_limit \<and> robots_allowed rb (sc_root_url sc)
          then rescan_root C sc k else ret k)"

text \<open>The state of \<open>collect\<close> before the sitemaps.\<close>

record inventory_start =
  is_crawl :: crawl
  is_known_urls :: "string list"
  is_home_contact :: bool
  is_root_response :: fetch_response

definition start_with_contacts ::
    "'w collector \<Rightarrow> site_scope \<Rightarrow> robots_policy \<Rightarrow> nat \<Rightarrow> nat \<Rightarrow> contact_scan \<Rightarrow> inventory_start" where
  "start_with_contacts C sc rb limit deep_limit k =
     (let r = sk_root_response k;
          home_contact = (\<not> fr_truncated r \<and> home_contact_complete (si_urls C) (sb_html (si_lib C)) sc (decoded (si_lib C) r));
          contacts = (if length (unique (sc_root_url sc # sk_known_urls k)) \<le> 20 \<and> \<not> home_contact
                      then take 2 (filter (robots_allowed rb) (sk_links k)) else []);
          over_budget = (limit < 2 \<or> deep_limit < 2);
          cw = crawl_start (rb_limitations rb @ sk_limitations k
                 @ (if over_budget then [''contact_not_checked:budget_limit''] else []))
      in \<lparr>is_crawl = cw\<lparr>cw_contact_urls := (if over_budget then [] else contacts)\<rparr>,
          is_known_urls = sk_known_urls k, is_home_contact = home_contact, is_root_response = r\<rparr>)"

definition start_inventory ::
    "'w collector \<Rightarrow> site_scope \<Rightarrow> robots_policy \<Rightarrow> nat \<Rightarrow> nat \<Rightarrow> fetch_response \<Rightarrow> ('w, inventory_start) program" where
  "start_inventory C sc rb limit deep_limit r =
     (if si_contact_coverage C
      then andThen (scan_root C sc rb limit deep_limit r) (\<lambda>k. ret (start_with_contacts C sc rb limit deep_limit k))
      else ret \<lparr>is_crawl = crawl_start (rb_limitations rb), is_known_urls = [], is_home_contact = False,
                is_root_response = r\<rparr>)"

definition seed_crawl ::
    "'w collector \<Rightarrow> site_scope \<Rightarrow> robots_policy \<Rightarrow> nat \<Rightarrow> inventory_start \<Rightarrow> inventory_start" where
  "seed_crawl C sc rb limit s =
     (let cw = add_candidate C sc rb limit None (Some (is_root_response s)) (sc_root_url sc) Seed 0 (is_crawl s)
      in s\<lparr>is_crawl := fold (\<lambda>u. add_candidate C sc rb limit None None u Internal_link 1) (cw_contact_urls cw) cw\<rparr>)"

subsection \<open>Sitemaps\<close>

definition sitemap_limits_of :: "'w collector \<Rightarrow> nat \<Rightarrow> sitemap_limits" where
  "sitemap_limits_of C limit =
     \<lparr>sm_max_files = si_sitemap_max_files C, sm_max_depth = si_sitemap_max_depth C,
      sm_max_bytes = si_sitemap_max_bytes C, sm_max_decompressed_bytes = si_sitemap_decompressed_max_bytes C,
      sm_page_limit = (if si_contact_coverage C then max limit 21 else limit)\<rparr>"

text \<open>\<open>[u for u in urls if contact_path(u) and robots.allowed(u)]\<close>\<close>

fun contacts_among :: "robots_policy \<Rightarrow> string list \<Rightarrow> exn + string list" where
  "contacts_among rb [] = Inr []"
| "contacts_among rb (u # us) =
     (case contact_path u of
        Inl e \<Rightarrow> Inl e
      | Inr is_contact \<Rightarrow>
          map_sum id (\<lambda>rest. if is_contact \<and> robots_allowed rb u then u # rest else rest) (contacts_among rb us))"

definition use_sitemap_contacts ::
    "'w collector \<Rightarrow> robots_policy \<Rightarrow> nat \<Rightarrow> nat \<Rightarrow> string list \<Rightarrow> inventory_start
     \<Rightarrow> exn + (inventory_start \<times> string list)" where
  "use_sitemap_contacts C rb limit deep_limit urls s =
     (let cw = is_crawl s
      in if si_contact_coverage C \<and> \<not> is_home_contact s
            \<and> length (unique (urls @ map fst (cw_candidates cw) @ is_known_urls s)) \<le> 20
            \<and> 2 \<le> limit \<and> 2 \<le> deep_limit
         then map_sum id
                (\<lambda>found. let contacts = take 2 (unique (cw_contact_urls cw @ sort found))
                         in (s\<lparr>is_crawl := cw\<lparr>cw_contact_urls := contacts\<rparr>\<rparr>,
                             contacts @ filter (\<lambda>u. u \<notin> set contacts) urls))
                (contacts_among rb urls)
         else Inr (s, urls))"

definition take_sitemap ::
    "'w collector \<Rightarrow> site_scope \<Rightarrow> robots_policy \<Rightarrow> nat \<Rightarrow> nat \<Rightarrow> discovery_source \<Rightarrow> inventory_start
     \<Rightarrow> sitemap_result \<Rightarrow> exn + inventory_start" where
  "take_sitemap C sc rb limit deep_limit source s result =
     (let cw = is_crawl s;
          s1 = s\<lparr>is_crawl := cw\<lparr>cw_limitations := cw_limitations cw @ sr_limitations result\<rparr>\<rparr>
      in map_sum id
           (\<lambda>(s2, urls).
              s2\<lparr>is_known_urls := unique (is_known_urls s2 @ urls),
                 is_crawl := fold (\<lambda>u. add_candidate C sc rb limit None None u source 1) urls (is_crawl s2)\<rparr>)
           (use_sitemap_contacts C rb limit deep_limit (sr_page_urls result) s1))"

definition sitemap_phase ::
    "'w collector \<Rightarrow> site_scope \<Rightarrow> robots_policy \<Rightarrow> nat \<Rightarrow> nat \<Rightarrow> discovery_source \<Rightarrow> string list
     \<Rightarrow> inventory_start \<Rightarrow> ('w, inventory_start) program" where
  "sitemap_phase C sc rb limit deep_limit source sitemaps s =
     (if limit \<le> length (cw_candidates (is_crawl s)) then ret s
      else andThen
             (discover_sitemap_urls (si_fetcher C) (si_lib C) sc rb (sitemap_limits_of C limit) sitemaps)
             (\<lambda>result. reads_result (take_sitemap C sc rb limit deep_limit source s result)))"

definition sitemap_phases ::
    "'w collector \<Rightarrow> site_scope \<Rightarrow> robots_policy \<Rightarrow> nat \<Rightarrow> nat \<Rightarrow> inventory_start \<Rightarrow> ('w, inventory_start) program" where
  "sitemap_phases C sc rb limit deep_limit s =
     (let default_sitemap = site_file sc ''/sitemap.xml''
      in andThen
           (if rb_sitemaps rb = [] then ret s
            else sitemap_phase C sc rb limit deep_limit Robots_sitemap (rb_sitemaps rb) s)
           (\<lambda>s1. if default_sitemap \<in> set (rb_sitemaps rb) then ret s1
                  else sitemap_phase C sc rb limit deep_limit Default_sitemap [default_sitemap] s1))"

subsection \<open>The map of Firecrawl\<close>

definition firecrawl_phase ::
    "'w collector \<Rightarrow> site_scope \<Rightarrow> robots_policy \<Rightarrow> nat \<Rightarrow> crawl \<Rightarrow> ('w, crawl) program" where
  "firecrawl_phase C sc rb limit cw =
     (if limit \<le> length (cw_records cw) then ret cw
      else (case si_firecrawl C of
              None \<Rightarrow> ret (cw\<lparr>cw_limitations := cw_limitations cw @ [''firecrawl_unavailable'']\<rparr>)
            | Some site_map \<Rightarrow>
                andThen (site_map (sc_root_url sc) (int limit - int (length (cw_records cw)))) (\<lambda>m.
                  let noted = (case fm_limitation m of
                                 None \<Rightarrow> cw
                               | Some l \<Rightarrow> if l = [] then cw
                                           else cw\<lparr>cw_limitations := cw_limitations cw @ [l]\<rparr>)
                  in drain C sc rb limit
                       (fold (\<lambda>u. add_candidate C sc rb limit None None u Firecrawl_map 1) (fm_urls m) noted))))"

subsection \<open>The snapshot\<close>

abbreviation page_checked :: "page_record \<Rightarrow> bool" where
  "page_checked p \<equiv> pg_status p = Page_checked"

definition pages_of :: "nat \<Rightarrow> crawl \<Rightarrow> page_record list" where
  "pages_of limit cw = map snd (take limit (cw_records cw))"

definition finished_crawl :: "crawl \<Rightarrow> exn + crawl" where
  "finished_crawl cw =
     (let records = map snd (cw_records cw);
          noted = (if cw_truncated cw then cw\<lparr>cw_limitations := cw_limitations cw @ [''discovery_limit_reached'']\<rparr> else cw)
      in if list_ex page_checked records
         then Inr (if list_all page_checked records then noted
                   else noted\<lparr>cw_limitations := cw_limitations noted @ [''page_failures_present'']\<rparr>)
         else Inl (SiteInventoryCollectionError ''empty_inventory''
                ''No usable site pages were available for inventory collection.''))"

record inventory_request =
  ir_site_url :: string
  ir_discovery_limit :: int
  ir_deep_analysis_limit :: int
  ir_primary_service :: string
  ir_target_market :: string
  ir_gsc_priorities :: "gsc_priority list"

definition ranked_for_deep ::
    "'w collector \<Rightarrow> inventory_request \<Rightarrow> nat \<Rightarrow> nat \<Rightarrow> crawl \<Rightarrow> ranked_page list" where
  "ranked_for_deep C q limit deep_limit cw =
     (let pages = pages_of limit cw;
          checked = filter page_checked pages;
          ranked = select_key_pages (sb_log1p (si_lib C)) (ir_primary_service q) (ir_target_market q)
                     (ir_gsc_priorities q) (int (length checked)) checked
      in if si_contact_coverage C \<and> length pages \<le> 20 \<and> 2 \<le> deep_limit
         then prioritize_contacts (cw_contact_urls cw) checked ranked else ranked)"

definition counts_of :: "'a list \<Rightarrow> 'a list \<Rightarrow> ('a \<times> nat) list" where
  "counts_of labels xs =
     filter (\<lambda>(_, n). n \<noteq> 0) (map (\<lambda>l. (l, length (filter (\<lambda>x. x = l) xs))) labels)"

text \<open>The pages of the second version are built again from the fields of the first.\<close>

fun pages_v2 :: "(string \<Rightarrow> string option) \<Rightarrow> page_record list \<Rightarrow> exn + page_record list" where
  "pages_v2 http_url [] = Inr []"
| "pages_v2 http_url (p # ps) =
     (case make_page http_url (p\<lparr>pg_v2 := True\<rparr>) of
        Inl e \<Rightarrow> Inl e
      | Inr q \<Rightarrow> map_sum id (Cons q) (pages_v2 http_url ps))"

definition TRUNCATED_NOTE :: string where
  "TRUNCATED_NOTE = ''Some page content was not checked because only a bounded prefix was available for link discovery.''"

definition make_snapshot :: "(string \<Rightarrow> string option) \<Rightarrow> site_snapshot \<Rightarrow> exn + site_snapshot" where
  "make_snapshot http_url s =
     (case http_url (st_root_url s) of
        None \<Rightarrow> Inl ValidationError
      | Some u \<Rightarrow>
          if site_snapshot_valid (s\<lparr>st_root_url := u\<rparr>) \<and> (st_version s = Inventory_v1 \<or> list_all pg_v2 (st_pages s))
          then Inr (s\<lparr>st_root_url := u\<rparr>) else Inl ValidationError)"

definition inventory_snapshot_of ::
    "'w collector \<Rightarrow> site_scope \<Rightarrow> nat \<Rightarrow> nat \<Rightarrow> bool \<Rightarrow> timestamp \<Rightarrow> timestamp \<Rightarrow> crawl
     \<Rightarrow> selected_page list \<times> deep_attempt list \<times> string list \<Rightarrow> exn + site_snapshot" where
  "inventory_snapshot_of C sc limit deep_limit home_contact started_at completed_at cw deep =
     (case deep of
        (selected, attempts, deep_notes) \<Rightarrow>
          (let pages = pages_of limit cw;
               checked = filter page_checked pages;
               no_contact = (si_contact_coverage C \<and> \<not> home_contact
                 \<and> \<not> list_ex (\<lambda>p. sl_deep_analyzed p \<and> sl_page_type p = Contact_page) selected);
               notes = cw_limitations cw @ deep_notes
                 @ (if no_contact then [''contact_not_checked:coverage_incomplete''] else [])
                 @ (if si_resource_limits C \<and> list_ex pg_truncated pages then [TRUNCATED_NOTE] else [])
           in case (if si_resource_limits C then pages_v2 (sb_http_url (si_lib C)) pages else Inr pages) of
                Inl e \<Rightarrow> Inl e
              | Inr final_pages \<Rightarrow>
                  make_snapshot (sb_http_url (si_lib C))
                    \<lparr>st_version = (if si_contact_coverage C then Inventory_v3
                                   else if si_resource_limits C then Inventory_v2 else Inventory_v1),
                     st_root_url = sc_root_url sc, st_canonical_host = sc_canonical_host sc,
                     st_started_at = started_at, st_completed_at = completed_at,
                     st_discovery_limit = limit, st_deep_analysis_limit = deep_limit,
                     st_discovered_url_count = length pages, st_structurally_checked_count = length checked,
                     st_deep_analyzed_count = length (filter sl_deep_analyzed selected),
                     st_pages = final_pages, st_selected_pages = selected, st_deep_attempts = attempts,
                     st_page_type_counts = counts_of SITE_PAGE_TYPE_ORDER (map pg_type checked),
                     st_source_counts = counts_of DISCOVERY_SOURCE_ORDER (concat (map pg_sources pages)),
                     st_limitations = unique notes\<rparr>))"

subsection \<open>The whole collection\<close>

definition crawl_site ::
    "'w collector \<Rightarrow> site_scope \<Rightarrow> robots_policy \<Rightarrow> nat \<Rightarrow> nat \<Rightarrow> fetch_response \<Rightarrow> ('w, inventory_start) program" where
  "crawl_site C sc rb limit deep_limit r =
     andThen (start_inventory C sc rb limit deep_limit r) (\<lambda>s.
     andThen (sitemap_phases C sc rb limit deep_limit (seed_crawl C sc rb limit s)) (\<lambda>s1.
     andThen (drain C sc rb limit (is_crawl s1)) (\<lambda>cw.
     andThen (firecrawl_phase C sc rb limit cw) (\<lambda>cw'. ret (s1\<lparr>is_crawl := cw'\<rparr>)))))"

definition collect_inventory ::
    "'w collector \<Rightarrow> inventory_request \<Rightarrow> ('w, site_snapshot) program" where
  "collect_inventory C q =
     (let limit = clamp (ir_discovery_limit q) 500; deep_limit = clamp (ir_deep_analysis_limit q) 50
      in andThen (si_clock C) (\<lambda>started_at.
         andThen (reads_result (scope_from_root (si_urls C) (ir_site_url q))) (\<lambda>first_scope.
         andThen (fetch_root C first_scope) (\<lambda>r.
         andThen (reads_result (scope_from_root (si_urls C) (fr_final_url r))) (\<lambda>sc.
         andThen (load_robots (si_fetcher C) (si_lib C) sc (min (si_sitemap_max_bytes C) 1000000)) (\<lambda>rb.
         andThen (crawl_site C sc rb limit deep_limit r) (\<lambda>s.
         andThen (reads_result (finished_crawl (is_crawl s))) (\<lambda>cw.
         andThen (collect_deep_pages C sc (cw_responses cw) deep_limit (ranked_for_deep C q limit deep_limit cw)) (\<lambda>deep.
         andThen (si_clock C) (\<lambda>completed_at.
           reads_result (inventory_snapshot_of C sc limit deep_limit (is_home_contact s) started_at completed_at cw deep)))))))))))"

end
