(* ===== verification/Site_Traffic.thy ===== *)
theory Site_Traffic
  imports Site_Inventory
begin

text \<open>
  Where the requests of an inventory go: every program of the collection, down to the crawl loop
  and the search of sitemaps, sends only to targets that the resolver showed to be public.
\<close>

definition sends_only :: "(safe_target \<Rightarrow> bool) \<Rightarrow> ('w \<times> safe_target list, 'a) program \<Rightarrow> bool" where
  "sends_only P p \<longleftrightarrow> (\<forall>s. \<exists>new. snd (fst (p s)) = snd s @ new \<and> list_all P new)"

named_theorems traffic \<open>programs that send only where a predicate allows\<close>

lemma sends_onlyD:
  "sends_only P p \<Longrightarrow> p s = (s', r) \<Longrightarrow> \<exists>new. snd s' = snd s @ new \<and> list_all P new"
  unfolding sends_only_def by (metis fst_conv)

lemma sends_only_sends: "sends Q n p \<Longrightarrow> (\<And>t. Q t \<Longrightarrow> P t) \<Longrightarrow> sends_only P p"
  unfolding sends_def sends_only_def by (metis list_all_iff prod.collapse snd_conv)

lemma sends_only_ret [traffic]: "sends_only P (ret x)" "sends_only P (throw e)"
  by (simp_all add: sends_only_def ret_def throw_def)

lemma sends_only_reads_result [traffic]: "sends_only P (reads_result x)"
  by (cases x) (simp_all add: reads_result_def traffic)

lemma sends_only_on_first [traffic]: "sends_only P (on_first p)"
  by (auto simp: sends_only_def on_first_def split: prod.splits)

lemma sends_only_andThen [traffic]:
  assumes "sends_only P p" "\<And>a. sends_only P (f a)"
  shows "sends_only P (andThen p f)"
  unfolding sends_only_def
proof
  fix s
  obtain s' r where p: "p s = (s', r)" by fastforce
  obtain new where new: "snd s' = snd s @ new" "list_all P new" using sends_onlyD [OF assms(1) p] by auto
  show "\<exists>new. snd (fst (andThen p f s)) = snd s @ new \<and> list_all P new"
  proof (cases r)
    case (Inl e)
    then show ?thesis using p new by (simp add: andThen_def)
  next
    case (Inr a)
    obtain s2 r2 where f: "f a s' = (s2, r2)" by fastforce
    obtain more where "snd s2 = snd s' @ more" "list_all P more" using sends_onlyD [OF assms(2) f] by auto
    then show ?thesis using p f new Inr by (intro exI [of _ "new @ more"]) (simp add: andThen_def)
  qed
qed

lemma sends_only_handle [traffic]:
  assumes "sends_only P p" "\<And>e. sends_only P (h e)"
  shows "sends_only P (handle p h)"
  unfolding sends_only_def
proof
  fix s
  obtain s' r where p: "p s = (s', r)" by fastforce
  obtain new where new: "snd s' = snd s @ new" "list_all P new" using sends_onlyD [OF assms(1) p] by auto
  show "\<exists>new. snd (fst (handle p h s)) = snd s @ new \<and> list_all P new"
  proof (cases r)
    case (Inr a)
    then show ?thesis using p new by (simp add: handle_def)
  next
    case (Inl e)
    obtain s2 r2 where h: "h e s' = (s2, r2)" by fastforce
    obtain more where "snd s2 = snd s' @ more" "list_all P more" using sends_onlyD [OF assms(2) h] by auto
    then show ?thesis using p h new Inl by (intro exI [of _ "new @ more"]) (simp add: handle_def)
  qed
qed

lemma sends_only_if [traffic]: "sends_only P p \<Longrightarrow> sends_only P q \<Longrightarrow> sends_only P (if b then p else q)"
  by simp

lemma sends_only_option [traffic]:
  "sends_only P p \<Longrightarrow> (\<And>a. sends_only P (f a)) \<Longrightarrow> sends_only P (case v of None \<Rightarrow> p | Some a \<Rightarrow> f a)"
  by (cases v) simp_all

lemma sends_only_sum [traffic]:
  "(\<And>a. sends_only P (f a)) \<Longrightarrow> (\<And>a. sends_only P (g a)) \<Longrightarrow>
   sends_only P (case v of Inl a \<Rightarrow> f a | Inr a \<Rightarrow> g a)"
  by (cases v) simp_all

lemma sends_only_pair [traffic]:
  "(\<And>a b. sends_only P (f a b)) \<Longrightarrow> sends_only P (case v of (a, b) \<Rightarrow> f a b)"
  by (cases v) simp

lemma sends_only_Let [traffic]: "(\<And>a. sends_only P (f a)) \<Longrightarrow> sends_only P (let a = v in f a)"
  by simp

lemma sends_only_in_turn: "(\<And>x. sends_only P (p x)) \<Longrightarrow> sends_only P (in_turn p xs)"
  by (induction xs) (auto intro!: traffic)

lemma sends_only_search: "(\<And>u. sends_only P (read u)) \<Longrightarrow> sends_only P (search_sitemaps read allowed lm st)"
proof -
  have "(\<And>u. sends_only P (read u)) \<Longrightarrow>
      \<exists>new. snd (fst (search_sitemaps read allowed lm st s)) = snd s @ new \<and> list_all P new" for s
  proof (induction read allowed lm st s rule: search_sitemaps.induct)
    case (1 read allowed lm st s)
    show ?case
    proof (cases "search_over lm st")
      case True
      then show ?thesis by (simp add: search_sitemaps.simps)
    next
      case over: False
      obtain url depth where next_file: "hd (ss_queue st) = (url, depth)" by fastforce
      let ?popped = "st\<lparr>ss_queue := tl (ss_queue st)\<rparr>"
      show ?thesis
      proof (cases "url \<in> set (ss_visited st)")
        case True
        then show ?thesis using 1 over next_file search_sitemaps.simps [of read allowed lm st s] by simp
      next
        case False
        obtain s1 r where read: "read url s = (s1, r)" by fastforce
        obtain new where new: "snd s1 = snd s @ new" "list_all P new"
          using sends_onlyD [OF "1.prems" read] by auto
        show ?thesis
        proof (cases r)
          case (Inl e)
          then show ?thesis using over next_file False read new by (simp add: search_sitemaps.simps)
        next
          case (Inr d)
          let ?st = "visit_document allowed lm depth d (?popped\<lparr>ss_visited := ss_visited st @ [url]\<rparr>)"
          have "\<exists>more. snd (fst (search_sitemaps read allowed lm ?st s1)) = snd s1 @ more \<and> list_all P more"
            using "1.IH"(2) [OF over refl next_file [symmetric] refl False read [symmetric] Inr] "1.prems" by simp
          then show ?thesis using over next_file False read new Inr
            by (auto simp: search_sitemaps.simps [of read allowed lm st s] intro: exI [of _ "new @ _"])
        qed
      qed
    qed
  qed
  then show "(\<And>u. sends_only P (read u)) \<Longrightarrow> sends_only P (search_sitemaps read allowed lm st)"
    by (simp add: sends_only_def)
qed

lemma sends_only_drain:
  "(\<And>urls c. sends_only P (check_candidate C sc urls c)) \<Longrightarrow> sends_only P (drain C sc rb limit cw)"
proof -
  have "(\<And>urls c. sends_only P (check_candidate C sc urls c)) \<Longrightarrow>
      \<exists>new. snd (fst (drain C sc rb limit cw s)) = snd s @ new \<and> list_all P new" for s
  proof (induction C sc rb limit cw s rule: drain.induct)
    case (1 C sc rb limit cw s)
    show ?case
    proof (cases "cw_queue cw = [] \<or> batch_limit C cw = 0")
      case True
      then show ?thesis by (auto simp: drain.simps)
    next
      case False
      obtain batch cw1
        where pop: "pop_batch (si_contact_coverage C) (batch_limit C cw) [] (cw_queue cw) cw = (batch, cw1)"
        by fastforce
      let ?check = "in_turn (check_candidate C sc (cw_contact_urls cw)) batch"
      obtain s1 r where check: "?check s = (s1, r)" by fastforce
      have only: "sends_only P ?check" using "1.prems" by (rule sends_only_in_turn)
      obtain new where new: "snd s1 = snd s @ new" "list_all P new" using sends_onlyD [OF only check] by auto
      show ?thesis
      proof (cases r)
        case (Inl e)
        then show ?thesis using False pop check new by (simp add: drain.simps)
      next
        case (Inr checked)
        show ?thesis
        proof (cases "process_batch C sc rb limit checked cw1")
          case (Inl e)
          then show ?thesis using False pop check new Inr by (simp add: drain.simps)
        next
          case batch: (Inr cw2)
          have "\<exists>more. snd (fst (drain C sc rb limit cw2 s1)) = snd s1 @ more \<and> list_all P more"
            using False "1.IH" [OF _ _ pop [symmetric] check [symmetric] Inr batch] "1.prems" by simp
          then show ?thesis using False pop check new Inr batch
            by (auto simp: drain.simps [of C sc rb limit cw s] intro: exI [of _ "new @ _"])
        qed
      qed
    qed
  qed
  then show "(\<And>urls c. sends_only P (check_candidate C sc urls c)) \<Longrightarrow> sends_only P (drain C sc rb limit cw)"
    by (simp add: sends_only_def)
qed

subsection \<open>The collection beside its log\<close>

definition logged_collector :: "'w collector \<Rightarrow> ('w \<times> safe_target list) collector" where
  "logged_collector C =
     \<lparr>si_fetcher = logged (si_fetcher C), si_lib = si_lib C,
      si_firecrawl = map_option (\<lambda>site_map u n. on_first (site_map u n)) (si_firecrawl C),
      si_structural_max_bytes = si_structural_max_bytes C, si_sitemap_max_bytes = si_sitemap_max_bytes C,
      si_sitemap_decompressed_max_bytes = si_sitemap_decompressed_max_bytes C,
      si_sitemap_max_files = si_sitemap_max_files C, si_sitemap_max_depth = si_sitemap_max_depth C,
      si_batch_size = si_batch_size C, si_deep_max_bytes = si_deep_max_bytes C,
      si_resource_limits = si_resource_limits C, si_sampling_quality = si_sampling_quality C,
      si_contact_coverage = si_contact_coverage C, si_clock = on_first (si_clock C)\<rparr>"

lemma fetch_sends:
  "sends (site_target (fe_lib F) sc) (Suc (fe_max_redirects F)) (fetch (logged F) sc max_bytes accepted allow_prefix url)"
proof -
  have "fe_max_redirects (logged F) = fe_max_redirects F" by (simp add: logged_def)
  then show ?thesis unfolding fetch_def by (intro sends_handle) (simp only: fetch_hops_sends)
qed

lemma sends_only_fetch [traffic]:
  "sends_only (public_target (fe_lib F)) (fetch (logged F) sc max_bytes accepted allow_prefix url)"
  by (rule sends_only_sends [OF fetch_sends]) (simp add: site_target_def)

lemma logged_collector_sel [simp]:
  "si_fetcher (logged_collector C) = logged (si_fetcher C)"
  "si_clock (logged_collector C) = on_first (si_clock C)"
  "fe_lib (logged F) = fe_lib F"
  "fe_apply_crawl_delay (logged F) d = on_first (fe_apply_crawl_delay F d)"
  by (simp_all add: logged_collector_def logged_def)

lemma traffic_fetch [traffic]:
  "sends_only (public_target (si_urls C)) (fetch (logged (si_fetcher C)) sc max_bytes accepted allow_prefix url)"
  by (rule sends_only_fetch)

lemma traffic_check [traffic]: "sends_only (public_target (si_urls C)) (check_candidate (logged_collector C) sc urls c)"
  unfolding check_candidate_def by (auto intro!: traffic)

lemma traffic_sitemaps [traffic]:
  "sends_only (public_target (si_urls C)) (discover_sitemap_urls (logged (si_fetcher C)) B sc rb lm urls)"
  unfolding discover_sitemap_urls_def read_sitemap_def by (auto intro!: traffic sends_only_search)

lemma traffic_robots [traffic]:
  "sends_only (public_target (si_urls C)) (load_robots (logged (si_fetcher C)) B sc max_bytes)"
  unfolding load_robots_def by (auto intro!: traffic)

lemma traffic_deep [traffic]:
  "sends_only (public_target (si_urls C)) (deep_attempt_of (logged_collector C) sc responses r)"
  unfolding deep_attempt_of_def take_deep_snapshot_def deep_response_def deep_of_response_def Let_def
  by (auto intro!: traffic)

lemma traffic_deep_attempts [traffic]:
  "sends_only (public_target (si_urls C)) (deep_attempts (logged_collector C) sc responses limit rank successes contact ranked)"
proof (induction ranked arbitrary: rank successes contact)
  case (Cons r ranked)
  show ?case unfolding deep_attempts.simps by (intro traffic Cons.IH)
qed (simp add: traffic)

lemma traffic_deep_pages [traffic]:
  "sends_only (public_target (si_urls C)) (collect_deep_pages (logged_collector C) sc responses limit ranked)"
  unfolding collect_deep_pages_def by (auto intro!: traffic)

lemma traffic_root [traffic]: "sends_only (public_target (si_urls C)) (fetch_root (logged_collector C) sc)"
  unfolding fetch_root_def by (auto intro!: traffic)

lemma traffic_start [traffic]:
  "sends_only (public_target (si_urls C)) (start_inventory (logged_collector C) sc rb limit deep_limit r)"
  unfolding start_inventory_def scan_root_def rescan_root_def Let_def by (auto intro!: traffic)

lemma traffic_sitemap_phases [traffic]:
  "sends_only (public_target (si_urls C)) (sitemap_phases (logged_collector C) sc rb limit deep_limit s)"
  unfolding sitemap_phases_def sitemap_phase_def Let_def by (auto intro!: traffic)

lemma traffic_firecrawl [traffic]:
  "sends_only (public_target (si_urls C)) (firecrawl_phase (logged_collector C) sc rb limit cw)"
proof (cases "si_firecrawl C")
  case None
  then show ?thesis by (simp add: firecrawl_phase_def logged_collector_def traffic)
next
  case (Some site_map)
  then have "si_firecrawl (logged_collector C) = Some (\<lambda>u n. on_first (site_map u n))"
    by (simp add: logged_collector_def)
  then show ?thesis by (auto simp: firecrawl_phase_def Let_def intro!: traffic sends_only_drain)
qed

lemma traffic_crawl [traffic]:
  "sends_only (public_target (si_urls C)) (crawl_site (logged_collector C) sc rb limit deep_limit r)"
  unfolding crawl_site_def by (auto intro!: traffic sends_only_drain)

lemma traffic_collect: "sends_only (public_target (si_urls C)) (collect_inventory (logged_collector C) q)"
  unfolding collect_inventory_def Let_def by (auto intro!: traffic)

end
