(* ===== verification/Site_Log.thy ===== *)
theory Site_Log
  imports Site_Traffic
begin

text \<open>
  The sent of the requests stands beside the collection and changes nothing of it: with the sent,
  every program ends in the same state with the same result.
\<close>

definition mirrors :: "('w \<times> 'l, 'a) program \<Rightarrow> ('w, 'a) program \<Rightarrow> bool" where
  "mirrors p q \<longleftrightarrow> (\<forall>w sent. \<exists>sent'. p (w, sent) = ((fst (q w), sent'), snd (q w)))"

named_theorems mirroring \<open>programs beside a sent\<close>

lemma mirrorsD: "mirrors p q \<Longrightarrow> q w = (w', r) \<Longrightarrow> \<exists>sent'. p (w, sent) = ((w', sent'), r)"
  unfolding mirrors_def by (metis fst_conv snd_conv)

lemma mirrors_ret [mirroring]: "mirrors (ret x) (ret x)" "mirrors (throw e) (throw e)"
  by (simp_all add: mirrors_def ret_def throw_def)

lemma mirrors_reads_result [mirroring]: "mirrors (reads_result x) (reads_result x)"
  by (cases x) (simp_all add: reads_result_def mirroring)

lemma mirrors_on_first [mirroring]: "mirrors (on_first p) p"
  by (simp add: mirrors_def on_first_def case_prod_beta)

lemma mirrors_logging [mirroring]: "mirrors (logging client t) (client t)"
  by (simp add: mirrors_def logging_def case_prod_beta)

lemma mirrors_andThen [mirroring]:
  assumes "mirrors p q" "\<And>a. mirrors (f a) (g a)"
  shows "mirrors (andThen p f) (andThen q g)"
  unfolding mirrors_def
proof (intro allI)
  fix w and sent :: 'b
  obtain w1 r where q: "q w = (w1, r)" by fastforce
  obtain log1 where p: "p (w, sent) = ((w1, log1), r)" using mirrorsD [OF assms(1) q] by auto
  show "\<exists>sent'. andThen p f (w, sent) = ((fst (andThen q g w), sent'), snd (andThen q g w))"
    using p q assms(2) by (cases r) (auto simp: andThen_def mirrors_def)
qed

lemma mirrors_handle [mirroring]:
  assumes "mirrors p q" "\<And>e. mirrors (f e) (g e)"
  shows "mirrors (handle p f) (handle q g)"
  unfolding mirrors_def
proof (intro allI)
  fix w and sent :: 'b
  obtain w1 r where q: "q w = (w1, r)" by fastforce
  obtain log1 where p: "p (w, sent) = ((w1, log1), r)" using mirrorsD [OF assms(1) q] by auto
  show "\<exists>sent'. handle p f (w, sent) = ((fst (handle q g w), sent'), snd (handle q g w))"
    using p q assms(2) by (cases r) (auto simp: handle_def mirrors_def)
qed

lemma mirrors_if [mirroring]:
  "(b \<Longrightarrow> mirrors p p') \<Longrightarrow> (\<not> b \<Longrightarrow> mirrors q q') \<Longrightarrow> mirrors (if b then p else q) (if b then p' else q')"
  by simp

lemma mirrors_option [mirroring]:
  "mirrors p q \<Longrightarrow> (\<And>a. mirrors (f a) (g a)) \<Longrightarrow>
   mirrors (case v of None \<Rightarrow> p | Some a \<Rightarrow> f a) (case v of None \<Rightarrow> q | Some a \<Rightarrow> g a)"
  by (cases v) simp_all

lemma mirrors_sum [mirroring]:
  "(\<And>a. mirrors (f a) (f' a)) \<Longrightarrow> (\<And>a. mirrors (g a) (g' a)) \<Longrightarrow>
   mirrors (case v of Inl a \<Rightarrow> f a | Inr a \<Rightarrow> g a) (case v of Inl a \<Rightarrow> f' a | Inr a \<Rightarrow> g' a)"
  by (cases v) simp_all

lemma mirrors_pair [mirroring]:
  "(\<And>a b. mirrors (f a b) (g a b)) \<Longrightarrow> mirrors (case v of (a, b) \<Rightarrow> f a b) (case v of (a, b) \<Rightarrow> g a b)"
  by (cases v) simp

lemma mirrors_Let [mirroring]: "(\<And>a. mirrors (f a) (g a)) \<Longrightarrow> mirrors (let a = v in f a) (let a = v in g a)"
  by simp

lemma mirrors_in_turn [mirroring]: "(\<And>x. mirrors (p x) (q x)) \<Longrightarrow> mirrors (in_turn p xs) (in_turn q xs)"
  by (induction xs) (auto intro!: mirroring)

subsection \<open>The fetches\<close>

lemma logged_sel [simp]:
  "fe_resolver (logged F) = (\<lambda>h. on_first (fe_resolver F h))" "fe_wait (logged F) = on_first (fe_wait F)"
  "fe_send (logged F) = logging (fe_send F)" "fe_max_redirects (logged F) = fe_max_redirects F"
  "fe_redirect_limit_code (logged F) = fe_redirect_limit_code F"
  by (simp_all add: logged_def)

lemma mirrors_resolve [mirroring]:
  "mirrors (resolve_public_url L (\<lambda>h. on_first (resolver h)) url) (resolve_public_url L resolver url)"
  unfolding resolve_public_url_def lookup_addresses_def by (auto intro!: mirroring)

lemma mirrors_fetch_hops [mirroring]:
  "mirrors (fetch_hops (logged F) sc max_bytes accepted allow_prefix initial_url n url)
     (fetch_hops F sc max_bytes accepted allow_prefix initial_url n url)"
  by (induction n arbitrary: url) (auto simp: Let_def intro!: mirroring)

lemma mirrors_fetch [mirroring]:
  "mirrors (fetch (logged F) sc max_bytes accepted allow_prefix url) (fetch F sc max_bytes accepted allow_prefix url)"
  unfolding fetch_def by (auto intro!: mirroring)

lemma mirrors_search [mirroring]:
  "(\<And>u. mirrors (p u) (q u)) \<Longrightarrow> mirrors (search_sitemaps p allowed lm st) (search_sitemaps q allowed lm st)"
proof -
  have "(\<And>u. mirrors (p u) (q u)) \<Longrightarrow>
    \<exists>sent'. search_sitemaps p allowed lm st (w, sent)
      = ((fst (search_sitemaps q allowed lm st w), sent'), snd (search_sitemaps q allowed lm st w))" for w sent
  proof (induction q allowed lm st w arbitrary: sent rule: search_sitemaps.induct)
    case (1 q allowed lm st w)
    show ?case
    proof (cases "search_over lm st")
      case True
      then show ?thesis by (simp add: search_sitemaps.simps)
    next
      case over: False
      obtain url depth where next_file: "hd (ss_queue st) = (url, depth)" by fastforce
      obtain w1 r where q: "q url w = (w1, r)" by fastforce
      obtain log1 where p: "p url (w, sent) = ((w1, log1), r)" using mirrorsD [OF "1.prems" q] by auto
      note unfolds = search_sitemaps.simps [of p allowed lm st "(w, sent)"] search_sitemaps.simps [of q allowed lm st w]
      show ?thesis
      proof (cases "url \<in> set (ss_visited st)")
        case True
        then show ?thesis
          using "1.IH"(1) [OF over refl next_file [symmetric] refl True "1.prems"] over next_file
          by (simp add: unfolds)
      next
        case new: False
        show ?thesis
        proof (cases r)
          case (Inr d)
          then show ?thesis
            using "1.IH"(2) [OF over refl next_file [symmetric] refl new q [symmetric] Inr "1.prems"] over next_file new p q
            by (simp add: unfolds)
        qed (use over next_file new p q in \<open>simp add: unfolds\<close>)
      qed
    qed
  qed
  then show "(\<And>u. mirrors (p u) (q u)) \<Longrightarrow> ?thesis" by (simp add: mirrors_def)
qed

subsection \<open>The collection\<close>

lemma logged_collector_fields [simp]:
  "si_lib (logged_collector C) = si_lib C" "si_batch_size (logged_collector C) = si_batch_size C"
  "si_structural_max_bytes (logged_collector C) = si_structural_max_bytes C"
  "si_sitemap_max_bytes (logged_collector C) = si_sitemap_max_bytes C"
  "si_sitemap_decompressed_max_bytes (logged_collector C) = si_sitemap_decompressed_max_bytes C"
  "si_sitemap_max_files (logged_collector C) = si_sitemap_max_files C"
  "si_sitemap_max_depth (logged_collector C) = si_sitemap_max_depth C"
  "si_deep_max_bytes (logged_collector C) = si_deep_max_bytes C"
  "si_resource_limits (logged_collector C) = si_resource_limits C"
  "si_sampling_quality (logged_collector C) = si_sampling_quality C"
  "si_contact_coverage (logged_collector C) = si_contact_coverage C"
  "si_firecrawl (logged_collector C) = map_option (\<lambda>site_map u n. on_first (site_map u n)) (si_firecrawl C)"
  by (simp_all add: logged_collector_def)

text \<open>What decides without the server is the same.\<close>

lemma logged_decisions [simp]:
  "add_candidate (logged_collector C) = add_candidate C"
  "check_response (logged_collector C) = check_response C"
  "failed_record (logged_collector C) = failed_record C"
  "keep_record (logged_collector C) = keep_record C"
  "batch_limit (logged_collector C) = batch_limit C"
  "reusable (logged_collector C) = reusable C"
  "outside_contact_scope (logged_collector C) = outside_contact_scope C"
  "deep_skipped (logged_collector C) = deep_skipped C"
  "links_of_root (logged_collector C) = links_of_root C"
  "start_with_contacts (logged_collector C) = start_with_contacts C"
  "sitemap_limits_of (logged_collector C) = sitemap_limits_of C"
  "use_sitemap_contacts (logged_collector C) = use_sitemap_contacts C"
  "ranked_for_deep (logged_collector C) = ranked_for_deep C"
  "inventory_snapshot_of (logged_collector C) = inventory_snapshot_of C"
  unfolding add_candidate_def check_response_def page_structure_def page_classification_def
      checked_record_def failed_record_def keep_record_def batch_limit_def reusable_def outside_contact_scope_def
      deep_skipped_def links_of_root_def start_with_contacts_def sitemap_limits_of_def use_sitemap_contacts_def
      ranked_for_deep_def inventory_snapshot_of_def logged_collector_fields logged_collector_sel
  by (rule refl)+

lemma logged_links [simp]:
  "add_links (logged_collector C) = add_links C" "seed_crawl (logged_collector C) = seed_crawl C"
  "take_sitemap (logged_collector C) = take_sitemap C"
  unfolding add_links_def seed_crawl_def take_sitemap_def logged_decisions by (rule refl)+

lemma logged_process [simp]: "process_checked (logged_collector C) = process_checked C"
  unfolding process_checked_def logged_links logged_decisions logged_collector_fields by (rule refl)

lemma logged_process_batch [simp]: "process_batch (logged_collector C) sc rb limit ks cw = process_batch C sc rb limit ks cw"
  by (induction ks arbitrary: cw) (auto split: sum.splits)

lemma mirrors_check [mirroring]: "mirrors (check_candidate (logged_collector C) sc urls c) (check_candidate C sc urls c)"
  unfolding check_candidate_def by (auto intro!: mirroring)

lemma mirrors_drain [mirroring]: "mirrors (drain (logged_collector C) sc rb limit cw) (drain C sc rb limit cw)"
proof -
  have "\<exists>sent'. drain (logged_collector C) sc rb limit cw (w, sent)
      = ((fst (drain C sc rb limit cw w), sent'), snd (drain C sc rb limit cw w))" for w sent
  proof (induction C sc rb limit cw w arbitrary: sent rule: drain.induct)
    case (1 C sc rb limit cw w)
    note unfolds = drain.simps [of "logged_collector C" sc rb limit cw "(w, sent)"] drain.simps [of C sc rb limit cw w]
    obtain batch cw1
      where pop: "pop_batch (si_contact_coverage C) (batch_limit C cw) [] (cw_queue cw) cw = (batch, cw1)"
      by fastforce
    obtain w1 r where check: "in_turn (check_candidate C sc (cw_contact_urls cw)) batch w = (w1, r)" by fastforce
    have "mirrors (in_turn (check_candidate (logged_collector C) sc (cw_contact_urls cw)) batch)
        (in_turn (check_candidate C sc (cw_contact_urls cw)) batch)"
      by (intro mirroring)
    from mirrorsD [OF this check, of sent] obtain log1
      where check': "in_turn (check_candidate (logged_collector C) sc (cw_contact_urls cw)) batch (w, sent) = ((w1, log1), r)"
      by auto
    show ?case
    proof (cases "cw_queue cw = [] \<or> batch_limit C cw = 0")
      case True
      then show ?thesis by (auto simp: unfolds)
    next
      case False
      show ?thesis
      proof (cases r)
        case (Inl e)
        then show ?thesis using False pop check check' by (simp add: unfolds)
      next
        case (Inr checked)
        show ?thesis
        proof (cases "process_batch C sc rb limit checked cw1")
          case (Inl e)
          then show ?thesis using False pop check check' Inr by (simp add: unfolds)
        next
          case batch: (Inr cw2)
          then show ?thesis
            using False "1.IH" [OF _ _ pop [symmetric] check [symmetric] Inr batch] pop check check' Inr
            by (simp add: unfolds)
        qed
      qed
    qed
  qed
  then show ?thesis by (simp add: mirrors_def)
qed

lemma mirrors_sitemaps [mirroring]:
  "mirrors (discover_sitemap_urls (logged F) B sc rb lm urls) (discover_sitemap_urls F B sc rb lm urls)"
  unfolding discover_sitemap_urls_def read_sitemap_def by (auto intro!: mirroring)

lemma mirrors_robots [mirroring]: "mirrors (load_robots (logged F) B sc max_bytes) (load_robots F B sc max_bytes)"
  unfolding load_robots_def by (auto intro!: mirroring)

lemma mirrors_deep [mirroring]:
  "mirrors (deep_attempt_of (logged_collector C) sc responses r) (deep_attempt_of C sc responses r)"
  unfolding deep_attempt_of_def take_deep_snapshot_def deep_response_def deep_of_response_def Let_def
  by (auto intro!: mirroring)

lemma mirrors_deep_attempts [mirroring]:
  "mirrors (deep_attempts (logged_collector C) sc responses limit rank successes contact ranked)
     (deep_attempts C sc responses limit rank successes contact ranked)"
  by (induction ranked arbitrary: rank successes contact) (auto intro!: mirroring)

lemma mirrors_phases [mirroring]:
  "mirrors (fetch_root (logged_collector C) sc) (fetch_root C sc)"
  "mirrors (start_inventory (logged_collector C) sc rb limit deep_limit r) (start_inventory C sc rb limit deep_limit r)"
  "mirrors (sitemap_phases (logged_collector C) sc rb limit deep_limit s) (sitemap_phases C sc rb limit deep_limit s)"
  unfolding fetch_root_def start_inventory_def scan_root_def rescan_root_def sitemap_phases_def sitemap_phase_def Let_def
  by (auto intro!: mirroring)

lemma mirrors_firecrawl [mirroring]:
  "mirrors (firecrawl_phase (logged_collector C) sc rb limit cw) (firecrawl_phase C sc rb limit cw)"
  by (cases "si_firecrawl C") (auto simp: firecrawl_phase_def Let_def intro!: mirroring)

lemma mirrors_collect: "mirrors (collect_inventory (logged_collector C) q) (collect_inventory C q)"
  unfolding collect_inventory_def crawl_site_def collect_deep_pages_def Let_def by (auto intro!: mirroring)

text \<open>The requests of a collection, in their order.\<close>

definition requests_of :: "'w collector \<Rightarrow> inventory_request \<Rightarrow> 'w \<Rightarrow> safe_target list" where
  "requests_of C q w = snd (fst (collect_inventory (logged_collector C) q (w, [])))"

end
