(* ===== verification/Site_Example.thy ===== *)
theory Site_Example
  imports Site_Log
begin

text \<open>
  A site in memory, for the witnesses: the pages a, b and c of one host, with robots rules that
  forbid d. The home page links to b and c, b links to c and d; old redirects to b.
\<close>

definition example_urls :: url_lib where
  "example_urls =
     \<lparr>ul_idna = Some,
      ul_ip = (\<lambda>h. if h = ''93.184.216.34'' then Some \<lparr>ad_text = h, ad_global = True, ad_ipv4_mapped = False\<rparr> else None),
      ul_unquote = (\<lambda>s. s), ul_quote_plus = (\<lambda>s. s)\<rparr>"

definition example_reply :: "int \<Rightarrow> string \<Rightarrow> string \<Rightarrow> string \<Rightarrow> http_reply" where
  "example_reply status location body url =
     \<lparr>rp_status = status, rp_location = location, rp_content_type = ''text/html'', rp_content_length = [],
      rp_chunks = [body], rp_url = url\<rparr>"

definition example_server :: "string \<Rightarrow> http_reply" where
  "example_server url =
     (if url = ''http://a.co/'' then example_reply 200 [] ''A'' url
      else if url = ''http://a.co/b'' then example_reply 200 [] ''B'' url
      else if url = ''http://a.co/c'' then example_reply 200 [] ''C'' url
      else if url = ''http://a.co/robots.txt'' then example_reply 200 [] ''R'' url
      else if url = ''http://a.co/old'' then example_reply 301 ''/b'' [] url
      else example_reply 404 [] [] url)"

definition example_fetcher :: "unit fetcher" where
  "example_fetcher =
     \<lparr>fe_lib = example_urls, fe_resolver = (\<lambda>_. ret (Some [''93.184.216.34''])), fe_wait = ret (),
      fe_send = (\<lambda>t. ret (example_server (su_request_url t))), fe_apply_crawl_delay = (\<lambda>_. ret ()),
      fe_max_redirects = 3, fe_redirect_limit_code = ''http_error''\<rparr>"

definition link_to :: "string \<Rightarrow> html_event" where
  "link_to href = Start_tag ''a'' [(''href'', Some href)]"

definition example_html :: html_lib where
  "example_html =
     \<lparr>hl_events = (\<lambda>html.
        if html = ''A'' then [link_to ''/b'', link_to ''/c'']
        else if html = ''B'' then [link_to ''/c'', link_to ''/d'']
        else []),
      hl_json = (\<lambda>_. None)\<rparr>"

definition example_lib :: site_lib where
  "example_lib =
     \<lparr>sb_html = example_html, sb_decode = (\<lambda>_ body. body), sb_tags = (\<lambda>_. []),
      sb_robots = (\<lambda>_. \<lparr>rf_allowed = (\<lambda>u. u \<noteq> ''http://a.co/d''), rf_sitemaps = [], rf_agent_delay = None,
        rf_default_delay = None\<rparr>),
      sb_gunzip = (\<lambda>_ _. None), sb_xml = (\<lambda>_. None), sb_http_url = Some, sb_log1p = (\<lambda>x. x),
      sb_sha256 = (\<lambda>_. replicate 64 CHR ''a'')\<rparr>"

definition example_collector :: "nat \<Rightarrow> bool \<Rightarrow> unit collector" where
  "example_collector batch resource_limits =
     \<lparr>si_fetcher = example_fetcher, si_lib = example_lib, si_firecrawl = None,
      si_structural_max_bytes = 1000, si_sitemap_max_bytes = 1000, si_sitemap_decompressed_max_bytes = 1000,
      si_sitemap_max_files = 2, si_sitemap_max_depth = 1, si_batch_size = batch, si_deep_max_bytes = 1000,
      si_resource_limits = resource_limits, si_sampling_quality = False, si_contact_coverage = False,
      si_clock = ret 0\<rparr>"

definition example_scope :: site_scope where
  "example_scope =
     \<lparr>sc_root_url = ''http://a.co/'', sc_scheme = ''http'', sc_canonical_host = ''a.co'',
      sc_allowed_hosts = [''a.co'', ''www.a.co'']\<rparr>"

definition example_inventory :: inventory_request where
  "example_inventory =
     \<lparr>ir_site_url = ''http://a.co'', ir_discovery_limit = 10, ir_deep_analysis_limit = 2, ir_primary_service = [],
      ir_target_market = [], ir_gsc_priorities = []\<rparr>"

end
