(* ===== verification/Site_Laws.thy ===== *)
theory Site_Laws
  imports Site_Inventory
begin

text \<open>
  The selection of pages, the search of sitemaps, the rate limiter and the deep pages: what each
  of them keeps, for the properties of the site inventory.
\<close>

subsection \<open>Selection\<close>

text \<open>The pages chosen so far: of the ranked ones, under distinct URLs, within the limit and the caps.\<close>

definition blog_like :: "page_type \<Rightarrow> bool" where
  "blog_like t \<longleftrightarrow> t \<in> {Blog_post_page, Product_detail_page}"

definition type_count :: "page_type \<Rightarrow> ranked_page list \<Rightarrow> nat" where
  "type_count t rs = length (filter (\<lambda>r. rk_type r = t) rs)"

definition selection_ok :: "nat \<Rightarrow> ranked_page list \<Rightarrow> ranked_page list \<Rightarrow> bool" where
  "selection_ok limit ranked chosen \<longleftrightarrow>
     distinct (map rk_url chosen) \<and> length chosen \<le> limit \<and> set chosen \<subseteq> set ranked
   \<and> (\<forall>t. blog_like t \<longrightarrow> type_count t chosen \<le> max 2 (limit div 5))"

lemma capped_count:
  "capped limit r chosen \<longleftrightarrow> blog_like (rk_type r) \<and> max 2 (limit div 5) \<le> type_count (rk_type r) chosen"
  by (simp add: capped_def blog_like_def type_count_def)

lemma choose_page_ok:
  assumes "selection_ok limit ranked chosen" "r \<in> set ranked" "\<not> capped limit r chosen"
  shows "selection_ok limit ranked (choose_page limit r chosen)"
  using assms by (auto simp: selection_ok_def choose_page_def capped_count type_count_def)

lemma choose_page_prefix: "\<exists>more. choose_page limit r chosen = chosen @ more"
  by (simp add: choose_page_def)

lemma choose_page_in: "length chosen < limit \<Longrightarrow> rk_url r \<in> set (map rk_url (choose_page limit r chosen))"
  by (simp add: choose_page_def)

lemma cover_types_ok:
  assumes "selection_ok limit ranked chosen" "list_all (\<lambda>t. \<not> blog_like t) types"
  shows "selection_ok limit ranked (cover_types limit ranked types chosen)"
  using assms
proof (induction types arbitrary: chosen)
  case (Cons t types)
  show ?case
  proof (cases "find (\<lambda>r. rk_type r = t) ranked")
    case None
    then show ?thesis using Cons by simp
  next
    case (Some r)
    then have "r \<in> set ranked" "rk_type r = t" by (auto simp: find_Some_iff)
    then have "selection_ok limit ranked (choose_page limit r chosen)"
      using Cons.prems by (intro choose_page_ok) (auto simp: capped_count)
    then show ?thesis using Cons Some by simp
  qed
qed simp

lemma cover_types_prefix: "\<exists>more. cover_types limit ranked types chosen = chosen @ more"
proof (induction types arbitrary: chosen)
  case (Cons t types)
  have "\<exists>more. cover_types limit ranked types (choose_page limit r chosen) = chosen @ more" for r
    using Cons.IH [of "choose_page limit r chosen"] choose_page_prefix [of limit r chosen] by auto
  then show ?case using Cons.IH [of chosen] by (auto split: option.splits)
qed simp

lemma fill_pages_ok:
  assumes "selection_ok limit ranked chosen" "set items \<subseteq> set ranked"
  shows "selection_ok limit ranked (fill_pages limit items chosen)"
  using assms by (induction items arbitrary: chosen) (auto intro: choose_page_ok)

lemma fill_pages_prefix: "\<exists>more. fill_pages limit items chosen = chosen @ more"
proof (induction items arbitrary: chosen)
  case (Cons r items)
  obtain a where a: "choose_page limit r chosen = chosen @ a" using choose_page_prefix by blast
  obtain b where "fill_pages limit items (chosen @ a) = (chosen @ a) @ b" using Cons.IH by blast
  then show ?case using Cons.IH [of chosen] a by auto
qed simp

lemma capped_append: "capped limit r chosen \<Longrightarrow> capped limit r (chosen @ rest)"
  by (auto simp: capped_count type_count_def)

text \<open>With room left, a page is missing only because its URL is there or its type is capped.\<close>

lemma fill_pages_complete:
  assumes "length (fill_pages limit items chosen) < limit" "r \<in> set items"
  shows "rk_url r \<in> set (map rk_url (fill_pages limit items chosen)) \<or> capped limit r (fill_pages limit items chosen)"
  using assms
proof (induction items arbitrary: chosen)
  case (Cons x items)
  have room: "length chosen < limit"
    using Cons.prems(1) fill_pages_prefix [of limit "x # items" chosen] by (metis le_add1 length_append order_le_less_trans)
  show ?case
  proof (cases "r = x")
    case False
    then show ?thesis using Cons room by (auto split: if_splits)
  next
    case True
    show ?thesis
    proof (cases "capped limit x chosen")
      case capped: True
      then show ?thesis using room True fill_pages_prefix [of limit items chosen] capped_append by fastforce
    next
      case False
      have "rk_url x \<in> set (map rk_url (choose_page limit x chosen))" using room by (rule choose_page_in)
      then show ?thesis using room True False fill_pages_prefix [of limit items "choose_page limit x chosen"] by auto
    qed
  qed
qed simp

lemma rank_pages_set:
  "r \<in> set (rank_pages log1p texts priorities pages) \<longleftrightarrow>
   (\<exists>p \<in> set pages. page_eligible p \<and> r = rank_page log1p (business_tokens texts) priorities p)"
  by (auto simp: rank_pages_def)

lemma rank_page_page [simp]: "rk_page (rank_page log1p tokens priorities p) = p"
  by (simp add: rank_page_def Let_def)

definition selection_limit :: "int \<Rightarrow> nat" where
  "selection_limit requested = nat (min (max requested 0) 500)"

lemma selected_facts:
  fixes log1p service market priorities requested pages
  defines "chosen \<equiv> select_key_pages log1p service market priorities requested pages"
    and "ranked \<equiv> rank_pages log1p [service, market] priorities pages"
  shows "selection_ok (selection_limit requested) ranked chosen"
    and "\<And>r. length chosen < selection_limit requested \<Longrightarrow> r \<in> set ranked \<Longrightarrow>
      rk_url r \<in> set (map rk_url chosen) \<or> capped (selection_limit requested) r chosen"
    and "\<And>r. 0 < selection_limit requested \<Longrightarrow> r \<in> set ranked \<Longrightarrow> rk_type r = Home_page \<Longrightarrow>
      chosen \<noteq> [] \<and> rk_type (hd chosen) = Home_page"
proof -
  let ?limit = "selection_limit requested"
  let ?home = "case find (\<lambda>r. rk_type r = Home_page) ranked of None \<Rightarrow> [] | Some r \<Rightarrow> choose_page ?limit r []"
  let ?cover = "cover_types ?limit ranked COVERAGE_ORDER ?home"
  have chosen: "chosen = (if ?limit = 0 then [] else fill_pages ?limit ranked ?cover)"
    unfolding chosen_def ranked_def select_key_pages_def selection_limit_def Let_def by (rule refl)
  have empty: "selection_ok ?limit ranked []" by (simp add: selection_ok_def type_count_def)
  have "selection_ok ?limit ranked ?home"
  proof (cases "find (\<lambda>r. rk_type r = Home_page) ranked")
    case (Some r)
    then have "r \<in> set ranked" "rk_type r = Home_page" by (auto simp: find_Some_iff)
    then have "selection_ok ?limit ranked (choose_page ?limit r [])"
      by (intro choose_page_ok [OF empty]) (auto simp: capped_count blog_like_def)
    then show ?thesis using Some by simp
  qed (simp add: empty)
  moreover have "list_all (\<lambda>t. \<not> blog_like t) COVERAGE_ORDER" by (simp add: COVERAGE_ORDER_def blog_like_def)
  ultimately have "selection_ok ?limit ranked ?cover" by (rule cover_types_ok)
  then show "selection_ok ?limit ranked chosen" 
    using fill_pages_ok [of ?limit ranked ?cover ranked] empty by (cases "?limit = 0") (simp_all add: chosen)
  show "rk_url r \<in> set (map rk_url chosen) \<or> capped ?limit r chosen"
    if "length chosen < ?limit" "r \<in> set ranked" for r
  proof -
    have "?limit \<noteq> 0" using that(1) by linarith
    then have full: "chosen = fill_pages ?limit ranked ?cover" by (rule trans [OF chosen if_not_P])
    have "length (fill_pages ?limit ranked ?cover) < ?limit" using that(1) unfolding full .
    then show ?thesis unfolding full using that(2) by (rule fill_pages_complete)
  qed
  show "chosen \<noteq> [] \<and> rk_type (hd chosen) = Home_page"
    if limit: "0 < ?limit" and r: "r \<in> set ranked" "rk_type r = Home_page" for r
  proof -
    have "\<exists>x. find (\<lambda>r. rk_type r = Home_page) ranked = Some x" 
      using r find_None_iff [of "\<lambda>r. rk_type r = Home_page" ranked] by (cases "find (\<lambda>r. rk_type r = Home_page) ranked") auto
    then obtain x where x: "find (\<lambda>r. rk_type r = Home_page) ranked = Some x" ..
    then have type: "rk_type x = Home_page" by (auto simp: find_Some_iff)
    have home: "?home = [x]" unfolding x option.case using limit by (simp add: choose_page_def)
    obtain a where a: "?cover = [x] @ a" unfolding home using cover_types_prefix by blast
    obtain b where b: "fill_pages ?limit ranked ?cover = ?cover @ b" using fill_pages_prefix by blast
    have "?limit \<noteq> 0" using limit by linarith
    then have "chosen = fill_pages ?limit ranked ?cover" by (rule trans [OF chosen if_not_P])
    then have "chosen = ([x] @ a) @ b" using b unfolding a by (rule trans)
    then show ?thesis using type by simp
  qed
qed

subsection \<open>The search of sitemaps\<close>

lemma map_sum_Inr: "map_sum id f x = Inr y \<longleftrightarrow> (\<exists>a. x = Inr a \<and> y = f a)"
  by (cases x) auto

lemma add_pages_ok:
  assumes "distinct found" "length found < limit" "list_all Q found" "\<And>u. u \<in> set us \<Longrightarrow> allowed u \<Longrightarrow> Q u"
  shows "distinct (add_pages allowed limit found us) \<and> length (add_pages allowed limit found us) \<le> limit
    \<and> list_all Q (add_pages allowed limit found us)"
  using assms by (induction us arbitrary: found) auto

definition search_ok :: "sitemap_limits \<Rightarrow> (string \<Rightarrow> bool) \<Rightarrow> sitemap_search \<Rightarrow> bool" where
  "search_ok lm Q st \<longleftrightarrow>
     distinct (ss_visited st) \<and> length (ss_visited st) \<le> sm_max_files lm
   \<and> distinct (ss_found st) \<and> length (ss_found st) \<le> sm_page_limit lm \<and> list_all Q (ss_found st)"

lemma visit_document_ok:
  assumes "search_ok lm Q st" "\<not> search_over lm st" "url \<notin> set (ss_visited st)"
    and "case d of None \<Rightarrow> True | Some x \<Rightarrow> \<forall>u \<in> set (sd_page_urls x). allowed u \<longrightarrow> Q u"
  shows "search_ok lm Q (visit_document allowed lm depth d (st\<lparr>ss_queue := q, ss_visited := ss_visited st @ [url]\<rparr>))"
  using assms add_pages_ok [of "ss_found st" "sm_page_limit lm" Q]
  by (auto simp: search_ok_def search_over_def visit_document_def split: option.splits)

lemma search_sitemaps_ok:
  assumes read: "\<And>u w w' x. read u w = (w', Inr (Some x)) \<Longrightarrow> \<forall>p \<in> set (sd_page_urls x). allowed p \<longrightarrow> Q p"
  shows "search_ok lm Q st \<Longrightarrow> search_sitemaps read allowed lm st w = (w', Inr st') \<Longrightarrow> search_ok lm Q st'"
  using read
proof (induction read allowed lm st w rule: search_sitemaps.induct)
  case (1 read allowed lm st w)
  show ?case
  proof (cases "search_over lm st")
    case True
    then show ?thesis using "1.prems" by (simp add: search_sitemaps.simps)
  next
    case over: False
    obtain url depth where next_file: "hd (ss_queue st) = (url, depth)" by fastforce
    note unfolds = search_sitemaps.simps [of read allowed lm st w]
    show ?thesis
    proof (cases "url \<in> set (ss_visited st)")
      case True
      have "search_ok lm Q (st\<lparr>ss_queue := tl (ss_queue st)\<rparr>)" using "1.prems"(1) by (simp add: search_ok_def)
      then show ?thesis
        using "1.IH"(1) [OF over refl next_file [symmetric] refl True _ _ "1.prems"(3)] "1.prems"(2) over next_file True
        by (simp add: unfolds)
    next
      case False
      obtain w1 d where read: "read url w = (w1, Inr d)"
        using "1.prems"(2) over next_file False by (auto simp: unfolds split: prod.splits sum.splits)
      have "case d of None \<Rightarrow> True | Some x \<Rightarrow> \<forall>u \<in> set (sd_page_urls x). allowed u \<longrightarrow> Q u"
        using "1.prems"(3) read by (cases d) auto
      from visit_document_ok [OF "1.prems"(1) over False this]
      have "search_ok lm Q (visit_document allowed lm depth d
          (st\<lparr>ss_queue := tl (ss_queue st), ss_visited := ss_visited st @ [url]\<rparr>))" .
      then show ?thesis
        using "1.IH"(2) [OF over refl next_file [symmetric] refl False read [symmetric] refl _ _ "1.prems"(3)]
          "1.prems"(2) over next_file False read
        by (simp add: unfolds)
    qed
  qed
qed

lemma new_resources_canonical:
  "u \<in> set (new_resources canonical urls raws) \<Longrightarrow> u \<in> set urls \<or> (\<exists>raw \<in> set raws. canonical raw = Some u)"
proof (induction raws arbitrary: urls)
  case (Cons raw raws)
  let ?urls = "case canonical raw of None \<Rightarrow> urls | Some v \<Rightarrow> add_new v urls"
  have "u \<in> set ?urls \<or> (\<exists>raw \<in> set raws. canonical raw = Some u)" using Cons.IH [of ?urls] Cons.prems by simp
  then show ?case by (auto simp: add_new_def split: option.splits if_splits)
qed simp

lemma new_resources_from: "u \<in> set (new_resources canonical [] raws) \<Longrightarrow> \<exists>raw. canonical raw = Some u"
  using new_resources_canonical [of u canonical "[]" raws] by auto

lemma sitemap_document_pages:
  assumes "parse_sitemap_document L B sc n source body = Inr d" "u \<in> set (sd_page_urls d)"
  shows "\<exists>raw. canonicalize_inventory_url L sc (Some source) raw = Some u"
  using assms
  by (auto simp: parse_sitemap_document_def intro: new_resources_from
      split: sum.splits option.splits if_splits)

definition site_page :: "url_lib \<Rightarrow> site_scope \<Rightarrow> string \<Rightarrow> bool" where
  "site_page L sc u \<longleftrightarrow> (\<exists>base raw. canonicalize_inventory_url L sc base raw = Some u)"

lemma read_sitemap_pages:
  assumes "read_sitemap F B sc lm url w = (w', Inr (Some d))" "u \<in> set (sd_page_urls d)"
  shows "site_page (fe_lib F) sc u"
proof -
  obtain n source body where "parse_sitemap_document (fe_lib F) B sc n source body = Inr d"
    using assms(1)
    by (auto simp: read_sitemap_def handle_def andThen_def throw_def ret_def reads_result_def map_sum_Inr
        split: prod.splits sum.splits if_splits)
  from sitemap_document_pages [OF this assms(2)] show ?thesis by (auto simp: site_page_def)
qed

lemma discover_sitemap_ok:
  assumes "discover_sitemap_urls F B sc rb lm urls w = (w', Inr result)"
  shows "distinct (sr_page_urls result) \<and> length (sr_page_urls result) \<le> sm_page_limit lm
    \<and> list_all (\<lambda>u. site_page (fe_lib F) sc u \<and> robots_allowed rb u) (sr_page_urls result)
    \<and> sr_fetched_sitemaps result \<le> sm_max_files lm"
proof -
  let ?Q = "\<lambda>u. site_page (fe_lib F) sc u \<and> robots_allowed rb u"
  obtain st where search: "search_sitemaps (read_sitemap F B sc lm) (robots_allowed rb) lm (start_search (fe_lib F) sc urls) w
      = (w', Inr st)" and result: "result = finish_search lm st"
    using assms by (auto simp: discover_sitemap_urls_def andThen_def ret_def split: prod.splits sum.splits)
  have "search_ok lm ?Q st"
    by (rule search_sitemaps_ok [OF _ _ search]) (auto simp: search_ok_def start_search_def dest: read_sitemap_pages)
  then show ?thesis by (simp add: result finish_search_def search_ok_def)
qed

subsection \<open>The rate limiter\<close>

text \<open>A clock that is read without an effect, and a sleep that lets at least its time pass.\<close>

definition honest_clock :: "('w \<Rightarrow> rat) \<Rightarrow> ('w, rat) program \<Rightarrow> (rat \<Rightarrow> ('w, unit) program) \<Rightarrow> bool" where
  "honest_clock time clock sleep \<longleftrightarrow>
     (\<forall>w. clock w = (w, Inr (time w))) \<and> (\<forall>d w w'. sleep d w = (w', Inr ()) \<longrightarrow> time w + d \<le> time w')"

lemma limiter_wait_slot:
  assumes "honest_clock time clock sleep" "limiter_wait clock sleep (w, l) = ((w', l'), Inr ())"
  shows "rl_next_allowed l \<le> time w'" "time w' + rl_interval l \<le> rl_next_allowed l'"
    "rl_interval l' = rl_interval l"
proof -
  have clock: "clock w = (w, Inr (time w))" for w using assms(1) by (simp add: honest_clock_def)
  have sleep: "time w + d \<le> time w'" if "sleep d w = (w', Inr ())" for d w w'
    using assms(1) that by (simp add: honest_clock_def)
  have "rl_next_allowed l \<le> time w' \<and> l' = l\<lparr>rl_next_allowed := max (time w') (rl_next_allowed l) + rl_interval l\<rparr>"
    using assms(2)
    by (auto simp: limiter_wait_def andThen_def on_first_def ret_def clock max_def
        split: prod.splits sum.splits if_splits dest: sleep)
  then show "rl_next_allowed l \<le> time w'" "time w' + rl_interval l \<le> rl_next_allowed l'"
    "rl_interval l' = rl_interval l" by auto
qed

lemma deep_done_simps [simp]:
  "\<not> deep_done \<lparr>do_rank = n, do_ranked = r, do_result = Inl c\<rparr>"
  "deep_done \<lparr>do_rank = n, do_ranked = r, do_result = Inr d\<rparr>"
  by (simp_all add: deep_done_def)

subsection \<open>Deep pages\<close>

lemma deep_attempts_bound:
  "deep_attempts C sc responses limit rank successes contact ranked w = (w', Inr xs) \<Longrightarrow> successes \<le> limit \<Longrightarrow>
   successes + length (filter deep_done xs) \<le> limit
   \<and> sorted_wrt (<) (map do_rank xs) \<and> (\<forall>x \<in> set xs. rank \<le> do_rank x \<and> do_rank x < rank + length ranked
      \<and> ranked ! (do_rank x - rank) = do_ranked x)"
proof (induction ranked arbitrary: rank successes contact w xs)
  case (Cons r ranked)
  have later: "sorted_wrt (<) (map do_rank ys) \<and> (\<forall>x \<in> set ys. rank < do_rank x \<and> do_rank x < rank + length (r # ranked)
      \<and> (r # ranked) ! (do_rank x - rank) = do_ranked x)"
    if "sorted_wrt (<) (map do_rank ys) \<and> (\<forall>x \<in> set ys. Suc rank \<le> do_rank x \<and> do_rank x < Suc rank + length ranked
      \<and> ranked ! (do_rank x - Suc rank) = do_ranked x)" for ys
    using that by (auto simp: nth_Cons' Suc_le_eq)
  show ?case
  proof (cases "deep_skipped C r \<or> \<not> limit \<le> successes \<and> si_contact_coverage C \<and> ''contact_reserved'' \<in> set (rk_reasons r) \<and> contact")
    case True
    then have "deep_attempts C sc responses limit (Suc rank) successes contact ranked w = (w', Inr xs)"
      using Cons.prems(1) by (cases "deep_skipped C r") auto
    from Cons.IH [OF this Cons.prems(2)] show ?thesis using later [of xs] by (auto simp: less_imp_le)
  next
    case tried: False
    show ?thesis
    proof (cases "limit \<le> successes")
      case True
      then show ?thesis using Cons.prems tried by (auto simp: ret_def)
    next
      case False
      obtain w1 x ys where x: "deep_attempt_of C sc responses r w = (w1, Inr x)"
        and xs: "xs = \<lparr>do_rank = rank, do_ranked = r, do_result = x\<rparr> # ys"
        and ys: "(case x of Inl _ \<Rightarrow> deep_attempts C sc responses limit (Suc rank) successes contact ranked
             | Inr _ \<Rightarrow> deep_attempts C sc responses limit (Suc rank) (Suc successes)
                         (contact \<or> rk_type r = Contact_page) ranked) w1 = (w', Inr ys)"
        using Cons.prems(1) tried False
        by (auto simp: andThen_def ret_def split: prod.splits sum.splits)
      have rest: "successes + (if deep_done (hd xs) then 1 else 0) + length (filter deep_done ys) \<le> limit
        \<and> sorted_wrt (<) (map do_rank ys) \<and> (\<forall>x \<in> set ys. Suc rank \<le> do_rank x \<and> do_rank x < Suc rank + length ranked
          \<and> ranked ! (do_rank x - Suc rank) = do_ranked x)"
      proof (cases x)
        case (Inl code)
        then show ?thesis using Cons.IH [of "Suc rank" successes contact w1 ys] ys Cons.prems(2) xs by simp
      next
        case (Inr d)
        then show ?thesis
          using Cons.IH [of "Suc rank" "Suc successes" "contact \<or> rk_type r = Contact_page" w1 ys] ys False xs by simp
      qed
      then show ?thesis using later [of ys] xs by (auto simp: less_imp_le)
    qed
  qed
qed (simp add: ret_def)

lemma final_outcomes_facts:
  assumes "length (filter deep_done xs) \<le> limit"
  shows "length (final_outcomes limit xs) \<le> limit" "set (final_outcomes limit xs) \<subseteq> set xs"
    "{x \<in> set xs. deep_done x} \<subseteq> set (final_outcomes limit xs)"
    "filter deep_done (final_outcomes limit xs) = sort_key do_rank (filter deep_done xs)"
proof -
  have none: "filter deep_done (take n (filter (\<lambda>x. \<not> deep_done x) xs)) = []" for n
    by (auto simp: filter_empty_conv dest: in_set_takeD)
  show "length (final_outcomes limit xs) \<le> limit" using assms by (simp add: final_outcomes_def)
  show "set (final_outcomes limit xs) \<subseteq> set xs" "{x \<in> set xs. deep_done x} \<subseteq> set (final_outcomes limit xs)"
    by (auto simp: final_outcomes_def dest: in_set_takeD)
  show "filter deep_done (final_outcomes limit xs) = sort_key do_rank (filter deep_done xs)"
    by (simp add: final_outcomes_def filter_sort none)
qed

end
