(* ===== verification/Site_Bounds.thy ===== *)
theory Site_Bounds
  imports Site_Laws
begin

text \<open>
  What a crawl keeps: the records and the candidates are under distinct URLs, every candidate is
  a canonical URL of the site that the robots rules allow (or the seed) and waits in the queue,
  and the records stay within the discovery limit and the rest of one batch.
\<close>

definition sources_ok :: "discovery_source list \<Rightarrow> bool" where
  "sources_ok xs \<longleftrightarrow> xs \<noteq> [] \<and> distinct xs"

definition candidate_ok :: "'w collector \<Rightarrow> site_scope \<Rightarrow> robots_policy \<Rightarrow> crawl_candidate \<Rightarrow> bool" where
  "candidate_ok C sc rb c \<longleftrightarrow>
     sources_ok (ca_sources c)
   \<and> (\<exists>base raw. canonicalize_inventory_url (si_urls C) sc base raw = Some (ca_url c))
   \<and> (Seed \<in> set (ca_sources c) \<or> robots_allowed rb (ca_url c))"

definition crawl_ok :: "'w collector \<Rightarrow> site_scope \<Rightarrow> robots_policy \<Rightarrow> crawl \<Rightarrow> bool" where
  "crawl_ok C sc rb cw \<longleftrightarrow>
     distinct (map fst (cw_records cw)) \<and> distinct (map fst (cw_candidates cw))
   \<and> set (map fst (cw_candidates cw)) \<subseteq> set (cw_queue cw)
   \<and> (\<forall>u c. map_of (cw_candidates cw) u = Some c \<longrightarrow> ca_url c = u \<and> candidate_ok C sc rb c)
   \<and> (\<forall>u p. map_of (cw_records cw) u = Some p \<longrightarrow> sources_ok (pg_sources p))"

text \<open>The number of URLs that a crawl knows.\<close>

definition crawl_size :: "crawl \<Rightarrow> nat" where
  "crawl_size cw = length (cw_records cw) + length (cw_candidates cw)"

lemma sources_add_new [simp]: "sources_ok xs \<Longrightarrow> sources_ok (add_new x xs)"
  by (auto simp: sources_ok_def add_new_def)

lemma sources_fold_add_new [simp]: "sources_ok xs \<Longrightarrow> sources_ok (fold add_new ys xs)"
  by (induction ys arbitrary: xs) auto

lemma set_add_new [simp]: "set (add_new x xs) = insert x (set xs)"
  by (auto simp: add_new_def)

lemma crawl_ok_start: "crawl_ok C sc rb (crawl_start limitations)" "crawl_size (crawl_start limitations) = 0"
  by (simp_all add: crawl_ok_def crawl_start_def crawl_size_def)

lemma crawl_ok_views [simp]:
  "crawl_ok C sc rb (cw\<lparr>cw_limitations := x\<rparr>) = crawl_ok C sc rb cw"
  "crawl_size (cw\<lparr>cw_limitations := x\<rparr>) = crawl_size cw"
  "crawl_ok C sc rb (cw\<lparr>cw_contact_urls := us\<rparr>) = crawl_ok C sc rb cw"
  "crawl_size (cw\<lparr>cw_contact_urls := us\<rparr>) = crawl_size cw"
  "crawl_ok C sc rb (cw\<lparr>cw_truncated := t\<rparr>) = crawl_ok C sc rb cw"
  "crawl_size (cw\<lparr>cw_truncated := t\<rparr>) = crawl_size cw"
  by (simp_all add: crawl_ok_def crawl_size_def)

lemma distinct_keys_update [simp]: "distinct (map fst xs) \<Longrightarrow> distinct (map fst (AList.update k v xs))"
  by (rule distinct_update)

lemma keys_update [simp]: "set (map fst (AList.update k v xs)) = insert k (set (map fst xs))"
  using dom_update [of k v xs] by (simp add: image_image)

lemma candidate_ok_again:
  "candidate_ok C sc rb c \<Longrightarrow> candidate_ok C sc rb (seen_again source depth r c)"
  "ca_url (seen_again source depth r c) = ca_url c"
  by (auto simp: candidate_ok_def seen_again_def)

subsection \<open>Candidates\<close>

lemma accept_url_ok:
  assumes "crawl_ok C sc rb cw" "canonicalize_inventory_url (si_urls C) sc base raw = Some url"
    "source = Seed \<or> robots_allowed rb url"
  shows "crawl_ok C sc rb (accept_url limit url source depth r cw)"
    "crawl_size (accept_url limit url source depth r cw) \<le> max (crawl_size cw) limit"
proof -
  consider (known) p where "map_of (cw_records cw) url = Some p"
    | (waiting) c where "map_of (cw_records cw) url = None" "map_of (cw_candidates cw) url = Some c"
    | (fresh) "map_of (cw_records cw) url = None" "map_of (cw_candidates cw) url = None"
    by (cases "map_of (cw_records cw) url"; cases "map_of (cw_candidates cw) url") auto
  then have "crawl_ok C sc rb (accept_url limit url source depth r cw)
    \<and> crawl_size (accept_url limit url source depth r cw) \<le> max (crawl_size cw) limit"
  proof cases
    case (known p)
    then show ?thesis using assms(1)
      by (auto simp: accept_url_def crawl_ok_def crawl_size_def length_update update_conv')
  next
    case (waiting c)
    then have "candidate_ok C sc rb (seen_again source depth r c)" "ca_url (seen_again source depth r c) = url"
      using assms(1) by (auto simp: crawl_ok_def candidate_ok_again simp del: set_map)
    moreover have "url \<in> set (cw_queue cw)"
      using assms(1) waiting(2) by (force simp: crawl_ok_def dest: map_of_SomeD)
    ultimately show ?thesis using assms(1) waiting
      by (auto simp: accept_url_def crawl_ok_def crawl_size_def length_update update_conv' simp del: set_map)
  next
    case fresh
    let ?c = "\<lparr>ca_url = url, ca_sources = [source], ca_depth = depth, ca_prefetched = r\<rparr>"
    have "candidate_ok C sc rb ?c" using assms(2,3) by (auto simp: candidate_ok_def sources_ok_def)
    then show ?thesis using assms(1) fresh
      by (auto simp: accept_url_def crawl_ok_def crawl_size_def length_update update_conv'
          simp del: set_map map_of_eq_Some_iff)
  qed
  then show "crawl_ok C sc rb (accept_url limit url source depth r cw)"
    "crawl_size (accept_url limit url source depth r cw) \<le> max (crawl_size cw) limit" by simp_all
qed

lemma add_candidate_ok:
  assumes "crawl_ok C sc rb cw"
  shows "crawl_ok C sc rb (add_candidate C sc rb limit base r raw source depth cw)"
    "crawl_size (add_candidate C sc rb limit base r raw source depth cw) \<le> max (crawl_size cw) limit"
proof -
  have "crawl_ok C sc rb (add_candidate C sc rb limit base r raw source depth cw)
    \<and> crawl_size (add_candidate C sc rb limit base r raw source depth cw) \<le> max (crawl_size cw) limit"
  proof (cases "canonicalize_inventory_url (si_urls C) sc base raw")
    case None
    then show ?thesis using assms by (simp add: add_candidate_def)
  next
    case (Some url)
    then show ?thesis using assms accept_url_ok [OF assms Some] by (simp add: add_candidate_def)
  qed
  then show "crawl_ok C sc rb (add_candidate C sc rb limit base r raw source depth cw)"
    "crawl_size (add_candidate C sc rb limit base r raw source depth cw) \<le> max (crawl_size cw) limit" by simp_all
qed

lemma fold_candidates_ok:
  "crawl_ok C sc rb cw \<Longrightarrow>
   crawl_ok C sc rb (fold (\<lambda>l. add_candidate C sc rb limit base r l source depth) ls cw)
   \<and> crawl_size (fold (\<lambda>l. add_candidate C sc rb limit base r l source depth) ls cw) \<le> max (crawl_size cw) limit"
proof (induction ls arbitrary: cw)
  case (Cons l ls)
  let ?cw = "add_candidate C sc rb limit base r l source depth cw"
  have "crawl_ok C sc rb ?cw" "crawl_size ?cw \<le> max (crawl_size cw) limit"
    using add_candidate_ok [OF Cons.prems] by simp_all
  moreover from Cons.IH [OF this(1)]
  have "crawl_size (fold (\<lambda>l. add_candidate C sc rb limit base r l source depth) ls ?cw) \<le> max (crawl_size ?cw) limit"
    "crawl_ok C sc rb (fold (\<lambda>l. add_candidate C sc rb limit base r l source depth) ls ?cw)" by simp_all
  ultimately show ?case by (simp add: max_def split: if_splits)
qed simp

lemma add_links_ok:
  "crawl_ok C sc rb cw \<Longrightarrow>
   crawl_ok C sc rb (add_links C sc rb limit p t cw)
   \<and> crawl_size (add_links C sc rb limit p t cw) \<le> max (crawl_size cw) limit"
  by (auto simp: add_links_def fold_candidates_ok split: option.splits)

subsection \<open>A batch\<close>

lemma delete_candidate_ok:
  assumes "distinct (map fst xs)"
  shows "map_of (AList.delete u xs) v = (if v = u then None else map_of xs v)"
    "distinct (map fst (AList.delete u xs))" "set (map fst (AList.delete u xs)) = set (map fst xs) - {u}"
  using assms distinct_delete [OF assms, of u] by (simp_all add: delete_conv' delete_keys set_removeAll del: set_map)

lemma delete_subset: "set (AList.delete u xs) \<subseteq> set xs"
  by (auto simp: AList.delete_eq)

lemma pop_batch_ok:
  assumes "distinct (map fst (cw_candidates cw))" "set (map fst (cw_candidates cw)) \<subseteq> set q"
    "\<forall>u c. map_of (cw_candidates cw) u = Some c \<longrightarrow> ca_url c = u \<and> candidate_ok C sc rb c"
    "list_all (candidate_ok C sc rb) batch"
    "pop_batch coverage n batch q cw = (batch', cw')"
  shows "distinct (map fst (cw_candidates cw')) \<and> set (map fst (cw_candidates cw')) \<subseteq> set (cw_queue cw')
    \<and> (\<forall>u c. map_of (cw_candidates cw') u = Some c \<longrightarrow> ca_url c = u \<and> candidate_ok C sc rb c)
    \<and> list_all (candidate_ok C sc rb) batch'
    \<and> length (cw_candidates cw') + length batch' \<le> length (cw_candidates cw) + length batch"
  using assms
proof (induction q arbitrary: batch cw)
  case (Cons url rest)
  show ?case
  proof (cases "n \<le> length batch")
    case True
    then have "batch' = batch" "cw' = cw\<lparr>cw_queue := url # rest\<rparr>" using Cons.prems(5) by simp_all
    then show ?thesis using Cons.prems(1-4) by (simp del: set_map)
  next
    case False
    show ?thesis
    proof (cases "map_of (cw_candidates cw) url")
      case None
      then have "set (map fst (cw_candidates cw)) \<subseteq> set rest"
        using Cons.prems(2) by (auto simp: map_of_eq_None_iff)
      then show ?thesis using Cons.IH [of cw batch] Cons.prems None False by simp
    next
      case (Some c)
      let ?cw = "cw\<lparr>cw_candidates := AList.delete url (cw_candidates cw)\<rparr>"
      note del = delete_candidate_ok [OF Cons.prems(1), of url]
      let ?batch = "if coverage \<and> cw_contact_success cw \<and> url \<in> set (drop 1 (cw_contact_urls cw))
        then batch else batch @ [c]"
      have "cw_candidates cw \<noteq> []" using Some by auto
      then have len: "length (cw_candidates ?cw) + 1 = length (cw_candidates cw)"
        using length_delete [OF Cons.prems(1), of url] Some by (cases "cw_candidates cw") auto
      have keys: "distinct (map fst (cw_candidates ?cw))" "set (map fst (cw_candidates ?cw)) \<subseteq> set rest"
        using del(2,3) Cons.prems(2) by (auto simp del: set_map)
      have ok: "\<forall>u c. map_of (cw_candidates ?cw) u = Some c \<longrightarrow> ca_url c = u \<and> candidate_ok C sc rb c"
        using Cons.prems(3) del(1) by simp
      have batch: "list_all (candidate_ok C sc rb) ?batch" using Cons.prems(3,4) Some by auto
      have "pop_batch coverage n ?batch rest ?cw = (batch', cw')" using Cons.prems(5) Some False by simp
      from Cons.IH [OF keys ok batch this] have
        "distinct (map fst (cw_candidates cw')) \<and> set (map fst (cw_candidates cw')) \<subseteq> set (cw_queue cw')
         \<and> (\<forall>u c. map_of (cw_candidates cw') u = Some c \<longrightarrow> ca_url c = u \<and> candidate_ok C sc rb c)
         \<and> list_all (candidate_ok C sc rb) batch'
         \<and> length (cw_candidates cw') + length batch' \<le> length (cw_candidates ?cw) + length ?batch" .
      moreover have "length (cw_candidates ?cw) + length ?batch \<le> length (cw_candidates cw) + length batch"
        using len by simp
      ultimately show ?thesis using order_trans by blast
    qed
  qed
qed auto

lemma in_turn_result:
  "in_turn p xs w = (w', Inr ys) \<Longrightarrow>
   length ys = length xs \<and> (\<forall>y \<in> set ys. \<exists>x \<in> set xs. \<exists>v v'. p x v = (v', Inr y))"
proof (induction xs arbitrary: w ys)
  case (Cons x xs)
  obtain w1 y where "p x w = (w1, Inr y)"
    using Cons.prems by (auto simp: andThen_def split: prod.splits sum.splits)
  moreover from this obtain zs where "in_turn p xs w1 = (w', Inr zs)" "ys = y # zs"
    using Cons.prems by (auto simp: andThen_def ret_def split: prod.splits sum.splits)
  ultimately show ?case using Cons.IH [of w1 zs] by auto
qed (simp add: ret_def)

text \<open>A checked candidate is the candidate that was checked.\<close>

lemma check_candidate_of:
  assumes "check_candidate C sc urls c w = (w', Inr k)"
  shows "cc_candidate k = c"
  using assms
  by (auto simp: check_candidate_def handle_def andThen_def reads_result_def ret_def throw_def check_response_def map_sum_Inr
      split: prod.splits sum.splits option.splits if_splits)

lemma process_checked_ok:
  assumes "crawl_ok C sc rb cw" "process_checked C sc rb limit k cw = Inr cw'"
    "candidate_ok C sc rb (cc_candidate k)"
  shows "crawl_ok C sc rb cw' \<and> crawl_size cw' \<le> max (Suc (crawl_size cw)) limit"
proof -
  let ?pending = "pending_alias k cw" and ?url = "chosen_url k"
  define cw1 where "cw1 = (if ?pending = None then cw else cw\<lparr>cw_candidates := AList.delete ?url (cw_candidates cw)\<rparr>)"
  have del: "distinct (map fst (cw_candidates cw))" using assms(1) by (simp add: crawl_ok_def)
  have cw1: "crawl_ok C sc rb cw1" "crawl_size cw1 \<le> crawl_size cw" "cw_records cw1 = cw_records cw"
    using assms(1) delete_candidate_ok [OF del] length_delete [OF del] delete_subset [of ?url "cw_candidates cw"]
    by (auto simp: cw1_def crawl_ok_def crawl_size_def simp del: set_map)
  note unfolded = assms(2) [unfolded process_checked_def Let_def, folded cw1_def]
  show ?thesis
  proof (cases "map_of (cw_records cw1) ?url")
    case (Some p)
    then show ?thesis using unfolded cw1
      by (auto simp: crawl_ok_def crawl_size_def merge_into_def length_update update_conv' simp del: set_map
          split: if_splits)
  next
    case None
    have sources: "sources_ok (merged_sources k ?pending)"
      using assms(3) by (auto simp: merged_sources_def candidate_ok_def split: option.splits)
    obtain q where cw': "cw' = add_links C sc rb limit q (cc_structure k) (keep_record C k ?url q cw1)"
        and q: "pg_sources q = merged_sources k ?pending"
      using unfolded None by (auto split: sum.splits)
    have "crawl_ok C sc rb (keep_record C k ?url q cw1)" "crawl_size (keep_record C k ?url q cw1) = Suc (crawl_size cw1)"
      using cw1 None sources q
      by (auto simp: crawl_ok_def crawl_size_def keep_record_def length_update update_conv' simp del: set_map)
    then show ?thesis
      using add_links_ok [of C sc rb "keep_record C k ?url q cw1" limit q "cc_structure k"] cw1(2)
      unfolding cw' by auto
  qed
qed

lemma process_batch_ok:
  assumes "crawl_ok C sc rb cw" "process_batch C sc rb limit ks cw = Inr cw'"
    "\<forall>k \<in> set ks. candidate_ok C sc rb (cc_candidate k)"
  shows "crawl_ok C sc rb cw' \<and> crawl_size cw' \<le> max (crawl_size cw + length ks) (limit + (length ks - 1))"
  using assms
proof (induction ks arbitrary: cw)
  case (Cons k ks)
  obtain cw1 where cw1: "process_checked C sc rb limit k cw = Inr cw1" "process_batch C sc rb limit ks cw1 = Inr cw'"
    using Cons.prems(2) by (auto split: sum.splits)
  have "crawl_ok C sc rb cw1" "crawl_size cw1 \<le> max (Suc (crawl_size cw)) limit"
    using process_checked_ok [OF Cons.prems(1) cw1(1)] Cons.prems(3) by auto
  then show ?case using Cons.IH [OF _ cw1(2)] Cons.prems(3) by (cases ks) (auto simp: max_def split: if_splits)
qed simp

subsection \<open>The loop\<close>

definition drained :: "'w collector \<Rightarrow> site_scope \<Rightarrow> robots_policy \<Rightarrow> nat \<Rightarrow> crawl \<Rightarrow> crawl \<Rightarrow> bool" where
  "drained C sc rb limit cw cw' \<longleftrightarrow>
     crawl_ok C sc rb cw' \<and> cw_queue cw' = [] \<and> cw_candidates cw' = []
   \<and> length (cw_records cw') \<le> max (crawl_size cw) (limit + (si_batch_size C - 1))"

lemma crawl_round_ok:
  assumes ok: "crawl_ok C sc rb cw"
    and pop: "pop_batch (si_contact_coverage C) n [] (cw_queue cw) cw = (batch, cw1)"
    and check: "in_turn (check_candidate C sc urls) batch w = (w', Inr checked)"
    and batch: "process_batch C sc rb limit checked cw1 = Inr cw2"
  shows "crawl_ok C sc rb cw2 \<and> crawl_size cw2 \<le> max (crawl_size cw) (limit + (n - 1))"
proof -
  note popped = pop_batch_ok [OF _ _ _ _ pop, of C sc rb]
  have records: "cw_records cw1 = cw_records cw"
    using pop_batch_keeps(1) [of "si_contact_coverage C" n "[]" "cw_queue cw" cw] pop by simp
  have cw1: "crawl_ok C sc rb cw1" "crawl_size cw1 + length batch \<le> crawl_size cw" "list_all (candidate_ok C sc rb) batch"
    using popped ok records by (auto simp: crawl_ok_def crawl_size_def)
  have "length batch \<le> n"
    using pop_batch_keeps(3) [of "[]" n "si_contact_coverage C" "cw_queue cw" cw] pop by simp
  moreover have "length checked = length batch" using in_turn_result [OF check] by simp
  moreover have "\<forall>k \<in> set checked. candidate_ok C sc rb (cc_candidate k)"
  proof
    fix k
    assume "k \<in> set checked"
    then obtain c v v' where "c \<in> set batch" "check_candidate C sc urls c v = (v', Inr k)"
      using in_turn_result [OF check] by blast
    then show "candidate_ok C sc rb (cc_candidate k)"
      using check_candidate_of cw1(3) by (metis list_all_iff)
  qed
  ultimately show ?thesis using process_batch_ok [OF cw1(1) batch] cw1(2) by auto
qed

lemma drain_ok:
  "crawl_ok C sc rb cw \<Longrightarrow> drain C sc rb limit cw w = (w', Inr cw') \<Longrightarrow> drained C sc rb limit cw cw'"
proof (induction C sc rb limit cw w rule: drain.induct)
  case (1 C sc rb limit cw w)
  show ?case
  proof (cases "cw_queue cw = []")
    case True
    then show ?thesis using "1.prems" by (auto simp: drain.simps drained_def crawl_ok_def crawl_size_def)
  next
    case queue: False
    have limit: "batch_limit C cw \<noteq> 0" using "1.prems"(2) queue drain.simps [of C sc rb limit cw w] by (cases "batch_limit C cw = 0") simp_all
    obtain batch cw1
      where pop: "pop_batch (si_contact_coverage C) (batch_limit C cw) [] (cw_queue cw) cw = (batch, cw1)"
      by fastforce
    obtain w1 checked cw2
      where check: "in_turn (check_candidate C sc (cw_contact_urls cw)) batch w = (w1, Inr checked)"
        and process: "process_batch C sc rb limit checked cw1 = Inr cw2"
        and rest: "drain C sc rb limit cw2 w1 = (w', Inr cw')"
      using "1.prems"(2) queue limit pop by (auto simp: drain.simps [of C sc rb limit cw w] split: prod.splits sum.splits)
    have cw2: "crawl_ok C sc rb cw2" "crawl_size cw2 \<le> max (crawl_size cw) (limit + (batch_limit C cw - 1))"
      using crawl_round_ok [OF "1.prems"(1) pop check process] by auto
    have "drained C sc rb limit cw2 cw'"
      using "1.IH" [OF queue limit pop [symmetric] check [symmetric] refl process cw2(1) rest] .
    moreover have "batch_limit C cw - 1 \<le> si_batch_size C - 1" by (simp add: batch_limit_def)
    ultimately show ?thesis using cw2(2) by (auto simp: drained_def)
  qed
qed

subsection \<open>The phases\<close>

text \<open>A phase before the loop: it keeps the invariant, and the size within the discovery limit.\<close>

definition in_limit :: "'w collector \<Rightarrow> site_scope \<Rightarrow> robots_policy \<Rightarrow> nat \<Rightarrow> crawl \<Rightarrow> bool" where
  "in_limit C sc rb limit cw \<longleftrightarrow> crawl_ok C sc rb cw \<and> crawl_size cw \<le> limit"

lemma in_limit_views [simp]:
  "in_limit C sc rb limit (cw\<lparr>cw_limitations := x\<rparr>) = in_limit C sc rb limit cw"
  "in_limit C sc rb limit (cw\<lparr>cw_contact_urls := us\<rparr>) = in_limit C sc rb limit cw"
  by (simp_all add: in_limit_def)

lemma in_limit_start: "in_limit C sc rb limit (crawl_start limitations)"
  by (simp add: in_limit_def crawl_ok_start)

lemma in_limit_add: "in_limit C sc rb limit cw \<Longrightarrow> in_limit C sc rb limit (add_candidate C sc rb limit base r raw source depth cw)"
  using add_candidate_ok [of C sc rb cw limit base r raw source depth] by (auto simp: in_limit_def)

lemma in_limit_fold:
  "in_limit C sc rb limit cw \<Longrightarrow> in_limit C sc rb limit (fold (\<lambda>l. add_candidate C sc rb limit base r l source depth) ls cw)"
  by (induction ls arbitrary: cw) (auto intro: in_limit_add)

lemma in_limit_seed: "in_limit C sc rb limit (is_crawl s) \<Longrightarrow> in_limit C sc rb limit (is_crawl (seed_crawl C sc rb limit s))"
  by (simp add: seed_crawl_def Let_def in_limit_fold in_limit_add)

lemma in_limit_start_inventory:
  assumes "start_inventory C sc rb limit deep_limit r w = (w', Inr s)"
  shows "in_limit C sc rb limit (is_crawl s)"
  using assms
  by (auto simp: start_inventory_def andThen_def ret_def start_with_contacts_def Let_def in_limit_start
      split: if_splits prod.splits sum.splits)

lemma in_limit_take_sitemap:
  assumes "in_limit C sc rb limit (is_crawl s)" "take_sitemap C sc rb limit deep_limit source s result = Inr s'"
  shows "in_limit C sc rb limit (is_crawl s')"
  using assms
  by (auto simp: take_sitemap_def use_sitemap_contacts_def map_sum_Inr Let_def intro!: in_limit_fold split: if_splits)

lemma in_limit_sitemap_phase:
  assumes "in_limit C sc rb limit (is_crawl s)" "sitemap_phase C sc rb limit deep_limit source us s w = (w', Inr s')"
  shows "in_limit C sc rb limit (is_crawl s')"
  using assms
  by (auto simp: sitemap_phase_def andThen_def ret_def reads_result_def throw_def intro: in_limit_take_sitemap
      split: if_splits prod.splits sum.splits)

lemma in_limit_sitemap_phases:
  assumes "in_limit C sc rb limit (is_crawl s)" "sitemap_phases C sc rb limit deep_limit s w = (w', Inr s')"
  shows "in_limit C sc rb limit (is_crawl s')"
  using assms
  by (auto simp: sitemap_phases_def andThen_def ret_def Let_def intro: in_limit_sitemap_phase
      split: if_splits prod.splits sum.splits)

lemma firecrawl_phase_ok:
  assumes "drained C sc rb limit cw0 cw" "crawl_size cw0 \<le> limit"
    and "firecrawl_phase C sc rb limit cw w = (w', Inr cw')"
  shows "crawl_ok C sc rb cw' \<and> cw_candidates cw' = []
    \<and> length (cw_records cw') \<le> limit + (si_batch_size C - 1)"
proof (cases "length (cw_records cw) < limit \<and> si_firecrawl C \<noteq> None")
  case False
  then show ?thesis using assms
    by (auto simp: firecrawl_phase_def drained_def ret_def split: if_splits option.splits)
next
  case True
  then obtain site_map where map: "si_firecrawl C = Some site_map" by auto
  have cw: "in_limit C sc rb limit cw" using assms(1) True by (simp add: in_limit_def drained_def crawl_size_def)
  obtain cw1 w1 where start: "in_limit C sc rb limit cw1" and drain: "drain C sc rb limit cw1 w1 = (w', Inr cw')"
    using assms(3) True map cw
    by (auto simp: firecrawl_phase_def andThen_def Let_def split: prod.splits sum.splits option.splits if_splits)
      (metis in_limit_fold in_limit_views(1))+
  have "drained C sc rb limit cw1 cw'" using start by (intro drain_ok [OF _ drain]) (simp add: in_limit_def)
  then show ?thesis using start by (auto simp: drained_def in_limit_def)
qed

lemma crawl_site_ok:
  assumes "crawl_site C sc rb limit deep_limit r w = (w', Inr s)"
  shows "crawl_ok C sc rb (is_crawl s) \<and> cw_candidates (is_crawl s) = []
    \<and> length (cw_records (is_crawl s)) \<le> limit + (si_batch_size C - 1)"
proof -
  obtain s0 s1 w0 w1 w2 cw cw'
    where "start_inventory C sc rb limit deep_limit r w = (w0, Inr s0)"
      and phases: "sitemap_phases C sc rb limit deep_limit (seed_crawl C sc rb limit s0) w0 = (w1, Inr s1)"
      and drain: "drain C sc rb limit (is_crawl s1) w1 = (w2, Inr cw)"
      and map: "firecrawl_phase C sc rb limit cw w2 = (w', Inr cw')" and s: "s = s1\<lparr>is_crawl := cw'\<rparr>"
    using assms by (auto simp: crawl_site_def andThen_def ret_def split: prod.splits sum.splits)
  then have "in_limit C sc rb limit (is_crawl s1)"
    using in_limit_sitemap_phases [OF in_limit_seed [OF in_limit_start_inventory] phases] by simp
  then have "crawl_ok C sc rb (is_crawl s1)" "crawl_size (is_crawl s1) \<le> limit" by (simp_all add: in_limit_def)
  then show ?thesis using firecrawl_phase_ok [OF drain_ok [OF _ drain] _ map] s by simp
qed

subsection \<open>The rounds of the loop\<close>

text \<open>One round of the loop that ends well: a batch is taken, checked and processed.\<close>

inductive drain_round ::
    "'w collector \<Rightarrow> site_scope \<Rightarrow> robots_policy \<Rightarrow> nat \<Rightarrow> crawl \<times> 'w \<Rightarrow> crawl \<times> 'w \<Rightarrow> bool"
  for C :: "'w collector" and sc rb limit
where
  one_round:
    "cw_queue cw \<noteq> [] \<Longrightarrow> batch_limit C cw \<noteq> 0 \<Longrightarrow>
     pop_batch (si_contact_coverage C) (batch_limit C cw) [] (cw_queue cw) cw = (batch, cw1) \<Longrightarrow>
     in_turn (check_candidate C sc (cw_contact_urls cw)) batch w = (w', Inr checked) \<Longrightarrow>
     process_batch C sc rb limit checked cw1 = Inr cw2 \<Longrightarrow>
     drain_round C sc rb limit (cw, w) (cw2, w')"

lemma drain_rounds:
  "(drain_round C sc rb limit)\<^sup>*\<^sup>* x y \<Longrightarrow> drain C sc rb limit (fst x) (snd x) = drain C sc rb limit (fst y) (snd y)"
proof (induction rule: rtranclp_induct)
  case (step y z)
  from step.hyps(2) have "drain C sc rb limit (fst y) (snd y) = drain C sc rb limit (fst z) (snd z)"
    by (cases rule: drain_round.cases) (simp, subst drain.simps, simp)
  then show ?case using step.IH by simp
qed simp

lemma process_batch_append:
  "process_batch C sc rb limit (xs @ ys) cw =
     (case process_batch C sc rb limit xs cw of Inl e \<Rightarrow> Inl e | Inr cw' \<Rightarrow> process_batch C sc rb limit ys cw')"
  by (induction xs arbitrary: cw) (auto split: sum.splits)

end
