(* ===== verification/Site_Properties.thy ===== *)
theory Site_Properties
  imports Site_Example Site_Bounds
begin

text \<open>
  The properties of the site inventory, with their runs on the site in memory. The evaluations
  that several witnesses share are lemmas of their own.
\<close>

subsection \<open>Requests\<close>

text \<open>(C5) Whatever the pages, redirects, sitemaps and the resolver say, every request of an
  inventory goes by http or https to port 80 or 443 of a host that is not blocked, and only to
  addresses that the resolution just before it showed to be global; the log that shows the
  requests changes neither the result nor the final state of the collection.\<close>

theorem inventory_requests_public:
  "list_all (public_target (si_urls C)) (requests_of C q w)
   \<and> snd (collect_inventory C q w) = snd (collect_inventory (logged_collector C) q (w, []))
   \<and> fst (collect_inventory C q w) = fst (fst (collect_inventory (logged_collector C) q (w, [])))"
proof -
  obtain new where "snd (fst (collect_inventory (logged_collector C) q (w, []))) = snd (w, []) @ new"
    "list_all (public_target (si_urls C)) new"
    using traffic_collect [of C q] unfolding sends_only_def by blast
  moreover obtain sent where "collect_inventory (logged_collector C) q (w, [])
      = ((fst (collect_inventory C q w), sent), snd (collect_inventory C q w))"
    using mirrors_collect [of C q] unfolding mirrors_def by blast
  ultimately show ?thesis by (simp add: requests_of_def)
qed

text \<open>(C17) A fetch sends at most one request more than its redirects, all of them to public
  targets within the site; the answer is within the size limit and of an accepted type, and it
  is cut only where a prefix is allowed. No error of the client leaves the fetch as such.\<close>

theorem fetch_bounded:
  assumes "fetch (logged F) sc max_bytes accepted allow_prefix url (w, []) = ((w', requests), r)" "0 \<le> max_bytes"
  shows "length requests \<le> Suc (fe_max_redirects F) \<and> list_all (site_target (fe_lib F) sc) requests
    \<and> (case r of
         Inl e \<Rightarrow> e \<notin> {TimeoutError, HttpTimeoutException, HttpNetworkError, HttpProtocolError}
       | Inr x \<Rightarrow> response_bytes x \<le> max_bytes \<and> (fr_truncated x \<longrightarrow> allow_prefix)
           \<and> (case accepted of None \<Rightarrow> True | Some types \<Rightarrow> media_type_of (fr_content_type x) \<in> set types))"
proof -
  have sent: "length requests \<le> Suc (fe_max_redirects F) \<and> list_all (site_target (fe_lib F) sc) requests"
    using fetch_sends [of F sc max_bytes accepted allow_prefix url] assms(1) unfolding sends_def
    by (metis append_Nil fst_conv snd_conv)
  show ?thesis
  proof (cases r)
    case (Inl e)
    then show ?thesis using sent assms(1)
      by (auto simp: fetch_def handle_def throw_def fetch_error_def split: prod.splits sum.splits exn.splits)
  next
    case (Inr x)
    then have "fetch_hops (logged F) sc max_bytes accepted allow_prefix url (Suc (fe_max_redirects (logged F))) url (w, [])
        = ((w', requests), Inr x)"
      using assms(1) by (auto simp: fetch_def handle_def throw_def split: prod.splits sum.splits)
    from fetch_hops_bounds [OF this assms(2)] show ?thesis using sent Inr by simp
  qed
qed

lemma example_fetch:
  "(case fetch (logged example_fetcher) example_scope 1000 (Some HTML_TYPES) False ''http://a.co/old'' ((), []) of
     ((_, requests), Inr x) \<Rightarrow> map su_request_url requests = [''http://a.co/old'', ''http://a.co/b''] \<and> fr_body x = ''B''
   | _ \<Rightarrow> False)"
  by code_simp

text \<open>A redirect is followed.\<close>

theorem fetch_bounded_witness:
  "\<exists>w requests x. fetch (logged example_fetcher) example_scope 1000 (Some HTML_TYPES) False ''http://a.co/old'' ((), [])
       = ((w, requests), Inr x)
     \<and> length requests = 2 \<and> length requests \<le> Suc (fe_max_redirects example_fetcher)
     \<and> list_all (site_target (fe_lib example_fetcher) example_scope) requests
     \<and> response_bytes x \<le> 1000 \<and> media_type_of (fr_content_type x) \<in> set HTML_TYPES"
proof -
  obtain w requests x where run: "fetch (logged example_fetcher) example_scope 1000 (Some HTML_TYPES) False
      ''http://a.co/old'' ((), []) = ((w, requests), Inr x)"
    and two: "map su_request_url requests = [''http://a.co/old'', ''http://a.co/b'']"
    using example_fetch by (auto split: prod.splits sum.splits)
  have "length requests = 2" using arg_cong [OF two, of length] by simp
  then show ?thesis using fetch_bounded [OF run] run by auto
qed

text \<open>(C38) Requests that wait for the limiter one after the other are at least its interval
  apart: with a clock that runs and a sleep that lasts at least its time, the second of two waits
  ends an interval after the first, whatever time passes in between.\<close>

theorem waits_spaced:
  assumes "honest_clock time clock sleep"
    and "limiter_wait clock sleep (w, l) = ((w1, l1), Inr ())"
    and "limiter_wait clock sleep (w2, l1) = ((w3, l3), Inr ())"
  shows "time w1 + rl_interval l \<le> time w3"
  using limiter_wait_slot [OF assms(1,2)] limiter_wait_slot [OF assms(1,3)] by simp

definition example_sleep :: "rat \<Rightarrow> (rat, unit) program" where
  "example_sleep d = (\<lambda>t. (t + d, Inr ()))"

definition example_clock :: "(rat, rat) program" where
  "example_clock = (\<lambda>t. (t, Inr t))"

theorem waits_spaced_witness:
  "\<exists>l1 l3. limiter_wait example_clock example_sleep (7, \<lparr>rl_interval = 2, rl_next_allowed = 0\<rparr>) = ((7, l1), Inr ())
     \<and> limiter_wait example_clock example_sleep (8, l1) = ((9, l3), Inr ()) \<and> (7 :: rat) + 2 \<le> 9"
proof -
  let ?l = "\<lparr>rl_interval = 2, rl_next_allowed = 0\<rparr>"
  let ?l1 = "\<lparr>rl_interval = 2, rl_next_allowed = 9\<rparr>" and ?l3 = "\<lparr>rl_interval = 2, rl_next_allowed = 11\<rparr>"
  have runs: "limiter_wait example_clock example_sleep (7, ?l) = ((7, ?l1), Inr ())"
    "limiter_wait example_clock example_sleep (8, ?l1) = ((9, ?l3), Inr ())"
    by (simp_all add: limiter_wait_def example_clock_def example_sleep_def andThen_def on_first_def ret_def)
  have "honest_clock (\<lambda>t. t) example_clock example_sleep"
    by (simp add: honest_clock_def example_clock_def example_sleep_def)
  from waits_spaced [OF this runs] show ?thesis using runs by auto
qed

subsection \<open>The crawl\<close>

text \<open>(C6) A crawl ends with no candidate left and its pages under distinct URLs, at most the
  discovery limit and one batch but one page; each page has its sources once each.\<close>

theorem crawl_within_limits:
  assumes "crawl_site C sc rb limit deep_limit r w = (w', Inr s)"
  shows "cw_candidates (is_crawl s) = [] \<and> distinct (map fst (cw_records (is_crawl s)))
    \<and> length (cw_records (is_crawl s)) \<le> limit + (si_batch_size C - 1)
    \<and> list_all (\<lambda>p. pg_sources p \<noteq> [] \<and> distinct (pg_sources p)) (map snd (cw_records (is_crawl s)))"
proof -
  have ok: "crawl_ok C sc rb (is_crawl s)" "cw_candidates (is_crawl s) = []"
    "length (cw_records (is_crawl s)) \<le> limit + (si_batch_size C - 1)"
    using crawl_site_ok [OF assms] by auto
  then have "distinct (map fst (cw_records (is_crawl s)))"
    "\<And>u p. map_of (cw_records (is_crawl s)) u = Some p \<Longrightarrow> sources_ok (pg_sources p)"
    by (auto simp: crawl_ok_def)
  then show ?thesis using ok by (auto simp: list_all_iff sources_ok_def)
qed

definition example_policy :: robots_policy where
  "example_policy = \<lparr>rb_root_url = ''http://a.co/'', rb_rules = Some (sb_robots example_lib ''R''), rb_sitemaps = [],
     rb_crawl_delay = None, rb_limitations = []\<rparr>"

definition example_home :: fetch_response where
  "example_home = \<lparr>fr_requested_url = ''http://a.co/'', fr_final_url = ''http://a.co/'', fr_status_code = 200,
     fr_content_type = ''text/html'', fr_body = ''A'', fr_truncated = False\<rparr>"

lemma example_crawl:
  "(case crawl_site (example_collector 2 False) example_scope example_policy 10 2 example_home () of
      (_, Inr s) \<Rightarrow> map fst (cw_records (is_crawl s)) = [''http://a.co/'', ''http://a.co/b'', ''http://a.co/c'']
    | _ \<Rightarrow> False)"
  by code_simp

theorem crawl_within_limits_witness:
  "\<exists>w s. crawl_site (example_collector 2 False) example_scope example_policy 10 2 example_home () = (w, Inr s)
     \<and> length (cw_records (is_crawl s)) = 3
     \<and> length (cw_records (is_crawl s)) \<le> 10 + (si_batch_size (example_collector 2 False) - 1)
     \<and> cw_candidates (is_crawl s) = [] \<and> distinct (map fst (cw_records (is_crawl s)))"
proof -
  obtain w s where run: "crawl_site (example_collector 2 False) example_scope example_policy 10 2 example_home () = (w, Inr s)"
    and pages: "map fst (cw_records (is_crawl s)) = [''http://a.co/'', ''http://a.co/b'', ''http://a.co/c'']"
    using example_crawl by (auto split: prod.splits sum.splits)
  have "length (cw_records (is_crawl s)) = 3" using arg_cong [OF pages, of length] by simp
  then show ?thesis using crawl_within_limits [OF run] run by blast
qed

text \<open>The candidates of a running batch are in none of the crawl's dicts: a page that an
  earlier page of its batch links to is queued again, and the inventory requests it twice.\<close>

lemma batch_page_requested_twice:
  "map su_request_url (requests_of (example_collector 2 False) example_inventory ())
   = [''http://a.co/'', ''http://a.co/robots.txt'', ''http://a.co/sitemap.xml'',
      ''http://a.co/b'', ''http://a.co/c'', ''http://a.co/c'']"
  by code_simp

definition example_alias :: checked_candidate where
  "example_alias =
     \<lparr>cc_candidate = \<lparr>ca_url = ''http://a.co/b'', ca_sources = [Internal_link], ca_depth = 1, ca_prefetched = None\<rparr>,
      cc_record = \<lparr>pg_url = ''http://a.co/b'', pg_sources = [Internal_link], pg_depth = 1, pg_status = Page_checked,
        pg_status_code = Some 200, pg_final_url = Some ''http://a.co/b'', pg_content_type = Some ''text/html'',
        pg_response_bytes = 1, pg_title = None, pg_h1 = None, pg_canonical_url = Some ''http://a.co/c'',
        pg_meta_robots = [], pg_schema_types = [], pg_internal_links = [], pg_type = Other_page,
        pg_reasons = [''unmatched_path:b''], pg_error = None, pg_v2 = True, pg_truncated = False\<rparr>,
      cc_structure = None, cc_response = None\<rparr>"

text \<open>(C39) With the second version of the page records a canonical alias ends the crawl. Whenever
  the loop has reached a batch with a page that is no seed and whose canonical link names
  another URL that is not kept when the page's turn comes, wherever it stands in the batch, the
  crawl of the site ends with a validation error, as its record is validated again by the first
  version, which forbids the field of the second.\<close>

theorem alias_of_second_version_fails:
  assumes "start_inventory C sc rb limit deep_limit r w = (w1, Inr s)"
    and "sitemap_phases C sc rb limit deep_limit (seed_crawl C sc rb limit s) w1 = (w2, Inr s1)"
    and "(drain_round C sc rb limit)\<^sup>*\<^sup>* (is_crawl s1, w2) (cw, w3)"
    and "cw_queue cw \<noteq> []" "batch_limit C cw \<noteq> 0"
    and "pop_batch (si_contact_coverage C) (batch_limit C cw) [] (cw_queue cw) cw = (batch, cw1)"
    and "in_turn (check_candidate C sc (cw_contact_urls cw)) batch w3 = (w4, Inr (earlier @ k # later))"
    and "process_batch C sc rb limit earlier cw1 = Inr cw2"
    and "pg_v2 (cc_record k)" "Seed \<notin> set (ca_sources (cc_candidate k))"
    and "pg_canonical_url (cc_record k) = Some u" "u \<noteq> pg_url (cc_record k)" "map_of (cw_records cw2) u = None"
  shows "crawl_site C sc rb limit deep_limit r w = (w4, Inl ValidationError)"
proof -
  have "process_checked C sc rb limit k cw2 = Inl ValidationError"
    using assms(9-13) by (simp add: process_checked_def chosen_url_def second_version_forbidden Let_def)
  then have "drain C sc rb limit cw w3 = (w4, Inl ValidationError)"
    using assms(4-8) by (simp add: drain.simps [of C sc rb limit cw w3] process_batch_append)
  then show ?thesis
    using assms(1,2) drain_rounds [OF assms(3)] by (simp add: crawl_site_def andThen_def)
qed

text \<open>A site whose page b declares c as its canonical URL.\<close>

definition alias_collector :: "bool \<Rightarrow> unit collector" where
  "alias_collector resource_limits =
     (example_collector 2 resource_limits)\<lparr>si_lib := example_lib\<lparr>sb_html := example_html\<lparr>hl_events := (\<lambda>html.
        if html = ''A'' then [link_to ''/b'']
        else if html = ''B'' then [Start_tag ''link'' [(''rel'', Some ''canonical''), (''href'', Some ''/c'')]]
        else [])\<rparr>\<rparr>\<rparr>"

definition alias_batch :: "crawl \<Rightarrow> crawl_candidate list \<times> crawl" where
  "alias_batch cw = pop_batch (si_contact_coverage (alias_collector True)) (batch_limit (alias_collector True) cw) []
     (cw_queue cw) cw"

definition alias_checks :: "crawl \<Rightarrow> crawl_candidate list \<Rightarrow> unit \<times> (exn + checked_candidate list)" where
  "alias_checks cw batch = in_turn (check_candidate (alias_collector True) example_scope (cw_contact_urls cw)) batch ()"

definition alias_met :: "crawl \<Rightarrow> bool" where
  "alias_met cw \<longleftrightarrow> cw_queue cw \<noteq> []
     \<and> (case snd (alias_checks cw (fst (alias_batch cw))) of
          Inr (k # ks) \<Rightarrow>
            pg_v2 (cc_record k) \<and> Seed \<notin> set (ca_sources (cc_candidate k))
          \<and> pg_canonical_url (cc_record k) = Some ''http://a.co/c'' \<and> pg_url (cc_record k) = ''http://a.co/b''
          \<and> map_of (cw_records (snd (alias_batch cw))) ''http://a.co/c'' = None
        | _ \<Rightarrow> False)"

definition alias_second :: "crawl \<Rightarrow> bool" where
  "alias_second cw \<longleftrightarrow> cw_queue cw \<noteq> []
     \<and> (case snd (alias_checks cw (fst (alias_batch cw))) of
          Inl _ \<Rightarrow> False
        | Inr checked \<Rightarrow>
            (case process_batch (alias_collector True) example_scope example_policy 10 checked
                    (snd (alias_batch cw)) of
               Inl _ \<Rightarrow> False | Inr cw' \<Rightarrow> alias_met cw'))"

lemma alias_run:
  "(case snd (start_inventory (alias_collector True) example_scope example_policy 10 2 example_home ()) of
      Inl _ \<Rightarrow> False
    | Inr s \<Rightarrow>
        (case snd (sitemap_phases (alias_collector True) example_scope example_policy 10 2
                (seed_crawl (alias_collector True) example_scope example_policy 10 s) ()) of
           Inl _ \<Rightarrow> False | Inr s1 \<Rightarrow> alias_second (is_crawl s1)))"
  by code_simp

lemma alias_metE:
  assumes "alias_met cw"
  obtains k ks where "cw_queue cw \<noteq> []" "alias_checks cw (fst (alias_batch cw)) = ((), Inr (k # ks))"
    "pg_v2 (cc_record k)" "Seed \<notin> set (ca_sources (cc_candidate k))"
    "pg_canonical_url (cc_record k) = Some ''http://a.co/c''" "''http://a.co/c'' \<noteq> pg_url (cc_record k)"
    "map_of (cw_records (snd (alias_batch cw))) ''http://a.co/c'' = None"
proof -
  obtain r where "alias_checks cw (fst (alias_batch cw)) = ((), r)"
    by (cases "alias_checks cw (fst (alias_batch cw))") simp
  then show ?thesis using assms that by (auto simp: alias_met_def split: sum.splits list.splits)
qed

theorem alias_of_second_version_fails_witness:
  "crawl_site (alias_collector True) example_scope example_policy 10 2 example_home () = ((), Inl ValidationError)
   \<and> (case crawl_site (alias_collector False) example_scope example_policy 10 2 example_home () of
        (_, Inr s) \<Rightarrow> map fst (cw_records (is_crawl s)) = [''http://a.co/'', ''http://a.co/c'']
      | (_, Inl _) \<Rightarrow> False)"
proof (rule conjI)
  let ?C = "alias_collector True"
  let ?start = "start_inventory ?C example_scope example_policy 10 2 example_home ()"
  obtain s where s: "?start = ((), Inr s)"
    using alias_run by (cases "snd ?start") (simp_all add: prod_eq_iff)
  let ?phases = "sitemap_phases ?C example_scope example_policy 10 2 (seed_crawl ?C example_scope example_policy 10 s) ()"
  obtain s1 where s1: "?phases = ((), Inr s1)" "alias_second (is_crawl s1)"
    using alias_run s by (cases "snd ?phases") (simp_all add: prod_eq_iff)
  let ?checks = "alias_checks (is_crawl s1) (fst (alias_batch (is_crawl s1)))"
  obtain checked where checked: "?checks = ((), Inr checked)"
    using s1(2) by (cases "snd ?checks") (simp_all add: alias_second_def prod_eq_iff)
  then obtain cw where cw: "process_batch ?C example_scope example_policy 10 checked (snd (alias_batch (is_crawl s1))) = Inr cw"
      "alias_met cw" "cw_queue (is_crawl s1) \<noteq> []"
    using s1(2) by (auto simp: alias_second_def split: sum.splits)
  note run = s s1(1) and first = checked cw(1,3)
  obtain k ks where second: "cw_queue cw \<noteq> []" "alias_checks cw (fst (alias_batch cw)) = ((), Inr (k # ks))"
    and page: "pg_v2 (cc_record k)" "Seed \<notin> set (ca_sources (cc_candidate k))"
      "pg_canonical_url (cc_record k) = Some ''http://a.co/c''" "''http://a.co/c'' \<noteq> pg_url (cc_record k)"
      "map_of (cw_records (snd (alias_batch cw))) ''http://a.co/c'' = None"
    using cw(2) by (rule alias_metE)
  have n: "batch_limit ?C c \<noteq> 0" for c
    by (simp add: batch_limit_def alias_collector_def example_collector_def)
  have round: "(drain_round ?C example_scope example_policy 10)\<^sup>*\<^sup>* (is_crawl s1, ()) (cw, ())"
    using first n by (intro r_into_rtranclp one_round) (auto simp: alias_batch_def alias_checks_def prod_eq_iff)
  show "crawl_site ?C example_scope example_policy 10 2 example_home () = ((), Inl ValidationError)"
    by (rule alias_of_second_version_fails [OF run round second(1) n surjective_pairing
          [of "pop_batch (si_contact_coverage ?C) (batch_limit ?C cw) [] (cw_queue cw) cw"],
          where earlier = "[]" and k = k and later = ks and u = "''http://a.co/c''"])
      (use second page in \<open>simp_all add: alias_batch_def alias_checks_def\<close>)
qed code_simp

text \<open>A page deeper than a hundred links has no valid record, not even a failed one.\<close>

lemma deep_chain_fails:
  assumes "100 < ca_depth c"
  shows "checked_record C c r t classification = Inl ValidationError" "failed_record C c e = Inl ValidationError"
  using assms
  by (auto simp: checked_record_def failed_record_def make_page_def page_record_valid_def Let_def split: option.splits)

text \<open>The pages of a running batch are not counted in the discovery limit either: a crawl with the
  limit 2 requests three pages and notes no truncation.\<close>

definition example_candidate :: "string \<Rightarrow> crawl_candidate" where
  "example_candidate url =
     \<lparr>ca_url = url, ca_sources = [Default_sitemap], ca_depth = 1, ca_prefetched = None\<rparr>"

lemma limit_overrun:
  "(case drain (example_collector 2 False) example_scope example_policy 2
       ((crawl_start [])\<lparr>cw_candidates := map (\<lambda>u. (u, example_candidate u)) [''http://a.co/b'', ''http://a.co/e''],
          cw_queue := [''http://a.co/b'', ''http://a.co/e'']\<rparr>) () of
      (_, Inr cw) \<Rightarrow> map fst (cw_records cw) = [''http://a.co/b'', ''http://a.co/e'', ''http://a.co/c''] \<and> \<not> cw_truncated cw
    | _ \<Rightarrow> False)"
  by code_simp

text \<open>An unsafe redirect of the robots rules is not caught: it ends the collection as such.\<close>

lemma unsafe_robots_redirect:
  assumes "fetch F sc max_bytes None False (site_file sc ''/robots.txt'') w = (w', Inl (UrlSafetyError c m))"
  shows "load_robots F B sc max_bytes w = (w', Inl (UrlSafetyError c m))"
  using assms by (simp add: load_robots_def andThen_def handle_def ret_def throw_def)

subsection \<open>Discovery and selection\<close>

text \<open>(C19) The search of sitemaps reads at most its limit of files and gives distinct pages, at
  most the page limit, each of them a canonical URL of the site that the robots rules allow.\<close>

theorem sitemap_search_bounded:
  assumes "discover_sitemap_urls F B sc rb lm urls w = (w', Inr result)"
  shows "sr_fetched_sitemaps result \<le> sm_max_files lm \<and> distinct (sr_page_urls result)
    \<and> length (sr_page_urls result) \<le> sm_page_limit lm
    \<and> list_all (\<lambda>u. site_page (fe_lib F) sc u \<and> robots_allowed rb u) (sr_page_urls result)"
  using discover_sitemap_ok [OF assms] by simp

definition example_sitemap_lib :: site_lib where
  "example_sitemap_lib = example_lib\<lparr>sb_xml := (\<lambda>_. Some (Xml_element ''{http://x}urlset'' None
     [Xml_element ''loc'' (Some ''/b'') [], Xml_element ''loc'' (Some ''/d'') [], Xml_element ''loc'' (Some ''/c'') []]))\<rparr>"

definition example_sitemap_limits :: sitemap_limits where
  "example_sitemap_limits = \<lparr>sm_max_files = 2, sm_max_depth = 1, sm_max_bytes = 1000,
     sm_max_decompressed_bytes = 1000, sm_page_limit = 5\<rparr>"

lemma example_search:
  "(case discover_sitemap_urls example_fetcher example_sitemap_lib example_scope example_policy example_sitemap_limits
       [''http://a.co/''] () of
      (_, Inr result) \<Rightarrow> sr_page_urls result = [''http://a.co/b'', ''http://a.co/c'']
    | _ \<Rightarrow> False)"
  by code_simp

theorem sitemap_search_bounded_witness:
  "\<exists>w result. discover_sitemap_urls example_fetcher example_sitemap_lib example_scope example_policy
       example_sitemap_limits [''http://a.co/''] () = (w, Inr result)
     \<and> sr_page_urls result = [''http://a.co/b'', ''http://a.co/c'']
     \<and> length (sr_page_urls result) \<le> sm_page_limit example_sitemap_limits
     \<and> list_all (\<lambda>u. site_page (fe_lib example_fetcher) example_scope u \<and> robots_allowed example_policy u)
         (sr_page_urls result)"
proof -
  obtain w result where run: "discover_sitemap_urls example_fetcher example_sitemap_lib example_scope example_policy
      example_sitemap_limits [''http://a.co/''] () = (w, Inr result)"
    and pages: "sr_page_urls result = [''http://a.co/b'', ''http://a.co/c'']"
    using example_search by (auto split: prod.splits sum.splits)
  then show ?thesis using sitemap_search_bounded [OF run] by blast
qed

text \<open>(C20) A URL of the inventory has the scheme and the host of its site, a path of clean
  segments that is not excluded, and its query items in order without keys that are rejected or
  only track.\<close>

theorem canonical_url_form:
  assumes "\<not> contains_host L sc []" "canonicalize_inventory_url L sc base value = Some u"
  shows "\<exists>cs items. u = urlunsplit (sc_scheme sc) (sc_canonical_host sc) (rooted_path cs) (urlencode L items) []
    \<and> list_all clean_segment cs \<and> \<not> path_is_excluded (rooted_path cs)
    \<and> sorted (map (\<lambda>(k, v). (lower k, v)) items)
    \<and> list_all (\<lambda>(k, v). lower k \<notin> set REJECTED_QUERY_KEYS \<and> \<not> tracking_key k) items"
  using canonical_url_parts [OF assms] by (auto simp: list_all_iff)

lemma example_canonical:
  "canonicalize_inventory_url example_urls example_scope None ''//www.a.co:80/x//./y/../Index.html?z=2&utm_a=1&b=1#f''
   = Some ''http://a.co/x?b=1&z=2''"
  by code_simp

theorem canonical_url_form_witness:
  "\<exists>cs items. ''http://a.co/x?b=1&z=2''
       = urlunsplit (sc_scheme example_scope) (sc_canonical_host example_scope) (rooted_path cs)
           (urlencode example_urls items) []
     \<and> list_all clean_segment cs \<and> sorted (map (\<lambda>(k, v). (lower k, v)) items)"
proof -
  have "\<not> contains_host example_urls example_scope []" by code_simp
  from canonical_url_form [OF this example_canonical] show ?thesis by blast
qed

text \<open>A canonical URL need not be its own canonical form: one default document is taken off a time.\<close>

lemma canonical_not_stable:
  "canonicalize_inventory_url example_urls example_scope None ''/index.html/index.html'' = Some ''http://a.co/index.html''"
  "canonicalize_inventory_url example_urls example_scope None ''http://a.co/index.html'' = Some ''http://a.co/''"
  by code_simp+

text \<open>(C18) The pages for the deep analysis are eligible pages of the inventory under distinct
  URLs, within the limit, with a homepage first when one is eligible, and at most the larger of
  two and a fifth of the limit of posts and of products; while there is room, an eligible page
  is left out only for a chosen page of its URL or because its kind is at that cap.\<close>

theorem key_pages_selected:
  fixes log1p service market priorities requested pages
  defines "chosen \<equiv> select_key_pages log1p service market priorities requested pages"
    and "limit \<equiv> selection_limit requested"
  shows "distinct (map rk_url chosen) \<and> length chosen \<le> limit
    \<and> set (map rk_page chosen) \<subseteq> {p \<in> set pages. page_eligible p}
    \<and> (\<forall>t \<in> {Blog_post_page, Product_detail_page}. type_count t chosen \<le> max 2 (limit div 5))
    \<and> (\<forall>p \<in> set pages. page_eligible p \<and> pg_type p = Home_page \<and> 0 < limit \<longrightarrow>
         chosen \<noteq> [] \<and> rk_type (hd chosen) = Home_page)
    \<and> (\<forall>p \<in> set pages. page_eligible p \<and> length chosen < limit \<longrightarrow>
         pg_url p \<in> set (map rk_url chosen)
         \<or> pg_type p \<in> {Blog_post_page, Product_detail_page} \<and> max 2 (limit div 5) \<le> type_count (pg_type p) chosen)"
proof -
  note facts = selected_facts [where log1p = log1p and service = service and market = market and priorities = priorities
      and requested = requested and pages = pages, folded chosen_def limit_def]
  have ok: "distinct (map rk_url chosen)" "length chosen \<le> limit"
    "set chosen \<subseteq> set (rank_pages log1p [service, market] priorities pages)"
    "\<forall>t. blog_like t \<longrightarrow> type_count t chosen \<le> max 2 (limit div 5)"
    using facts(1) by (simp_all add: selection_ok_def)
  have ranked: "rank_page log1p (business_tokens [service, market]) priorities p
      \<in> set (rank_pages log1p [service, market] priorities pages)" if "p \<in> set pages" "page_eligible p" for p
    using that by (auto simp: rank_pages_set)
  have "set (map rk_page chosen) \<subseteq> {p \<in> set pages. page_eligible p}"
    using ok(3) by (auto simp: rank_pages_set dest!: subsetD)
  moreover have "chosen \<noteq> [] \<and> rk_type (hd chosen) = Home_page"
    if "p \<in> set pages" "page_eligible p" "pg_type p = Home_page" "0 < limit" for p
    using facts(3) [OF that(4) ranked [OF that(1,2)]] that(3) by simp
  moreover have "pg_url p \<in> set (map rk_url chosen)
      \<or> pg_type p \<in> {Blog_post_page, Product_detail_page} \<and> max 2 (limit div 5) \<le> type_count (pg_type p) chosen"
    if "p \<in> set pages" "page_eligible p" "length chosen < limit" for p
    using facts(2) [OF that(3) ranked [OF that(1,2)]] by (simp add: capped_count blog_like_def)
  ultimately show ?thesis using ok(1,2,4) by (simp add: blog_like_def)
qed

definition example_pages :: "page_record list" where
  "example_pages =
     (let p = cc_record example_alias
      in [p\<lparr>pg_url := ''http://a.co/blog/x'', pg_type := Blog_post_page\<rparr>,
          p\<lparr>pg_url := ''http://a.co/'', pg_type := Home_page\<rparr>,
          p\<lparr>pg_url := ''http://a.co/gone'', pg_status_code := Some 404\<rparr>])"

lemma example_selection:
  "map rk_url (select_key_pages (\<lambda>x. x) [] [] [] 3 example_pages) = [''http://a.co/'', ''http://a.co/blog/x'']"
  by code_simp

theorem key_pages_selected_witness:
  "distinct (map rk_url (select_key_pages (\<lambda>x. x) [] [] [] 3 example_pages))
   \<and> length (select_key_pages (\<lambda>x. x) [] [] [] 3 example_pages) = 2
   \<and> rk_type (hd (select_key_pages (\<lambda>x. x) [] [] [] 3 example_pages)) = Home_page"
proof -
  let ?chosen = "select_key_pages (\<lambda>x. x) [] [] [] 3 example_pages"
  have "\<exists>p \<in> set example_pages. page_eligible p \<and> pg_type p = Home_page \<and> 0 < selection_limit 3"
    by (simp add: example_pages_def Let_def example_alias_def page_eligible_def selection_limit_def)
  then have "rk_type (hd ?chosen) = Home_page" "distinct (map rk_url ?chosen)"
    using key_pages_selected [of "\<lambda>x. x" "[]" "[]" "[]" 3 example_pages] by blast+
  moreover have "length ?chosen = 2" using arg_cong [OF example_selection, of length] by simp
  ultimately show ?thesis by simp
qed

text \<open>(C21) The deep analysis has at most its limit of pages and keeps every page it analysed; its
  attempts are ranked pages in the order of their ranks, and the limitations say exactly whether
  the candidates ran out and whether a page failed.\<close>

theorem deep_pages_bounded:
  assumes "collect_deep_pages C sc responses limit ranked w = (w', Inr (selected, attempts, limitations))"
  shows "length selected \<le> limit
    \<and> length (filter sl_deep_analyzed selected) = length (filter da_succeeded attempts)
    \<and> sorted_wrt (<) (map da_rank attempts)
    \<and> list_all (\<lambda>a. 1 \<le> da_rank a \<and> da_rank a \<le> int (length ranked)
         \<and> da_url a = rk_url (ranked ! nat (da_rank a - 1))) attempts
    \<and> (''candidate_exhausted'' \<in> set limitations \<longleftrightarrow> length (filter da_succeeded attempts) < limit)
    \<and> (''deep_page_failures_present'' \<in> set limitations \<longleftrightarrow> \<not> list_all da_succeeded attempts)"
proof -
  obtain xs where xs: "deep_attempts C sc responses limit 1 0 False ranked w = (w', Inr xs)"
    and results: "selected = map selected_of (final_outcomes limit xs)"
      "attempts = map (attempt_of (map (\<lambda>x. rk_url (do_ranked x)) (final_outcomes limit xs))) xs"
      "limitations = deep_limitations limit xs"
    using assms
    by (auto simp: collect_deep_pages_def andThen_def reads_result_def deep_results_def ret_def throw_def Let_def
        split: prod.splits sum.splits if_splits)
  note bound = deep_attempts_bound [OF xs]
  have done_fields: "sl_deep_analyzed (selected_of x) = deep_done x" "da_succeeded (attempt_of us x) = deep_done x"
    "da_rank (attempt_of us x) = int (do_rank x)" "da_url (attempt_of us x) = rk_url (do_ranked x)" for x us
    by (simp_all add: selected_of_def attempt_of_def Let_def)
  have counts: "length (filter sl_deep_analyzed selected) = length (filter deep_done xs)"
    "filter da_succeeded attempts = map (attempt_of (map (\<lambda>x. rk_url (do_ranked x)) (final_outcomes limit xs))) (filter deep_done xs)"
    using final_outcomes_facts(4) [of xs limit] bound
    by (simp_all add: results filter_map comp_def done_fields)
  have "sorted_wrt (<) (map da_rank attempts)"
    using bound by (simp add: results comp_def done_fields sorted_wrt_map)
  moreover have "list_all (\<lambda>a. 1 \<le> da_rank a \<and> da_rank a \<le> int (length ranked)
      \<and> da_url a = rk_url (ranked ! nat (da_rank a - 1))) attempts"
    using bound by (auto simp: results list_all_iff done_fields nat_diff_distrib)
  moreover have "length selected \<le> limit" using final_outcomes_facts(1) [of xs limit] bound by (simp add: results)
  ultimately show ?thesis
    using counts by (auto simp: results deep_limitations_def list_all_iff done_fields)
qed

definition example_ranked :: "ranked_page list" where
  "example_ranked = select_key_pages (\<lambda>x. x) [] [] [] 3
     [(cc_record example_alias)\<lparr>pg_url := ''http://a.co/b''\<rparr>, (cc_record example_alias)\<lparr>pg_url := ''http://a.co/x''\<rparr>]"

lemma example_deep:
  "(case collect_deep_pages (example_collector 2 False) example_scope [] 2 example_ranked () of
      (_, Inr (selected, attempts, limitations)) \<Rightarrow>
        map sl_url selected = [''http://a.co/b'', ''http://a.co/x''] \<and> map da_succeeded attempts = [True, False]
    | _ \<Rightarrow> False)"
  by code_simp

theorem deep_pages_bounded_witness:
  "\<exists>w selected attempts limitations.
     collect_deep_pages (example_collector 2 False) example_scope [] 2 example_ranked ()
       = (w, Inr (selected, attempts, limitations))
   \<and> length selected \<le> 2 \<and> map da_succeeded attempts = [True, False]
   \<and> ''candidate_exhausted'' \<in> set limitations \<and> ''deep_page_failures_present'' \<in> set limitations"
proof -
  obtain w selected attempts limitations
    where run: "collect_deep_pages (example_collector 2 False) example_scope [] 2 example_ranked ()
        = (w, Inr (selected, attempts, limitations))"
      and attempts: "map da_succeeded attempts = [True, False]"
    using example_deep by (auto split: prod.splits sum.splits)
  have "length (filter da_succeeded attempts) = length (filter id (map da_succeeded attempts))"
    "list_all da_succeeded attempts = list_all id (map da_succeeded attempts)"
    by (simp_all add: filter_map comp_def list_all_iff)
  then show ?thesis using deep_pages_bounded [OF run] run attempts by auto
qed

end
