(* ===== verification/Spec2Isabelle.thy ===== *)
theory Spec2Isabelle
  imports Store_Properties Ledger_Properties Circuit_Properties Checkpoints Recovery_Properties
    Outbox_Properties Worker_Properties Linearization Discovery_Properties Selection_Properties
    Priority_Properties Store_Types Serp_Properties Serp_Lookup Site_Properties
begin

text \<open>
  \<^bold>\<open>SearchTrust V2.2: the job runtime, market search, site inventory, discovery and action order\<close>

  The backend (src/app) analyses a business in durable jobs. A job is a snapshot in Redis;
  workers lease it, run its stages and write back under the generation they were started
  with; a reconciler delivers its snapshots to the web application and takes over runs whose
  heartbeat stopped. Every call to a paid provider is claimed in a ledger first; the market search
  asks one for the results of the queries of a business at its location, and the site inventory
  crawls its website and chooses the pages to analyse. A discovery
  task finds competitors before a job, the gate links its confirmed outcome to the analysis,
  and a report orders its actions.

  \<^bold>\<open>The model\<close>

  Redis is a parameter, a record of reads and of the atomic execution of commands
  (\<open>Redis_Interface\<close>); the locale \<open>redis_laws\<close> names the documented behaviour that the code
  relies on, and \<open>mem_redis\<close> is one server that has it, on which the witnesses run. An
  operation under WATCH / MULTI / EXEC is a decision over the state its reads see;
  \<open>run_txn\<close> applies it in one step, and \<open>Linearization\<close> proves that the source's loop, with
  other clients between its commands, is that step. An asynchronous function is a
  program (\<open>Effects\<close>): it takes the server's state and returns the new state with a
  result or an exception (\<open>Job_Errors.exn\<close>). A stored text is the value it encodes
  (\<open>Runtime_Values.rval\<close>). HMAC, SHA-256, the canonical JSON text, HTTP clients, ARQ's pool,
  Supabase, the executor of a job and uuid4 are parameters; locales state what is relied
  on, each interpreted on the server in memory. Times are microseconds and integers.

  \<^bold>\<open>The theories, and the files of src/app that they model\<close>

    \<^item> \<open>Prelude\<close>: texts, sorted-set scores, association lists. \<open>Keys\<close>: jobs_v22/keys.py.
      \<open>Job_Errors\<close>: jobs_v22/errors.py. \<open>Url\<close>: urllib.parse as the source uses it.
    \<^item> \<open>Job_Models\<close> (jobs_v22/models.py): the snapshot of a job and its validation.
      \<open>Job_Store\<close> and \<open>Job_Indexes\<close> (jobs_v22/store.py): every operation of DurableJobStore.
      \<open>Store_Laws\<close> gives the cases of each operation and the contract \<open>job_runtime\<close>;
      \<open>Store_Invariant\<close> that every step keeps the indexes exact: a job is active exactly while
      it is open, and awaits a callback exactly while a revision is undelivered; \<open>Job_Lifecycle\<close> the
      abstract life of a job and the proof that each step of the store is a step of it;
      \<open>Store_Properties\<close> and \<open>Store_Types\<close> what follows: fencing, finality, valid results.
    \<^item> \<open>Cost_Models\<close>, \<open>Cost_Counters\<close> (jobs_v22/cost_models.py), \<open>Cost_Ledger\<close>
      (cost_ledger.py): claims, their limits and the counters; \<open>Ledger_Laws\<close> and
      \<open>Ledger_Properties\<close>: limits hold, claims and completions happen once, counters add up.
    \<^item> \<open>Circuit_Breaker\<close>, \<open>Circuit_Properties\<close> (jobs_v22/circuit_breaker.py).
    \<^item> \<open>Checkpoints\<close> (jobs_v22/checkpoints.py): the save, fenced by a generation for a job and
      without one for competitor discovery, and the stage run once.
    \<^item> \<open>Callbacks\<close> (jobs_v22/callbacks.py), \<open>Capability_Terminal\<close> (capability_terminal.py),
      \<open>Reconciler\<close> and \<open>Reconciler_Laws\<close> (reconciler.py, queue.py), \<open>Recovery_Properties\<close>:
      a pass is a run of the store, what becomes of a stale job (\<open>stale_decision\<close>), and a
      recovery is queued only for a job found open and after its delivery.
    \<^item> \<open>Cost_Outbox\<close>, \<open>Outbox_Properties\<close> (jobs_v22/cost_persistence.py).
    \<^item> \<open>Worker\<close>, \<open>Worker_Laws\<close>, \<open>Worker_Properties\<close> (jobs_v22/worker.py, execution of a job
      and its heartbeat): the executor runs only for a job that the worker owns (\<open>owned_run\<close>),
      and a superseded run writes nothing but the ledger.
    \<^item> \<open>Discovery_Models\<close>, \<open>Discovery_Store\<close>, \<open>Discovery_Worker\<close> (competitors_v22/models.py,
      keys.py, store.py, queue.py, runtime.py, reconciler.py, worker.py) with
      \<open>Discovery_Laws\<close>, \<open>Discovery_Runs\<close> and \<open>Discovery_Properties\<close>: the same lifecycle
      without its recovery step, and where a pass of the reconciler ends.
    \<^item> \<open>Selection\<close>, \<open>Selection_Properties\<close> (competitors_v22/market_store.py, selection.py,
      canonical websites of normalization.py).
    \<^item> \<open>Priority\<close>, \<open>Priority_Laws\<close>, \<open>Priority_Properties\<close> (report_v22/capability_priority.py,
      candidate_priority.py, candidate_delivery.py): drawing ends exactly when the
      dependencies are acyclic, and gives the order that \<open>greedy\<close> specifies.

    \<^item> The site inventory. \<open>Url_Safety\<close> (preflight_v22/urls.py): which targets are public.
      \<open>Site_Urls\<close> (collectors/site_inventory_urls.py, site_page_scope.py): canonical URLs.
      \<open>Site_Pages\<close> (site_inventory_models.py): the records and their validation. \<open>Site_Html\<close>
      (site_inventory_html.py): the structure of a page. \<open>Site_Fetch\<close> (site_inventory_fetcher.py):
      redirects, size limits, the rate limiter. \<open>Site_Firecrawl\<close> (site_inventory_firecrawl.py).
      \<open>Site_Discovery\<close> (site_inventory_discovery.py): robots rules and sitemaps. \<open>Site_Select\<close>
      (site_inventory_selection.py, site_contact_coverage.py): the type and rank of a page.
      \<open>Site_Crawl\<close> and \<open>Site_Inventory\<close> (site_inventory.py, site_inventory_prefix.py): the crawl, and
      the whole collection up to its snapshot. The state of a program there is the world behind
      the client, the resolver and the clock. \<open>Site_Traffic\<close> shows where the requests go,
      \<open>Site_Log\<close> that the log which records them changes nothing, \<open>Site_Laws\<close> and \<open>Site_Bounds\<close>
      what selection, sitemaps and the crawl keep; \<open>Site_Properties\<close> what follows, on the site
      of \<open>Site_Example\<close>.
    \<^item> The market search. \<open>Serp_Payload\<close> and \<open>Serp_Collector\<close> (collectors/serp_market.py): what
      is kept of an answer, its normalisation, the snapshot. \<open>Serp_Models\<close>
      (serp_market_models.py) and \<open>Serp_Plan\<close> (serp_market_requests.py): contracts and the plan.
      \<open>Serp_Location\<close>, \<open>Serp_Lookup\<close> (serp_market_location.py): the search point.
      \<open>Serp_Keys\<close> (integrations/serpapi.py): keys and their rotation. \<open>Serp_Provider\<close> and
      \<open>Serp_Stage\<close> (jobs_v22/serp_market_stage.py): the claims of attempts, the search with a
      saved response, the stage. The state of a program there is the server beside the memory
      of the process, which counts the requests sent. \<open>Serp_Laws\<close> accounts requests against
      claims (locale \<open>search_client\<close>, interpreted on the code's search), \<open>Serp_Documents\<close> shows
      that what is saved is read back, \<open>Serp_Claims\<close>, \<open>Serp_Rotation\<close> and \<open>Serp_Properties\<close> what
      follows: three paid requests a call, nothing is paid twice; \<open>Serp_Example\<close> is a run.

  \<^bold>\<open>Bounds\<close>

  Counters are the source's unbounded integers with the bounds of their contracts; identifiers
  are 128-bit words. Loops of the code over finite lists are structural; the drawing loop
  of \<open>Priority\<close> ends because the pending entries decrease, the crawl because every batch makes a
  record below the limit or takes from the queue, the search of sitemaps because every round
  reads a new file or takes from the queue. No property is
  conditional on fuel: \<open>watch_loop\<close> takes the attempts as a list, and a heartbeat the times
  of its rounds. The claim of a search attempt repeats for ever in the source; here the number
  of its rounds is what the timeout of the search leaves it, one round suffices for a worker
  that holds the job, and none does for one that lost it; the timeout turns the cancellation
  of such a claim into a temporary failure of the provider.

  \<^bold>\<open>Not modelled\<close>

  HTTP routes and settings (glue), the stage that checkpoints a site inventory, page rendering and
  Google clients (network), HTML preflight checks, the ranking of competitor candidates
  (floating-point scores), and the catalogues of report findings and copy. Of the site
  inventory, \<open>html.parser\<close>, \<open>robotparser\<close>, gzip, XML, codecs, IDNA, \<open>ipaddress\<close>, percent-coding,
  \<open>log1p\<close> and pydantic's reading of a URL are parameters; the pages of a batch are fetched one
  after the other, and scores are exact rationals. Logging is left out everywhere. Characters are
  the first 256 code points.
\<close>

end
